(* ===== verification/Prelude.thy ===== *)
theory Prelude
  imports Main "HOL-Library.AList"
begin

text \<open>
  Shared vocabulary of the development.
  \<^item> \<open>go_error\<close>: the error values the modelled Go functions return, one constructor per
    message of the source; \<open>ErrLib\<close> carries an error handed back by a library call.
  \<^item> \<open>outcome\<close>: a call that can panic (index out of range, nil dereference, failed type
    assertion) returns \<open>Panics\<close>; every other run is \<open>Returns\<close>.
  \<^item> \<open>gomap\<close>: a Go map that the code iterates is an association list. The list order stands
    for the (unspecified) iteration order, so results that depend on it are stated as sets.
  \<^item> the \<open>named_theorems\<close> collections and the generic lemmas the components share.
\<close>

section \<open>Errors, panics, results\<close>

text \<open>The messages by component, and the messages that wrap the error of another call.\<close>

datatype (plugins only: code) store_error =
    StoreCursorNotFound                 \<comment> \<open>CursorCache.Get\<close>
  | StoreCursorOwner string             \<comment> \<open>CursorCache.Get, Release: not the caller's cursor\<close>
  | StoreKeyNotFound string             \<comment> \<open>BoltBucket.Get\<close>
  | StoreBucketGone string              \<comment> \<open>BoltBucket.Cursor\<close>
  | StoreMissingAddress string          \<comment> \<open>AddHistory.validateValue\<close>
  | StoreMissingName string string      \<comment> \<open>AddHistory.validateValue\<close>
  | StoreNoProps string                 \<comment> \<open>LatestPropertiesStore.SaveChanges\<close>
  | StoreMissingIDs string              \<comment> \<open>ReadHistoryService.GetCursor\<close>
  | StoreTDNotFound string string       \<comment> \<open>ReadDirectoryService.GetTD\<close>
  | StoreUnmarshal                      \<comment> \<open>a failed json.Unmarshal\<close>

datatype (plugins only: code) auth_error =
    AuthRequestNotFound string          \<comment> \<open>ManageIdProvService: no such request\<close>
  | AuthPubKeyMismatch string           \<comment> \<open>ManageIdProvService.SubmitRequest\<close>
  | AuthMacMismatch string              \<comment> \<open>ManageIdProvService.SubmitRequest\<close>
  | AuthNoPubKey string                 \<comment> \<open>ManageIdProvService.SubmitRequest\<close>
  | AuthClientIDMissing                 \<comment> \<open>AuthnFileStore.Add\<close>
  | AuthClientType string               \<comment> \<open>AuthnFileStore.Add\<close>
  | AuthClientUnknown string            \<comment> \<open>AuthnFileStore: clientID does not exist\<close>
  | AuthProfileMismatch string string   \<comment> \<open>AuthnFileStore.Update\<close>
  | AuthPasswordTooShort nat            \<comment> \<open>AuthnFileStore.SetPassword\<close>
  | AuthInvalidLogin string             \<comment> \<open>AuthnFileStore.VerifyPassword\<close>
  | AuthAlreadyOpen string              \<comment> \<open>AuthnFileStore.Open\<close>
  | AuthMissingID                       \<comment> \<open>AddDevice, AddService, AddUser\<close>
  | AuthNotAService string string       \<comment> \<open>SetServicePermissions\<close>
  | AuthTokenNeedsKey string            \<comment> \<open>NatsMsgServer.CreateToken\<close>
  | AuthInvalidAuthInfo                 \<comment> \<open>NatsMsgServer.CreateJWTToken\<close>
  | AuthInvalidToken string             \<comment> \<open>NatsMsgServer.ValidateToken\<close>
  | AuthTokenDecode                     \<comment> \<open>ValidateJWTToken: unable to decode\<close>
  | AuthKeyNotOnFile                    \<comment> \<open>ValidateJWTToken, ValidateNKey\<close>
  | AuthSignature                       \<comment> \<open>ValidateJWTToken: signature not verified\<close>
  | AuthIssuer                          \<comment> \<open>ValidateJWTToken: issuer is not known\<close>
  | AuthTokenClient                     \<comment> \<open>ValidateJWTToken: clientID doesn't match user\<close>
  | AuthBase64                          \<comment> \<open>ValidateJWTToken: signature not valid base64\<close>
  | AuthNKey                            \<comment> \<open>ValidateNKey: user nkey not valid\<close>
  | AuthPassword string                 \<comment> \<open>NatsMsgServer.ValidatePassword\<close>

datatype (plugins only: code) key_error =
    KeyKeyFormat                       \<comment> \<open>keys: unknown key format\<close>
  | KeyNotKeyType string               \<comment> \<open>keys: not a key of this type\<close>
  | KeyCertsDir                        \<comment> \<open>HubClient.LoadCreateKeyPair: no keys directory\<close>
  | KeyNoAuthKey string                \<comment> \<open>NatsTransport.ConnectWithKey\<close>
  | KeyMissingClientID                 \<comment> \<open>ConnectToHub\<close>
  | KeyMissingCertArg                  \<comment> \<open>CreateServerCert, createClientCert, _createServiceCert\<close>
  | KeyNoCommonName                    \<comment> \<open>certs.VerifyCert\<close>
  | KeyCertClient string string        \<comment> \<open>CertsService.VerifyCert: other common name\<close>
  | KeyHomeDir string                         \<comment> \<open>HubCoreConfig.setupDirectories: not a home directory\<close>
  | KeyBearerToken                     \<comment> \<open>GetBearerToken\<close>
  | KeyNoClientCert                    \<comment> \<open>TLSClient.ConnectWithClientCert\<close>
  | KeyNotStarted string               \<comment> \<open>TLSClient.Invoke\<close>
  | KeyHttpStatus nat string           \<comment> \<open>TLSClient.Invoke: the status of the response\<close>
  | KeyInvalidJWT string               \<comment> \<open>JWTAuthenticator\<close>

datatype (plugins only: code) hub_error =
    HubIncompleteAddress                \<comment> \<open>SplitAddress, SplitSubject\<close>
  | HubUnknownCapability string         \<comment> \<open>SetRPCCapability handler\<close>
  | HubUnknownMethod string string      \<comment> \<open>SetRPCCapability handler\<close>
  | HubMissingEventID                   \<comment> \<open>HubClient.PubEvent\<close>
  | HubMissingMethod                    \<comment> \<open>HubClient.PubRPCRequest\<close>
  | HubMissingThingID                   \<comment> \<open>HubClient.PubTD\<close>
  | HubUnexpectedResponse               \<comment> \<open>NatsTransport.ParseResponse\<close>
  | HubTooManyResults                   \<comment> \<open>HandleRequestMessage\<close>
  | HubPluginNotFound string            \<comment> \<open>LauncherService\<close>
  | HubPluginExists string              \<comment> \<open>LauncherService: a process already exists\<close>
  | HubCoreNotFound string              \<comment> \<open>LauncherService.addCore\<close>
  | HubNoSessionCookie                  \<comment> \<open>GetSessionCookie\<close>
  | HubInvalidCookie                    \<comment> \<open>GetSessionCookie\<close>
  | HubMissingSessionID                 \<comment> \<open>SessionManager.GetSession\<close>
  | HubSessionNotFound string           \<comment> \<open>SessionManager.GetSession\<close>
  | HubSessionClosed                    \<comment> \<open>SessionManager.Close\<close>
  | HubNoSessionInContext               \<comment> \<open>GetSessionFromContext\<close>
  | HubTemplateNotFound string          \<comment> \<open>TemplateManager.GetTemplate\<close>

datatype (plugins only: code) wrap_msg =
    WrapNewCursor                       \<comment> \<open>BoltBucket.Cursor, wraps the Begin error\<close>
  | WrapPutKey string string            \<comment> \<open>BoltBucket.SetMultiple, wraps the Put error\<close>
  | WrapStoreOpen                       \<comment> \<open>AuthnFileStore.Open, wraps the cause\<close>
  | WrapSaveTemp                        \<comment> \<open>AuthnFileStore.save: writing to temp failed\<close>
  | WrapSaveRename                      \<comment> \<open>AuthnFileStore.save: rename failed\<close>
  | WrapTempFile                        \<comment> \<open>WritePasswordsToTempFile\<close>
  | WrapReadPasswords                   \<comment> \<open>AuthnFileStore.Reload\<close>
  | WrapParsePasswords                  \<comment> \<open>AuthnFileStore.Reload\<close>
  | WrapUserAddedBut string             \<comment> \<open>AddUser: user added, but the password was not set\<close>
  | WrapUnmarshalRequest                \<comment> \<open>HandleRequestMessage: failed unmarshal request\<close>
  | WrapPluginStart string              \<comment> \<open>LauncherService: the command did not start\<close>
  | WrapTokenFile                       \<comment> \<open>HubClient.ConnectWithTokenFile\<close>
  | WrapOpenStore string                \<comment> \<open>BoltStore.Open, wraps the cause\<close>
  | WrapNoSession                       \<comment> \<open>AddSessionToContext, wraps the cause\<close>
  | WrapHomeDirCreate string            \<comment> \<open>HubCoreConfig.setupDirectories\<close>
  | WrapLoadConfig                      \<comment> \<open>HubCoreConfig.Setup, AppEnvironment.LoadConfig\<close>
  | WrapParseConfig                     \<comment> \<open>HubCoreConfig.Setup\<close>
  | WrapAppAccountKey                   \<comment> \<open>NatsServerConfig.Setup\<close>
  | WrapCertVerify                      \<comment> \<open>TLSClient.ConnectWithClientCert\<close>
  | WrapInvoke string string            \<comment> \<open>TLSClient.Invoke\<close>
  | WrapJWTLogin string                 \<comment> \<open>TLSClient.ConnectWithJWTLogin\<close>
  | WrapJWTRefresh string               \<comment> \<open>TLSClient.RefreshJWTTokens\<close>
  | WrapAuthSetup                       \<comment> \<open>AuthService.Start: failed to set up the service\<close>
  | WrapCertPubKey string               \<comment> \<open>CreateDeviceCert, wraps the cause\<close>
  | WrapCloneTemplate                   \<comment> \<open>TemplateManager.GetTemplate\<close>

datatype (plugins only: code) go_error =
    ErrLib string                       \<comment> \<open>an error value of a library call, by its text\<close>
  | StoreErr store_error
  | AuthErr auth_error
  | KeyErr key_error
  | HubErr hub_error
  | Wrapped wrap_msg go_error

abbreviation ErrCursorNotFound :: "go_error" where "ErrCursorNotFound \<equiv> StoreErr StoreCursorNotFound"
abbreviation ErrCursorOwner :: "string \<Rightarrow> go_error" where "ErrCursorOwner s \<equiv> StoreErr (StoreCursorOwner s)"
abbreviation ErrKeyNotFound :: "string \<Rightarrow> go_error" where "ErrKeyNotFound s \<equiv> StoreErr (StoreKeyNotFound s)"
abbreviation ErrBucketGone :: "string \<Rightarrow> go_error" where "ErrBucketGone s \<equiv> StoreErr (StoreBucketGone s)"
abbreviation ErrMissingAddress :: "string \<Rightarrow> go_error" where "ErrMissingAddress s \<equiv> StoreErr (StoreMissingAddress s)"
abbreviation ErrMissingName :: "string \<Rightarrow> string \<Rightarrow> go_error" where "ErrMissingName s t \<equiv> StoreErr (StoreMissingName s t)"
abbreviation ErrNoProps :: "string \<Rightarrow> go_error" where "ErrNoProps s \<equiv> StoreErr (StoreNoProps s)"
abbreviation ErrMissingIDs :: "string \<Rightarrow> go_error" where "ErrMissingIDs s \<equiv> StoreErr (StoreMissingIDs s)"
abbreviation ErrTDNotFound :: "string \<Rightarrow> string \<Rightarrow> go_error" where "ErrTDNotFound s t \<equiv> StoreErr (StoreTDNotFound s t)"
abbreviation ErrUnmarshal :: "go_error" where "ErrUnmarshal \<equiv> StoreErr StoreUnmarshal"
abbreviation ErrRequestNotFound :: "string \<Rightarrow> go_error" where "ErrRequestNotFound s \<equiv> AuthErr (AuthRequestNotFound s)"
abbreviation ErrPubKeyMismatch :: "string \<Rightarrow> go_error" where "ErrPubKeyMismatch s \<equiv> AuthErr (AuthPubKeyMismatch s)"
abbreviation ErrMacMismatch :: "string \<Rightarrow> go_error" where "ErrMacMismatch s \<equiv> AuthErr (AuthMacMismatch s)"
abbreviation ErrNoPubKey :: "string \<Rightarrow> go_error" where "ErrNoPubKey s \<equiv> AuthErr (AuthNoPubKey s)"
abbreviation ErrClientIDMissing :: "go_error" where "ErrClientIDMissing \<equiv> AuthErr AuthClientIDMissing"
abbreviation ErrClientType :: "string \<Rightarrow> go_error" where "ErrClientType s \<equiv> AuthErr (AuthClientType s)"
abbreviation ErrClientUnknown :: "string \<Rightarrow> go_error" where "ErrClientUnknown s \<equiv> AuthErr (AuthClientUnknown s)"
abbreviation ErrProfileMismatch :: "string \<Rightarrow> string \<Rightarrow> go_error" where "ErrProfileMismatch s t \<equiv> AuthErr (AuthProfileMismatch s t)"
abbreviation ErrPasswordTooShort :: "nat \<Rightarrow> go_error" where "ErrPasswordTooShort s \<equiv> AuthErr (AuthPasswordTooShort s)"
abbreviation ErrInvalidLogin :: "string \<Rightarrow> go_error" where "ErrInvalidLogin s \<equiv> AuthErr (AuthInvalidLogin s)"
abbreviation ErrAlreadyOpen :: "string \<Rightarrow> go_error" where "ErrAlreadyOpen s \<equiv> AuthErr (AuthAlreadyOpen s)"
abbreviation ErrMissingID :: "go_error" where "ErrMissingID \<equiv> AuthErr AuthMissingID"
abbreviation ErrNotAService :: "string \<Rightarrow> string \<Rightarrow> go_error" where "ErrNotAService s t \<equiv> AuthErr (AuthNotAService s t)"
abbreviation ErrTokenNeedsKey :: "string \<Rightarrow> go_error" where "ErrTokenNeedsKey s \<equiv> AuthErr (AuthTokenNeedsKey s)"
abbreviation ErrInvalidAuthInfo :: "go_error" where "ErrInvalidAuthInfo \<equiv> AuthErr AuthInvalidAuthInfo"
abbreviation ErrInvalidToken :: "string \<Rightarrow> go_error" where "ErrInvalidToken s \<equiv> AuthErr (AuthInvalidToken s)"
abbreviation ErrTokenDecode :: "go_error" where "ErrTokenDecode \<equiv> AuthErr AuthTokenDecode"
abbreviation ErrKeyNotOnFile :: "go_error" where "ErrKeyNotOnFile \<equiv> AuthErr AuthKeyNotOnFile"
abbreviation ErrSignature :: "go_error" where "ErrSignature \<equiv> AuthErr AuthSignature"
abbreviation ErrIssuer :: "go_error" where "ErrIssuer \<equiv> AuthErr AuthIssuer"
abbreviation ErrTokenClient :: "go_error" where "ErrTokenClient \<equiv> AuthErr AuthTokenClient"
abbreviation ErrBase64 :: "go_error" where "ErrBase64 \<equiv> AuthErr AuthBase64"
abbreviation ErrNKey :: "go_error" where "ErrNKey \<equiv> AuthErr AuthNKey"
abbreviation ErrPassword :: "string \<Rightarrow> go_error" where "ErrPassword s \<equiv> AuthErr (AuthPassword s)"
abbreviation ErrKeyFormat :: "go_error" where "ErrKeyFormat \<equiv> KeyErr KeyKeyFormat"
abbreviation ErrNotKeyType :: "string \<Rightarrow> go_error" where "ErrNotKeyType s \<equiv> KeyErr (KeyNotKeyType s)"
abbreviation ErrCertsDir :: "go_error" where "ErrCertsDir \<equiv> KeyErr KeyCertsDir"
abbreviation ErrNoAuthKey :: "string \<Rightarrow> go_error" where "ErrNoAuthKey s \<equiv> KeyErr (KeyNoAuthKey s)"
abbreviation ErrMissingClientID :: "go_error" where "ErrMissingClientID \<equiv> KeyErr KeyMissingClientID"
abbreviation ErrMissingCertArg :: "go_error" where "ErrMissingCertArg \<equiv> KeyErr KeyMissingCertArg"
abbreviation ErrNoCommonName :: "go_error" where "ErrNoCommonName \<equiv> KeyErr KeyNoCommonName"
abbreviation ErrCertClient :: "string \<Rightarrow> string \<Rightarrow> go_error" where "ErrCertClient s t \<equiv> KeyErr (KeyCertClient s t)"
abbreviation ErrHomeDir :: "string \<Rightarrow> go_error" where "ErrHomeDir s \<equiv> KeyErr (KeyHomeDir s)"
abbreviation ErrBearerToken :: "go_error" where "ErrBearerToken \<equiv> KeyErr KeyBearerToken"
abbreviation ErrNoClientCert :: "go_error" where "ErrNoClientCert \<equiv> KeyErr KeyNoClientCert"
abbreviation ErrNotStarted :: "string \<Rightarrow> go_error" where "ErrNotStarted s \<equiv> KeyErr (KeyNotStarted s)"
abbreviation ErrHttpStatus :: "nat \<Rightarrow> string \<Rightarrow> go_error" where "ErrHttpStatus n s \<equiv> KeyErr (KeyHttpStatus n s)"
abbreviation ErrInvalidJWT :: "string \<Rightarrow> go_error" where "ErrInvalidJWT s \<equiv> KeyErr (KeyInvalidJWT s)"
abbreviation ErrIncompleteAddress :: "go_error" where "ErrIncompleteAddress \<equiv> HubErr HubIncompleteAddress"
abbreviation ErrUnknownCapability :: "string \<Rightarrow> go_error" where "ErrUnknownCapability s \<equiv> HubErr (HubUnknownCapability s)"
abbreviation ErrUnknownMethod :: "string \<Rightarrow> string \<Rightarrow> go_error" where "ErrUnknownMethod s t \<equiv> HubErr (HubUnknownMethod s t)"
abbreviation ErrMissingEventID :: "go_error" where "ErrMissingEventID \<equiv> HubErr HubMissingEventID"
abbreviation ErrMissingMethod :: "go_error" where "ErrMissingMethod \<equiv> HubErr HubMissingMethod"
abbreviation ErrMissingThingID :: "go_error" where "ErrMissingThingID \<equiv> HubErr HubMissingThingID"
abbreviation ErrUnexpectedResponse :: "go_error" where "ErrUnexpectedResponse \<equiv> HubErr HubUnexpectedResponse"
abbreviation ErrTooManyResults :: "go_error" where "ErrTooManyResults \<equiv> HubErr HubTooManyResults"
abbreviation ErrPluginNotFound :: "string \<Rightarrow> go_error" where "ErrPluginNotFound s \<equiv> HubErr (HubPluginNotFound s)"
abbreviation ErrPluginExists :: "string \<Rightarrow> go_error" where "ErrPluginExists s \<equiv> HubErr (HubPluginExists s)"
abbreviation ErrCoreNotFound :: "string \<Rightarrow> go_error" where "ErrCoreNotFound s \<equiv> HubErr (HubCoreNotFound s)"
abbreviation ErrNoSessionCookie :: "go_error" where "ErrNoSessionCookie \<equiv> HubErr HubNoSessionCookie"
abbreviation ErrInvalidCookie :: "go_error" where "ErrInvalidCookie \<equiv> HubErr HubInvalidCookie"
abbreviation ErrMissingSessionID :: "go_error" where "ErrMissingSessionID \<equiv> HubErr HubMissingSessionID"
abbreviation ErrSessionNotFound :: "string \<Rightarrow> go_error" where "ErrSessionNotFound s \<equiv> HubErr (HubSessionNotFound s)"
abbreviation ErrSessionClosed :: "go_error" where "ErrSessionClosed \<equiv> HubErr HubSessionClosed"
abbreviation ErrNoSessionInContext :: "go_error" where "ErrNoSessionInContext \<equiv> HubErr HubNoSessionInContext"
abbreviation ErrTemplateNotFound :: "string \<Rightarrow> go_error" where "ErrTemplateNotFound s \<equiv> HubErr (HubTemplateNotFound s)"
abbreviation ErrCloneTemplate :: "go_error \<Rightarrow> go_error" where "ErrCloneTemplate e \<equiv> Wrapped WrapCloneTemplate e"

abbreviation ErrNewCursor :: "go_error \<Rightarrow> go_error" where "ErrNewCursor e \<equiv> Wrapped WrapNewCursor e"
abbreviation ErrPutKey :: "string \<Rightarrow> string \<Rightarrow> go_error \<Rightarrow> go_error" where "ErrPutKey s t e \<equiv> Wrapped (WrapPutKey s t) e"
abbreviation ErrStoreOpen :: "go_error \<Rightarrow> go_error" where "ErrStoreOpen e \<equiv> Wrapped WrapStoreOpen e"
abbreviation ErrSaveTemp :: "go_error \<Rightarrow> go_error" where "ErrSaveTemp e \<equiv> Wrapped WrapSaveTemp e"
abbreviation ErrSaveRename :: "go_error \<Rightarrow> go_error" where "ErrSaveRename e \<equiv> Wrapped WrapSaveRename e"
abbreviation ErrTempFile :: "go_error \<Rightarrow> go_error" where "ErrTempFile e \<equiv> Wrapped WrapTempFile e"
abbreviation ErrReadPasswords :: "go_error \<Rightarrow> go_error" where "ErrReadPasswords e \<equiv> Wrapped WrapReadPasswords e"
abbreviation ErrParsePasswords :: "go_error \<Rightarrow> go_error" where "ErrParsePasswords e \<equiv> Wrapped WrapParsePasswords e"
abbreviation ErrUserAddedBut :: "string \<Rightarrow> go_error \<Rightarrow> go_error" where "ErrUserAddedBut s e \<equiv> Wrapped (WrapUserAddedBut s) e"
abbreviation ErrUnmarshalRequest :: "go_error \<Rightarrow> go_error" where "ErrUnmarshalRequest e \<equiv> Wrapped WrapUnmarshalRequest e"
abbreviation ErrPluginStart :: "string \<Rightarrow> go_error \<Rightarrow> go_error" where "ErrPluginStart s e \<equiv> Wrapped (WrapPluginStart s) e"
abbreviation ErrTokenFile :: "go_error \<Rightarrow> go_error" where "ErrTokenFile e \<equiv> Wrapped WrapTokenFile e"
abbreviation ErrOpenStore :: "string \<Rightarrow> go_error \<Rightarrow> go_error" where "ErrOpenStore s e \<equiv> Wrapped (WrapOpenStore s) e"
abbreviation ErrNoSession :: "go_error \<Rightarrow> go_error" where "ErrNoSession e \<equiv> Wrapped WrapNoSession e"
abbreviation ErrHomeDirCreate :: "string \<Rightarrow> go_error \<Rightarrow> go_error" where "ErrHomeDirCreate s e \<equiv> Wrapped (WrapHomeDirCreate s) e"
abbreviation ErrLoadConfig :: "go_error \<Rightarrow> go_error" where "ErrLoadConfig e \<equiv> Wrapped WrapLoadConfig e"
abbreviation ErrParseConfig :: "go_error \<Rightarrow> go_error" where "ErrParseConfig e \<equiv> Wrapped WrapParseConfig e"
abbreviation ErrAppAccountKey :: "go_error \<Rightarrow> go_error" where "ErrAppAccountKey e \<equiv> Wrapped WrapAppAccountKey e"
abbreviation ErrCertVerify :: "go_error \<Rightarrow> go_error" where "ErrCertVerify e \<equiv> Wrapped WrapCertVerify e"
abbreviation ErrInvoke :: "string \<Rightarrow> string \<Rightarrow> go_error \<Rightarrow> go_error" where "ErrInvoke s t e \<equiv> Wrapped (WrapInvoke s t) e"
abbreviation ErrJWTLogin :: "string \<Rightarrow> go_error \<Rightarrow> go_error" where "ErrJWTLogin s e \<equiv> Wrapped (WrapJWTLogin s) e"
abbreviation ErrJWTRefresh :: "string \<Rightarrow> go_error \<Rightarrow> go_error" where "ErrJWTRefresh s e \<equiv> Wrapped (WrapJWTRefresh s) e"
abbreviation ErrAuthSetup :: "go_error \<Rightarrow> go_error" where "ErrAuthSetup e \<equiv> Wrapped WrapAuthSetup e"
abbreviation ErrCertPubKey :: "string \<Rightarrow> go_error \<Rightarrow> go_error" where "ErrCertPubKey s e \<equiv> Wrapped (WrapCertPubKey s) e"

datatype gopanic = IndexOutOfRange | NilDereference | TypeAssertion | CapOutOfRange | NilMapWrite
  | ExplicitPanic    \<comment> \<open>a call of panic in the source\<close>
  | FatalExit        \<comment> \<open>log.Fatalf: the process exits\<close>
  | ClosedChannel    \<comment> \<open>send on, or close of, a closed channel\<close>
  | NoReturn         \<comment> \<open>a handler that loops for ever, which its caller sees like a panic\<close>

datatype 'a outcome = Returns 'a | Panics gopanic

fun and_then :: "'a outcome \<Rightarrow> ('a \<Rightarrow> 'b outcome) \<Rightarrow> 'b outcome" where
  "and_then (Returns x) f = f x"
| "and_then (Panics p) f = Panics p"

lemma and_then_Returns_iff [simp]:
  "and_then m f = Returns y \<longleftrightarrow> (\<exists>x. m = Returns x \<and> f x = Returns y)"
  by (cases m) auto

lemma surjective3: "p = (fst p, fst (snd p), snd (snd p))"
  by simp

section \<open>Go maps that are iterated\<close>

type_synonym ('k, 'v) gomap = "('k \<times> 'v) list"

abbreviation mget :: "('k, 'v) gomap \<Rightarrow> 'k \<Rightarrow> 'v option" where
  "mget m k \<equiv> map_of m k"

abbreviation mput :: "'k \<Rightarrow> 'v \<Rightarrow> ('k, 'v) gomap \<Rightarrow> ('k, 'v) gomap" where
  "mput k v m \<equiv> AList.update k v m"

abbreviation mdel :: "'k \<Rightarrow> ('k, 'v) gomap \<Rightarrow> ('k, 'v) gomap" where
  "mdel k m \<equiv> AList.delete k m"

text \<open>A Go map holds one value per key.\<close>

definition wf_map :: "('k, 'v) gomap \<Rightarrow> bool" where
  "wf_map m \<longleftrightarrow> distinct (map fst m)"

named_theorems gomap_simps
named_theorems wf_intros

lemma mget_mput [gomap_simps]: "mget (mput k v m) k' = (if k' = k then Some v else mget m k')"
  by (simp add: update_conv')

lemma mget_mdel [gomap_simps]: "mget (mdel k m) k' = (if k' = k then None else mget m k')"
  by (simp add: delete_conv')

lemma map_of_mput [gomap_simps]: "map_of (mput k v m) = (map_of m)(k \<mapsto> v)"
  by (rule update_conv')

lemma map_of_mdel [gomap_simps]: "map_of (mdel k m) = (map_of m)(k := None)"
  by (rule delete_conv')

lemma wf_map_Nil [simp, wf_intros]: "wf_map []"
  by (simp add: wf_map_def)

lemma wf_map_mput [wf_intros]: "wf_map m \<Longrightarrow> wf_map (mput k v m)"
  unfolding wf_map_def by (rule distinct_update)

lemma wf_map_mdel [wf_intros]: "wf_map m \<Longrightarrow> wf_map (mdel k m)"
  unfolding wf_map_def by (rule distinct_delete)

lemma mget_mem_iff: "wf_map m \<Longrightarrow> mget m k = Some v \<longleftrightarrow> (k, v) \<in> set m"
  unfolding wf_map_def by (rule map_of_eq_Some_iff)

lemma wf_map_filter [wf_intros]: "wf_map m \<Longrightarrow> wf_map (filter P m)"
  unfolding wf_map_def by (rule distinct_map_filter)

lemma list_all_mget: "wf_map m \<Longrightarrow> list_all (\<lambda>(k, v). P k v) m \<longleftrightarrow> (\<forall>k v. mget m k = Some v \<longrightarrow> P k v)"
  by (auto simp: list_all_iff mget_mem_iff)

lemma map_of_rev_wf: "wf_map m \<Longrightarrow> map_of (rev m) = map_of m"
  by (rule map_of_inject_set [THEN iffD2]) (simp_all add: wf_map_def rev_map [symmetric])

text \<open>Storing a whole batch of pairs, in iteration order.\<close>

definition mput_all :: "('k, 'v) gomap \<Rightarrow> ('k \<rightharpoonup> 'v) \<Rightarrow> ('k \<rightharpoonup> 'v)" where
  "mput_all docs m = fold (\<lambda>(k, v) acc. acc(k \<mapsto> v)) docs m"

lemma mput_all_simps [simp]:
  "mput_all [] m = m"
  "mput_all ((k, v) # docs) m = mput_all docs (m(k \<mapsto> v))"
  by (simp_all add: mput_all_def)

lemma mput_all_notin: "k \<notin> fst ` set docs \<Longrightarrow> mput_all docs m k = m k"
  by (induction docs arbitrary: m) auto

lemma mput_all_conv: "wf_map docs \<Longrightarrow> mput_all docs m = m ++ map_of docs"
proof (induction docs arbitrary: m)
  case Nil
  then show ?case by simp
next
  case (Cons d docs)
  obtain k v where d: "d = (k, v)" by fastforce
  from Cons.prems d have fresh: "k \<notin> fst ` set docs" and wf: "wf_map docs"
    by (auto simp: wf_map_def)
  from fresh have "map_of docs k = None" by (simp add: map_of_eq_None_iff)
  with Cons.IH [OF wf] d show ?case
    by (auto simp: fun_eq_iff map_add_def split: option.splits)
qed

section \<open>Generic list facts\<close>

lemma find_None_all: "find P xs = None \<longleftrightarrow> (\<forall>x. x \<in> set xs \<longrightarrow> \<not> P x)"
  by (auto simp: find_None_iff)

lemma find_Some_mem: "find P xs = Some x \<Longrightarrow> x \<in> set xs \<and> P x"
  by (auto simp: find_Some_iff)

end
