(* ===== verification/GoStrings.thy ===== *)
theory GoStrings
  imports Prelude "HOL-Library.Char_ord" "HOL-Library.List_Lexorder"
begin

text \<open>
  The parts of Go's \<open>strings\<close> and \<open>strconv\<close> packages the components use. Go strings are
  byte strings, as HOL's \<open>string\<close> is: \<open>strings.Split\<close> and \<open>strings.Join\<close> with a
  one-byte separator, \<open>strings.HasPrefix\<close>, \<open>strconv.FormatInt\<close>/\<open>FormatUint\<close> and
  \<open>strconv.ParseInt\<close> for 64-bit integers. The lemmas are the round trips and the
  agreement of byte order and numeric order the storage keys rely on.
\<close>

section \<open>Split and Join\<close>

fun strings_Split :: "string \<Rightarrow> char \<Rightarrow> string list" where
  "strings_Split [] c = [[]]"
| "strings_Split (x # xs) c =
     (if x = c then [] # strings_Split xs c
      else (case strings_Split xs c of [] \<Rightarrow> [[x]] | p # ps \<Rightarrow> (x # p) # ps))"

fun strings_Join :: "string list \<Rightarrow> char \<Rightarrow> string" where
  "strings_Join [] c = []"
| "strings_Join [p] c = p"
| "strings_Join (p # q # ps) c = p @ c # strings_Join (q # ps) c"

definition strings_HasPrefix :: "string \<Rightarrow> string \<Rightarrow> bool" where
  "strings_HasPrefix s p \<longleftrightarrow> take (length p) s = p"

definition strings_HasSuffix :: "string \<Rightarrow> string \<Rightarrow> bool" where
  "strings_HasSuffix s p \<longleftrightarrow> length p \<le> length s \<and> drop (length s - length p) s = p"

lemma strings_Split_ne [simp]: "strings_Split s c \<noteq> []"
  by (induction s) (auto split: list.splits)

lemma strings_Split_nosep: "c \<notin> set s \<Longrightarrow> strings_Split s c = [s]"
  by (induction s) auto

lemma strings_Split_append:
  "c \<notin> set p \<Longrightarrow> strings_Split (p @ c # s) c = p # strings_Split s c"
  by (induction p) auto

lemma strings_Split_parts: "p \<in> set (strings_Split s c) \<Longrightarrow> c \<notin> set p"
proof (induction s arbitrary: p)
  case Nil
  then show ?case by simp
next
  case (Cons x xs)
  obtain q qs where sp: "strings_Split xs c = q # qs"
    by (cases "strings_Split xs c") auto
  with Cons.IH have "c \<notin> set q" and "\<forall>r \<in> set qs. c \<notin> set r" by auto
  with Cons.prems sp show ?case by (auto split: if_splits)
qed

lemma strings_Join_Cons: "ps \<noteq> [] \<Longrightarrow> strings_Join (p # ps) c = p @ c # strings_Join ps c"
  by (cases ps) auto

lemma Split_Join:
  "ps \<noteq> [] \<Longrightarrow> (\<And>p. p \<in> set ps \<Longrightarrow> c \<notin> set p) \<Longrightarrow> strings_Split (strings_Join ps c) c = ps"
proof (induction ps)
  case Nil
  then show ?case by simp
next
  case (Cons p ps)
  then show ?case
    by (cases ps) (auto simp: strings_Split_nosep strings_Join_Cons strings_Split_append)
qed

lemma Join_Split: "strings_Join (strings_Split s c) c = s"
proof (induction s)
  case Nil
  then show ?case by simp
next
  case (Cons x xs)
  obtain q qs where sp: "strings_Split xs c = q # qs"
    by (cases "strings_Split xs c") auto
  with Cons.IH show ?case by (cases qs) auto
qed

lemma HasPrefix_append [simp]: "strings_HasPrefix (p @ s) p"
  by (simp add: strings_HasPrefix_def)

section \<open>Digits\<close>

definition digit_char :: "nat \<Rightarrow> char" where
  "digit_char d = (if d < 10 then char_of (48 + d) else char_of (87 + d))"

definition digit_val :: "char \<Rightarrow> nat option" where
  "digit_val c = (let n = (of_char c :: nat) in if 48 \<le> n \<and> n \<le> 57 then Some (n - 48) else None)"

lemma of_char_digit_char [simp]: "d < 10 \<Longrightarrow> of_char (digit_char d) = 48 + d"
  by (simp add: digit_char_def)

lemma digit_val_digit_char [simp]: "d < 10 \<Longrightarrow> digit_val (digit_char d) = Some d"
  by (simp add: digit_val_def)

text \<open>The digits of \<open>n\<close> in base \<open>b\<close>, most significant first, as \<open>FormatUint\<close> prints them.\<close>

fun format_base :: "nat \<Rightarrow> nat \<Rightarrow> string" where
  "format_base b n =
     (if b < 2 then [] else if n < b then [digit_char n]
      else format_base b (n div b) @ [digit_char (n mod b)])"

declare format_base.simps [simp del]

definition strconv_FormatUint16 :: "nat \<Rightarrow> string" where
  "strconv_FormatUint16 n = format_base 16 n"

definition strconv_FormatInt :: "int \<Rightarrow> string" where
  "strconv_FormatInt i = (if i < 0 then CHR ''-'' # format_base 10 (nat (- i)) else format_base 10 (nat i))"

text \<open>
  \<open>strconv.ParseInt(s, 10, 64)\<close>: the value and whether an error is returned. A syntax error
  gives 0, a value out of range is clamped to the int64 limits.
\<close>

fun parse_digits :: "string \<Rightarrow> nat \<Rightarrow> nat option" where
  "parse_digits [] acc = Some acc"
| "parse_digits (c # cs) acc =
     (case digit_val c of None \<Rightarrow> None | Some d \<Rightarrow> parse_digits cs (10 * acc + d))"

definition parse_udec :: "string \<Rightarrow> nat option" where
  "parse_udec s = (if s = [] then None else parse_digits s 0)"

abbreviation max_int64 :: int where "max_int64 \<equiv> 9223372036854775807"
abbreviation min_int64 :: int where "min_int64 \<equiv> -9223372036854775808"

definition strconv_ParseInt :: "string \<Rightarrow> int \<times> bool" where
  "strconv_ParseInt s =
     (let neg = (s \<noteq> [] \<and> hd s = CHR ''-'');
          body = (if s \<noteq> [] \<and> (hd s = CHR ''-'' \<or> hd s = CHR ''+'') then tl s else s)
      in case parse_udec body of
           None \<Rightarrow> (0, True)
         | Some n \<Rightarrow>
             (let v = (if neg then - int n else int n)
              in if v > max_int64 then (max_int64, True)
                 else if v < min_int64 then (min_int64, True) else (v, False)))"

lemma format_base_ne [simp]: "2 \<le> b \<Longrightarrow> format_base b n \<noteq> []"
  by (subst format_base.simps) auto

lemma parse_digits_append:
  "parse_digits (s @ t) acc = Option.bind (parse_digits s acc) (parse_digits t)"
  by (induction s arbitrary: acc) (auto split: option.splits)

lemma parse_format: "parse_digits (format_base 10 n) 0 = Some n"
proof (induction n rule: less_induct)
  case (less n)
  show ?case
  proof (cases "n < 10")
    case True
    then show ?thesis by (subst format_base.simps) simp
  next
    case False
    then have "n div 10 < n" by simp
    with less.IH have "parse_digits (format_base 10 (n div 10)) 0 = Some (n div 10)" by blast
    with False show ?thesis
      by (subst format_base.simps) (simp add: parse_digits_append)
  qed
qed

lemma format_base_chars10: "c \<in> set (format_base 10 n) \<Longrightarrow> \<exists>d < 10. c = digit_char d"
proof (induction n rule: less_induct)
  case (less n)
  show ?case
  proof (cases "n < 10")
    case True
    with less.prems show ?thesis by (auto simp: format_base.simps [of 10 n])
  next
    case False
    then have smaller: "n div 10 < n" by simp
    from False less.prems consider "c \<in> set (format_base 10 (n div 10))" | "c = digit_char (n mod 10)"
      by (auto simp: format_base.simps [of 10 n])
    then show ?thesis
    proof cases
      case 1
      then show ?thesis using less.IH [OF smaller] by blast
    next
      case 2
      then show ?thesis by (intro exI [of _ "n mod 10"]) simp
    qed
  qed
qed

lemma format10_inj: "format_base 10 m = format_base 10 n \<Longrightarrow> m = n"
  by (metis option.inject parse_format)

lemma format_base_no_sep:
  assumes "c \<in> set (format_base 10 n)"
  shows "48 \<le> (of_char c :: nat) \<and> (of_char c :: nat) \<le> 57"
  using format_base_chars10 [OF assms] by auto

lemma FormatInt_inj: "strconv_FormatInt i = strconv_FormatInt j \<Longrightarrow> i = j"
proof -
  assume eq: "strconv_FormatInt i = strconv_FormatInt j"
  have minus: "CHR ''-'' \<notin> set (format_base 10 n)" for n
    using format_base_no_sep [of "CHR ''-''" n] by auto
  have "(i < 0) = (j < 0)"
    using eq minus by (auto simp: strconv_FormatInt_def split: if_splits) (metis list.set_intros(1))+
  with eq show ?thesis
    by (auto simp: strconv_FormatInt_def split: if_splits dest!: format10_inj)
qed

lemma FormatInt_no_slash: "CHR ''/'' \<notin> set (strconv_FormatInt i)"
  using format_base_no_sep [of "CHR ''/''"] by (auto simp: strconv_FormatInt_def)

text \<open>Parsing what was printed gives the number back, for every int64.\<close>

lemma hd_format10_digit: "\<exists>d < 10. hd (format_base 10 n) = digit_char d"
  by (rule format_base_chars10 [of _ n]) simp

lemma ParseInt_FormatInt:
  assumes "min_int64 \<le> i" and "i \<le> max_int64"
  shows "strconv_ParseInt (strconv_FormatInt i) = (i, False)"
proof -
  have pos: "parse_udec (format_base 10 n) = Some n" for n
    by (simp add: parse_udec_def parse_format)
  obtain d where d: "d < 10" "hd (format_base 10 (nat i)) = digit_char d"
    using hd_format10_digit by blast
  have "of_char (digit_char d) \<noteq> (of_char (CHR ''-'') :: nat)"
    and "of_char (digit_char d) \<noteq> (of_char (CHR ''+'') :: nat)"
    using d(1) by (simp_all add: numeral_eq_Suc)
  then have "digit_char d \<noteq> CHR ''-''" and "digit_char d \<noteq> CHR ''+''" by auto
  with d(2) pos assms show ?thesis
    by (auto simp: strconv_ParseInt_def strconv_FormatInt_def Let_def)
qed

section \<open>Byte order of decimal keys\<close>

lemma less_same_prefix: "a < b \<Longrightarrow> p @ a # s < p @ b # (t :: string)"
  by (induction p) auto

lemma prefix_not_less: "\<not> x @ r < (x :: string)"
  by (induction x) auto

lemma less_append_same_length:
  "length x = length y \<Longrightarrow> x < (y :: string) \<Longrightarrow> x @ s < y @ t"
  by (induction x y rule: list_induct2) auto

lemma format10_less:
  "length (format_base 10 m) = length (format_base 10 n) \<Longrightarrow> m < n
    \<Longrightarrow> format_base 10 m < format_base 10 n"
proof (induction n arbitrary: m rule: less_induct)
  case (less n)
  show ?case
  proof (cases "n < 10")
    case True
    with less.prems show ?thesis
      by (simp add: format_base.simps [of 10 n] format_base.simps [of 10 m] less_char_def)
  next
    case nbig: False
    have mbig: "\<not> m < 10"
    proof
      assume "m < 10"
      with nbig less.prems(1) show False
        by (simp add: format_base.simps [of 10 n] format_base.simps [of 10 m])
    qed
    let ?m = "m div 10" and ?n = "n div 10"
    have fm: "format_base 10 m = format_base 10 ?m @ [digit_char (m mod 10)]"
      and fn: "format_base 10 n = format_base 10 ?n @ [digit_char (n mod 10)]"
      using mbig nbig by (simp_all add: format_base.simps [of 10 m] format_base.simps [of 10 n])
    from less.prems(1) fm fn have len: "length (format_base 10 ?m) = length (format_base 10 ?n)"
      by simp
    show ?thesis
    proof (cases "?m < ?n")
      case True
      moreover have "?n < n" using nbig by simp
      ultimately have "format_base 10 ?m < format_base 10 ?n" using less.IH len by blast
      with fm fn len show ?thesis by (simp add: less_append_same_length)
    next
      case False
      with less.prems(2) have "?m = ?n" by (simp add: antisym div_le_mono)
      moreover from this less.prems(2) have "m mod 10 < n mod 10"
        by (metis add_less_cancel_left mult_div_mod_eq)
      ultimately show ?thesis
        using fm fn less_same_prefix [of "digit_char (m mod 10)" "digit_char (n mod 10)"]
        by (simp add: less_char_def)
    qed
  qed
qed

lemma length_format10: "10 ^ k \<le> n \<Longrightarrow> n < 10 ^ Suc k \<Longrightarrow> length (format_base 10 n) = Suc k"
proof (induction k arbitrary: n)
  case 0
  then show ?case by (simp add: format_base.simps [of 10 n])
next
  case (Suc k)
  have "(10::nat) \<le> 10 ^ Suc k" by simp
  with Suc.prems(1) have "\<not> n < 10" by linarith
  moreover have "10 ^ k \<le> n div 10" and "n div 10 < 10 ^ Suc k"
    using Suc.prems by (simp_all add: less_mult_imp_div_less div_le_mono less_eq_div_iff_mult_less_eq)
  ultimately show ?case using Suc.IH by (simp add: format_base.simps [of 10 n])
qed

text \<open>
  Decimal renderings with the same number of digits order as the numbers do, whatever
  follows them: 13-digit millisecond timestamps run from September 2001 to November 2286.
\<close>

definition msec13 :: "int \<Rightarrow> bool" where
  "msec13 t \<longleftrightarrow> 1000000000000 \<le> t \<and> t < 10000000000000"

lemma length_FormatInt_msec13: "msec13 t \<Longrightarrow> length (strconv_FormatInt t) = 13"
  using length_format10 [of 12 "nat t"]
  by (simp add: msec13_def strconv_FormatInt_def nat_less_iff le_nat_iff)

lemma FormatInt_less_append:
  assumes "msec13 t" and "msec13 u" and "t < u"
  shows "strconv_FormatInt t @ x < strconv_FormatInt u @ y"
proof -
  have "length (strconv_FormatInt t) = length (strconv_FormatInt u)"
    using assms by (simp add: length_FormatInt_msec13)
  moreover have "strconv_FormatInt t < strconv_FormatInt u"
    using calculation assms
    by (auto simp: strconv_FormatInt_def msec13_def intro!: format10_less)
  ultimately show ?thesis by (rule less_append_same_length)
qed

end
