(* ===== verification/BucketContract.thy ===== *)
theory BucketContract
  imports BucketStore
begin

text \<open>
  The interfaces around the bucket store and their proofs: the documented laws of bbolt
  (\<open>bbolt_db\<close>, \<open>bbolt_cursor\<close>), the contract of \<open>IBucketStore.go\<close> (\<open>ibucket_store\<close>) with the
  lemmas its clients use, and the proof that \<open>BoltBucket\<close> over any bbolt meets it.
\<close>

section \<open>What bbolt documents\<close>

locale bbolt_db =
  fixes B :: "('db, 'tx, 'c) bbolt"
    and contents :: "'db \<Rightarrow> string \<rightharpoonup> (string \<rightharpoonup> string)"
    and tcontents :: "'tx \<Rightarrow> string \<rightharpoonup> (string \<rightharpoonup> string)"
  assumes begin_contents: "bb_Begin B w db = Inr tx \<Longrightarrow> tcontents tx = contents db"
    and create_contents: "bb_CreateBucketIfNotExists B b tx = Inr tx' \<Longrightarrow> tcontents tx' =
        (case tcontents tx b of None \<Rightarrow> (tcontents tx)(b \<mapsto> Map.empty) | Some _ \<Rightarrow> tcontents tx)"
    and bucket_iff: "bb_Bucket B b tx \<longleftrightarrow> tcontents tx b \<noteq> None"
    and get_contents: "tcontents tx b = Some m \<Longrightarrow> bb_Get B b k tx = m k"
    and put_contents: "tcontents tx b = Some m \<Longrightarrow> bb_Put B b k v tx = Inr tx'
        \<Longrightarrow> tcontents tx' = (tcontents tx)(b \<mapsto> m(k \<mapsto> v))"
    and put_key_required: "\<exists>e. bb_Put B b [] v tx = Inl e"
    and delete_contents: "tcontents tx b = Some m \<Longrightarrow> bb_Delete B b k tx = Inr tx'
        \<Longrightarrow> tcontents tx' = (tcontents tx)(b \<mapsto> m(k := None))"
    and commit_contents: "bb_Commit B tx db = (None, db') \<Longrightarrow> contents db' = tcontents tx"
    and commit_failed: "bb_Commit B tx db = (Some e, db') \<Longrightarrow> contents db' = contents db"
    and rollback_contents: "contents (bb_Rollback B tx db) = contents db"

text \<open>A bucket that was never written to reads as an empty one.\<close>

definition bucket_content ::
  "('db \<Rightarrow> string \<rightharpoonup> (string \<rightharpoonup> string)) \<Rightarrow> 'db \<Rightarrow> string \<Rightarrow> string \<rightharpoonup> string" where
  "bucket_content contents db b = (case contents db b of None \<Rightarrow> Map.empty | Some m \<Rightarrow> m)"

section \<open>The contract of IBucketStore\<close>

locale ibucket_store =
  fixes content :: "'s \<Rightarrow> string \<Rightarrow> string \<rightharpoonup> string"
    and bget :: "string \<Rightarrow> string \<Rightarrow> 's \<Rightarrow> string option \<times> go_error option \<times> 's"
    and bget_multiple :: "string \<Rightarrow> string list \<Rightarrow> 's \<Rightarrow> (string, string) gomap \<times> go_error option \<times> 's"
    and bset :: "string \<Rightarrow> string \<Rightarrow> string \<Rightarrow> 's \<Rightarrow> go_error option \<times> 's"
    and bset_multiple :: "string \<Rightarrow> (string, string) gomap \<Rightarrow> 's \<Rightarrow> go_error option \<times> 's"
    and bdelete :: "string \<Rightarrow> string \<Rightarrow> 's \<Rightarrow> go_error option \<times> 's"
  assumes get_frame: "bget b k s = (r, e, s') \<Longrightarrow> content s' = content s"
    and get_some: "bget b k s = (Some v, e, s') \<Longrightarrow> content s b k = Some v \<and> e = None"
    and get_hit: "content s b k = Some v \<Longrightarrow> bget b k s = (r, e, s')
        \<Longrightarrow> r = Some v \<and> e = None \<or> r = None \<and> e \<noteq> None"
    and getm_frame: "bget_multiple b ks s = (docs, e, s') \<Longrightarrow> content s' = content s"
    and getm_docs: "bget_multiple b ks s = (docs, None, s') \<Longrightarrow> map_of docs = content s b |` set ks"
    and set_ok: "bset b k v s = (None, s') \<Longrightarrow> content s' = (content s)(b := (content s b)(k \<mapsto> v))"
    and set_failed: "bset b k v s = (Some err, s') \<Longrightarrow> content s' = content s"
    and set_key_required: "\<exists>err s'. bset b [] v s = (Some err, s')"
    and setm_ok: "wf_map docs \<Longrightarrow> bset_multiple b docs s = (None, s')
        \<Longrightarrow> content s' = (content s)(b := content s b ++ map_of docs)"
    and setm_failed: "bset_multiple b docs s = (Some err, s') \<Longrightarrow> content s' = content s"
    and setm_key_required: "[] \<in> fst ` set docs \<Longrightarrow> \<exists>err s'. bset_multiple b docs s = (Some err, s')"
    and delete_ok: "bdelete b k s = (None, s') \<Longrightarrow> content s' = (content s)(b := (content s b)(k := None))"
    and delete_failed: "bdelete b k s = (Some err, s') \<Longrightarrow> content s' = content s"
begin

text \<open>Reading back: a read that succeeds returns what was stored last under that key.\<close>

lemma set_then_get:
  assumes "bset b k v s = (None, s1)" and "bget b k s1 = (r, None, s2)"
  shows "r = Some v"
  using set_ok [OF assms(1)] get_hit [of s1 b k v r None s2] assms(2) by simp

lemma delete_then_get:
  assumes "bdelete b k s = (None, s1)" and "bget b k s1 = (r, e, s2)"
  shows "r = None"
  using delete_ok [OF assms(1)] get_some [of b k s1 _ e s2] assms(2) by (cases r) auto

text \<open>No write reaches another bucket.\<close>

lemma set_other_bucket: "bset b k v s = (e, s') \<Longrightarrow> b' \<noteq> b \<Longrightarrow> content s' b' = content s b'"
  using set_ok [of b k v s s'] set_failed [of b k v s _ s'] by (cases e) auto

lemma setm_other_bucket:
  "wf_map docs \<Longrightarrow> bset_multiple b docs s = (e, s') \<Longrightarrow> b' \<noteq> b \<Longrightarrow> content s' b' = content s b'"
  using setm_ok [of docs b s s'] setm_failed [of b docs s _ s'] by (cases e) auto

lemma delete_other_bucket: "bdelete b k s = (e, s') \<Longrightarrow> b' \<noteq> b \<Longrightarrow> content s' b' = content s b'"
  using delete_ok [of b k s s'] delete_failed [of b k s _ s'] by (cases e) auto

text \<open>A batch is all or nothing, and a batch with the empty key stores nothing.\<close>

lemma setm_all_or_nothing:
  assumes "wf_map docs" and "bset_multiple b docs s = (e, s')"
  shows "content s' = (if e = None then (content s)(b := content s b ++ map_of docs) else content s)"
  using setm_ok [of docs b s s'] setm_failed [of b docs s _ s'] assms by (cases e) auto

lemma setm_empty_key_rejected:
  assumes "[] \<in> fst ` set docs" and "bset_multiple b docs s = (e, s')"
  shows "e \<noteq> None \<and> content s' = content s"
  using setm_key_required [OF assms(1), of b s] assms(2) setm_failed by fastforce

end

section \<open>BoltBucket meets the contract\<close>

context bbolt_db
begin

lemma read_transaction:
  assumes "BoltBucket_bucketTransaction B False b cb r0 db = (r, e, db')"
    and "\<forall>tx. snd (snd (cb tx)) = tx"
  shows "contents db' = contents db"
    and "(\<exists>tx. tcontents tx = contents db \<and> contents db b \<noteq> None \<and> cb tx = (r, e, tx))
         \<or> contents db b = None \<and> r = r0 \<and> e = None \<or> r = r0 \<and> e \<noteq> None"
proof -
  consider (nobegin) e' where "bb_Begin B False db = Inl e'"
    | (begun) tx where "bb_Begin B False db = Inr tx"
    by (cases "bb_Begin B False db") auto
  then have both: "contents db' = contents db \<and>
      ((\<exists>tx. tcontents tx = contents db \<and> contents db b \<noteq> None \<and> cb tx = (r, e, tx))
         \<or> contents db b = None \<and> r = r0 \<and> e = None \<or> r = r0 \<and> e \<noteq> None)"
  proof cases
    case nobegin
    with assms(1) show ?thesis by (auto simp: BoltBucket_bucketTransaction_def)
  next
    case (begun tx)
    have tc: "tcontents tx = contents db" by (rule begin_contents [OF begun])
    show ?thesis
    proof (cases "bb_Bucket B b tx")
      case True
      obtain r1 e1 tx1 where cb: "cb tx = (r1, e1, tx1)" by (cases "cb tx") auto
      with assms(2) have "tx1 = tx" by (metis snd_conv)
      with True begun cb assms(1) have "r = r1" "e = e1" "db' = bb_Rollback B tx db"
        by (auto simp: BoltBucket_bucketTransaction_def)
      with True cb \<open>tx1 = tx\<close> tc bucket_iff rollback_contents show ?thesis by auto
    next
      case False
      with begun assms(1) have "r = r0" "e = None" "db' = bb_Rollback B tx db"
        by (auto simp: BoltBucket_bucketTransaction_def)
      with False tc bucket_iff rollback_contents show ?thesis by auto
    qed
  qed
  from both show "contents db' = contents db" ..
  from both show "(\<exists>tx. tcontents tx = contents db \<and> contents db b \<noteq> None \<and> cb tx = (r, e, tx))
         \<or> contents db b = None \<and> r = r0 \<and> e = None \<or> r = r0 \<and> e \<noteq> None" ..
qed

lemma write_transaction:
  assumes "BoltBucket_bucketTransaction B True b cb r0 db = (r, e, db')"
  shows "e \<noteq> None \<Longrightarrow> contents db' = contents db"
    and "e = None \<Longrightarrow> \<exists>tx tx'. tcontents tx b = Some (bucket_content contents db b)
           \<and> (\<forall>b'. b' \<noteq> b \<longrightarrow> tcontents tx b' = contents db b') \<and> cb tx = (r, None, tx')
           \<and> contents db' = tcontents tx'"
proof -
  have both: "(e \<noteq> None \<longrightarrow> contents db' = contents db) \<and>
      (e = None \<longrightarrow> (\<exists>tx tx'. tcontents tx b = Some (bucket_content contents db b)
           \<and> (\<forall>b'. b' \<noteq> b \<longrightarrow> tcontents tx b' = contents db b') \<and> cb tx = (r, None, tx')
           \<and> contents db' = tcontents tx'))"
  proof (cases "bb_Begin B True db")
    case (Inl e')
    with assms show ?thesis by (auto simp: BoltBucket_bucketTransaction_def)
  next
    case (Inr tx)
    have tc: "tcontents tx = contents db" by (rule begin_contents [OF Inr])
    show ?thesis
    proof (cases "bb_CreateBucketIfNotExists B b tx")
      case (Inl e')
      with Inr assms rollback_contents show ?thesis
        by (auto simp: BoltBucket_bucketTransaction_def)
    next
      case created: (Inr tx1)
      have tc1: "tcontents tx1 b = Some (bucket_content contents db b)"
          "\<forall>b'. b' \<noteq> b \<longrightarrow> tcontents tx1 b' = contents db b'"
        using create_contents [OF created] tc by (auto simp: bucket_content_def split: option.splits)
      obtain r1 e1 tx2 where cb: "cb tx1 = (r1, e1, tx2)" by (cases "cb tx1") auto
      show ?thesis
      proof (cases e1)
        case None
        obtain e2 db2 where com: "bb_Commit B tx2 db = (e2, db2)" by fastforce
        with Inr created cb None assms have res: "r = r1" "e = e2" "db' = db2"
          by (auto simp: BoltBucket_bucketTransaction_def)
        with com commit_contents commit_failed have
          "(e \<noteq> None \<longrightarrow> contents db' = contents db) \<and> (e = None \<longrightarrow> contents db' = tcontents tx2)"
          by (cases e2) auto
        with tc1 cb None res show ?thesis by blast
      next
        case (Some e')
        with Inr created cb assms rollback_contents show ?thesis
          by (auto simp: BoltBucket_bucketTransaction_def)
      qed
    qed
  qed
  from both show "e \<noteq> None \<Longrightarrow> contents db' = contents db" by blast
  from both show "e = None \<Longrightarrow> \<exists>tx tx'. tcontents tx b = Some (bucket_content contents db b)
           \<and> (\<forall>b'. b' \<noteq> b \<longrightarrow> tcontents tx b' = contents db b') \<and> cb tx = (r, None, tx')
           \<and> contents db' = tcontents tx'" by blast
qed

lemma bucket_content_cong: "contents db' = contents db \<Longrightarrow> bucket_content contents db' = bucket_content contents db"
  by (simp add: bucket_content_def fun_eq_iff)

text \<open>A successful write whose callback replaces the bucket's pairs by \<open>f\<close> of them.\<close>

lemma write_effect:
  assumes "BoltBucket_bucketTransaction B True b cb r0 db = (r, None, db')"
    and "\<And>tx m tx'. tcontents tx b = Some m \<Longrightarrow> cb tx = (r, None, tx')
           \<Longrightarrow> tcontents tx' = (tcontents tx)(b \<mapsto> f m)"
  shows "bucket_content contents db' = (bucket_content contents db)(b := f (bucket_content contents db b))"
proof -
  obtain tx tx' where tx: "tcontents tx b = Some (bucket_content contents db b)"
      "\<forall>b'. b' \<noteq> b \<longrightarrow> tcontents tx b' = contents db b'" "cb tx = (r, None, tx')"
      "contents db' = tcontents tx'"
    using write_transaction(2) [OF assms(1)] by auto
  with assms(2) [OF tx(1,3)] show ?thesis
    by (auto simp: bucket_content_def fun_eq_iff)
qed

lemma write_rejected:
  assumes "BoltBucket_bucketTransaction B True b cb r0 db = (r, e, db')"
    and "\<And>tx. fst (snd (cb tx)) \<noteq> None"
  shows "e \<noteq> None"
proof
  assume "e = None"
  with write_transaction(2) [OF assms(1)] assms(2) show False by (metis fst_conv snd_conv)
qed

lemma get_each_docs:
  "tcontents tx b = Some m \<Longrightarrow>
     map_of (get_each B b ks tx docs) = map_of docs ++ (m |` set ks)"
proof (induction ks arbitrary: docs)
  case Nil
  then show ?case by (simp add: restrict_map_def)
next
  case (Cons k ks)
  have g: "bb_Get B b k tx = m k" by (rule get_contents [OF Cons.prems])
  show ?case
    using Cons.IH [OF Cons.prems] g
    by (auto simp: fun_eq_iff map_add_def restrict_map_def gomap_simps split: option.splits)
qed

lemma put_each_ok:
  "tcontents tx b = Some m \<Longrightarrow> put_each B b docs tx = (None, tx')
     \<Longrightarrow> tcontents tx' = (tcontents tx)(b \<mapsto> mput_all docs m)"
proof (induction docs arbitrary: tx m)
  case Nil
  then show ?case by (auto simp: fun_eq_iff)
next
  case (Cons d docs)
  obtain k v where d: "d = (k, v)" by fastforce
  with Cons.prems(2) obtain tx1 where p: "bb_Put B b k v tx = Inr tx1"
    and rest: "put_each B b docs tx1 = (None, tx')"
    by (auto split: sum.splits)
  have t1: "tcontents tx1 = (tcontents tx)(b \<mapsto> m(k \<mapsto> v))"
    by (rule put_contents [OF Cons.prems(1) p])
  then have "tcontents tx1 b = Some (m(k \<mapsto> v))" by simp
  from Cons.IH [OF this rest] t1 d show ?case by (auto simp: fun_upd_def fun_eq_iff)
qed

lemma put_each_empty_key: "[] \<in> fst ` set docs \<Longrightarrow> fst (put_each B b docs tx) \<noteq> None"
proof (induction docs arbitrary: tx)
  case Nil
  then show ?case by simp
next
  case (Cons d docs)
  obtain k v where d: "d = (k, v)" by fastforce
  show ?case
  proof (cases "k = []")
    case True
    with d put_key_required [of b v tx] show ?thesis by auto
  next
    case False
    with d Cons show ?thesis by (auto split: sum.splits)
  qed
qed

lemma BoltBucket_Set_tx:
  "BoltBucket_Set B b k v db = (e, db') \<longleftrightarrow> BoltBucket_bucketTransaction B True b
     (\<lambda>tx. case bb_Put B b k v tx of Inl e \<Rightarrow> ((), Some e, tx) | Inr tx' \<Rightarrow> ((), None, tx')) () db
     = ((), e, db')"
  by (auto simp: BoltBucket_Set_def prod_eq_iff)

lemma BoltBucket_Delete_tx:
  "BoltBucket_Delete B b k db = (e, db') \<longleftrightarrow> BoltBucket_bucketTransaction B True b
     (\<lambda>tx. case bb_Delete B b k tx of Inl e \<Rightarrow> ((), Some e, tx) | Inr tx' \<Rightarrow> ((), None, tx')) () db
     = ((), e, db')"
  by (auto simp: BoltBucket_Delete_def prod_eq_iff)

lemma BoltBucket_SetMultiple_tx:
  "BoltBucket_SetMultiple B b docs db = (e, db') \<longleftrightarrow> BoltBucket_bucketTransaction B True b
     (\<lambda>tx. case put_each B b docs tx of (e, tx') \<Rightarrow> ((), e, tx')) () db = ((), e, db')"
  by (auto simp: BoltBucket_SetMultiple_def prod_eq_iff)

lemma BoltBucket_Get_cases:
  assumes "BoltBucket_Get B b k db = (r, e, db')"
  shows "contents db' = contents db"
    and "r = bucket_content contents db b k \<and> (r \<noteq> None \<longrightarrow> e = None)
           \<and> (e = None \<longrightarrow> r = None \<longrightarrow> contents db b = None) \<or> r = None \<and> e \<noteq> None"
proof -
  let ?cb = "\<lambda>tx. case bb_Get B b k tx of
      Some v \<Rightarrow> (Some v, None, tx) | None \<Rightarrow> (None, Some (ErrKeyNotFound k), tx)"
  have tr: "BoltBucket_bucketTransaction B False b ?cb None db = (r, e, db')"
    using assms by (simp add: BoltBucket_Get_def)
  have cb: "\<forall>tx. snd (snd (?cb tx)) = tx" by (simp split: option.splits)
  show "contents db' = contents db" by (rule read_transaction(1) [OF tr cb])
  have "r = m k \<and> (r \<noteq> None \<longrightarrow> e = None) \<and> (r = None \<longrightarrow> e \<noteq> None)"
    if "tcontents tx = contents db" "contents db b = Some m" "?cb tx = (r, e, tx)" for tx m
  proof -
    have "bb_Get B b k tx = m k" using that get_contents by simp
    with that(3) show ?thesis by (cases "m k") (simp_all, blast+)
  qed
  with read_transaction(2) [OF tr cb]
  show "r = bucket_content contents db b k \<and> (r \<noteq> None \<longrightarrow> e = None)
           \<and> (e = None \<longrightarrow> r = None \<longrightarrow> contents db b = None) \<or> r = None \<and> e \<noteq> None"
    by (fastforce simp: bucket_content_def split: option.splits)
qed

lemma BoltBucket_GetMultiple_cases:
  assumes "BoltBucket_GetMultiple B b ks db = (docs, e, db')"
  shows "contents db' = contents db"
    and "e = None \<Longrightarrow> map_of docs = bucket_content contents db b |` set ks"
proof -
  let ?cb = "\<lambda>tx. (get_each B b ks tx [], None :: go_error option, tx)"
  have tr: "BoltBucket_bucketTransaction B False b ?cb [] db = (docs, e, db')"
    using assms by (simp add: BoltBucket_GetMultiple_def)
  have cb: "\<forall>tx. snd (snd (?cb tx)) = tx" by simp
  show "contents db' = contents db" by (rule read_transaction(1) [OF tr cb])
  show "map_of docs = bucket_content contents db b |` set ks" if none: "e = None"
  proof (cases "contents db b")
    case None
    with read_transaction(2) [OF tr cb] none show ?thesis
      by (auto simp: bucket_content_def restrict_map_def)
  next
    case (Some m)
    from read_transaction(2) [OF tr cb, simplified] none Some obtain tx
      where "tcontents tx = contents db" and "docs = get_each B b ks tx []" by auto
    with Some get_each_docs [of tx b m ks "[]"] show ?thesis
      by (auto simp: bucket_content_def)
  qed
qed

lemma BoltBucket_Set_ok:
  "BoltBucket_Set B b k v db = (None, db') \<Longrightarrow> bucket_content contents db' =
     (bucket_content contents db)(b := (bucket_content contents db b)(k \<mapsto> v))"
  unfolding BoltBucket_Set_tx
  by (erule write_effect) (auto dest: put_contents simp: fun_upd_def split: sum.splits)

lemma BoltBucket_Delete_ok:
  "BoltBucket_Delete B b k db = (None, db') \<Longrightarrow> bucket_content contents db' =
     (bucket_content contents db)(b := (bucket_content contents db b)(k := None))"
  unfolding BoltBucket_Delete_tx
  by (erule write_effect) (auto dest: delete_contents simp: fun_upd_def split: sum.splits)

lemma BoltBucket_SetMultiple_ok:
  assumes "wf_map docs" and "BoltBucket_SetMultiple B b docs db = (None, db')"
  shows "bucket_content contents db' =
     (bucket_content contents db)(b := bucket_content contents db b ++ map_of docs)"
proof -
  from assms(2) have "bucket_content contents db' =
     (bucket_content contents db)(b := mput_all docs (bucket_content contents db b))"
    unfolding BoltBucket_SetMultiple_tx
    by (rule write_effect) (auto dest: put_each_ok split: prod.splits)
  with mput_all_conv [OF assms(1)] show ?thesis by simp
qed

lemma failed_write_keeps_contents:
  "BoltBucket_Set B b k v db = (Some e, db') \<Longrightarrow> contents db' = contents db"
  "BoltBucket_Delete B b k db = (Some e, db') \<Longrightarrow> contents db' = contents db"
  "BoltBucket_SetMultiple B b docs db = (Some e, db') \<Longrightarrow> contents db' = contents db"
  unfolding BoltBucket_Set_tx BoltBucket_Delete_tx BoltBucket_SetMultiple_tx
  by (drule write_transaction(1); simp)+

lemma BoltBucket_Set_empty_key: "fst (BoltBucket_Set B b [] v db) \<noteq> None"
proof -
  obtain e db' where s: "BoltBucket_Set B b [] v db = (e, db')" by fastforce
  have "e \<noteq> None"
    using s put_key_required [of b v] unfolding BoltBucket_Set_tx
    by (elim write_rejected) (metis (no_types, lifting) fst_conv snd_conv option.distinct(1) sum.case(1))
  with s show ?thesis by simp
qed

lemma BoltBucket_SetMultiple_empty_key:
  assumes "[] \<in> fst ` set docs"
  shows "fst (BoltBucket_SetMultiple B b docs db) \<noteq> None"
proof -
  obtain e db' where s: "BoltBucket_SetMultiple B b docs db = (e, db')" by fastforce
  have "e \<noteq> None"
    using s put_each_empty_key [OF assms, of b] unfolding BoltBucket_SetMultiple_tx
    by (elim write_rejected) (simp add: case_prod_unfold)
  with s show ?thesis by simp
qed

end

sublocale bbolt_db < ibucket_store "bucket_content contents" "BoltBucket_Get B"
    "BoltBucket_GetMultiple B" "BoltBucket_Set B" "BoltBucket_SetMultiple B" "BoltBucket_Delete B"
proof unfold_locales
  fix b k r e db db'
  assume g: "BoltBucket_Get B b k db = (r, e, db')"
  show "bucket_content contents db' = bucket_content contents db"
    by (rule bucket_content_cong [OF BoltBucket_Get_cases(1) [OF g]])
next
  fix b k v e db db'
  assume g: "BoltBucket_Get B b k db = (Some v, e, db')"
  show "bucket_content contents db b k = Some v \<and> e = None"
    using BoltBucket_Get_cases(2) [OF g] by auto
next
  fix b k v r e db db'
  assume "bucket_content contents db b k = Some v" and g: "BoltBucket_Get B b k db = (r, e, db')"
  then show "r = Some v \<and> e = None \<or> r = None \<and> e \<noteq> None"
    using BoltBucket_Get_cases(2) [OF g] by auto
next
  fix b ks docs e db db'
  assume "BoltBucket_GetMultiple B b ks db = (docs, e, db')"
  then show "bucket_content contents db' = bucket_content contents db"
    by (intro bucket_content_cong BoltBucket_GetMultiple_cases(1))
next
  fix b v db
  show "\<exists>err s'. BoltBucket_Set B b [] v db = (Some err, s')"
    using BoltBucket_Set_empty_key [of b v db] by (cases "BoltBucket_Set B b [] v db") auto
next
  fix docs b db
  assume "[] \<in> fst ` set (docs :: (string, string) gomap)"
  then show "\<exists>err s'. BoltBucket_SetMultiple B b docs db = (Some err, s')"
    using BoltBucket_SetMultiple_empty_key [of docs b db]
    by (cases "BoltBucket_SetMultiple B b docs db") auto
qed (auto intro: bucket_content_cong BoltBucket_GetMultiple_cases(2) BoltBucket_Set_ok
       BoltBucket_SetMultiple_ok BoltBucket_Delete_ok failed_write_keeps_contents)

context bbolt_db
begin

lemma bucket_contract:
  "ibucket_store (bucket_content contents) (BoltBucket_Get B) (BoltBucket_GetMultiple B)
     (BoltBucket_Set B) (BoltBucket_SetMultiple B) (BoltBucket_Delete B)"
  by unfold_locales

end

end
