(* ===== verification/BucketCursor.thy ===== *)
theory BucketCursor
  imports BucketContract
begin

text \<open>
  The cursor of a bucket: what bbolt documents of its cursors (\<open>bbolt_cursor\<close>), what the
  wrapper \<open>BBoltCursor\<close> makes of it, and an executable list database on which both bbolt
  interfaces are interpreted.
\<close>

section \<open>What bbolt documents of cursors\<close>

text \<open>
  A cursor walks the pairs of its bucket in byte order of the keys. \<open>Next\<close> and \<open>Prev\<close> need a
  position, set by \<open>First\<close>, \<open>Last\<close> or \<open>Seek\<close>; without one, and past either end, the key is nil.
\<close>

locale bbolt_cursor =
  fixes C :: "'c bbolt_cursor_api"
    and ents :: "'c \<Rightarrow> (string \<times> string) list"
    and pos :: "'c \<Rightarrow> nat option"
  assumes ents_sorted: "sorted (map fst (ents c))"
    and ents_distinct: "wf_map (ents c)"
    and first_empty: "ents c = [] \<Longrightarrow> fst (bc_First C c) = None"
    and first_entry: "ents c \<noteq> [] \<Longrightarrow> bc_First C c = (Some (hd (ents c)), snd (bc_First C c))
        \<and> pos (snd (bc_First C c)) = Some 0"
    and last_empty: "ents c = [] \<Longrightarrow> fst (bc_Last C c) = None"
    and last_entry: "ents c \<noteq> [] \<Longrightarrow> bc_Last C c = (Some (last (ents c)), snd (bc_Last C c))
        \<and> pos (snd (bc_Last C c)) = Some (length (ents c) - 1)"
    and next_entry: "pos c = Some i \<Longrightarrow> Suc i < length (ents c) \<Longrightarrow>
        bc_Next C c = (Some (ents c ! Suc i), snd (bc_Next C c))
        \<and> pos (snd (bc_Next C c)) = Some (Suc i)"
    and next_end: "pos c = None \<or> pos c = Some i \<and> length (ents c) \<le> Suc i \<Longrightarrow>
        fst (bc_Next C c) = None"
    and next_unpositioned: "pos c = None \<Longrightarrow> pos (snd (bc_Next C c)) = None"
    and prev_entry: "pos c = Some (Suc i) \<Longrightarrow> Suc i < length (ents c) \<Longrightarrow>
        bc_Prev C c = (Some (ents c ! i), snd (bc_Prev C c)) \<and> pos (snd (bc_Prev C c)) = Some i"
    and prev_begin: "pos c = None \<or> pos c = Some 0 \<Longrightarrow> fst (bc_Prev C c) = None"
    and seek_entry: "i < length (ents c) \<Longrightarrow> k \<le> fst (ents c ! i)
        \<Longrightarrow> (\<And>j. j < i \<Longrightarrow> fst (ents c ! j) < k) \<Longrightarrow>
        bc_Seek C k c = (Some (ents c ! i), snd (bc_Seek C k c)) \<and> pos (snd (bc_Seek C k c)) = Some i"
    and seek_none: "(\<And>kv. kv \<in> set (ents c) \<Longrightarrow> fst kv < k) \<Longrightarrow> fst (bc_Seek C k c) = None"
    and moves_keep_ents: "ents (snd (bc_First C c)) = ents c" "ents (snd (bc_Last C c)) = ents c"
        "ents (snd (bc_Next C c)) = ents c" "ents (snd (bc_Prev C c)) = ents c"
        "ents (snd (bc_Seek C k c)) = ents c"

text \<open>\<open>mv\<close> yields the pairs \<open>xs\<close> one after the other and then a nil key.\<close>

fun steps_along :: "('c \<Rightarrow> 'kv option \<times> 'c) \<Rightarrow> 'kv list \<Rightarrow> 'c \<Rightarrow> bool" where
  "steps_along mv [] c \<longleftrightarrow> fst (mv c) = None"
| "steps_along mv (x # xs) c \<longleftrightarrow> fst (mv c) = Some x \<and> steps_along mv xs (snd (mv c))"

lemma move_N_along:
  "steps_along mv xs c \<Longrightarrow> fst (move_N mv n docs c) =
     (fold (\<lambda>(k, v) m. mput k v m) (take n xs) docs, n \<le> length xs)"
proof (induction n arbitrary: xs c docs)
  case 0
  then show ?case by simp
next
  case (Suc n)
  obtain kv c' where mv: "mv c = (kv, c')" by fastforce
  with Suc.prems Suc.IH [of _ c'] show ?case by (cases xs) (auto split: prod.splits)
qed

lemma fold_mput_map_of: "map_of (fold (\<lambda>(k, v) m. mput k v m) xs docs) = mput_all xs (map_of docs)"
  by (induction xs arbitrary: docs) (auto simp: gomap_simps)

lemma wf_map_take: "wf_map m \<Longrightarrow> wf_map (take n m)"
  by (simp add: wf_map_def flip: take_map)

lemma wf_map_drop: "wf_map m \<Longrightarrow> wf_map (drop n m)"
  by (simp add: wf_map_def flip: drop_map)

lemma wf_map_rev: "wf_map m \<Longrightarrow> wf_map (rev m)"
  by (simp add: wf_map_def rev_map [symmetric])

lemma move_N_docs:
  assumes "steps_along mv xs c" and "wf_map xs"
  shows "map_of (fst (fst (move_N mv n [] c))) = map_of (take n xs)"
  using move_N_along [OF assms(1), of n "[]"] mput_all_conv [OF wf_map_take [OF assms(2)], of n Map.empty]
  by (simp add: fold_mput_map_of)

context bbolt_cursor
begin

lemma next_along_None: "pos c = None \<Longrightarrow> steps_along (bc_Next C) [] c"
  by (simp add: next_end)

lemma next_along: "pos c = Some i \<Longrightarrow> i < length (ents c) \<Longrightarrow> steps_along (bc_Next C) (drop (Suc i) (ents c)) c"
proof (induction "length (ents c) - Suc i" arbitrary: i c)
  case 0
  then show ?case by (simp add: next_end)
next
  case (Suc n)
  then have lt: "Suc i < length (ents c)" by simp
  note nx = next_entry [OF Suc.prems(1) lt]
  have "steps_along (bc_Next C) (drop (Suc (Suc i)) (ents c)) (snd (bc_Next C c))"
    using Suc.hyps(1) [of "snd (bc_Next C c)" "Suc i"] Suc.hyps(2) nx lt by (simp add: moves_keep_ents)
  moreover have "fst (bc_Next C c) = Some (ents c ! Suc i)" using nx by (metis fst_conv)
  ultimately show ?case using lt by (simp add: Cons_nth_drop_Suc [symmetric])
qed

lemma prev_along: "pos c = Some i \<Longrightarrow> i < length (ents c) \<Longrightarrow> steps_along (bc_Prev C) (rev (take i (ents c))) c"
proof (induction i arbitrary: c)
  case 0
  then show ?case by (simp add: prev_begin)
next
  case (Suc i)
  note pv = prev_entry [OF Suc.prems]
  have "steps_along (bc_Prev C) (rev (take i (ents c))) (snd (bc_Prev C c))"
    using Suc.IH [of "snd (bc_Prev C c)"] Suc.prems pv by (simp add: moves_keep_ents)
  moreover have "fst (bc_Prev C c) = Some (ents c ! i)" using pv by (metis fst_conv)
  ultimately show ?case using Suc.prems by (simp add: take_Suc_conv_app_nth)
qed

text \<open>The wrapper on a positioned cursor: a page forward and a page back.\<close>

lemma NextN_page:
  assumes "bc_cursor bbc = Some c" and "pos c = Some i" and "i < length (ents c)"
    and "BBoltCursor_NextN C n bbc = ((docs, rm), bbc')"
  shows "\<exists>m. docs = Some m \<and> map_of m = map_of (take n (drop (Suc i) (ents c)))"
    and "rm \<longleftrightarrow> i + n < length (ents c)"
proof -
  note along = next_along [OF assms(2,3)]
  obtain m r c' where mv: "move_N (bc_Next C) n [] c = ((m, r), c')" by (metis prod.exhaust)
  with assms(1,4) have "docs = Some m" "rm = r" by (auto simp: BBoltCursor_NextN_def)
  moreover have "r \<longleftrightarrow> n \<le> length (ents c) - Suc i" using move_N_along [OF along, of n "[]"] mv by auto
  moreover have "map_of m = map_of (take n (drop (Suc i) (ents c)))"
    using move_N_docs [OF along wf_map_drop [OF ents_distinct], of n] mv by simp
  ultimately show "\<exists>m. docs = Some m \<and> map_of m = map_of (take n (drop (Suc i) (ents c)))"
    and "rm \<longleftrightarrow> i + n < length (ents c)"
    using assms(3) by auto
qed

lemma PrevN_page:
  assumes "bc_cursor bbc = Some c" and "pos c = Some i" and "i < length (ents c)"
    and "BBoltCursor_PrevN C n bbc = ((docs, rm), bbc')"
  shows "\<exists>m. docs = Some m \<and> map_of m = map_of (take n (rev (take i (ents c))))"
    and "rm \<longleftrightarrow> n \<le> i"
proof -
  note along = prev_along [OF assms(2,3)]
  obtain m r c' where mv: "move_N (bc_Prev C) n [] c = ((m, r), c')" by (metis prod.exhaust)
  with assms(1,4) have "docs = Some m" "rm = r" by (auto simp: BBoltCursor_PrevN_def)
  moreover have "r \<longleftrightarrow> n \<le> i" using move_N_along [OF along, of n "[]"] mv assms(3) by auto
  moreover have "map_of m = map_of (take n (rev (take i (ents c))))"
    using move_N_docs [OF along wf_map_rev [OF wf_map_take [OF ents_distinct]], of n] mv by simp
  ultimately show "\<exists>m. docs = Some m \<and> map_of m = map_of (take n (rev (take i (ents c))))"
    and "rm \<longleftrightarrow> n \<le> i" by auto
qed

lemma NextN_unpositioned:
  assumes "bc_cursor bbc = Some c" and "pos c = None"
  shows "fst (BBoltCursor_NextN C (Suc n) bbc) = (Some [], False)"
proof -
  have "fst (bc_Next C c) = None" using assms(2) by (simp add: next_end)
  with assms(1) show ?thesis by (cases "bc_Next C c") (simp add: BBoltCursor_NextN_def)
qed

end

text \<open>bbolt with the cursors it hands out.\<close>

locale bbolt_full = bbolt_db B contents tcontents + bbolt_cursor C ents pos
  for B :: "('db, 'tx, 'c) bbolt" and contents :: "'db \<Rightarrow> string \<rightharpoonup> (string \<rightharpoonup> string)"
    and tcontents :: "'tx \<Rightarrow> string \<rightharpoonup> (string \<rightharpoonup> string)"
    and C :: "'c bbolt_cursor_api" and ents pos +
  assumes cursor_ents: "tcontents tx b = Some m \<Longrightarrow> map_of (ents (bb_Cursor B b tx)) = m"
    and cursor_unpositioned: "pos (bb_Cursor B b tx) = None"
begin

lemma BoltBucket_Cursor_entries:
  assumes "BoltBucket_Cursor B b ctx db = (Inr bbc, db')"
  shows "\<exists>c. bc_cursor bbc = Some c \<and> pos c = None \<and> map_of (ents c) = bucket_content contents db b"
proof -
  from assms obtain tx where tx: "bb_Begin B False db = Inr tx" "bb_Bucket B b tx"
      "bbc = NewBBoltCursor ctx b (Some (bb_Cursor B b tx))"
    by (auto simp: BoltBucket_Cursor_def split: sum.splits if_splits)
  obtain m where "tcontents tx b = Some m" using tx(2) bucket_iff by auto
  with cursor_ents begin_contents [OF tx(1)] tx(3) cursor_unpositioned show ?thesis
    by (auto simp: NewBBoltCursor_def bucket_content_def)
qed

end

end
