(* ===== verification/ListDB.thy ===== *)
theory ListDB
  imports BucketCursor
begin

text \<open>
  A concrete, executable database with bbolt's documented behaviour: buckets are maps of
  maps, a transaction is a copy with a writable flag, a cursor is the sorted list of pairs
  with a position. It interprets \<open>bbolt_full\<close>, so the laws assumed of bbolt are
  consistent, and the concrete examples of the development run on it.
\<close>

type_synonym ldb = "(string, (string, string) gomap) gomap"
type_synonym ltx = "bool \<times> ldb"
type_synonym lcur = "(string, string) gomap \<times> nat option"

definition ldb_contents :: "ldb \<Rightarrow> string \<rightharpoonup> (string \<rightharpoonup> string)" where
  "ldb_contents d b = map_option map_of (mget d b)"

definition ltx_contents :: "ltx \<Rightarrow> string \<rightharpoonup> (string \<rightharpoonup> string)" where
  "ltx_contents tx = ldb_contents (snd tx)"

definition lcur_ents :: "lcur \<Rightarrow> (string \<times> string) list" where
  "lcur_ents c = sort_key fst (AList.clearjunk (fst c))"

definition with_bucket ::
  "string \<Rightarrow> ltx \<Rightarrow> ((string, string) gomap \<Rightarrow> (string, string) gomap) \<Rightarrow> go_error + ltx" where
  "with_bucket b tx f =
     (if \<not> fst tx then Inl (ErrLib ''tx not writable'')
      else case mget (snd tx) b of
             None \<Rightarrow> Inl (ErrLib ''bucket not found'')
           | Some m \<Rightarrow> Inr (fst tx, mput b (f m) (snd tx)))"

definition list_bbolt :: "(ldb, ltx, lcur) bbolt" where
  "list_bbolt = \<lparr>
     bb_Begin = (\<lambda>w d. Inr (w, d)),
     bb_CreateBucketIfNotExists = (\<lambda>b tx.
       if b = [] then Inl (ErrLib ''bucket name required'')
       else if \<not> fst tx then Inl (ErrLib ''tx not writable'')
       else case mget (snd tx) b of None \<Rightarrow> Inr (fst tx, mput b [] (snd tx)) | Some _ \<Rightarrow> Inr tx),
     bb_Bucket = (\<lambda>b tx. mget (snd tx) b \<noteq> None),
     bb_Get = (\<lambda>b k tx. case mget (snd tx) b of None \<Rightarrow> None | Some m \<Rightarrow> mget m k),
     bb_Put = (\<lambda>b k v tx.
       if k = [] then Inl (ErrLib ''key required'')
       else if length k > 32768 then Inl (ErrLib ''key too large'')
       else with_bucket b tx (mput k v)),
     bb_Delete = (\<lambda>b k tx. with_bucket b tx (mdel k)),
     bb_Commit = (\<lambda>tx d. if fst tx then (None, snd tx) else (Some (ErrLib ''tx not writable''), d)),
     bb_Rollback = (\<lambda>tx d. d),
     bb_Cursor = (\<lambda>b tx. (case mget (snd tx) b of None \<Rightarrow> [] | Some m \<Rightarrow> m, None))\<rparr>"

definition lcur_at :: "lcur \<Rightarrow> nat option \<Rightarrow> (string \<times> string) option \<times> lcur" where
  "lcur_at c p =
     (case p of
        Some i \<Rightarrow> if i < length (lcur_ents c) then (Some (lcur_ents c ! i), (fst c, Some i)) else (None, c)
      | None \<Rightarrow> (None, c))"

fun index_from :: "('a \<Rightarrow> bool) \<Rightarrow> nat \<Rightarrow> 'a list \<Rightarrow> nat" where
  "index_from P n [] = n"
| "index_from P n (x # xs) = (if P x then n else index_from P (Suc n) xs)"

definition list_cursor :: "lcur bbolt_cursor_api" where
  "list_cursor = \<lparr>
     bc_First = (\<lambda>c. lcur_at c (Some 0)),
     bc_Last = (\<lambda>c. lcur_at c (Some (length (lcur_ents c) - 1))),
     bc_Next = (\<lambda>c. lcur_at c (map_option Suc (snd c))),
     bc_Prev = (\<lambda>c. lcur_at c (case snd c of Some (Suc i) \<Rightarrow> Some i | _ \<Rightarrow> None)),
     bc_Seek = (\<lambda>k c. lcur_at c (Some (index_from (\<lambda>kv. k \<le> fst kv) 0 (lcur_ents c))))\<rparr>"

lemma index_from_eq:
  "i < length xs \<Longrightarrow> P (xs ! i) \<Longrightarrow> (\<And>j. j < i \<Longrightarrow> \<not> P (xs ! j)) \<Longrightarrow> index_from P n xs = n + i"
proof (induction xs arbitrary: i n)
  case Nil
  then show ?case by simp
next
  case (Cons x xs)
  show ?case
  proof (cases i)
    case 0
    with Cons.prems show ?thesis by simp
  next
    case (Suc j)
    then have "\<not> P x" using Cons.prems(3) [of 0] by simp
    moreover have "index_from P (Suc n) xs = Suc n + j"
      using Cons.prems(1,2) Cons.prems(3) [of "Suc _"] Suc by (intro Cons.IH) auto
    ultimately show ?thesis using Suc by simp
  qed
qed

lemma index_from_none: "(\<And>x. x \<in> set xs \<Longrightarrow> \<not> P x) \<Longrightarrow> index_from P n xs = n + length xs"
  by (induction xs arbitrary: n) auto

lemma sort_key_map_of: "wf_map m \<Longrightarrow> map_of (sort_key fst m) = map_of m"
proof -
  assume wf: "wf_map m"
  have wf': "wf_map (sort_key fst m)"
    using wf by (simp add: wf_map_def distinct_map)
  have "map_of (sort_key fst m) k = Some v \<longleftrightarrow> map_of m k = Some v" for k v
    using mget_mem_iff [OF wf] mget_mem_iff [OF wf'] by simp
  then show ?thesis by (intro ext) (metis not_Some_eq)
qed

lemma lcur_wf: "wf_map (lcur_ents c)"
  using distinct_clearjunk [of "fst c"] by (simp add: lcur_ents_def wf_map_def distinct_map)

lemma lcur_map_of: "map_of (lcur_ents c) = map_of (fst c)"
  using sort_key_map_of [of "AList.clearjunk (fst c)"] distinct_clearjunk [of "fst c"]
  by (simp add: lcur_ents_def wf_map_def map_of_clearjunk)

lemma lcur_ents_fst: "lcur_ents (fst c, p) = lcur_ents c"
  by (simp add: lcur_ents_def)

lemmas list_db_defs = list_bbolt_def with_bucket_def ldb_contents_def ltx_contents_def
lemmas list_cursor_defs = list_cursor_def lcur_at_def lcur_ents_fst

interpretation ldb: bbolt_db list_bbolt ldb_contents ltx_contents
  by unfold_locales
    (auto simp: list_db_defs fun_eq_iff gomap_simps split: if_splits option.splits)

interpretation lcur: bbolt_cursor list_cursor lcur_ents snd
proof unfold_locales
  fix c :: lcur and i k
  assume "i < length (lcur_ents c)" "k \<le> fst (lcur_ents c ! i)" "\<And>j. j < i \<Longrightarrow> fst (lcur_ents c ! j) < k"
  then show "bc_Seek list_cursor k c = (Some (lcur_ents c ! i), snd (bc_Seek list_cursor k c))
      \<and> snd (snd (bc_Seek list_cursor k c)) = Some i"
    using index_from_eq [of i "lcur_ents c" "\<lambda>kv. k \<le> fst kv" 0]
    by (simp add: list_cursor_defs linorder_not_le)
next
  fix c :: lcur and k
  assume "\<And>kv. kv \<in> set (lcur_ents c) \<Longrightarrow> fst kv < k"
  then show "fst (bc_Seek list_cursor k c) = None"
    using index_from_none [of "lcur_ents c" "\<lambda>kv. k \<le> fst kv" 0]
    by (simp add: list_cursor_defs linorder_not_le)
next
  fix c :: lcur
  show "sorted (map fst (lcur_ents c))" by (simp add: lcur_ents_def)
qed (auto simp: list_cursor_defs lcur_wf hd_conv_nth last_conv_nth split: option.splits nat.splits)

interpretation lfull: bbolt_full list_bbolt ldb_contents ltx_contents list_cursor lcur_ents snd
proof unfold_locales
  fix tx b m
  assume "ltx_contents tx b = Some m"
  then show "map_of (lcur_ents (bb_Cursor list_bbolt b tx)) = m"
    by (auto simp: lcur_map_of list_db_defs)
qed (simp add: list_db_defs)

end
