(* ===== verification/BucketProps.thy ===== *)
theory BucketProps
  imports ListDB
begin

text \<open>
  The properties of the bucket store that its users rely on, for every database with bbolt's
  documented behaviour; each has an example on the list database.
\<close>

abbreviation demo_db :: ldb where
  "demo_db \<equiv> [(''b'', [(''k2'', ''two''), (''k1'', ''one''), (''k3'', ''three'')])]"

text \<open>
  C21. \<open>BoltBucket.SetMultiple\<close> is all or nothing: when it succeeds the bucket holds the old
  pairs overridden by the batch, when it fails the store is unchanged, and no other bucket is
  touched either way. A batch that contains the empty key always fails.
\<close>

theorem SetMultiple_all_or_nothing:
  assumes "bbolt_db B contents tcontents" and "wf_map docs"
    and "BoltBucket_SetMultiple B b docs db = (e, db')"
  shows "bucket_content contents db' b' =
           (if e = None \<and> b' = b then bucket_content contents db b ++ map_of docs
            else bucket_content contents db b')
         \<and> ([] \<in> fst ` set docs \<longrightarrow> e \<noteq> None)"
  using ibucket_store.setm_all_or_nothing [OF bbolt_db.bucket_contract [OF assms(1)] assms(2,3)]
    ibucket_store.setm_empty_key_rejected [OF bbolt_db.bucket_contract [OF assms(1)] _ assms(3)]
  by simp

theorem SetMultiple_all_or_nothing_witness:
  "bucket_content ldb_contents (snd (BoltBucket_SetMultiple list_bbolt ''b''
      [(''k9'', ''x''), ([], ''y'')] demo_db)) ''b'' = bucket_content ldb_contents demo_db ''b''"
proof -
  have "wf_map [(''k9'', ''x''), ([], ''y'')]" by (simp add: wf_map_def)
  from SetMultiple_all_or_nothing [OF ldb.bbolt_db_axioms this surjective_pairing, of "''b''" demo_db "''b''"]
  show ?thesis by (auto split: if_splits)
qed

text \<open>
  Read your writes: after a successful \<open>Set\<close>, a \<open>Get\<close> that succeeds returns the value just
  written for that bucket and key, and the old value for every other bucket or key.
\<close>

lemma Set_then_Get:
  assumes "bbolt_db B contents tcontents"
    and "BoltBucket_Set B b k v db = (None, db1)" and "BoltBucket_Get B b' k' db1 = (r, None, db2)"
  shows "r = (if b' = b \<and> k' = k then Some v else bucket_content contents db b' k')"
proof -
  have "r = bucket_content contents db1 b' k'"
    using bbolt_db.BoltBucket_Get_cases(2) [OF assms(1,3)] by auto
  then show ?thesis
    using ibucket_store.set_ok [OF bbolt_db.bucket_contract [OF assms(1)] assms(2)] by simp
qed

text \<open>
  What \<open>BoltBucket.Get\<close> answers once its transaction is open: the value of a stored key; the
  error ``key not found'' for an unknown key of an existing bucket; but no value and no
  error when the bucket itself was never written. The store is unchanged.
\<close>

lemma Get_answers:
  assumes "bbolt_db B contents tcontents" and "bb_Begin B False db = Inr tx"
    and "BoltBucket_Get B b k db = (r, e, db')"
  shows "contents db' = contents db
    \<and> (r, e) = (case contents db b of
         None \<Rightarrow> (None, None)
       | Some m \<Rightarrow> (case m k of Some v \<Rightarrow> (Some v, None) | None \<Rightarrow> (None, Some (ErrKeyNotFound k))))"
proof
  show "contents db' = contents db" by (rule bbolt_db.BoltBucket_Get_cases(1) [OF assms(1,3)])
  have tc: "tcontents tx = contents db" by (rule bbolt_db.begin_contents [OF assms(1,2)])
  have "bb_Bucket B b tx \<longleftrightarrow> contents db b \<noteq> None"
    using bbolt_db.bucket_iff [OF assms(1)] tc by simp
  moreover have "bb_Get B b k tx = m k" if "contents db b = Some m" for m
    using bbolt_db.get_contents [OF assms(1)] tc that by simp
  ultimately show "(r, e) = (case contents db b of
         None \<Rightarrow> (None, None)
       | Some m \<Rightarrow> (case m k of Some v \<Rightarrow> (Some v, None) | None \<Rightarrow> (None, Some (ErrKeyNotFound k))))"
    using assms(2,3) unfolding BoltBucket_Get_def BoltBucket_bucketTransaction_def
    by (auto split: option.splits)
qed

lemma Get_answers_witness:
  "fst (BoltBucket_Get list_bbolt ''other'' ''k1'' demo_db) = None
   \<and> fst (snd (BoltBucket_Get list_bbolt ''other'' ''k1'' demo_db)) = None
   \<and> fst (snd (BoltBucket_Get list_bbolt ''b'' ''k7'' demo_db)) = Some (ErrKeyNotFound ''k7'')"
proof -
  have "bb_Begin list_bbolt False demo_db = Inr (False, demo_db)" by (simp add: list_bbolt_def)
  note g = Get_answers [OF ldb.bbolt_db_axioms this surjective3]
  from g [of "''other''" "''k1''"] g [of "''b''" "''k7''"]
  show ?thesis by (simp add: ldb_contents_def)
qed

text \<open>
  Paging: a cursor walks the pairs of its bucket in byte order of the keys. After \<open>First\<close>,
  \<open>NextN n\<close> returns exactly the \<open>n\<close> pairs that follow (fewer at the end), and its flag says
  whether \<open>n\<close> of them existed.
\<close>

lemma First_NextN_page:
  assumes "bbolt_full B contents tcontents C ents pos"
    and "BoltBucket_Cursor B b ctx db = (Inr bbc, db')"
    and "BBoltCursor_First C bbc = ((k, v, True), bbc1)"
    and "BBoltCursor_NextN C n bbc1 = ((docs, rm), bbc2)"
  shows "\<exists>es m. sorted (map fst es) \<and> distinct (map fst es) \<and> map_of es = bucket_content contents db b
    \<and> es \<noteq> [] \<and> hd es = (k, the v) \<and> docs = Some m \<and> map_of m = map_of (take n (tl es))
    \<and> (rm \<longleftrightarrow> n < length es)"
proof -
  note fl = assms(1)
  note cu = bbolt_full.axioms(2) [OF fl]
  obtain c where c: "bc_cursor bbc = Some c" "map_of (ents c) = bucket_content contents db b"
    using bbolt_full.BoltBucket_Cursor_entries [OF fl assms(2)] by auto
  have ne: "ents c \<noteq> []"
    using assms(3) c(1) bbolt_cursor.first_empty [OF cu, of c]
    by (auto simp: bbolt_cursor_defs split: prod.splits option.splits)
  let ?c1 = "snd (bc_First C c)"
  have f: "bc_First C c = (Some (hd (ents c)), ?c1)" "pos ?c1 = Some 0" "ents ?c1 = ents c"
    using bbolt_cursor.first_entry [OF cu ne] bbolt_cursor.moves_keep_ents(1) [OF cu] by auto
  have b1: "bc_cursor bbc1 = Some ?c1" and hd: "hd (ents c) = (k, the v)"
    using assms(3) c(1) f(1) by (auto simp: bbolt_cursor_defs split: prod.splits)
  from bbolt_cursor.NextN_page [OF cu b1 f(2) _ assms(4)] f(3) ne
  have "\<exists>m. docs = Some m \<and> map_of m = map_of (take n (tl (ents c)))" "rm \<longleftrightarrow> n < length (ents c)"
    by (auto simp: drop_Suc)
  then show ?thesis
    using c(2) ne hd bbolt_cursor.ents_sorted [OF cu, of c] bbolt_cursor.ents_distinct [OF cu, of c]
    unfolding wf_map_def by blast
qed

lemma First_NextN_page_witness:
  "\<exists>es m. sorted (map fst es) \<and> distinct (map fst es)
    \<and> map_of es = bucket_content ldb_contents demo_db ''b''
    \<and> es \<noteq> [] \<and> hd es = (''k1'', ''one'') \<and> map_of m = map_of (take 1 (tl es)) \<and> 1 < length es"
proof -
  let ?c = "([(''k2'', ''two''), (''k1'', ''one''), (''k3'', ''three'')], None) :: lcur"
  let ?bbc = "NewBBoltCursor None ''b'' (Some ?c)"
  let ?bbc1 = "NewBBoltCursor None ''b'' (Some (fst ?c, Some 0))"
  have cur: "BoltBucket_Cursor list_bbolt ''b'' None demo_db = (Inr ?bbc, demo_db)"
    by (simp add: BoltBucket_Cursor_def list_bbolt_def)
  have fst1: "BBoltCursor_First list_cursor ?bbc = ((''k1'', Some ''one'', True), ?bbc1)"
    by code_simp
  have nxt: "BBoltCursor_NextN list_cursor 1 ?bbc1 =
      ((Some [(''k2'', ''two'')], True), NewBBoltCursor None ''b'' (Some (fst ?c, Some 1)))"
    by code_simp
  from First_NextN_page [OF lfull.bbolt_full_axioms cur fst1 nxt] show ?thesis by auto
qed

end
