(* ===== verification/IBucketStore.thy ===== *)
theory IBucketStore
  imports ListDB
begin

text \<open>
  The interface of \<open>done_tool/buckets/IBucketStore.go\<close> as the services see it: a record with
  the methods of \<open>IBucketStore\<close>, \<open>IBucket\<close> and \<open>IBucketCursor\<close> over a store state \<open>'s\<close> and
  cursor objects \<open>'cur\<close>. The service definitions take such a record, as the Go code takes the
  interface. \<open>bucket_service\<close> is the contract the services rely on; \<open>BoltStore\<close> over any bbolt
  meets it.
\<close>

record ('s, 'cur) IBucketStore =
  st_GetBucket :: "string \<Rightarrow> 's \<Rightarrow> 's"
  bk_Close :: "string \<Rightarrow> 's \<Rightarrow> go_error option \<times> 's"
  bk_Cursor :: "string \<Rightarrow> string option \<Rightarrow> 's \<Rightarrow> (go_error + 'cur) \<times> 's"
  bk_Delete :: "string \<Rightarrow> string \<Rightarrow> 's \<Rightarrow> go_error option \<times> 's"
  bk_Get :: "string \<Rightarrow> string \<Rightarrow> 's \<Rightarrow> string option \<times> go_error option \<times> 's"
  bk_GetMultiple :: "string \<Rightarrow> string list \<Rightarrow> 's \<Rightarrow> (string, string) gomap \<times> go_error option \<times> 's"
  bk_Set :: "string \<Rightarrow> string \<Rightarrow> string \<Rightarrow> 's \<Rightarrow> go_error option \<times> 's"
  bk_SetMultiple :: "string \<Rightarrow> (string, string) gomap \<Rightarrow> 's \<Rightarrow> go_error option \<times> 's"
  cu_BucketID :: "'cur \<Rightarrow> string"
  cu_Context :: "'cur \<Rightarrow> string option"
  cu_First :: "'cur \<Rightarrow> (string \<times> string option \<times> bool) \<times> 'cur"
  cu_Last :: "'cur \<Rightarrow> (string \<times> string option \<times> bool) \<times> 'cur"
  cu_Next :: "'cur \<Rightarrow> (string \<times> string option \<times> bool) \<times> 'cur"
  cu_NextN :: "nat \<Rightarrow> 'cur \<Rightarrow> ((string, string) gomap option \<times> bool) \<times> 'cur"
  cu_Prev :: "'cur \<Rightarrow> (string \<times> string option \<times> bool) \<times> 'cur"
  cu_PrevN :: "nat \<Rightarrow> 'cur \<Rightarrow> ((string, string) gomap option \<times> bool) \<times> 'cur"
  cu_Release :: "'cur \<Rightarrow> 'cur"
  cu_Seek :: "string \<Rightarrow> 'cur \<Rightarrow> (string \<times> string option \<times> bool) \<times> 'cur"

section \<open>BoltStore as an IBucketStore\<close>

definition on_db :: "('db \<Rightarrow> 'r \<times> 'db) \<Rightarrow> 'db BoltStore \<Rightarrow> 'r \<times> 'db BoltStore" where
  "on_db f st = (case f (boltDB st) of (r, db) \<Rightarrow> (r, st\<lparr>boltDB := db\<rparr>))"

definition on_db2 :: "('db \<Rightarrow> 'r \<times> 'q \<times> 'db) \<Rightarrow> 'db BoltStore \<Rightarrow> 'r \<times> 'q \<times> 'db BoltStore" where
  "on_db2 f st = (case f (boltDB st) of (r, q, db) \<Rightarrow> (r, q, st\<lparr>boltDB := db\<rparr>))"

definition BoltStore_iface ::
  "('db, 'tx, 'c) bbolt \<Rightarrow> 'c bbolt_cursor_api \<Rightarrow> ('db BoltStore, 'c BBoltCursor) IBucketStore" where
  "BoltStore_iface B C = \<lparr>
     st_GetBucket = (\<lambda>b st. snd (BoltStore_GetBucket b st)),
     bk_Close = (\<lambda>b. BoltBucket_Close),
     bk_Cursor = (\<lambda>b ctx. on_db (BoltBucket_Cursor B b ctx)),
     bk_Delete = (\<lambda>b k. on_db (BoltBucket_Delete B b k)),
     bk_Get = (\<lambda>b k. on_db2 (BoltBucket_Get B b k)),
     bk_GetMultiple = (\<lambda>b ks. on_db2 (BoltBucket_GetMultiple B b ks)),
     bk_Set = (\<lambda>b k v. on_db (BoltBucket_Set B b k v)),
     bk_SetMultiple = (\<lambda>b docs. on_db (BoltBucket_SetMultiple B b docs)),
     cu_BucketID = bc_bucketID,
     cu_Context = bc_ctx,
     cu_First = BBoltCursor_First C,
     cu_Last = BBoltCursor_Last C,
     cu_Next = BBoltCursor_Next C,
     cu_NextN = BBoltCursor_NextN C,
     cu_Prev = BBoltCursor_Prev C,
     cu_PrevN = BBoltCursor_PrevN C,
     cu_Release = BBoltCursor_Release,
     cu_Seek = BBoltCursor_Seek C\<rparr>"

section \<open>The contract the services rely on\<close>

text \<open>The store operations: opening and closing a bucket does not change what is stored.\<close>

locale bucket_service =
  ibucket_store content "bk_Get S" "bk_GetMultiple S" "bk_Set S" "bk_SetMultiple S" "bk_Delete S"
  for S :: "('s, 'cur) IBucketStore" and content :: "'s \<Rightarrow> string \<Rightarrow> string \<rightharpoonup> string" +
  assumes getbucket_content: "content (st_GetBucket S b s) = content s"
    and close_content: "content (snd (bk_Close S b s)) = content s"
    and close_no_error: "fst (bk_Close S b s) = None"
    and cursor_frame: "bk_Cursor S b ctx s = (r, s') \<Longrightarrow> content s' = content s"

text \<open>
  The cursors: pairs in key order, a position once \<open>First\<close>, \<open>Last\<close> or \<open>Seek\<close> succeeded, and the
  bucket ID and context they were made with.
\<close>

locale bucket_cursors =
  fixes S :: "('s, 'cur) IBucketStore"
    and cents :: "'cur \<Rightarrow> (string \<times> string) list"
    and cpos :: "'cur \<Rightarrow> nat option"
  assumes cents_sorted: "sorted (map fst (cents c))"
    and cents_distinct: "wf_map (cents c)"
    and cfirst_empty: "cents c = [] \<Longrightarrow> \<not> snd (snd (fst (cu_First S c)))"
    and cfirst: "cents c = (k, v) # es \<Longrightarrow> fst (cu_First S c) = (k, Some v, True)
        \<and> cpos (snd (cu_First S c)) = Some 0"
    and clast_empty: "cents c = [] \<Longrightarrow> \<not> snd (snd (fst (cu_Last S c)))"
    and clast: "cents c = es @ [(k, v)] \<Longrightarrow> fst (cu_Last S c) = (k, Some v, True)
        \<and> cpos (snd (cu_Last S c)) = Some (length es)"
    and cnext: "cpos c = Some i \<Longrightarrow> Suc i < length (cents c) \<Longrightarrow> cents c ! Suc i = (k, v) \<Longrightarrow>
        fst (cu_Next S c) = (k, Some v, True) \<and> cpos (snd (cu_Next S c)) = Some (Suc i)"
    and cnext_end: "cpos c = None \<or> cpos c = Some i \<and> length (cents c) \<le> Suc i \<Longrightarrow>
        fst (cu_Next S c) = ([], None, False)"
    and cprev: "cpos c = Some (Suc i) \<Longrightarrow> Suc i < length (cents c) \<Longrightarrow> cents c ! i = (k, v) \<Longrightarrow>
        fst (cu_Prev S c) = (k, Some v, True) \<and> cpos (snd (cu_Prev S c)) = Some i"
    and cprev_begin: "cpos c = None \<or> cpos c = Some 0 \<Longrightarrow> fst (cu_Prev S c) = ([], None, False)"
    and cmoves_keep: "cents (snd (cu_First S c)) = cents c" "cents (snd (cu_Last S c)) = cents c"
        "cents (snd (cu_Next S c)) = cents c" "cents (snd (cu_Prev S c)) = cents c"
        "cents (snd (cu_Seek S sk c)) = cents c"
    and cmoves_id: "cu_BucketID S (snd (cu_First S c)) = cu_BucketID S c"
        "cu_BucketID S (snd (cu_Last S c)) = cu_BucketID S c"
        "cu_BucketID S (snd (cu_Next S c)) = cu_BucketID S c"
        "cu_BucketID S (snd (cu_Prev S c)) = cu_BucketID S c"
        "cu_BucketID S (snd (cu_Seek S sk c)) = cu_BucketID S c"
    and cmoves_context: "cu_Context S (snd (cu_First S c)) = cu_Context S c"
        "cu_Context S (snd (cu_Next S c)) = cu_Context S c"
    and cnextN_unpositioned: "cpos c = None \<Longrightarrow> n > 0 \<Longrightarrow>
        \<exists>docs. fst (cu_NextN S n c) = (docs, False) \<and> (docs = None \<or> docs = Some [])
           \<and> cpos (snd (cu_NextN S n c)) = None"

text \<open>A cursor of a bucket has the pairs of that bucket and no position yet.\<close>

locale bucket_service_cursors = bucket_service S content + bucket_cursors S cents cpos
  for S :: "('s, 'cur) IBucketStore" and content cents cpos +
  assumes cursor_content: "bk_Cursor S b ctx s = (Inr c, s') \<Longrightarrow>
      map_of (cents c) = content s b \<and> cpos c = None \<and> cu_BucketID S c = b \<and> cu_Context S c = ctx"

section \<open>BoltStore meets it\<close>

definition wrap_ents :: "('c \<Rightarrow> (string \<times> string) list) \<Rightarrow> 'c BBoltCursor \<Rightarrow> (string \<times> string) list" where
  "wrap_ents ents bbc = (case bc_cursor bbc of None \<Rightarrow> [] | Some c \<Rightarrow> ents c)"

definition wrap_pos :: "('c \<Rightarrow> nat option) \<Rightarrow> 'c BBoltCursor \<Rightarrow> nat option" where
  "wrap_pos pos bbc = Option.bind (bc_cursor bbc) pos"

definition store_content ::
  "('db \<Rightarrow> string \<rightharpoonup> (string \<rightharpoonup> string)) \<Rightarrow> 'db BoltStore \<Rightarrow> string \<Rightarrow> string \<rightharpoonup> string" where
  "store_content contents st = bucket_content contents (boltDB st)"

lemma on_db_eq: "on_db f st = (r, st') \<longleftrightarrow> (\<exists>db. f (boltDB st) = (r, db) \<and> st' = st\<lparr>boltDB := db\<rparr>)"
  by (auto simp: on_db_def split: prod.splits)

lemma on_db2_eq:
  "on_db2 f st = (r, q, st') \<longleftrightarrow> (\<exists>db. f (boltDB st) = (r, q, db) \<and> st' = st\<lparr>boltDB := db\<rparr>)"
  by (auto simp: on_db2_def split: prod.splits)

lemmas wrap_defs = wrap_ents_def wrap_pos_def

context bbolt_db
begin

lemma store_contract:
  "bucket_service (BoltStore_iface B C) (store_content contents)"
proof unfold_locales
  fix b k v r e s s'
  assume "store_content contents s b k = Some v" "bk_Get (BoltStore_iface B C) b k s = (r, e, s')"
  then show "r = Some v \<and> e = None \<or> r = None \<and> e \<noteq> None"
    using get_hit by (fastforce simp: BoltStore_iface_def store_content_def on_db2_eq)
next
  fix b v s
  show "\<exists>err s'. bk_Set (BoltStore_iface B C) b [] v s = (Some err, s')"
    using set_key_required [of b v "boltDB s"] by (auto simp: BoltStore_iface_def on_db_eq)
next
  fix docs b s
  assume "[] \<in> fst ` set (docs :: (string, string) gomap)"
  then show "\<exists>err s'. bk_SetMultiple (BoltStore_iface B C) b docs s = (Some err, s')"
    using setm_key_required [of docs b "boltDB s"] by (auto simp: BoltStore_iface_def on_db_eq)
next
  fix b ctx s r s'
  assume "bk_Cursor (BoltStore_iface B C) b ctx s = (r, s')"
  then show "store_content contents s' = store_content contents s"
    using bucket_content_cong [OF rollback_contents]
    by (auto simp: BoltStore_iface_def store_content_def on_db_eq BoltBucket_Cursor_def
        split: sum.splits if_splits)
qed (auto simp: BoltStore_iface_def store_content_def on_db_eq on_db2_eq BoltBucket_Close_def
      BoltStore_GetBucket_def BoltStore_onBucketReleased_def
      dest: get_frame get_some getm_frame getm_docs set_ok set_failed setm_ok setm_failed
        delete_ok delete_failed)

end

context bbolt_cursor
begin

lemma move_keeps:
  assumes "\<And>c. ents (snd (mv c)) = ents c"
  shows "wrap_ents ents (snd (cursor_move mv bbc)) = wrap_ents ents bbc"
    and "bc_bucketID (snd (cursor_move mv bbc)) = bc_bucketID bbc"
  using assms by (auto simp: wrap_ents_def cursor_move_def split: option.splits prod.splits)
    (metis snd_conv)

lemma move_context: "bc_ctx (snd (cursor_move mv bbc)) = bc_ctx bbc"
  by (auto simp: cursor_move_def split: option.splits prod.splits)

lemma move_some:
  assumes "bc_cursor bbc = Some c" and "mv c = (Some (k, v), c')"
  shows "cursor_move mv bbc = ((k, Some v, True), bbc\<lparr>bc_cursor := Some c'\<rparr>)"
  using assms by (simp add: cursor_move_def cursor_result_def)

lemma move_none:
  "(\<And>c. bc_cursor bbc = Some c \<Longrightarrow> fst (mv c) = None) \<Longrightarrow> fst (cursor_move mv bbc) = ([], None, False)"
  by (auto simp: cursor_move_def cursor_result_def split: option.splits prod.splits)

lemma NextN_unpositioned_wrap:
  assumes "wrap_pos pos bbc = None" and "n > 0"
  shows "\<exists>docs. fst (BBoltCursor_NextN C n bbc) = (docs, False) \<and> (docs = None \<or> docs = Some [])
    \<and> wrap_pos pos (snd (BBoltCursor_NextN C n bbc)) = None"
proof (cases "bc_cursor bbc")
  case None
  then show ?thesis by (simp add: BBoltCursor_NextN_def wrap_pos_def)
next
  case (Some c)
  with assms(1) have "pos c = None" by (simp add: wrap_pos_def)
  with next_end [of c] next_unpositioned [of c]
  obtain c' where "bc_Next C c = (None, c')" "pos c' = None" by (cases "bc_Next C c") auto
  with Some assms(2) show ?thesis
    by (cases n) (simp_all add: BBoltCursor_NextN_def wrap_pos_def)
qed

lemma cursor_contract:
  "bucket_cursors (BoltStore_iface B C) (wrap_ents ents) (wrap_pos pos)"
proof (unfold_locales, goal_cases)
  case (1 bbc)
  then show ?case by (simp add: wrap_ents_def ents_sorted split: option.splits)
next
  case (2 bbc)
  then show ?case by (simp add: wrap_ents_def ents_distinct split: option.splits)
next
  case (3 bbc)
  then show ?case
    using move_none [of bbc "bc_First C"] first_empty
    by (auto simp: BoltStore_iface_def BBoltCursor_First_def wrap_ents_def split: option.splits)
next
  case (4 bbc k v es)
  then obtain c where c: "bc_cursor bbc = Some c" "ents c = (k, v) # es"
    by (auto simp: wrap_ents_def split: option.splits)
  with first_entry [of c] have "bc_First C c = (Some (k, v), snd (bc_First C c))"
      "pos (snd (bc_First C c)) = Some 0" by auto
  with move_some [OF c(1), of "bc_First C"] show ?case
    by (auto simp: BoltStore_iface_def BBoltCursor_First_def wrap_pos_def)
next
  case (5 bbc)
  then show ?case
    using move_none [of bbc "bc_Last C"] last_empty
    by (auto simp: BoltStore_iface_def BBoltCursor_Last_def wrap_ents_def split: option.splits)
next
  case (6 bbc es k v)
  then obtain c where c: "bc_cursor bbc = Some c" "ents c = es @ [(k, v)]"
    by (auto simp: wrap_ents_def split: option.splits)
  with last_entry [of c] have "bc_Last C c = (Some (k, v), snd (bc_Last C c))"
      "pos (snd (bc_Last C c)) = Some (length es)" by auto
  with move_some [OF c(1), of "bc_Last C"] show ?case
    by (auto simp: BoltStore_iface_def BBoltCursor_Last_def wrap_pos_def)
next
  case (7 bbc i k v)
  then obtain c where c: "bc_cursor bbc = Some c" "pos c = Some i" "Suc i < length (ents c)"
      "ents c ! Suc i = (k, v)"
    by (cases "bc_cursor bbc") (auto simp: wrap_defs)
  with next_entry [OF c(2,3)] have "bc_Next C c = (Some (k, v), snd (bc_Next C c))"
      "pos (snd (bc_Next C c)) = Some (Suc i)" by auto
  with move_some [OF c(1), of "bc_Next C"] show ?case
    by (auto simp: BoltStore_iface_def BBoltCursor_Next_def wrap_pos_def)
next
  case (8 bbc i)
  then show ?case
    using move_none [of bbc "bc_Next C"] next_end
    by (fastforce simp: BoltStore_iface_def BBoltCursor_Next_def wrap_defs)
next
  case (9 bbc i k v)
  then obtain c where c: "bc_cursor bbc = Some c" "pos c = Some (Suc i)" "Suc i < length (ents c)"
      "ents c ! i = (k, v)"
    by (cases "bc_cursor bbc") (auto simp: wrap_defs)
  with prev_entry [OF c(2,3)] have "bc_Prev C c = (Some (k, v), snd (bc_Prev C c))"
      "pos (snd (bc_Prev C c)) = Some i" by auto
  with move_some [OF c(1), of "bc_Prev C"] show ?case
    by (auto simp: BoltStore_iface_def BBoltCursor_Prev_def wrap_pos_def)
next
  case (10 bbc)
  then show ?case
    using move_none [of bbc "bc_Prev C"] prev_begin
    by (fastforce simp: BoltStore_iface_def BBoltCursor_Prev_def wrap_defs)
qed (auto simp: BoltStore_iface_def bbolt_cursor_defs(1-5) move_keeps move_context moves_keep_ents
       NextN_unpositioned_wrap)

end

context bbolt_full
begin

lemma store_cursor_contract:
  "bucket_service_cursors (BoltStore_iface B C) (store_content contents) (wrap_ents ents) (wrap_pos pos)"
proof (intro bucket_service_cursors.intro store_contract cursor_contract
    bucket_service_cursors_axioms.intro)
  fix b ctx s c s'
  assume "bk_Cursor (BoltStore_iface B C) b ctx s = (Inr c, s')"
  then obtain db where cur: "BoltBucket_Cursor B b ctx (boltDB s) = (Inr c, db)"
    by (auto simp: BoltStore_iface_def on_db_eq)
  then have "bc_bucketID c = b" "bc_ctx c = ctx"
    by (auto simp: BoltBucket_Cursor_def NewBBoltCursor_def split: sum.splits if_splits)
  with BoltBucket_Cursor_entries [OF cur]
  show "map_of (wrap_ents ents c) = store_content contents s b \<and> wrap_pos pos c = None
      \<and> cu_BucketID (BoltStore_iface B C) c = b \<and> cu_Context (BoltStore_iface B C) c = ctx"
    by (auto simp: wrap_defs store_content_def BoltStore_iface_def)
qed

end

text \<open>The concrete store: the list database behind \<open>BoltStore\<close>.\<close>

abbreviation list_store :: "(ldb BoltStore, lcur BBoltCursor) IBucketStore" where
  "list_store \<equiv> BoltStore_iface list_bbolt list_cursor"

interpretation ls: bucket_service_cursors list_store "store_content ldb_contents"
    "wrap_ents lcur_ents" "wrap_pos snd"
  by (rule lfull.store_cursor_contract)

end
