(* ===== verification/StateService.thy ===== *)
theory StateService
  imports IBucketStore
begin

text \<open>
  Model of \<open>done_mod/mod_state/state_srv/StateService.go\<close>: a key-value store per client. Every
  handler opens the bucket named after the sender, runs one bucket operation and closes the
  bucket again. The handlers take the sender ID of the request context and the store's
  interface; \<open>StateService_handle\<close> is the dispatch over the registered methods.
\<close>

section \<open>Requests and handlers\<close>

datatype state_request =
    DeleteRequest string
  | GetRequest string
  | GetMultipleRequest "string list"
  | SetRequest string string
  | SetMultipleRequest "(string, string) gomap"

record GetResp =
  gr_Key :: string
  gr_Found :: bool
  gr_Value :: string

datatype state_response = NoResponse | GotOne GetResp | GotMultiple "(string, string) gomap"

definition StateService_Delete ::
  "('s, 'cur) IBucketStore \<Rightarrow> string \<Rightarrow> string \<Rightarrow> 's \<Rightarrow> go_error option \<times> 's" where
  "StateService_Delete S senderID key s =
     (let s1 = st_GetBucket S senderID s;
          (err, s2) = bk_Delete S senderID key s1;
          (_, s3) = bk_Close S senderID s2
      in (err, s3))"

definition StateService_Get ::
  "('s, 'cur) IBucketStore \<Rightarrow> string \<Rightarrow> string \<Rightarrow> 's \<Rightarrow> GetResp \<times> go_error option \<times> 's" where
  "StateService_Get S senderID key s =
     (let s1 = st_GetBucket S senderID s;
          (value, err, s2) = bk_Get S senderID key s1;
          resp = \<lparr>gr_Key = key, gr_Found = (err = None),
                  gr_Value = (case value of None \<Rightarrow> [] | Some v \<Rightarrow> v)\<rparr>;
          (err2, s3) = bk_Close S senderID s2
      in (resp, if err = None then err2 else err, s3))"

definition StateService_GetMultiple ::
  "('s, 'cur) IBucketStore \<Rightarrow> string \<Rightarrow> string list \<Rightarrow> 's
     \<Rightarrow> (string, string) gomap \<times> go_error option \<times> 's" where
  "StateService_GetMultiple S senderID keys s =
     (let s1 = st_GetBucket S senderID s;
          (kv, _, s2) = bk_GetMultiple S senderID keys s1;
          (err, s3) = bk_Close S senderID s2
      in (kv, err, s3))"

definition StateService_Set ::
  "('s, 'cur) IBucketStore \<Rightarrow> string \<Rightarrow> string \<Rightarrow> string \<Rightarrow> 's \<Rightarrow> go_error option \<times> 's" where
  "StateService_Set S senderID key value s =
     (let s1 = st_GetBucket S senderID s;
          (err, s2) = bk_Set S senderID key value s1;
          (_, s3) = bk_Close S senderID s2
      in (err, s3))"

definition StateService_SetMultiple ::
  "('s, 'cur) IBucketStore \<Rightarrow> string \<Rightarrow> (string, string) gomap \<Rightarrow> 's \<Rightarrow> go_error option \<times> 's" where
  "StateService_SetMultiple S senderID kv s =
     (let s1 = st_GetBucket S senderID s;
          (err, s2) = bk_SetMultiple S senderID kv s1;
          (_, s3) = bk_Close S senderID s2
      in (err, s3))"

fun StateService_handle ::
  "('s, 'cur) IBucketStore \<Rightarrow> string \<Rightarrow> state_request \<Rightarrow> 's \<Rightarrow> state_response \<times> go_error option \<times> 's" where
  "StateService_handle S sender (DeleteRequest k) s =
     (case StateService_Delete S sender k s of (e, s') \<Rightarrow> (NoResponse, e, s'))"
| "StateService_handle S sender (GetRequest k) s =
     (case StateService_Get S sender k s of (r, e, s') \<Rightarrow> (GotOne r, e, s'))"
| "StateService_handle S sender (GetMultipleRequest ks) s =
     (case StateService_GetMultiple S sender ks s of (r, e, s') \<Rightarrow> (GotMultiple r, e, s'))"
| "StateService_handle S sender (SetRequest k v) s =
     (case StateService_Set S sender k v s of (e, s') \<Rightarrow> (NoResponse, e, s'))"
| "StateService_handle S sender (SetMultipleRequest kv) s =
     (case StateService_SetMultiple S sender kv s of (e, s') \<Rightarrow> (NoResponse, e, s'))"

lemmas state_service_defs = StateService_Delete_def StateService_Get_def StateService_GetMultiple_def
  StateService_Set_def StateService_SetMultiple_def

text \<open>A sequence of requests of any clients.\<close>

fun StateService_run ::
  "('s, 'cur) IBucketStore \<Rightarrow> (string \<times> state_request) list \<Rightarrow> 's
     \<Rightarrow> (state_response \<times> go_error option) list \<times> 's" where
  "StateService_run S [] s = ([], s)"
| "StateService_run S ((sender, req) # trace) s =
     (let (r, e, s1) = StateService_handle S sender req s; (rs, s2) = StateService_run S trace s1
      in ((r, e) # rs, s2))"

section \<open>Abstract specification\<close>

text \<open>
  Each client has a map of its own. A request that fails changes nothing; one that succeeds
  changes the map of its sender only.
\<close>

fun req_effect :: "state_request \<Rightarrow> (string \<rightharpoonup> string) \<Rightarrow> (string \<rightharpoonup> string)" where
  "req_effect (DeleteRequest k) m = m(k := None)"
| "req_effect (GetRequest k) m = m"
| "req_effect (GetMultipleRequest ks) m = m"
| "req_effect (SetRequest k v) m = m(k \<mapsto> v)"
| "req_effect (SetMultipleRequest kv) m = m ++ map_of kv"

fun wf_request :: "state_request \<Rightarrow> bool" where
  "wf_request (SetMultipleRequest kv) \<longleftrightarrow> wf_map kv"
| "wf_request _ \<longleftrightarrow> True"

definition spec_step ::
  "string \<Rightarrow> state_request \<Rightarrow> go_error option \<Rightarrow> (string \<Rightarrow> string \<rightharpoonup> string) \<Rightarrow> (string \<Rightarrow> string \<rightharpoonup> string)" where
  "spec_step sender req e clients =
     (if e = None then clients(sender := req_effect req (clients sender)) else clients)"

fun spec_run :: "(string \<times> state_request) list \<Rightarrow> go_error option list
    \<Rightarrow> (string \<Rightarrow> string \<rightharpoonup> string) \<Rightarrow> (string \<Rightarrow> string \<rightharpoonup> string)" where
  "spec_run ((sender, req) # trace) (e # es) clients = spec_run trace es (spec_step sender req e clients)"
| "spec_run _ _ clients = clients"

context bucket_service
begin

lemma handle_refines:
  assumes "wf_request req" and "StateService_handle S sender req s = (r, e, s')"
  shows "content s' = spec_step sender req e (content s)"
proof (cases req)
  case (DeleteRequest k)
  obtain e1 s2 where d: "bk_Delete S sender k (st_GetBucket S sender s) = (e1, s2)" by fastforce
  with assms(2) DeleteRequest have "e = e1" "s' = snd (bk_Close S sender s2)"
    by (auto simp: state_service_defs Let_def split: prod.splits)
  then show ?thesis
    using d delete_ok [of sender k] delete_failed [of sender k] DeleteRequest
    by (cases e1) (auto simp: spec_step_def close_content getbucket_content)
next
  case (GetRequest k)
  obtain v e1 s2 where g: "bk_Get S sender k (st_GetBucket S sender s) = (v, e1, s2)"
    by (metis prod.exhaust)
  with assms(2) GetRequest have "s' = snd (bk_Close S sender s2)"
    by (auto simp: state_service_defs Let_def split: prod.splits)
  then show ?thesis
    using get_frame [OF g] GetRequest by (auto simp: spec_step_def close_content getbucket_content)
next
  case (GetMultipleRequest ks)
  obtain v e1 s2 where g: "bk_GetMultiple S sender ks (st_GetBucket S sender s) = (v, e1, s2)"
    by (metis prod.exhaust)
  with assms(2) GetMultipleRequest have "s' = snd (bk_Close S sender s2)"
    by (auto simp: state_service_defs Let_def split: prod.splits)
  then show ?thesis
    using getm_frame [OF g] GetMultipleRequest by (auto simp: spec_step_def close_content getbucket_content)
next
  case (SetRequest k v)
  obtain e1 s2 where d: "bk_Set S sender k v (st_GetBucket S sender s) = (e1, s2)" by fastforce
  with assms(2) SetRequest have "e = e1" "s' = snd (bk_Close S sender s2)"
    by (auto simp: state_service_defs Let_def split: prod.splits)
  then show ?thesis
    using d set_ok [of sender k v] set_failed [of sender k v] SetRequest
    by (cases e1) (auto simp: spec_step_def close_content getbucket_content)
next
  case (SetMultipleRequest kv)
  obtain e1 s2 where d: "bk_SetMultiple S sender kv (st_GetBucket S sender s) = (e1, s2)" by fastforce
  with assms(2) SetMultipleRequest have "e = e1" "s' = snd (bk_Close S sender s2)"
    by (auto simp: state_service_defs Let_def split: prod.splits)
  then show ?thesis
    using d setm_ok [of kv sender] setm_failed [of sender kv] SetMultipleRequest assms(1)
    by (cases e1) (auto simp: spec_step_def close_content getbucket_content)
qed

lemma run_refines:
  "list_all (wf_request \<circ> snd) trace \<Longrightarrow> StateService_run S trace s = (rs, s')
     \<Longrightarrow> content s' = spec_run trace (map snd rs) (content s)"
proof (induction trace arbitrary: s rs)
  case Nil
  then show ?case by simp
next
  case (Cons t trace)
  obtain sender req where t: "t = (sender, req)" by fastforce
  obtain r e s1 where h: "StateService_handle S sender req s = (r, e, s1)" by (metis prod.exhaust)
  obtain rs2 where run: "StateService_run S trace s1 = (rs2, s')" and rs: "rs = (r, e) # rs2"
    using Cons.prems(2) t h by (auto split: prod.splits)
  have "content s1 = spec_step sender req e (content s)"
    using Cons.prems(1) t by (intro handle_refines [OF _ h]) auto
  moreover have "content s' = spec_run trace (map snd rs2) (content s1)"
    using Cons.prems(1) by (intro Cons.IH [OF _ run]) auto
  ultimately show ?case using t rs by simp
qed

lemma Set_then_Get_found:
  assumes "StateService_Set S c k v s = (None, s1)" and "StateService_Get S c k s1 = (resp, None, s2)"
  shows "gr_Found resp \<and> gr_Value resp = v \<and> gr_Key resp = k"
proof -
  obtain s2' where "bk_Set S c k v (st_GetBucket S c s) = (None, s2')" "s1 = snd (bk_Close S c s2')"
    using assms(1) by (auto simp: StateService_Set_def Let_def split: prod.splits)
  then have stored: "content (st_GetBucket S c s1) c k = Some v"
    using set_ok by (auto simp: close_content getbucket_content)
  obtain r e s3 where g: "bk_Get S c k (st_GetBucket S c s1) = (r, e, s3)" by (metis prod.exhaust)
  with assms(2) have "e = None" and resp: "resp = \<lparr>gr_Key = k, gr_Found = True,
      gr_Value = (case r of None \<Rightarrow> [] | Some v \<Rightarrow> v)\<rparr>"
    by (auto simp: StateService_Get_def Let_def split: prod.splits if_splits)
  with get_hit [OF stored g] show ?thesis by simp
qed

end

lemma spec_run_frame:
  "c \<notin> fst ` set trace \<Longrightarrow> spec_run trace es clients c = clients c"
  by (induction trace es clients rule: spec_run.induct) (auto simp: spec_step_def)

section \<open>Properties\<close>

text \<open>
  C11. Refinement: for any sequence of requests of any clients, over any store that keeps the
  bucket contract, the stored data after the run is what the abstract specification (one map
  per client, changed only by that client's successful requests) computes from the errors
  the requests returned.
\<close>

theorem StateService_refines_client_maps:
  assumes "bucket_service S content" and "list_all (wf_request \<circ> snd) trace"
    and "StateService_run S trace s = (rs, s')"
  shows "content s' = spec_run trace (map snd rs) (content s)"
  using assms by (rule bucket_service.run_refines)

abbreviation empty_store :: "ldb BoltStore" where
  "empty_store \<equiv> \<lparr>boltDB = [], storePath = ''state.kvbtree'', bucketRefCount = 0\<rparr>"

abbreviation demo_trace :: "(string \<times> state_request) list" where
  "demo_trace \<equiv> [(''alice'', SetRequest ''k'' ''1''), (''bob'', SetRequest ''k'' ''2''),
                 (''bob'', SetRequest [] ''3''), (''alice'', DeleteRequest ''x'')]"

lemma demo_run:
  "StateService_run list_store demo_trace empty_store =
     ([(NoResponse, None), (NoResponse, None), (NoResponse, Some (ErrLib ''key required'')), (NoResponse, None)],
      \<lparr>boltDB = [(''alice'', [(''k'', ''1'')]), (''bob'', [(''k'', ''2'')])],
       storePath = ''state.kvbtree'', bucketRefCount = 0\<rparr>)"
  by (simp add: state_service_defs BoltStore_iface_def on_db_def bolt_bucket_defs list_db_defs
      BoltStore_GetBucket_def BoltBucket_Close_def BoltStore_onBucketReleased_def)

theorem StateService_refines_client_maps_witness:
  "store_content ldb_contents (snd (StateService_run list_store demo_trace empty_store)) ''alice'' ''k''
     = Some ''1''"
proof -
  have wf: "list_all (wf_request \<circ> snd) demo_trace" by simp
  from StateService_refines_client_maps [OF ls.bucket_service_axioms wf demo_run]
  show ?thesis unfolding demo_run by (simp add: spec_step_def)
qed

text \<open>
  Client isolation: a run in which client \<open>c\<close> sends nothing leaves everything \<open>c\<close> stored
  unchanged, whatever the other clients ask for.
\<close>

lemma StateService_isolation:
  assumes "bucket_service S content" and "list_all (wf_request \<circ> snd) trace"
    and "StateService_run S trace s = (rs, s')" and "c \<notin> fst ` set trace"
  shows "content s' c = content s c"
  using bucket_service.run_refines [OF assms(1-3)] spec_run_frame [OF assms(4)] by simp

lemma StateService_isolation_witness:
  "store_content ldb_contents (snd (StateService_run list_store demo_trace empty_store)) ''carol''
     = store_content ldb_contents empty_store ''carol''"
proof -
  have wf: "list_all (wf_request \<circ> snd) demo_trace" by simp
  from StateService_isolation [OF ls.bucket_service_axioms wf demo_run, of "''carol''"]
  show ?thesis unfolding demo_run by simp
qed

lemma handle_refcount:
  "bucketRefCount (snd (snd (StateService_handle (BoltStore_iface B C) sender req st))) = bucketRefCount st"
  by (cases req) (auto simp: state_service_defs BoltStore_iface_def on_db_def on_db2_def
      BoltStore_GetBucket_def BoltBucket_Close_def BoltStore_onBucketReleased_def split: prod.splits)

text \<open>
  Bucket references are balanced: over \<open>BoltStore\<close> and any database, every request releases
  the bucket it opened, so the reference count after a run, errors included, is the one before.
\<close>

lemma StateService_refcount_balanced:
  "bucketRefCount (snd (StateService_run (BoltStore_iface B C) trace st)) = bucketRefCount st"
proof (induction trace arbitrary: st)
  case Nil
  then show ?case by simp
next
  case (Cons t trace)
  obtain sender req where t: "t = (sender, req)" by fastforce
  obtain r e s1 where h: "StateService_handle (BoltStore_iface B C) sender req st = (r, e, s1)"
    by (metis prod.exhaust)
  with t Cons.IH [of s1] handle_refcount [of B C sender req st] show ?case
    by (simp add: case_prod_unfold Let_def)
qed

text \<open>
  Storing then reading: after a successful \<open>Set\<close> the same client's \<open>Get\<close>, when it reports no
  error, is found and returns the stored value.
\<close>

lemma StateService_Set_Get:
  assumes "bucket_service S content"
    and "StateService_Set S c k v s = (None, s1)" and "StateService_Get S c k s1 = (resp, None, s2)"
  shows "gr_Found resp \<and> gr_Value resp = v \<and> gr_Key resp = k"
  using assms by (rule bucket_service.Set_then_Get_found)

text \<open>
  A client that never stored anything gets ``found'' with an empty value for every key: its bucket
  does not exist, and \<open>BoltBucket.Get\<close> then reports no error.
\<close>

lemma Get_unknown_client:
  assumes "bbolt_db B contents tcontents" and "bb_Begin B False (boltDB st) = Inr tx"
    and "contents (boltDB st) c = None"
  shows "fst (StateService_Get (BoltStore_iface B C) c k st) = \<lparr>gr_Key = k, gr_Found = True, gr_Value = []\<rparr>
    \<and> fst (snd (StateService_Get (BoltStore_iface B C) c k st)) = None"
proof -
  have "\<not> bb_Bucket B c tx"
    using bbolt_db.bucket_iff [OF assms(1)] bbolt_db.begin_contents [OF assms(1,2)] assms(3) by simp
  with assms(2) show ?thesis
    by (simp add: StateService_Get_def BoltStore_iface_def on_db2_def BoltStore_GetBucket_def
        BoltBucket_Get_def BoltBucket_bucketTransaction_def BoltBucket_Close_def Let_def)
qed

end
