(* ===== verification/Things.thy ===== *)
theory Things
  imports GoStrings
begin

text \<open>
  Model of the value types of \<open>done_tool/things\<close>: \<open>ThingValue.go\<close>, \<open>ThingValueMap.go\<close> and
  \<open>PropertyValues.go\<close>, and of the message type names of
  \<open>done_cli/cli_done/transport/IHubTransport.go\<close>. Times are milliseconds since the epoch; the
  clock reading of \<open>time.Now()\<close> is an argument. A byte slice that may be nil is a
  \<open>string option\<close>.
\<close>

section \<open>Message types\<close>

abbreviation MessageTypeAction :: string where "MessageTypeAction \<equiv> ''action''"
abbreviation MessageTypeConfig :: string where "MessageTypeConfig \<equiv> ''config''"
abbreviation MessageTypeEvent :: string where "MessageTypeEvent \<equiv> ''event''"
abbreviation MessageTypeRPC :: string where "MessageTypeRPC \<equiv> ''rpc''"
abbreviation MessageTypeINBOX :: string where "MessageTypeINBOX \<equiv> ''_INBOX''"
abbreviation EventNameTD :: string where "EventNameTD \<equiv> ''$td''"
abbreviation EventNameProps :: string where "EventNameProps \<equiv> ''$properties''"

section \<open>ThingValue\<close>

record ThingValue =
  AgentID :: string
  ThingID :: string
  Name :: string
  Data :: "string option"
  CreatedMSec :: int
  SenderID :: string
  ValueType :: string

text \<open>The bytes of a slice; a nil slice has none.\<close>

definition bytes_of :: "string option \<Rightarrow> string" where
  "bytes_of d = (case d of None \<Rightarrow> [] | Some s \<Rightarrow> s)"

text \<open>\<open>[]byte(string(data))\<close> clones the slice and turns nil into an empty slice.\<close>

definition NewThingValue ::
  "int \<Rightarrow> string \<Rightarrow> string \<Rightarrow> string \<Rightarrow> string \<Rightarrow> string option \<Rightarrow> string \<Rightarrow> ThingValue" where
  "NewThingValue now valueType agentID thingID name data senderID =
     \<lparr>AgentID = agentID, ThingID = thingID, Name = name, Data = Some (bytes_of data),
      CreatedMSec = now, SenderID = senderID, ValueType = valueType\<rparr>"

section \<open>ThingValueMap\<close>

type_synonym ThingValueMap = "(string, ThingValue) gomap"

definition NewThingValueMap :: ThingValueMap where
  "NewThingValueMap = []"

definition ThingValueMap_Get :: "ThingValueMap \<Rightarrow> string \<Rightarrow> ThingValue option" where
  "ThingValueMap_Get vm key = mget vm key"

definition ThingValueMap_ToString :: "ThingValueMap \<Rightarrow> string \<Rightarrow> string" where
  "ThingValueMap_ToString vm key =
     (case ThingValueMap_Get vm key of None \<Rightarrow> [] | Some tv \<Rightarrow> bytes_of (Data tv))"

definition ThingValueMap_SenderID :: "ThingValueMap \<Rightarrow> string \<Rightarrow> string" where
  "ThingValueMap_SenderID vm key =
     (case ThingValueMap_Get vm key of None \<Rightarrow> [] | Some tv \<Rightarrow> AgentID tv)"

definition ThingValueMap_Set :: "string \<Rightarrow> ThingValue \<Rightarrow> ThingValueMap \<Rightarrow> ThingValueMap" where
  "ThingValueMap_Set key tv vm = mput key tv vm"

lemma ThingValueMap_Get_Set [gomap_simps]:
  "ThingValueMap_Get (ThingValueMap_Set k tv vm) k' = (if k' = k then Some tv else ThingValueMap_Get vm k')"
  by (simp add: ThingValueMap_Get_def ThingValueMap_Set_def gomap_simps)

section \<open>PropertyValues\<close>

record PropertyValues =
  pv_latest :: "(string, string) gomap"
  pv_changed :: "(string, string) gomap"

definition NewPropertyValues :: PropertyValues where
  "NewPropertyValues = \<lparr>pv_latest = [], pv_changed = []\<rparr>"

definition PropertyValues_GetValue :: "string \<Rightarrow> PropertyValues \<Rightarrow> string \<times> bool" where
  "PropertyValues_GetValue key pv =
     (case mget (pv_latest pv) key of None \<Rightarrow> ([], False) | Some v \<Rightarrow> (v, True))"

definition PropertyValues_GetLatest :: "PropertyValues \<Rightarrow> (string, string) gomap" where
  "PropertyValues_GetLatest pv = pv_latest pv"

definition PropertyValues_HasChanges :: "PropertyValues \<Rightarrow> bool" where
  "PropertyValues_HasChanges pv \<longleftrightarrow> length (pv_changed pv) > 0"

definition PropertyValues_GetChanged ::
  "bool \<Rightarrow> PropertyValues \<Rightarrow> (string, string) gomap \<times> PropertyValues" where
  "PropertyValues_GetChanged clear pv =
     (if clear then (pv_changed pv, pv\<lparr>pv_changed := []\<rparr>) else (pv_changed pv, pv))"

definition PropertyValues_GetValues ::
  "bool \<Rightarrow> PropertyValues \<Rightarrow> (string, string) gomap \<times> PropertyValues" where
  "PropertyValues_GetValues onlyChanges pv =
     (let (v, pv') = (if onlyChanges then PropertyValues_GetChanged True pv
                      else (PropertyValues_GetLatest pv, pv))
      in (v, pv'\<lparr>pv_changed := []\<rparr>))"

definition PropertyValues_SetValue :: "string \<Rightarrow> string \<Rightarrow> PropertyValues \<Rightarrow> PropertyValues" where
  "PropertyValues_SetValue key newValue pv =
     (case mget (pv_latest pv) key of
        Some oldValue \<Rightarrow>
          if oldValue \<noteq> newValue
          then pv\<lparr>pv_latest := mput key newValue (pv_latest pv),
                  pv_changed := mput key newValue (pv_changed pv)\<rparr>
          else pv
      | None \<Rightarrow> pv\<lparr>pv_latest := mput key newValue (pv_latest pv),
                    pv_changed := mput key newValue (pv_changed pv)\<rparr>)"

definition PropertyValues_SetValueBool :: "string \<Rightarrow> bool \<Rightarrow> PropertyValues \<Rightarrow> PropertyValues" where
  "PropertyValues_SetValueBool key newValue pv =
     PropertyValues_SetValue key (if newValue then ''true'' else ''false'') pv"

definition PropertyValues_SetValueInt :: "string \<Rightarrow> int \<Rightarrow> PropertyValues \<Rightarrow> PropertyValues" where
  "PropertyValues_SetValueInt key newValue pv =
     PropertyValues_SetValue key (strconv_FormatInt newValue) pv"

text \<open>A burst of updates, in order.\<close>

definition set_values :: "(string \<times> string) list \<Rightarrow> PropertyValues \<Rightarrow> PropertyValues" where
  "set_values kvs pv = fold (\<lambda>(k, v). PropertyValues_SetValue k v) kvs pv"

text \<open>The change set records what a reader that last saw \<open>base\<close> has missed.\<close>

definition tracks :: "(string \<rightharpoonup> string) \<Rightarrow> PropertyValues \<Rightarrow> bool" where
  "tracks base pv \<longleftrightarrow> map_of (pv_latest pv) = base ++ map_of (pv_changed pv)"

lemma SetValue_latest: "map_of (pv_latest (PropertyValues_SetValue k v pv)) = (map_of (pv_latest pv))(k \<mapsto> v)"
  by (auto simp: PropertyValues_SetValue_def gomap_simps fun_eq_iff split: option.splits)

lemma SetValue_tracks: "tracks base pv \<Longrightarrow> tracks base (PropertyValues_SetValue k v pv)"
  by (auto simp: tracks_def PropertyValues_SetValue_def gomap_simps split: option.splits)

lemma set_values_tracks: "tracks base pv \<Longrightarrow> tracks base (set_values kvs pv)"
  unfolding set_values_def
  by (induction kvs arbitrary: pv) (auto intro: SetValue_tracks)

lemma set_values_latest: "map_of (pv_latest (set_values kvs pv)) = mput_all kvs (map_of (pv_latest pv))"
  unfolding set_values_def by (induction kvs arbitrary: pv) (auto simp: SetValue_latest)

text \<open>
  Change tracking: after the changes were read (and cleared), any burst of \<open>SetValue\<close> calls
  leaves a change set that, laid over what the reader had seen, is exactly the latest value
  of every property; the latest values are those of the burst, the last one winning.
\<close>

lemma PropertyValues_changes_complete:
  assumes "PropertyValues_GetValues onlyChanges pv = (seen, pv0)"
    and "PropertyValues_GetChanged False (set_values kvs pv0) = (changed, pv1)"
  shows "map_of (pv_latest pv) ++ map_of changed = map_of (pv_latest pv1)
    \<and> map_of (pv_latest pv1) = mput_all kvs (map_of (pv_latest pv))"
proof -
  have "pv_latest pv0 = pv_latest pv" and "tracks (map_of (pv_latest pv)) pv0"
    using assms(1) by (auto simp: tracks_def PropertyValues_GetValues_def PropertyValues_GetChanged_def
        PropertyValues_GetLatest_def split: if_splits)
  moreover have "pv1 = set_values kvs pv0" and "changed = pv_changed pv1"
    using assms(2) by (auto simp: PropertyValues_GetChanged_def)
  ultimately show ?thesis
    using set_values_tracks [of "map_of (pv_latest pv)" pv0 kvs] set_values_latest [of kvs pv0]
    by (simp add: tracks_def)
qed

lemma PropertyValues_changes_complete_witness:
  "map_of (pv_latest (set_values [(''a'', ''1''), (''b'', ''2''), (''a'', ''3'')] NewPropertyValues)) ''a''
     = Some ''3''"
  using PropertyValues_changes_complete [of True NewPropertyValues "[]" NewPropertyValues
      "[(''a'', ''1''), (''b'', ''2''), (''a'', ''3'')]"
      "pv_changed (set_values [(''a'', ''1''), (''b'', ''2''), (''a'', ''3'')] NewPropertyValues)"
      "set_values [(''a'', ''1''), (''b'', ''2''), (''a'', ''3'')] NewPropertyValues"]
  by (simp add: PropertyValues_GetValues_def PropertyValues_GetChanged_def NewPropertyValues_def)

end
