(* ===== verification/HubClient.thy ===== *)
theory HubClient
  imports Things
begin

text \<open>
  Model of the hub client, \<open>done_cli/cli_done\<close>: the message addresses of \<open>HubClient.go\<close> and
  \<open>transport/subjects.go\<close>, the dispatch of incoming messages (\<open>onEvent\<close>, \<open>onRequest\<close>), the
  RPC capability table and \<open>HandleRequestMessage.go\<close>, the publishing functions, and the message
  callback of \<open>transport/NatsTransport.go\<close>. The transport is a record of functions over a world
  \<open>'w\<close>; handlers are functions over an application state \<open>'st\<close>.
\<close>

section \<open>Addresses\<close>

text \<open>Separator and the two wildcards; \<open>nats_tokens\<close> are those of the NATS transport.\<close>

record address_tokens =
  at_sep :: char
  at_wc :: string
  at_rem :: string

definition NatsTransport_AddressTokens :: address_tokens where
  "NatsTransport_AddressTokens = \<lparr>at_sep = CHR ''.'', at_wc = ''*'', at_rem = ''>''\<rparr>"

definition or_default :: "string \<Rightarrow> string \<Rightarrow> string" where
  "or_default s d = (if s = [] then d else s)"

definition HubClient_MakeAddress ::
  "address_tokens \<Rightarrow> string \<Rightarrow> string \<Rightarrow> string \<Rightarrow> string \<Rightarrow> string \<Rightarrow> string" where
  "HubClient_MakeAddress T msgType agentID thingID name clientID =
     strings_Join [or_default msgType MessageTypeEvent, or_default agentID (at_wc T), or_default thingID (at_wc T),
       or_default name (at_wc T), or_default clientID (at_rem T)] (at_sep T)"

record address_parts =
  ap_msgType :: string
  ap_agentID :: string
  ap_thingID :: string
  ap_name :: string
  ap_senderID :: string

abbreviation no_parts :: address_parts where
  "no_parts \<equiv> \<lparr>ap_msgType = [], ap_agentID = [], ap_thingID = [], ap_name = [], ap_senderID = []\<rparr>"

definition HubClient_SplitAddress :: "address_tokens \<Rightarrow> string \<Rightarrow> address_parts \<times> go_error option" where
  "HubClient_SplitAddress T addr =
     (let parts = strings_Split addr (at_sep T)
      in if length parts \<ge> 1 \<and> strings_HasPrefix addr MessageTypeINBOX
         then (no_parts\<lparr>ap_msgType := parts ! 0, ap_agentID := (if length parts \<ge> 2 then parts ! 1 else [])\<rparr>, None)
         else if length parts < 4 then (no_parts, Some ErrIncompleteAddress)
         else (\<lparr>ap_msgType = parts ! 0, ap_agentID = parts ! 1, ap_thingID = parts ! 2, ap_name = parts ! 3,
                ap_senderID = (if length parts > 4 then parts ! 4 else [])\<rparr>, None))"

text \<open>\<open>transport.MakeSubject\<close> and \<open>transport.SplitSubject\<close>, used by the NATS server.\<close>

definition MakeSubject :: "string \<Rightarrow> string \<Rightarrow> string \<Rightarrow> string \<Rightarrow> string \<Rightarrow> string" where
  "MakeSubject msgType agentID thingID name clientID =
     or_default msgType MessageTypeEvent @ ''.'' @ or_default agentID ''*'' @ ''.'' @ or_default thingID ''*''
       @ ''.'' @ or_default name ''*'' @ ''.'' @ or_default clientID ''>''"

definition SplitSubject :: "string \<Rightarrow> address_parts \<times> go_error option" where
  "SplitSubject subject =
     (let parts = strings_Split subject (CHR ''.'')
      in if length parts < 4 then (no_parts, Some ErrIncompleteAddress)
         else (\<lparr>ap_msgType = parts ! 0, ap_agentID = parts ! 1, ap_thingID = parts ! 2, ap_name = parts ! 3,
                ap_senderID = (if length parts > 4 then parts ! 4 else [])\<rparr>, None))"

section \<open>Calling a method with a request message\<close>

text \<open>
  \<open>HandleRequestMessage\<close> inspects the method by reflection: each parameter is the service context
  or a value the payload is unmarshalled into; the results are values, errors or nil. \<open>'v\<close> are
  the argument and result values, with \<open>ser\<close> the serializer.
\<close>

record 'v serializer =
  ser_Marshal :: "'v \<Rightarrow> string \<times> go_error option"
  ser_MarshalError :: "go_error \<Rightarrow> string \<times> go_error option"  \<comment> \<open>an error as the response value\<close>
  ser_Unmarshal :: "nat \<Rightarrow> string \<Rightarrow> go_error + 'v"

datatype rpc_param = ContextParam | ValueParam nat  \<comment> \<open>the type to unmarshal into\<close>

datatype 'v rpc_arg = ContextArg string | ValueArg 'v

datatype 'v rpc_result = NilResult | ErrorResult go_error | ValueResult 'v

record ('v, 'st) rpc_method =
  rm_params :: "rpc_param list"
  rm_call :: "'v rpc_arg list \<Rightarrow> 'st \<Rightarrow> 'v rpc_result list outcome \<times> 'st"

fun make_args :: "'v serializer \<Rightarrow> string \<Rightarrow> string \<Rightarrow> rpc_param list \<Rightarrow> go_error + 'v rpc_arg list" where
  "make_args ser senderID payload [] = Inr []"
| "make_args ser senderID payload (ContextParam # ps) =
     (case make_args ser senderID payload ps of Inl e \<Rightarrow> Inl e | Inr as \<Rightarrow> Inr (ContextArg senderID # as))"
| "make_args ser senderID payload (ValueParam ty # ps) =
     (case ser_Unmarshal ser ty payload of
        Inl e \<Rightarrow> Inl (ErrUnmarshalRequest e)
      | Inr v \<Rightarrow> (case make_args ser senderID payload ps of Inl e \<Rightarrow> Inl e | Inr as \<Rightarrow> Inr (ValueArg v # as)))"

text \<open>An error result is asserted to be an error; a response is marshalled when there is no error.\<close>

definition finish_call ::
  "'v serializer \<Rightarrow> 'v rpc_result \<Rightarrow> 'v rpc_result \<Rightarrow> (string option \<times> go_error option) outcome" where
  "finish_call ser resp errResp =
     (case errResp of
        ErrorResult e \<Rightarrow> Returns (None, Some e)
      | ValueResult v \<Rightarrow> Panics TypeAssertion
      | NilResult \<Rightarrow>
          (case resp of
             ValueResult v \<Rightarrow> (case ser_Marshal ser v of (data, err) \<Rightarrow> Returns (Some data, err))
           | ErrorResult e \<Rightarrow> (case ser_MarshalError ser e of (data, err) \<Rightarrow> Returns (Some data, err))
           | NilResult \<Rightarrow> Returns (None, None)))"

definition HandleRequestMessage ::
  "'v serializer \<Rightarrow> string \<Rightarrow> ('v, 'st) rpc_method \<Rightarrow> string \<Rightarrow> 'st
     \<Rightarrow> (string option \<times> go_error option) outcome \<times> 'st" where
  "HandleRequestMessage ser senderID method payload st =
     (case make_args ser senderID payload (rm_params method) of
        Inl e \<Rightarrow> (Returns (None, Some e), st)
      | Inr argv \<Rightarrow>
          (case rm_call method argv st of
             (Panics p, st') \<Rightarrow> (Panics p, st')
           | (Returns [], st') \<Rightarrow> (Returns (None, None), st')
           | (Returns [r0], st') \<Rightarrow> (finish_call ser NilResult r0, st')
           | (Returns [r0, r1], st') \<Rightarrow> (finish_call ser r0 r1, st')
           | (Returns _, st') \<Rightarrow> (Returns (None, Some ErrTooManyResults), st')))"

section \<open>The client\<close>

type_synonym 'st request_handler = "ThingValue \<Rightarrow> 'st \<Rightarrow> (string option \<times> go_error option) outcome \<times> 'st"

text \<open>
  The RPC handler is a function set by the application, or the closure that \<open>SetRPCCapability\<close>
  installs: it keeps the \<open>capID\<close> it was created with and reads the client's \<open>capTable\<close> at each call.
\<close>

datatype 'st rpc_handler = HandlerFunc "'st request_handler" | MultiCap string

datatype ConnectionStatus = Connecting | Connected | ConnectFailed | Disconnected | Expired | Unauthorized

record HubTransportStatus =
  hs_HubURL :: string
  hs_ClientID :: string
  hs_ConnectionStatus :: ConnectionStatus
  hs_LastError :: "go_error option"

record ('v, 'st) HubClient =
  hc_clientID :: string
  hc_retryConnect :: bool
  hc_capTable :: "(string, (string, ('v, 'st) rpc_method) gomap) gomap"
  hc_actionHandler :: "'st request_handler option"
  hc_configHandler :: "(ThingValue \<Rightarrow> 'st \<Rightarrow> go_error option \<times> 'st) option"
  hc_connectionHandler :: "(HubTransportStatus \<Rightarrow> 'st \<Rightarrow> 'st) option"
  hc_eventHandler :: "(ThingValue \<Rightarrow> 'st \<Rightarrow> 'st) option"
  hc_rpcHandler :: "'st rpc_handler option"

text \<open>The RPC handler of \<open>SetRPCCapability\<close>: look up capability and method and call the method.\<close>

definition multiCapHandler ::
  "'v serializer \<Rightarrow> string \<Rightarrow> (string, (string, ('v, 'st) rpc_method) gomap) gomap \<Rightarrow> 'st request_handler" where
  "multiCapHandler ser capID capTable tv st =
     (case mget capTable (ThingID tv) of
        None \<Rightarrow> (Returns (None, Some (ErrUnknownCapability (ThingID tv))), st)
      | Some methods \<Rightarrow>
          (case mget methods (Name tv) of
             None \<Rightarrow> (Returns (None, Some (ErrUnknownMethod (Name tv) capID)), st)
           | Some capMethod \<Rightarrow> HandleRequestMessage ser (SenderID tv) capMethod (bytes_of (Data tv)) st))"

fun run_rpcHandler :: "'v serializer \<Rightarrow> ('v, 'st) HubClient \<Rightarrow> 'st rpc_handler \<Rightarrow> 'st request_handler" where
  "run_rpcHandler ser hc (HandlerFunc h) = h"
| "run_rpcHandler ser hc (MultiCap capID) = multiCapHandler ser capID (hc_capTable hc)"

definition HubClient_onEvent ::
  "address_tokens \<Rightarrow> int \<Rightarrow> ('v, 'st) HubClient \<Rightarrow> string \<Rightarrow> string option \<Rightarrow> 'st \<Rightarrow> 'st" where
  "HubClient_onEvent T now hc addr payload st =
     (case HubClient_SplitAddress T addr of
        (p, None) \<Rightarrow>
          (case hc_eventHandler hc of
             Some h \<Rightarrow> h (NewThingValue now (ap_msgType p) (ap_agentID p) (ap_thingID p) (ap_name p) payload
                          (ap_senderID p)) st
           | None \<Rightarrow> st)
      | (_, Some _) \<Rightarrow> st)"

text \<open>The result is the reply, the error and \<open>donotreply\<close>.\<close>

definition HubClient_onRequest ::
  "address_tokens \<Rightarrow> 'v serializer \<Rightarrow> int \<Rightarrow> ('v, 'st) HubClient \<Rightarrow> string \<Rightarrow> string option \<Rightarrow> 'st
     \<Rightarrow> (string option \<times> go_error option \<times> bool) outcome \<times> 'st" where
  "HubClient_onRequest T ser now hc addr payload st =
     (let (p, err) = HubClient_SplitAddress T addr;
          tv = NewThingValue now (ap_msgType p) (ap_agentID p) (ap_thingID p) (ap_name p) payload (ap_senderID p);
          reply = (\<lambda>(r, st'). (and_then r (\<lambda>(data, e). Returns (data, e, False)), st'))
      in if ap_agentID p \<noteq> hc_clientID hc
         then (Returns (None, err, True),
               if err = None then (case hc_eventHandler hc of Some h \<Rightarrow> h tv st | None \<Rightarrow> st) else st)
         else case (ap_msgType p = MessageTypeAction, hc_actionHandler hc) of
             (True, Some h) \<Rightarrow> reply (h tv st)
           | _ \<Rightarrow>
         (case (ap_msgType p = MessageTypeRPC, hc_rpcHandler hc) of
             (True, Some h) \<Rightarrow> reply (run_rpcHandler ser hc h tv st)
           | _ \<Rightarrow>
         (case (ap_msgType p = MessageTypeConfig, hc_configHandler hc) of
             (True, Some h) \<Rightarrow> (case h tv st of (e, st') \<Rightarrow> (Returns (None, e, False), st'))
           | _ \<Rightarrow> (Returns (None, err, False), st))))"

text \<open>
  A status change: without retry any status but \<open>Connected\<close> disconnects the transport; the
  connection handler is called in every case.
\<close>

definition HubClient_onConnect ::
  "('w \<Rightarrow> 'w) \<Rightarrow> ('v, 'st) HubClient \<Rightarrow> HubTransportStatus \<Rightarrow> 'st \<Rightarrow> 'w \<Rightarrow> 'st \<times> 'w" where
  "HubClient_onConnect disconnect hc status st w =
     (case hc_connectionHandler hc of Some h \<Rightarrow> h status st | None \<Rightarrow> st,
      if \<not> hc_retryConnect hc \<and> hs_ConnectionStatus status \<noteq> Connected then disconnect w else w)"

section \<open>Publishing and subscribing\<close>

record 'w hub_transport =
  tp_tokens :: address_tokens
  tp_PubEvent :: "string \<Rightarrow> string option \<Rightarrow> 'w \<Rightarrow> go_error option \<times> 'w"
  tp_PubRequest :: "string \<Rightarrow> string option \<Rightarrow> 'w \<Rightarrow> (string option \<times> go_error option) \<times> 'w"
  tp_Subscribe :: "string \<Rightarrow> 'w \<Rightarrow> go_error option \<times> 'w"
  tp_SetRequestHandler :: "'w \<Rightarrow> 'w"  \<comment> \<open>the handler is always the client's \<open>onRequest\<close>\<close>
  tp_SetEventHandler :: "'w \<Rightarrow> 'w"    \<comment> \<open>always the client's \<open>onEvent\<close>\<close>
  tp_SetConnectHandler :: "'w \<Rightarrow> 'w"  \<comment> \<open>always the client's \<open>onConnect\<close>\<close>

definition NewHubClientFromTransport ::
  "'w hub_transport \<Rightarrow> string \<Rightarrow> 'w \<Rightarrow> ('v, 'st) HubClient \<times> 'w" where
  "NewHubClientFromTransport tp clientID w =
     (\<lparr>hc_clientID = clientID, hc_retryConnect = True, hc_capTable = [], hc_actionHandler = None,
       hc_configHandler = None, hc_connectionHandler = None, hc_eventHandler = None, hc_rpcHandler = None\<rparr>,
      tp_SetConnectHandler tp w)"

definition HubClient_PubAction ::
  "'w hub_transport \<Rightarrow> ('v, 'st) HubClient \<Rightarrow> string \<Rightarrow> string \<Rightarrow> string \<Rightarrow> string option \<Rightarrow> 'w
     \<Rightarrow> (string option \<times> go_error option) \<times> 'w" where
  "HubClient_PubAction tp hc agentID thingID name payload w =
     tp_PubRequest tp (HubClient_MakeAddress (tp_tokens tp) MessageTypeAction agentID thingID name (hc_clientID hc))
       payload w"

definition HubClient_PubConfig ::
  "'w hub_transport \<Rightarrow> ('v, 'st) HubClient \<Rightarrow> string \<Rightarrow> string \<Rightarrow> string \<Rightarrow> string option \<Rightarrow> 'w
     \<Rightarrow> go_error option \<times> 'w" where
  "HubClient_PubConfig tp hc agentID thingID propName payload w =
     (case tp_PubRequest tp (HubClient_MakeAddress (tp_tokens tp) MessageTypeConfig agentID thingID propName
         (hc_clientID hc)) payload w of ((_, err), w') \<Rightarrow> (err, w'))"

definition HubClient_PubEvent ::
  "'w hub_transport \<Rightarrow> ('v, 'st) HubClient \<Rightarrow> string \<Rightarrow> string \<Rightarrow> string option \<Rightarrow> 'w \<Rightarrow> go_error option \<times> 'w" where
  "HubClient_PubEvent tp hc thingID eventID payload w =
     (if eventID = [] then (Some ErrMissingEventID, w)
      else tp_PubEvent tp (HubClient_MakeAddress (tp_tokens tp) MessageTypeEvent (hc_clientID hc) thingID eventID
             (hc_clientID hc)) payload w)"

text \<open>\<open>PubEvents\<close> stops at the first event that cannot be published.\<close>

fun HubClient_PubEvents ::
  "'w hub_transport \<Rightarrow> ('v, 'st) HubClient \<Rightarrow> string \<Rightarrow> (string, string) gomap \<Rightarrow> 'w \<Rightarrow> go_error option \<times> 'w" where
  "HubClient_PubEvents tp hc thingID [] w = (None, w)"
| "HubClient_PubEvents tp hc thingID ((k, v) # eventMap) w =
     (case HubClient_PubEvent tp hc thingID k (Some v) w of
        (Some err, w') \<Rightarrow> (Some err, w')
      | (None, w') \<Rightarrow> HubClient_PubEvents tp hc thingID eventMap w')"

definition HubClient_PubProps ::
  "'w hub_transport \<Rightarrow> ((string, string) gomap \<Rightarrow> string) \<Rightarrow> ('v, 'st) HubClient \<Rightarrow> string
     \<Rightarrow> (string, string) gomap \<Rightarrow> 'w \<Rightarrow> go_error option \<times> 'w" where
  "HubClient_PubProps tp enc hc thingID props w =
     (if props = [] then (None, w)
      else tp_PubEvent tp (HubClient_MakeAddress (tp_tokens tp) MessageTypeEvent (hc_clientID hc) thingID EventNameProps
             (hc_clientID hc)) (Some (enc props)) w)"

definition HubClient_PubRPCRequest ::
  "'w hub_transport \<Rightarrow> 'v serializer \<Rightarrow> ('v, 'st) HubClient \<Rightarrow> string \<Rightarrow> string \<Rightarrow> string \<Rightarrow> 'v option \<Rightarrow> nat option
     \<Rightarrow> 'w \<Rightarrow> ('v option \<times> go_error option) \<times> 'w" where
  "HubClient_PubRPCRequest tp ser hc agentID capability methodName req resp w =
     (if capability = [] \<or> methodName = [] then ((None, Some ErrMissingMethod), w)
      else
        (case tp_PubRequest tp (HubClient_MakeAddress (tp_tokens tp) MessageTypeRPC agentID capability methodName
            (hc_clientID hc)) (map_option (\<lambda>r. fst (ser_Marshal ser r)) req) w of
           ((data, err), w') \<Rightarrow>
             (case (err, resp) of
                (None, Some ty) \<Rightarrow>
                  (case ser_Unmarshal ser ty (bytes_of data) of
                     Inl e \<Rightarrow> ((None, Some e), w') | Inr v \<Rightarrow> ((Some v, None), w'))
              | _ \<Rightarrow> ((None, err), w'))))"

definition HubClient_PubTD ::
  "'w hub_transport \<Rightarrow> ('v, 'st) HubClient \<Rightarrow> string \<Rightarrow> string \<Rightarrow> 'w \<Rightarrow> go_error option \<times> 'w" where
  "HubClient_PubTD tp hc tdID payload w =
     (if tdID = [] then (Some ErrMissingThingID, w)
      else tp_PubEvent tp (HubClient_MakeAddress (tp_tokens tp) MessageTypeEvent (hc_clientID hc) tdID EventNameTD
             (hc_clientID hc)) (Some payload) w)"

definition HubClient_SubEvents ::
  "'w hub_transport \<Rightarrow> string \<Rightarrow> string \<Rightarrow> string \<Rightarrow> 'w \<Rightarrow> go_error option \<times> 'w" where
  "HubClient_SubEvents tp agentID thingID eventName w =
     tp_Subscribe tp (HubClient_MakeAddress (tp_tokens tp) MessageTypeEvent agentID thingID eventName []) w"

text \<open>
  \<open>serve_requests\<close>: subscribe to the requests of one type for this agent and register
  \<open>onRequest\<close>; the error of the subscription is dropped.
\<close>

definition serve_requests :: "'w hub_transport \<Rightarrow> ('v, 'st) HubClient \<Rightarrow> string \<Rightarrow> 'w \<Rightarrow> 'w" where
  "serve_requests tp hc msgType w =
     tp_SetRequestHandler tp
       (snd (tp_Subscribe tp (HubClient_MakeAddress (tp_tokens tp) msgType (hc_clientID hc) [] [] []) w))"

definition HubClient_SetRPCHandler ::
  "'w hub_transport \<Rightarrow> 'st rpc_handler \<Rightarrow> ('v, 'st) HubClient \<Rightarrow> 'w \<Rightarrow> ('v, 'st) HubClient \<times> 'w" where
  "HubClient_SetRPCHandler tp handler hc w =
     (hc\<lparr>hc_rpcHandler := Some handler\<rparr>, serve_requests tp hc MessageTypeRPC w)"

definition HubClient_SetRPCCapability ::
  "'w hub_transport \<Rightarrow> string \<Rightarrow> (string, ('v, 'st) rpc_method) gomap \<Rightarrow> ('v, 'st) HubClient \<Rightarrow> 'w
     \<Rightarrow> ('v, 'st) HubClient \<times> 'w" where
  "HubClient_SetRPCCapability tp capID capMethods hc w =
     (let (hc1, w1) = (if hc_rpcHandler hc = None then HubClient_SetRPCHandler tp (MultiCap capID) hc w else (hc, w))
      in (hc1\<lparr>hc_capTable := mput capID capMethods (hc_capTable hc1)\<rparr>, tp_SetRequestHandler tp w1))"

definition HubClient_SetActionHandler ::
  "'w hub_transport \<Rightarrow> 'st request_handler \<Rightarrow> ('v, 'st) HubClient \<Rightarrow> 'w \<Rightarrow> ('v, 'st) HubClient \<times> 'w" where
  "HubClient_SetActionHandler tp handler hc w =
     (hc\<lparr>hc_actionHandler := Some handler\<rparr>, serve_requests tp hc MessageTypeAction w)"

definition HubClient_SetConfigHandler ::
  "'w hub_transport \<Rightarrow> (ThingValue \<Rightarrow> 'st \<Rightarrow> go_error option \<times> 'st) \<Rightarrow> ('v, 'st) HubClient \<Rightarrow> 'w
     \<Rightarrow> ('v, 'st) HubClient \<times> 'w" where
  "HubClient_SetConfigHandler tp handler hc w =
     (hc\<lparr>hc_configHandler := Some handler\<rparr>, serve_requests tp hc MessageTypeConfig w)"

definition HubClient_SetEventHandler ::
  "'w hub_transport \<Rightarrow> (ThingValue \<Rightarrow> 'st \<Rightarrow> 'st) \<Rightarrow> ('v, 'st) HubClient \<Rightarrow> 'w \<Rightarrow> ('v, 'st) HubClient \<times> 'w" where
  "HubClient_SetEventHandler tp handler hc w = (hc\<lparr>hc_eventHandler := Some handler\<rparr>, tp_SetEventHandler tp w)"

definition HubClient_SetConnectionHandler ::
  "(HubTransportStatus \<Rightarrow> 'st \<Rightarrow> 'st) \<Rightarrow> ('v, 'st) HubClient \<Rightarrow> ('v, 'st) HubClient" where
  "HubClient_SetConnectionHandler handler hc = hc\<lparr>hc_connectionHandler := Some handler\<rparr>"

definition HubClient_SetRetryConnect :: "bool \<Rightarrow> ('v, 'st) HubClient \<Rightarrow> ('v, 'st) HubClient" where
  "HubClient_SetRetryConnect enable hc = hc\<lparr>hc_retryConnect := enable\<rparr>"

section \<open>The NATS transport\<close>

text \<open>
  A NATS message: \<open>nm_hasHeader\<close> says whether the header map is allocated, \<open>nm_error\<close> is its field
  \<open>error\<close>. \<open>error_text\<close> stands for \<open>err.Error()\<close>.
\<close>

record nats_msg =
  nm_Subject :: string
  nm_Reply :: string
  nm_Data :: "string option"
  nm_hasHeader :: bool
  nm_error :: string

record 'st NatsTransport =
  nt_status :: HubTransportStatus
  nt_connectHandler :: "HubTransportStatus \<Rightarrow> 'st \<Rightarrow> 'st"
  nt_eventHandler :: "(string \<Rightarrow> string option \<Rightarrow> 'st \<Rightarrow> 'st) option"
  nt_requestHandler :: "(string \<Rightarrow> string option \<Rightarrow> 'st
      \<Rightarrow> (string option \<times> go_error option \<times> bool) outcome \<times> 'st) option"

text \<open>The result is the message given to \<open>RespondMsg\<close>, if any.\<close>

definition NatsTransport_onMessage ::
  "(go_error \<Rightarrow> string) \<Rightarrow> 'st NatsTransport \<Rightarrow> nats_msg \<Rightarrow> 'st \<Rightarrow> nats_msg option outcome \<times> 'st" where
  "NatsTransport_onMessage error_text nt msg st =
     (if nm_Reply msg = []
      then (Returns None, case nt_eventHandler nt of Some h \<Rightarrow> h (nm_Subject msg) (nm_Data msg) st | None \<Rightarrow> st)
      else case nt_requestHandler nt of
        Some h \<Rightarrow>
          (case h (nm_Subject msg) (nm_Data msg) st of (r, st') \<Rightarrow>
             (and_then r (\<lambda>(reply, err, donotreply).
                let msg1 = msg\<lparr>nm_Data := reply\<rparr>;
                    msg2 = (case err of Some e \<Rightarrow> msg1\<lparr>nm_hasHeader := True, nm_error := error_text e\<rparr> | None \<Rightarrow> msg1)
                in Returns (if donotreply then None else Some msg2)), st'))
      | None \<Rightarrow> (if nm_hasHeader msg then Returns None else Panics NilMapWrite, st))"

text \<open>\<open>PubRequest\<close> on the connection's \<open>Request\<close>, which gives the response or an error.\<close>

definition NatsTransport_PubRequest ::
  "(string \<Rightarrow> string option \<Rightarrow> 'w \<Rightarrow> (go_error + nats_msg) \<times> 'w) \<Rightarrow> string \<Rightarrow> string option \<Rightarrow> 'w
     \<Rightarrow> (string option \<times> go_error option) \<times> 'w" where
  "NatsTransport_PubRequest Request subject payload w =
     (case Request subject payload w of
        (Inl err, w') \<Rightarrow> ((None, Some err), w')
      | (Inr resp, w') \<Rightarrow>
          ((nm_Data resp, if nm_hasHeader resp \<and> nm_error resp \<noteq> [] then Some (ErrLib (nm_error resp)) else None), w'))"

definition NatsTransport_onConnected :: "'st NatsTransport \<Rightarrow> 'st \<Rightarrow> 'st NatsTransport \<times> 'st" where
  "NatsTransport_onConnected nt st =
     (let status = (nt_status nt)\<lparr>hs_ConnectionStatus := Connected, hs_LastError := None\<rparr>
      in (nt\<lparr>nt_status := status\<rparr>, nt_connectHandler nt status st))"

definition NatsTransport_onDisconnect ::
  "go_error option \<Rightarrow> 'st NatsTransport \<Rightarrow> 'st \<Rightarrow> 'st NatsTransport \<times> 'st" where
  "NatsTransport_onDisconnect err nt st =
     (let status = (nt_status nt)\<lparr>hs_ConnectionStatus := Disconnected, hs_LastError := err\<rparr>
      in (nt\<lparr>nt_status := status\<rparr>, nt_connectHandler nt status st))"

definition error_prefix :: string where
  "error_prefix = CHR ''{'' # CHR 0x22 # ''error'' @ [CHR 0x22, CHR '':'']"

text \<open>
  \<open>ParseResponse\<close>: \<open>unm\<close> unmarshals into the caller's response (\<open>None\<close> for a nil one), \<open>unmText\<close>
  into a string.
\<close>

definition NatsTransport_ParseResponse ::
  "(string \<Rightarrow> go_error option) option \<Rightarrow> (string \<Rightarrow> go_error + string) \<Rightarrow> string \<Rightarrow> go_error option" where
  "NatsTransport_ParseResponse unm unmText data =
     (let err = (case unm of
            Some f \<Rightarrow> f data
          | None \<Rightarrow> if data = ''+ACK'' then None else if data \<noteq> [] then Some ErrUnexpectedResponse else None)
      in if err \<noteq> None \<or> strings_HasPrefix data error_prefix
         then (case unmText data of Inr t \<Rightarrow> if t \<noteq> [] then Some (ErrLib t) else err | Inl _ \<Rightarrow> err)
         else err)"

end
