(* ===== verification/HubProps.thy ===== *)
theory HubProps
  imports HubClient
begin

text \<open>
  Theorems about the hub client: message addresses split into the parts they were made from, the
  two implementations of addressing agree on NATS, requests for other agents get no reply and run
  no request handler, and an RPC request reaches the registered method with the identity of the
  client that published it.
\<close>

section \<open>Addresses\<close>

text \<open>The parts of an address can be any nonempty strings without the separator.\<close>

definition address_token :: "address_tokens \<Rightarrow> string \<Rightarrow> bool" where
  "address_token T s \<longleftrightarrow> s \<noteq> [] \<and> at_sep T \<notin> set s"

lemma or_default_given [simp]: "s \<noteq> [] \<Longrightarrow> or_default s d = s"
  by (simp add: or_default_def)

lemma or_default_no_sep: "c \<notin> set s \<Longrightarrow> c \<notin> set d \<Longrightarrow> c \<notin> set (or_default s d)"
  by (simp add: or_default_def)

lemma Split_MakeAddress:
  assumes "list_all (address_token T) [m, a, t, n, c]"
  shows "strings_Split (HubClient_MakeAddress T m a t n c) (at_sep T) = [m, a, t, n, c]"
  unfolding HubClient_MakeAddress_def using assms
  by (subst Split_Join) (auto simp: address_token_def)

lemma inbox_no_separator:
  assumes "at_sep T \<notin> set MessageTypeINBOX" "address_token T m" "\<not> strings_HasPrefix m MessageTypeINBOX"
  shows "\<not> strings_HasPrefix (HubClient_MakeAddress T m a t n c) MessageTypeINBOX"
proof
  let ?p = MessageTypeINBOX
  assume pre: "strings_HasPrefix (HubClient_MakeAddress T m a t n c) ?p"
  obtain r where eq: "HubClient_MakeAddress T m a t n c = m @ at_sep T # r"
    using assms(2) by (auto simp: HubClient_MakeAddress_def strings_Join_Cons address_token_def)
  show False
  proof (cases "length ?p \<le> length m")
    case True
    with pre eq assms(3) show False by (simp add: strings_HasPrefix_def)
  next
    case False
    then have "at_sep T \<in> set (take (length ?p) (m @ at_sep T # r))"
      by (cases "length ?p - length m") auto
    with pre eq assms(1) show False by (simp add: strings_HasPrefix_def)
  qed
qed

abbreviation message_types :: "string list" where
  "message_types \<equiv> [MessageTypeEvent, MessageTypeAction, MessageTypeConfig, MessageTypeRPC]"

lemma message_type_not_inbox: "m \<in> set message_types \<Longrightarrow> \<not> strings_HasPrefix m MessageTypeINBOX"
  by (auto simp: strings_HasPrefix_def)

lemma SplitAddress_made:
  assumes "at_sep T \<notin> set MessageTypeINBOX" "\<not> strings_HasPrefix m MessageTypeINBOX"
    and "list_all (address_token T) [m, a, t, n, c]"
  shows "HubClient_SplitAddress T (HubClient_MakeAddress T m a t n c) =
    (\<lparr>ap_msgType = m, ap_agentID = a, ap_thingID = t, ap_name = n, ap_senderID = c\<rparr>, None)"
  using Split_MakeAddress [OF assms(3)] inbox_no_separator [OF assms(1) _ assms(2)] assms(3)
  by (simp add: HubClient_SplitAddress_def)

text \<open>
  Address round trip (HubClient.go MakeAddress/SplitAddress): for every separator that is not
  a character of the inbox prefix, an address made of five nonempty parts that do not contain the
  separator splits into exactly those parts, without error, provided the message type does not
  start with the inbox prefix.
\<close>

lemma SplitAddress_MakeAddress:
  assumes "at_sep T \<notin> set MessageTypeINBOX" and "\<not> strings_HasPrefix m MessageTypeINBOX"
    and "list_all (address_token T) [m, a, t, n, c]"
  shows "HubClient_SplitAddress T (HubClient_MakeAddress T m a t n c) =
    (\<lparr>ap_msgType = m, ap_agentID = a, ap_thingID = t, ap_name = n, ap_senderID = c\<rparr>, None)"
  using assms by (rule SplitAddress_made)

lemma SplitAddress_MakeAddress_witness:
  "HubClient_SplitAddress NatsTransport_AddressTokens ''rpc.state.store.get.alice'' =
    (\<lparr>ap_msgType = ''rpc'', ap_agentID = ''state'', ap_thingID = ''store'', ap_name = ''get'',
      ap_senderID = ''alice''\<rparr>, None)"
proof -
  have "HubClient_MakeAddress NatsTransport_AddressTokens ''rpc'' ''state'' ''store'' ''get'' ''alice''
      = ''rpc.state.store.get.alice''"
    by code_simp
  moreover have "at_sep NatsTransport_AddressTokens \<notin> set MessageTypeINBOX"
    "\<not> strings_HasPrefix ''rpc'' MessageTypeINBOX"
    "list_all (address_token NatsTransport_AddressTokens) [''rpc'', ''state'', ''store'', ''get'', ''alice'']"
    by code_simp+
  ultimately show ?thesis
    using SplitAddress_MakeAddress
      [of NatsTransport_AddressTokens "''rpc''" "''state''" "''store''" "''get''" "''alice''"]
    by simp
qed

text \<open>
  The two addressing implementations agree: with the tokens of the NATS transport the client's
  \<open>MakeAddress\<close> builds the same string as the server's \<open>transport.MakeSubject\<close> for all
  arguments, and \<open>SplitSubject\<close> gives the same parts or error as \<open>SplitAddress\<close> for every
  subject that is not an inbox.
\<close>

lemma subjects_agree_with_addresses:
  "HubClient_MakeAddress NatsTransport_AddressTokens m a t n c = MakeSubject m a t n c \<and>
   (\<not> strings_HasPrefix subject MessageTypeINBOX
    \<longrightarrow> SplitSubject subject = HubClient_SplitAddress NatsTransport_AddressTokens subject)"
  by (auto simp: HubClient_MakeAddress_def MakeSubject_def NatsTransport_AddressTokens_def SplitSubject_def
      HubClient_SplitAddress_def Let_def)

section \<open>Requests\<close>

lemmas onRequest_defs = HubClient_onRequest_def Let_def NewThingValue_def

text \<open>
  C40. Requests for other agents (HubClient.go onRequest): when the agent part of the address is
  not this client's ID, the result is \<open>donotreply\<close> and no data, whatever handlers are installed, and
  the application state changes exactly as if the message had arrived as an event: no action,
  config or RPC handler runs. On the transport, no response message is sent.
\<close>

theorem request_for_other_agent:
  assumes "ap_agentID (fst (HubClient_SplitAddress T (nm_Subject msg))) \<noteq> hc_clientID hc"
    and "nm_Reply msg \<noteq> []"
    and "nt_requestHandler nt = Some (HubClient_onRequest T ser now hc)"
  shows "HubClient_onRequest T ser now hc (nm_Subject msg) (nm_Data msg) st
       = (Returns (None, snd (HubClient_SplitAddress T (nm_Subject msg)), True),
          HubClient_onEvent T now hc (nm_Subject msg) (nm_Data msg) st)
    \<and> NatsTransport_onMessage error_text nt msg st
       = (Returns None, HubClient_onEvent T now hc (nm_Subject msg) (nm_Data msg) st)"
proof -
  obtain p err where sp: "HubClient_SplitAddress T (nm_Subject msg) = (p, err)" by fastforce
  have "HubClient_onRequest T ser now hc (nm_Subject msg) (nm_Data msg) st
      = (Returns (None, err, True), HubClient_onEvent T now hc (nm_Subject msg) (nm_Data msg) st)"
    using assms(1) sp by (auto simp: HubClient_onRequest_def HubClient_onEvent_def split: option.splits)
  with sp assms(2,3) show ?thesis
    by (simp add: NatsTransport_onMessage_def)
qed

text \<open>Installing a capability on a client, and what the RPC handler then does.\<close>

lemma SetRPCCapability_client:
  "fst (HubClient_SetRPCCapability tp capID methods hc w) =
     hc\<lparr>hc_rpcHandler := Some (case hc_rpcHandler hc of None \<Rightarrow> MultiCap capID | Some h \<Rightarrow> h),
        hc_capTable := mput capID methods (hc_capTable hc)\<rparr>"
  by (simp add: HubClient_SetRPCCapability_def HubClient_SetRPCHandler_def split: option.split)

fun uses_capTable :: "'st rpc_handler option \<Rightarrow> bool" where
  "uses_capTable (Some (HandlerFunc h)) = False"
| "uses_capTable _ = True"

lemma onRequest_rpc:
  assumes "HubClient_SplitAddress T addr =
      (\<lparr>ap_msgType = MessageTypeRPC, ap_agentID = hc_clientID hc, ap_thingID = cap, ap_name = m, ap_senderID = c\<rparr>, None)"
    and "hc_rpcHandler hc = Some h"
  shows "HubClient_onRequest T ser now hc addr payload st =
    (case run_rpcHandler ser hc h (NewThingValue now MessageTypeRPC (hc_clientID hc) cap m payload c) st of
       (r, st') \<Rightarrow> (and_then r (\<lambda>(data, e). Returns (data, e, False)), st'))"
  using assms by (simp add: HubClient_onRequest_def)

lemma multiCap_found:
  assumes "mget capTable (ThingID tv) = Some methods" and "mget methods (Name tv) = Some meth"
  shows "multiCapHandler ser capID capTable tv st = HandleRequestMessage ser (SenderID tv) meth (bytes_of (Data tv)) st"
  using assms by (simp add: multiCapHandler_def)

text \<open>
  C17. An RPC request reaches its method with the sender's identity. Let an agent register
  capability \<open>cap\<close> with \<open>SetRPCCapability\<close> (and not use its own \<open>SetRPCHandler\<close>). A request that a
  client publishes with \<open>PubRPCRequest\<close> goes to the address that \<open>onRequest\<close> of the agent maps to
  \<open>HandleRequestMessage\<close> on the registered method, with the publishing client's ID as the sender
  in the service context and with the published payload; the method's reply is sent. A method the
  capability does not have is an error and leaves the state alone.
\<close>

theorem rpc_reaches_method_with_sender:
  fixes agent :: "('v, 'st) HubClient" and client :: "('v, 'st) HubClient"
  assumes "at_sep T \<notin> set MessageTypeINBOX" and "at_sep T \<notin> set MessageTypeRPC"
    and "list_all (address_token T) [hc_clientID agent, cap, m, hc_clientID client]"
    and "uses_capTable (hc_rpcHandler agent)"
    and "agent' = fst (HubClient_SetRPCCapability tp cap methods agent w)"
    and "addr = HubClient_MakeAddress T MessageTypeRPC (hc_clientID agent) cap m (hc_clientID client)"
  shows "HubClient_onRequest T ser now agent' addr payload st =
    (case mget methods m of
       Some meth \<Rightarrow>
         (case HandleRequestMessage ser (hc_clientID client) meth (bytes_of payload) st of
            (r, st') \<Rightarrow> (and_then r (\<lambda>(data, e). Returns (data, e, False)), st'))
     | None \<Rightarrow> (Returns (None, Some (ErrUnknownMethod m
          (case hc_rpcHandler agent of Some (MultiCap first) \<Rightarrow> first | _ \<Rightarrow> cap)), False), st))"
proof -
  have tok: "list_all (address_token T) [MessageTypeRPC, hc_clientID agent, cap, m, hc_clientID client]"
    using assms(2,3) by (simp add: address_token_def)
  have agent': "agent' = agent\<lparr>hc_rpcHandler := Some (case hc_rpcHandler agent of None \<Rightarrow> MultiCap cap | Some h \<Rightarrow> h),
      hc_capTable := mput cap methods (hc_capTable agent)\<rparr>"
    unfolding assms(5) by (rule SetRPCCapability_client)
  have sp: "HubClient_SplitAddress T addr = (\<lparr>ap_msgType = MessageTypeRPC, ap_agentID = hc_clientID agent',
      ap_thingID = cap, ap_name = m, ap_senderID = hc_clientID client\<rparr>, None)"
    unfolding assms(6) using SplitAddress_made [OF assms(1) message_type_not_inbox tok] agent' by simp
  obtain first where first: "hc_rpcHandler agent' = Some (MultiCap first)"
    "first = (case hc_rpcHandler agent of Some (MultiCap first) \<Rightarrow> first | _ \<Rightarrow> cap)"
    using assms(4) agent' by (cases "hc_rpcHandler agent" rule: uses_capTable.cases) auto
  have tab: "hc_capTable agent' = mput cap methods (hc_capTable agent)" using agent' by simp
  show ?thesis
    unfolding onRequest_rpc [OF sp first(1)]
    using first(2) by (simp add: multiCapHandler_def tab NewThingValue_def bytes_of_def gomap_simps split: option.split)
qed

abbreviation echo_ser :: "string serializer" where
  "echo_ser \<equiv> \<lparr>ser_Marshal = (\<lambda>v. (v, None)), ser_MarshalError = (\<lambda>e. ([], None)), ser_Unmarshal = (\<lambda>ty s. Inr s)\<rparr>"

text \<open>A method that records who called it and answers with its argument.\<close>

fun whoami_call :: "string rpc_arg list \<Rightarrow> string list \<Rightarrow> string rpc_result list outcome \<times> string list" where
  "whoami_call [ContextArg c, ValueArg v] st = (Returns [ValueResult v, NilResult], c # st)"
| "whoami_call _ st = (Returns [], st)"

abbreviation whoami :: "(string, string list) rpc_method" where
  "whoami \<equiv> \<lparr>rm_params = [ContextParam, ValueParam 0], rm_call = whoami_call\<rparr>"

abbreviation null_transport :: "unit hub_transport" where
  "null_transport \<equiv> \<lparr>tp_tokens = NatsTransport_AddressTokens, tp_PubEvent = (\<lambda>a p w. (None, w)),
     tp_PubRequest = (\<lambda>a p w. ((None, None), w)), tp_Subscribe = (\<lambda>a w. (None, w)), tp_SetRequestHandler = id,
     tp_SetEventHandler = id, tp_SetConnectHandler = id\<rparr>"

abbreviation demo_client :: "string \<Rightarrow> (string, string list) HubClient" where
  "demo_client c \<equiv> fst (NewHubClientFromTransport null_transport c ())"

theorem request_for_other_agent_witness:
  "NatsTransport_onMessage (\<lambda>e. [])
     \<lparr>nt_status = \<lparr>hs_HubURL = [], hs_ClientID = ''a1'', hs_ConnectionStatus = Connected, hs_LastError = None\<rparr>,
      nt_connectHandler = (\<lambda>s st. st), nt_eventHandler = None,
      nt_requestHandler = Some (HubClient_onRequest NatsTransport_AddressTokens echo_ser 0 (demo_client ''a1''))\<rparr>
     \<lparr>nm_Subject = ''rpc.a2.cap.m.bob'', nm_Reply = ''r1'', nm_Data = Some ''x'', nm_hasHeader = False, nm_error = []\<rparr> [''s'']
   = (Returns None, HubClient_onEvent NatsTransport_AddressTokens 0 (demo_client ''a1'') ''rpc.a2.cap.m.bob'' (Some ''x'') [''s''])"
proof -
  let ?hc = "demo_client ''a1''" and ?T = NatsTransport_AddressTokens
  have other: "ap_agentID (fst (HubClient_SplitAddress ?T ''rpc.a2.cap.m.bob'')) \<noteq> hc_clientID ?hc"
    by (simp add: HubClient_SplitAddress_def NatsTransport_AddressTokens_def strings_HasPrefix_def
        NewHubClientFromTransport_def)
  show ?thesis
    using request_for_other_agent [where T = "?T" and hc = "?hc" and ser = echo_ser and now = 0 and error_text = "\<lambda>e. []"
      and st = "[''s'']" and msg = "\<lparr>nm_Subject = ''rpc.a2.cap.m.bob'', nm_Reply = ''r1'', nm_Data = Some ''x'',
        nm_hasHeader = False, nm_error = []\<rparr>"
      and nt = "\<lparr>nt_status = \<lparr>hs_HubURL = [], hs_ClientID = ''a1'', hs_ConnectionStatus = Connected,
          hs_LastError = None\<rparr>, nt_connectHandler = (\<lambda>s st. st), nt_eventHandler = None,
        nt_requestHandler = Some (HubClient_onRequest ?T echo_ser 0 ?hc)\<rparr>"] other
    by simp
qed

theorem rpc_reaches_method_with_sender_witness:
  "HubClient_onRequest NatsTransport_AddressTokens echo_ser 0
     (fst (HubClient_SetRPCCapability null_transport ''cap'' [(''m'', whoami)] (demo_client ''a1'') ()))
     ''rpc.a1.cap.m.bob'' (Some ''x'') []
   = (Returns (Some ''x'', None, False), [''bob''])"
proof -
  have addr: "HubClient_MakeAddress NatsTransport_AddressTokens ''rpc'' ''a1'' ''cap'' ''m'' ''bob''
      = ''rpc.a1.cap.m.bob''" by code_simp
  have id: "hc_clientID (demo_client c) = c" "hc_rpcHandler (demo_client c) = None" for c
    by (simp_all add: NewHubClientFromTransport_def)
  have sep: "at_sep NatsTransport_AddressTokens = CHR ''.''" by (simp add: NatsTransport_AddressTokens_def)
  show ?thesis
    using rpc_reaches_method_with_sender [where T = NatsTransport_AddressTokens and agent = "demo_client ''a1''"
      and client = "demo_client ''bob''" and cap = "''cap''" and m = "''m''" and methods = "[(''m'', whoami)]"
      and tp = null_transport and w = "()" and ser = echo_ser and now = 0 and payload = "Some ''x''" and st = "[]",
      OF _ _ _ _ refl refl]
    by (simp add: id addr address_token_def HandleRequestMessage_def finish_call_def bytes_of_def sep)
qed

end
