(* ===== verification/RpcCall.thy ===== *)
theory RpcCall
  imports HubProps
begin

text \<open>
  A remote call from end to end: \<open>HubClient.PubRPCRequest\<close> of a client, \<open>NatsTransport.PubRequest\<close>, the
  NATS server, \<open>onMessage\<close> of the agent's transport, \<open>HubClient.onRequest\<close> and
  \<open>HandleRequestMessage\<close>. The NATS server is a library: \<open>broker_routes\<close> states what the code relies on.
  The result is that a remote call is the local call of the method with the caller's ID.
\<close>

section \<open>The message server\<close>

text \<open>
  A request on a subject of an agent that serves requests is handed to the message handler of the
  agent, with a reply address, and the message the agent responds with is the result; without a response the
  request times out. A nil payload arrives as an empty one.
\<close>

definition on_wire :: "nats_msg \<Rightarrow> nats_msg" where
  "on_wire msg = msg\<lparr>nm_Data := Some (bytes_of (nm_Data msg))\<rparr>"

definition request_msg :: "string \<Rightarrow> string \<Rightarrow> string option \<Rightarrow> nats_msg" where
  "request_msg inbox subject payload =
     on_wire \<lparr>nm_Subject = subject, nm_Reply = inbox, nm_Data = payload, nm_hasHeader = False, nm_error = []\<rparr>"

definition request_result :: "nats_msg option outcome \<times> 'st \<Rightarrow> (go_error + nats_msg) \<times> 'st" where
  "request_result r =
     (case r of
        (Returns (Some resp), st) \<Rightarrow> (Inr (on_wire resp), st)
      | (_, st) \<Rightarrow> (Inl (ErrLib ''nats: timeout''), st))"

definition broker_routes ::
  "(go_error \<Rightarrow> string) \<Rightarrow> 'st NatsTransport \<Rightarrow> string \<Rightarrow> (string \<Rightarrow> string option \<Rightarrow> 'st \<Rightarrow> (go_error + nats_msg) \<times> 'st) \<Rightarrow> bool" where
  "broker_routes error_text nt agentID Request \<longleftrightarrow>
     (\<forall>subject payload st. ap_agentID (fst (SplitSubject subject)) = agentID \<longrightarrow>
        (\<exists>inbox. inbox \<noteq> [] \<and> Request subject payload st =
           request_result (NatsTransport_onMessage error_text nt (request_msg inbox subject payload) st)))"

section \<open>The remote call\<close>

text \<open>The error result of a method.\<close>

fun err_result :: "go_error option \<Rightarrow> 'v rpc_result" where
  "err_result None = NilResult"
| "err_result (Some e) = ErrorResult e"

text \<open>What a caller gets for what the method left behind.\<close>

definition rpc_outcome ::
  "(go_error \<Rightarrow> string) \<Rightarrow> 'v serializer \<Rightarrow> nat option \<Rightarrow> (string option \<times> go_error option) outcome \<times> 'st
     \<Rightarrow> ('v option \<times> go_error option) \<times> 'st" where
  "rpc_outcome error_text ser resp r =
     (case r of
        (Panics p, st) \<Rightarrow> ((None, Some (ErrLib ''nats: timeout'')), st)
      | (Returns (data, Some e), st) \<Rightarrow> ((None, Some (ErrLib (error_text e))), st)
      | (Returns (data, None), st) \<Rightarrow>
          (case resp of
             None \<Rightarrow> ((None, None), st)
           | Some ty \<Rightarrow> (case ser_Unmarshal ser ty (bytes_of data) of
                Inl e \<Rightarrow> ((None, Some e), st) | Inr v \<Rightarrow> ((Some v, None), st))))"

abbreviation nats_token :: "string \<Rightarrow> bool" where
  "nats_token \<equiv> address_token NatsTransport_AddressTokens"

lemma nats_sep [simp]: "at_sep NatsTransport_AddressTokens = CHR ''.''"
  by (simp add: NatsTransport_AddressTokens_def)

text \<open>An agent that registered the capability as its first RPC handler.\<close>

definition serves :: "string \<Rightarrow> (string, ('v, 'st) rpc_method) gomap \<Rightarrow> ('v, 'st) HubClient \<Rightarrow> bool" where
  "serves cap methods agent \<longleftrightarrow> (\<exists>capID. hc_rpcHandler agent = Some (MultiCap capID))
     \<and> mget (hc_capTable agent) cap = Some methods"

lemma SetRPCCapability_serves:
  "hc_rpcHandler hc = None \<Longrightarrow> serves cap methods (fst (HubClient_SetRPCCapability tp cap methods hc w))"
  by (simp add: serves_def SetRPCCapability_client mget_mput)

lemma agent_runs_method:
  assumes "serves cap methods agent" "mget methods m = Some meth"
    "list_all nats_token [hc_clientID agent, cap, m, c]"
    "addr = HubClient_MakeAddress NatsTransport_AddressTokens MessageTypeRPC (hc_clientID agent) cap m c"
  shows "HubClient_onRequest NatsTransport_AddressTokens ser now agent addr payload st =
    (case HandleRequestMessage ser c meth (bytes_of payload) st of
       (r, st') \<Rightarrow> (and_then r (\<lambda>(data, e). Returns (data, e, False)), st'))"
proof -
  have tok: "list_all nats_token [MessageTypeRPC, hc_clientID agent, cap, m, c]"
    using assms(3) by (simp add: address_token_def)
  have sp: "HubClient_SplitAddress NatsTransport_AddressTokens addr = (\<lparr>ap_msgType = MessageTypeRPC,
      ap_agentID = hc_clientID agent, ap_thingID = cap, ap_name = m, ap_senderID = c\<rparr>, None)"
    unfolding assms(4) by (rule SplitAddress_made [OF _ message_type_not_inbox tok]) simp_all
  obtain capID where "hc_rpcHandler agent = Some (MultiCap capID)" "mget (hc_capTable agent) cap = Some methods"
    using assms(1) by (auto simp: serves_def)
  then show ?thesis
    using onRequest_rpc [OF sp] assms(2) by (simp add: multiCapHandler_def NewThingValue_def bytes_of_def)
qed

lemma SplitSubject_agent:
  assumes "list_all nats_token [MessageTypeRPC, a, cap, m, c]"
  shows "ap_agentID (fst (SplitSubject (HubClient_MakeAddress NatsTransport_AddressTokens MessageTypeRPC a cap m c))) = a"
proof -
  let ?s = "HubClient_MakeAddress NatsTransport_AddressTokens MessageTypeRPC a cap m c"
  have "\<not> strings_HasPrefix ?s MessageTypeINBOX"
    by (rule inbox_no_separator) (use assms message_type_not_inbox [of MessageTypeRPC] in simp_all)
  then have "SplitSubject ?s = HubClient_SplitAddress NatsTransport_AddressTokens ?s"
    using subjects_agree_with_addresses by blast
  then show ?thesis
    using SplitAddress_made [OF _ message_type_not_inbox assms] by simp
qed

text \<open>
  The remote call of a method is the local call with the caller's ID: the same effect on the service,
  the same response once marshalled, the same error by its text.
\<close>

lemma rpc_call_is_method_call:
  fixes client :: "('v, 'c) HubClient" and agent :: "('v, 'st) HubClient"
  assumes "serves cap methods agent" "mget methods m = Some meth"
    and "list_all nats_token [hc_clientID agent, cap, m, hc_clientID client]"
    and "nt_requestHandler nt = Some (HubClient_onRequest NatsTransport_AddressTokens ser now agent)"
    and "broker_routes error_text nt (hc_clientID agent) Request"
    and "\<And>e. error_text e \<noteq> []"
    and "tp_tokens tp = NatsTransport_AddressTokens" "tp_PubRequest tp = NatsTransport_PubRequest Request"
  shows "HubClient_PubRPCRequest tp ser client (hc_clientID agent) cap m req resp st =
    rpc_outcome error_text ser resp
      (HandleRequestMessage ser (hc_clientID client) meth (bytes_of (map_option (\<lambda>r. fst (ser_Marshal ser r)) req)) st)"
proof -
  let ?addr = "HubClient_MakeAddress NatsTransport_AddressTokens MessageTypeRPC (hc_clientID agent) cap m (hc_clientID client)"
  let ?pay = "map_option (\<lambda>r. fst (ser_Marshal ser r)) req"
  obtain r st' where h: "HandleRequestMessage ser (hc_clientID client) meth (bytes_of ?pay) st = (r, st')" by fastforce
  have "ap_agentID (fst (SplitSubject ?addr)) = hc_clientID agent"
    by (rule SplitSubject_agent) (use assms(3) in \<open>simp add: address_token_def\<close>)
  then obtain inbox where i: "inbox \<noteq> []"
    "Request ?addr ?pay st = request_result (NatsTransport_onMessage error_text nt (request_msg inbox ?addr ?pay) st)"
    using assms(5) unfolding broker_routes_def by blast
  have on: "HubClient_onRequest NatsTransport_AddressTokens ser now agent ?addr (Some (bytes_of ?pay)) st =
      (and_then r (\<lambda>(data, e). Returns (data, e, False)), st')"
    using agent_runs_method [OF assms(1-3) refl, of ser now "Some (bytes_of ?pay)" st] h by (simp add: bytes_of_def)
  have "cap \<noteq> []" "m \<noteq> []" using assms(3) by (simp_all add: address_token_def)
  then show ?thesis
    using i on h assms(4,6,7,8)
    by (cases r; cases resp)
      (auto simp: HubClient_PubRPCRequest_def NatsTransport_PubRequest_def NatsTransport_onMessage_def request_msg_def
        on_wire_def request_result_def rpc_outcome_def Let_def bytes_of_def split: option.splits)
qed

text \<open>
  A client of a service, both connected to the message server: the service has registered its
  methods and its transport passes requests to it.
\<close>

type_synonym ('v, 'c, 'w) hub_link = "'w hub_transport \<times> 'v serializer \<times> ('v, 'c) HubClient"

definition rpc_connected ::
  "(go_error \<Rightarrow> string) \<Rightarrow> string \<Rightarrow> (string, ('v, 's) rpc_method) gomap \<Rightarrow> ('v, 's) HubClient \<Rightarrow> 's NatsTransport
     \<Rightarrow> (string \<Rightarrow> string option \<Rightarrow> 's \<Rightarrow> (go_error + nats_msg) \<times> 's) \<Rightarrow> ('v, 'c, 's) hub_link \<Rightarrow> bool" where
  "rpc_connected error_text cap methods agent nt Request cl \<longleftrightarrow>
     (case cl of (tp, ser, client) \<Rightarrow>
        serves cap methods agent \<and> nats_token (hc_clientID client)
        \<and> (\<exists>now. nt_requestHandler nt = Some (HubClient_onRequest NatsTransport_AddressTokens ser now agent))
        \<and> broker_routes error_text nt (hc_clientID agent) Request
        \<and> tp_tokens tp = NatsTransport_AddressTokens \<and> tp_PubRequest tp = NatsTransport_PubRequest Request)"

text \<open>What the results of a method become.\<close>

definition call_result ::
  "'v serializer \<Rightarrow> 'v rpc_result list outcome \<times> 'st \<Rightarrow> (string option \<times> go_error option) outcome \<times> 'st" where
  "call_result ser r =
     (case r of
        (Panics p, st) \<Rightarrow> (Panics p, st)
      | (Returns [], st) \<Rightarrow> (Returns (None, None), st)
      | (Returns [r0], st) \<Rightarrow> (finish_call ser NilResult r0, st)
      | (Returns [r0, r1], st) \<Rightarrow> (finish_call ser r0 r1, st)
      | (Returns _, st) \<Rightarrow> (Returns (None, Some ErrTooManyResults), st))"

lemma rpc_connected_call:
  assumes "rpc_connected error_text cap methods agent nt Request (tp, ser, client)" "\<And>e. error_text e \<noteq> []"
    and "mget methods m = Some meth" "list_all nats_token [hc_clientID agent, cap, m]"
    and "make_args ser (hc_clientID client) (bytes_of (map_option (\<lambda>r. fst (ser_Marshal ser r)) req)) (rm_params meth) = Inr argv"
  shows "HubClient_PubRPCRequest tp ser client (hc_clientID agent) cap m req resp st =
    rpc_outcome error_text ser resp (call_result ser (rm_call meth argv st))"
proof -
  obtain now where *: "serves cap methods agent" "nats_token (hc_clientID client)"
    "nt_requestHandler nt = Some (HubClient_onRequest NatsTransport_AddressTokens ser now agent)"
    "broker_routes error_text nt (hc_clientID agent) Request"
    "tp_tokens tp = NatsTransport_AddressTokens" "tp_PubRequest tp = NatsTransport_PubRequest Request"
    using assms(1) by (auto simp: rpc_connected_def)
  have "list_all nats_token [hc_clientID agent, cap, m, hc_clientID client]" using assms(4) *(2) by simp
  from rpc_call_is_method_call [OF *(1) assms(3) this *(3,4) assms(2) *(5,6), of req resp st] show ?thesis
    using assms(5) by (simp add: HandleRequestMessage_def call_result_def)
qed

text \<open>A method with the context and a message as parameters, and a serializer that keeps the message.\<close>

lemma rpc_value_call:
  assumes "rpc_connected error_text cap methods agent nt Request (tp, ser, client)" "\<And>e. error_text e \<noteq> []"
    and "mget methods m = Some \<lparr>rm_params = [ContextParam, ValueParam ty], rm_call = f\<rparr>"
    and "list_all nats_token [hc_clientID agent, cap, m]"
    and "ser_Unmarshal ser ty (fst (ser_Marshal ser req)) = Inr req"
  shows "HubClient_PubRPCRequest tp ser client (hc_clientID agent) cap m (Some req) resp st =
    rpc_outcome error_text ser resp (call_result ser (f [ContextArg (hc_clientID client), ValueArg req] st))"
  using rpc_connected_call [OF assms(1-4), of "Some req"] assms(5) by (simp add: bytes_of_def)

text \<open>A method with the message or the context only, and one without parameters.\<close>

lemma rpc_message_call:
  assumes "rpc_connected error_text cap methods agent nt Request (tp, ser, client)" "\<And>e. error_text e \<noteq> []"
    and "mget methods m = Some \<lparr>rm_params = [ValueParam ty], rm_call = f\<rparr>"
    and "list_all nats_token [hc_clientID agent, cap, m]"
    and "ser_Unmarshal ser ty (fst (ser_Marshal ser req)) = Inr req"
  shows "HubClient_PubRPCRequest tp ser client (hc_clientID agent) cap m (Some req) resp st =
    rpc_outcome error_text ser resp (call_result ser (f [ValueArg req] st))"
  using rpc_connected_call [OF assms(1-4), of "Some req"] assms(5) by (simp add: bytes_of_def)

lemma rpc_context_call:
  assumes "rpc_connected error_text cap methods agent nt Request (tp, ser, client)" "\<And>e. error_text e \<noteq> []"
    and "mget methods m = Some \<lparr>rm_params = [ContextParam], rm_call = f\<rparr>"
    and "list_all nats_token [hc_clientID agent, cap, m]"
  shows "HubClient_PubRPCRequest tp ser client (hc_clientID agent) cap m req resp st =
    rpc_outcome error_text ser resp (call_result ser (f [ContextArg (hc_clientID client)] st))"
  using rpc_connected_call [OF assms(1-4), of req] by simp

lemma rpc_plain_call:
  assumes "rpc_connected error_text cap methods agent nt Request (tp, ser, client)" "\<And>e. error_text e \<noteq> []"
    and "mget methods m = Some \<lparr>rm_params = [], rm_call = f\<rparr>"
    and "list_all nats_token [hc_clientID agent, cap, m]"
  shows "HubClient_PubRPCRequest tp ser client (hc_clientID agent) cap m req resp st =
    rpc_outcome error_text ser resp (call_result ser (f [] st))"
  using rpc_connected_call [OF assms(1-4), of req] by simp

text \<open>The outcome of a method that returns only an error, and of one that returns a message and an error.\<close>

definition remote :: "(go_error \<Rightarrow> string) \<Rightarrow> go_error option \<Rightarrow> go_error option" where
  "remote error_text e = map_option (\<lambda>e. ErrLib (error_text e)) e"

lemma rpc_outcome_error [simp]:
  "rpc_outcome error_text ser None (call_result ser (Returns [err_result e], st)) = ((None, remote error_text e), st)"
  by (cases e) (simp_all add: rpc_outcome_def call_result_def finish_call_def remote_def)

lemma rpc_outcome_value:
  "snd (ser_Marshal ser v) = None \<Longrightarrow> ser_Unmarshal ser ty (fst (ser_Marshal ser v)) = Inr v
   \<Longrightarrow> rpc_outcome error_text ser (Some ty) (call_result ser (Returns [ValueResult v, err_result e], st))
     = ((if e = None then Some v else None, remote error_text e), st)"
  by (cases e) (auto simp: rpc_outcome_def call_result_def finish_call_def remote_def bytes_of_def split: prod.splits)

text \<open>A server that hands every request to the agent: the laws can hold.\<close>

definition direct_Request ::
  "(go_error \<Rightarrow> string) \<Rightarrow> 'st NatsTransport \<Rightarrow> string \<Rightarrow> string option \<Rightarrow> 'st \<Rightarrow> (go_error + nats_msg) \<times> 'st" where
  "direct_Request error_text nt subject payload st =
     request_result (NatsTransport_onMessage error_text nt (request_msg ''_INBOX.1'' subject payload) st)"

lemma direct_routes: "broker_routes error_text nt agentID (direct_Request error_text nt)"
  unfolding broker_routes_def direct_Request_def by (intro allI impI exI [of _ "''_INBOX.1''"]) simp

section \<open>A serializer for some messages\<close>

text \<open>A message is encoded by its place in a list.\<close>

definition table_ser :: "'v list \<Rightarrow> 'v serializer" where
  "table_ser msgs = \<lparr>ser_Marshal = (\<lambda>v. (replicate (length (takeWhile (\<lambda>m. m \<noteq> v) msgs)) (CHR ''x''), None)),
     ser_MarshalError = (\<lambda>e. ([], None)),
     ser_Unmarshal = (\<lambda>ty d. if length d < length msgs then Inr (msgs ! length d) else Inl ErrUnexpectedResponse)\<rparr>"

lemma takeWhile_place:
  "v \<in> set msgs \<Longrightarrow> length (takeWhile (\<lambda>m. m \<noteq> v) msgs) < length msgs \<and> msgs ! length (takeWhile (\<lambda>m. m \<noteq> v) msgs) = v"
  by (induction msgs) auto

lemma table_ser_roundtrip:
  "v \<in> set msgs \<Longrightarrow> snd (ser_Marshal (table_ser msgs) v) = None
     \<and> ser_Unmarshal (table_ser msgs) ty (fst (ser_Marshal (table_ser msgs) v)) = Inr v"
  using takeWhile_place [of v msgs] by (auto simp: table_ser_def)

end
