(* ===== verification/GoPaths.thy ===== *)
theory GoPaths
  imports GoStrings
begin

text \<open>
  Go's \<open>path\<close> package and the files the components read and write. \<open>path.Clean\<close> works on the
  slash-separated elements of a path; \<open>path.Join\<close> puts slashes between its nonempty arguments and
  cleans the result. A file system is a map from paths to contents; the error of a call that fails
  is an argument of the operation that makes the call.
\<close>

section \<open>path.Clean and path.Join\<close>

abbreviation slash :: char where "slash \<equiv> CHR ''/''"

text \<open>The elements of the cleaned path, last one first: \<open>.\<close> and empty elements are dropped, \<open>..\<close>
  removes the element before it, and is kept only at the start of a relative path.\<close>

fun clean_elems :: "bool \<Rightarrow> string list \<Rightarrow> string list \<Rightarrow> string list" where
  "clean_elems rooted out [] = out"
| "clean_elems rooted out (e # es) =
     (if e = [] \<or> e = ''.'' then clean_elems rooted out es
      else if e = ''..'' then
        (case out of
           [] \<Rightarrow> clean_elems rooted (if rooted then [] else [''..'']) es
         | p # ps \<Rightarrow> clean_elems rooted (if p = ''..'' then ''..'' # out else ps) es)
      else clean_elems rooted (e # out) es)"

definition path_rooted :: "string \<Rightarrow> bool" where
  "path_rooted p \<longleftrightarrow> p \<noteq> [] \<and> hd p = slash"

definition path_Clean :: "string \<Rightarrow> string" where
  "path_Clean p =
     (let out = strings_Join (rev (clean_elems (path_rooted p) [] (strings_Split p slash))) slash
      in if path_rooted p then slash # out else if out = [] then ''.'' else out)"

definition path_Join :: "string \<Rightarrow> string \<Rightarrow> string" where
  "path_Join a b =
     (if a = [] \<and> b = [] then []
      else if a = [] then path_Clean b
      else if b = [] then path_Clean a
      else path_Clean (a @ slash # b))"

text \<open>A file name: one nonempty element that is not \<open>.\<close> or \<open>..\<close>.\<close>

definition plain_name :: "string \<Rightarrow> bool" where
  "plain_name n \<longleftrightarrow> n \<noteq> [] \<and> n \<noteq> ''.'' \<and> n \<noteq> ''..'' \<and> slash \<notin> set n"

lemma plain_name_ext [intro]:
  "plain_name n \<Longrightarrow> e \<noteq> [] \<Longrightarrow> hd e = CHR ''.'' \<Longrightarrow> slash \<notin> set e \<Longrightarrow> e \<noteq> ''.'' \<Longrightarrow> plain_name (n @ e)"
  by (cases n; cases e) (auto simp: plain_name_def append_eq_Cons_conv Cons_eq_append_conv)

lemma clean_elems_append:
  "clean_elems r out (xs @ ys) = clean_elems r (clean_elems r out xs) ys"
  by (induction r out xs rule: clean_elems.induct) (auto split: list.splits)

lemma clean_elems_name: "plain_name n \<Longrightarrow> clean_elems r out [n] = n # out"
  by (simp add: plain_name_def)

declare clean_elems.simps(2) [simp del]

lemma strings_Split_snoc:
  "c \<notin> set n \<Longrightarrow> strings_Split (d @ c # n) c = strings_Split d c @ [n]"
proof (induction d)
  case Nil
  then show ?case by (simp add: strings_Split_nosep)
next
  case (Cons x d)
  then show ?case by (cases "strings_Split d c") auto
qed

definition dir_elems :: "string \<Rightarrow> string list" where
  "dir_elems d = clean_elems (path_rooted d) [] (strings_Split d slash)"

lemma clean_elems_step:
  "\<exists>o'. clean_elems r out (e # es) = clean_elems r o' es \<and> set o' \<subseteq> insert e (insert ''..'' (set out))"
proof (cases out)
  case Nil
  then show ?thesis
    by (cases "e = [] \<or> e = ''.''"; cases "e = ''..''"; cases r)
       (auto simp: clean_elems.simps(2) intro: exI [of _ "[]"] exI [of _ "[''..'']"] exI [of _ "[e]"])
next
  case (Cons p ps)
  show ?thesis
    by (cases "e = [] \<or> e = ''.''"; cases "e = ''..''"; cases "p = ''..''")
       (auto simp: clean_elems.simps(2) Cons
          intro: exI [of _ "p # ps"] exI [of _ ps] exI [of _ "''..'' # p # ps"] exI [of _ "e # p # ps"])
qed

lemma clean_elems_subset: "set (clean_elems r out es) \<subseteq> set out \<union> set es \<union> {''..''}"
proof (induction es arbitrary: out)
  case Nil
  then show ?case by auto
next
  case (Cons e es)
  obtain o' where "clean_elems r out (e # es) = clean_elems r o' es"
      and "set o' \<subseteq> insert e (insert ''..'' (set out))"
    using clean_elems_step by blast
  then show ?case using Cons.IH [of o'] by auto
qed

lemma dir_elems_no_slash: "e \<in> set (dir_elems d) \<Longrightarrow> slash \<notin> set e"
  unfolding dir_elems_def using clean_elems_subset [of "path_rooted d" "[]" "strings_Split d slash"]
  by (auto dest: strings_Split_parts)

lemma path_rooted_append: "d \<noteq> [] \<Longrightarrow> path_rooted (d @ s) = path_rooted d"
  by (cases d) (simp_all add: path_rooted_def)

lemma strings_Join_snoc_ne: "n \<noteq> [] \<Longrightarrow> strings_Join (xs @ [n]) c \<noteq> []"
  by (induction xs) (auto simp: strings_Join_Cons)

lemma path_Join_name:
  assumes "d \<noteq> []" "plain_name n"
  shows "path_Join d n = (if path_rooted d then [slash] else []) @ strings_Join (rev (dir_elems d) @ [n]) slash"
proof -
  have "slash \<notin> set n" "n \<noteq> []" using assms(2) by (auto simp: plain_name_def)
  then have "strings_Split (d @ slash # n) slash = strings_Split d slash @ [n]"
    by (simp add: strings_Split_snoc)
  then have "clean_elems (path_rooted d) [] (strings_Split (d @ slash # n) slash) = n # dir_elems d"
    using assms(2) by (simp add: clean_elems_append clean_elems_name dir_elems_def)
  moreover have "path_rooted (d @ slash # n) = path_rooted d"
    by (rule path_rooted_append [OF assms(1)])
  ultimately show ?thesis
    using assms(1) \<open>n \<noteq> []\<close> strings_Join_snoc_ne [OF \<open>n \<noteq> []\<close>] by (simp add: path_Join_def path_Clean_def Let_def)
qed

text \<open>Different names in a directory have different paths.\<close>

lemma path_Join_inject:
  assumes "d \<noteq> []" "plain_name m" "plain_name n"
  shows "path_Join d m = path_Join d n \<longleftrightarrow> m = n"
proof
  assume "path_Join d m = path_Join d n"
  then have "strings_Join (rev (dir_elems d) @ [m]) slash = strings_Join (rev (dir_elems d) @ [n]) slash"
    using assms by (simp add: path_Join_name)
  moreover have "strings_Split (strings_Join (rev (dir_elems d) @ [k]) slash) slash = rev (dir_elems d) @ [k]"
    if "plain_name k" for k
    using that by (intro Split_Join) (auto simp: plain_name_def dest: dir_elems_no_slash)
  ultimately have "rev (dir_elems d) @ [m] = rev (dir_elems d) @ [n]"
    using assms(2,3) by metis
  then show "m = n" by simp
qed simp

lemma path_Join_ne: "d \<noteq> [] \<Longrightarrow> plain_name n \<Longrightarrow> path_Join d n \<noteq> []"
  by (simp add: path_Join_name strings_Join_snoc_ne plain_name_def)

text \<open>A name in an absolute directory has an absolute path.\<close>

lemma path_Join_rooted:
  "path_rooted d \<Longrightarrow> plain_name n \<Longrightarrow> path_rooted (path_Join d n)"
  by (subst path_Join_name) (auto simp: path_rooted_def)

lemma path_rooted_slash: "path_rooted p \<Longrightarrow> slash \<in> set p"
  by (cases p) (auto simp: path_rooted_def)

section \<open>Files\<close>

type_synonym filesys = "string \<rightharpoonup> string"

text \<open>\<open>os.ReadFile\<close>: a file that does not exist is an error too.\<close>

definition os_ReadFile :: "filesys \<Rightarrow> string \<Rightarrow> go_error + string" where
  "os_ReadFile fs p = (case fs p of None \<Rightarrow> Inl (ErrLib ''no such file or directory'') | Some c \<Rightarrow> Inr c)"

text \<open>\<open>os.WriteFile\<close> truncates an existing file; a file without write permission is not opened.
  The first argument is the error of the call.\<close>

definition os_WriteFile :: "go_error option \<Rightarrow> string \<Rightarrow> string \<Rightarrow> filesys \<Rightarrow> go_error option \<times> filesys" where
  "os_WriteFile e p c fs = (case e of None \<Rightarrow> (None, fs(p \<mapsto> c)) | Some err \<Rightarrow> (Some err, fs))"

definition os_Remove :: "go_error option \<Rightarrow> string \<Rightarrow> filesys \<Rightarrow> filesys" where
  "os_Remove e p fs = (case e of None \<Rightarrow> fs(p := None) | Some err \<Rightarrow> fs)"

end
