(* ===== verification/StateClient.thy ===== *)
theory StateClient
  imports StateService RpcCall GoPaths
begin

text \<open>
  Model of \<open>done_mod/mod_state/state_cli/StateClient.go\<close>, of the messages in \<open>state_api/stateapi.go\<close>
  and of starting the state service, and the composition of client, hub connection, state
  service and bucket store. The records a client stores are of any type; \<open>enc\<close> and \<open>dec\<close> are the serializer
  on them, \<open>ser\<close> is the serializer on the messages.
\<close>

section \<open>Messages\<close>

abbreviation StateServiceName :: string where "StateServiceName \<equiv> ''state''"
abbreviation StorageCap :: string where "StorageCap \<equiv> ''store''"
abbreviation DeleteMethod :: string where "DeleteMethod \<equiv> ''delete''"
abbreviation GetMethod :: string where "GetMethod \<equiv> ''get''"
abbreviation GetMultipleMethod :: string where "GetMultipleMethod \<equiv> ''getMultiple''"
abbreviation SetMethod :: string where "SetMethod \<equiv> ''set''"
abbreviation SetMultipleMethod :: string where "SetMultipleMethod \<equiv> ''setMultiple''"

datatype state_message =
    DeleteArgs string
  | GetArgs string
  | GetMultipleArgs "string list"
  | SetArgs string string
  | SetMultipleArgs "(string, string) gomap"
  | GetRespMsg GetResp
  | GetMultipleResp "(string, string) gomap"
  | SetServicePermissionsArgs string "string list"

text \<open>The Go type of a message, which a receiver unmarshals into.\<close>

fun message_type :: "state_message \<Rightarrow> nat" where
  "message_type (DeleteArgs _) = 0"
| "message_type (GetArgs _) = 1"
| "message_type (GetMultipleArgs _) = 2"
| "message_type (SetArgs _ _) = 3"
| "message_type (SetMultipleArgs _) = 4"
| "message_type (GetRespMsg _) = 5"
| "message_type (GetMultipleResp _) = 6"
| "message_type (SetServicePermissionsArgs _ _) = 7"

section \<open>The service's methods\<close>

text \<open>
  The table of \<open>SetRPCCapability\<close> in \<open>StateService.Start\<close>. Reflection calls a method with arguments of its
  parameter types only; the last equation is never used.
\<close>

fun state_call :: "('s, 'cur) IBucketStore \<Rightarrow> state_message rpc_arg list \<Rightarrow> 's \<Rightarrow> state_message rpc_result list \<times> 's" where
  "state_call S [ContextArg c, ValueArg (DeleteArgs k)] s =
     (case StateService_Delete S c k s of (e, s') \<Rightarrow> ([err_result e], s'))"
| "state_call S [ContextArg c, ValueArg (GetArgs k)] s =
     (case StateService_Get S c k s of (resp, e, s') \<Rightarrow> ([ValueResult (GetRespMsg resp), err_result e], s'))"
| "state_call S [ContextArg c, ValueArg (GetMultipleArgs ks)] s =
     (case StateService_GetMultiple S c ks s of (kv, e, s') \<Rightarrow> ([ValueResult (GetMultipleResp kv), err_result e], s'))"
| "state_call S [ContextArg c, ValueArg (SetArgs k v)] s =
     (case StateService_Set S c k v s of (e, s') \<Rightarrow> ([err_result e], s'))"
| "state_call S [ContextArg c, ValueArg (SetMultipleArgs kv)] s =
     (case StateService_SetMultiple S c kv s of (e, s') \<Rightarrow> ([err_result e], s'))"
| "state_call S argv s = ([], s)"

definition state_method :: "('s, 'cur) IBucketStore \<Rightarrow> nat \<Rightarrow> (state_message, 's) rpc_method" where
  "state_method S ty = \<lparr>rm_params = [ContextParam, ValueParam ty], rm_call = (\<lambda>argv s. case state_call S argv s of (rs, s') \<Rightarrow> (Returns rs, s'))\<rparr>"

definition StateService_methods :: "('s, 'cur) IBucketStore \<Rightarrow> (string, (state_message, 's) rpc_method) gomap" where
  "StateService_methods S =
     [(DeleteMethod, state_method S 0), (GetMethod, state_method S 1), (GetMultipleMethod, state_method S 2),
      (SetMethod, state_method S 3), (SetMultipleMethod, state_method S 4)]"

text \<open>
  \<open>Start\<close> sets the permissions with a request to the auth service, opens the store and registers the methods;
  \<open>mk\<close> makes the store's interface for the opened database.
\<close>

definition StateService_Start ::
  "'w hub_transport \<Rightarrow> state_message serializer \<Rightarrow> (string \<Rightarrow> go_error + 'db) \<Rightarrow> ('db BoltStore, 'cur) IBucketStore \<Rightarrow> string
     \<Rightarrow> (state_message, 'db BoltStore) HubClient \<Rightarrow> 'w
     \<Rightarrow> (go_error + 'db BoltStore) \<times> (state_message, 'db BoltStore) HubClient \<times> 'w" where
  "StateService_Start tp ser bbolt_Open S storeDir hc w =
     (case HubClient_PubRPCRequest tp ser hc ''auth'' ''profile'' ''setServicePermissions''
         (Some (SetServicePermissionsArgs StorageCap [''viewer'', ''operator'', ''manager'', ''admin'', ''device'', ''service'']))
         None w of
        ((_, Some err), w1) \<Rightarrow> (Inl err, hc, w1)
      | ((_, None), w1) \<Rightarrow>
          (case BoltStore_Open bbolt_Open (path_Join storeDir ''state.kvbtree'') of
             Inl err \<Rightarrow> (Inl err, hc, w1)
           | Inr store \<Rightarrow>
               (case HubClient_SetRPCCapability tp StorageCap (StateService_methods S) hc w1 of
                  (hc1, w2) \<Rightarrow> (Inr store, hc1, w2))))"

text \<open>\<open>Stop\<close> closes the store and drops the error.\<close>

definition StateService_Stop :: "go_error option option \<Rightarrow> unit outcome" where
  "StateService_Stop closed = and_then (BoltStore_Close closed) (\<lambda>_. Returns ())"

section \<open>The client\<close>

type_synonym ('c, 'w) state_link = "(state_message, 'c, 'w) hub_link"

definition state_rpc ::
  "('c, 'w) state_link \<Rightarrow> string \<Rightarrow> state_message \<Rightarrow> nat option \<Rightarrow> 'w \<Rightarrow> (state_message option \<times> go_error option) \<times> 'w" where
  "state_rpc cl method req resp w =
     (case cl of (tp, ser, hc) \<Rightarrow> HubClient_PubRPCRequest tp ser hc StateServiceName StorageCap method (Some req) resp w)"

definition StateClient_Delete :: "('c, 'w) state_link \<Rightarrow> string \<Rightarrow> 'w \<Rightarrow> go_error option \<times> 'w" where
  "StateClient_Delete cl key w = (case state_rpc cl DeleteMethod (DeleteArgs key) None w of ((_, err), w1) \<Rightarrow> (err, w1))"

text \<open>The result is \<open>found\<close>, the record if one was unmarshalled, and the error.\<close>

definition StateClient_Get ::
  "('c, 'w) state_link \<Rightarrow> (string \<Rightarrow> go_error + 'r) \<Rightarrow> string \<Rightarrow> 'w \<Rightarrow> (bool \<times> 'r option \<times> go_error option) \<times> 'w" where
  "StateClient_Get cl dec key w =
     (case state_rpc cl GetMethod (GetArgs key) (Some 5) w of
        ((_, Some err), w1) \<Rightarrow> ((False, None, Some err), w1)
      | ((resp, None), w1) \<Rightarrow>
          (case resp of
             Some (GetRespMsg r) \<Rightarrow>
               if gr_Found r
               then (case dec (gr_Value r) of Inl err \<Rightarrow> ((True, None, Some err), w1) | Inr rec \<Rightarrow> ((True, Some rec, None), w1))
               else ((False, None, None), w1)
           | _ \<Rightarrow> ((False, None, None), w1)))"

definition StateClient_GetMultiple ::
  "('c, 'w) state_link \<Rightarrow> string list \<Rightarrow> 'w \<Rightarrow> ((string, string) gomap \<times> go_error option) \<times> 'w" where
  "StateClient_GetMultiple cl keys w =
     (case state_rpc cl GetMultipleMethod (GetMultipleArgs keys) (Some 6) w of
        ((_, Some err), w1) \<Rightarrow> (([], Some err), w1)
      | ((resp, None), w1) \<Rightarrow> ((case resp of Some (GetMultipleResp kv) \<Rightarrow> kv | _ \<Rightarrow> [], None), w1))"

definition StateClient_Set ::
  "('c, 'w) state_link \<Rightarrow> ('r \<Rightarrow> go_error + string) \<Rightarrow> string \<Rightarrow> 'r \<Rightarrow> 'w \<Rightarrow> go_error option \<times> 'w" where
  "StateClient_Set cl enc key rec w =
     (case enc rec of
        Inl err \<Rightarrow> (Some err, w)
      | Inr val \<Rightarrow> (case state_rpc cl SetMethod (SetArgs key val) None w of ((_, err), w1) \<Rightarrow> (err, w1)))"

definition StateClient_SetMultiple :: "('c, 'w) state_link \<Rightarrow> (string, string) gomap \<Rightarrow> 'w \<Rightarrow> go_error option \<times> 'w" where
  "StateClient_SetMultiple cl kv w =
     (case state_rpc cl SetMultipleMethod (SetMultipleArgs kv) None w of ((_, err), w1) \<Rightarrow> (err, w1))"

section \<open>A running service\<close>

text \<open>
  A client and the state service, both connected to the message server: the service has registered its
  methods and its transport passes requests to it.
\<close>

definition state_running ::
  "(go_error \<Rightarrow> string) \<Rightarrow> ('s, 'cur) IBucketStore \<Rightarrow> (state_message, 's) HubClient \<Rightarrow> 's NatsTransport
     \<Rightarrow> (string \<Rightarrow> string option \<Rightarrow> 's \<Rightarrow> (go_error + nats_msg) \<times> 's) \<Rightarrow> ('c, 's) state_link \<Rightarrow> bool" where
  "state_running error_text S agent nt Request cl \<longleftrightarrow>
     hc_clientID agent = StateServiceName \<and> rpc_connected error_text StorageCap (StateService_methods S) agent nt Request cl"

text \<open>The serializer keeps a message: what was marshalled unmarshals to it.\<close>

definition keeps :: "state_message serializer \<Rightarrow> state_message \<Rightarrow> bool" where
  "keeps ser v \<longleftrightarrow> snd (ser_Marshal ser v) = None \<and> ser_Unmarshal ser (message_type v) (fst (ser_Marshal ser v)) = Inr v"

definition method_of :: "state_message \<Rightarrow> string" where
  "method_of v = (case v of DeleteArgs _ \<Rightarrow> DeleteMethod | GetArgs _ \<Rightarrow> GetMethod | GetMultipleArgs _ \<Rightarrow> GetMultipleMethod
     | SetArgs _ _ \<Rightarrow> SetMethod | _ \<Rightarrow> SetMultipleMethod)"

text \<open>Every client operation is one call of the method table with the client's ID.\<close>

lemma state_rpc_is_call:
  assumes "state_running error_text S agent nt Request (tp, ser, client)" "\<And>e. error_text e \<noteq> []"
    "keeps ser req" "message_type req < 5"
  shows "state_rpc (tp, ser, client) (method_of req) req resp s =
    (case state_call S [ContextArg (hc_clientID client), ValueArg req] s of
       ([r], s') \<Rightarrow> rpc_outcome error_text ser resp (finish_call ser NilResult r, s')
     | ([v, r], s') \<Rightarrow> rpc_outcome error_text ser resp (finish_call ser v r, s')
     | (_, s') \<Rightarrow> rpc_outcome error_text ser resp (Returns (None, None), s'))"
proof -
  have *: "rpc_connected error_text StorageCap (StateService_methods S) agent nt Request (tp, ser, client)"
    "hc_clientID agent = StateServiceName"
    using assms(1) by (auto simp: state_running_def)
  have m: "mget (StateService_methods S) (method_of req) = Some \<lparr>rm_params = [ContextParam, ValueParam (message_type req)],
      rm_call = (\<lambda>argv s. case state_call S argv s of (rs, s') \<Rightarrow> (Returns rs, s'))\<rparr>"
    using assms(4) by (cases req) (simp_all add: StateService_methods_def method_of_def state_method_def)
  have tok: "list_all nats_token [hc_clientID agent, StorageCap, method_of req]"
    using *(2) by (cases req) (simp_all add: address_token_def method_of_def)
  show ?thesis
    using rpc_value_call [OF *(1) assms(2) m tok] assms(3,4) *(2)
    by (cases req) (auto simp: state_rpc_def keeps_def call_result_def split: prod.splits)
qed

end
