(* ===== verification/StateClientProps.thy ===== *)
theory StateClientProps
  imports StateClient
begin

text \<open>
  The state client over a running state service: every client operation is the service operation with the
  client's own ID, and what a client stored is what it reads back, whatever other clients do in between.
\<close>

section \<open>Client operations are service operations\<close>

lemma finish_error:
  "rpc_outcome error_text ser None (finish_call ser NilResult (err_result e), s) = ((None, remote error_text e), s)"
  by (cases e) (simp_all add: finish_call_def rpc_outcome_def remote_def)

lemma finish_value:
  assumes "keeps ser v"
  shows "rpc_outcome error_text ser (Some (message_type v)) (finish_call ser (ValueResult v) (err_result e), s) =
    ((case e of None \<Rightarrow> (Some v, None) | Some _ \<Rightarrow> (None, remote error_text e)), s)"
proof (cases "ser_Marshal ser v")
  case (Pair data err)
  then show ?thesis using assms
    by (cases e) (simp_all add: finish_call_def rpc_outcome_def remote_def keeps_def bytes_of_def)
qed

lemma StateService_Get_Found:
  "StateService_Get S c k s = (resp, None, s') \<Longrightarrow> gr_Found resp"
  by (auto simp: StateService_Get_def Let_def split: prod.splits if_splits)

lemma StateClient_local:
  assumes run: "state_running error_text S agent nt Request (tp, ser, client)" and texts: "\<And>e. error_text e \<noteq> []"
  shows "keeps ser (DeleteArgs k) \<Longrightarrow> StateClient_Delete (tp, ser, client) k s =
      (case StateService_Delete S (hc_clientID client) k s of (e, s') \<Rightarrow> (remote error_text e, s'))"
    and "keeps ser (SetArgs k v) \<Longrightarrow> enc rec = Inr v \<Longrightarrow> StateClient_Set (tp, ser, client) enc k rec s =
      (case StateService_Set S (hc_clientID client) k v s of (e, s') \<Rightarrow> (remote error_text e, s'))"
    and "keeps ser (SetMultipleArgs kv) \<Longrightarrow> StateClient_SetMultiple (tp, ser, client) kv s =
      (case StateService_SetMultiple S (hc_clientID client) kv s of (e, s') \<Rightarrow> (remote error_text e, s'))"
  using state_rpc_is_call [OF run texts, of "DeleteArgs k" None s] state_rpc_is_call [OF run texts, of "SetArgs k v" None s]
    state_rpc_is_call [OF run texts, of "SetMultipleArgs kv" None s]
  by (simp_all add: StateClient_Delete_def StateClient_Set_def StateClient_SetMultiple_def method_of_def finish_error
      split: prod.splits)

lemma StateClient_Get_local:
  assumes run: "state_running error_text S agent nt Request (tp, ser, client)" and texts: "\<And>e. error_text e \<noteq> []"
    and "keeps ser (GetArgs k)" "keeps ser (GetRespMsg (fst (StateService_Get S (hc_clientID client) k s)))"
  shows "StateClient_Get (tp, ser, client) dec k s =
    (case StateService_Get S (hc_clientID client) k s of
       (resp, Some e, s') \<Rightarrow> ((False, None, remote error_text (Some e)), s')
     | (resp, None, s') \<Rightarrow>
         ((True, case dec (gr_Value resp) of Inl err \<Rightarrow> None | Inr rec \<Rightarrow> Some rec,
           case dec (gr_Value resp) of Inl err \<Rightarrow> Some err | Inr rec \<Rightarrow> None), s'))"
proof -
  obtain resp e s' where g: "StateService_Get S (hc_clientID client) k s = (resp, e, s')" by (metis prod.exhaust)
  have "state_rpc (tp, ser, client) GetMethod (GetArgs k) (Some 5) s =
      ((case e of None \<Rightarrow> (Some (GetRespMsg resp), None) | Some _ \<Rightarrow> (None, remote error_text e)), s')"
    using state_rpc_is_call [OF run texts assms(3), of "Some 5" s] finish_value [of ser "GetRespMsg resp"] g assms(4)
    by (simp add: method_of_def)
  then show ?thesis
    using g StateService_Get_Found [of S "hc_clientID client" k s resp s']
    by (cases e) (auto simp: StateClient_Get_def remote_def split: sum.splits)
qed

lemma StateClient_GetMultiple_local:
  assumes run: "state_running error_text S agent nt Request (tp, ser, client)" and texts: "\<And>e. error_text e \<noteq> []"
    and "keeps ser (GetMultipleArgs ks)" "keeps ser (GetMultipleResp (fst (StateService_GetMultiple S (hc_clientID client) ks s)))"
  shows "StateClient_GetMultiple (tp, ser, client) ks s =
    (case StateService_GetMultiple S (hc_clientID client) ks s of
       (kv, e, s') \<Rightarrow> ((if e = None then kv else [], remote error_text e), s'))"
proof -
  obtain kv e s' where g: "StateService_GetMultiple S (hc_clientID client) ks s = (kv, e, s')" by (metis prod.exhaust)
  have "state_rpc (tp, ser, client) GetMultipleMethod (GetMultipleArgs ks) (Some 6) s =
      ((case e of None \<Rightarrow> (Some (GetMultipleResp kv), None) | Some _ \<Rightarrow> (None, remote error_text e)), s')"
    using state_rpc_is_call [OF run texts assms(3), of "Some 6" s] finish_value [of ser "GetMultipleResp kv"] g assms(4)
    by (simp add: method_of_def)
  then show ?thesis
    using g by (cases e) (auto simp: StateClient_GetMultiple_def remote_def)
qed

section \<open>Starting the service\<close>

lemma StateService_Start_serves:
  assumes "StateService_Start tp ser bbolt_Open S storeDir hc w = (Inr store, hc1, w1)" "hc_rpcHandler hc = None"
  shows "serves StorageCap (StateService_methods S) hc1 \<and> hc_clientID hc1 = hc_clientID hc \<and> bucketRefCount store = 0"
proof -
  obtain w0 where "fst (HubClient_SetRPCCapability tp StorageCap (StateService_methods S) hc w0) = hc1" "bucketRefCount store = 0"
    using assms(1)
    by (auto simp: StateService_Start_def BoltStore_Open_def split: prod.splits option.splits sum.splits) (metis fst_conv)
  then show ?thesis
    using assms(2) by (auto simp: SetRPCCapability_client serves_def mget_mput)
qed

section \<open>Storing and reading back\<close>

text \<open>Through any requests of other clients, a record that was stored is what a read without error returns.\<close>

lemma Set_run_Get:
  assumes "bucket_service S content" "StateService_Set S c k v s = (None, s1)"
    "list_all (wf_request \<circ> snd) trace" "StateService_run S trace s1 = (rs, s2)" "c \<notin> fst ` set trace"
    "StateService_Get S c k s2 = (resp, None, s3)"
  shows "resp = \<lparr>gr_Key = k, gr_Found = True, gr_Value = v\<rparr>"
proof -
  have "content s1 c k = Some v"
    using bucket_service.handle_refines [OF assms(1), of "SetRequest k v" c s NoResponse None s1] assms(2)
    by (simp add: spec_step_def)
  then have stored: "content (st_GetBucket S c s2) c k = Some v"
    using bucket_service.run_refines [OF assms(1,3,4)] spec_run_frame [OF assms(5)]
      bucket_service.getbucket_content [OF assms(1)] by simp
  obtain r e s' where g: "bk_Get S c k (st_GetBucket S c s2) = (r, e, s')" by (metis prod.exhaust)
  have st: "ibucket_store content (bk_Get S) (bk_GetMultiple S) (bk_Set S) (bk_SetMultiple S) (bk_Delete S)"
    using assms(1) by (simp add: bucket_service_def)
  show ?thesis
    using assms(6) ibucket_store.get_hit [OF st stored g] g
    by (auto simp: StateService_Get_def Let_def split: prod.splits if_splits)
qed

section \<open>A client and a service\<close>

lemma table_ser_keeps: "v \<in> set msgs \<Longrightarrow> keeps (table_ser msgs) v"
  using table_ser_roundtrip [of v msgs] by (simp add: keeps_def)

text \<open>A client and a service connected by a server that hands every request to the service.\<close>

definition demo_agent :: "(state_message, ldb BoltStore) HubClient" where
  "demo_agent = fst (HubClient_SetRPCCapability null_transport StorageCap (StateService_methods list_store)
     (fst (NewHubClientFromTransport null_transport StateServiceName ())) ())"

definition demo_nats :: "state_message list \<Rightarrow> ldb BoltStore NatsTransport" where
  "demo_nats msgs = \<lparr>nt_status = \<lparr>hs_HubURL = [], hs_ClientID = StateServiceName, hs_ConnectionStatus = Connected, hs_LastError = None\<rparr>,
     nt_connectHandler = (\<lambda>s st. st), nt_eventHandler = None,
     nt_requestHandler = Some (HubClient_onRequest NatsTransport_AddressTokens (table_ser msgs) 0 demo_agent)\<rparr>"

definition demo_link :: "state_message list \<Rightarrow> (unit, ldb BoltStore) state_link" where
  "demo_link msgs = (\<lparr>tp_tokens = NatsTransport_AddressTokens, tp_PubEvent = (\<lambda>a p w. (None, w)),
     tp_PubRequest = NatsTransport_PubRequest (direct_Request (\<lambda>e. ''err'') (demo_nats msgs)),
     tp_Subscribe = (\<lambda>a w. (None, w)), tp_SetRequestHandler = id, tp_SetEventHandler = id, tp_SetConnectHandler = id\<rparr>,
     table_ser msgs, fst (NewHubClientFromTransport null_transport ''alice'' ()))"

lemma demo_running:
  "state_running (\<lambda>e. ''err'') list_store demo_agent (demo_nats msgs) (direct_Request (\<lambda>e. ''err'') (demo_nats msgs)) (demo_link msgs)"
  using SetRPCCapability_serves
    [of "fst (NewHubClientFromTransport null_transport StateServiceName ())" StorageCap "StateService_methods list_store" null_transport "()"]
  by (auto simp: state_running_def rpc_connected_def demo_link_def demo_nats_def direct_routes demo_agent_def SetRPCCapability_client
      NewHubClientFromTransport_def address_token_def)

section \<open>Theorems\<close>

text \<open>
  C12. Remote transparency. Over a running state service, with a serializer that keeps the messages involved,
  each operation of the state client does to the store, and returns, what the service's own operation does
  when called with the client's ID; an error is the error of the service by its text.
\<close>

theorem StateClient_is_local_call:
  assumes "state_running error_text S agent nt Request (tp, ser, client)" "\<And>e. error_text e \<noteq> []"
    "list_all (keeps ser) [DeleteArgs k, SetArgs k v, SetMultipleArgs kv, GetArgs k, GetMultipleArgs ks,
       GetRespMsg (fst (StateService_Get S (hc_clientID client) k s)),
       GetMultipleResp (fst (StateService_GetMultiple S (hc_clientID client) ks s))]"
    "enc rec = Inr v"
  shows "StateClient_Delete (tp, ser, client) k s =
      (case StateService_Delete S (hc_clientID client) k s of (e, s') \<Rightarrow> (remote error_text e, s'))
    \<and> StateClient_Set (tp, ser, client) enc k rec s =
      (case StateService_Set S (hc_clientID client) k v s of (e, s') \<Rightarrow> (remote error_text e, s'))
    \<and> StateClient_SetMultiple (tp, ser, client) kv s =
      (case StateService_SetMultiple S (hc_clientID client) kv s of (e, s') \<Rightarrow> (remote error_text e, s'))
    \<and> StateClient_GetMultiple (tp, ser, client) ks s =
      (case StateService_GetMultiple S (hc_clientID client) ks s of
         (kv, e, s') \<Rightarrow> ((if e = None then kv else [], remote error_text e), s'))
    \<and> StateClient_Get (tp, ser, client) dec k s =
      (case StateService_Get S (hc_clientID client) k s of
         (resp, Some e, s') \<Rightarrow> ((False, None, remote error_text (Some e)), s')
       | (resp, None, s') \<Rightarrow>
           ((True, case dec (gr_Value resp) of Inl err \<Rightarrow> None | Inr rec \<Rightarrow> Some rec,
             case dec (gr_Value resp) of Inl err \<Rightarrow> Some err | Inr rec \<Rightarrow> None), s'))"
  by (intro conjI StateClient_local [OF assms(1,2)] StateClient_Get_local [OF assms(1,2)]
      StateClient_GetMultiple_local [OF assms(1,2)])
    (use assms(3,4) in simp_all)

text \<open>
  C16. A record a client stores is the record it reads back, through client, message server, service and
  store. After a successful \<open>Set\<close>, and any requests of other clients, a \<open>Get\<close> of the same key either
  reports an error of the service or finds the record; and \<open>Set\<close> leaves everything stored for other clients alone.
\<close>

theorem StateClient_Set_Get:
  assumes "bucket_service S content"
    and "state_running error_text S agent nt Request (tp, ser, client)" "\<And>e. error_text e \<noteq> []"
    and "list_all (keeps ser) [SetArgs k v, GetArgs k, GetRespMsg (fst (StateService_Get S (hc_clientID client) k s2))]"
    and "enc rec = Inr v" "dec v = Inr rec"
    and "StateClient_Set (tp, ser, client) enc k rec s = (None, s1)"
    and "list_all (wf_request \<circ> snd) trace" "StateService_run S trace s1 = (rs, s2)" "hc_clientID client \<notin> fst ` set trace"
  shows "(fst (StateClient_Get (tp, ser, client) dec k s2) = (True, Some rec, None)
      \<or> (\<exists>e. fst (StateClient_Get (tp, ser, client) dec k s2) = (False, None, Some e)))
    \<and> (\<forall>c. c \<noteq> hc_clientID client \<longrightarrow> content s1 c = content s c)"
proof -
  let ?c = "hc_clientID client"
  obtain e where "StateService_Set S ?c k v s = (e, s1)" "remote error_text e = None"
    using StateClient_local(2) [OF assms(2,3), of k v enc rec s] assms(4,5,7) by (auto split: prod.splits)
  then have st: "StateService_Set S ?c k v s = (None, s1)" by (simp add: remote_def)
  obtain resp e2 s3 where g: "StateService_Get S ?c k s2 = (resp, e2, s3)" by (metis prod.exhaust)
  have get: "e2 = None \<Longrightarrow> resp = \<lparr>gr_Key = k, gr_Found = True, gr_Value = v\<rparr>"
    using Set_run_Get [OF assms(1) st assms(8-10)] g by simp
  have "content s1 c = content s c" if "c \<noteq> ?c" for c
    using bucket_service.handle_refines [OF assms(1), of "SetRequest k v" ?c s NoResponse None s1] st that
    by (simp add: spec_step_def)
  then show ?thesis
    using StateClient_Get_local [OF assms(2,3), of k s2 dec] g get assms(4,6)
    by (cases e2) (auto simp: remote_def)
qed

abbreviation alice_msgs :: "state_message list" where
  "alice_msgs \<equiv> [DeleteArgs ''k'', SetArgs ''k'' ''1'', SetMultipleArgs [], GetArgs ''k'', GetMultipleArgs [],
     GetRespMsg \<lparr>gr_Key = ''k'', gr_Found = True, gr_Value = []\<rparr>, GetRespMsg \<lparr>gr_Key = ''k'', gr_Found = True, gr_Value = ''1''\<rparr>,
     GetMultipleResp []]"

lemmas demo_store_simps = state_service_defs BoltStore_iface_def on_db_def on_db2_def bolt_bucket_defs list_db_defs
  BoltStore_GetBucket_def BoltBucket_Close_def BoltStore_onBucketReleased_def

lemma demo_link_client: "hc_clientID (snd (snd (demo_link msgs))) = ''alice''"
  by (simp add: demo_link_def NewHubClientFromTransport_def)

theorem StateClient_is_local_call_witness:
  "StateClient_Set (demo_link alice_msgs) Inr ''k'' ''1'' empty_store
     = (None, empty_store\<lparr>boltDB := [(''alice'', [(''k'', ''1'')])]\<rparr>)"
proof -
  obtain tp ser client where l: "demo_link alice_msgs = (tp, ser, client)" by (metis prod.exhaust)
  then have c: "hc_clientID client = ''alice''" "ser = table_ser alice_msgs"
    using demo_link_client [of alice_msgs] by (simp_all add: demo_link_def)
  have "list_all (keeps ser) [DeleteArgs ''k'', SetArgs ''k'' ''1'', SetMultipleArgs [], GetArgs ''k'', GetMultipleArgs [],
      GetRespMsg (fst (StateService_Get list_store (hc_clientID client) ''k'' empty_store)),
      GetMultipleResp (fst (StateService_GetMultiple list_store (hc_clientID client) [] empty_store))]"
    unfolding c by (simp add: table_ser_keeps demo_store_simps)
  from StateClient_is_local_call [OF demo_running [of alice_msgs, unfolded l] _ this, of Inr "''1''",
      THEN conjunct2, THEN conjunct1]
  show ?thesis by (simp add: l c remote_def demo_store_simps)
qed

theorem StateClient_Set_Get_witness:
  "fst (StateClient_Get (demo_link alice_msgs) Inr ''k'' (empty_store\<lparr>boltDB := [(''alice'', [(''k'', ''1'')]), (''bob'', [(''k'', ''2'')])]\<rparr>))
     = (True, Some ''1'', None)"
proof -
  let ?s1 = "empty_store\<lparr>boltDB := [(''alice'', [(''k'', ''1'')])]\<rparr>"
    and ?s2 = "empty_store\<lparr>boltDB := [(''alice'', [(''k'', ''1'')]), (''bob'', [(''k'', ''2'')])]\<rparr>"
  obtain tp ser client where l: "demo_link alice_msgs = (tp, ser, client)" by (metis prod.exhaust)
  then have c: "hc_clientID client = ''alice''" "ser = table_ser alice_msgs"
    using demo_link_client [of alice_msgs] by (simp_all add: demo_link_def)
  note run = demo_running [of alice_msgs, unfolded l]
  have keep: "keeps ser v" if "v \<in> set alice_msgs" for v using that c(2) table_ser_keeps by blast
  have trace: "StateService_run list_store [(''bob'', SetRequest ''k'' ''2'')] ?s1 = ([(NoResponse, None)], ?s2)"
    by (simp add: demo_store_simps)
  have got: "StateService_Get list_store ''alice'' ''k'' ?s2 = (\<lparr>gr_Key = ''k'', gr_Found = True, gr_Value = ''1''\<rparr>, None, ?s2)"
    by (simp add: demo_store_simps)
  have "StateClient_Set (tp, ser, client) Inr ''k'' ''1'' empty_store = (None, ?s1)"
    using StateClient_local(2) [OF run, of "''k''" "''1''" Inr "''1''" empty_store] keep c(1)
    by (simp add: remote_def demo_store_simps)
  from StateClient_Set_Get [OF ls.bucket_service_axioms run _ _ _ _ this _ trace, where dec = Inr and v = "''1''"]
    StateClient_Get_local [OF run, of "''k''" ?s2 Inr]
  show ?thesis unfolding l using keep c(1) got by simp
qed

text \<open>
  Reading a key that is not stored never gives an empty record, over \<open>BoltStore\<close> on any database: a
  client that has stored something gets the error of the bucket for the missing key, and a client that never stored
  anything gets ``found'' together with the error of unmarshalling no data.
\<close>

lemma StateClient_Get_missing_key:
  assumes "state_running error_text (BoltStore_iface B C) agent nt Request (tp, ser, client)" "\<And>e. error_text e \<noteq> []"
    "list_all (keeps ser) [GetArgs k, GetRespMsg (fst (StateService_Get (BoltStore_iface B C) (hc_clientID client) k st))]"
    "bbolt_db B contents tcontents" "bb_Begin B False (boltDB st) = Inr tx"
    "bucket_content contents (boltDB st) (hc_clientID client) k = None" "dec [] = Inl e"
  shows "fst (StateClient_Get (tp, ser, client) dec k st) =
    (if contents (boltDB st) (hc_clientID client) = None then (True, None, Some e)
     else (False, None, Some (ErrLib (error_text (ErrKeyNotFound k)))))"
proof (cases "contents (boltDB st) (hc_clientID client)")
  case None
  then show ?thesis
    using StateClient_Get_local [OF assms(1,2), of k st dec] Get_unknown_client [OF assms(4,5) None, of C k] assms(3,7)
    by (auto split: prod.splits option.splits)
next
  case (Some m)
  have mk: "m k = None" using assms(6) Some by (simp add: bucket_content_def)
  have "tcontents tx (hc_clientID client) = Some m" using bbolt_db.begin_contents [OF assms(4,5)] Some by simp
  then have "bb_Bucket B (hc_clientID client) tx" "bb_Get B (hc_clientID client) k tx = None"
    using bbolt_db.bucket_iff [OF assms(4)] bbolt_db.get_contents [OF assms(4)] mk by auto
  then have "fst (snd (StateService_Get (BoltStore_iface B C) (hc_clientID client) k st)) = Some (ErrKeyNotFound k)"
    using assms(5) by (simp add: StateService_Get_def BoltStore_iface_def on_db2_def BoltStore_GetBucket_def
        BoltBucket_Get_def BoltBucket_bucketTransaction_def BoltBucket_Close_def Let_def)
  then show ?thesis
    using StateClient_Get_local [OF assms(1,2), of k st dec] assms(3) Some
    by (auto simp: remote_def split: prod.splits option.splits)
qed

lemma StateClient_Get_missing_key_witness:
  "fst (StateClient_Get (demo_link [GetArgs ''x'', GetRespMsg \<lparr>gr_Key = ''x'', gr_Found = False, gr_Value = []\<rparr>])
       (\<lambda>d. if d = [] then Inl ErrUnexpectedResponse else Inr d) ''x'' (empty_store\<lparr>boltDB := [(''alice'', [(''k'', ''1'')])]\<rparr>))
     = (False, None, Some (ErrLib ''err''))"
proof -
  let ?msgs = "[GetArgs ''x'', GetRespMsg \<lparr>gr_Key = ''x'', gr_Found = False, gr_Value = []\<rparr>]"
    and ?st = "empty_store\<lparr>boltDB := [(''alice'', [(''k'', ''1'')])]\<rparr>"
  obtain tp ser client where l: "demo_link ?msgs = (tp, ser, client)" by (metis prod.exhaust)
  then have c: "hc_clientID client = ''alice''" "ser = table_ser ?msgs"
    using demo_link_client [of ?msgs] by (simp_all add: demo_link_def)
  have got: "fst (StateService_Get list_store ''alice'' ''x'' ?st) = \<lparr>gr_Key = ''x'', gr_Found = False, gr_Value = []\<rparr>"
    by (simp add: demo_store_simps)
  have keep: "list_all (keeps ser) [GetArgs ''x'', GetRespMsg (fst (StateService_Get list_store (hc_clientID client) ''x'' ?st))]"
    unfolding c got by (simp add: table_ser_keeps)
  have "bb_Begin list_bbolt False (boltDB ?st) = Inr (False, boltDB ?st)"
    "bucket_content ldb_contents (boltDB ?st) (hc_clientID client) ''x'' = None"
    "ldb_contents (boltDB ?st) (hc_clientID client) \<noteq> None"
    by (simp_all add: list_bbolt_def c(1) ldb_contents_def bucket_content_def)
  then show ?thesis unfolding l
    using StateClient_Get_missing_key [OF demo_running [of ?msgs, unfolded l] _ keep ldb.bbolt_db_axioms,
        where dec = "\<lambda>d. if d = [] then Inl ErrUnexpectedResponse else Inr d"] by simp
qed

end
