(* ===== verification/HistoryAdd.thy ===== *)
theory HistoryAdd
  imports Things IBucketStore
begin

text \<open>
  Model of \<open>done_mod/mod_hist/hist_srv\<close>: \<open>ManageHistory.go\<close> (retention rules) and
  \<open>AddHistory.go\<close> (storing events and actions). Every Thing has its own bucket, named
  agentID/thingID, whose keys are timestamp/name/kind/sender. The clock reading of \<open>time.Now()\<close>
  (milliseconds) is an argument, and so is the optional callback \<open>onAddedValue\<close>, over a state
  \<open>'p\<close> of its own.
\<close>

section \<open>Retention rules\<close>

record RetentionRule =
  rr_AgentID :: string
  rr_ThingID :: string
  rr_Name :: string
  rr_Retain :: bool
  rr_MaxAge :: nat

type_synonym RetentionRuleSet = "(string, RetentionRule list) gomap"

text \<open>\<open>inArray\<close>: an empty list matches every ID.\<close>

definition inArray :: "string list \<Rightarrow> string \<Rightarrow> bool" where
  "inArray arr i \<longleftrightarrow> (if arr = [] then True else List.member arr i)"

definition rule_matches :: "ThingValue \<Rightarrow> RetentionRule \<Rightarrow> bool" where
  "rule_matches tv rule \<longleftrightarrow> (rr_AgentID rule = [] \<or> rr_AgentID rule = AgentID tv)
     \<and> (rr_ThingID rule = [] \<or> rr_ThingID rule = ThingID tv)"

text \<open>Rules filed under the name of the value come first, then those for any name.\<close>

definition ManageHistory_FindFirstRule :: "RetentionRuleSet \<Rightarrow> ThingValue \<Rightarrow> RetentionRule option" where
  "ManageHistory_FindFirstRule rules tv =
     (case (case mget rules (Name tv) of None \<Rightarrow> None | Some rules1 \<Rightarrow> find (rule_matches tv) rules1) of
        Some rule \<Rightarrow> Some rule
      | None \<Rightarrow> (case mget rules [] of None \<Rightarrow> None | Some rules2 \<Rightarrow> find (rule_matches tv) rules2))"

definition ManageHistory_IsRetained :: "RetentionRuleSet \<Rightarrow> ThingValue \<Rightarrow> bool \<times> RetentionRule option" where
  "ManageHistory_IsRetained rules tv =
     (if rules = [] then (True, None)
      else case ManageHistory_FindFirstRule rules tv of
             None \<Rightarrow> (False, None)
           | Some rule \<Rightarrow> (rr_Retain rule, Some rule))"

definition ManageHistory_GetRetentionRule ::
  "RetentionRuleSet \<Rightarrow> string \<Rightarrow> string \<Rightarrow> string \<Rightarrow> RetentionRule option" where
  "ManageHistory_GetRetentionRule rules agentID thingID name =
     ManageHistory_FindFirstRule rules
       \<lparr>AgentID = agentID, ThingID = thingID, Name = name, Data = None, CreatedMSec = 0,
        SenderID = [], ValueType = []\<rparr>"

text \<open>\<open>SetRetentionRules\<close> stamps the map key into every rule and replaces the rule set.\<close>

definition ManageHistory_SetRetentionRules :: "RetentionRuleSet \<Rightarrow> RetentionRuleSet" where
  "ManageHistory_SetRetentionRules args =
     map (\<lambda>(name, nameRules). (name, map (\<lambda>rule. rule\<lparr>rr_Name := name\<rparr>) nameRules)) args"

section \<open>Adding values\<close>

text \<open>The character between the parts of keys and addresses.\<close>

abbreviation sl :: char where "sl \<equiv> CHR ''/''"

definition thing_addr :: "string \<Rightarrow> string \<Rightarrow> string" where
  "thing_addr agentID thingID = agentID @ [sl] @ thingID"

definition AddHistory_encodeValue :: "int \<Rightarrow> ThingValue \<Rightarrow> string \<times> string option" where
  "AddHistory_encodeValue now tv =
     (let timestamp = (if CreatedMSec tv > 0 then CreatedMSec tv else now);
          key = strconv_FormatInt timestamp @ [sl] @ Name tv;
          key = key @ (if ValueType tv = MessageTypeAction then ''/a''
                       else if ValueType tv = MessageTypeConfig then ''/c'' else ''/e'')
      in (key @ [sl] @ SenderID tv, Data tv))"

text \<open>\<open>validateValue\<close> also stamps the value it is given; the stamped value is the last result.\<close>

definition AddHistory_validateValue ::
  "RetentionRuleSet option \<Rightarrow> int \<Rightarrow> ThingValue \<Rightarrow> bool \<times> go_error option \<times> ThingValue" where
  "AddHistory_validateValue retentionMgr now tv =
     (if ThingID tv = [] \<or> AgentID tv = [] then (False, Some (ErrMissingAddress (Name tv)), tv)
      else if Name tv = [] then (False, Some (ErrMissingName (AgentID tv) (ThingID tv)), tv)
      else let tv1 = (if CreatedMSec tv = 0 then tv\<lparr>CreatedMSec := now\<rparr> else tv)
           in case retentionMgr of
                Some rules \<Rightarrow> (fst (ManageHistory_IsRetained rules tv1), None, tv1)
              | None \<Rightarrow> (True, None, tv1))"

type_synonym ('p, 's) added_callback = "(ThingValue \<Rightarrow> 'p \<times> 's \<Rightarrow> 'p \<times> 's) option"

definition notify :: "('p, 's) added_callback \<Rightarrow> ThingValue \<Rightarrow> 'p \<times> 's \<Rightarrow> 'p \<times> 's" where
  "notify onAdded tv ps = (case onAdded of None \<Rightarrow> ps | Some f \<Rightarrow> f tv ps)"

definition AddHistory_AddMessage ::
  "('s, 'cur) IBucketStore \<Rightarrow> RetentionRuleSet option \<Rightarrow> ('p, 's) added_callback \<Rightarrow> int \<Rightarrow> ThingValue
     \<Rightarrow> 'p \<times> 's \<Rightarrow> go_error option \<times> 'p \<times> 's" where
  "AddHistory_AddMessage S R onAdded now newtv ps =
     (case AddHistory_validateValue R now newtv of
        (_, Some err, _) \<Rightarrow> (Some err, ps)
      | (False, None, _) \<Rightarrow> (None, ps)
      | (True, None, tv) \<Rightarrow>
          (let (key, val) = AddHistory_encodeValue now tv;
               addr = thing_addr (AgentID tv) (ThingID tv);
               s1 = st_GetBucket S addr (snd ps);
               (err, s2) = bk_Set S addr key (bytes_of val) s1;
               (_, s3) = bk_Close S addr s2
           in (err, notify onAdded tv (fst ps, s3))))"

text \<open>
  The first loop of \<open>AddMessages\<close>: group the retained values by Thing address, notifying the
  callback on the way; the first invalid value ends the call with its error.
\<close>

fun group_values ::
  "RetentionRuleSet option \<Rightarrow> ('p, 's) added_callback \<Rightarrow> int \<Rightarrow> ThingValue list
     \<Rightarrow> (string, (string, string) gomap) gomap \<Rightarrow> 'p \<times> 's
     \<Rightarrow> go_error option \<times> (string, (string, string) gomap) gomap \<times> 'p \<times> 's" where
  "group_values R onAdded now [] groups ps = (None, groups, ps)"
| "group_values R onAdded now (tv # tvs) groups ps =
     (let addr = thing_addr (AgentID tv) (ThingID tv);
          kvpairs = (case mget groups addr of None \<Rightarrow> [] | Some kv \<Rightarrow> kv);
          groups1 = mput addr kvpairs groups
      in case AddHistory_validateValue R now tv of
           (_, Some err, _) \<Rightarrow> (Some err, groups1, ps)
         | (False, None, _) \<Rightarrow> group_values R onAdded now tvs groups1 ps
         | (True, None, tv1) \<Rightarrow>
             (let (key, val) = AddHistory_encodeValue now tv1
              in group_values R onAdded now tvs (mput addr (mput key (bytes_of val) kvpairs) groups1)
                   (notify onAdded tv1 ps)))"

text \<open>The second loop writes each group in one batch; its errors are dropped.\<close>

fun write_groups :: "('s, 'cur) IBucketStore \<Rightarrow> (string, (string, string) gomap) gomap \<Rightarrow> 's \<Rightarrow> 's" where
  "write_groups S [] s = s"
| "write_groups S ((addr, kvpairs) # groups) s =
     (let s1 = st_GetBucket S addr s;
          (_, s2) = bk_SetMultiple S addr kvpairs s1;
          (_, s3) = bk_Close S addr s2
      in write_groups S groups s3)"

definition AddHistory_AddMessages ::
  "('s, 'cur) IBucketStore \<Rightarrow> RetentionRuleSet option \<Rightarrow> ('p, 's) added_callback \<Rightarrow> int \<Rightarrow> ThingValue list
     \<Rightarrow> 'p \<times> 's \<Rightarrow> go_error option \<times> 'p \<times> 's" where
  "AddHistory_AddMessages S R onAdded now tvList ps =
     (case tvList of
        [] \<Rightarrow> (None, ps)
      | [tv] \<Rightarrow> AddHistory_AddMessage S R onAdded now tv ps
      | _ \<Rightarrow>
          (case group_values R onAdded now tvList [] ps of
             (Some err, _, ps1) \<Rightarrow> (Some err, ps1)
           | (None, groups, ps1) \<Rightarrow> (None, fst ps1, write_groups S groups (snd ps1))))"

section \<open>Reference: the pairs a batch stores for a Thing\<close>

definition stored_pair :: "RetentionRuleSet option \<Rightarrow> int \<Rightarrow> ThingValue \<Rightarrow> (string \<times> string) option" where
  "stored_pair R now tv =
     (case AddHistory_validateValue R now tv of
        (True, None, tv1) \<Rightarrow> (case AddHistory_encodeValue now tv1 of (key, val) \<Rightarrow> Some (key, bytes_of val))
      | _ \<Rightarrow> None)"

definition tv_addr :: "ThingValue \<Rightarrow> string" where
  "tv_addr tv = thing_addr (AgentID tv) (ThingID tv)"

definition pairs_for :: "RetentionRuleSet option \<Rightarrow> int \<Rightarrow> string \<Rightarrow> ThingValue list \<Rightarrow> (string \<times> string) list" where
  "pairs_for R now addr tvs = List.map_filter (stored_pair R now) (filter (\<lambda>tv. tv_addr tv = addr) tvs)"

lemma validateValue_keeps:
  "AddHistory_validateValue R now tv = (r, e, tv') \<Longrightarrow>
     AgentID tv' = AgentID tv \<and> ThingID tv' = ThingID tv \<and> Name tv' = Name tv \<and> SenderID tv' = SenderID tv
     \<and> ValueType tv' = ValueType tv \<and> Data tv' = Data tv"
  by (auto simp: AddHistory_validateValue_def Let_def split: if_splits option.splits)

lemma validateValue_err:
  "fst (snd (AddHistory_validateValue R now tv)) = None \<longleftrightarrow>
     AgentID tv \<noteq> [] \<and> ThingID tv \<noteq> [] \<and> Name tv \<noteq> []"
  by (auto simp: AddHistory_validateValue_def Let_def split: option.splits)

text \<open>The pairs grouped for an address, as a map.\<close>

definition group_map :: "(string, (string, string) gomap) gomap \<Rightarrow> string \<Rightarrow> string \<rightharpoonup> string" where
  "group_map groups addr = (case mget groups addr of None \<Rightarrow> Map.empty | Some kv \<Rightarrow> map_of kv)"

definition wf_groups :: "(string, (string, string) gomap) gomap \<Rightarrow> bool" where
  "wf_groups groups \<longleftrightarrow> wf_map groups \<and> (\<forall>a kv. mget groups a = Some kv \<longrightarrow> wf_map kv)"

lemma pairs_for_Cons:
  "pairs_for R now addr (tv # tvs) =
     (if tv_addr tv = addr then (case stored_pair R now tv of None \<Rightarrow> [] | Some p \<Rightarrow> [p]) else [])
       @ pairs_for R now addr tvs"
  by (simp add: pairs_for_def List.map_filter_def split: option.splits)

lemma wf_groups_mput: "wf_groups groups \<Longrightarrow> wf_map kv \<Longrightarrow> wf_groups (mput a kv groups)"
  by (auto simp: wf_groups_def gomap_simps intro: wf_intros split: if_splits)

lemma group_map_mput: "group_map (mput a kv groups) a' = (if a' = a then map_of kv else group_map groups a')"
  by (simp add: group_map_def gomap_simps)

definition valid_message :: "ThingValue \<Rightarrow> bool" where
  "valid_message tv \<longleftrightarrow> AgentID tv \<noteq> [] \<and> ThingID tv \<noteq> [] \<and> Name tv \<noteq> []"

lemma group_values_err: "fst (group_values R onAdded now tvs groups ps) = None \<longleftrightarrow> list_all valid_message tvs"
proof (induction tvs arbitrary: groups ps)
  case (Cons tv tvs)
  obtain r e tv1 where v: "AddHistory_validateValue R now tv = (r, e, tv1)" by (metis prod.exhaust)
  with validateValue_err [of R now tv] have "e = None \<longleftrightarrow> valid_message tv" by (simp add: valid_message_def)
  with v Cons.IH show ?case
    by (cases e; cases r) (simp_all add: Let_def split_beta)
qed simp

lemma group_values_pairs:
  assumes "group_values R onAdded now tvs groups ps = (None, groups', ps')" and "wf_groups groups"
  shows "wf_groups groups' \<and> group_map groups' addr = mput_all (pairs_for R now addr tvs) (group_map groups addr)"
  using assms
proof (induction tvs arbitrary: groups ps)
  case Nil
  then show ?case by (simp add: pairs_for_def List.map_filter_def)
next
  case (Cons tv tvs)
  let ?a = "tv_addr tv"
  define kv where "kv = (case mget groups ?a of None \<Rightarrow> [] | Some kv \<Rightarrow> kv)"
  have wfkv: "wf_map kv" and mkv: "map_of kv = group_map groups ?a"
    using Cons.prems(2) by (auto simp: kv_def wf_groups_def group_map_def split: option.splits)
  obtain r e tv1 where v: "AddHistory_validateValue R now tv = (r, e, tv1)" by (metis prod.exhaust)
  obtain key val where en: "AddHistory_encodeValue now tv1 = (key, val)" by fastforce
  have e: "e = None"
    using Cons.prems(1) v by (auto simp: tv_addr_def [symmetric] kv_def [symmetric] Let_def
        split: option.splits bool.splits prod.splits)
  let ?g = "if r then mput ?a (mput key (bytes_of val) kv) (mput ?a kv groups) else mput ?a kv groups"
  let ?ps = "if r then notify onAdded tv1 ps else ps"
  have rest: "group_values R onAdded now tvs ?g ?ps = (None, groups', ps')"
    using Cons.prems(1) v e en by (auto simp: tv_addr_def [symmetric] kv_def [symmetric] Let_def)
  have wf: "wf_groups ?g"
    using Cons.prems(2) wfkv by (auto intro: wf_groups_mput wf_intros)
  have sp: "stored_pair R now tv = (if r then Some (key, bytes_of val) else None)"
    using v e en by (simp add: stored_pair_def)
  have "group_map ?g addr = (if addr = ?a \<and> r then (group_map groups addr)(key \<mapsto> bytes_of val)
      else group_map groups addr)"
    by (auto simp: group_map_mput mkv gomap_simps)
  with Cons.IH [OF rest wf] sp show ?case by (simp add: pairs_for_Cons)
qed

text \<open>A callback that only reads the store.\<close>

definition quiet :: "('s \<Rightarrow> 'd) \<Rightarrow> ('p, 's) added_callback \<Rightarrow> bool" where
  "quiet content onAdded \<longleftrightarrow> (\<forall>tv p s. content (snd (notify onAdded tv (p, s))) = content s)"

lemma quietD: "quiet content onAdded \<Longrightarrow> content (snd (notify onAdded tv ps)) = content (snd ps)"
  by (cases ps) (simp add: quiet_def)

lemma group_values_quiet:
  assumes "quiet content onAdded"
  shows "group_values R onAdded now tvs groups ps = (e, groups', ps') \<Longrightarrow> content (snd ps') = content (snd ps)"
proof (induction tvs arbitrary: groups ps)
  case Nil
  then show ?case by simp
next
  case (Cons tv tvs)
  obtain r e1 tv1 where v: "AddHistory_validateValue R now tv = (r, e1, tv1)" by (metis prod.exhaust)
  obtain key val where en: "AddHistory_encodeValue now tv1 = (key, val)" by fastforce
  show ?case
  proof (cases "e1 = None")
    case True
    let ?ps = "if r then notify onAdded tv1 ps else ps"
    obtain g where "group_values R onAdded now tvs g ?ps = (e, groups', ps')"
      using Cons.prems v True en by (cases r) (auto simp: Let_def)
    from Cons.IH [OF this] quietD [OF assms] show ?thesis by (simp split: if_splits)
  next
    case False
    with Cons.prems v show ?thesis by (cases r) (auto simp: Let_def)
  qed
qed

lemma group_values_valid:
  assumes "\<And>tv. tv \<in> set tvs \<Longrightarrow> AgentID tv \<noteq> [] \<and> ThingID tv \<noteq> [] \<and> Name tv \<noteq> []"
  shows "fst (group_values R onAdded now tvs groups ps) = None"
  using assms
proof (induction tvs arbitrary: groups ps)
  case Nil
  then show ?case by simp
next
  case (Cons tv tvs)
  have "fst (snd (AddHistory_validateValue R now tv)) = None"
    using Cons.prems [of tv] by (simp add: validateValue_err)
  with Cons.IH Cons.prems show ?case
    by (cases "AddHistory_validateValue R now tv") (auto simp: Let_def split: bool.splits prod.splits)
qed

context bucket_service
begin

lemma write_groups_content:
  assumes "wf_groups groups"
  shows "content (write_groups S groups s) addr = content s addr
       \<or> content (write_groups S groups s) addr = content s addr ++ group_map groups addr"
  using assms
proof (induction groups arbitrary: s)
  case Nil
  then show ?case by simp
next
  case (Cons g groups)
  obtain a kv where g: "g = (a, kv)" by fastforce
  have wf: "wf_groups groups" and fresh: "mget groups a = None" and wfkv: "wf_map kv"
    using Cons.prems g by (auto simp: wf_groups_def wf_map_def map_of_eq_None_iff split: if_splits)
  obtain e s2 where sm: "bk_SetMultiple S a kv (st_GetBucket S a s) = (e, s2)" by fastforce
  let ?s3 = "snd (bk_Close S a s2)"
  have c3: "content ?s3 = (if e = None then (content s)(a := content s a ++ map_of kv) else content s)"
    using setm_all_or_nothing [OF wfkv sm] by (simp add: close_content getbucket_content)
  have run: "write_groups S (g # groups) s = write_groups S groups ?s3"
    using g sm by (simp add: Let_def case_prod_unfold)
  have gm: "group_map groups a = Map.empty" "group_map (g # groups) addr = (if addr = a then map_of kv else group_map groups addr)"
    using fresh g by (simp_all add: group_map_def)
  show ?case
    using Cons.IH [OF wf, of ?s3] unfolding run gm(2) c3
    by (cases "addr = a") (auto simp: gm(1) split: if_splits)
qed

lemma AddMessage_content:
  assumes "quiet content onAdded" and "AddHistory_AddMessage S R onAdded now tv (p, s) = (e, p', s')"
  shows "content s' = (case stored_pair R now tv of
           Some (k, v) \<Rightarrow> if e = None then (content s)(tv_addr tv := (content s (tv_addr tv))(k \<mapsto> v)) else content s
         | None \<Rightarrow> content s)"
    and "stored_pair R now tv = None \<Longrightarrow> p' = p"
proof -
  obtain r e1 tv1 where v: "AddHistory_validateValue R now tv = (r, e1, tv1)" by (metis prod.exhaust)
  have "content s' = (case stored_pair R now tv of
           Some (k, v) \<Rightarrow> if e = None then (content s)(tv_addr tv := (content s (tv_addr tv))(k \<mapsto> v)) else content s
         | None \<Rightarrow> content s) \<and> (stored_pair R now tv = None \<longrightarrow> p' = p)"
  proof (cases "e1 = None \<and> r")
    case True
    obtain key val where en: "AddHistory_encodeValue now tv1 = (key, val)" by fastforce
    have addr: "thing_addr (AgentID tv1) (ThingID tv1) = tv_addr tv"
      using validateValue_keeps [OF v] by (simp add: tv_addr_def)
    obtain e2 s2 where st: "bk_Set S (tv_addr tv) key (bytes_of val) (st_GetBucket S (tv_addr tv) s) = (e2, s2)"
      by fastforce
    from assms(2) v True en st have "e = e2" "(p', s') = notify onAdded tv1 (p, snd (bk_Close S (tv_addr tv) s2))"
      by (auto simp: AddHistory_AddMessage_def addr case_prod_unfold)
    with quietD [OF assms(1), of tv1] have "content s' = content s2"
      by (metis close_content snd_conv)
    moreover have "stored_pair R now tv = Some (key, bytes_of val)"
      using v True en by (simp add: stored_pair_def)
    moreover have "content s2 = (if e2 = None
        then (content s)(tv_addr tv := (content s (tv_addr tv))(key \<mapsto> bytes_of val)) else content s)"
      using st set_ok [of "tv_addr tv" key "bytes_of val" "st_GetBucket S (tv_addr tv) s" s2]
        set_failed [of "tv_addr tv" key "bytes_of val" "st_GetBucket S (tv_addr tv) s" _ s2]
      by (cases e2) (simp_all add: getbucket_content)
    ultimately show ?thesis using \<open>e = e2\<close> by simp
  next
    case False
    with assms(2) v show ?thesis
      by (cases r; cases e1) (auto simp: AddHistory_AddMessage_def stored_pair_def)
  qed
  then show "content s' = (case stored_pair R now tv of
           Some (k, v) \<Rightarrow> if e = None then (content s)(tv_addr tv := (content s (tv_addr tv))(k \<mapsto> v)) else content s
         | None \<Rightarrow> content s)" and "stored_pair R now tv = None \<Longrightarrow> p' = p" by blast+
qed

lemma AddMessages_content:
  assumes "quiet content onAdded" and "length tvs \<ge> 2"
    and "AddHistory_AddMessages S R onAdded now tvs (p, s) = (e, p', s')"
  shows "e \<noteq> None \<Longrightarrow> content s' = content s"
    and "e = None \<Longrightarrow> content s' addr = content s addr
         \<or> content s' addr = content s addr ++ mput_all (pairs_for R now addr tvs) Map.empty"
proof -
  obtain e1 groups ps1 where g: "group_values R onAdded now tvs [] (p, s) = (e1, groups, ps1)"
    by (metis prod.exhaust)
  have res: "(e, p', s') = (case e1 of Some err \<Rightarrow> (Some err, ps1)
      | None \<Rightarrow> (None, fst ps1, write_groups S groups (snd ps1)))"
    using assms(2,3) g unfolding AddHistory_AddMessages_def
    by (cases tvs; cases "tl tvs") (auto split: option.splits)
  have c1: "content (snd ps1) = content s" using group_values_quiet [OF assms(1) g] by simp
  show "content s' = content s" if "e \<noteq> None" using that res c1 by (cases e1) auto
  show "content s' addr = content s addr
         \<or> content s' addr = content s addr ++ mput_all (pairs_for R now addr tvs) Map.empty" if "e = None"
  proof -
    have "e1 = None" and s': "s' = write_groups S groups (snd ps1)" using that res by (cases e1; simp)+
    have wf0: "wf_groups []" by (simp add: wf_groups_def)
    have "wf_groups groups"
      and gm: "group_map groups addr = mput_all (pairs_for R now addr tvs) Map.empty"
      using group_values_pairs [OF g [unfolded \<open>e1 = None\<close>] wf0, of addr] by (auto simp: group_map_def)
    from write_groups_content [OF this(1), of "snd ps1" addr] show ?thesis
      unfolding s' gm c1 .
  qed
qed

end

text \<open>The rules filed under a name.\<close>

definition filed :: "RetentionRuleSet \<Rightarrow> string \<Rightarrow> RetentionRule list" where
  "filed rules name = (case mget rules name of None \<Rightarrow> [] | Some rs \<Rightarrow> rs)"

lemma find_append_first: "find P (xs @ ys) = (case find P xs of Some x \<Rightarrow> Some x | None \<Rightarrow> find P ys)"
  by (induction xs) auto

lemma FindFirstRule_filed:
  "ManageHistory_FindFirstRule rules tv = find (rule_matches tv) (filed rules (Name tv) @ filed rules [])"
  by (simp add: ManageHistory_FindFirstRule_def filed_def find_append_first split: option.splits)

lemma filed_SetRetentionRules:
  "filed (ManageHistory_SetRetentionRules args) name = map (\<lambda>rule. rule\<lparr>rr_Name := name\<rparr>) (filed args name)"
  unfolding filed_def ManageHistory_SetRetentionRules_def by (induction args) auto

lemma find_stamped:
  "find (rule_matches tv) (map (\<lambda>rule. rule\<lparr>rr_Name := name\<rparr>) rs) =
     map_option (\<lambda>rule. rule\<lparr>rr_Name := name\<rparr>) (find (rule_matches tv) rs)"
  by (induction rs) (auto simp: rule_matches_def)

section \<open>Properties\<close>

text \<open>
  \<open>AddMessage\<close> over any store that keeps the bucket contract: a value that is invalid or not
  retained stores nothing and is not announced to the callback; a retained one is stored under
  its key in the bucket of its Thing when no error is returned; nothing else in the store
  changes.
\<close>

lemma AddMessage_stores_retained:
  assumes "bucket_service S content" and "quiet content onAdded"
    and "AddHistory_AddMessage S R onAdded now tv (p, s) = (e, p', s')"
  shows "content s' = (case stored_pair R now tv of
           Some (k, v) \<Rightarrow> if e = None then (content s)(tv_addr tv := (content s (tv_addr tv))(k \<mapsto> v)) else content s
         | None \<Rightarrow> content s)
    \<and> (stored_pair R now tv = None \<longrightarrow> p' = p)"
  using bucket_service.AddMessage_content [OF assms(1-3)] by simp

abbreviation demo_tv :: "string \<Rightarrow> int \<Rightarrow> ThingValue" where
  "demo_tv name t \<equiv> \<lparr>AgentID = ''ag'', ThingID = ''th'', Name = name, Data = Some ''20'',
     CreatedMSec = t, SenderID = ''ag'', ValueType = MessageTypeEvent\<rparr>"

abbreviation hist_store :: "ldb BoltStore" where
  "hist_store \<equiv> \<lparr>boltDB = [], storePath = ''hist.db'', bucketRefCount = 0\<rparr>"

lemma quiet_None: "quiet content None"
  by (simp add: quiet_def notify_def)

lemma AddMessage_stores_retained_witness:
  "store_content ldb_contents (snd (snd (AddHistory_AddMessage list_store None None 5
      (demo_tv ''temp'' 42) ((), hist_store)))) ''ag/th'' ''42/temp/e/ag'' = Some ''20''"
proof -
  let ?run = "AddHistory_AddMessage list_store None None 5 (demo_tv ''temp'' 42) ((), hist_store)"
  have e: "fst ?run = None" by code_simp
  have sp: "stored_pair None 5 (demo_tv ''temp'' 42) = Some (''42/temp/e/ag'', ''20'')"
    by code_simp
  have "?run = (fst ?run, fst (snd ?run), snd (snd ?run))" by (rule surjective3)
  from AddMessage_stores_retained [OF ls.bucket_service_axioms quiet_None this] e sp
  show ?thesis by (simp add: tv_addr_def thing_addr_def)
qed



text \<open>
  Retention, for rules set with \<open>SetRetentionRules\<close>: without rules everything is kept. With
  rules, the decision is that of the first matching rule filed under the value's name, else of
  the first matching rule filed under the empty name, and a value that no rule matches is
  dropped. The rule that decides carries the name it is filed under.
\<close>

lemma retention_precedence:
  "fst (ManageHistory_IsRetained (ManageHistory_SetRetentionRules args) tv) =
     (args = [] \<or> (\<exists>rule. find (rule_matches tv) (filed args (Name tv) @ filed args []) = Some rule
                    \<and> rr_Retain rule))
   \<and> (case snd (ManageHistory_IsRetained (ManageHistory_SetRetentionRules args) tv) of
        None \<Rightarrow> True
      | Some rule \<Rightarrow> (rr_Name rule = Name tv \<or> rr_Name rule = []) \<and> rule_matches tv rule)"
proof -
  let ?rules = "ManageHistory_SetRetentionRules args"
  have fnd: "ManageHistory_FindFirstRule ?rules tv = find (rule_matches tv) (filed ?rules (Name tv) @ filed ?rules [])"
    by (rule FindFirstRule_filed)
  have ret: "map_option rr_Retain (find (rule_matches tv) (filed ?rules (Name tv) @ filed ?rules [])) =
      map_option rr_Retain (find (rule_matches tv) (filed args (Name tv) @ filed args []))"
    by (simp add: filed_SetRetentionRules find_append_first find_stamped option.map_comp comp_def
        split: option.split)
  have "rule_matches tv rule \<and> rule \<in> set (filed ?rules (Name tv) @ filed ?rules [])"
    if "ManageHistory_FindFirstRule ?rules tv = Some rule" for rule
    using that find_Some_mem [of "rule_matches tv"] unfolding fnd by metis
  then have "rule_matches tv rule \<and> (rr_Name rule = Name tv \<or> rr_Name rule = [])"
    if "ManageHistory_FindFirstRule ?rules tv = Some rule" for rule
    using that by (fastforce simp: filed_SetRetentionRules)
  moreover have "?rules = [] \<longleftrightarrow> args = []" by (simp add: ManageHistory_SetRetentionRules_def)
  ultimately show ?thesis
    using ret unfolding ManageHistory_IsRetained_def fnd map_option_case
    by (auto split: option.splits)
qed

end
