(* ===== verification/LatestProps.thy ===== *)
theory LatestProps
  imports HistoryAdd
begin

text \<open>
  Model of \<open>done_mod/mod_hist/hist_srv/LatestPropertiesStore.go\<close>: the cache of the most recent
  value of every property and event of a Thing, loaded on demand from the bucket
  \<open>properties\<close> and written back by \<open>SaveChanges\<close>. JSON coding is a parameter: \<open>js_enc\<close> and
  \<open>js_dec\<close> for the stored property map, \<open>js_props\<close> for the property map carried by a
  properties event (decoding followed by \<open>fmt.Sprint\<close> of every value).
\<close>

record props_json =
  js_enc :: "ThingValueMap \<Rightarrow> string"
  js_dec :: "string \<Rightarrow> ThingValueMap option"
  js_props :: "string \<Rightarrow> (string, string) gomap option"

record LatestPropertiesStore =
  lp_cache :: "(string, ThingValueMap) gomap"
  lp_changed :: "(string, bool) gomap"

abbreviation PropertiesBucketName :: string where "PropertiesBucketName \<equiv> ''properties''"

definition NewPropertiesStore :: LatestPropertiesStore where
  "NewPropertiesStore = \<lparr>lp_cache = [], lp_changed = []\<rparr>"

definition LatestPropertiesStore_LoadProps ::
  "('s, 'cur) IBucketStore \<Rightarrow> props_json \<Rightarrow> string \<Rightarrow> LatestPropertiesStore \<times> 's
     \<Rightarrow> bool \<times> LatestPropertiesStore \<times> 's" where
  "LatestPropertiesStore_LoadProps S J thingAddr ls =
     (case ls of (lp, s) \<Rightarrow>
        (case mget (lp_cache lp) thingAddr of
          Some _ \<Rightarrow> (True, lp, s)
        | None \<Rightarrow>
            (let (val, _, s1) = bk_Get S PropertiesBucketName thingAddr s;
                 props = (case val of
                            None \<Rightarrow> NewThingValueMap
                          | Some v \<Rightarrow> (case js_dec J v of None \<Rightarrow> NewThingValueMap | Some props \<Rightarrow> props))
             in (False, lp\<lparr>lp_cache := mput thingAddr props (lp_cache lp)\<rparr>, s1))))"

definition cached :: "LatestPropertiesStore \<Rightarrow> string \<Rightarrow> ThingValueMap" where
  "cached lp thingAddr = (case mget (lp_cache lp) thingAddr of None \<Rightarrow> [] | Some props \<Rightarrow> props)"

fun select_props :: "ThingValueMap \<Rightarrow> string list \<Rightarrow> ThingValueMap \<Rightarrow> ThingValueMap" where
  "select_props cache [] props = props"
| "select_props cache (name # names) props =
     select_props cache names
       (case ThingValueMap_Get cache name of None \<Rightarrow> props | Some tv \<Rightarrow> ThingValueMap_Set name tv props)"

definition LatestPropertiesStore_GetProperties ::
  "('s, 'cur) IBucketStore \<Rightarrow> props_json \<Rightarrow> string \<Rightarrow> string list \<Rightarrow> LatestPropertiesStore \<times> 's
     \<Rightarrow> ThingValueMap \<times> LatestPropertiesStore \<times> 's" where
  "LatestPropertiesStore_GetProperties S J thingAddr names ls =
     (let (_, lp, s) = LatestPropertiesStore_LoadProps S J thingAddr ls;
          thingCache = cached lp thingAddr
      in (if names \<noteq> [] then select_props thingCache names NewThingValueMap else thingCache, lp, s))"

text \<open>Values may arrive out of order: only a newer value replaces the cached one.\<close>

definition set_if_newer :: "string \<Rightarrow> ThingValue \<Rightarrow> ThingValueMap \<Rightarrow> ThingValueMap" where
  "set_if_newer name tv props =
     (case ThingValueMap_Get props name of
        None \<Rightarrow> ThingValueMap_Set name tv props
      | Some existingLatest \<Rightarrow>
          if CreatedMSec tv > CreatedMSec existingLatest then ThingValueMap_Set name tv props else props)"

fun add_each_prop :: "int \<Rightarrow> ThingValue \<Rightarrow> (string, string) gomap \<Rightarrow> ThingValueMap \<Rightarrow> ThingValueMap" where
  "add_each_prop now addtv [] props = props"
| "add_each_prop now addtv ((propName, propValue) # pvs) props =
     (let tv = NewThingValue now MessageTypeEvent (AgentID addtv) (ThingID addtv) propName
                 (Some propValue) (SenderID addtv)
      in add_each_prop now addtv pvs (set_if_newer propName (tv\<lparr>CreatedMSec := CreatedMSec addtv\<rparr>) props))"

definition LatestPropertiesStore_HandleAddValue ::
  "('s, 'cur) IBucketStore \<Rightarrow> props_json \<Rightarrow> int \<Rightarrow> ThingValue \<Rightarrow> LatestPropertiesStore \<times> 's
     \<Rightarrow> LatestPropertiesStore \<times> 's" where
  "LatestPropertiesStore_HandleAddValue S J now addtv0 ls =
     (let thingAddr = thing_addr (AgentID addtv0) (ThingID addtv0);
          addtv = (if CreatedMSec addtv0 \<le> 0 then addtv0\<lparr>CreatedMSec := now\<rparr> else addtv0);
          (_, lp, s) = LatestPropertiesStore_LoadProps S J thingAddr ls;
          thingCache = cached lp thingAddr;
          update = (\<lambda>props. lp\<lparr>lp_cache := mput thingAddr props (lp_cache lp),
                                lp_changed := mput thingAddr True (lp_changed lp)\<rparr>)
      in if Name addtv = EventNameProps
         then (case js_props J (bytes_of (Data addtv)) of
                 None \<Rightarrow> (lp, s)
               | Some pvs \<Rightarrow> (update (add_each_prop now addtv pvs thingCache), s))
         else (update (set_if_newer (Name addtv) addtv thingCache), s))"

text \<open>
  \<open>SaveChanges\<close>: the addresses marked as changed are collected first, then each is unmarked and
  written; the last error is returned, and an address without cached properties is an error
  of its own.
\<close>

fun save_each ::
  "('s, 'cur) IBucketStore \<Rightarrow> props_json \<Rightarrow> string list \<Rightarrow> go_error option \<Rightarrow> LatestPropertiesStore \<times> 's
     \<Rightarrow> go_error option \<times> LatestPropertiesStore \<times> 's" where
  "save_each S J [] err ls = (err, ls)"
| "save_each S J (thingAddr # addrs) err (lp, s) =
     (let lp1 = lp\<lparr>lp_changed := mput thingAddr False (lp_changed lp)\<rparr>
      in case mget (lp_cache lp) thingAddr of
           None \<Rightarrow> save_each S J addrs (Some (ErrNoProps thingAddr)) (lp1, s)
         | Some props \<Rightarrow>
             (let (err2, s1) = bk_Set S PropertiesBucketName thingAddr (js_enc J props) s
              in save_each S J addrs (if err2 = None then err else err2) (lp1, s1)))"

definition LatestPropertiesStore_SaveChanges ::
  "('s, 'cur) IBucketStore \<Rightarrow> props_json \<Rightarrow> LatestPropertiesStore \<times> 's
     \<Rightarrow> go_error option \<times> LatestPropertiesStore \<times> 's" where
  "LatestPropertiesStore_SaveChanges S J ls =
     save_each S J (map fst (filter snd (lp_changed (fst ls)))) None ls"

section \<open>Invariant\<close>

text \<open>
  Maps have one entry per key and whatever is marked as changed is cached.
\<close>

definition lp_inv :: "LatestPropertiesStore \<Rightarrow> bool" where
  "lp_inv lp \<longleftrightarrow> wf_map (lp_cache lp) \<and> wf_map (lp_changed lp)
     \<and> (\<forall>a. mget (lp_changed lp) a = Some True \<longrightarrow> mget (lp_cache lp) a \<noteq> None)"

lemma LoadProps_cached:
  assumes "LatestPropertiesStore_LoadProps S J a (lp, s) = (found, lp', s')"
  shows "mget (lp_cache lp') a \<noteq> None"
    and "b \<noteq> a \<Longrightarrow> mget (lp_cache lp') b = mget (lp_cache lp) b"
    and "found \<longleftrightarrow> mget (lp_cache lp) a \<noteq> None"
    and "found \<Longrightarrow> lp' = lp"
    and "lp_changed lp' = lp_changed lp"
    and "lp_inv lp \<Longrightarrow> lp_inv lp'"
  using assms
  by (auto simp: LatestPropertiesStore_LoadProps_def lp_inv_def gomap_simps intro: wf_intros
      split: option.splits prod.splits if_splits)

lemma HandleAddValue_inv:
  "lp_inv lp \<Longrightarrow> LatestPropertiesStore_HandleAddValue S J now tv (lp, s) = (lp', s') \<Longrightarrow> lp_inv lp'"
proof -
  assume inv: "lp_inv lp" and h: "LatestPropertiesStore_HandleAddValue S J now tv (lp, s) = (lp', s')"
  obtain f lp1 s1 where l: "LatestPropertiesStore_LoadProps S J (thing_addr (AgentID tv) (ThingID tv)) (lp, s)
      = (f, lp1, s1)" by (metis prod.exhaust)
  have "lp_inv lp1" using LoadProps_cached(6) [OF l inv] .
  with h l show "lp_inv lp'"
    by (auto simp: LatestPropertiesStore_HandleAddValue_def lp_inv_def gomap_simps Let_def
        intro: wf_intros split: if_splits option.splits)
qed

section \<open>The newest value wins\<close>

definition stamp :: "int \<Rightarrow> ThingValue \<Rightarrow> ThingValue" where
  "stamp now tv = (if CreatedMSec tv \<le> 0 then tv\<lparr>CreatedMSec := now\<rparr> else tv)"

text \<open>The named values a message announces: one for an event, one per property for a property map.\<close>

definition values_of :: "props_json \<Rightarrow> int \<Rightarrow> ThingValue \<Rightarrow> (string \<times> ThingValue) list" where
  "values_of J now tv =
     (if Name tv = EventNameProps
      then (case js_props J (bytes_of (Data tv)) of
              None \<Rightarrow> []
            | Some pvs \<Rightarrow> map (\<lambda>(n, v). (n, \<lparr>AgentID = AgentID tv, ThingID = ThingID tv, Name = n, Data = Some v,
                CreatedMSec = CreatedMSec (stamp now tv), SenderID = SenderID tv,
                ValueType = MessageTypeEvent\<rparr>)) pvs)
      else [(Name tv, stamp now tv)])"

abbreviation set_newer_all :: "(string \<times> ThingValue) list \<Rightarrow> ThingValueMap \<Rightarrow> ThingValueMap" where
  "set_newer_all nvs props \<equiv> fold (\<lambda>(n, tv). set_if_newer n tv) nvs props"

definition latest :: "LatestPropertiesStore \<Rightarrow> string \<Rightarrow> string \<Rightarrow> ThingValue option" where
  "latest lp thingAddr name = ThingValueMap_Get (cached lp thingAddr) name"

lemma add_each_prop_fold:
  "add_each_prop now tv pvs props = set_newer_all (map (\<lambda>(n, v). (n, \<lparr>AgentID = AgentID tv,
     ThingID = ThingID tv, Name = n, Data = Some v, CreatedMSec = CreatedMSec tv, SenderID = SenderID tv,
     ValueType = MessageTypeEvent\<rparr>)) pvs) props"
  by (induction pvs arbitrary: props) (auto simp: NewThingValue_def bytes_of_def Let_def)

lemma HandleAddValue_cached:
  assumes "LatestPropertiesStore_HandleAddValue S J now tv (lp, s) = (lp', s')"
    and "mget (lp_cache lp) a \<noteq> None"
  shows "cached lp' a = (if a = tv_addr tv then set_newer_all (values_of J now tv) (cached lp a) else cached lp a)"
    and "mget (lp_cache lp') a \<noteq> None"
proof -
  let ?a = "thing_addr (AgentID tv) (ThingID tv)"
  obtain f lp1 s1 where l: "LatestPropertiesStore_LoadProps S J ?a (lp, s) = (f, lp1, s1)"
    by (metis prod.exhaust)
  have same: "mget (lp_cache lp1) a = mget (lp_cache lp) a"
    using LoadProps_cached(2-4) [OF l] assms(2) by (cases "a = ?a") auto
  have st: "(if CreatedMSec tv \<le> 0 then tv\<lparr>CreatedMSec := now\<rparr> else tv) = stamp now tv"
    by (simp add: stamp_def)
  have keep: "Name (stamp now tv) = Name tv" "Data (stamp now tv) = Data tv" "AgentID (stamp now tv) = AgentID tv"
      "ThingID (stamp now tv) = ThingID tv" "SenderID (stamp now tv) = SenderID tv"
    by (simp_all add: stamp_def)
  show "cached lp' a = (if a = tv_addr tv then set_newer_all (values_of J now tv) (cached lp a) else cached lp a)"
    using assms(1) l same unfolding LatestPropertiesStore_HandleAddValue_def st
    by (auto simp: Let_def keep tv_addr_def cached_def values_of_def add_each_prop_fold gomap_simps
        split: option.splits if_splits)
  show "mget (lp_cache lp') a \<noteq> None"
    using assms l same unfolding LatestPropertiesStore_HandleAddValue_def st
    by (auto simp: Let_def keep gomap_simps split: option.splits if_splits)
qed

lemma set_if_newer_Get:
  "ThingValueMap_Get (set_if_newer n tv props) m =
     (if m = n then (case ThingValueMap_Get props n of
        None \<Rightarrow> Some tv
      | Some b \<Rightarrow> if CreatedMSec tv > CreatedMSec b then Some tv else Some b)
      else ThingValueMap_Get props m)"
  by (auto simp: set_if_newer_def gomap_simps split: option.splits)

lemma set_if_newer_mono:
  "ThingValueMap_Get props m = Some b \<Longrightarrow>
     \<exists>b1. ThingValueMap_Get (set_if_newer n tv props) m = Some b1 \<and> CreatedMSec b \<le> CreatedMSec b1"
  by (auto simp: set_if_newer_Get)

lemma set_if_newer_upper:
  "\<exists>b1. ThingValueMap_Get (set_if_newer n tv props) n = Some b1 \<and> CreatedMSec tv \<le> CreatedMSec b1"
  by (cases "ThingValueMap_Get props n") (auto simp: set_if_newer_Get)

lemma set_newer_all_mono:
  "ThingValueMap_Get props m = Some b \<Longrightarrow>
     \<exists>b'. ThingValueMap_Get (set_newer_all nvs props) m = Some b' \<and> CreatedMSec b \<le> CreatedMSec b'"
proof (induction nvs arbitrary: props b)
  case Nil
  then show ?case by simp
next
  case (Cons nv nvs)
  obtain n tv where nv: "nv = (n, tv)" by fastforce
  obtain b1 where "ThingValueMap_Get (set_if_newer n tv props) m = Some b1" "CreatedMSec b \<le> CreatedMSec b1"
    using set_if_newer_mono [OF Cons.prems] by blast
  with Cons.IH [of "set_if_newer n tv props" b1] nv show ?case by fastforce
qed

lemma set_newer_all_upper:
  "(m, tv) \<in> set nvs \<Longrightarrow>
     \<exists>b. ThingValueMap_Get (set_newer_all nvs props) m = Some b \<and> CreatedMSec tv \<le> CreatedMSec b"
proof (induction nvs arbitrary: props)
  case Nil
  then show ?case by simp
next
  case (Cons nv nvs)
  obtain n t where nv: "nv = (n, t)" by fastforce
  show ?case
  proof (cases "(m, tv) = (n, t)")
    case True
    obtain b1 where "ThingValueMap_Get (set_if_newer n t props) m = Some b1" "CreatedMSec tv \<le> CreatedMSec b1"
      using True set_if_newer_upper [of n t props] by auto
    with set_newer_all_mono [of "set_if_newer n t props" m b1 nvs] nv show ?thesis by fastforce
  next
    case False
    with Cons nv show ?thesis by auto
  qed
qed

lemma set_newer_all_source:
  "ThingValueMap_Get (set_newer_all nvs props) m = Some b \<Longrightarrow>
     ThingValueMap_Get props m = Some b \<or> (m, b) \<in> set nvs"
proof (induction nvs arbitrary: props)
  case Nil
  then show ?case by simp
next
  case (Cons nv nvs)
  obtain n t where nv: "nv = (n, t)" by fastforce
  with Cons.prems have "ThingValueMap_Get (set_newer_all nvs (set_if_newer n t props)) m = Some b" by simp
  from Cons.IH [OF this] nv show ?case
    by (auto simp: set_if_newer_Get split: if_splits option.splits)
qed

text \<open>A sequence of messages handled in order of arrival is one run over all their values.\<close>

definition handle_all :: "('s, 'cur) IBucketStore \<Rightarrow> props_json \<Rightarrow> int \<Rightarrow> ThingValue list
    \<Rightarrow> LatestPropertiesStore \<times> 's \<Rightarrow> LatestPropertiesStore \<times> 's" where
  "handle_all S J now tvs ls = fold (LatestPropertiesStore_HandleAddValue S J now) tvs ls"

lemma handle_all_cached:
  "handle_all S J now tvs (lp, s) = (lp', s') \<Longrightarrow> mget (lp_cache lp) a \<noteq> None \<Longrightarrow>
     cached lp' a = set_newer_all (concat (map (values_of J now) (filter (\<lambda>tv. tv_addr tv = a) tvs))) (cached lp a)"
proof (induction tvs arbitrary: lp s)
  case Nil
  then show ?case by (simp add: handle_all_def)
next
  case (Cons tv tvs)
  obtain lp1 s1 where h: "LatestPropertiesStore_HandleAddValue S J now tv (lp, s) = (lp1, s1)" by fastforce
  have "handle_all S J now tvs (lp1, s1) = (lp', s')" using Cons.prems(1) h by (simp add: handle_all_def)
  from Cons.IH [OF this HandleAddValue_cached(2) [OF h Cons.prems(2)]] HandleAddValue_cached(1) [OF h Cons.prems(2)]
  show ?case by simp
qed

section \<open>Saving\<close>

context bucket_service
begin

lemma save_each_ok:
  "save_each S J addrs err (lp, s) = (None, lp', s') \<Longrightarrow>
     err = None \<and> lp_cache lp' = lp_cache lp
     \<and> (\<forall>a. content s' PropertiesBucketName a =
          (if a \<in> set addrs then map_option (js_enc J) (mget (lp_cache lp) a) else content s PropertiesBucketName a))
     \<and> (\<forall>a. mget (lp_changed lp') a = (if a \<in> set addrs then Some False else mget (lp_changed lp) a))
     \<and> (\<forall>b. b \<noteq> PropertiesBucketName \<longrightarrow> content s' b = content s b)"
proof (induction addrs arbitrary: err lp s)
  case Nil
  then show ?case by simp
next
  case (Cons x addrs)
  let ?lp1 = "lp\<lparr>lp_changed := mput x False (lp_changed lp)\<rparr>"
  show ?case
  proof (cases "mget (lp_cache lp) x")
    case None
    with Cons.prems have "save_each S J addrs (Some (ErrNoProps x)) (?lp1, s) = (None, lp', s')"
      by (simp add: Let_def)
    from Cons.IH [OF this] show ?thesis by simp
  next
    case (Some props)
    obtain e2 s1 where st: "bk_Set S PropertiesBucketName x (js_enc J props) s = (e2, s1)" by fastforce
    with Cons.prems Some have rest: "save_each S J addrs (if e2 = None then err else e2) (?lp1, s1) = (None, lp', s')"
      by (simp add: Let_def)
    note ih = Cons.IH [OF rest]
    have e2: "e2 = None" using ih by (cases e2) auto
    have "content s1 = (content s)(PropertiesBucketName := (content s PropertiesBucketName)(x \<mapsto> js_enc J props))"
      using set_ok st e2 by simp
    with ih e2 Some show ?thesis by (simp add: gomap_simps)
  qed
qed

lemma SaveChanges_then_LoadProps:
  assumes "lp_inv lp" and "LatestPropertiesStore_SaveChanges S J (lp, s) = (None, lp', s')"
    and "mget (lp_changed lp) a = Some True" and "mget (lp_cache lp) a = Some props"
    and "js_dec J (js_enc J props) = Some props"
    and "fst (snd (bk_Get S PropertiesBucketName a s')) = None"
  shows "cached (fst (snd (LatestPropertiesStore_LoadProps S J a (NewPropertiesStore, s')))) a = props"
    and "mget (lp_changed lp') a = Some False" and "lp_cache lp' = lp_cache lp"
proof -
  have "wf_map (lp_changed lp)" using assms(1) by (simp add: lp_inv_def)
  with assms(3) have "a \<in> set (map fst (filter snd (lp_changed lp)))"
    by (force simp: mget_mem_iff)
  with save_each_ok [OF assms(2) [unfolded LatestPropertiesStore_SaveChanges_def]] assms(4)
  have st: "content s' PropertiesBucketName a = Some (js_enc J props)"
    and "mget (lp_changed lp') a = Some False" "lp_cache lp' = lp_cache lp" by auto
  then show "mget (lp_changed lp') a = Some False" "lp_cache lp' = lp_cache lp" by auto
  obtain r e s2 where g: "bk_Get S PropertiesBucketName a s' = (r, e, s2)" by (metis prod.exhaust)
  with get_hit [OF st g] assms(6) have "r = Some (js_enc J props)" by simp
  with g assms(5) show "cached (fst (snd (LatestPropertiesStore_LoadProps S J a (NewPropertiesStore, s')))) a = props"
    by (simp add: LatestPropertiesStore_LoadProps_def NewPropertiesStore_def cached_def gomap_simps)
qed

text \<open>Announcing a value reads the store but does not change it.\<close>

lemma HandleAddValue_quiet: "quiet content (Some (LatestPropertiesStore_HandleAddValue S J now))"
proof -
  have load: "content (snd (snd (LatestPropertiesStore_LoadProps S J a (lp, s)))) = content s" for a lp s
    using get_frame [of PropertiesBucketName a s]
    by (auto simp: LatestPropertiesStore_LoadProps_def split: option.splits prod.splits)
  have "content (snd (LatestPropertiesStore_HandleAddValue S J now tv (lp, s))) = content s" for tv lp s
    using load [of "thing_addr (AgentID tv) (ThingID tv)" lp s]
    by (auto simp: LatestPropertiesStore_HandleAddValue_def Let_def case_prod_unfold split: option.splits)
  then show ?thesis by (simp add: quiet_def notify_def)
qed

end

section \<open>Properties\<close>

text \<open>
  C26. The newest value wins, in whatever order messages arrive: for a Thing whose cache is
  loaded, after any sequence of messages the latest value of a name that some message announced
  is at least as recent as that message, and it is one of the announced values of that name or
  the value that was cached before.
\<close>

theorem latest_is_newest:
  assumes "mget (lp_cache lp) a \<noteq> None" and "handle_all S J now tvs (lp, s) = (lp', s')"
    and "tv \<in> set tvs" and "tv_addr tv = a" and "(n, v) \<in> set (values_of J now tv)"
  shows "\<exists>b. latest lp' a n = Some b \<and> CreatedMSec v \<le> CreatedMSec b
    \<and> (latest lp a n = Some b \<or> (\<exists>tv2. tv2 \<in> set tvs \<and> tv_addr tv2 = a \<and> (n, b) \<in> set (values_of J now tv2)))"
proof -
  let ?nvs = "concat (map (values_of J now) (filter (\<lambda>tv. tv_addr tv = a) tvs))"
  have c: "cached lp' a = set_newer_all ?nvs (cached lp a)" by (rule handle_all_cached [OF assms(2,1)])
  have "(n, v) \<in> set ?nvs" using assms(3-5) by auto
  from set_newer_all_upper [OF this, of "cached lp a"] c obtain b
    where b: "latest lp' a n = Some b" "CreatedMSec v \<le> CreatedMSec b" by (auto simp: latest_def)
  from b(1) set_newer_all_source [of ?nvs "cached lp a" n b] c
  have "latest lp a n = Some b \<or> (n, b) \<in> set ?nvs" by (simp add: latest_def)
  then show ?thesis using b by auto
qed

text \<open>A codec for one property map, and a loaded cache of a Thing without properties.\<close>

abbreviation demo_json :: props_json where
  "demo_json \<equiv> \<lparr>js_enc = (\<lambda>m. if m = [(''temp'', demo_tv ''temp'' 9)] then ''temp9'' else ''none''),
     js_dec = (\<lambda>s. if s = ''temp9'' then Some [(''temp'', demo_tv ''temp'' 9)] else None),
     js_props = (\<lambda>s. None)\<rparr>"

abbreviation demo_lp :: LatestPropertiesStore where
  "demo_lp \<equiv> \<lparr>lp_cache = [(''ag/th'', [])], lp_changed = []\<rparr>"

theorem latest_is_newest_witness:
  "\<exists>b. latest (fst (handle_all list_store demo_json 50 [demo_tv ''temp'' 9, demo_tv ''temp'' 4] (demo_lp, hist_store)))
        ''ag/th'' ''temp'' = Some b \<and> 9 \<le> CreatedMSec b"
proof -
  have cached: "mget (lp_cache demo_lp) ''ag/th'' \<noteq> None" by simp
  have val: "(''temp'', demo_tv ''temp'' 9) \<in> set (values_of demo_json 50 (demo_tv ''temp'' 9))"
    by (simp add: values_of_def stamp_def)
  have addr: "tv_addr (demo_tv ''temp'' 9) = ''ag/th''" by (simp add: tv_addr_def thing_addr_def)
  show ?thesis
    using latest_is_newest [OF cached surjective_pairing _ addr val,
        where S = list_store and tvs = "[demo_tv ''temp'' 9, demo_tv ''temp'' 4]" and s = hist_store] by auto
qed

text \<open>
  Saving and reloading: when \<open>SaveChanges\<close> reports no error, the properties of a changed Thing
  are read back unchanged by a fresh properties store over the same bucket store (given that
  JSON decoding inverts encoding on them and the read succeeds), and the Thing is no longer
  marked as changed.
\<close>

lemma SaveChanges_reload:
  assumes "bucket_service S content" and "lp_inv lp"
    and "LatestPropertiesStore_SaveChanges S J (lp, s) = (None, lp', s')"
    and "mget (lp_changed lp) a = Some True" and "mget (lp_cache lp) a = Some props"
    and "js_dec J (js_enc J props) = Some props"
    and "fst (snd (bk_Get S PropertiesBucketName a s')) = None"
  shows "cached (fst (snd (LatestPropertiesStore_LoadProps S J a (NewPropertiesStore, s')))) a = props
    \<and> mget (lp_changed lp') a = Some False \<and> lp_cache lp' = lp_cache lp"
  using bucket_service.SaveChanges_then_LoadProps [OF assms] by simp

lemma SaveChanges_reload_witness:
  "cached (fst (snd (LatestPropertiesStore_LoadProps list_store demo_json ''ag/th''
     (NewPropertiesStore, \<lparr>boltDB = [(''properties'', [(''ag/th'', ''temp9'')])], storePath = ''hist.db'',
        bucketRefCount = 0\<rparr>)))) ''ag/th'' = [(''temp'', demo_tv ''temp'' 9)]"
proof -
  let ?lp = "\<lparr>lp_cache = [(''ag/th'', [(''temp'', demo_tv ''temp'' 9)])], lp_changed = [(''ag/th'', True)]\<rparr>"
  let ?st = "\<lparr>boltDB = [(''properties'', [(''ag/th'', ''temp9'')])], storePath = ''hist.db'', bucketRefCount = 0\<rparr>"
  have inv: "lp_inv ?lp" by (simp add: lp_inv_def wf_map_def)
  have sv: "LatestPropertiesStore_SaveChanges list_store demo_json (?lp, hist_store) =
      (None, ?lp\<lparr>lp_changed := [(''ag/th'', False)]\<rparr>, ?st)"
    by (simp add: LatestPropertiesStore_SaveChanges_def BoltStore_iface_def on_db_def bolt_bucket_defs list_db_defs)
  have rd: "fst (snd (bk_Get list_store PropertiesBucketName ''ag/th'' ?st)) = None"
    by (simp add: BoltStore_iface_def on_db2_def bolt_bucket_defs list_db_defs)
  from SaveChanges_reload [OF ls.bucket_service_axioms inv sv _ _ _ rd] show ?thesis by simp
qed

end
