(* ===== verification/CursorCache.thy ===== *)
theory CursorCache
  imports GoStrings "HOL-Library.Word"
begin

text \<open>
  Model of \<open>done_tool/buckets/CursorCache.go\<close>: the table of cursors that remote clients
  address by key. The table is a Go map that is iterated, so a \<open>gomap\<close>; keys are the
  hexadecimal rendering of a 64-bit counter. Times are nanoseconds since Go's zero
  \<open>time.Time\<close>, so an unset \<open>LastUsed\<close> is 0, and \<open>time.Time.Sub\<close> saturates at int64.
  \<open>Release\<close> also returns the calls it makes on the cursor and the bucket it owned.
\<close>

section \<open>State\<close>

record ('cur, 'bkt) CursorInfo =
  ci_Key :: string
  ci_Bucket :: "'bkt option"
  ci_Cursor :: 'cur
  ci_OwnerID :: string
  ci_LastUsed :: int
  ci_Lifespan :: int

record ('cur, 'bkt) CursorCache =
  cursorsByKey :: "(string, ('cur, 'bkt) CursorInfo) gomap"
  cursorCounter :: "64 word"

datatype ('cur, 'bkt) cc_effect = CursorReleased 'cur | BucketClosed 'bkt

section \<open>Operations\<close>

definition NewCursorCache :: "('cur, 'bkt) CursorCache" where
  "NewCursorCache = \<lparr>cursorsByKey = [], cursorCounter = 1\<rparr>"

definition CursorCache_Add ::
  "'cur \<Rightarrow> 'bkt option \<Rightarrow> string \<Rightarrow> int \<Rightarrow> ('cur, 'bkt) CursorCache
     \<Rightarrow> string \<times> ('cur, 'bkt) CursorCache" where
  "CursorCache_Add cursor bucket clientID lifespan cc =
     (let counter = cursorCounter cc + 1;
          key = strconv_FormatUint16 (unat counter);
          ci = \<lparr>ci_Key = key, ci_Bucket = bucket, ci_Cursor = cursor, ci_OwnerID = clientID,
                ci_LastUsed = 0, ci_Lifespan = lifespan\<rparr>
      in (key, cc\<lparr>cursorsByKey := mput key ci (cursorsByKey cc), cursorCounter := counter\<rparr>))"

definition CursorCache_Get ::
  "int \<Rightarrow> string \<Rightarrow> string \<Rightarrow> bool \<Rightarrow> ('cur, 'bkt) CursorCache
     \<Rightarrow> (go_error + 'cur) \<times> ('cur, 'bkt) CursorCache" where
  "CursorCache_Get now cursorKey clientID updateLastUsed cc =
     (case mget (cursorsByKey cc) cursorKey of
        None \<Rightarrow> (Inl ErrCursorNotFound, cc)
      | Some ci \<Rightarrow>
          if ci_OwnerID ci \<noteq> clientID then (Inl (ErrCursorOwner clientID), cc)
          else if updateLastUsed then
            (Inr (ci_Cursor ci),
             cc\<lparr>cursorsByKey := mput cursorKey (ci\<lparr>ci_LastUsed := now\<rparr>) (cursorsByKey cc)\<rparr>)
          else (Inr (ci_Cursor ci), cc))"

text \<open>Moving a cursor mutates the object the table points to: the new cursor state is put back.\<close>

definition CursorCache_store ::
  "string \<Rightarrow> 'cur \<Rightarrow> ('cur, 'bkt) CursorCache \<Rightarrow> ('cur, 'bkt) CursorCache" where
  "CursorCache_store cursorKey cur cc =
     (case mget (cursorsByKey cc) cursorKey of
        None \<Rightarrow> cc
      | Some ci \<Rightarrow> cc\<lparr>cursorsByKey := mput cursorKey (ci\<lparr>ci_Cursor := cur\<rparr>) (cursorsByKey cc)\<rparr>)"

definition time_Sub :: "int \<Rightarrow> int \<Rightarrow> int" where
  "time_Sub t u = max min_int64 (min max_int64 (t - u))"

definition CursorCache_GetExpiredCursors ::
  "int \<Rightarrow> ('cur, 'bkt) CursorCache \<Rightarrow> ('cur, 'bkt) CursorInfo list" where
  "CursorCache_GetExpiredCursors now cc =
     filter (\<lambda>ci. time_Sub now (ci_LastUsed ci) > ci_Lifespan ci) (map snd (cursorsByKey cc))"

definition CursorCache_GetCursorsByOwner ::
  "string \<Rightarrow> ('cur, 'bkt) CursorCache \<Rightarrow> ('cur, 'bkt) CursorInfo list" where
  "CursorCache_GetCursorsByOwner ownerID cc =
     filter (\<lambda>ci. ci_OwnerID ci = ownerID) (map snd (cursorsByKey cc))"

definition CursorCache_Release ::
  "string \<Rightarrow> string \<Rightarrow> ('cur, 'bkt) CursorCache
     \<Rightarrow> go_error option \<times> ('cur, 'bkt) CursorCache \<times> ('cur, 'bkt) cc_effect list" where
  "CursorCache_Release clientID cursorKey cc =
     (case mget (cursorsByKey cc) cursorKey of
        None \<Rightarrow> (None, cc, [])
      | Some ci \<Rightarrow>
          if ci_OwnerID ci \<noteq> clientID then (Some (ErrCursorOwner clientID), cc, [])
          else (None, cc\<lparr>cursorsByKey := mdel cursorKey (cursorsByKey cc)\<rparr>,
                CursorReleased (ci_Cursor ci) #
                (case ci_Bucket ci of None \<Rightarrow> [] | Some b \<Rightarrow> [BucketClosed b])))"

text \<open>
  One round of the background loop of \<open>Start\<close>, run every minute and once more when \<open>Stop\<close>
  signals (its \<open>break\<close> only leaves the \<open>select\<close>): release every expired cursor.
\<close>

fun release_list ::
  "('cur, 'bkt) CursorInfo list \<Rightarrow> ('cur, 'bkt) CursorCache
     \<Rightarrow> ('cur, 'bkt) CursorCache \<times> ('cur, 'bkt) cc_effect list" where
  "release_list [] cc = (cc, [])"
| "release_list (ci # cis) cc =
     (let (_, cc1, eff1) = CursorCache_Release (ci_OwnerID ci) (ci_Key ci) cc;
          (cc2, eff2) = release_list cis cc1
      in (cc2, eff1 @ eff2))"

definition CursorCache_sweep ::
  "int \<Rightarrow> ('cur, 'bkt) CursorCache \<Rightarrow> ('cur, 'bkt) CursorCache \<times> ('cur, 'bkt) cc_effect list" where
  "CursorCache_sweep now cc = release_list (CursorCache_GetExpiredCursors now cc) cc"

lemmas cursor_cache_defs =
  CursorCache_Add_def CursorCache_Get_def CursorCache_store_def CursorCache_Release_def Let_def

section \<open>Invariant\<close>

text \<open>
  One entry per key, and every entry is stored under its own key, which is the rendering
  of a counter value already used.
\<close>

definition cc_inv :: "('cur, 'bkt) CursorCache \<Rightarrow> bool" where
  "cc_inv cc \<longleftrightarrow> wf_map (cursorsByKey cc)
     \<and> (\<forall>k ci. mget (cursorsByKey cc) k = Some ci \<longrightarrow>
          ci_Key ci = k \<and> (\<exists>n. n \<le> unat (cursorCounter cc) \<and> k = strconv_FormatUint16 n))"

lemma format16_inj: "format_base 16 m = format_base 16 n \<Longrightarrow> m = n"
proof (induction m arbitrary: n rule: less_induct)
  case (less m)
  have dig: "digit_char a = digit_char b \<longleftrightarrow> a = b" if "a < 16" "b < 16" for a b
    using that by (auto simp: digit_char_def dest: arg_cong [of _ _ "of_char :: _ \<Rightarrow> nat"])
  show ?case
  proof (cases "m < 16 \<or> n < 16")
    case True
    with less.prems dig show ?thesis
      by (auto simp: format_base.simps [of 16 m] format_base.simps [of 16 n]
          split: if_splits dest!: sym [of "[]"])
  next
    case False
    then have "m div 16 < m" by simp
    moreover from False less.prems dig
    have "format_base 16 (m div 16) = format_base 16 (n div 16)" and "m mod 16 = n mod 16"
      by (simp_all add: format_base.simps [of 16 m] format_base.simps [of 16 n])
    ultimately have "m div 16 = n div 16" using less.IH by blast
    with \<open>m mod 16 = n mod 16\<close> show ?thesis by (metis div_mult_mod_eq)
  qed
qed

lemma FormatUint16_inj [simp]: "strconv_FormatUint16 m = strconv_FormatUint16 n \<longleftrightarrow> m = n"
  by (auto simp: strconv_FormatUint16_def dest: format16_inj)


text \<open>The table as its users see it: the owner and the cursor of every key.\<close>

definition cc_view :: "('cur, 'bkt) CursorCache \<Rightarrow> string \<rightharpoonup> string \<times> 'cur" where
  "cc_view cc k = map_option (\<lambda>ci. (ci_OwnerID ci, ci_Cursor ci)) (mget (cursorsByKey cc) k)"

text \<open>The counter has not wrapped around.\<close>

definition cc_room :: "('cur, 'bkt) CursorCache \<Rightarrow> bool" where
  "cc_room cc \<longleftrightarrow> unat (cursorCounter cc) < 2 ^ 64 - 1"

lemma unat_counter_succ: "cc_room cc \<Longrightarrow> unat (cursorCounter cc + 1) = Suc (unat (cursorCounter cc))"
  by (simp add: cc_room_def unat_word_ariths)

lemma cc_inv_New: "cc_inv NewCursorCache"
  by (simp add: cc_inv_def NewCursorCache_def)

lemma CursorCache_Add_new:
  assumes "cc_inv cc" and "cc_room cc" and "CursorCache_Add cur b owner life cc = (k, cc')"
  shows "cc_view cc k = None" and "cc_view cc' = (cc_view cc)(k \<mapsto> (owner, cur))" and "cc_inv cc'"
proof -
  let ?n = "Suc (unat (cursorCounter cc))"
  from assms(2,3) have k: "k = strconv_FormatUint16 ?n"
    and cc': "cursorsByKey cc' = mput k \<lparr>ci_Key = k, ci_Bucket = b, ci_Cursor = cur,
        ci_OwnerID = owner, ci_LastUsed = 0, ci_Lifespan = life\<rparr> (cursorsByKey cc)"
      "unat (cursorCounter cc') = ?n"
    by (auto simp: CursorCache_Add_def Let_def unat_counter_succ)
  have fresh: "mget (cursorsByKey cc) k = None"
  proof (rule ccontr)
    assume "mget (cursorsByKey cc) k \<noteq> None"
    then obtain ci where "mget (cursorsByKey cc) k = Some ci" by blast
    with assms(1) obtain n where "n \<le> unat (cursorCounter cc)" and "k = strconv_FormatUint16 n"
      unfolding cc_inv_def by blast
    with k show False by simp
  qed
  then show "cc_view cc k = None" by (simp add: cc_view_def)
  from cc'(1) show "cc_view cc' = (cc_view cc)(k \<mapsto> (owner, cur))"
    by (simp add: fun_eq_iff cc_view_def gomap_simps)
  from assms(1) cc' k show "cc_inv cc'"
    unfolding cc_inv_def by (auto simp: gomap_simps intro: wf_intros split: if_splits) (meson le_SucI)
qed

lemma CursorCache_Get_result:
  "fst (CursorCache_Get now k c u cc) =
     (case cc_view cc k of
        None \<Rightarrow> Inl ErrCursorNotFound
      | Some (owner, cur) \<Rightarrow> if owner = c then Inr cur else Inl (ErrCursorOwner c))"
  by (auto simp: CursorCache_Get_def cc_view_def split: option.splits)

lemma CursorCache_Get_view: "cc_view (snd (CursorCache_Get now k c u cc)) = cc_view cc"
  by (auto simp: CursorCache_Get_def cc_view_def fun_eq_iff gomap_simps split: option.splits)

lemma CursorCache_Get_inv: "cc_inv cc \<Longrightarrow> cc_inv (snd (CursorCache_Get now k c u cc))"
  unfolding cc_inv_def CursorCache_Get_def
  by (auto simp: gomap_simps intro: wf_intros split: option.splits if_splits)

lemma CursorCache_store_view:
  "cc_view (CursorCache_store k cur cc) =
     (case cc_view cc k of None \<Rightarrow> cc_view cc | Some (owner, _) \<Rightarrow> (cc_view cc)(k \<mapsto> (owner, cur)))"
  by (auto simp: CursorCache_store_def cc_view_def fun_eq_iff gomap_simps split: option.splits)

lemma CursorCache_store_inv: "cc_inv cc \<Longrightarrow> cc_inv (CursorCache_store k cur cc)"
  unfolding cc_inv_def CursorCache_store_def
  by (auto simp: gomap_simps intro: wf_intros split: option.splits if_splits)

lemma CursorCache_Release_view:
  assumes "CursorCache_Release c k cc = (e, cc', eff)"
  shows "cc_view cc' = (case cc_view cc k of
           Some (owner, _) \<Rightarrow> if owner = c then (cc_view cc)(k := None) else cc_view cc
         | None \<Rightarrow> cc_view cc)"
    and "e = (case cc_view cc k of
           Some (owner, _) \<Rightarrow> if owner = c then None else Some (ErrCursorOwner c) | None \<Rightarrow> None)"
  using assms
  by (auto simp: CursorCache_Release_def cc_view_def fun_eq_iff gomap_simps split: option.splits if_splits)

lemma CursorCache_Release_inv:
  "cc_inv cc \<Longrightarrow> CursorCache_Release c k cc = (e, cc', eff) \<Longrightarrow> cc_inv cc'"
  unfolding cc_inv_def CursorCache_Release_def
  by (auto simp: gomap_simps intro: wf_intros split: option.splits if_splits)

text \<open>A client and its cursor.\<close>

lemma Get_owned:
  assumes "cc_view cc key = Some (sender, c)"
  shows "\<exists>cc'. CursorCache_Get now key sender u cc = (Inr c, cc') \<and> cc_view cc' = cc_view cc"
proof -
  have "fst (CursorCache_Get now key sender u cc) = Inr c" using assms by (simp add: CursorCache_Get_result)
  then show ?thesis
    using CursorCache_Get_view [of now key sender u cc] by (metis prod.collapse)
qed

lemma store_owned:
  "cc_view cc key = Some (sender, c) \<Longrightarrow> cc_view (CursorCache_store key c' cc) key = Some (sender, c')"
  by (simp add: CursorCache_store_view)

section \<open>The contract of a cursor table\<close>

text \<open>
  What the directory and history services rely on: keys are fresh, lookups and releases
  are for the owner only, and no operation touches another key.
\<close>

locale cursor_table =
  fixes add :: "'cur \<Rightarrow> 'bkt option \<Rightarrow> string \<Rightarrow> int \<Rightarrow> 's \<Rightarrow> string \<times> 's"
    and get :: "int \<Rightarrow> string \<Rightarrow> string \<Rightarrow> bool \<Rightarrow> 's \<Rightarrow> (go_error + 'cur) \<times> 's"
    and release :: "string \<Rightarrow> string \<Rightarrow> 's \<Rightarrow> go_error option \<times> 's \<times> ('cur, 'bkt) cc_effect list"
    and view :: "'s \<Rightarrow> string \<rightharpoonup> string \<times> 'cur"
    and inv :: "'s \<Rightarrow> bool"
    and room :: "'s \<Rightarrow> bool"
  assumes add_fresh: "inv s \<Longrightarrow> room s \<Longrightarrow> add cur b owner life s = (k, s') \<Longrightarrow> view s k = None"
    and add_view: "inv s \<Longrightarrow> room s \<Longrightarrow> add cur b owner life s = (k, s')
        \<Longrightarrow> view s' = (view s)(k \<mapsto> (owner, cur))"
    and add_inv: "inv s \<Longrightarrow> room s \<Longrightarrow> add cur b owner life s = (k, s') \<Longrightarrow> inv s'"
    and get_result: "fst (get now k c u s) =
        (case view s k of None \<Rightarrow> Inl ErrCursorNotFound
         | Some (owner, cur) \<Rightarrow> if owner = c then Inr cur else Inl (ErrCursorOwner c))"
    and get_view: "view (snd (get now k c u s)) = view s"
    and get_inv: "inv s \<Longrightarrow> inv (snd (get now k c u s))"
    and release_view: "release c k s = (e, s', eff) \<Longrightarrow> view s' =
        (case view s k of
           Some (owner, _) \<Rightarrow> if owner = c then (view s)(k := None) else view s | None \<Rightarrow> view s)"
    and release_err: "release c k s = (e, s', eff) \<Longrightarrow> e =
        (case view s k of
           Some (owner, _) \<Rightarrow> if owner = c then None else Some (ErrCursorOwner c) | None \<Rightarrow> None)"
    and release_inv: "inv s \<Longrightarrow> release c k s = (e, s', eff) \<Longrightarrow> inv s'"
begin

text \<open>The owner can use the cursor it added; nobody else can.\<close>

lemma added_usable_by_owner_only:
  assumes "inv s" and "room s" and "add cur b owner life s = (k, s')"
  shows "fst (get now k c u s') = (if c = owner then Inr cur else Inl (ErrCursorOwner c))"
  using add_view [OF assms] by (simp add: get_result)

lemma get_Inr_owner: "fst (get now k c u s) = Inr cur \<Longrightarrow> view s k = Some (c, cur)"
  by (auto simp: get_result split: option.splits if_splits prod.splits)

text \<open>A foreign release is refused and leaves the table as it was.\<close>

lemma foreign_release_refused:
  assumes "view s k = Some (owner, cur)" and "c \<noteq> owner" and "release c k s = (e, s', eff)"
  shows "e = Some (ErrCursorOwner c) \<and> view s' = view s"
  using assms release_view [OF assms(3)] release_err [OF assms(3)] by simp

text \<open>After the owner's release the key is gone for everyone.\<close>

lemma released_is_gone:
  assumes "view s k = Some (owner, cur)" and "release owner k s = (e, s', eff)"
  shows "fst (get now k c u s') = Inl ErrCursorNotFound"
  using assms release_view [OF assms(2)] by (simp add: get_result)

text \<open>Adding, using and releasing a cursor leaves every other entry untouched.\<close>

lemma add_use_release_frame:
  assumes "inv s" and "room s" and "add cur b owner life s = (k, s1)"
    and "release owner k (snd (get now k owner u s1)) = (e, s2, eff)"
  shows "e = None \<and> view s2 = view s"
proof -
  have v1: "view (snd (get now k owner u s1)) = (view s)(k \<mapsto> (owner, cur))"
    using add_view [OF assms(1-3)] get_view by metis
  have "view s2 = ((view s)(k \<mapsto> (owner, cur)))(k := None)"
    using release_view [OF assms(4)] v1 by simp
  also have "\<dots> = view s"
    using add_fresh [OF assms(1-3)] by (simp add: fun_eq_iff)
  finally show ?thesis using release_err [OF assms(4)] v1 by simp
qed

end

interpretation cc: cursor_table CursorCache_Add CursorCache_Get CursorCache_Release cc_view cc_inv cc_room
proof unfold_locales
  fix cc k cc' and cur :: 'a and b :: "'b option" and owner life
  assume "cc_inv cc" "cc_room cc" "CursorCache_Add cur b owner life cc = (k, cc')"
  note added = CursorCache_Add_new [OF this]
  show "cc_view cc k = None" by (rule added(1))
  show "cc_view cc' = (cc_view cc)(k \<mapsto> (owner, cur))" by (rule added(2))
  show "cc_inv cc'" by (rule added(3))
qed (fact CursorCache_Get_result CursorCache_Get_view CursorCache_Get_inv
      CursorCache_Release_view CursorCache_Release_inv)+

section \<open>The background sweep\<close>

text \<open>What releasing one entry does to the objects it holds.\<close>

definition release_effects :: "('cur, 'bkt) CursorInfo \<Rightarrow> ('cur, 'bkt) cc_effect list" where
  "release_effects ci = CursorReleased (ci_Cursor ci) #
     (case ci_Bucket ci of None \<Rightarrow> [] | Some b \<Rightarrow> [BucketClosed b])"

lemma release_list_entries:
  assumes "cc_inv cc" and "distinct (map ci_Key cis)"
    and "\<And>ci. ci \<in> set cis \<Longrightarrow> mget (cursorsByKey cc) (ci_Key ci) = Some ci"
    and "release_list cis cc = (cc', eff)"
  shows "cc_inv cc' \<and> cursorCounter cc' = cursorCounter cc
    \<and> eff = concat (map release_effects cis)
    \<and> (\<forall>k. mget (cursorsByKey cc') k =
         (if k \<in> ci_Key ` set cis then None else mget (cursorsByKey cc) k))"
  using assms
proof (induction cis arbitrary: cc cc' eff)
  case Nil
  then show ?case by simp
next
  case (Cons ci cis)
  let ?cc1 = "cc\<lparr>cursorsByKey := mdel (ci_Key ci) (cursorsByKey cc)\<rparr>"
  have rel: "CursorCache_Release (ci_OwnerID ci) (ci_Key ci) cc = (None, ?cc1, release_effects ci)"
    using Cons.prems(3) [of ci] by (simp add: CursorCache_Release_def release_effects_def)
  obtain eff2 where rest: "release_list cis ?cc1 = (cc', eff2)" and eff: "eff = release_effects ci @ eff2"
    using Cons.prems(4) rel by (auto simp: Let_def split: prod.splits)
  have "cc_inv ?cc1" by (rule CursorCache_Release_inv [OF Cons.prems(1) rel])
  moreover have "mget (cursorsByKey ?cc1) (ci_Key c) = Some c" if "c \<in> set cis" for c
    using that Cons.prems(2) Cons.prems(3) [of c] by (simp add: gomap_simps) (metis image_eqI)
  ultimately show ?case using Cons.IH [OF _ _ _ rest] Cons.prems(2) eff by (auto simp: gomap_simps)
qed

lemma expired_entries:
  assumes "cc_inv cc"
  shows "distinct (map ci_Key (CursorCache_GetExpiredCursors now cc))"
    and "ci \<in> set (CursorCache_GetExpiredCursors now cc) \<longleftrightarrow>
      mget (cursorsByKey cc) (ci_Key ci) = Some ci \<and> time_Sub now (ci_LastUsed ci) > ci_Lifespan ci"
proof -
  have wf: "wf_map (cursorsByKey cc)" using assms by (simp add: cc_inv_def)
  have key: "ci_Key c = k" if "(k, c) \<in> set (cursorsByKey cc)" for k c
    using assms that wf by (simp add: cc_inv_def mget_mem_iff)
  then have "map ci_Key (map snd (cursorsByKey cc)) = map fst (cursorsByKey cc)" by auto
  with wf have "distinct (map ci_Key (map snd (cursorsByKey cc)))" by (simp only: wf_map_def)
  then show "distinct (map ci_Key (CursorCache_GetExpiredCursors now cc))"
    unfolding CursorCache_GetExpiredCursors_def by (rule distinct_map_filter)
  have "ci \<in> snd ` set (cursorsByKey cc) \<longleftrightarrow> (ci_Key ci, ci) \<in> set (cursorsByKey cc)"
  proof
    assume "ci \<in> snd ` set (cursorsByKey cc)"
    then obtain k where "(k, ci) \<in> set (cursorsByKey cc)" by auto
    with key [OF this] show "(ci_Key ci, ci) \<in> set (cursorsByKey cc)" by simp
  qed (metis image_eqI snd_conv)
  then show "ci \<in> set (CursorCache_GetExpiredCursors now cc) \<longleftrightarrow>
      mget (cursorsByKey cc) (ci_Key ci) = Some ci \<and> time_Sub now (ci_LastUsed ci) > ci_Lifespan ci"
    using wf by (auto simp: CursorCache_GetExpiredCursors_def mget_mem_iff)
qed

lemma sweep_release:
  assumes "cc_inv cc" and "CursorCache_sweep now cc = (cc', eff)"
  shows "cc_inv cc'" and "eff = concat (map release_effects (CursorCache_GetExpiredCursors now cc))"
    and "mget (cursorsByKey cc') k =
      (if k \<in> ci_Key ` set (CursorCache_GetExpiredCursors now cc) then None else mget (cursorsByKey cc) k)"
proof -
  let ?ex = "CursorCache_GetExpiredCursors now cc"
  have "mget (cursorsByKey cc) (ci_Key ci) = Some ci" if "ci \<in> set ?ex" for ci
    using that expired_entries(2) [OF assms(1)] by blast
  from release_list_entries [OF assms(1) expired_entries(1) [OF assms(1)] this]
  show "cc_inv cc'" and "eff = concat (map release_effects ?ex)"
    and "mget (cursorsByKey cc') k = (if k \<in> ci_Key ` set ?ex then None else mget (cursorsByKey cc) k)"
    using assms(2) by (simp_all add: CursorCache_sweep_def)
qed

lemma expired_keys:
  assumes "cc_inv cc"
  shows "k \<in> ci_Key ` set (CursorCache_GetExpiredCursors now cc) \<longleftrightarrow>
    (\<exists>ci. mget (cursorsByKey cc) k = Some ci \<and> time_Sub now (ci_LastUsed ci) > ci_Lifespan ci)"
  using assms expired_entries(2) [OF assms, of _ now] unfolding cc_inv_def image_iff by metis

section \<open>Properties\<close>

text \<open>A table with two cursors, of which only the first was used after it was added.\<close>

definition demo_cache :: "(nat, string) CursorCache" where
  "demo_cache =
     (let cc1 = snd (CursorCache_Add 7 None ''alice'' 60 NewCursorCache);
          cc2 = snd (CursorCache_Get 100 ''2'' ''alice'' True cc1)
      in snd (CursorCache_Add 8 (Some ''bkt'') ''bob'' 60 cc2))"

lemma demo_cache_eq:
  "demo_cache = \<lparr>cursorsByKey =
     [(''2'', \<lparr>ci_Key = ''2'', ci_Bucket = None, ci_Cursor = 7, ci_OwnerID = ''alice'',
               ci_LastUsed = 100, ci_Lifespan = 60\<rparr>),
      (''3'', \<lparr>ci_Key = ''3'', ci_Bucket = Some ''bkt'', ci_Cursor = 8, ci_OwnerID = ''bob'',
               ci_LastUsed = 0, ci_Lifespan = 60\<rparr>)], cursorCounter = 3\<rparr>"
  by code_simp

lemma FormatUint16_demo: "strconv_FormatUint16 2 = ''2''" "strconv_FormatUint16 3 = ''3''"
  by code_simp+

lemma demo_cache_inv: "cc_inv demo_cache"
  unfolding demo_cache_eq cc_inv_def wf_map_def
  by (auto simp flip: FormatUint16_demo)

text \<open>
  C24. One round of the background loop removes exactly the cursors whose last use is longer
  ago than their lifespan, keeps every other entry as it was, and releases each removed
  cursor (and closes its bucket) exactly once.
\<close>

theorem sweep_removes_exactly_expired:
  assumes "cc_inv cc" and "CursorCache_sweep now cc = (cc', eff)"
  shows "cc_inv cc' \<and> eff = concat (map release_effects (CursorCache_GetExpiredCursors now cc))
    \<and> mget (cursorsByKey cc') k =
        (case mget (cursorsByKey cc) k of
           Some ci \<Rightarrow> if time_Sub now (ci_LastUsed ci) > ci_Lifespan ci then None else Some ci
         | None \<Rightarrow> None)"
  using sweep_release [OF assms] expired_keys [OF assms(1), of k now] by (auto split: option.splits)

theorem sweep_removes_exactly_expired_witness:
  "cc_inv (fst (CursorCache_sweep 120 demo_cache))
   \<and> snd (CursorCache_sweep 120 demo_cache) = [CursorReleased 8, BucketClosed ''bkt'']
   \<and> mget (cursorsByKey (fst (CursorCache_sweep 120 demo_cache))) ''3'' = None"
  using sweep_removes_exactly_expired [OF demo_cache_inv surjective_pairing, of 120 "''3''"]
  by (simp add: demo_cache_eq CursorCache_GetExpiredCursors_def time_Sub_def release_effects_def)

text \<open>
  Owner isolation: after a cursor was added, only its owner gets it back, whoever else
  asks is refused; a release by another client is refused and removes nothing; once the owner
  releases it, the key is unknown to everyone.
\<close>

lemma cursor_owner_isolation:
  assumes "cc_inv cc" and "cc_room cc" and "CursorCache_Add cur b owner life cc = (k, cc1)"
    and "CursorCache_Release c k cc1 = (e2, cc2, eff2)"
    and "CursorCache_Release owner k cc1 = (e3, cc3, eff3)"
  shows "fst (CursorCache_Get now k c u cc1) = (if c = owner then Inr cur else Inl (ErrCursorOwner c))
    \<and> (c \<noteq> owner \<longrightarrow> e2 = Some (ErrCursorOwner c) \<and> cc_view cc2 = cc_view cc1)
    \<and> e3 = None \<and> fst (CursorCache_Get now k c u cc3) = Inl ErrCursorNotFound
    \<and> cc_view cc3 = cc_view cc"
proof -
  have v: "cc_view cc1 k = Some (owner, cur)" using cc.add_view [OF assms(1-3)] by simp
  have "cc_view cc3 = cc_view cc"
    using cc.release_view [OF assms(5)] v cc.add_view [OF assms(1-3)] cc.add_fresh [OF assms(1-3)]
    by (simp add: fun_eq_iff)
  with cc.added_usable_by_owner_only [OF assms(1-3)] cc.foreign_release_refused [OF v _ assms(4)]
    cc.released_is_gone [OF v assms(5)] cc.release_err [OF assms(5)] v
  show ?thesis by simp
qed

lemma cursor_owner_isolation_witness:
  "fst (CursorCache_Get 5 (fst (CursorCache_Add 9 None ''carol'' 60 demo_cache)) ''mallory'' True
      (snd (CursorCache_Add 9 None ''carol'' 60 demo_cache))) = Inl (ErrCursorOwner ''mallory'')"
proof -
  have "cc_room demo_cache" by (simp add: demo_cache_eq cc_room_def)
  from cursor_owner_isolation [OF demo_cache_inv this surjective_pairing surjective3 surjective3,
      where now = 5 and cur = 9 and b = None and owner = "''carol''" and life = 60 and c = "''mallory''"]
  show ?thesis by simp
qed

text \<open>
  A cursor that was only just added is already expired: \<open>Add\<close> leaves \<open>LastUsed\<close> at the zero
  time, so a sweep at any present-day clock reading removes it before its first use.
\<close>

lemma fresh_cursor_already_expired:
  assumes "cc_inv cc" and "cc_room cc" and "CursorCache_Add cur b owner life cc = (k, cc1)"
    and "life < max_int64" and "now > life"
  shows "mget (cursorsByKey (fst (CursorCache_sweep now cc1))) k = None"
proof -
  obtain cc2 eff where sw: "CursorCache_sweep now cc1 = (cc2, eff)" by fastforce
  have inv: "cc_inv cc1" by (rule cc.add_inv [OF assms(1-3)])
  obtain ci where "mget (cursorsByKey cc1) k = Some ci" "ci_LastUsed ci = 0" "ci_Lifespan ci = life"
    using assms(3) by (auto simp: CursorCache_Add_def Let_def gomap_simps)
  moreover have "time_Sub now 0 > life" using assms(4,5) by (simp add: time_Sub_def)
  ultimately show ?thesis using sweep_release(3) [OF inv sw, of k] expired_keys [OF inv, of k now] sw
    by simp
qed

lemma fresh_cursor_already_expired_witness:
  "mget (cursorsByKey (fst (CursorCache_sweep 63000000000000000000
     (snd (CursorCache_Add 9 None ''carol'' 60000000000 demo_cache)))))
     (fst (CursorCache_Add 9 None ''carol'' 60000000000 demo_cache)) = None"
proof -
  have "cc_room demo_cache" by (simp add: demo_cache_eq cc_room_def)
  from fresh_cursor_already_expired [OF demo_cache_inv this surjective_pairing,
      of 60000000000 63000000000000000000 9 None "''carol''"]
  show ?thesis by simp
qed

end
