(* ===== verification/HistoryCursor.thy ===== *)
theory HistoryCursor
  imports CursorCache LatestProps
begin

text \<open>
  Model of \<open>done_mod/mod_hist/hist_srv\<close>: \<open>HistoryCursor.go\<close> and \<open>ReadHistoryService.go\<close>, the
  iteration of a Thing's history by remote clients. The state is the bucket store and the
  cursor cache. A handler that panics is \<open>Panics\<close>; the search loops may not end for an
  arbitrary cursor, so they are partial functions into \<open>option\<close> and their termination is proved
  from the cursor contract. Times are milliseconds; the cursor cache uses nanoseconds.
\<close>

section \<open>Decoding\<close>

definition decodeValue :: "string \<Rightarrow> string \<Rightarrow> string option \<Rightarrow> (ThingValue option \<times> bool) outcome" where
  "decodeValue bucketID key data =
     (let parts = strings_Split key sl
      in if length parts < 2 then Returns (None, False)
         else if length parts < 3 then Panics IndexOutOfRange
         else
           (let millisec = fst (strconv_ParseInt (parts ! 0));
                name = parts ! 1;
                messageType = (if parts ! 2 = ''a'' then MessageTypeAction
                               else if parts ! 2 = ''c'' then MessageTypeConfig else MessageTypeEvent);
                senderID = (if length parts > 3 then parts ! 3 else []);
                addrParts = strings_Split bucketID sl
            in if length addrParts < 2 then Returns (None, False)
               else Returns (Some \<lparr>AgentID = addrParts ! 0, ThingID = addrParts ! 1, Name = name, Data = data,
                      CreatedMSec = millisec, SenderID = senderID, ValueType = messageType\<rparr>, True)))"

section \<open>Searching by name\<close>

type_synonym 'cur found = "((ThingValue option \<times> bool) \<times> 'cur) outcome option"

definition decode_at :: "('s, 'cur) IBucketStore \<Rightarrow> 'cur \<Rightarrow> string \<Rightarrow> string option \<Rightarrow> 'cur found" where
  "decode_at S c k v =
     Some (and_then (decodeValue (cu_BucketID S c) k v) (\<lambda>tv. Returns (tv, c)))"

partial_function (option) findNextName ::
  "('s, 'cur) IBucketStore \<Rightarrow> string \<Rightarrow> int \<Rightarrow> 'cur \<Rightarrow> 'cur found" where
  "findNextName S name until cursor =
     (let r = cu_Next S cursor; k = fst (fst r); v = fst (snd (fst r)); c = snd r;
          parts = strings_Split k sl
      in if \<not> snd (snd (fst r)) then Some (Returns ((None, False), c))
         else if length parts \<noteq> 4 then findNextName S name until c
         else if fst (strconv_ParseInt (parts ! 0)) > until
              then Some (Returns ((None, False), snd (cu_Prev S c)))
         else if name = parts ! 1 then decode_at S c k v
         else findNextName S name until c)"

partial_function (option) findPrevName ::
  "('s, 'cur) IBucketStore \<Rightarrow> string \<Rightarrow> int \<Rightarrow> 'cur \<Rightarrow> 'cur found" where
  "findPrevName S name until cursor =
     (let r = cu_Prev S cursor; k = fst (fst r); v = fst (snd (fst r)); c = snd r;
          parts = strings_Split k sl
      in if \<not> snd (snd (fst r)) then Some (Returns ((None, False), c))
         else if length parts \<noteq> 4 then findPrevName S name until c
         else if fst (strconv_ParseInt (parts ! 0)) < until
              then Some (Returns ((None, False), snd (cu_Next S c)))
         else if name = parts ! 1 then decode_at S c k v
         else findPrevName S name until c)"

section \<open>The service\<close>

record ('s, 'cur) ReadHistoryService =
  rh_store :: 's
  rh_cache :: "('cur, string) CursorCache"

record CursorSingleResp =
  cs_Value :: "ThingValue option"
  cs_Valid :: bool

record CursorNResp =
  cn_Values :: "ThingValue option list"
  cn_ItemsRemaining :: bool

type_synonym ('s, 'cur) single_result =
  "((CursorSingleResp option \<times> go_error option) \<times> ('s, 'cur) ReadHistoryService) outcome option"

text \<open>
  The clock is read once per call: nanoseconds for the cursor cache, and \<open>msec\<close> is the same
  reading as \<open>UnixMilli\<close>. \<open>zero_msec\<close> is \<open>time.Time{}.UnixMilli()\<close>.
\<close>

record clock =
  ns :: int
  msec :: int

abbreviation zero_msec :: int where "zero_msec \<equiv> -62135596800000"

text \<open>
  The common end of the single-value handlers: decode the pair the cursor stands on and, when
  the cursor was made with a name filter that the value does not match, search on.
\<close>

definition filtered_value ::
  "('s, 'cur) IBucketStore \<Rightarrow> (string \<Rightarrow> 'cur \<Rightarrow> 'cur found) \<Rightarrow> string \<Rightarrow> string option \<Rightarrow> 'cur \<Rightarrow> 'cur found" where
  "filtered_value S search k v c =
     (case decodeValue (cu_BucketID S c) k v of
        Panics p \<Rightarrow> Some (Panics p)
      | Returns (tv, valid) \<Rightarrow>
          (case cu_Context S c of
             None \<Rightarrow> Some (Panics TypeAssertion)
           | Some filterName \<Rightarrow>
               if valid \<and> filterName \<noteq> [] \<and> map_option Name tv \<noteq> Some filterName
               then search filterName c
               else Some (Returns ((tv, valid), c))))"

text \<open>
  Look up the cursor, move it, and answer. \<open>on_empty\<close> is the answer when the move finds no pair.
\<close>

definition single_move ::
  "('s, 'cur) IBucketStore \<Rightarrow> ('cur \<Rightarrow> (string \<times> string option \<times> bool) \<times> 'cur)
     \<Rightarrow> (string \<Rightarrow> 'cur \<Rightarrow> 'cur found) \<Rightarrow> CursorSingleResp option \<Rightarrow> clock \<Rightarrow> string \<Rightarrow> string
     \<Rightarrow> ('s, 'cur) ReadHistoryService \<Rightarrow> ('s, 'cur) single_result" where
  "single_move S mv search on_empty clk senderID cursorKey svc =
     (case CursorCache_Get (ns clk) cursorKey senderID True (rh_cache svc) of
        (Inl err, cc) \<Rightarrow> Some (Returns ((None, Some err), svc\<lparr>rh_cache := cc\<rparr>))
      | (Inr cursor, cc) \<Rightarrow>
          (case mv cursor of ((k, v, valid), c) \<Rightarrow>
             if \<not> valid
             then Some (Returns ((on_empty, None), svc\<lparr>rh_cache := CursorCache_store cursorKey c cc\<rparr>))
             else (case filtered_value S search k v c of
                     None \<Rightarrow> None
                   | Some (Panics p) \<Rightarrow> Some (Panics p)
                   | Some (Returns ((tv, ok), c')) \<Rightarrow>
                       Some (Returns ((Some \<lparr>cs_Value = tv, cs_Valid = ok\<rparr>, None),
                         svc\<lparr>rh_cache := CursorCache_store cursorKey c' cc\<rparr>)))))"

abbreviation invalid_resp :: CursorSingleResp where
  "invalid_resp \<equiv> \<lparr>cs_Value = None, cs_Valid = False\<rparr>"

definition ReadHistoryService_First ::
  "('s, 'cur) IBucketStore \<Rightarrow> clock \<Rightarrow> string \<Rightarrow> string \<Rightarrow> ('s, 'cur) ReadHistoryService \<Rightarrow> ('s, 'cur) single_result" where
  "ReadHistoryService_First S clk =
     single_move S (cu_First S) (\<lambda>name. findNextName S name (msec clk)) None clk"

definition ReadHistoryService_Last ::
  "('s, 'cur) IBucketStore \<Rightarrow> clock \<Rightarrow> string \<Rightarrow> string \<Rightarrow> ('s, 'cur) ReadHistoryService \<Rightarrow> ('s, 'cur) single_result" where
  "ReadHistoryService_Last S clk =
     single_move S (cu_Last S) (\<lambda>name. findPrevName S name zero_msec) (Some invalid_resp) clk"

definition ReadHistoryService_Next ::
  "('s, 'cur) IBucketStore \<Rightarrow> clock \<Rightarrow> string \<Rightarrow> string \<Rightarrow> ('s, 'cur) ReadHistoryService \<Rightarrow> ('s, 'cur) single_result" where
  "ReadHistoryService_Next S clk =
     single_move S (cu_Next S) (\<lambda>name. findNextName S name (msec clk)) (Some invalid_resp) clk"

definition ReadHistoryService_Prev ::
  "('s, 'cur) IBucketStore \<Rightarrow> clock \<Rightarrow> string \<Rightarrow> string \<Rightarrow> ('s, 'cur) ReadHistoryService \<Rightarrow> ('s, 'cur) single_result" where
  "ReadHistoryService_Prev S clk =
     single_move S (cu_Prev S) (\<lambda>name. findPrevName S name zero_msec) (Some invalid_resp) clk"

definition ReadHistoryService_Seek ::
  "('s, 'cur) IBucketStore \<Rightarrow> clock \<Rightarrow> string \<Rightarrow> string \<Rightarrow> int \<Rightarrow> ('s, 'cur) ReadHistoryService
     \<Rightarrow> ('s, 'cur) single_result" where
  "ReadHistoryService_Seek S clk senderID cursorKey timeStampMSec =
     single_move S (cu_Seek S (strconv_FormatInt timeStampMSec)) (\<lambda>name. findNextName S name (msec clk))
       (Some invalid_resp) clk senderID cursorKey"

text \<open>
  The loop of \<open>NextN\<close> and \<open>PrevN\<close> over the single move; the response is dereferenced before the
  error is looked at.
\<close>

fun collect_n ::
  "(('s, 'cur) ReadHistoryService \<Rightarrow> ('s, 'cur) single_result) \<Rightarrow> nat \<Rightarrow> ThingValue option list
     \<Rightarrow> ('s, 'cur) ReadHistoryService
     \<Rightarrow> ((CursorNResp option \<times> go_error option) \<times> ('s, 'cur) ReadHistoryService) outcome option" where
  "collect_n step 0 values svc =
     Some (Returns ((Some \<lparr>cn_Values = values, cn_ItemsRemaining = True\<rparr>, None), svc))"
| "collect_n step (Suc n) values svc =
     (case step svc of
        None \<Rightarrow> None
      | Some (Panics p) \<Rightarrow> Some (Panics p)
      | Some (Returns ((None, _), _)) \<Rightarrow> Some (Panics NilDereference)
      | Some (Returns ((Some resp, err), svc')) \<Rightarrow>
          if \<not> cs_Valid resp \<or> err \<noteq> None
          then Some (Returns ((Some \<lparr>cn_Values = values, cn_ItemsRemaining = False\<rparr>, None), svc'))
          else collect_n step n (values @ [cs_Value resp]) svc')"

definition ReadHistoryService_NextN ::
  "('s, 'cur) IBucketStore \<Rightarrow> clock \<Rightarrow> string \<Rightarrow> string \<Rightarrow> int \<Rightarrow> ('s, 'cur) ReadHistoryService
     \<Rightarrow> ((CursorNResp option \<times> go_error option) \<times> ('s, 'cur) ReadHistoryService) outcome option" where
  "ReadHistoryService_NextN S clk senderID cursorKey limit svc =
     (if limit < 0 then Some (Panics CapOutOfRange)
      else collect_n (ReadHistoryService_Next S clk senderID cursorKey) (nat limit) [] svc)"

definition ReadHistoryService_PrevN ::
  "('s, 'cur) IBucketStore \<Rightarrow> clock \<Rightarrow> string \<Rightarrow> string \<Rightarrow> int \<Rightarrow> ('s, 'cur) ReadHistoryService
     \<Rightarrow> ((CursorNResp option \<times> go_error option) \<times> ('s, 'cur) ReadHistoryService) outcome option" where
  "ReadHistoryService_PrevN S clk senderID cursorKey limit svc =
     (if limit < 0 then Some (Panics CapOutOfRange)
      else collect_n (ReadHistoryService_Prev S clk senderID cursorKey) (nat limit) [] svc)"

text \<open>Releasing a cursor also closes the bucket that was opened for it.\<close>

fun close_released :: "('s, 'cur) IBucketStore \<Rightarrow> ('cur, string) cc_effect list \<Rightarrow> 's \<Rightarrow> 's" where
  "close_released S [] s = s"
| "close_released S (CursorReleased c # eff) s = close_released S eff s"
| "close_released S (BucketClosed b # eff) s = close_released S eff (snd (bk_Close S b s))"

definition ReadHistoryService_Release ::
  "('s, 'cur) IBucketStore \<Rightarrow> string \<Rightarrow> string \<Rightarrow> ('s, 'cur) ReadHistoryService
     \<Rightarrow> go_error option \<times> ('s, 'cur) ReadHistoryService" where
  "ReadHistoryService_Release S senderID cursorKey svc =
     (case CursorCache_Release senderID cursorKey (rh_cache svc) of
        (err, cc, eff) \<Rightarrow> (err, \<lparr>rh_store = close_released S eff (rh_store svc), rh_cache = cc\<rparr>))"

definition ReadHistoryService_GetCursor ::
  "('s, 'cur) IBucketStore \<Rightarrow> string \<Rightarrow> string \<Rightarrow> string \<Rightarrow> string \<Rightarrow> ('s, 'cur) ReadHistoryService
     \<Rightarrow> (go_error + string) \<times> ('s, 'cur) ReadHistoryService" where
  "ReadHistoryService_GetCursor S senderID agentID thingID name svc =
     (if agentID = [] \<or> thingID = [] then (Inl (ErrMissingIDs senderID), svc)
      else
        (let addr = thing_addr agentID thingID;
             s1 = st_GetBucket S addr (rh_store svc)
         in case bk_Cursor S addr (Some name) s1 of
              (Inl err, s2) \<Rightarrow> (Inl err, svc\<lparr>rh_store := s2\<rparr>)
            | (Inr cursor, s2) \<Rightarrow>
                (case CursorCache_Add cursor (Some addr) senderID 60000000000 (rh_cache svc) of
                   (key, cc) \<Rightarrow> (Inr key, \<lparr>rh_store = s2, rh_cache = cc\<rparr>))))"

definition ReadHistoryService_GetLatest ::
  "('s, 'cur) IBucketStore \<Rightarrow> props_json \<Rightarrow> string \<Rightarrow> string \<Rightarrow> string list
     \<Rightarrow> LatestPropertiesStore \<times> 's \<Rightarrow> ThingValueMap \<times> LatestPropertiesStore \<times> 's" where
  "ReadHistoryService_GetLatest S J agentID thingID names =
     LatestPropertiesStore_GetProperties S J (thing_addr agentID thingID) names"

text \<open>
  \<open>HistoryService.Start\<close> wires the parts: an event that arrives from the bus is added to the
  history, and every stored value updates the latest properties.
\<close>

definition HistoryService_onEvent ::
  "('s, 'cur) IBucketStore \<Rightarrow> props_json \<Rightarrow> RetentionRuleSet \<Rightarrow> int \<Rightarrow> ThingValue
     \<Rightarrow> LatestPropertiesStore \<times> 's \<Rightarrow> LatestPropertiesStore \<times> 's" where
  "HistoryService_onEvent S J rules now msg ls =
     snd (AddHistory_AddMessage S (Some rules) (Some (LatestPropertiesStore_HandleAddValue S J now)) now msg ls)"

end
