(* ===== verification/HistoryProps.thy ===== *)
theory HistoryProps
  imports HistoryCursor
begin

text \<open>
  Properties of the history: storage keys decode to the value they were made from and sort by
  time, the search by name terminates and finds the next matching entry, cursors belong to
  their owner, and what happens to cursors that are unknown.
\<close>

section \<open>Keys\<close>

definition kind_code :: "ThingValue \<Rightarrow> string" where
  "kind_code tv = (if ValueType tv = MessageTypeAction then ''a''
     else if ValueType tv = MessageTypeConfig then ''c'' else ''e'')"

lemma encode_key_join:
  "CreatedMSec tv > 0 \<Longrightarrow> fst (AddHistory_encodeValue now tv) =
     strings_Join [strconv_FormatInt (CreatedMSec tv), Name tv, kind_code tv, SenderID tv] sl"
  by (simp add: AddHistory_encodeValue_def kind_code_def Let_def)

lemma encode_key_parts:
  assumes "CreatedMSec tv > 0" and "sl \<notin> set (Name tv)" and "sl \<notin> set (SenderID tv)"
  shows "strings_Split (fst (AddHistory_encodeValue now tv)) sl =
     [strconv_FormatInt (CreatedMSec tv), Name tv, kind_code tv, SenderID tv]"
proof -
  have "sl \<notin> set (kind_code tv)" by (simp add: kind_code_def)
  then have "p \<in> set [strconv_FormatInt (CreatedMSec tv), Name tv, kind_code tv, SenderID tv] \<Longrightarrow> sl \<notin> set p" for p
    using assms(2,3) FormatInt_no_slash [of "CreatedMSec tv"] by auto
  with Split_Join [of "[strconv_FormatInt (CreatedMSec tv), Name tv, kind_code tv, SenderID tv]" sl]
  show ?thesis unfolding encode_key_join [OF assms(1)] by blast
qed

lemma addr_parts:
  assumes "sl \<notin> set (AgentID tv)" and "sl \<notin> set (ThingID tv)"
  shows "strings_Split (tv_addr tv) sl = [AgentID tv, ThingID tv]"
  using assms strings_Split_append [of sl "AgentID tv" "ThingID tv"]
  by (simp add: tv_addr_def thing_addr_def strings_Split_nosep)

text \<open>The values whose key can be read back: no separator inside a part, a proper time and kind.\<close>

definition storable :: "ThingValue \<Rightarrow> bool" where
  "storable tv \<longleftrightarrow> sl \<notin> set (AgentID tv) \<and> sl \<notin> set (ThingID tv) \<and> sl \<notin> set (Name tv)
     \<and> sl \<notin> set (SenderID tv) \<and> 0 < CreatedMSec tv \<and> CreatedMSec tv \<le> max_int64
     \<and> (ValueType tv = MessageTypeAction \<or> ValueType tv = MessageTypeConfig \<or> ValueType tv = MessageTypeEvent)"

text \<open>
  Round trip: reading a stored pair back from the Thing's bucket gives the value that was
  added: its address, name, kind, time, sender and data.
\<close>

lemma decode_encode:
  assumes "storable tv"
  shows "decodeValue (tv_addr tv) (fst (AddHistory_encodeValue now tv)) (snd (AddHistory_encodeValue now tv))
     = Returns (Some tv, True)"
proof -
  have "strconv_ParseInt (strconv_FormatInt (CreatedMSec tv)) = (CreatedMSec tv, False)"
    using assms by (intro ParseInt_FormatInt) (auto simp: storable_def)
  moreover have "snd (AddHistory_encodeValue now tv) = Data tv"
    by (simp add: AddHistory_encodeValue_def Let_def)
  moreover have "strings_Split (fst (AddHistory_encodeValue now tv)) sl =
      [strconv_FormatInt (CreatedMSec tv), Name tv, kind_code tv, SenderID tv]"
    and "strings_Split (tv_addr tv) sl = [AgentID tv, ThingID tv]"
    using assms encode_key_parts addr_parts by (auto simp: storable_def)
  ultimately show ?thesis
    using assms unfolding decodeValue_def storable_def
    by (cases tv) (auto simp: kind_code_def Let_def)
qed

lemma decode_encode_witness:
  "decodeValue ''ag/th'' (fst (AddHistory_encodeValue 5 (demo_tv ''temp'' 42))) (Some ''20'')
     = Returns (Some (demo_tv ''temp'' 42), True)"
  using decode_encode [of "demo_tv ''temp'' 42" 5]
  by (simp add: storable_def tv_addr_def thing_addr_def AddHistory_encodeValue_def Let_def)

text \<open>
  Time order: for millisecond times of thirteen digits (the years 2001 to 2286), the keys of
  a bucket sort by time: an earlier value has the smaller key, and a search key made from a time
  sorts at or before every key of that time or later, and after every key of an earlier time.
\<close>

lemma keys_chronological:
  assumes "msec13 (CreatedMSec tv)" and "msec13 t"
  shows "(CreatedMSec tv < t \<longleftrightarrow> fst (AddHistory_encodeValue now tv) < strconv_FormatInt t)
    \<and> (msec13 (CreatedMSec tv2) \<and> CreatedMSec tv < CreatedMSec tv2 \<longrightarrow>
        fst (AddHistory_encodeValue now tv) < fst (AddHistory_encodeValue now tv2))"
proof -
  have key: "\<exists>rest. fst (AddHistory_encodeValue now v) = strconv_FormatInt (CreatedMSec v) @ rest"
    if "msec13 (CreatedMSec v)" for v
    using that by (auto simp: AddHistory_encodeValue_def Let_def msec13_def)
  obtain r where r: "fst (AddHistory_encodeValue now tv) = strconv_FormatInt (CreatedMSec tv) @ r"
    using key [OF assms(1)] by blast
  have "fst (AddHistory_encodeValue now tv) < strconv_FormatInt t" if "CreatedMSec tv < t"
    using FormatInt_less_append [OF assms that, of r "[]"] r by simp
  moreover have "\<not> fst (AddHistory_encodeValue now tv) < strconv_FormatInt t" if "\<not> CreatedMSec tv < t"
  proof (cases "CreatedMSec tv = t")
    case True
    then show ?thesis using r prefix_not_less by metis
  next
    case False
    with that have "t < CreatedMSec tv" by simp
    from FormatInt_less_append [OF assms(2,1) this, of "[]" r] r show ?thesis by simp
  qed
  moreover have "fst (AddHistory_encodeValue now tv) < fst (AddHistory_encodeValue now tv2)"
    if "msec13 (CreatedMSec tv2)" "CreatedMSec tv < CreatedMSec tv2"
    using key [OF that(1)] FormatInt_less_append [OF assms(1) that] r by auto
  ultimately show ?thesis by blast
qed

lemma keys_chronological_witness:
  "fst (AddHistory_encodeValue 0 (demo_tv ''temp'' 1700000000000)) < strconv_FormatInt 1700000000001"
  using keys_chronological [of "demo_tv ''temp'' 1700000000000" 1700000000001 0 "demo_tv ''temp'' 1700000000000"]
  by (simp add: msec13_def)

section \<open>Searching\<close>

text \<open>Reference for the search: the first following entry that is not skipped.\<close>

definition skip_next :: "string \<Rightarrow> int \<Rightarrow> string \<Rightarrow> bool" where
  "skip_next name until k \<longleftrightarrow> (let parts = strings_Split k sl in
     length parts \<noteq> 4 \<or> fst (strconv_ParseInt (parts ! 0)) \<le> until \<and> parts ! 1 \<noteq> name)"

definition scan_next :: "string \<Rightarrow> int \<Rightarrow> (string \<times> string) list \<Rightarrow> (string \<times> string) option" where
  "scan_next name until es =
     (case dropWhile (\<lambda>(k, _). skip_next name until k) es of
        [] \<Rightarrow> None
      | (k, v) # _ \<Rightarrow> if fst (strconv_ParseInt (strings_Split k sl ! 0)) > until then None else Some (k, v))"

definition found_value :: "string \<Rightarrow> (string \<times> string) option \<Rightarrow> ThingValue option \<times> bool" where
  "found_value bucketID kv =
     (case kv of None \<Rightarrow> (None, False)
      | Some (k, v) \<Rightarrow> (case decodeValue bucketID k (Some v) of Returns r \<Rightarrow> r | Panics _ \<Rightarrow> (None, False)))"

lemma decode_4_parts:
  "length (strings_Split k sl) = 4 \<Longrightarrow> \<exists>r. decodeValue b k v = Returns r"
  by (auto simp: decodeValue_def Let_def)

context bucket_cursors
begin

lemma findNextName_scan:
  "cpos c = Some i \<Longrightarrow> i < length (cents c) \<Longrightarrow>
     \<exists>c'. findNextName S name until c =
            Some (Returns (found_value (cu_BucketID S c) (scan_next name until (drop (Suc i) (cents c))), c'))
          \<and> cents c' = cents c"
proof (induction "length (cents c) - Suc i" arbitrary: i c)
  case 0
  then have "fst (cu_Next S c) = ([], None, False)" by (intro cnext_end) auto
  with 0 show ?case
    by (subst findNextName.simps) (simp add: Let_def scan_next_def found_value_def cmoves_keep)
next
  case (Suc n)
  then have lt: "Suc i < length (cents c)" by simp
  obtain k v where kv: "cents c ! Suc i = (k, v)" by fastforce
  let ?c = "snd (cu_Next S c)"
  have nx: "fst (cu_Next S c) = (k, Some v, True)" "cpos ?c = Some (Suc i)"
    using cnext [OF Suc.prems(1) lt kv] by auto
  have dr: "drop (Suc i) (cents c) = (k, v) # drop (Suc (Suc i)) (cents c)"
    using lt kv by (simp add: Cons_nth_drop_Suc [symmetric])
  show ?case
  proof (cases "skip_next name until k")
    case True
    then have "findNextName S name until c = findNextName S name until ?c"
      using nx by (subst findNextName.simps) (auto simp: Let_def skip_next_def)
    moreover have "scan_next name until (drop (Suc i) (cents c)) = scan_next name until (drop (Suc (Suc i)) (cents c))"
      using True unfolding dr by (simp add: scan_next_def)
    ultimately show ?thesis
      using Suc.hyps(1) [of ?c "Suc i"] Suc.hyps(2) nx lt by (simp add: cmoves_keep cmoves_id)
  next
    case False
    then have four: "length (strings_Split k sl) = 4" by (simp add: skip_next_def Let_def)
    obtain r where dec: "decodeValue (cu_BucketID S c) k (Some v) = Returns r"
      using decode_4_parts [OF four] by blast
    have sc: "scan_next name until (drop (Suc i) (cents c)) =
        (if fst (strconv_ParseInt (strings_Split k sl ! 0)) > until then None else Some (k, v))"
      using False unfolding dr by (simp add: scan_next_def)
    show ?thesis
      using False nx four dec unfolding sc
      by (subst findNextName.simps)
        (auto simp: Let_def skip_next_def found_value_def decode_at_def cmoves_keep cmoves_id)
  qed
qed

end

text \<open>
  C25. The search by name always returns: from a positioned cursor it ends without a panic on the
  first following entry with a well-formed key that carries the name, or with nothing when the
  end is reached or an entry past the time limit comes first.
\<close>

theorem findNextName_finds_next:
  assumes "bucket_cursors S cents cpos" and "cpos c = Some i" and "i < length (cents c)"
  shows "\<exists>c'. findNextName S name until c =
      Some (Returns (found_value (cu_BucketID S c) (scan_next name until (drop (Suc i) (cents c))), c'))
    \<and> cents c' = cents c"
  using assms by (rule bucket_cursors.findNextName_scan)

abbreviation demo_cursor :: "lcur BBoltCursor" where
  "demo_cursor \<equiv> \<lparr>bc_bucket = True,
     bc_cursor = Some ([(''1/a/e/x'', ''v1''), (''2/b/e/x'', ''v2''), (''3/a/e/x'', ''v3'')], Some 0),
     bc_bucketID = ''ag/th'', bc_ctx = Some ''a''\<rparr>"

theorem findNextName_finds_next_witness:
  "\<exists>c'. findNextName list_store ''a'' 9 demo_cursor =
     Some (Returns ((Some \<lparr>AgentID = ''ag'', ThingID = ''th'', Name = ''a'', Data = Some ''v3'', CreatedMSec = 3,
       SenderID = ''x'', ValueType = MessageTypeEvent\<rparr>, True), c'))"
proof -
  have pos: "wrap_pos snd demo_cursor = Some 0" by (simp add: wrap_pos_def)
  have ents: "wrap_ents lcur_ents demo_cursor = [(''1/a/e/x'', ''v1''), (''2/b/e/x'', ''v2''), (''3/a/e/x'', ''v3'')]"
    by code_simp
  then have len: "0 < length (wrap_ents lcur_ents demo_cursor)" by simp
  have found: "found_value ''ag/th'' (scan_next ''a'' 9 [(''2/b/e/x'', ''v2''), (''3/a/e/x'', ''v3'')]) =
      (Some \<lparr>AgentID = ''ag'', ThingID = ''th'', Name = ''a'', Data = Some ''v3'', CreatedMSec = 3,
       SenderID = ''x'', ValueType = MessageTypeEvent\<rparr>, True)"
    by code_simp
  have "cu_BucketID list_store demo_cursor = ''ag/th''" by (simp add: BoltStore_iface_def)
  with findNextName_finds_next [where S = list_store and cents = "wrap_ents lcur_ents" and cpos = "wrap_pos snd"
      and c = demo_cursor and i = 0 and name = "''a''" and until = 9, OF ls.bucket_cursors_axioms pos len] found
  show ?thesis unfolding ents by auto
qed

section \<open>Cursor ownership\<close>

lemma single_move_foreign:
  assumes "cc_view (rh_cache svc) key = Some (owner, cur)" and "sender \<noteq> owner"
  shows "single_move S mv search e clk sender key svc = Some (Returns ((None, Some (ErrCursorOwner sender)), svc))"
proof -
  obtain ci where "mget (cursorsByKey (rh_cache svc)) key = Some ci" "ci_OwnerID ci \<noteq> sender"
    using assms by (auto simp: cc_view_def)
  then show ?thesis by (simp add: single_move_def CursorCache_Get_def)
qed

lemma single_move_unknown:
  assumes "cc_view (rh_cache svc) key = None"
  shows "single_move S mv search e clk sender key svc = Some (Returns ((None, Some ErrCursorNotFound), svc))"
  using assms by (simp add: single_move_def CursorCache_Get_def cc_view_def)

lemmas history_moves = ReadHistoryService_First_def ReadHistoryService_Last_def ReadHistoryService_Next_def
  ReadHistoryService_Prev_def ReadHistoryService_Seek_def

text \<open>
  A client cannot use another client's history cursor: every move is refused with an error and
  changes nothing, and releasing it is refused too and leaves the store and the cursors in place.
\<close>

lemma history_cursor_foreign_refused:
  assumes "cc_view (rh_cache svc) key = Some (owner, cur)" and "sender \<noteq> owner"
    and "r = Some (Returns ((None, Some (ErrCursorOwner sender)), svc))"
  shows "ReadHistoryService_First S clk sender key svc = r \<and> ReadHistoryService_Last S clk sender key svc = r
    \<and> ReadHistoryService_Next S clk sender key svc = r \<and> ReadHistoryService_Prev S clk sender key svc = r
    \<and> ReadHistoryService_Seek S clk sender key t svc = r
    \<and> ReadHistoryService_Release S sender key svc = (Some (ErrCursorOwner sender), svc)"
proof -
  have "CursorCache_Release sender key (rh_cache svc) = (Some (ErrCursorOwner sender), rh_cache svc, [])"
    using assms(1,2) by (auto simp: CursorCache_Release_def cc_view_def)
  then show ?thesis
    using single_move_foreign [OF assms(1,2)] assms(3)
    by (simp add: history_moves ReadHistoryService_Release_def)
qed

abbreviation demo_svc :: "(ldb BoltStore, lcur BBoltCursor) ReadHistoryService" where
  "demo_svc \<equiv> \<lparr>rh_store = hist_store,
     rh_cache = snd (CursorCache_Add demo_cursor (Some ''ag/th'') ''alice'' 60000000000 NewCursorCache)\<rparr>"

lemma demo_svc_view: "cc_view (rh_cache demo_svc) ''2'' = Some (''alice'', demo_cursor)"
  using cc.add_view [OF cc_inv_New _ surjective_pairing,
      where cur = demo_cursor and b = "Some ''ag/th''" and owner = "''alice''" and life = 60000000000]
  by (simp add: cc_room_def NewCursorCache_def CursorCache_Add_def FormatUint16_demo Let_def)

text \<open>
  \<open>NextN\<close> and \<open>PrevN\<close> dereference the missing response of a refused move: for a cursor key that
  is unknown (or expired) or belongs to someone else, a request for at least one value panics
  instead of returning the error.
\<close>

lemma history_NextN_panics_without_cursor:
  assumes "\<forall>cur. cc_view (rh_cache svc) key \<noteq> Some (sender, cur)" and "limit > 0"
  shows "ReadHistoryService_NextN S clk sender key limit svc = Some (Panics NilDereference)
    \<and> ReadHistoryService_PrevN S clk sender key limit svc = Some (Panics NilDereference)"
proof -
  obtain n where n: "nat limit = Suc n" using assms(2) by (cases "nat limit") auto
  have "\<exists>e. single_move S mv search oe clk sender key svc = Some (Returns ((None, Some e), svc))"
    for mv search oe
  proof (cases "cc_view (rh_cache svc) key")
    case None
    from single_move_unknown [OF this] show ?thesis by blast
  next
    case (Some oc)
    with assms(1) obtain owner cur where "cc_view (rh_cache svc) key = Some (owner, cur)" "sender \<noteq> owner"
      by (metis prod.exhaust)
    from single_move_foreign [OF this] show ?thesis by blast
  qed
  then obtain e1 e2 where
    "ReadHistoryService_Next S clk sender key svc = Some (Returns ((None, Some e1), svc))"
    "ReadHistoryService_Prev S clk sender key svc = Some (Returns ((None, Some e2), svc))"
    unfolding history_moves by metis
  then show ?thesis
    using assms(2) n by (simp add: ReadHistoryService_NextN_def ReadHistoryService_PrevN_def)
qed

lemma history_NextN_panics_without_cursor_witness:
  "ReadHistoryService_NextN list_store \<lparr>ns = 0, msec = 9\<rparr> ''alice'' ''77'' 10 demo_svc = Some (Panics NilDereference)"
proof -
  have "\<forall>cur. cc_view (rh_cache demo_svc) ''77'' \<noteq> Some (''alice'', cur)"
    by (simp add: cc_view_def NewCursorCache_def CursorCache_Add_def FormatUint16_demo Let_def)
  from history_NextN_panics_without_cursor [OF this, of 10 list_store "\<lparr>ns = 0, msec = 9\<rparr>"]
  show ?thesis by simp
qed

section \<open>Bucket references\<close>

lemma on_db_refcount: "bucketRefCount (snd (on_db f st)) = bucketRefCount st"
  by (simp add: on_db_def split: prod.splits)

text \<open>
  Bucket references of history cursors over \<open>BoltStore\<close>: a cursor that was handed out and then
  released by its owner returns its bucket reference, but a \<open>GetCursor\<close> that fails to create the
  cursor (for instance for a Thing without history) has taken a reference that is never returned.
\<close>

lemma history_cursor_refcount:
  assumes "agentID \<noteq> [] \<and> thingID \<noteq> []" and "cc_inv (rh_cache svc)" and "cc_room (rh_cache svc)"
    and "ReadHistoryService_GetCursor (BoltStore_iface B C) sender agentID thingID name svc = (res, svc1)"
  shows "case res of
      Inl err \<Rightarrow> bucketRefCount (rh_store svc1) = bucketRefCount (rh_store svc) + 1 \<and> rh_cache svc1 = rh_cache svc
    | Inr key \<Rightarrow> bucketRefCount (rh_store (snd (ReadHistoryService_Release (BoltStore_iface B C) sender key svc1)))
          = bucketRefCount (rh_store svc)"
proof -
  let ?S = "BoltStore_iface B C" and ?a = "thing_addr agentID thingID"
  obtain r s2 where cur: "bk_Cursor ?S ?a (Some name) (st_GetBucket ?S ?a (rh_store svc)) = (r, s2)" by fastforce
  have "bk_Cursor ?S b ctx = on_db (BoltBucket_Cursor B b ctx)" for b ctx by (simp add: BoltStore_iface_def)
  with cur have "bucketRefCount s2 = bucketRefCount (st_GetBucket ?S ?a (rh_store svc))"
    using on_db_refcount by (metis snd_conv)
  then have rc: "bucketRefCount s2 = bucketRefCount (rh_store svc) + 1"
    by (simp add: BoltStore_iface_def BoltStore_GetBucket_def)
  show ?thesis
  proof (cases r)
    case (Inl e)
    with assms(1,4) cur rc show ?thesis by (auto simp: ReadHistoryService_GetCursor_def Let_def)
  next
    case (Inr c)
    obtain key cc1 where add: "CursorCache_Add c (Some ?a) sender 60000000000 (rh_cache svc) = (key, cc1)" by fastforce
    with assms(1,4) cur Inr have res: "res = Inr key" "svc1 = \<lparr>rh_store = s2, rh_cache = cc1\<rparr>"
      by (auto simp: ReadHistoryService_GetCursor_def Let_def)
    obtain ci where "mget (cursorsByKey cc1) key = Some ci" "ci_OwnerID ci = sender" "ci_Bucket ci = Some ?a"
      using add by (auto simp: CursorCache_Add_def Let_def gomap_simps)
    with res rc show ?thesis
      by (simp add: ReadHistoryService_Release_def CursorCache_Release_def BoltStore_iface_def
          BoltBucket_Close_def BoltStore_onBucketReleased_def)
  qed
qed

lemma history_cursor_refcount_witness:
  "bucketRefCount (rh_store (snd (ReadHistoryService_GetCursor list_store ''bob'' ''ag'' ''nothing'' [] demo_svc))) = 1"
proof -
  have inv: "cc_inv (rh_cache demo_svc)"
    using CursorCache_Add_new(3) [OF cc_inv_New _ surjective_pairing] by (simp add: cc_room_def NewCursorCache_def)
  have room: "cc_room (rh_cache demo_svc)"
    by (simp add: cc_room_def CursorCache_Add_def NewCursorCache_def Let_def)
  have err: "fst (ReadHistoryService_GetCursor list_store ''bob'' ''ag'' ''nothing'' [] demo_svc)
      = Inl (ErrBucketGone ''ag/nothing'')"
    by (simp add: ReadHistoryService_GetCursor_def BoltStore_iface_def on_db_def BoltBucket_Cursor_def
        list_bbolt_def thing_addr_def BoltStore_GetBucket_def Let_def)
  from history_cursor_refcount [OF _ inv room surjective_pairing,
      where B = list_bbolt and C = list_cursor and sender = "''bob''" and agentID = "''ag''"
        and thingID = "''nothing''" and name = "[]"]
  show ?thesis unfolding err by simp
qed

end
