(* ===== verification/HistoryIterate.thy ===== *)
theory HistoryIterate
  imports HistoryProps
begin

text \<open>
  Iterating the history of a Thing with a name filter: from a positioned cursor each \<open>Next\<close> answers with the next entry of
  that name, so a whole iteration gives the filtered list of entries.
\<close>

section \<open>Entries\<close>

text \<open>An entry as the service stores it, that is not newer than the time limit, and whether a filter lets it pass.\<close>

definition hist_entry :: "int \<Rightarrow> string \<times> string \<Rightarrow> bool" where
  "hist_entry until kv \<longleftrightarrow> length (strings_Split (fst kv) sl) = 4 \<and> fst (strconv_ParseInt (strings_Split (fst kv) sl ! 0)) \<le> until"

definition passes :: "string \<Rightarrow> string \<times> string \<Rightarrow> bool" where
  "passes name kv \<longleftrightarrow> name = [] \<or> strings_Split (fst kv) sl ! 1 = name"

definition hist_value :: "string \<Rightarrow> string \<times> string \<Rightarrow> ThingValue option" where
  "hist_value bucketID kv = fst (found_value bucketID (Some kv))"

lemma decode_entry:
  assumes "length (strings_Split k sl) = 4" "length (strings_Split b sl) \<ge> 2"
  shows "decodeValue b k (Some v) = Returns (hist_value b (k, v), True)" "map_option Name (hist_value b (k, v)) = Some (strings_Split k sl ! 1)"
  using assms by (simp_all add: hist_value_def found_value_def decodeValue_def Let_def)

lemma split_nonempty: "strings_Split s c \<noteq> []"
  by (cases s) (auto split: list.splits)

lemma thing_addr_parts: "length (strings_Split (thing_addr a t) sl) \<ge> 2"
proof -
  have "length (strings_Split (a @ sl # t) sl) \<ge> 2"
    using split_nonempty [of t sl] by (induction a) (auto split: list.splits simp: Suc_le_eq)
  then show ?thesis by (simp add: thing_addr_def)
qed

lemma filter_step: "filter P xs = (case dropWhile (\<lambda>x. \<not> P x) xs of [] \<Rightarrow> [] | y # ys \<Rightarrow> y # filter P ys)"
  by (induction xs) simp_all

section \<open>Searching\<close>

context bucket_cursors
begin

lemma findNextName_entries:
  assumes "cpos c = Some i" "i < length (cents c)" "list_all (hist_entry until) (cents c)" "name \<noteq> []"
    and "length (strings_Split (cu_BucketID S c) sl) \<ge> 2"
  shows "case dropWhile (\<lambda>kv. \<not> passes name kv) (drop (Suc i) (cents c)) of
      [] \<Rightarrow> \<exists>c'. findNextName S name until c = Some (Returns ((None, False), c'))
    | kv # rest \<Rightarrow> \<exists>c' j. findNextName S name until c = Some (Returns ((hist_value (cu_BucketID S c) kv, True), c'))
        \<and> cpos c' = Some j \<and> j < length (cents c) \<and> drop (Suc j) (cents c) = rest
        \<and> cents c' = cents c \<and> cu_BucketID S c' = cu_BucketID S c \<and> cu_Context S c' = cu_Context S c"
  using assms
proof (induction "length (cents c) - Suc i" arbitrary: i c)
  case 0
  then have "fst (cu_Next S c) = ([], None, False)" by (intro cnext_end) auto
  with 0 show ?case by (subst findNextName.simps) (simp add: Let_def)
next
  case (Suc n)
  then have lt: "Suc i < length (cents c)" by simp
  obtain k v where kv: "cents c ! Suc i = (k, v)" by fastforce
  let ?c = "snd (cu_Next S c)"
  have nx: "fst (cu_Next S c) = (k, Some v, True)" "cpos ?c = Some (Suc i)"
    using cnext [OF Suc.prems(1) lt kv] by auto
  have e: "hist_entry until (k, v)" using Suc.prems(3) lt kv by (metis list_all_length)
  have dr: "drop (Suc i) (cents c) = (k, v) # drop (Suc (Suc i)) (cents c)"
    using lt kv by (simp add: Cons_nth_drop_Suc [symmetric])
  show ?case
  proof (cases "passes name (k, v)")
    case False
    then have eq: "findNextName S name until c = findNextName S name until ?c"
      using nx e Suc.prems(4) by (subst findNextName.simps) (auto simp: Let_def hist_entry_def passes_def)
    have n: "n = length (cents c) - Suc (Suc i)" using Suc.hyps(2) by simp
    note IH = Suc.hyps(1) [of ?c "Suc i", unfolded cmoves_keep cmoves_id cmoves_context, OF n nx(2) lt Suc.prems(3-5)]
    show ?thesis unfolding dr eq using IH False by simp
  next
    case True
    have "findNextName S name until c = Some (Returns ((hist_value (cu_BucketID S c) (k, v), True), ?c))"
      using True nx e Suc.prems(4,5) decode_entry(1) [of k "cu_BucketID S c" v]
      by (subst findNextName.simps) (auto simp: Let_def hist_entry_def passes_def decode_at_def cmoves_id)
    then show ?thesis using True nx(2) lt unfolding dr by (auto simp: cmoves_keep cmoves_id cmoves_context)
  qed
qed

text \<open>The answer of a handler that has moved its cursor to the entry at \<open>i\<close>: that entry, or the next that passes.\<close>

lemma filtered_value_entries:
  assumes "cpos c = Some i" "i < length (cents c)" "list_all (hist_entry until) (cents c)"
    and "cu_Context S c = Some name" "length (strings_Split (cu_BucketID S c) sl) \<ge> 2" "cents c ! i = (k, v)"
  shows "case dropWhile (\<lambda>kv. \<not> passes name kv) (drop i (cents c)) of
      [] \<Rightarrow> \<exists>c'. filtered_value S (\<lambda>name. findNextName S name until) k (Some v) c = Some (Returns ((None, False), c'))
    | kv # rest \<Rightarrow> \<exists>c' j. filtered_value S (\<lambda>name. findNextName S name until) k (Some v) c
          = Some (Returns ((hist_value (cu_BucketID S c) kv, True), c'))
        \<and> cpos c' = Some j \<and> j < length (cents c) \<and> drop (Suc j) (cents c) = rest
        \<and> cents c' = cents c \<and> cu_BucketID S c' = cu_BucketID S c \<and> cu_Context S c' = cu_Context S c"
proof -
  have e: "hist_entry until (k, v)" using assms(2,3,6) by (metis list_all_length)
  note dec = decode_entry [of k "cu_BucketID S c" v]
  have dr: "drop i (cents c) = (k, v) # drop (Suc i) (cents c)" using assms(2,6) by (simp add: Cons_nth_drop_Suc [symmetric])
  show ?thesis
  proof (cases "passes name (k, v)")
    case True
    have "filtered_value S (\<lambda>name. findNextName S name until) k (Some v) c = Some (Returns ((hist_value (cu_BucketID S c) (k, v), True), c))"
      using True e assms(4,5) dec by (auto simp: filtered_value_def hist_entry_def passes_def)
    then show ?thesis using True assms(1,2) unfolding dr by auto
  next
    case False
    then have eq: "filtered_value S (\<lambda>name. findNextName S name until) k (Some v) c = findNextName S name until c" and ne: "name \<noteq> []"
      using e assms(4,5) dec by (auto simp: filtered_value_def hist_entry_def passes_def)
    show ?thesis unfolding dr eq using findNextName_entries [OF assms(1-3) ne assms(5)] False by simp
  qed
qed

end

section \<open>Requests\<close>

text \<open>The cursor of a client, in a cache, stands on entry \<open>i\<close>, or nowhere yet.\<close>

definition hist_cursor ::
  "('s, 'cur) IBucketStore \<Rightarrow> ('cur \<Rightarrow> (string \<times> string) list) \<Rightarrow> string \<Rightarrow> string \<Rightarrow> (string \<times> string) list \<Rightarrow> 'cur \<Rightarrow> bool" where
  "hist_cursor S cents b name es c \<longleftrightarrow> cents c = es \<and> cu_BucketID S c = b \<and> cu_Context S c = Some name"

context bucket_cursors
begin

lemma history_Next_entries:
  assumes "cc_view (rh_cache svc) key = Some (sender, c)" "hist_cursor S cents b name es c" "cpos c = Some i" "i < length es"
    and "list_all (hist_entry (msec clk)) es" "length (strings_Split b sl) \<ge> 2"
  shows "case dropWhile (\<lambda>kv. \<not> passes name kv) (drop (Suc i) es) of
      [] \<Rightarrow> \<exists>svc'. ReadHistoryService_Next S clk sender key svc = Some (Returns ((Some invalid_resp, None), svc'))
    | kv # rest \<Rightarrow> \<exists>svc' c' j. ReadHistoryService_Next S clk sender key svc
          = Some (Returns ((Some \<lparr>cs_Value = hist_value b kv, cs_Valid = True\<rparr>, None), svc'))
        \<and> cc_view (rh_cache svc') key = Some (sender, c') \<and> hist_cursor S cents b name es c'
        \<and> cpos c' = Some j \<and> j < length es \<and> drop (Suc j) es = rest"
proof -
  obtain cc where g: "CursorCache_Get (ns clk) key sender True (rh_cache svc) = (Inr c, cc)" "cc_view cc key = Some (sender, c)"
    using Get_owned [OF assms(1)] assms(1) by metis
  show ?thesis
  proof (cases "Suc i < length es")
    case True
    obtain k v where kv: "es ! Suc i = (k, v)" by fastforce
    obtain c1 where n: "cu_Next S c = ((k, Some v, True), c1)" "cpos c1 = Some (Suc i)" "hist_cursor S cents b name es c1"
      using cnext [OF assms(3)] True kv assms(2) cmoves_keep(3) [of c] cmoves_id(3) [of c] cmoves_context(2) [of c]
      by (cases "cu_Next S c") (auto simp: hist_cursor_def)
    have f: "cents c1 = es" "cu_BucketID S c1 = b" "cu_Context S c1 = Some name" using n(3) by (auto simp: hist_cursor_def)
    note fv = filtered_value_entries [of c1 "Suc i" "msec clk" name k v, unfolded f, OF n(2) True assms(5) refl assms(6) kv]
    show ?thesis
    proof (cases "dropWhile (\<lambda>kv. \<not> passes name kv) (drop (Suc i) es)")
      case Nil
      with fv obtain c' where "filtered_value S (\<lambda>name. findNextName S name (msec clk)) k (Some v) c1 = Some (Returns ((None, False), c'))" by auto
      then show ?thesis unfolding Nil list.case using g n(1) by (simp add: ReadHistoryService_Next_def single_move_def)
    next
      case (Cons kv rest)
      with fv obtain c' j where c': "filtered_value S (\<lambda>name. findNextName S name (msec clk)) k (Some v) c1 = Some (Returns ((hist_value b kv, True), c'))"
        "cpos c' = Some j" "j < length es" "drop (Suc j) es = rest" "hist_cursor S cents b name es c'" by (auto simp: hist_cursor_def)
      then show ?thesis unfolding Cons list.case using g n(1) store_owned [OF g(2), of c'] by (simp add: ReadHistoryService_Next_def single_move_def)
    qed
  next
    case False
    then have "fst (cu_Next S c) = ([], None, False)" using assms(2,3) by (intro cnext_end) (auto simp: hist_cursor_def)
    then show ?thesis using g False by (cases "cu_Next S c") (simp add: ReadHistoryService_Next_def single_move_def)
  qed
qed

lemma history_First_entries:
  assumes "cc_view (rh_cache svc) key = Some (sender, c)" "hist_cursor S cents b name es c"
    and "list_all (hist_entry (msec clk)) es" "length (strings_Split b sl) \<ge> 2"
  shows "case dropWhile (\<lambda>kv. \<not> passes name kv) es of
      [] \<Rightarrow> \<exists>svc' resp. ReadHistoryService_First S clk sender key svc = Some (Returns ((resp, None), svc')) \<and> resp \<in> {None, Some invalid_resp}
    | kv # rest \<Rightarrow> \<exists>svc' c' j. ReadHistoryService_First S clk sender key svc
          = Some (Returns ((Some \<lparr>cs_Value = hist_value b kv, cs_Valid = True\<rparr>, None), svc'))
        \<and> cc_view (rh_cache svc') key = Some (sender, c') \<and> hist_cursor S cents b name es c'
        \<and> cpos c' = Some j \<and> j < length es \<and> drop (Suc j) es = rest"
proof -
  obtain cc where g: "CursorCache_Get (ns clk) key sender True (rh_cache svc) = (Inr c, cc)" "cc_view cc key = Some (sender, c)"
    using Get_owned [OF assms(1)] assms(1) by metis
  show ?thesis
  proof (cases es)
    case Nil
    then have "\<not> snd (snd (fst (cu_First S c)))" using assms(2) by (intro cfirst_empty) (auto simp: hist_cursor_def)
    then show ?thesis using g Nil by (cases "cu_First S c") (auto simp: ReadHistoryService_First_def single_move_def)
  next
    case (Cons kv0 es0)
    obtain k v where kv: "kv0 = (k, v)" by fastforce
    obtain c1 where n: "cu_First S c = ((k, Some v, True), c1)" "cpos c1 = Some 0" "hist_cursor S cents b name es c1"
      using cfirst [of c k v es0] Cons kv assms(2) cmoves_keep(1) [of c] cmoves_id(1) [of c] cmoves_context(1) [of c]
      by (cases "cu_First S c") (auto simp: hist_cursor_def)
    have f: "cents c1 = es" "cu_BucketID S c1 = b" "cu_Context S c1 = Some name" using n(3) by (auto simp: hist_cursor_def)
    have l: "0 < length es" "es ! 0 = (k, v)" using Cons kv by simp_all
    note fv = filtered_value_entries [of c1 0 "msec clk" name k v, unfolded f, OF n(2) l(1) assms(3) refl assms(4) l(2)]
    show ?thesis
    proof (cases "dropWhile (\<lambda>kv. \<not> passes name kv) (es)")
      case Nil
      with fv obtain c' where "filtered_value S (\<lambda>name. findNextName S name (msec clk)) k (Some v) c1 = Some (Returns ((None, False), c'))" by auto
      then show ?thesis unfolding Nil list.case using g n(1) by (simp add: ReadHistoryService_First_def single_move_def)
    next
      case (Cons kv rest)
      with fv obtain c' j where c': "filtered_value S (\<lambda>name. findNextName S name (msec clk)) k (Some v) c1 = Some (Returns ((hist_value b kv, True), c'))"
        "cpos c' = Some j" "j < length es" "drop (Suc j) es = rest" "hist_cursor S cents b name es c'" by (auto simp: hist_cursor_def)
      then show ?thesis unfolding Cons list.case using g n(1) store_owned [OF g(2), of c'] by (simp add: ReadHistoryService_First_def single_move_def)
    qed
  qed
qed

end

end
