(* ===== verification/HistoryRpc.thy ===== *)
theory HistoryRpc
  imports HistoryIterate RpcCall
begin

text \<open>
  The history service on the message bus: the messages of \<open>done_mod/mod_hist/hist_api\<close>, the method tables, start and
  stop of \<open>hist_srv\<close>, and the clients of \<open>hist_cli\<close>.
\<close>

section \<open>Messages\<close>

abbreviation HistoryServiceName :: string where "HistoryServiceName \<equiv> ''history''"
abbreviation ReadHistoryCap :: string where "ReadHistoryCap \<equiv> ''readHistory''"
abbreviation ManageHistoryCap :: string where "ManageHistoryCap \<equiv> ''manageHistory''"

text \<open>A nil response is marshalled too, and leaves the zero value at the receiver.\<close>

datatype hist_message =
    HCursorArgs string
  | HCursorNArgs string int
  | HCursorReleaseArgs string
  | HCursorSeekArgs string int
  | HGetCursorArgs string string string
  | HGetLatestArgs string string "string list"
  | HGetRuleArgs string string string
  | HSetRulesArgs RetentionRuleSet
  | HCursorSingleResp "CursorSingleResp option"
  | HCursorNResp "CursorNResp option"
  | HGetCursorResp "string option"
  | HGetLatestResp ThingValueMap
  | HGetRuleResp "RetentionRule option"
  | HGetRulesResp RetentionRuleSet
  | HPermissionsArgs string "string list"

fun hist_message_type :: "hist_message \<Rightarrow> nat" where
  "hist_message_type (HCursorArgs _) = 0"
| "hist_message_type (HCursorNArgs _ _) = 1"
| "hist_message_type (HCursorReleaseArgs _) = 2"
| "hist_message_type (HCursorSeekArgs _ _) = 3"
| "hist_message_type (HGetCursorArgs _ _ _) = 4"
| "hist_message_type (HGetLatestArgs _ _ _) = 5"
| "hist_message_type (HGetRuleArgs _ _ _) = 6"
| "hist_message_type (HSetRulesArgs _) = 7"
| "hist_message_type (HCursorSingleResp _) = 8"
| "hist_message_type (HCursorNResp _) = 9"
| "hist_message_type (HGetCursorResp _) = 10"
| "hist_message_type (HGetLatestResp _) = 11"
| "hist_message_type (HGetRuleResp _) = 12"
| "hist_message_type (HGetRulesResp _) = 13"
| "hist_message_type (HPermissionsArgs _ _) = 14"

section \<open>The service\<close>

record ('s, 'cur) HistoryService =
  hv_read :: "('s, 'cur) ReadHistoryService"
  hv_props :: LatestPropertiesStore
  hv_rules :: RetentionRuleSet

text \<open>The clock may show another time at each request.\<close>

record ('s, 'cur) hist_env =
  he_json :: props_json
  he_clock :: "('s, 'cur) HistoryService \<Rightarrow> clock"

type_synonym ('s, 'cur) hist_results = "hist_message rpc_result list outcome \<times> ('s, 'cur) HistoryService"
type_synonym ('s, 'cur) hist_method = "(hist_message, ('s, 'cur) HistoryService) rpc_method"

text \<open>The results of a cursor request: a handler that does not return or panics leaves its caller without a reply.\<close>

definition cursor_reply ::
  "('r option \<Rightarrow> hist_message) \<Rightarrow> ('s, 'cur) HistoryService \<Rightarrow> (('r option \<times> go_error option) \<times> ('s, 'cur) ReadHistoryService) outcome option
     \<Rightarrow> ('s, 'cur) hist_results" where
  "cursor_reply mk svc r =
     (case r of
        None \<Rightarrow> (Panics NoReturn, svc)
      | Some (Panics p) \<Rightarrow> (Panics p, svc)
      | Some (Returns ((resp, e), rd)) \<Rightarrow> (Returns [ValueResult (mk resp), err_result e], svc\<lparr>hv_read := rd\<rparr>))"

type_synonym ('s, 'cur) hist_move = "clock \<Rightarrow> string \<Rightarrow> string \<Rightarrow> ('s, 'cur) ReadHistoryService \<Rightarrow> ('s, 'cur) single_result"

text \<open>The four methods that take a cursor key have the same argument type.\<close>

definition cursor_method :: "('s, 'cur) hist_env \<Rightarrow> ('s, 'cur) hist_move \<Rightarrow> ('s, 'cur) hist_method" where
  "cursor_method E mv = \<lparr>rm_params = [ContextParam, ValueParam 0], rm_call = (\<lambda>argv svc.
     case argv of
       [ContextArg c, ValueArg (HCursorArgs key)] \<Rightarrow> cursor_reply HCursorSingleResp svc (mv (he_clock E svc) c key (hv_read svc))
     | _ \<Rightarrow> (Returns [], svc))\<rparr>"

definition cursorN_method ::
  "('s, 'cur) hist_env \<Rightarrow> (clock \<Rightarrow> string \<Rightarrow> string \<Rightarrow> int \<Rightarrow> ('s, 'cur) ReadHistoryService
     \<Rightarrow> ((CursorNResp option \<times> go_error option) \<times> ('s, 'cur) ReadHistoryService) outcome option) \<Rightarrow> ('s, 'cur) hist_method" where
  "cursorN_method E mv = \<lparr>rm_params = [ContextParam, ValueParam 1], rm_call = (\<lambda>argv svc.
     case argv of
       [ContextArg c, ValueArg (HCursorNArgs key limit)] \<Rightarrow> cursor_reply HCursorNResp svc (mv (he_clock E svc) c key limit (hv_read svc))
     | _ \<Rightarrow> (Returns [], svc))\<rparr>"

text \<open>The other methods with a message; reflection calls a method with arguments of its parameter types only.\<close>

fun hist_call ::
  "('s, 'cur) IBucketStore \<Rightarrow> ('s, 'cur) hist_env \<Rightarrow> hist_message rpc_arg list \<Rightarrow> ('s, 'cur) HistoryService \<Rightarrow> ('s, 'cur) hist_results" where
  "hist_call S E [ContextArg c, ValueArg (HCursorReleaseArgs key)] svc =
     (case ReadHistoryService_Release S c key (hv_read svc) of (e, rd) \<Rightarrow> (Returns [err_result e], svc\<lparr>hv_read := rd\<rparr>))"
| "hist_call S E [ContextArg c, ValueArg (HCursorSeekArgs key t)] svc =
     cursor_reply HCursorSingleResp svc (ReadHistoryService_Seek S (he_clock E svc) c key t (hv_read svc))"
| "hist_call S E [ContextArg c, ValueArg (HGetCursorArgs a t name)] svc =
     (case ReadHistoryService_GetCursor S c a t name (hv_read svc) of
        (Inl e, rd) \<Rightarrow> (Returns [ValueResult (HGetCursorResp None), ErrorResult e], svc\<lparr>hv_read := rd\<rparr>)
      | (Inr key, rd) \<Rightarrow> (Returns [ValueResult (HGetCursorResp (Some key)), NilResult], svc\<lparr>hv_read := rd\<rparr>))"
| "hist_call S E [ContextArg c, ValueArg (HGetLatestArgs a t names)] svc =
     (case ReadHistoryService_GetLatest S (he_json E) a t names (hv_props svc, rh_store (hv_read svc)) of
        (vals, lp, s) \<Rightarrow> (Returns [ValueResult (HGetLatestResp vals), NilResult],
           svc\<lparr>hv_props := lp, hv_read := (hv_read svc)\<lparr>rh_store := s\<rparr>\<rparr>))"
| "hist_call S E [ContextArg c, ValueArg (HGetRuleArgs a t name)] svc =
     (Returns [ValueResult (HGetRuleResp (ManageHistory_GetRetentionRule (hv_rules svc) a t name)), NilResult], svc)"
| "hist_call S E [ContextArg c, ValueArg (HSetRulesArgs rules)] svc =
     (Returns [NilResult], svc\<lparr>hv_rules := ManageHistory_SetRetentionRules rules\<rparr>)"
| "hist_call S E argv svc = (Returns [], svc)"

definition hist_method :: "('s, 'cur) IBucketStore \<Rightarrow> ('s, 'cur) hist_env \<Rightarrow> nat \<Rightarrow> ('s, 'cur) hist_method" where
  "hist_method S E ty = \<lparr>rm_params = [ContextParam, ValueParam ty], rm_call = hist_call S E\<rparr>"

definition ReadHistoryService_methods :: "('s, 'cur) IBucketStore \<Rightarrow> ('s, 'cur) hist_env \<Rightarrow> (string, ('s, 'cur) hist_method) gomap" where
  "ReadHistoryService_methods S E =
     [(''cursorFirst'', cursor_method E (ReadHistoryService_First S)), (''cursorLast'', cursor_method E (ReadHistoryService_Last S)),
      (''cursorNext'', cursor_method E (ReadHistoryService_Next S)), (''cursorNextN'', cursorN_method E (ReadHistoryService_NextN S)),
      (''cursorPrev'', cursor_method E (ReadHistoryService_Prev S)), (''cursorPrevN'', cursorN_method E (ReadHistoryService_PrevN S)),
      (''cursorRelease'', hist_method S E 2), (''cursorSeek'', hist_method S E 3), (''getCursor'', hist_method S E 4),
      (''getLatest'', hist_method S E 5)]"

definition ManageHistory_methods :: "('s, 'cur) IBucketStore \<Rightarrow> ('s, 'cur) hist_env \<Rightarrow> (string, ('s, 'cur) hist_method) gomap" where
  "ManageHistory_methods S E =
     [(''getRetentionRule'', hist_method S E 6),
      (''getRetentionRules'', \<lparr>rm_params = [], rm_call = (\<lambda>argv svc. (Returns [ValueResult (HGetRulesResp (hv_rules svc)), NilResult], svc))\<rparr>),
      (''setRetentionRules'', hist_method S E 7)]"

type_synonym ('s, 'cur) hist_hub = "(hist_message, ('s, 'cur) HistoryService) HubClient"

definition ManageHistory_Start ::
  "'w hub_transport \<Rightarrow> ('s, 'cur) IBucketStore \<Rightarrow> ('s, 'cur) hist_env \<Rightarrow> ('s, 'cur) hist_hub \<Rightarrow> 'w \<Rightarrow> ('s, 'cur) hist_hub \<times> 'w" where
  "ManageHistory_Start tp S E hc w = HubClient_SetRPCCapability tp ManageHistoryCap (ManageHistory_methods S E) hc w"

definition StartReadHistoryService ::
  "'w hub_transport \<Rightarrow> ('s, 'cur) IBucketStore \<Rightarrow> ('s, 'cur) hist_env \<Rightarrow> 's \<Rightarrow> ('s, 'cur) hist_hub \<Rightarrow> 'w
     \<Rightarrow> ('s, 'cur) ReadHistoryService \<times> ('s, 'cur) hist_hub \<times> 'w" where
  "StartReadHistoryService tp S E s hc w =
     (\<lparr>rh_store = s, rh_cache = NewCursorCache\<rparr>, HubClient_SetRPCCapability tp ReadHistoryCap (ReadHistoryService_methods S E) hc w)"

definition hist_permissions ::
  "'w hub_transport \<Rightarrow> hist_message serializer \<Rightarrow> ('s, 'cur) hist_hub \<Rightarrow> string \<Rightarrow> string list \<Rightarrow> 'w \<Rightarrow> go_error option \<times> 'w" where
  "hist_permissions tp ser hc cap roles w =
     (case HubClient_PubRPCRequest tp ser hc ''auth'' ''profile'' ''setServicePermissions'' (Some (HPermissionsArgs cap roles)) None w of
        ((_, err), w1) \<Rightarrow> (err, w1))"

definition history_event :: "('s, 'cur) IBucketStore \<Rightarrow> ('s, 'cur) hist_env \<Rightarrow> ThingValue \<Rightarrow> ('s, 'cur) HistoryService \<Rightarrow> ('s, 'cur) HistoryService" where
  "history_event S E msg svc =
     (case HistoryService_onEvent S (he_json E) (hv_rules svc) (msec (he_clock E svc)) msg (hv_props svc, rh_store (hv_read svc)) of
        (lp, s) \<Rightarrow> svc\<lparr>hv_props := lp, hv_read := (hv_read svc)\<lparr>rh_store := s\<rparr>\<rparr>)"

text \<open>Events are subscribed to only when both permissions were set; then the event handler is set even if subscribing failed.\<close>

definition HistoryService_Start ::
  "'w hub_transport \<Rightarrow> hist_message serializer \<Rightarrow> ('s, 'cur) IBucketStore \<Rightarrow> ('s, 'cur) hist_env \<Rightarrow> 's \<Rightarrow> ('s, 'cur) hist_hub \<Rightarrow> 'w
     \<Rightarrow> go_error option \<times> ('s, 'cur) HistoryService \<times> ('s, 'cur) hist_hub \<times> 'w" where
  "HistoryService_Start tp ser S E s hc w =
     (let (hc1, w1) = ManageHistory_Start tp S E hc w;
          (rd, hc2, w2) = StartReadHistoryService tp S E (st_GetBucket S PropertiesBucketName s) hc1 w1;
          svc = \<lparr>hv_read = rd, hv_props = NewPropertiesStore, hv_rules = []\<rparr>
      in case hist_permissions tp ser hc2 ReadHistoryCap [''viewer'', ''operator'', ''manager'', ''admin'', ''service''] w2 of
           (Some err, w3) \<Rightarrow> (Some err, svc, hc2, w3)
         | (None, w3) \<Rightarrow>
             (case hist_permissions tp ser hc2 ManageHistoryCap [''admin''] w3 of
                (Some err, w4) \<Rightarrow> (Some err, svc, hc2, w4)
              | (None, w4) \<Rightarrow>
                  (case HubClient_SubEvents tp [] [] [] w4 of
                     (err, w5) \<Rightarrow>
                       (case HubClient_SetEventHandler tp (history_event S E) hc2 w5 of (hc3, w6) \<Rightarrow> (err, svc, hc3, w6)))))"

text \<open>\<open>Stop\<close> saves the latest properties; an error is logged. The bucket of the properties stays open.\<close>

definition HistoryService_Stop :: "('s, 'cur) IBucketStore \<Rightarrow> ('s, 'cur) hist_env \<Rightarrow> ('s, 'cur) HistoryService \<Rightarrow> ('s, 'cur) HistoryService" where
  "HistoryService_Stop S E svc =
     (case LatestPropertiesStore_SaveChanges S (he_json E) (hv_props svc, rh_store (hv_read svc)) of
        (_, lp, s) \<Rightarrow> svc\<lparr>hv_props := lp, hv_read := (hv_read svc)\<lparr>rh_store := s\<rparr>\<rparr>)"

section \<open>The clients\<close>

type_synonym ('c, 'w) hist_link = "(hist_message, 'c, 'w) hub_link"

definition hist_rpc ::
  "('c, 'w) hist_link \<Rightarrow> string \<Rightarrow> string \<Rightarrow> hist_message option \<Rightarrow> nat option \<Rightarrow> 'w \<Rightarrow> (hist_message option \<times> go_error option) \<times> 'w" where
  "hist_rpc cl cap m req resp w =
     (case cl of (tp, ser, hc) \<Rightarrow> HubClient_PubRPCRequest tp ser hc HistoryServiceName cap m req resp w)"

subsection \<open>Reading\<close>

text \<open>A cursor client is the key of its cursor; it is returned with the error, with an empty key if there was one.\<close>

definition ReadHistoryClient_GetCursor ::
  "('c, 'w) hist_link \<Rightarrow> string \<Rightarrow> string \<Rightarrow> string \<Rightarrow> 'w \<Rightarrow> (string \<times> go_error option) \<times> 'w" where
  "ReadHistoryClient_GetCursor cl agentID thingID name w =
     (case hist_rpc cl ReadHistoryCap ''getCursor'' (Some (HGetCursorArgs agentID thingID name)) (Some 10) w of
        ((resp, err), w1) \<Rightarrow> ((case resp of Some (HGetCursorResp (Some k)) \<Rightarrow> k | _ \<Rightarrow> [], err), w1))"

definition ReadHistoryClient_GetLatest ::
  "('c, 'w) hist_link \<Rightarrow> string \<Rightarrow> string \<Rightarrow> string list \<Rightarrow> 'w \<Rightarrow> (ThingValueMap \<times> go_error option) \<times> 'w" where
  "ReadHistoryClient_GetLatest cl agentID thingID names w =
     (case hist_rpc cl ReadHistoryCap ''getLatest'' (Some (HGetLatestArgs agentID thingID names)) (Some 11) w of
        ((resp, err), w1) \<Rightarrow> ((case resp of Some (HGetLatestResp vals) \<Rightarrow> vals | _ \<Rightarrow> [], err), w1))"

definition single_answer :: "(hist_message option \<times> go_error option) \<times> 'w \<Rightarrow> (ThingValue option \<times> bool \<times> go_error option) \<times> 'w" where
  "single_answer r =
     (case r of ((resp, err), w1) \<Rightarrow>
        (case (case resp of Some (HCursorSingleResp (Some r)) \<Rightarrow> r | _ \<Rightarrow> invalid_resp) of r \<Rightarrow> ((cs_Value r, cs_Valid r, err), w1)))"

definition batch_answer :: "(hist_message option \<times> go_error option) \<times> 'w \<Rightarrow> (ThingValue option list \<times> bool \<times> go_error option) \<times> 'w" where
  "batch_answer r =
     (case r of ((resp, err), w1) \<Rightarrow>
        (case (case resp of Some (HCursorNResp (Some r)) \<Rightarrow> r | _ \<Rightarrow> \<lparr>cn_Values = [], cn_ItemsRemaining = False\<rparr>) of
           r \<Rightarrow> ((cn_Values r, cn_ItemsRemaining r, err), w1)))"

definition HistoryCursorClient_First where
  "HistoryCursorClient_First cl key w = single_answer (hist_rpc cl ReadHistoryCap ''cursorFirst'' (Some (HCursorArgs key)) (Some 8) w)"

definition HistoryCursorClient_Last where
  "HistoryCursorClient_Last cl key w = single_answer (hist_rpc cl ReadHistoryCap ''cursorLast'' (Some (HCursorArgs key)) (Some 8) w)"

definition HistoryCursorClient_Next where
  "HistoryCursorClient_Next cl key w = single_answer (hist_rpc cl ReadHistoryCap ''cursorNext'' (Some (HCursorArgs key)) (Some 8) w)"

definition HistoryCursorClient_Prev where
  "HistoryCursorClient_Prev cl key w = single_answer (hist_rpc cl ReadHistoryCap ''cursorPrev'' (Some (HCursorArgs key)) (Some 8) w)"

definition HistoryCursorClient_Seek where
  "HistoryCursorClient_Seek cl key timeStampMSec w =
     single_answer (hist_rpc cl ReadHistoryCap ''cursorSeek'' (Some (HCursorSeekArgs key timeStampMSec)) (Some 8) w)"

definition HistoryCursorClient_NextN where
  "HistoryCursorClient_NextN cl key limit w =
     batch_answer (hist_rpc cl ReadHistoryCap ''cursorNextN'' (Some (HCursorNArgs key limit)) (Some 9) w)"

definition HistoryCursorClient_PrevN where
  "HistoryCursorClient_PrevN cl key limit w =
     batch_answer (hist_rpc cl ReadHistoryCap ''cursorPrevN'' (Some (HCursorNArgs key limit)) (Some 9) w)"

definition HistoryCursorClient_Release :: "('c, 'w) hist_link \<Rightarrow> string \<Rightarrow> 'w \<Rightarrow> 'w" where
  "HistoryCursorClient_Release cl key w = snd (hist_rpc cl ReadHistoryCap ''cursorRelease'' (Some (HCursorReleaseArgs key)) None w)"

subsection \<open>Managing\<close>

definition ManageHistoryClient_GetRetentionRule ::
  "('c, 'w) hist_link \<Rightarrow> string \<Rightarrow> string \<Rightarrow> string \<Rightarrow> 'w \<Rightarrow> (RetentionRule option \<times> go_error option) \<times> 'w" where
  "ManageHistoryClient_GetRetentionRule cl agentID thingID name w =
     (case hist_rpc cl ManageHistoryCap ''getRetentionRule'' (Some (HGetRuleArgs agentID thingID name)) (Some 12) w of
        ((resp, err), w1) \<Rightarrow> ((case resp of Some (HGetRuleResp r) \<Rightarrow> r | _ \<Rightarrow> None, err), w1))"

definition ManageHistoryClient_GetRetentionRules :: "('c, 'w) hist_link \<Rightarrow> 'w \<Rightarrow> (RetentionRuleSet \<times> go_error option) \<times> 'w" where
  "ManageHistoryClient_GetRetentionRules cl w =
     (case hist_rpc cl ManageHistoryCap ''getRetentionRules'' None (Some 13) w of
        ((resp, err), w1) \<Rightarrow> ((case resp of Some (HGetRulesResp rs) \<Rightarrow> rs | _ \<Rightarrow> [], err), w1))"

definition ManageHistoryClient_SetRetentionRules :: "('c, 'w) hist_link \<Rightarrow> RetentionRuleSet \<Rightarrow> 'w \<Rightarrow> go_error option \<times> 'w" where
  "ManageHistoryClient_SetRetentionRules cl rules w =
     (case hist_rpc cl ManageHistoryCap ''setRetentionRules'' (Some (HSetRulesArgs rules)) None w of ((_, err), w1) \<Rightarrow> (err, w1))"

end
