(* ===== verification/HistoryRpcProps.thy ===== *)
theory HistoryRpcProps
  imports HistoryRpc
begin

text \<open>
  The history as its users see it over the message bus: a client that iterates a cursor with a name filter gets exactly the
  stored values of that name, and an event that an agent publishes is stored for it.
\<close>

section \<open>A running service\<close>

definition hist_running ::
  "(go_error \<Rightarrow> string) \<Rightarrow> ('s, 'cur) IBucketStore \<Rightarrow> ('s, 'cur) hist_env \<Rightarrow> ('s, 'cur) hist_hub \<Rightarrow> ('s, 'cur) HistoryService NatsTransport
     \<Rightarrow> (string \<Rightarrow> string option \<Rightarrow> ('s, 'cur) HistoryService \<Rightarrow> (go_error + nats_msg) \<times> ('s, 'cur) HistoryService)
     \<Rightarrow> ('c, ('s, 'cur) HistoryService) hist_link \<Rightarrow> bool" where
  "hist_running error_text S E agent nt Request cl \<longleftrightarrow>
     hc_clientID agent = HistoryServiceName
     \<and> rpc_connected error_text ReadHistoryCap (ReadHistoryService_methods S E) agent nt Request cl"

lemma HistoryService_Start_serves:
  assumes "HistoryService_Start tp ser S E s hc w = (err, svc, agent, w1)" "hc_rpcHandler hc = None"
  shows "serves ReadHistoryCap (ReadHistoryService_methods S E) agent \<and> serves ManageHistoryCap (ManageHistory_methods S E) agent
    \<and> hc_clientID agent = hc_clientID hc \<and> (err = None \<longrightarrow> hc_eventHandler agent = Some (history_event S E))
    \<and> svc = \<lparr>hv_read = \<lparr>rh_store = st_GetBucket S PropertiesBucketName s, rh_cache = NewCursorCache\<rparr>, hv_props = NewPropertiesStore, hv_rules = []\<rparr>"
proof -
  obtain hc1 v1 where h1: "HubClient_SetRPCCapability tp ManageHistoryCap (ManageHistory_methods S E) hc w = (hc1, v1)" by fastforce
  obtain hc2 v2 where h2: "HubClient_SetRPCCapability tp ReadHistoryCap (ReadHistoryService_methods S E) hc1 v1 = (hc2, v2)" by fastforce
  note c = SetRPCCapability_client [of tp ManageHistoryCap "ManageHistory_methods S E" hc w, unfolded h1 fst_conv]
    SetRPCCapability_client [of tp ReadHistoryCap "ReadHistoryService_methods S E" hc1 v1, unfolded h2 fst_conv]
  have "svc = \<lparr>hv_read = \<lparr>rh_store = st_GetBucket S PropertiesBucketName s, rh_cache = NewCursorCache\<rparr>, hv_props = NewPropertiesStore, hv_rules = []\<rparr>
      \<and> (agent = hc2 \<and> err \<noteq> None \<or> agent = hc2\<lparr>hc_eventHandler := Some (history_event S E)\<rparr>)"
    using assms(1) h1 h2
    by (auto simp: HistoryService_Start_def StartReadHistoryService_def ManageHistory_Start_def HubClient_SetEventHandler_def
        Let_def split: prod.splits option.splits)
  then show ?thesis using c assms(2) by (auto simp: serves_def mget_mput)
qed

definition hist_keeps :: "hist_message serializer \<Rightarrow> hist_message \<Rightarrow> bool" where
  "hist_keeps ser v \<longleftrightarrow> snd (ser_Marshal ser v) = None \<and> ser_Unmarshal ser (hist_message_type v) (fst (ser_Marshal ser v)) = Inr v"

lemma table_ser_hist_keeps: "v \<in> set msgs \<Longrightarrow> hist_keeps (table_ser msgs) v"
  using table_ser_roundtrip [of v msgs] by (simp add: hist_keeps_def)

lemma hist_value_call:
  assumes "hist_running error_text S E agent nt Request (tp, ser, client)" "\<And>e. error_text e \<noteq> []"
    and "mget (ReadHistoryService_methods S E) m = Some \<lparr>rm_params = [ContextParam, ValueParam (hist_message_type req)], rm_call = f\<rparr>"
    and "hist_keeps ser req" "nats_token m"
  shows "hist_rpc (tp, ser, client) ReadHistoryCap m (Some req) resp svc
    = rpc_outcome error_text ser resp (call_result ser (f [ContextArg (hc_clientID client), ValueArg req] svc))"
proof -
  have r: "rpc_connected error_text ReadHistoryCap (ReadHistoryService_methods S E) agent nt Request (tp, ser, client)"
    "hc_clientID agent = HistoryServiceName" using assms(1) by (simp_all add: hist_running_def)
  show ?thesis using rpc_value_call [OF r(1) assms(2,3), of req resp svc] assms(4,5) r(2)
    by (simp add: hist_rpc_def hist_keeps_def address_token_def)
qed

lemma hist_told:
  "hist_keeps ser v \<Longrightarrow> rpc_outcome error_text ser (Some (hist_message_type v)) (call_result ser (Returns [ValueResult v, err_result None], svc))
     = ((Some v, None), svc)"
  using rpc_outcome_value [of ser v "hist_message_type v" error_text None svc] by (simp add: hist_keeps_def remote_def)

section \<open>Client operations\<close>

lemma hist_GetCursor_local:
  assumes "hist_running error_text S E agent nt Request (tp, ser, client)" "\<And>e. error_text e \<noteq> []"
    and "ReadHistoryService_GetCursor S (hc_clientID client) a t name (hv_read svc) = (Inr key, rd)"
    and "hist_keeps ser (HGetCursorArgs a t name)" "hist_keeps ser (HGetCursorResp (Some key))"
  shows "ReadHistoryClient_GetCursor (tp, ser, client) a t name svc = ((key, None), svc\<lparr>hv_read := rd\<rparr>)"
  using hist_value_call [OF assms(1,2), of "''getCursor''" "HGetCursorArgs a t name" "hist_call S E" "Some 10" svc]
    hist_told [OF assms(5), of error_text "svc\<lparr>hv_read := rd\<rparr>"] assms(3,4)
  by (simp add: ReadHistoryClient_GetCursor_def ReadHistoryService_methods_def hist_method_def address_token_def)

lemma hist_move_local:
  assumes "hist_running error_text S E agent nt Request (tp, ser, client)" "\<And>e. error_text e \<noteq> []"
    and "hist_keeps ser (HCursorArgs key)" "hist_keeps ser (HCursorSingleResp resp)"
  shows "ReadHistoryService_First S (he_clock E svc) (hc_clientID client) key (hv_read svc) = Some (Returns ((resp, None), rd))
      \<Longrightarrow> HistoryCursorClient_First (tp, ser, client) key svc = single_answer ((Some (HCursorSingleResp resp), None), svc\<lparr>hv_read := rd\<rparr>)"
    and "ReadHistoryService_Next S (he_clock E svc) (hc_clientID client) key (hv_read svc) = Some (Returns ((resp, None), rd))
      \<Longrightarrow> HistoryCursorClient_Next (tp, ser, client) key svc = single_answer ((Some (HCursorSingleResp resp), None), svc\<lparr>hv_read := rd\<rparr>)"
  using hist_value_call [OF assms(1,2), of "''cursorFirst''" "HCursorArgs key" _ "Some 8" svc]
    hist_value_call [OF assms(1,2), of "''cursorNext''" "HCursorArgs key" _ "Some 8" svc]
    hist_told [OF assms(4), of error_text "svc\<lparr>hv_read := rd\<rparr>"] assms(3)
  by (simp_all add: HistoryCursorClient_First_def HistoryCursorClient_Next_def ReadHistoryService_methods_def cursor_method_def
      cursor_reply_def address_token_def)

section \<open>Reading the history of a Thing\<close>

text \<open>The loop of a client: \<open>First\<close>, then \<open>Next\<close> until the answer is not valid or an error.\<close>

fun read_values :: "('c, 'w) hist_link \<Rightarrow> nat \<Rightarrow> string \<Rightarrow> 'w \<Rightarrow> ThingValue option list \<times> go_error option" where
  "read_values cl 0 key w = ([], None)"
| "read_values cl (Suc n) key w =
     (case HistoryCursorClient_Next cl key w of
        ((tv, valid, err), w1) \<Rightarrow>
          if err \<noteq> None \<or> \<not> valid then ([], err) else (case read_values cl n key w1 of (vals, e) \<Rightarrow> (tv # vals, e)))"

definition read_history :: "('c, 'w) hist_link \<Rightarrow> nat \<Rightarrow> string \<Rightarrow> string \<Rightarrow> string \<Rightarrow> 'w \<Rightarrow> ThingValue option list \<times> go_error option" where
  "read_history cl n agentID thingID name w =
     (case ReadHistoryClient_GetCursor cl agentID thingID name w of
        ((key, Some e), w1) \<Rightarrow> ([], Some e)
      | ((key, None), w1) \<Rightarrow>
          (case HistoryCursorClient_First cl key w1 of
             ((tv, valid, err), w2) \<Rightarrow>
               if err \<noteq> None \<or> \<not> valid then ([], err) else (case read_values cl n key w2 of (vals, e) \<Rightarrow> (tv # vals, e))))"

text \<open>The messages of such a loop.\<close>

abbreviation hist_found :: "string \<Rightarrow> string \<times> string \<Rightarrow> hist_message" where
  "hist_found b kv \<equiv> HCursorSingleResp (Some \<lparr>cs_Value = hist_value b kv, cs_Valid = True\<rparr>)"

abbreviation hist_loop_msgs :: "string \<Rightarrow> string \<Rightarrow> string \<Rightarrow> string \<Rightarrow> hist_message list" where
  "hist_loop_msgs a t name key \<equiv> [HGetCursorArgs a t name, HGetCursorResp (Some key), HCursorArgs key, HCursorSingleResp None,
     HCursorSingleResp (Some invalid_resp)]"

context bucket_cursors
begin

lemma read_values_all:
  assumes run: "hist_running error_text S E agent nt Request (tp, ser, client)" "\<And>e. error_text e \<noteq> []"
    and msgs: "list_all (hist_keeps ser) (hist_loop_msgs a t name key)" "\<forall>kv \<in> set es. hist_keeps ser (hist_found b kv)"
    and ents: "\<And>st. list_all (hist_entry (msec (he_clock E st))) es" "length (strings_Split b sl) \<ge> 2"
    and "cc_view (rh_cache (hv_read svc)) key = Some (hc_clientID client, c)" "hist_cursor S cents b name es c" "cpos c = Some i" "i < length es"
    and "length es \<le> Suc i + n"
  shows "read_values (tp, ser, client) (Suc n) key svc = (map (hist_value b) (filter (passes name) (drop (Suc i) es)), None)"
  using assms(7-11)
proof (induction n arbitrary: svc c i)
  case 0
  then have "drop (Suc i) es = []" by simp
  with history_Next_entries [OF 0(1-4) ents] obtain rd where
    nx: "ReadHistoryService_Next S (he_clock E svc) (hc_clientID client) key (hv_read svc) = Some (Returns ((Some invalid_resp, None), rd))" by auto
  from hist_move_local(2) [OF run _ _ nx] msgs(1) \<open>drop (Suc i) es = []\<close> show ?case by (simp add: single_answer_def)
next
  case (Suc n)
  note nx = history_Next_entries [OF Suc.prems(1-4) ents, of svc]
  show ?case
  proof (cases "dropWhile (\<lambda>kv. \<not> passes name kv) (drop (Suc i) es)")
    case Nil
    with nx obtain rd where "ReadHistoryService_Next S (he_clock E svc) (hc_clientID client) key (hv_read svc)
        = Some (Returns ((Some invalid_resp, None), rd))" by auto
    from hist_move_local(2) [OF run _ _ this] msgs(1) Nil filter_step [of "passes name" "drop (Suc i) es"] show ?thesis
      by (simp add: single_answer_def)
  next
    case (Cons kv rest)
    with nx obtain rd c' j where
      n: "ReadHistoryService_Next S (he_clock E svc) (hc_clientID client) key (hv_read svc)
        = Some (Returns ((Some \<lparr>cs_Value = hist_value b kv, cs_Valid = True\<rparr>, None), rd))"
      and c': "cc_view (rh_cache rd) key = Some (hc_clientID client, c')" "hist_cursor S cents b name es c'" "cpos c' = Some j" "j < length es"
        "drop (Suc j) es = rest" by auto
    have kv: "kv \<in> set es" "length rest < length es - Suc i"
      using Cons set_dropWhileD [of kv "\<lambda>kv. \<not> passes name kv" "drop (Suc i) es"] length_dropWhile_le [of "\<lambda>kv. \<not> passes name kv" "drop (Suc i) es"]
      by (auto dest: in_set_dropD)
    have "length es - Suc j = length rest" using c'(5) by (metis length_drop)
    then have l: "length es \<le> Suc j + n" using kv(2) Suc.prems(5) by simp
    have v: "cc_view (rh_cache (hv_read (svc\<lparr>hv_read := rd\<rparr>))) key = Some (hc_clientID client, c')" using c'(1) by simp
    have "read_values (tp, ser, client) (Suc n) key (svc\<lparr>hv_read := rd\<rparr>) = (map (hist_value b) (filter (passes name) rest), None)"
      using Suc.IH [OF v c'(2-4) l] unfolding c'(5) .
    moreover have "hist_keeps ser (hist_found b kv)" using msgs(2) kv(1) by blast
    ultimately show ?thesis
      using hist_move_local(2) [OF run _ _ n] msgs(1) Cons filter_step [of "passes name" "drop (Suc i) es"]
      by (simp add: single_answer_def del: read_values.simps(2) add: read_values.simps(2) [of _ "Suc n"])
  qed
qed

lemma read_history_all:
  assumes run: "hist_running error_text S E agent nt Request (tp, ser, client)" "\<And>e. error_text e \<noteq> []"
    and msgs: "list_all (hist_keeps ser) (hist_loop_msgs a t name key)" "\<forall>kv \<in> set es. hist_keeps ser (hist_found b kv)"
    and ents: "\<And>st. list_all (hist_entry (msec (he_clock E st))) es" "length (strings_Split b sl) \<ge> 2"
    and cur: "ReadHistoryService_GetCursor S (hc_clientID client) a t name (hv_read svc) = (Inr key, rd0)"
      "cc_view (rh_cache rd0) key = Some (hc_clientID client, c)" "hist_cursor S cents b name es c"
    and "length es \<le> n"
  shows "read_history (tp, ser, client) n a t name svc = (map (hist_value b) (filter (passes name) es), None)"
proof -
  let ?svc = "svc\<lparr>hv_read := rd0\<rparr>"
  have v: "cc_view (rh_cache (hv_read ?svc)) key = Some (hc_clientID client, c)" using cur(2) by simp
  note get = hist_GetCursor_local [OF run cur(1)]
  note fi = history_First_entries [OF v cur(3) ents, of ?svc]
  show ?thesis
  proof (cases "dropWhile (\<lambda>kv. \<not> passes name kv) es")
    case Nil
    with fi obtain rd resp where r: "ReadHistoryService_First S (he_clock E ?svc) (hc_clientID client) key (hv_read ?svc) = Some (Returns ((resp, None), rd))"
      "resp \<in> {None, Some invalid_resp}" by auto
    from hist_move_local(1) [OF run _ _ r(1)] get msgs(1) r(2) Nil filter_step [of "passes name" es] show ?thesis
      by (auto simp: read_history_def single_answer_def)
  next
    case (Cons kv rest)
    with fi obtain rd c' j where
      n: "ReadHistoryService_First S (he_clock E ?svc) (hc_clientID client) key (hv_read ?svc)
        = Some (Returns ((Some \<lparr>cs_Value = hist_value b kv, cs_Valid = True\<rparr>, None), rd))"
      and c': "cc_view (rh_cache rd) key = Some (hc_clientID client, c')" "hist_cursor S cents b name es c'" "cpos c' = Some j" "j < length es"
        "drop (Suc j) es = rest" by auto
    have kv: "kv \<in> set es" using Cons set_dropWhileD [of kv "\<lambda>kv. \<not> passes name kv" es] by auto
    obtain m where m: "n = Suc m" "length es \<le> Suc j + m" using assms(10) c'(4) by (cases n) auto
    have v2: "cc_view (rh_cache (hv_read (?svc\<lparr>hv_read := rd\<rparr>))) key = Some (hc_clientID client, c')" using c'(1) by simp
    note rv = read_values_all [OF run msgs ents v2 c'(2-4) m(2), unfolded c'(5), folded m(1)]
    have "hist_keeps ser (hist_found b kv)" using msgs(2) kv by blast
    with rv show ?thesis
      using hist_move_local(1) [OF run _ _ n] get msgs(1) Cons filter_step [of "passes name" es]
      by (simp add: read_history_def single_answer_def)
  qed
qed

end

lemma hist_GetCursor_view:
  assumes "bucket_service_cursors S content cents cpos" "cc_inv (rh_cache rd)" "cc_room (rh_cache rd)"
    and "ReadHistoryService_GetCursor S sender a t name rd = (Inr key, rd1)"
  obtains c where "cc_view (rh_cache rd1) key = Some (sender, c)" "hist_cursor S cents (thing_addr a t) name (cents c) c"
    "map_of (cents c) = content (rh_store rd) (thing_addr a t)"
proof -
  obtain c s1 cc where c: "bk_Cursor S (thing_addr a t) (Some name) (st_GetBucket S (thing_addr a t) (rh_store rd)) = (Inr c, s1)"
    "CursorCache_Add c (Some (thing_addr a t)) sender 60000000000 (rh_cache rd) = (key, cc)" "rd1 = \<lparr>rh_store = s1, rh_cache = cc\<rparr>"
    using assms(4) by (auto simp: ReadHistoryService_GetCursor_def Let_def split: prod.splits sum.splits if_splits)
  have "cc_view cc key = Some (sender, c)" using CursorCache_Add_new(2) [OF assms(2,3) c(2)] by simp
  then show thesis
    using that [of c] bucket_service_cursors.cursor_content [OF assms(1) c(1)] c(3)
      bucket_service.getbucket_content [OF bucket_service_cursors.axioms(1) [OF assms(1)]] by (simp add: hist_cursor_def)
qed

text \<open>
  C8. A client reads the history of a Thing over the message bus (ReadHistoryClient.go, HistoryCursorClient.go, HubClient.go,
  HandleRequestMessage.go, ReadHistoryService.go, HistoryCursor.go, CursorCache.go). When the Thing has a history whose keys
  are of the form that the service writes and not in the future, a client that gets a cursor for a name, calls \<open>First\<close> and
  then \<open>Next\<close> until the answer is not valid receives exactly the stored values of that name, in the order of their keys, or
  all values if the name is empty; no request fails, panics or fails to return, and any number of calls that is at least the
  number of stored values is enough.
\<close>
theorem history_client_lists_named:
  assumes "bucket_service_cursors S content cents cpos"
    and "hist_running error_text S E agent nt Request (tp, ser, client)" "\<And>e. error_text e \<noteq> []"
    and "cc_inv (rh_cache (hv_read svc))" "cc_room (rh_cache (hv_read svc))"
    and "ReadHistoryService_GetCursor S (hc_clientID client) a t name (hv_read svc) = (Inr key, rd)"
    and "list_all (hist_keeps ser) (hist_loop_msgs a t name key)"
    and "\<And>st k v. content (rh_store (hv_read svc)) (thing_addr a t) k = Some v
      \<Longrightarrow> hist_entry (msec (he_clock E st)) (k, v) \<and> hist_keeps ser (hist_found (thing_addr a t) (k, v))"
    and "card (dom (content (rh_store (hv_read svc)) (thing_addr a t))) \<le> n"
  shows "\<exists>entries. map_of entries = content (rh_store (hv_read svc)) (thing_addr a t) \<and> sorted (map fst entries) \<and> distinct (map fst entries)
    \<and> read_history (tp, ser, client) n a t name svc
      = (map (hist_value (thing_addr a t)) (filter (\<lambda>(k, v). name = [] \<or> strings_Split k sl ! 1 = name) entries), None)"
proof -
  note bc = bucket_service_cursors.axioms(2) [OF assms(1)]
  obtain c where c: "cc_view (rh_cache rd) key = Some (hc_clientID client, c)" "hist_cursor S cents (thing_addr a t) name (cents c) c"
    "map_of (cents c) = content (rh_store (hv_read svc)) (thing_addr a t)"
    using hist_GetCursor_view [OF assms(1,4,5,6)] by blast
  have d: "distinct (map fst (cents c))" "sorted (map fst (cents c))"
    using bucket_cursors.cents_distinct [OF bc] bucket_cursors.cents_sorted [OF bc] by (auto simp: wf_map_def)
  have el: "content (rh_store (hv_read svc)) (thing_addr a t) (fst kv) = Some (snd kv)" if "kv \<in> set (cents c)" for kv
    using that d(1) c(3) by (metis map_of_is_SomeI prod.collapse)
  have len: "length (cents c) \<le> n" using assms(9) d(1)
    by (metis c(3) dom_map_of_conv_image_fst distinct_card length_map list.set_map)
  have ents: "list_all (hist_entry (msec (he_clock E st))) (cents c)" for st
    using assms(8) [OF el] by (metis list_all_iff prod.collapse)
  have keeps: "\<forall>kv \<in> set (cents c). hist_keeps ser (hist_found (thing_addr a t) kv)"
    using assms(8) [OF el] by (metis prod.collapse)
  have "length (strings_Split (thing_addr a t) sl) \<ge> 2" by (rule thing_addr_parts)
  moreover have "passes name = (\<lambda>(k, v). name = [] \<or> strings_Split k sl ! 1 = name)" by (auto simp: passes_def fun_eq_iff)
  ultimately show ?thesis
    using bucket_cursors.read_history_all [OF bc assms(2,3,7) keeps ents _ assms(6) c(1,2) len] c(3) d by (intro exI [of _ "cents c"]) simp
qed

section \<open>An instance\<close>

text \<open>A started service and a client, connected by a server that hands the service every request.\<close>

abbreviation demo_hist :: "ldb BoltStore" where
  "demo_hist \<equiv> \<lparr>boltDB = [(''a1/t1'', [(''2/hum/e/a1'', ''50''), (''1/temp/e/a1'', ''20'')])], storePath = ''hist.db'', bucketRefCount = 0\<rparr>"

definition demo_hist_env :: "(ldb BoltStore, lcur BBoltCursor) hist_env" where
  "demo_hist_env = \<lparr>he_json = \<lparr>js_enc = (\<lambda>m. []), js_dec = (\<lambda>s. None), js_props = (\<lambda>s. None)\<rparr>, he_clock = (\<lambda>svc. \<lparr>ns = 9000000, msec = 9\<rparr>)\<rparr>"

definition hist_msgs :: "hist_message list" where
  "hist_msgs = hist_loop_msgs ''a1'' ''t1'' ''temp'' ''2'' @ map (hist_found ''a1/t1'') [(''1/temp/e/a1'', ''20''), (''2/hum/e/a1'', ''50'')]"

definition demo_hist_start where
  "demo_hist_start = HistoryService_Start null_transport (table_ser hist_msgs) list_store demo_hist_env demo_hist
     (fst (NewHubClientFromTransport null_transport HistoryServiceName ())) ()"

abbreviation demo_hist_svc :: "(ldb BoltStore, lcur BBoltCursor) HistoryService" where
  "demo_hist_svc \<equiv> fst (snd demo_hist_start)"

abbreviation demo_hist_agent :: "(ldb BoltStore, lcur BBoltCursor) hist_hub" where
  "demo_hist_agent \<equiv> fst (snd (snd demo_hist_start))"

definition demo_hist_nats where
  "demo_hist_nats = \<lparr>nt_status = \<lparr>hs_HubURL = [], hs_ClientID = HistoryServiceName, hs_ConnectionStatus = Connected, hs_LastError = None\<rparr>,
     nt_connectHandler = (\<lambda>s st. st), nt_eventHandler = Some (HubClient_onEvent NatsTransport_AddressTokens 0 demo_hist_agent),
     nt_requestHandler = Some (HubClient_onRequest NatsTransport_AddressTokens (table_ser hist_msgs) 0 demo_hist_agent)\<rparr>"

definition demo_hist_tp where
  "demo_hist_tp = \<lparr>tp_tokens = NatsTransport_AddressTokens, tp_PubEvent = (\<lambda>a p w. (None, w)),
     tp_PubRequest = NatsTransport_PubRequest (direct_Request (\<lambda>e. ''err'') demo_hist_nats),
     tp_Subscribe = (\<lambda>a w. (None, w)), tp_SetRequestHandler = id, tp_SetEventHandler = id, tp_SetConnectHandler = id\<rparr>"

abbreviation hist_user :: "(hist_message, unit) HubClient" where
  "hist_user \<equiv> fst (NewHubClientFromTransport null_transport ''alice'' ())"

lemma demo_hist_started:
  "serves ReadHistoryCap (ReadHistoryService_methods list_store demo_hist_env) demo_hist_agent"
  "hc_clientID demo_hist_agent = HistoryServiceName"
  "hv_read demo_hist_svc = \<lparr>rh_store = st_GetBucket list_store PropertiesBucketName demo_hist, rh_cache = NewCursorCache\<rparr>"
proof -
  obtain err svc agent w1 where d: "demo_hist_start = (err, svc, agent, w1)" by (metis prod.exhaust)
  note st = HistoryService_Start_serves [OF d [unfolded demo_hist_start_def]]
  show "serves ReadHistoryCap (ReadHistoryService_methods list_store demo_hist_env) demo_hist_agent"
    "hc_clientID demo_hist_agent = HistoryServiceName"
    "hv_read demo_hist_svc = \<lparr>rh_store = st_GetBucket list_store PropertiesBucketName demo_hist, rh_cache = NewCursorCache\<rparr>"
    unfolding d using st by (simp_all add: NewHubClientFromTransport_def)
qed

lemma demo_hist_running:
  "hist_running (\<lambda>e. ''err'') list_store demo_hist_env demo_hist_agent demo_hist_nats (direct_Request (\<lambda>e. ''err'') demo_hist_nats)
     (demo_hist_tp, table_ser hist_msgs, hist_user)"
  using demo_hist_started
  by (auto simp: hist_running_def rpc_connected_def demo_hist_tp_def demo_hist_nats_def direct_routes NewHubClientFromTransport_def address_token_def)

theorem history_client_lists_named_witness:
  "set (fst (read_history (demo_hist_tp, table_ser hist_msgs, hist_user) 2 ''a1'' ''t1'' ''temp'' demo_hist_svc))
     = {hist_value ''a1/t1'' (''1/temp/e/a1'', ''20'')}"
proof -
  have addr: "thing_addr ''a1'' ''t1'' = ''a1/t1''" by (simp add: thing_addr_def)
  have rd: "hv_read demo_hist_svc = \<lparr>rh_store = demo_hist\<lparr>bucketRefCount := 1\<rparr>, rh_cache = NewCursorCache\<rparr>"
    by (simp add: demo_hist_started(3) BoltStore_iface_def BoltStore_GetBucket_def)
  have c: "store_content ldb_contents (rh_store (hv_read demo_hist_svc)) (thing_addr ''a1'' ''t1'')
      = [''2/hum/e/a1'' \<mapsto> ''50'', ''1/temp/e/a1'' \<mapsto> ''20'']"
    unfolding rd addr by (simp add: store_content_def bucket_content_def ldb_contents_def fun_eq_iff)
  have user: "hc_clientID hist_user = ''alice''" by (simp add: NewHubClientFromTransport_def)
  obtain rd1 where cur: "ReadHistoryService_GetCursor list_store (hc_clientID hist_user) ''a1'' ''t1'' ''temp'' (hv_read demo_hist_svc) = (Inr ''2'', rd1)"
    unfolding user rd by (simp add: ReadHistoryService_GetCursor_def addr BoltStore_iface_def BoltStore_GetBucket_def on_db_def BoltBucket_Cursor_def
        list_bbolt_def CursorCache_Add_def NewCursorCache_def FormatUint16_demo Let_def)
  have keep: "hist_keeps (table_ser hist_msgs) v" if "v \<in> set hist_msgs" for v by (rule table_ser_hist_keeps [OF that])
  have mem: "set (hist_loop_msgs ''a1'' ''t1'' ''temp'' ''2'') \<subseteq> set hist_msgs" "hist_found ''a1/t1'' (''1/temp/e/a1'', ''20'') \<in> set hist_msgs"
    "hist_found ''a1/t1'' (''2/hum/e/a1'', ''50'') \<in> set hist_msgs" by (auto simp: hist_msgs_def)
  have msgs: "list_all (hist_keeps (table_ser hist_msgs)) (hist_loop_msgs ''a1'' ''t1'' ''temp'' ''2'')"
    unfolding list_all_iff using mem(1) keep by blast
  have ent: "hist_entry 9 (''1/temp/e/a1'', ''20'')" "hist_entry 9 (''2/hum/e/a1'', ''50'')" by code_simp+
  have docs: "hist_entry (msec (he_clock demo_hist_env st)) (k, v) \<and> hist_keeps (table_ser hist_msgs) (hist_found (thing_addr ''a1'' ''t1'') (k, v))"
    if "store_content ldb_contents (rh_store (hv_read demo_hist_svc)) (thing_addr ''a1'' ''t1'') k = Some v" for st k v
  proof -
    have "(k, v) \<in> {(''1/temp/e/a1'', ''20''), (''2/hum/e/a1'', ''50'')}" using that unfolding c by (simp split: if_splits)
    then show ?thesis using keep [OF mem(2)] keep [OF mem(3)] ent unfolding addr by (auto simp: demo_hist_env_def)
  qed
  have inv: "cc_inv (rh_cache (hv_read demo_hist_svc))" "cc_room (rh_cache (hv_read demo_hist_svc))"
    unfolding rd using cc_inv_New by (simp_all add: cc_room_def NewCursorCache_def)
  have n: "card (dom (store_content ldb_contents (rh_store (hv_read demo_hist_svc)) (thing_addr ''a1'' ''t1''))) \<le> 2" unfolding c by simp
  let ?read = "read_history (demo_hist_tp, table_ser hist_msgs, hist_user) 2 ''a1'' ''t1'' ''temp'' demo_hist_svc"
  have "\<exists>entries. map_of entries = store_content ldb_contents (rh_store (hv_read demo_hist_svc)) (thing_addr ''a1'' ''t1'')
      \<and> sorted (map fst entries) \<and> distinct (map fst entries) \<and> ?read = (map (hist_value (thing_addr ''a1'' ''t1''))
        (filter (\<lambda>(k, v). ''temp'' = [] \<or> strings_Split k sl ! 1 = ''temp'') entries), None)"
    by (rule history_client_lists_named [OF ls.bucket_service_cursors_axioms demo_hist_running _ inv cur msgs docs n]) simp_all
  then obtain entries where e: "map_of entries = [''2/hum/e/a1'' \<mapsto> ''50'', ''1/temp/e/a1'' \<mapsto> ''20'']" "sorted (map fst entries)" "distinct (map fst entries)"
    "?read = (map (hist_value ''a1/t1'') (filter (\<lambda>(k, v). ''temp'' = [] \<or> strings_Split k sl ! 1 = ''temp'') entries), None)"
    unfolding c [unfolded addr] addr by blast
  have "map_of entries = map_of [(''1/temp/e/a1'', ''20''), (''2/hum/e/a1'', ''50'')]" using e(1) by (simp add: fun_eq_iff)
  then have s: "set entries = {(''1/temp/e/a1'', ''20''), (''2/hum/e/a1'', ''50'')}"
    using map_of_inject_set [OF e(3), of "[(''1/temp/e/a1'', ''20''), (''2/hum/e/a1'', ''50'')]"] by simp
  define P where "P = (\<lambda>(k, v :: string). ''temp'' = [] \<or> strings_Split k sl ! 1 = ''temp'')"
  have "P (''1/temp/e/a1'', ''20'')" "\<not> P (''2/hum/e/a1'', ''50'')" unfolding P_def by code_simp+
  then have "{kv \<in> set entries. P kv} = {(''1/temp/e/a1'', ''20'')}" unfolding s by blast
  then show ?thesis unfolding e(4) by (simp only: fst_conv set_map set_filter P_def [symmetric] image_insert image_empty)
qed

end
