(* ===== verification/Directory.thy ===== *)
theory Directory
  imports HistoryCursor
begin

text \<open>
  Model of the directory service, \<open>done_mod/mod_dir/dir_srv\<close>: \<open>UpdateDirectoryService.go\<close>,
  \<open>ReadDirectoryService.go\<close>, \<open>DirectoryCursor.go\<close> and the event handler of
  \<open>DirectoryService.go\<close>. All Thing Descriptions live in the bucket \<open>td\<close> under the key
  agentID/thingID, as JSON of a \<open>ThingValue\<close>. JSON coding is a parameter; a failed decode returns
  the partly filled value with the error. Limits on the size of a Go allocation are not modelled,
  except that a negative capacity panics.
\<close>

record tv_json =
  tj_enc :: "ThingValue \<Rightarrow> string"
  tj_dec :: "string \<Rightarrow> ThingValue \<times> go_error option"

abbreviation TDBucketName :: string where "TDBucketName \<equiv> ''td''"

abbreviation zero_tv :: ThingValue where
  "zero_tv \<equiv> \<lparr>AgentID = [], ThingID = [], Name = [], Data = None, CreatedMSec = 0, SenderID = [], ValueType = []\<rparr>"

section \<open>Updating\<close>

definition UpdateDirectoryService_RemoveTD ::
  "('s, 'cur) IBucketStore \<Rightarrow> string \<Rightarrow> string \<Rightarrow> 's \<Rightarrow> go_error option \<times> 's" where
  "UpdateDirectoryService_RemoveTD S agentID thingID s = bk_Delete S TDBucketName (thing_addr agentID thingID) s"

definition UpdateDirectoryService_UpdateTD ::
  "('s, 'cur) IBucketStore \<Rightarrow> tv_json \<Rightarrow> int \<Rightarrow> string \<Rightarrow> string \<Rightarrow> string \<Rightarrow> string option \<Rightarrow> 's
     \<Rightarrow> go_error option \<times> 's" where
  "UpdateDirectoryService_UpdateTD S J now senderID agentID thingID tdDoc s =
     (let thingValue = NewThingValue now MessageTypeEvent agentID thingID EventNameTD tdDoc senderID;
          bucketData = tj_enc J thingValue
      in bk_Set S TDBucketName (thing_addr agentID thingID) bucketData s)"

text \<open>A TD event of an agent updates the directory in the agent's name.\<close>

definition DirectoryService_handleTDEvent ::
  "('s, 'cur) IBucketStore \<Rightarrow> tv_json \<Rightarrow> int \<Rightarrow> ThingValue \<Rightarrow> 's \<Rightarrow> 's" where
  "DirectoryService_handleTDEvent S J now event s =
     snd (UpdateDirectoryService_UpdateTD S J now (AgentID event) (AgentID event) (ThingID event) (Data event) s)"

section \<open>Reading\<close>

definition ReadDirectoryService_GetTD ::
  "('s, 'cur) IBucketStore \<Rightarrow> tv_json \<Rightarrow> string \<Rightarrow> string \<Rightarrow> 's \<Rightarrow> ThingValue \<times> go_error option \<times> 's" where
  "ReadDirectoryService_GetTD S J agentID thingID s =
     (let (raw, _, s1) = bk_Get S TDBucketName (thing_addr agentID thingID) s
      in case raw of
           Some r \<Rightarrow> (case tj_dec J r of (tv, err) \<Rightarrow> (tv, err, s1))
         | None \<Rightarrow> (zero_tv, Some (ErrTDNotFound agentID thingID), s1))"

text \<open>The conversion \<open>uint(n)\<close> of a 64-bit int.\<close>

definition to_uint :: "int \<Rightarrow> nat" where
  "to_uint n = nat (n mod 2 ^ 64)"

definition skip_offset :: "('s, 'cur) IBucketStore \<Rightarrow> int \<Rightarrow> 'cur \<Rightarrow> 'cur" where
  "skip_offset S offset c = (if offset > 0 then snd (cu_NextN S (to_uint offset) c) else c)"

definition ReadDirectoryService_GetTDsRaw ::
  "('s, 'cur) IBucketStore \<Rightarrow> int \<Rightarrow> int \<Rightarrow> 's
     \<Rightarrow> (((string, string) gomap option \<times> go_error option) \<times> 's) outcome" where
  "ReadDirectoryService_GetTDsRaw S offset limit s =
     (case bk_Cursor S TDBucketName None s of
        (Inl err, s1) \<Rightarrow> Panics NilDereference
      | (Inr cursor, s1) \<Rightarrow>
          (case cu_NextN S (to_uint limit) (skip_offset S offset cursor) of
             ((docs, itemsRemaining), _) \<Rightarrow> Returns ((docs, None), s1)))"

fun decode_docs :: "tv_json \<Rightarrow> (string, string) gomap \<Rightarrow> go_error option \<Rightarrow> ThingValue list
    \<Rightarrow> ThingValue list \<times> go_error option" where
  "decode_docs J [] err batch = (batch, err)"
| "decode_docs J ((key, val) # docs) err batch =
     (case tj_dec J val of
        (tv, None) \<Rightarrow> decode_docs J docs None (batch @ [tv])
      | (tv, Some e) \<Rightarrow> decode_docs J docs (Some e) batch)"

definition ReadDirectoryService_GetTDs ::
  "('s, 'cur) IBucketStore \<Rightarrow> tv_json \<Rightarrow> int \<Rightarrow> int \<Rightarrow> 's \<Rightarrow> ((ThingValue list \<times> go_error option) \<times> 's) outcome" where
  "ReadDirectoryService_GetTDs S J offset limit s =
     (if limit < 0 then Panics CapOutOfRange
      else case bk_Cursor S TDBucketName None s of
        (Inl err, s1) \<Rightarrow> Panics NilDereference
      | (Inr cursor, s1) \<Rightarrow>
          (case cu_NextN S (to_uint limit) (skip_offset S offset cursor) of
             ((docs, itemsRemaining), _) \<Rightarrow>
               Returns (decode_docs J (case docs of None \<Rightarrow> [] | Some d \<Rightarrow> d) None [], s1)))"

section \<open>Cursors\<close>

record ('s, 'cur) ReadDirectoryService =
  rd_store :: 's
  rd_cache :: "('cur, string) CursorCache"

record dir_cursor_resp =
  dc_Value :: ThingValue
  dc_Valid :: bool
  dc_CursorKey :: string

record dir_cursorN_resp =
  dn_Values :: "ThingValue list"
  dn_ItemsRemaining :: bool
  dn_CursorKey :: string

text \<open>The cursor shares the service's bucket, which is closed with the cursor.\<close>

definition ReadDirectoryService_GetCursor ::
  "('s, 'cur) IBucketStore \<Rightarrow> string \<Rightarrow> ('s, 'cur) ReadDirectoryService
     \<Rightarrow> (go_error + string) \<times> ('s, 'cur) ReadDirectoryService" where
  "ReadDirectoryService_GetCursor S senderID svc =
     (case bk_Cursor S TDBucketName None (rd_store svc) of
        (Inl err, s1) \<Rightarrow> (Inl err, svc\<lparr>rd_store := s1\<rparr>)
      | (Inr dirCursor, s1) \<Rightarrow>
          (case CursorCache_Add dirCursor (Some TDBucketName) senderID 60000000000 (rd_cache svc) of
             (key, cc) \<Rightarrow> (Inr key, \<lparr>rd_store = s1, rd_cache = cc\<rparr>)))"

text \<open>The key needs two parts; a value that cannot be decoded is returned as far as it goes.\<close>

definition dir_decodeValue :: "tv_json \<Rightarrow> string \<Rightarrow> string option \<Rightarrow> ThingValue \<times> bool" where
  "dir_decodeValue J key data =
     (if length (strings_Split key sl) < 2 then (zero_tv, False)
      else (fst (tj_dec J (bytes_of data)), True))"

definition ReadDirectoryService_First ::
  "('s, 'cur) IBucketStore \<Rightarrow> tv_json \<Rightarrow> int \<Rightarrow> string \<Rightarrow> string \<Rightarrow> ('s, 'cur) ReadDirectoryService
     \<Rightarrow> (dir_cursor_resp option \<times> go_error option) \<times> ('s, 'cur) ReadDirectoryService" where
  "ReadDirectoryService_First S J now senderID cursorKey svc =
     (case CursorCache_Get now cursorKey senderID True (rd_cache svc) of
        (Inl err, cc) \<Rightarrow> ((None, Some err), svc\<lparr>rd_cache := cc\<rparr>)
      | (Inr cursor, cc) \<Rightarrow>
          (case cu_First S cursor of ((k, v, valid), c) \<Rightarrow>
             (let svc1 = svc\<lparr>rd_cache := CursorCache_store cursorKey c cc\<rparr>
              in if \<not> valid then ((None, None), svc1)
                 else (case dir_decodeValue J k v of
                         (tv, ok) \<Rightarrow> ((Some \<lparr>dc_Value = tv, dc_Valid = ok, dc_CursorKey = cursorKey\<rparr>, None), svc1)))))"

definition ReadDirectoryService_Next ::
  "('s, 'cur) IBucketStore \<Rightarrow> tv_json \<Rightarrow> int \<Rightarrow> string \<Rightarrow> string \<Rightarrow> ('s, 'cur) ReadDirectoryService
     \<Rightarrow> (dir_cursor_resp option \<times> go_error option) \<times> ('s, 'cur) ReadDirectoryService" where
  "ReadDirectoryService_Next S J now senderID cursorKey svc =
     (case CursorCache_Get now cursorKey senderID True (rd_cache svc) of
        (Inl err, cc) \<Rightarrow> ((None, Some err), svc\<lparr>rd_cache := cc\<rparr>)
      | (Inr cursor, cc) \<Rightarrow>
          (case cu_Next S cursor of ((k, v, valid), c) \<Rightarrow>
             (case dir_decodeValue J k v of
                (tv, ok) \<Rightarrow> ((Some \<lparr>dc_Value = tv, dc_Valid = ok, dc_CursorKey = cursorKey\<rparr>, None),
                  svc\<lparr>rd_cache := CursorCache_store cursorKey c cc\<rparr>))))"

fun decode_values :: "tv_json \<Rightarrow> (string, string) gomap \<Rightarrow> go_error option \<Rightarrow> ThingValue list
    \<Rightarrow> ThingValue list \<times> go_error option" where
  "decode_values J [] err vals = (vals, err)"
| "decode_values J ((key, doc) # docs) err vals =
     (case tj_dec J doc of
        (tv, None) \<Rightarrow> decode_values J docs err (vals @ [tv])
      | (tv, Some e) \<Rightarrow> decode_values J docs (Some e) vals)"

definition ReadDirectoryService_NextN ::
  "('s, 'cur) IBucketStore \<Rightarrow> tv_json \<Rightarrow> int \<Rightarrow> string \<Rightarrow> string \<Rightarrow> nat \<Rightarrow> ('s, 'cur) ReadDirectoryService
     \<Rightarrow> (dir_cursorN_resp option \<times> go_error option) \<times> ('s, 'cur) ReadDirectoryService" where
  "ReadDirectoryService_NextN S J now senderID cursorKey limit svc =
     (case CursorCache_Get now cursorKey senderID True (rd_cache svc) of
        (Inl err, cc) \<Rightarrow> ((None, Some err), svc\<lparr>rd_cache := cc\<rparr>)
      | (Inr cursor, cc) \<Rightarrow>
          (case cu_NextN S limit cursor of ((docMap, itemsRemaining), c) \<Rightarrow>
             (case decode_values J (case docMap of None \<Rightarrow> [] | Some d \<Rightarrow> d) None [] of
                (vals, err) \<Rightarrow> ((Some \<lparr>dn_Values = vals, dn_ItemsRemaining = itemsRemaining,
                    dn_CursorKey = cursorKey\<rparr>, err),
                  svc\<lparr>rd_cache := CursorCache_store cursorKey c cc\<rparr>))))"

text \<open>\<open>Release\<close> passes the cursor key as the client and the sender as the cursor key.\<close>

definition ReadDirectoryService_Release ::
  "('s, 'cur) IBucketStore \<Rightarrow> string \<Rightarrow> string \<Rightarrow> ('s, 'cur) ReadDirectoryService
     \<Rightarrow> go_error option \<times> ('s, 'cur) ReadDirectoryService" where
  "ReadDirectoryService_Release S senderID cursorKey svc =
     (case CursorCache_Release cursorKey senderID (rd_cache svc) of
        (err, cc, eff) \<Rightarrow> (err, \<lparr>rd_store = close_released S eff (rd_store svc), rd_cache = cc\<rparr>))"

section \<open>Lemmas\<close>

lemma thing_addr_inj:
  assumes "sl \<notin> set a" and "sl \<notin> set a'"
  shows "thing_addr a t = thing_addr a' t' \<longleftrightarrow> a = a' \<and> t = t'"
proof
  assume eq: "thing_addr a t = thing_addr a' t'"
  then have "a # strings_Split t sl = a' # strings_Split t' sl"
    using strings_Split_append [OF assms(1), of t] strings_Split_append [OF assms(2), of t']
    by (simp add: thing_addr_def)
  with eq show "a = a' \<and> t = t'" by (simp add: thing_addr_def)
qed simp

context bucket_service
begin

lemma GetTD_stored:
  assumes "content s TDBucketName (thing_addr a t) = Some raw"
    and "fst (snd (bk_Get S TDBucketName (thing_addr a t) s)) = None"
    and "tj_dec J raw = (tv, e)"
  shows "\<exists>s'. ReadDirectoryService_GetTD S J a t s = (tv, e, s') \<and> content s' = content s"
proof -
  obtain r e' s' where g: "bk_Get S TDBucketName (thing_addr a t) s = (r, e', s')" by (metis prod.exhaust)
  with get_hit [OF assms(1) g] assms(2) have "r = Some raw" by simp
  with g assms(3) get_frame [OF g] show ?thesis by (simp add: ReadDirectoryService_GetTD_def)
qed

lemma GetTD_missing:
  assumes "content s TDBucketName (thing_addr a t) = None"
  shows "\<exists>s'. ReadDirectoryService_GetTD S J a t s = (zero_tv, Some (ErrTDNotFound a t), s') \<and> content s' = content s"
proof -
  obtain r e' s' where g: "bk_Get S TDBucketName (thing_addr a t) s = (r, e', s')" by (metis prod.exhaust)
  with get_some [of TDBucketName "thing_addr a t" s _ e' s'] assms have "r = None" by (cases r) auto
  with g get_frame [OF g] show ?thesis by (simp add: ReadDirectoryService_GetTD_def)
qed

end

end
