(* ===== verification/DirectoryProps.thy ===== *)
theory DirectoryProps
  imports Directory
begin

text \<open>
  Properties of the directory service: storing, reading back and removing Thing Descriptions,
  iterating the whole directory with a cursor, and what paging and releasing really do.
\<close>

abbreviation td_value :: "int \<Rightarrow> string \<Rightarrow> string \<Rightarrow> string \<Rightarrow> string option \<Rightarrow> ThingValue" where
  "td_value now sender a t doc \<equiv> NewThingValue now MessageTypeEvent a t EventNameTD doc sender"

abbreviation dir_store :: "ldb BoltStore" where
  "dir_store \<equiv> \<lparr>boltDB = [(''td'', [(''a1/t1'', ''x'')])], storePath = ''dir.db'', bucketRefCount = 1\<rparr>"

abbreviation demo_tj :: tv_json where
  "demo_tj \<equiv> \<lparr>tj_enc = (\<lambda>tv. ''x''), tj_dec = (\<lambda>s. (td_value 7 ''adm'' ''a1'' ''t1'' (Some ''{}''), None))\<rparr>"

text \<open>
  The directory as a map: after \<open>UpdateTD\<close> succeeded, \<open>GetTD\<close> for the same agent and Thing
  returns the stored document with its sender and time (when the read succeeds and JSON decoding
  inverts encoding on that value); what is stored for any other agent and Thing is unchanged,
  provided agent IDs contain no slash.
\<close>

lemma UpdateTD_then_GetTD:
  assumes "bucket_service S content"
    and "UpdateDirectoryService_UpdateTD S J now sender a t doc s = (None, s1)"
    and "fst (snd (bk_Get S TDBucketName (thing_addr a t) s1)) = None"
    and "tj_dec J (tj_enc J (td_value now sender a t doc)) = (td_value now sender a t doc, None)"
    and "sl \<notin> set a" and "sl \<notin> set a'"
  shows "(\<exists>s2. ReadDirectoryService_GetTD S J a t s1 = (td_value now sender a t doc, None, s2))
    \<and> ((a', t') \<noteq> (a, t) \<longrightarrow> content s1 TDBucketName (thing_addr a' t') = content s TDBucketName (thing_addr a' t'))"
proof -
  note c = ibucket_store.set_ok [OF bucket_service.axioms(1) [OF assms(1)], of TDBucketName "thing_addr a t"
      "tj_enc J (td_value now sender a t doc)" s s1]
  have st: "content s1 = (content s)(TDBucketName := (content s TDBucketName)
      (thing_addr a t \<mapsto> tj_enc J (td_value now sender a t doc)))"
    using assms(2) by (intro c) (simp add: UpdateDirectoryService_UpdateTD_def Let_def)
  then have hit: "content s1 TDBucketName (thing_addr a t) = Some (tj_enc J (td_value now sender a t doc))" by simp
  from bucket_service.GetTD_stored [OF assms(1) hit assms(3,4)] st thing_addr_inj [OF assms(5,6), of t t']
  show ?thesis by auto
qed

lemma UpdateTD_then_GetTD_witness:
  "\<exists>s2. ReadDirectoryService_GetTD list_store demo_tj ''a1'' ''t1''
     (snd (UpdateDirectoryService_UpdateTD list_store demo_tj 7 ''adm'' ''a1'' ''t1'' (Some ''{}'') dir_store))
     = (td_value 7 ''adm'' ''a1'' ''t1'' (Some ''{}''), None, s2)"
proof -
  let ?u = "UpdateDirectoryService_UpdateTD list_store demo_tj 7 ''adm'' ''a1'' ''t1'' (Some ''{}'') dir_store"
  have u: "?u = (None, snd ?u)"
    by (simp add: UpdateDirectoryService_UpdateTD_def thing_addr_def BoltStore_iface_def on_db_def
        bolt_bucket_defs list_db_defs)
  have g: "fst (snd (bk_Get list_store TDBucketName (thing_addr ''a1'' ''t1'') (snd ?u))) = None"
    by (simp add: UpdateDirectoryService_UpdateTD_def thing_addr_def BoltStore_iface_def on_db_def on_db2_def
        bolt_bucket_defs list_db_defs)
  from UpdateTD_then_GetTD [OF ls.bucket_service_axioms u g, of "''b''" "''c''"] show ?thesis by simp
qed

text \<open>
  After \<open>RemoveTD\<close> succeeded, \<open>GetTD\<close> for that agent and Thing reports ``not found''.
\<close>

lemma RemoveTD_then_GetTD:
  assumes "bucket_service S content" and "UpdateDirectoryService_RemoveTD S a t s = (None, s1)"
  shows "\<exists>s2. ReadDirectoryService_GetTD S J a t s1 = (zero_tv, Some (ErrTDNotFound a t), s2)"
proof -
  have "content s1 TDBucketName (thing_addr a t) = None"
    using ibucket_store.delete_ok [OF bucket_service.axioms(1) [OF assms(1)], of TDBucketName "thing_addr a t" s s1]
      assms(2) by (simp add: UpdateDirectoryService_RemoveTD_def)
  from bucket_service.GetTD_missing [OF assms(1) this] show ?thesis by blast
qed

lemma RemoveTD_then_GetTD_witness:
  "\<exists>s2. ReadDirectoryService_GetTD list_store demo_tj ''a1'' ''t1''
     (snd (UpdateDirectoryService_RemoveTD list_store ''a1'' ''t1'' dir_store))
     = (zero_tv, Some (ErrTDNotFound ''a1'' ''t1''), s2)"
proof -
  let ?u = "UpdateDirectoryService_RemoveTD list_store ''a1'' ''t1'' dir_store"
  have u: "?u = (None, snd ?u)"
    by (simp add: UpdateDirectoryService_RemoveTD_def thing_addr_def BoltStore_iface_def on_db_def
        bolt_bucket_defs list_db_defs)
  from RemoveTD_then_GetTD [OF ls.bucket_service_axioms u] show ?thesis by simp
qed

section \<open>Iterating\<close>

definition stored_td :: "tv_json \<Rightarrow> string \<times> string \<Rightarrow> ThingValue" where
  "stored_td J kv = fst (tj_dec J (snd kv))"

context bucket_cursors
begin

lemma Next_at:
  assumes "cc_view (rd_cache svc) key = Some (sender, c)" and "cpos c = Some i" and "Suc i < length (cents c)"
    and "length (strings_Split (fst (cents c ! Suc i)) sl) \<ge> 2"
  shows "\<exists>svc' c'. ReadDirectoryService_Next S J now sender key svc =
      ((Some \<lparr>dc_Value = stored_td J (cents c ! Suc i), dc_Valid = True, dc_CursorKey = key\<rparr>, None), svc')
    \<and> cc_view (rd_cache svc') key = Some (sender, c') \<and> cpos c' = Some (Suc i) \<and> cents c' = cents c"
proof -
  obtain cc where g: "CursorCache_Get now key sender True (rd_cache svc) = (Inr c, cc)"
      "cc_view cc key = Some (sender, c)"
    using Get_owned [OF assms(1)] assms(1) by metis
  obtain k v where kv: "cents c ! Suc i = (k, v)" by fastforce
  obtain c' where n: "cu_Next S c = ((k, Some v, True), c')" "cpos c' = Some (Suc i)" "cents c' = cents c"
    using cnext [OF assms(2,3) kv] cmoves_keep(3) [of c] by (cases "cu_Next S c") auto
  show ?thesis
    using g n kv assms(4) store_owned [OF g(2), of c']
    by (simp add: ReadDirectoryService_Next_def dir_decodeValue_def bytes_of_def stored_td_def)
qed

lemma Next_end:
  assumes "cc_view (rd_cache svc) key = Some (sender, c)" and "cpos c = Some i" and "length (cents c) \<le> Suc i"
  shows "\<exists>svc'. ReadDirectoryService_Next S J now sender key svc =
    ((Some \<lparr>dc_Value = zero_tv, dc_Valid = False, dc_CursorKey = key\<rparr>, None), svc')"
proof -
  obtain cc where g: "CursorCache_Get now key sender True (rd_cache svc) = (Inr c, cc)"
    using Get_owned [OF assms(1)] by metis
  obtain c' where "cu_Next S c = (([], None, False), c')"
    using cnext_end [of c i] assms(2,3) by (cases "cu_Next S c") auto
  with g show ?thesis by (simp add: ReadDirectoryService_Next_def dir_decodeValue_def)
qed

lemma First_at:
  assumes "cc_view (rd_cache svc) key = Some (sender, c)" and "cents c = kv # es" and "length (strings_Split (fst kv) sl) \<ge> 2"
  shows "\<exists>svc' c'. ReadDirectoryService_First S J now sender key svc =
      ((Some \<lparr>dc_Value = stored_td J kv, dc_Valid = True, dc_CursorKey = key\<rparr>, None), svc')
    \<and> cc_view (rd_cache svc') key = Some (sender, c') \<and> cpos c' = Some 0 \<and> cents c' = cents c"
proof -
  obtain cc where g: "CursorCache_Get now key sender True (rd_cache svc) = (Inr c, cc)"
      "cc_view cc key = Some (sender, c)"
    using Get_owned [OF assms(1)] assms(1) by metis
  obtain k v where kv: "kv = (k, v)" by fastforce
  obtain c' where f: "cu_First S c = ((k, Some v, True), c')" "cpos c' = Some 0" "cents c' = cents c"
    using cfirst [of c k v es] assms(2) kv cmoves_keep(1) [of c] by (cases "cu_First S c") auto
  show ?thesis
    using g f kv assms(3) store_owned [OF g(2), of c']
    by (simp add: ReadDirectoryService_First_def dir_decodeValue_def bytes_of_def stored_td_def Let_def)
qed

lemma First_empty:
  assumes "cc_view (rd_cache svc) key = Some (sender, c)" and "cents c = []"
  shows "\<exists>svc'. ReadDirectoryService_First S J now sender key svc = ((None, None), svc')
    \<and> dom (cc_view (rd_cache svc')) = dom (cc_view (rd_cache svc))"
proof -
  obtain cc where g: "CursorCache_Get now key sender True (rd_cache svc) = (Inr c, cc)" "cc_view cc = cc_view (rd_cache svc)"
    using Get_owned [OF assms(1)] by metis
  obtain k v valid c' where f: "cu_First S c = ((k, v, valid), c')" by (metis prod.exhaust)
  have "\<not> valid" using cfirst_empty [OF assms(2)] f by simp
  then show ?thesis using g f assms(1)
    by (auto simp: ReadDirectoryService_First_def CursorCache_store_view Let_def)
qed

end

abbreviation td_cursor :: "lcur BBoltCursor" where
  "td_cursor \<equiv> NewBBoltCursor None ''td'' (Some ([(''b/t'', ''x''), (''a/t'', ''y'')], None))"

abbreviation dir_svc :: "(ldb BoltStore, lcur BBoltCursor) ReadDirectoryService" where
  "dir_svc \<equiv> \<lparr>rd_store = dir_store,
     rd_cache = snd (CursorCache_Add td_cursor (Some ''td'') ''alice'' 60000000000 NewCursorCache)\<rparr>"

lemma dir_svc_view: "cc_view (rd_cache dir_svc) ''2'' = Some (''alice'', td_cursor)"
  by (simp add: cc_view_def NewCursorCache_def CursorCache_Add_def FormatUint16_demo Let_def)

abbreviation id_tj :: tv_json where
  "id_tj \<equiv> \<lparr>tj_enc = (\<lambda>tv. bytes_of (Data tv)), tj_dec = (\<lambda>s. (zero_tv\<lparr>Data := Some s\<rparr>, None))\<rparr>"

text \<open>
  \<open>GetTDs\<close> never returns a document: it pages with \<open>NextN\<close> on a cursor that was never
  positioned, so whatever the directory holds, the result is the empty list without an error.
  When the bucket does not exist yet it panics on the nil cursor.
\<close>

lemma GetTDs_always_empty:
  assumes "bucket_service_cursors S content cents cpos" and "0 < limit" and "limit < 2 ^ 63" and "offset < 2 ^ 63"
    and "bk_Cursor S TDBucketName None s = (res, s1)"
  shows "case res of
      Inr c \<Rightarrow> ReadDirectoryService_GetTDs S J offset limit s = Returns (([], None), s1)
    | Inl e \<Rightarrow> ReadDirectoryService_GetTDs S J offset limit s = Panics NilDereference"
proof (cases res)
  case (Inl e)
  with assms show ?thesis by (simp add: ReadDirectoryService_GetTDs_def)
next
  case (Inr c)
  note bc = bucket_service_cursors.axioms(2) [OF assms(1)]
  have "cpos c = None"
    using bucket_service_cursors.cursor_content [OF assms(1)] assms(5) Inr by blast
  moreover have pos: "to_uint n > 0" if "0 < n" "n < 2 ^ 63" for n
    using that by (simp add: to_uint_def)
  ultimately have sk: "cpos (skip_offset S offset c) = None"
    using bucket_cursors.cnextN_unpositioned [OF bc, of c "to_uint offset"] assms(4)
    by (auto simp: skip_offset_def)
  obtain docs where "fst (cu_NextN S (to_uint limit) (skip_offset S offset c)) = (docs, False)"
      "docs = None \<or> docs = Some []"
    using bucket_cursors.cnextN_unpositioned [OF bc sk pos [OF assms(2,3)]] by blast
  then have "(case docs of None \<Rightarrow> [] | Some d \<Rightarrow> d) = []"
      "\<exists>c'. cu_NextN S (to_uint limit) (skip_offset S offset c) = ((docs, False), c')"
    by (auto intro: prod.collapse [symmetric] simp: prod_eq_iff)
  with assms(2,5) Inr show ?thesis by (auto simp: ReadDirectoryService_GetTDs_def)
qed

lemma GetTDs_always_empty_witness:
  "\<exists>s1. ReadDirectoryService_GetTDs list_store demo_tj 0 10 dir_store = Returns (([], None), s1)"
proof -
  have cur: "bk_Cursor list_store TDBucketName None dir_store =
      (Inr (NewBBoltCursor None ''td'' (Some ([(''a1/t1'', ''x'')], None))), dir_store)"
    by (simp add: BoltStore_iface_def on_db_def BoltBucket_Cursor_def list_bbolt_def)
  from GetTDs_always_empty [OF ls.bucket_service_cursors_axioms _ _ _ cur, of 10 0 demo_tj] show ?thesis by simp
qed

text \<open>
  \<open>Release\<close> does not release: because the arguments are swapped, a client whose ID is not by
  accident a cursor key gets no error, the cursor stays in the cache and stays usable, and
  nothing is closed.
\<close>

lemma directory_Release_keeps_cursor:
  assumes "cc_view (rd_cache svc) key = Some (sender, c)" and "cc_view (rd_cache svc) sender = None"
  shows "ReadDirectoryService_Release S sender key svc = (None, svc)
    \<and> fst (CursorCache_Get now key sender True
        (rd_cache (snd (ReadDirectoryService_Release S sender key svc)))) = Inr c"
proof -
  have "mget (cursorsByKey (rd_cache svc)) sender = None" using assms(2) by (simp add: cc_view_def)
  then have "ReadDirectoryService_Release S sender key svc = (None, svc)"
    by (simp add: ReadDirectoryService_Release_def CursorCache_Release_def)
  with assms(1) show ?thesis by (simp add: CursorCache_Get_result)
qed

lemma directory_Release_keeps_cursor_witness:
  "ReadDirectoryService_Release list_store ''alice'' ''2'' dir_svc = (None, dir_svc)"
proof -
  have "cc_view (rd_cache dir_svc) ''alice'' = None"
    by (simp add: cc_view_def NewCursorCache_def CursorCache_Add_def FormatUint16_demo Let_def)
  from directory_Release_keeps_cursor [OF dir_svc_view this, of list_store 0] show ?thesis by blast
qed

end
