(* ===== verification/ThingDescription.thy ===== *)
theory ThingDescription
  imports Things
begin

text \<open>
  Model of the Thing Description documents, \<open>done_tool/things\<close>: \<open>TD.go\<close>, \<open>DataSchema.go\<close>,
  the affordances and forms, and \<open>InteractionOutput.go\<close>. A value of type \<open>interface{}\<close> that comes
  from or goes to JSON is a \<open>json\<close>. A map that may be nil is an option: a document that was
  decoded without the member has a nil map, and writing to it panics. An operation that returns a pointer into the
  document is modelled by the affordance it added. The vocabulary tables are arguments.
\<close>

section \<open>Data\<close>

datatype json =
    JNull
  | JBool bool
  | JNumber string                    \<comment> \<open>the literal\<close>
  | JString string
  | JArray "json list"
  | JObject "(string \<times> json) list"

abbreviation WoTDataTypeAnyURI :: string where "WoTDataTypeAnyURI \<equiv> ''anyURI''"
abbreviation WoTDataTypeArray :: string where "WoTDataTypeArray \<equiv> ''array''"
abbreviation WoTDataTypeBool :: string where "WoTDataTypeBool \<equiv> ''boolean''"
abbreviation WoTDataTypeDateTime :: string where "WoTDataTypeDateTime \<equiv> ''dateTime''"
abbreviation WoTDataTypeInteger :: string where "WoTDataTypeInteger \<equiv> ''integer''"
abbreviation WoTDataTypeUnsignedInt :: string where "WoTDataTypeUnsignedInt \<equiv> ''unsignedInt''"
abbreviation WoTDataTypeNumber :: string where "WoTDataTypeNumber \<equiv> ''number''"
abbreviation WoTDataTypeObject :: string where "WoTDataTypeObject \<equiv> ''object''"
abbreviation WoTDataTypeString :: string where "WoTDataTypeString \<equiv> ''string''"
abbreviation (input) WoTDataTypeNone :: string where "WoTDataTypeNone \<equiv> ''''"
abbreviation WoTNoSecurityScheme :: string where "WoTNoSecurityScheme \<equiv> ''NoSecurityScheme''"
abbreviation ActionDimmer :: string where "ActionDimmer \<equiv> ''ht:action:dimmer''"
abbreviation ActionSwitchOnOff :: string where "ActionSwitchOnOff \<equiv> ''ht:action:switch:onoff''"
abbreviation PropEnv :: string where "PropEnv \<equiv> ''ht:prop:env''"
abbreviation PropSwitchDimmer :: string where "PropSwitchDimmer \<equiv> ''ht:prop:switch:dimmer''"
abbreviation PropSwitchOnOff :: string where "PropSwitchOnOff \<equiv> ''ht:prop:switch:onoff''"

datatype DataSchema = DataSchema
  (ds_AtType: string) (ds_Title: string) (ds_Titles: "string list") (ds_Description: string) (ds_Descriptions: "string list")
  (ds_Const: "json option") (ds_Default: "json option") (ds_Format: string) (ds_OneOf: "DataSchema list") (ds_Enum: "json list")
  (ds_ReadOnly: bool) (ds_WriteOnly: bool) (ds_Type: string) (ds_Unit: string)
  (ds_ArrayItems: "json option") (ds_ArrayMinItems: nat) (ds_ArrayMaxItems: nat)
  (ds_NumberMaximum: json) (ds_NumberMinimum: json)
  (ds_Properties: "(string \<times> DataSchema) list") (ds_PropertiesRequired: "string list")
  (ds_StringMaxLength: nat) (ds_StringMinLength: nat) (ds_StringPattern: string)
  (ds_StringContentEncoding: string) (ds_StringContentMediaType: string)

text \<open>A schema literal with the fields the code sets, the others zero.\<close>

definition schema_of :: "string \<Rightarrow> string \<Rightarrow> string \<Rightarrow> bool \<Rightarrow> json list \<Rightarrow> DataSchema" where
  "schema_of atType title ty readOnly enum =
     DataSchema atType title [] [] [] None None [] [] enum readOnly False ty [] None 0 0 (JNumber ''0'') (JNumber ''0'') [] []
       0 0 [] [] []"

fun DataSchema_SetEnumValues :: "DataSchema list \<Rightarrow> DataSchema \<Rightarrow> DataSchema" where
  "DataSchema_SetEnumValues vals (DataSchema a t ts d dss c df f oo e ro wo ty u ai an ax nx nn p pr sx sn sp ce cm) =
     DataSchema a t ts d dss c df f vals e ro wo ty u ai an ax nx nn p pr sx sn sp ce cm"

text \<open>\<open>units\<close> gives the symbol of a unit of the vocabulary.\<close>

definition DataSchema_UnitSymbol :: "(string, string) gomap \<Rightarrow> DataSchema \<Rightarrow> string" where
  "DataSchema_UnitSymbol units ds =
     (if ds_Unit ds = [] then []
      else case mget units (ds_Unit ds) of None \<Rightarrow> ds_Unit ds | Some symbol \<Rightarrow> symbol)"

record Form =
  fm_Href :: string
  fm_ContentType :: string
  fm_Op :: string

record SecurityScheme =
  ss_AtType :: "string list"
  ss_Description :: string
  ss_Descriptions :: "string list"
  ss_Proxy :: string
  ss_Scheme :: string

record ActionAffordance =
  aa_ActionType :: string
  aa_Title :: string
  aa_Titles :: "string list"
  aa_Description :: string
  aa_Descriptions :: "string list"
  aa_Forms :: "Form list"
  aa_UriVariables :: "(string, DataSchema) gomap"
  aa_Input :: "DataSchema option"
  aa_Output :: "DataSchema option"
  aa_Safe :: bool
  aa_Idempotent :: bool

record EventAffordance =
  ea_EventType :: string
  ea_Title :: string
  ea_Titles :: "string list"
  ea_Description :: string
  ea_Descriptions :: "string list"
  ea_Forms :: "Form list"
  ea_UriVariables :: "(string, DataSchema) gomap"
  ea_Data :: "DataSchema option"

datatype PropertyAffordance = PropertyAffordance
  (pa_DataSchema: DataSchema) (pa_Forms: "Form list") (pa_UriVariables: "(string \<times> DataSchema) list")
  (pa_Properties: "(string \<times> PropertyAffordance) list")

record TD =
  td_AtContext :: "json list"
  td_AtType :: string
  td_AtTypes :: string
  td_Created :: string
  td_Description :: string
  td_Descriptions :: "string list"
  td_ID :: string
  td_Modified :: string
  td_Support :: string
  td_Title :: string
  td_Titles :: "(string, string) gomap"
  td_Properties :: "(string, PropertyAffordance) gomap option"
  td_Actions :: "(string, ActionAffordance) gomap option"
  td_Events :: "(string, EventAffordance) gomap option"
  td_Forms :: "Form list"
  td_Security :: string
  td_SecurityDefinitions :: "(string, SecurityScheme) gomap"

section \<open>Building a document\<close>

text \<open>\<open>now\<close> is the formatted current time.\<close>

definition NewTD :: "string \<Rightarrow> string \<Rightarrow> string \<Rightarrow> string \<Rightarrow> TD" where
  "NewTD now thingID title deviceType =
     \<lparr>td_AtContext = [JString ''https://www.w3.org/2022/wot/td/v1.1'',
        JObject [(''ht'', JString ''https://www.hiveot.net/vocab/v0.1'')]],
      td_AtType = deviceType, td_AtTypes = [], td_Created = now, td_Description = [], td_Descriptions = [], td_ID = thingID,
      td_Modified = now, td_Support = [], td_Title = title, td_Titles = [], td_Properties = Some [], td_Actions = Some [],
      td_Events = Some [], td_Forms = [], td_Security = WoTNoSecurityScheme, td_SecurityDefinitions = []\<rparr>"

definition TD_UpdateAction :: "string \<Rightarrow> ActionAffordance \<Rightarrow> TD \<Rightarrow> TD outcome" where
  "TD_UpdateAction name affordance tdoc =
     (case td_Actions tdoc of None \<Rightarrow> Panics NilMapWrite | Some m \<Rightarrow> Returns (tdoc\<lparr>td_Actions := Some (mput name affordance m)\<rparr>))"

definition TD_UpdateEvent :: "string \<Rightarrow> EventAffordance \<Rightarrow> TD \<Rightarrow> TD outcome" where
  "TD_UpdateEvent name affordance tdoc =
     (case td_Events tdoc of None \<Rightarrow> Panics NilMapWrite | Some m \<Rightarrow> Returns (tdoc\<lparr>td_Events := Some (mput name affordance m)\<rparr>))"

definition TD_UpdateProperty :: "string \<Rightarrow> PropertyAffordance \<Rightarrow> TD \<Rightarrow> TD outcome" where
  "TD_UpdateProperty name affordance tdoc =
     (case td_Properties tdoc of None \<Rightarrow> Panics NilMapWrite
      | Some m \<Rightarrow> Returns (tdoc\<lparr>td_Properties := Some (mput name affordance m)\<rparr>))"

definition TD_UpdateForms :: "Form list \<Rightarrow> TD \<Rightarrow> TD" where
  "TD_UpdateForms formList tdoc = tdoc\<lparr>td_Forms := formList\<rparr>"

definition TD_UpdateTitleDescription :: "string \<Rightarrow> string \<Rightarrow> TD \<Rightarrow> TD" where
  "TD_UpdateTitleDescription title description tdoc = tdoc\<lparr>td_Title := title, td_Description := description\<rparr>"

definition TD_AddAction :: "string \<Rightarrow> string \<Rightarrow> string \<Rightarrow> string \<Rightarrow> DataSchema option \<Rightarrow> TD \<Rightarrow> TD outcome" where
  "TD_AddAction name actionType title description input tdoc =
     TD_UpdateAction name \<lparr>aa_ActionType = actionType, aa_Title = title, aa_Titles = [], aa_Description = description,
       aa_Descriptions = [], aa_Forms = [], aa_UriVariables = [], aa_Input = input, aa_Output = None, aa_Safe = False,
       aa_Idempotent = False\<rparr> tdoc"

definition TD_AddEvent :: "string \<Rightarrow> string \<Rightarrow> string \<Rightarrow> string \<Rightarrow> DataSchema option \<Rightarrow> TD \<Rightarrow> TD outcome" where
  "TD_AddEvent eventID eventType title description schema tdoc =
     TD_UpdateEvent (if eventID = [] then eventType else eventID)
       \<lparr>ea_EventType = eventType, ea_Title = title, ea_Titles = [], ea_Description = description, ea_Descriptions = [],
        ea_Forms = [], ea_UriVariables = [], ea_Data = schema\<rparr> tdoc"

definition TD_AddProperty :: "string \<Rightarrow> string \<Rightarrow> string \<Rightarrow> string \<Rightarrow> TD \<Rightarrow> TD outcome" where
  "TD_AddProperty propID propType title dataType tdoc =
     TD_UpdateProperty (if propID = [] then propType else propID)
       (PropertyAffordance (schema_of propType title dataType True []) [] [] []) tdoc"

definition TD_AddPropertyAsString :: "string \<Rightarrow> string \<Rightarrow> string \<Rightarrow> TD \<Rightarrow> TD outcome" where
  "TD_AddPropertyAsString name propType title tdoc = TD_AddProperty name propType title WoTDataTypeString tdoc"

definition TD_AddPropertyAsBool :: "string \<Rightarrow> string \<Rightarrow> string \<Rightarrow> TD \<Rightarrow> TD outcome" where
  "TD_AddPropertyAsBool name propType title tdoc = TD_AddProperty name propType title WoTDataTypeBool tdoc"

definition TD_AddPropertyAsInt :: "string \<Rightarrow> string \<Rightarrow> string \<Rightarrow> TD \<Rightarrow> TD outcome" where
  "TD_AddPropertyAsInt name propType title tdoc = TD_AddProperty name propType title WoTDataTypeInteger tdoc"

definition TD_AddDimmerAction :: "string \<Rightarrow> TD \<Rightarrow> TD outcome" where
  "TD_AddDimmerAction actionID tdoc =
     TD_AddAction actionID ActionDimmer [] [] (Some (schema_of ActionDimmer [] WoTDataTypeInteger False [])) tdoc"

definition TD_AddDimmerEvent :: "string \<Rightarrow> TD \<Rightarrow> TD outcome" where
  "TD_AddDimmerEvent eventID tdoc =
     TD_AddEvent eventID PropSwitchDimmer [] [] (Some (schema_of PropSwitchDimmer [] WoTDataTypeInteger False [])) tdoc"

definition TD_AddSwitchAction :: "string \<Rightarrow> string \<Rightarrow> TD \<Rightarrow> TD outcome" where
  "TD_AddSwitchAction actionID title tdoc =
     TD_AddAction actionID ActionSwitchOnOff title []
       (Some (schema_of ActionSwitchOnOff [] WoTDataTypeBool False [JString ''on'', JString ''off''])) tdoc"

definition TD_AddSwitchEvent :: "string \<Rightarrow> string \<Rightarrow> TD \<Rightarrow> TD outcome" where
  "TD_AddSwitchEvent eventID title tdoc =
     TD_AddEvent eventID PropSwitchOnOff title []
       (Some (schema_of PropSwitchOnOff [] WoTDataTypeBool False [JString ''on'', JString ''off''])) tdoc"

definition TD_AddSensorEvent :: "string \<Rightarrow> string \<Rightarrow> TD \<Rightarrow> TD outcome" where
  "TD_AddSensorEvent eventID title tdoc =
     TD_AddEvent eventID PropEnv title [] (Some (schema_of PropEnv [] WoTDataTypeNumber False [])) tdoc"

section \<open>Reading a document\<close>

abbreviation nil_get :: "('k, 'v) gomap option \<Rightarrow> 'k \<Rightarrow> 'v option" where
  "nil_get m k \<equiv> (case m of None \<Rightarrow> None | Some m \<Rightarrow> mget m k)"

definition TD_GetAction :: "string \<Rightarrow> TD \<Rightarrow> ActionAffordance option" where
  "TD_GetAction name tdoc = nil_get (td_Actions tdoc) name"

definition TD_GetEvent :: "string \<Rightarrow> TD \<Rightarrow> EventAffordance option" where
  "TD_GetEvent name tdoc = nil_get (td_Events tdoc) name"

definition TD_GetProperty :: "string \<Rightarrow> TD \<Rightarrow> PropertyAffordance option" where
  "TD_GetProperty key tdoc = nil_get (td_Properties tdoc) key"

definition TD_GetPropertyOfType :: "string \<Rightarrow> TD \<Rightarrow> string \<times> PropertyAffordance option" where
  "TD_GetPropertyOfType atType tdoc =
     (case find (\<lambda>(propID, prop). ds_AtType (pa_DataSchema prop) = atType)
             (case td_Properties tdoc of None \<Rightarrow> [] | Some m \<Rightarrow> m) of
        Some (propID, prop) \<Rightarrow> (propID, Some prop)
      | None \<Rightarrow> ([], None))"

definition TD_GetID :: "TD \<Rightarrow> string" where
  "TD_GetID tdoc = td_ID tdoc"

text \<open>\<open>classes\<close> gives the title of a Thing class of the vocabulary.\<close>

definition TD_GetAtTypeVocab :: "(string, string) gomap \<Rightarrow> TD \<Rightarrow> string" where
  "TD_GetAtTypeVocab classes tdoc =
     (case mget classes (td_AtType tdoc) of None \<Rightarrow> td_AtType tdoc | Some title \<Rightarrow> title)"

section \<open>Interaction output\<close>

text \<open>
  \<open>json_lib\<close>: parsing of a JSON text into any value, and into the types the code asks for (the value left in the
  variable and the error), marshalling, and \<open>fmt.Sprint\<close> of a value.
\<close>

record json_lib =
  jl_Any :: "string \<Rightarrow> go_error + json"
  jl_Bool :: "string \<Rightarrow> bool \<times> go_error option"
  jl_Int :: "string \<Rightarrow> int \<times> go_error option"
  jl_Array :: "string \<Rightarrow> json list"
  jl_Map :: "string \<Rightarrow> (string, json) gomap \<times> go_error option"
  jl_Marshal :: "json \<Rightarrow> string"
  jl_Sprint :: "json \<Rightarrow> string"

record InteractionOutput =
  io_Schema :: "DataSchema option"
  io_serEncoded :: "string option"
  io_Value :: "json option"           \<comment> \<open>\<open>None\<close> is nil\<close>

definition InteractionOutput_ValueAsArray :: "json_lib \<Rightarrow> InteractionOutput \<Rightarrow> json list" where
  "InteractionOutput_ValueAsArray L out = jl_Array L (bytes_of (io_serEncoded out))"

definition InteractionOutput_ValueAsString :: "json_lib \<Rightarrow> InteractionOutput \<Rightarrow> string" where
  "InteractionOutput_ValueAsString L out =
     (let val = (case io_Value out of None \<Rightarrow> JNull | Some v \<Rightarrow> v);
          s = (case io_serEncoded out of None \<Rightarrow> val
               | Some d \<Rightarrow> (case jl_Any L d of Inl err \<Rightarrow> val | Inr v \<Rightarrow> v))
      in jl_Sprint L s)"

definition InteractionOutput_ValueAsBoolean :: "json_lib \<Rightarrow> InteractionOutput \<Rightarrow> bool" where
  "InteractionOutput_ValueAsBoolean L out = fst (jl_Bool L (bytes_of (io_serEncoded out)))"

definition InteractionOutput_ValueAsInt :: "json_lib \<Rightarrow> InteractionOutput \<Rightarrow> int" where
  "InteractionOutput_ValueAsInt L out =
     (if io_Value out = Some (JString ''true'') \<or> io_Value out = Some (JBool True) then 1
      else if io_Value out = Some (JString ''false'') \<or> io_Value out = Some (JBool False) then 0
      else fst (jl_Int L (bytes_of (io_serEncoded out))))"

definition InteractionOutput_ValueAsMap :: "json_lib \<Rightarrow> InteractionOutput \<Rightarrow> (string, json) gomap" where
  "InteractionOutput_ValueAsMap L out = fst (jl_Map L (bytes_of (io_serEncoded out)))"

text \<open>
  For an object schema the decoded map is assigned to a variable of the inner block, and the value of the output stays nil.
\<close>

definition NewInteractionOutputFromJson :: "json_lib \<Rightarrow> string option \<Rightarrow> DataSchema option \<Rightarrow> InteractionOutput" where
  "NewInteractionOutputFromJson L jsonEncoded schema =
     \<lparr>io_Schema = schema, io_serEncoded = jsonEncoded,
      io_Value = (if (case schema of Some s \<Rightarrow> ds_Type s = WoTDataTypeObject | None \<Rightarrow> False) then None
        else (case jl_Any L (bytes_of jsonEncoded) of
                Inr v \<Rightarrow> if v = JNull then None else Some v
              | Inl err \<Rightarrow> Some (JString (bytes_of jsonEncoded))))\<rparr>"

definition NewInteractionOutput :: "json_lib \<Rightarrow> json \<Rightarrow> DataSchema option \<Rightarrow> InteractionOutput" where
  "NewInteractionOutput L data schema =
     \<lparr>io_Schema = schema, io_serEncoded = Some (jl_Marshal L data), io_Value = (if data = JNull then None else Some data)\<rparr>"

end
