(* ===== verification/DirectoryRpc.thy ===== *)
theory DirectoryRpc
  imports DirectoryProps RpcCall ThingDescription
begin

text \<open>
  The directory service on the message bus: the messages of \<open>done_mod/mod_dir/dir_api\<close>, the method tables and the start
  of \<open>dir_srv\<close>, and the clients of \<open>dir_cli\<close>. The capabilities to read and to update share the bucket, so both work on
  the state \<open>ReadDirectoryService\<close>.
\<close>

section \<open>Messages\<close>

abbreviation DirectoryServiceName :: string where "DirectoryServiceName \<equiv> ''directory''"
abbreviation ReadDirectoryCap :: string where "ReadDirectoryCap \<equiv> ''readDirectory''"
abbreviation UpdateDirectoryCap :: string where "UpdateDirectoryCap \<equiv> ''updateDirectory''"

text \<open>
  \<open>CursorFirstResp\<close> and \<open>CursorNextResp\<close> have the same fields, and the client reads both as the first. A nil pointer is
  marshalled too, and leaves the zero value at the receiver.
\<close>

datatype dir_message =
    CursorFirstArgs string
  | CursorNextArgs string
  | CursorNextNArgs string nat
  | CursorReleaseArgs string
  | GetTDArgs string string
  | GetTDsArgs int int
  | RemoveTDArgs string string
  | UpdateTDArgs string string "string option"
  | CursorResp "dir_cursor_resp option"
  | CursorNResp "dir_cursorN_resp option"
  | GetCursorResp "string option"
  | GetTDResp ThingValue
  | GetTDsResp "ThingValue list"
  | DirPermissionsArgs string "string list"

fun dir_message_type :: "dir_message \<Rightarrow> nat" where
  "dir_message_type (CursorFirstArgs _) = 0"
| "dir_message_type (CursorNextArgs _) = 1"
| "dir_message_type (CursorNextNArgs _ _) = 2"
| "dir_message_type (CursorReleaseArgs _) = 3"
| "dir_message_type (GetTDArgs _ _) = 4"
| "dir_message_type (GetTDsArgs _ _) = 5"
| "dir_message_type (RemoveTDArgs _ _) = 6"
| "dir_message_type (UpdateTDArgs _ _ _) = 7"
| "dir_message_type (CursorResp _) = 8"
| "dir_message_type (CursorNResp _) = 9"
| "dir_message_type (GetCursorResp _) = 10"
| "dir_message_type (GetTDResp _) = 11"
| "dir_message_type (GetTDsResp _) = 12"
| "dir_message_type (DirPermissionsArgs _ _) = 13"

section \<open>The service\<close>

text \<open>The clocks may show another time at each request: the time of a use of a cursor, and that of a value in milliseconds.\<close>

record ('s, 'cur) dir_env =
  de_json :: tv_json
  de_clock :: "('s, 'cur) ReadDirectoryService \<Rightarrow> int"
  de_msec :: "('s, 'cur) ReadDirectoryService \<Rightarrow> int"

type_synonym ('s, 'cur) dir_results = "dir_message rpc_result list outcome \<times> ('s, 'cur) ReadDirectoryService"
type_synonym ('s, 'cur) dir_method = "(dir_message, ('s, 'cur) ReadDirectoryService) rpc_method"

text \<open>Reflection calls a method with arguments of its parameter types only; the last equation is never used.\<close>

fun dir_call ::
  "('s, 'cur) IBucketStore \<Rightarrow> ('s, 'cur) dir_env \<Rightarrow> dir_message rpc_arg list \<Rightarrow> ('s, 'cur) ReadDirectoryService \<Rightarrow> ('s, 'cur) dir_results" where
  "dir_call S E [ContextArg c, ValueArg (CursorFirstArgs key)] svc =
     (case ReadDirectoryService_First S (de_json E) (de_clock E svc) c key svc of
        ((resp, e), svc1) \<Rightarrow> (Returns [ValueResult (CursorResp resp), err_result e], svc1))"
| "dir_call S E [ContextArg c, ValueArg (CursorNextArgs key)] svc =
     (case ReadDirectoryService_Next S (de_json E) (de_clock E svc) c key svc of
        ((resp, e), svc1) \<Rightarrow> (Returns [ValueResult (CursorResp resp), err_result e], svc1))"
| "dir_call S E [ContextArg c, ValueArg (CursorNextNArgs key limit)] svc =
     (case ReadDirectoryService_NextN S (de_json E) (de_clock E svc) c key limit svc of
        ((resp, e), svc1) \<Rightarrow> (Returns [ValueResult (CursorNResp resp), err_result e], svc1))"
| "dir_call S E [ContextArg c, ValueArg (CursorReleaseArgs key)] svc =
     (case ReadDirectoryService_Release S c key svc of (e, svc1) \<Rightarrow> (Returns [err_result e], svc1))"
| "dir_call S E [ContextArg c, ValueArg (GetTDArgs a t)] svc =
     (case ReadDirectoryService_GetTD S (de_json E) a t (rd_store svc) of
        (tv, e, s) \<Rightarrow> (Returns [ValueResult (GetTDResp tv), err_result e], svc\<lparr>rd_store := s\<rparr>))"
| "dir_call S E [ContextArg c, ValueArg (GetTDsArgs offset limit)] svc =
     (case ReadDirectoryService_GetTDs S (de_json E) offset limit (rd_store svc) of
        Panics p \<Rightarrow> (Panics p, svc)
      | Returns ((batch, e), s) \<Rightarrow> (Returns [ValueResult (GetTDsResp batch), err_result e], svc\<lparr>rd_store := s\<rparr>))"
| "dir_call S E [ContextArg c, ValueArg (RemoveTDArgs a t)] svc =
     (case UpdateDirectoryService_RemoveTD S a t (rd_store svc) of (e, s) \<Rightarrow> (Returns [err_result e], svc\<lparr>rd_store := s\<rparr>))"
| "dir_call S E [ContextArg c, ValueArg (UpdateTDArgs a t doc)] svc =
     (case UpdateDirectoryService_UpdateTD S (de_json E) (de_msec E svc) c a t doc (rd_store svc) of
        (e, s) \<Rightarrow> (Returns [err_result e], svc\<lparr>rd_store := s\<rparr>))"
| "dir_call S E [ContextArg c] svc =
     (case ReadDirectoryService_GetCursor S c svc of
        (Inl e, svc1) \<Rightarrow> (Returns [ValueResult (GetCursorResp None), ErrorResult e], svc1)
      | (Inr key, svc1) \<Rightarrow> (Returns [ValueResult (GetCursorResp (Some key)), NilResult], svc1))"
| "dir_call S E argv svc = (Returns [], svc)"

definition dir_method :: "('s, 'cur) IBucketStore \<Rightarrow> ('s, 'cur) dir_env \<Rightarrow> nat \<Rightarrow> ('s, 'cur) dir_method" where
  "dir_method S E ty = \<lparr>rm_params = [ContextParam, ValueParam ty], rm_call = dir_call S E\<rparr>"

definition ReadDirectoryService_methods :: "('s, 'cur) IBucketStore \<Rightarrow> ('s, 'cur) dir_env \<Rightarrow> (string, ('s, 'cur) dir_method) gomap" where
  "ReadDirectoryService_methods S E =
     [(''cursorFirst'', dir_method S E 0), (''cursorNext'', dir_method S E 1), (''cursorNextN'', dir_method S E 2),
      (''cursorRelease'', dir_method S E 3), (''getCursor'', \<lparr>rm_params = [ContextParam], rm_call = dir_call S E\<rparr>),
      (''getTD'', dir_method S E 4), (''getTDs'', dir_method S E 5)]"

definition UpdateDirectoryService_methods :: "('s, 'cur) IBucketStore \<Rightarrow> ('s, 'cur) dir_env \<Rightarrow> (string, ('s, 'cur) dir_method) gomap" where
  "UpdateDirectoryService_methods S E = [(''updateTD'', dir_method S E 7), (''removeTD'', dir_method S E 6)]"

type_synonym ('s, 'cur) dir_hub = "(dir_message, ('s, 'cur) ReadDirectoryService) HubClient"

text \<open>The service starts with an empty cursor cache; \<open>StartReadDirectoryService\<close> returns it on the store it was given.\<close>

definition StartReadDirectoryService ::
  "'w hub_transport \<Rightarrow> ('s, 'cur) IBucketStore \<Rightarrow> ('s, 'cur) dir_env \<Rightarrow> 's \<Rightarrow> ('s, 'cur) dir_hub \<Rightarrow> 'w
     \<Rightarrow> ('s, 'cur) ReadDirectoryService \<times> ('s, 'cur) dir_hub \<times> 'w" where
  "StartReadDirectoryService tp S E s hc w =
     (\<lparr>rd_store = s, rd_cache = NewCursorCache\<rparr>, HubClient_SetRPCCapability tp ReadDirectoryCap (ReadDirectoryService_methods S E) hc w)"

definition StartUpdateDirectoryService ::
  "'w hub_transport \<Rightarrow> ('s, 'cur) IBucketStore \<Rightarrow> ('s, 'cur) dir_env \<Rightarrow> ('s, 'cur) dir_hub \<Rightarrow> 'w \<Rightarrow> ('s, 'cur) dir_hub \<times> 'w" where
  "StartUpdateDirectoryService tp S E hc w =
     HubClient_SetRPCCapability tp UpdateDirectoryCap (UpdateDirectoryService_methods S E) hc w"

definition CreateReadDirTD :: "string \<Rightarrow> TD" where
  "CreateReadDirTD now = NewTD now ReadDirectoryCap ''Thing Directory Reader'' ''ht:thing:service:directory''"

definition CreateUpdateDirTD :: "string \<Rightarrow> TD" where
  "CreateUpdateDirTD now = NewTD now UpdateDirectoryCap ''Thing Directory Updater'' ''ht:thing:service:directory''"

text \<open>The request that \<open>ProfileClient.SetServicePermissions\<close> sends for a service.\<close>

definition set_permissions ::
  "'w hub_transport \<Rightarrow> dir_message serializer \<Rightarrow> ('s, 'cur) dir_hub \<Rightarrow> string \<Rightarrow> string list \<Rightarrow> 'w \<Rightarrow> go_error option \<times> 'w" where
  "set_permissions tp ser hc cap roles w =
     (case HubClient_PubRPCRequest tp ser hc ''auth'' ''profile'' ''setServicePermissions'' (Some (DirPermissionsArgs cap roles)) None w of
        ((_, err), w1) \<Rightarrow> (err, w1))"

text \<open>
  The start: the error of the subscription to TD events is overwritten by that of the permissions. \<open>td_json\<close> is the
  JSON of a TD and \<open>now\<close> its time stamp.
\<close>

definition DirectoryService_Start ::
  "'w hub_transport \<Rightarrow> dir_message serializer \<Rightarrow> ('s, 'cur) IBucketStore \<Rightarrow> ('s, 'cur) dir_env \<Rightarrow> (TD \<Rightarrow> string) \<Rightarrow> string \<Rightarrow> 's
     \<Rightarrow> ('s, 'cur) dir_hub \<Rightarrow> 'w \<Rightarrow> go_error option \<times> ('s, 'cur) ReadDirectoryService \<times> ('s, 'cur) dir_hub \<times> 'w" where
  "DirectoryService_Start tp ser S E td_json now s hc w =
     (let (svc, hc1, w1) = StartReadDirectoryService tp S E (st_GetBucket S TDBucketName s) hc w;
          (hc2, w2) = StartUpdateDirectoryService tp S E hc1 w1;
          (hc3, w3) = HubClient_SetEventHandler tp
             (\<lambda>event svc. svc\<lparr>rd_store := DirectoryService_handleTDEvent S (de_json E) (de_msec E svc) event (rd_store svc)\<rparr>) hc2 w2;
          (_, w4) = HubClient_SubEvents tp [] [] EventNameTD w3
      in case set_permissions tp ser hc3 ReadDirectoryCap [''viewer'', ''operator'', ''manager'', ''admin'', ''service''] w4 of
           (Some err, w5) \<Rightarrow> (Some err, svc, hc3, w5)
         | (None, w5) \<Rightarrow>
             (case set_permissions tp ser hc3 UpdateDirectoryCap [''admin''] w5 of
                (Some err, w6) \<Rightarrow> (Some err, svc, hc3, w6)
              | (None, w6) \<Rightarrow>
                  (case HubClient_PubEvent tp hc3 UpdateDirectoryCap EventNameTD (Some (td_json (CreateUpdateDirTD now))) w6 of
                     (Some err, w7) \<Rightarrow> (Some err, svc, hc3, w7)
                   | (None, w7) \<Rightarrow>
                       (case HubClient_PubEvent tp hc3 ReadDirectoryCap EventNameTD (Some (td_json (CreateReadDirTD now))) w7 of
                          (err, w8) \<Rightarrow> (err, svc, hc3, w8)))))"

text \<open>\<open>Stop\<close> closes the bucket; stopping the two capabilities changes no state of theirs.\<close>

definition DirectoryService_Stop :: "('s, 'cur) IBucketStore \<Rightarrow> ('s, 'cur) ReadDirectoryService \<Rightarrow> ('s, 'cur) ReadDirectoryService" where
  "DirectoryService_Stop S svc = svc\<lparr>rd_store := snd (bk_Close S TDBucketName (rd_store svc))\<rparr>"

section \<open>The clients\<close>

type_synonym ('c, 'w) dir_link = "(dir_message, 'c, 'w) hub_link"

definition dir_rpc ::
  "('c, 'w) dir_link \<Rightarrow> string \<Rightarrow> string \<Rightarrow> dir_message option \<Rightarrow> nat option \<Rightarrow> 'w \<Rightarrow> (dir_message option \<times> go_error option) \<times> 'w" where
  "dir_rpc cl cap m req resp w =
     (case cl of (tp, ser, hc) \<Rightarrow> HubClient_PubRPCRequest tp ser hc DirectoryServiceName cap m req resp w)"

subsection \<open>Reading and updating\<close>

definition ReadDirectoryClient_GetTD :: "('c, 'w) dir_link \<Rightarrow> string \<Rightarrow> string \<Rightarrow> 'w \<Rightarrow> (ThingValue \<times> go_error option) \<times> 'w" where
  "ReadDirectoryClient_GetTD cl agentID thingID w =
     (case dir_rpc cl ReadDirectoryCap ''getTD'' (Some (GetTDArgs agentID thingID)) (Some 11) w of
        ((resp, err), w1) \<Rightarrow> ((case resp of Some (GetTDResp tv) \<Rightarrow> tv | _ \<Rightarrow> zero_tv, err), w1))"

definition ReadDirectoryClient_GetTDs :: "('c, 'w) dir_link \<Rightarrow> int \<Rightarrow> int \<Rightarrow> 'w \<Rightarrow> (ThingValue list \<times> go_error option) \<times> 'w" where
  "ReadDirectoryClient_GetTDs cl offset limit w =
     (case dir_rpc cl ReadDirectoryCap ''getTDs'' (Some (GetTDsArgs offset limit)) (Some 12) w of
        ((resp, err), w1) \<Rightarrow> ((case resp of Some (GetTDsResp tvs) \<Rightarrow> tvs | _ \<Rightarrow> [], err), w1))"

definition UpdateDirectoryClient_RemoveTD :: "('c, 'w) dir_link \<Rightarrow> string \<Rightarrow> string \<Rightarrow> 'w \<Rightarrow> go_error option \<times> 'w" where
  "UpdateDirectoryClient_RemoveTD cl agentID thingID w =
     (case dir_rpc cl UpdateDirectoryCap ''removeTD'' (Some (RemoveTDArgs agentID thingID)) None w of ((_, err), w1) \<Rightarrow> (err, w1))"

definition UpdateDirectoryClient_UpdateTD ::
  "('c, 'w) dir_link \<Rightarrow> string \<Rightarrow> string \<Rightarrow> string option \<Rightarrow> 'w \<Rightarrow> go_error option \<times> 'w" where
  "UpdateDirectoryClient_UpdateTD cl agentID thingID tdDoc w =
     (case dir_rpc cl UpdateDirectoryCap ''updateTD'' (Some (UpdateTDArgs agentID thingID tdDoc)) None w of ((_, err), w1) \<Rightarrow> (err, w1))"

subsection \<open>Cursors\<close>

record DirectoryCursorClient =
  dk_cursorKey :: string
  dk_capID :: string

definition NewDirectoryCursorClient :: "string \<Rightarrow> string \<Rightarrow> DirectoryCursorClient" where
  "NewDirectoryCursorClient capID cursorKey = \<lparr>dk_cursorKey = cursorKey, dk_capID = capID\<rparr>"

text \<open>The cursor is returned with the error, with an empty key if there was one.\<close>

definition ReadDirectoryClient_GetCursor ::
  "('c, 'w) dir_link \<Rightarrow> 'w \<Rightarrow> (DirectoryCursorClient \<times> go_error option) \<times> 'w" where
  "ReadDirectoryClient_GetCursor cl w =
     (case dir_rpc cl ReadDirectoryCap ''getCursor'' None (Some 10) w of
        ((resp, err), w1) \<Rightarrow>
          ((NewDirectoryCursorClient ReadDirectoryCap (case resp of Some (GetCursorResp (Some k)) \<Rightarrow> k | _ \<Rightarrow> []), err), w1))"

definition received_cursor :: "dir_message option \<Rightarrow> dir_cursor_resp" where
  "received_cursor resp =
     (case resp of Some (CursorResp (Some r)) \<Rightarrow> r | _ \<Rightarrow> \<lparr>dc_Value = zero_tv, dc_Valid = False, dc_CursorKey = []\<rparr>)"

text \<open>Every answer replaces the key of the cursor, also an error and an answer that is nil.\<close>

definition DirectoryCursorClient_First ::
  "('c, 'w) dir_link \<Rightarrow> DirectoryCursorClient \<Rightarrow> 'w \<Rightarrow> (ThingValue \<times> bool \<times> go_error option) \<times> DirectoryCursorClient \<times> 'w" where
  "DirectoryCursorClient_First cl cur w =
     (case dir_rpc cl (dk_capID cur) ''cursorFirst'' (Some (CursorFirstArgs (dk_cursorKey cur))) (Some 8) w of
        ((resp, err), w1) \<Rightarrow>
          ((dc_Value (received_cursor resp), dc_Valid (received_cursor resp), err),
           cur\<lparr>dk_cursorKey := dc_CursorKey (received_cursor resp)\<rparr>, w1))"

definition DirectoryCursorClient_Next ::
  "('c, 'w) dir_link \<Rightarrow> DirectoryCursorClient \<Rightarrow> 'w \<Rightarrow> (ThingValue \<times> bool \<times> go_error option) \<times> DirectoryCursorClient \<times> 'w" where
  "DirectoryCursorClient_Next cl cur w =
     (case dir_rpc cl (dk_capID cur) ''cursorNext'' (Some (CursorNextArgs (dk_cursorKey cur))) (Some 8) w of
        ((resp, err), w1) \<Rightarrow>
          ((dc_Value (received_cursor resp), dc_Valid (received_cursor resp), err),
           cur\<lparr>dk_cursorKey := dc_CursorKey (received_cursor resp)\<rparr>, w1))"

definition DirectoryCursorClient_NextN ::
  "('c, 'w) dir_link \<Rightarrow> nat \<Rightarrow> DirectoryCursorClient \<Rightarrow> 'w
     \<Rightarrow> (ThingValue list \<times> bool \<times> go_error option) \<times> DirectoryCursorClient \<times> 'w" where
  "DirectoryCursorClient_NextN cl limit cur w =
     (case dir_rpc cl (dk_capID cur) ''cursorNextN'' (Some (CursorNextNArgs (dk_cursorKey cur) limit)) (Some 9) w of
        ((resp, err), w1) \<Rightarrow>
          (case (case resp of Some (CursorNResp (Some r)) \<Rightarrow> r | _ \<Rightarrow> \<lparr>dn_Values = [], dn_ItemsRemaining = False, dn_CursorKey = []\<rparr>) of
             r \<Rightarrow> ((dn_Values r, dn_ItemsRemaining r, err), cur\<lparr>dk_cursorKey := dn_CursorKey r\<rparr>, w1)))"

definition DirectoryCursorClient_Release :: "('c, 'w) dir_link \<Rightarrow> DirectoryCursorClient \<Rightarrow> 'w \<Rightarrow> 'w" where
  "DirectoryCursorClient_Release cl cur w =
     snd (dir_rpc cl (dk_capID cur) ''cursorRelease'' (Some (CursorReleaseArgs (dk_cursorKey cur))) None w)"

end
