(* ===== verification/DirectoryRpcProps.thy ===== *)
theory DirectoryRpcProps
  imports DirectoryRpc
begin

text \<open>
  The directory as its users see it over the message bus: a Thing Description that an agent publishes is what a client
  reads, and a client that iterates a cursor gets the whole directory.
\<close>

section \<open>A running service\<close>

definition dir_running ::
  "(go_error \<Rightarrow> string) \<Rightarrow> ('s, 'cur) IBucketStore \<Rightarrow> ('s, 'cur) dir_env \<Rightarrow> ('s, 'cur) dir_hub \<Rightarrow> ('s, 'cur) ReadDirectoryService NatsTransport
     \<Rightarrow> (string \<Rightarrow> string option \<Rightarrow> ('s, 'cur) ReadDirectoryService \<Rightarrow> (go_error + nats_msg) \<times> ('s, 'cur) ReadDirectoryService)
     \<Rightarrow> ('c, ('s, 'cur) ReadDirectoryService) dir_link \<Rightarrow> bool" where
  "dir_running error_text S E agent nt Request cl \<longleftrightarrow>
     hc_clientID agent = DirectoryServiceName
     \<and> rpc_connected error_text ReadDirectoryCap (ReadDirectoryService_methods S E) agent nt Request cl
     \<and> rpc_connected error_text UpdateDirectoryCap (UpdateDirectoryService_methods S E) agent nt Request cl"

text \<open>A started service has its capabilities and handles TD events.\<close>

lemma DirectoryService_Start_serves:
  assumes "DirectoryService_Start tp ser S E td_json now s hc w = (err, svc, agent, w1)" "hc_rpcHandler hc = None"
  shows "serves ReadDirectoryCap (ReadDirectoryService_methods S E) agent
    \<and> serves UpdateDirectoryCap (UpdateDirectoryService_methods S E) agent \<and> hc_clientID agent = hc_clientID hc
    \<and> hc_eventHandler agent = Some (\<lambda>event svc. svc\<lparr>rd_store := DirectoryService_handleTDEvent S (de_json E) (de_msec E svc) event (rd_store svc)\<rparr>)
    \<and> svc = \<lparr>rd_store = st_GetBucket S TDBucketName s, rd_cache = NewCursorCache\<rparr>"
proof -
  obtain hc1 v1 where h1: "HubClient_SetRPCCapability tp ReadDirectoryCap (ReadDirectoryService_methods S E) hc w = (hc1, v1)" by fastforce
  obtain hc2 v2 where h2: "HubClient_SetRPCCapability tp UpdateDirectoryCap (UpdateDirectoryService_methods S E) hc1 v1 = (hc2, v2)" by fastforce
  note c = SetRPCCapability_client [of tp ReadDirectoryCap "ReadDirectoryService_methods S E" hc w, unfolded h1 fst_conv]
    SetRPCCapability_client [of tp UpdateDirectoryCap "UpdateDirectoryService_methods S E" hc1 v1, unfolded h2 fst_conv]
  have "svc = \<lparr>rd_store = st_GetBucket S TDBucketName s, rd_cache = NewCursorCache\<rparr>
      \<and> agent = hc2\<lparr>hc_eventHandler := Some (\<lambda>event svc. svc\<lparr>rd_store := DirectoryService_handleTDEvent S (de_json E) (de_msec E svc) event (rd_store svc)\<rparr>)\<rparr>"
    using assms(1) h1 h2
    by (auto simp: DirectoryService_Start_def StartReadDirectoryService_def StartUpdateDirectoryService_def HubClient_SetEventHandler_def
        Let_def split: prod.splits option.splits)
  then show ?thesis using c assms(2) by (simp add: serves_def mget_mput)
qed

definition dir_keeps :: "dir_message serializer \<Rightarrow> dir_message \<Rightarrow> bool" where
  "dir_keeps ser v \<longleftrightarrow> snd (ser_Marshal ser v) = None \<and> ser_Unmarshal ser (dir_message_type v) (fst (ser_Marshal ser v)) = Inr v"

lemma table_ser_dir_keeps: "v \<in> set msgs \<Longrightarrow> dir_keeps (table_ser msgs) v"
  using table_ser_roundtrip [of v msgs] by (simp add: dir_keeps_def)

text \<open>What a client gets for the results of a method.\<close>

definition told ::
  "(go_error \<Rightarrow> string) \<Rightarrow> dir_message serializer \<Rightarrow> nat option \<Rightarrow> ('s, 'cur) dir_results
     \<Rightarrow> (dir_message option \<times> go_error option) \<times> ('s, 'cur) ReadDirectoryService" where
  "told error_text ser resp r = rpc_outcome error_text ser resp (call_result ser r)"

lemma told_error [simp]: "told error_text ser None (Returns [err_result e], svc) = ((None, remote error_text e), svc)"
  by (simp add: told_def)

lemma told_value:
  "dir_keeps ser v \<Longrightarrow> told error_text ser (Some (dir_message_type v)) (Returns [ValueResult v, err_result e], svc)
     = ((if e = None then Some v else None, remote error_text e), svc)"
  by (simp add: told_def dir_keeps_def rpc_outcome_value)

lemma told_ok: "dir_keeps ser v \<Longrightarrow> told error_text ser (Some (dir_message_type v)) (Returns [ValueResult v, NilResult], svc) = ((Some v, None), svc)"
  using told_value [of ser v error_text None svc] by (simp add: remote_def)

lemma dir_rpc_call:
  assumes "dir_running error_text S E agent nt Request (tp, ser, client)" "\<And>e. error_text e \<noteq> []"
  shows "mget (ReadDirectoryService_methods S E) m = Some (dir_method S E (dir_message_type req)) \<Longrightarrow> dir_keeps ser req \<Longrightarrow> nats_token m
      \<Longrightarrow> dir_rpc (tp, ser, client) ReadDirectoryCap m (Some req) resp svc
        = told error_text ser resp (dir_call S E [ContextArg (hc_clientID client), ValueArg req] svc)"
    and "mget (UpdateDirectoryService_methods S E) m = Some (dir_method S E (dir_message_type req)) \<Longrightarrow> dir_keeps ser req \<Longrightarrow> nats_token m
      \<Longrightarrow> dir_rpc (tp, ser, client) UpdateDirectoryCap m (Some req) resp svc
        = told error_text ser resp (dir_call S E [ContextArg (hc_clientID client), ValueArg req] svc)"
    and "dir_rpc (tp, ser, client) ReadDirectoryCap ''getCursor'' None resp svc
        = told error_text ser resp (dir_call S E [ContextArg (hc_clientID client)] svc)"
proof -
  have r: "rpc_connected error_text ReadDirectoryCap (ReadDirectoryService_methods S E) agent nt Request (tp, ser, client)"
    and u: "rpc_connected error_text UpdateDirectoryCap (UpdateDirectoryService_methods S E) agent nt Request (tp, ser, client)"
    and a: "hc_clientID agent = DirectoryServiceName"
    using assms(1) by (simp_all add: dir_running_def)
  note defs = dir_rpc_def told_def dir_method_def dir_keeps_def a
  show "dir_rpc (tp, ser, client) ReadDirectoryCap m (Some req) resp svc
        = told error_text ser resp (dir_call S E [ContextArg (hc_clientID client), ValueArg req] svc)"
    if "mget (ReadDirectoryService_methods S E) m = Some (dir_method S E (dir_message_type req))" "dir_keeps ser req" "nats_token m"
    using rpc_value_call [OF r assms(2), of m "dir_message_type req" "dir_call S E" req resp svc] that
    by (simp add: defs address_token_def)
  show "dir_rpc (tp, ser, client) UpdateDirectoryCap m (Some req) resp svc
        = told error_text ser resp (dir_call S E [ContextArg (hc_clientID client), ValueArg req] svc)"
    if "mget (UpdateDirectoryService_methods S E) m = Some (dir_method S E (dir_message_type req))" "dir_keeps ser req" "nats_token m"
    using rpc_value_call [OF u assms(2), of m "dir_message_type req" "dir_call S E" req resp svc] that
    by (simp add: defs address_token_def)
  show "dir_rpc (tp, ser, client) ReadDirectoryCap ''getCursor'' None resp svc
        = told error_text ser resp (dir_call S E [ContextArg (hc_clientID client)] svc)"
    using rpc_context_call [OF r assms(2), of "''getCursor''" "dir_call S E" None resp svc]
    by (simp add: defs address_token_def ReadDirectoryService_methods_def)
qed

section \<open>Client operations\<close>

lemma GetTD_local:
  assumes "dir_running error_text S E agent nt Request (tp, ser, client)" "\<And>e. error_text e \<noteq> []"
    and "dir_keeps ser (GetTDArgs a t)" "dir_keeps ser (GetTDResp tv)"
    and "ReadDirectoryService_GetTD S (de_json E) a t (rd_store svc) = (tv, e, s)"
  shows "ReadDirectoryClient_GetTD (tp, ser, client) a t svc
    = ((if e = None then tv else zero_tv, remote error_text e), svc\<lparr>rd_store := s\<rparr>)"
  using dir_rpc_call(1) [OF assms(1,2), of "''getTD''" "GetTDArgs a t" "Some 11" svc] told_value [OF assms(4), of error_text e "svc\<lparr>rd_store := s\<rparr>"] assms(3,5)
  by (cases e) (simp_all add: ReadDirectoryClient_GetTD_def ReadDirectoryService_methods_def address_token_def)

lemma UpdateTD_local:
  assumes "dir_running error_text S E agent nt Request (tp, ser, client)" "\<And>e. error_text e \<noteq> []" "dir_keeps ser (UpdateTDArgs a t doc)"
  shows "UpdateDirectoryClient_UpdateTD (tp, ser, client) a t doc svc =
    (case UpdateDirectoryService_UpdateTD S (de_json E) (de_msec E svc) (hc_clientID client) a t doc (rd_store svc) of
       (e, s) \<Rightarrow> (remote error_text e, svc\<lparr>rd_store := s\<rparr>))"
  using dir_rpc_call(2) [OF assms(1,2), of "''updateTD''" "UpdateTDArgs a t doc" None svc] assms(3)
  by (simp add: UpdateDirectoryClient_UpdateTD_def UpdateDirectoryService_methods_def address_token_def split: prod.splits)

lemma RemoveTD_local:
  assumes "dir_running error_text S E agent nt Request (tp, ser, client)" "\<And>e. error_text e \<noteq> []" "dir_keeps ser (RemoveTDArgs a t)"
  shows "UpdateDirectoryClient_RemoveTD (tp, ser, client) a t svc =
    (case UpdateDirectoryService_RemoveTD S a t (rd_store svc) of (e, s) \<Rightarrow> (remote error_text e, svc\<lparr>rd_store := s\<rparr>))"
  using dir_rpc_call(2) [OF assms(1,2), of "''removeTD''" "RemoveTDArgs a t" None svc] assms(3)
  by (simp add: UpdateDirectoryClient_RemoveTD_def UpdateDirectoryService_methods_def address_token_def split: prod.splits)

lemma GetCursor_local:
  assumes "dir_running error_text S E agent nt Request (tp, ser, client)" "\<And>e. error_text e \<noteq> []"
    and "ReadDirectoryService_GetCursor S (hc_clientID client) svc = (Inr key, svc1)" "dir_keeps ser (GetCursorResp (Some key))"
  shows "ReadDirectoryClient_GetCursor (tp, ser, client) svc = ((NewDirectoryCursorClient ReadDirectoryCap key, None), svc1)"
  using dir_rpc_call(3) [OF assms(1,2), of "Some 10" svc] told_ok [OF assms(4), of error_text svc1] assms(3)
  by (simp add: ReadDirectoryClient_GetCursor_def)

text \<open>The cursor keeps its key with an answer and loses it with an error or a nil answer.\<close>

abbreviation cursor_answer :: "(go_error \<Rightarrow> string) \<Rightarrow> dir_cursor_resp option \<Rightarrow> go_error option \<Rightarrow> ThingValue \<times> bool \<times> go_error option" where
  "cursor_answer error_text resp e \<equiv>
     (let r = received_cursor (if e = None then Some (CursorResp resp) else None) in (dc_Value r, dc_Valid r, remote error_text e))"

abbreviation dir_cursor_client :: "string \<Rightarrow> DirectoryCursorClient" where
  "dir_cursor_client key \<equiv> NewDirectoryCursorClient ReadDirectoryCap key"

lemma First_local:
  assumes "dir_running error_text S E agent nt Request (tp, ser, client)" "\<And>e. error_text e \<noteq> []"
    and "ReadDirectoryService_First S (de_json E) (de_clock E svc) (hc_clientID client) key svc = ((resp, e), svc1)"
    and "dir_keeps ser (CursorFirstArgs key)" "dir_keeps ser (CursorResp resp)"
  shows "DirectoryCursorClient_First (tp, ser, client) (dir_cursor_client key) svc
    = (cursor_answer error_text resp e,
       dir_cursor_client (dc_CursorKey (received_cursor (if e = None then Some (CursorResp resp) else None))), svc1)"
  using dir_rpc_call(1) [OF assms(1,2), of "''cursorFirst''" "CursorFirstArgs key" "Some 8" svc] told_value [OF assms(5), of error_text e svc1] assms(3,4)
  by (cases e) (simp_all add: DirectoryCursorClient_First_def NewDirectoryCursorClient_def ReadDirectoryService_methods_def address_token_def Let_def)

lemma Next_local:
  assumes "dir_running error_text S E agent nt Request (tp, ser, client)" "\<And>e. error_text e \<noteq> []"
    and "ReadDirectoryService_Next S (de_json E) (de_clock E svc) (hc_clientID client) key svc = ((resp, e), svc1)"
    and "dir_keeps ser (CursorNextArgs key)" "dir_keeps ser (CursorResp resp)"
  shows "DirectoryCursorClient_Next (tp, ser, client) (dir_cursor_client key) svc
    = (cursor_answer error_text resp e,
       dir_cursor_client (dc_CursorKey (received_cursor (if e = None then Some (CursorResp resp) else None))), svc1)"
  using dir_rpc_call(1) [OF assms(1,2), of "''cursorNext''" "CursorNextArgs key" "Some 8" svc] told_value [OF assms(5), of error_text e svc1] assms(3,4)
  by (cases e) (simp_all add: DirectoryCursorClient_Next_def NewDirectoryCursorClient_def ReadDirectoryService_methods_def address_token_def Let_def)

section \<open>Reading the whole directory\<close>

text \<open>The loop of a client: \<open>First\<close>, then \<open>Next\<close> until the answer is not valid or an error.\<close>

fun read_next :: "('c, 'w) dir_link \<Rightarrow> nat \<Rightarrow> DirectoryCursorClient \<Rightarrow> 'w \<Rightarrow> ThingValue list \<times> go_error option" where
  "read_next cl 0 cur w = ([], None)"
| "read_next cl (Suc n) cur w =
     (case DirectoryCursorClient_Next cl cur w of
        ((tv, valid, err), cur1, w1) \<Rightarrow>
          if err \<noteq> None \<or> \<not> valid then ([], err) else (case read_next cl n cur1 w1 of (vals, e) \<Rightarrow> (tv # vals, e)))"

definition read_directory :: "('c, 'w) dir_link \<Rightarrow> nat \<Rightarrow> 'w \<Rightarrow> ThingValue list \<times> go_error option" where
  "read_directory cl n w =
     (case ReadDirectoryClient_GetCursor cl w of
        ((cur, Some e), w1) \<Rightarrow> ([], Some e)
      | ((cur, None), w1) \<Rightarrow>
          (case DirectoryCursorClient_First cl cur w1 of
             ((tv, valid, err), cur1, w2) \<Rightarrow>
               if err \<noteq> None \<or> \<not> valid then ([], err) else (case read_next cl n cur1 w2 of (vals, e) \<Rightarrow> (tv # vals, e))))"

text \<open>The messages of such a loop.\<close>

abbreviation found_resp :: "tv_json \<Rightarrow> string \<Rightarrow> string \<times> string \<Rightarrow> dir_message" where
  "found_resp J key kv \<equiv> CursorResp (Some \<lparr>dc_Value = stored_td J kv, dc_Valid = True, dc_CursorKey = key\<rparr>)"

abbreviation loop_msgs :: "string \<Rightarrow> dir_message list" where
  "loop_msgs key \<equiv> [GetCursorResp (Some key), CursorFirstArgs key, CursorNextArgs key, CursorResp None,
     CursorResp (Some \<lparr>dc_Value = zero_tv, dc_Valid = False, dc_CursorKey = key\<rparr>)]"

context bucket_cursors
begin

lemma read_next_all:
  assumes run: "dir_running error_text S E agent nt Request (tp, ser, client)" "\<And>e. error_text e \<noteq> []"
    and msgs: "list_all (dir_keeps ser) (loop_msgs key)"
    and docs: "\<forall>kv \<in> set (cents c). length (strings_Split (fst kv) sl) \<ge> 2 \<and> dir_keeps ser (found_resp (de_json E) key kv)"
    and "cc_view (rd_cache svc) key = Some (hc_clientID client, c)" "cpos c = Some i" "length (cents c) \<le> Suc i + n"
  shows "read_next (tp, ser, client) (Suc n) (dir_cursor_client key) svc = (map (stored_td (de_json E)) (drop (Suc i) (cents c)), None)"
  using docs assms(5-7)
proof (induction n arbitrary: svc c i)
  case 0
  then obtain svc' where nx: "ReadDirectoryService_Next S (de_json E) (de_clock E svc) (hc_clientID client) key svc =
      ((Some \<lparr>dc_Value = zero_tv, dc_Valid = False, dc_CursorKey = key\<rparr>, None), svc')"
    using Next_end [of svc key "hc_clientID client" c i "de_json E" "de_clock E svc"] by auto
  show ?case using Next_local [OF run nx] msgs 0(4) by (simp add: received_cursor_def remote_def Let_def)
next
  case (Suc n)
  show ?case
  proof (cases "Suc i < length (cents c)")
    case True
    then have k: "length (strings_Split (fst (cents c ! Suc i)) sl) \<ge> 2" "dir_keeps ser (found_resp (de_json E) key (cents c ! Suc i))"
      using Suc.prems(1) by auto
    from Next_at [OF Suc.prems(2,3) True k(1), of "de_json E" "de_clock E svc"] obtain svc' c' where
      nx: "ReadDirectoryService_Next S (de_json E) (de_clock E svc) (hc_clientID client) key svc =
        ((Some \<lparr>dc_Value = stored_td (de_json E) (cents c ! Suc i), dc_Valid = True, dc_CursorKey = key\<rparr>, None), svc')"
        and c': "cc_view (rd_cache svc') key = Some (hc_clientID client, c')" "cpos c' = Some (Suc i)" "cents c' = cents c" by blast
    have "read_next (tp, ser, client) (Suc n) (dir_cursor_client key) svc' = (map (stored_td (de_json E)) (drop (Suc (Suc i)) (cents c)), None)"
      using Suc.IH [OF _ c'(1,2)] Suc.prems(1,4) c'(3) by simp
    then show ?thesis using Next_local [OF run nx] msgs k(2) True
      by (simp add: received_cursor_def remote_def Let_def Cons_nth_drop_Suc [symmetric] del: read_next.simps(2) add: read_next.simps(2) [of _ "Suc n"])
  next
    case False
    then obtain svc' where nx: "ReadDirectoryService_Next S (de_json E) (de_clock E svc) (hc_clientID client) key svc =
        ((Some \<lparr>dc_Value = zero_tv, dc_Valid = False, dc_CursorKey = key\<rparr>, None), svc')"
      using Next_end [OF Suc.prems(2,3), of "de_json E" "de_clock E svc"] by auto
    show ?thesis using Next_local [OF run nx] msgs False by (simp add: received_cursor_def remote_def Let_def)
  qed
qed

lemma read_directory_all:
  assumes run: "dir_running error_text S E agent nt Request (tp, ser, client)" "\<And>e. error_text e \<noteq> []"
    and msgs: "list_all (dir_keeps ser) (loop_msgs key)"
    and docs: "\<forall>kv \<in> set (cents c). length (strings_Split (fst kv) sl) \<ge> 2 \<and> dir_keeps ser (found_resp (de_json E) key kv)"
    and cur: "ReadDirectoryService_GetCursor S (hc_clientID client) svc = (Inr key, svc1)"
      "cc_view (rd_cache svc1) key = Some (hc_clientID client, c)"
    and "length (cents c) \<le> n"
  shows "read_directory (tp, ser, client) n svc = (map (stored_td (de_json E)) (cents c), None)"
proof (cases "cents c")
  case Nil
  obtain svc2 where "ReadDirectoryService_First S (de_json E) (de_clock E svc1) (hc_clientID client) key svc1 = ((None, None), svc2)"
    using First_empty [OF cur(2) Nil] by blast
  from First_local [OF run this] GetCursor_local [OF run cur(1)] show ?thesis
    using msgs Nil by (simp add: read_directory_def received_cursor_def remote_def Let_def)
next
  case (Cons kv es)
  have k: "length (strings_Split (fst kv) sl) \<ge> 2" "dir_keeps ser (found_resp (de_json E) key kv)" using docs Cons by auto
  obtain m where n: "n = Suc m" using assms(7) Cons by (cases n) auto
  obtain svc2 c' where f: "ReadDirectoryService_First S (de_json E) (de_clock E svc1) (hc_clientID client) key svc1 =
      ((Some \<lparr>dc_Value = stored_td (de_json E) kv, dc_Valid = True, dc_CursorKey = key\<rparr>, None), svc2)"
    and c': "cc_view (rd_cache svc2) key = Some (hc_clientID client, c')" "cpos c' = Some 0" "cents c' = cents c"
    using First_at [OF cur(2) Cons k(1), of "de_json E" "de_clock E svc1"] by blast
  have "read_next (tp, ser, client) n (dir_cursor_client key) svc2 = (map (stored_td (de_json E)) es, None)"
    unfolding n using read_next_all [OF run msgs _ c'(1,2), of m] docs c'(3) assms(7) n Cons by simp
  with First_local [OF run f] GetCursor_local [OF run cur(1)] show ?thesis
    using msgs k(2) Cons by (simp add: read_directory_def received_cursor_def remote_def Let_def)
qed

end

lemma GetCursor_view:
  assumes "bucket_service_cursors S content cents cpos" "cc_inv (rd_cache svc)" "cc_room (rd_cache svc)"
    and "ReadDirectoryService_GetCursor S sender svc = (Inr key, svc1)"
  obtains c where "cc_view (rd_cache svc1) key = Some (sender, c)" "map_of (cents c) = content (rd_store svc) TDBucketName"
proof -
  obtain c s1 cc where c: "bk_Cursor S TDBucketName None (rd_store svc) = (Inr c, s1)"
    "CursorCache_Add c (Some TDBucketName) sender 60000000000 (rd_cache svc) = (key, cc)" "svc1 = \<lparr>rd_store = s1, rd_cache = cc\<rparr>"
    using assms(4) by (auto simp: ReadDirectoryService_GetCursor_def split: prod.splits sum.splits)
  have "cc_view cc key = Some (sender, c)" using CursorCache_Add_new(2) [OF assms(2,3) c(2)] by simp
  then show thesis using that [of c] bucket_service_cursors.cursor_content [OF assms(1) c(1)] c(3) by simp
qed

text \<open>
  C7. A client reads the whole directory over the message bus (ReadDirectoryClient.go, DirectoryCursorClient.go, HubClient.go,
  HandleRequestMessage.go, DirectoryCursor.go, CursorCache.go). When the directory has a bucket and the serializer keeps the
  messages, a client that gets a cursor, calls \<open>First\<close> and then \<open>Next\<close> until the answer is not valid receives each document
  that the bucket holds exactly once, in the order of the keys, without an error; any number of calls that is at least
  the number of documents is enough, and the clock of the service may show any times.
\<close>
theorem directory_client_lists_all:
  assumes "bucket_service_cursors S content cents cpos"
    and "dir_running error_text S E agent nt Request (tp, ser, client)" "\<And>e. error_text e \<noteq> []"
    and "cc_inv (rd_cache svc)" "cc_room (rd_cache svc)"
    and "ReadDirectoryService_GetCursor S (hc_clientID client) svc = (Inr key, svc1)"
    and "list_all (dir_keeps ser) (loop_msgs key)"
    and "\<And>k v. content (rd_store svc) TDBucketName k = Some v
      \<Longrightarrow> length (strings_Split k sl) \<ge> 2 \<and> dir_keeps ser (found_resp (de_json E) key (k, v))"
    and "card (dom (content (rd_store svc) TDBucketName)) \<le> n"
  shows "\<exists>docs. map_of docs = content (rd_store svc) TDBucketName \<and> sorted (map fst docs) \<and> distinct (map fst docs)
    \<and> read_directory (tp, ser, client) n svc = (map (stored_td (de_json E)) docs, None)"
proof -
  note bc = bucket_service_cursors.axioms(2) [OF assms(1)]
  obtain c where c: "cc_view (rd_cache svc1) key = Some (hc_clientID client, c)" "map_of (cents c) = content (rd_store svc) TDBucketName"
    using GetCursor_view [OF assms(1,4,5,6)] by blast
  have d: "distinct (map fst (cents c))" "sorted (map fst (cents c))"
    using bucket_cursors.cents_distinct [OF bc] bucket_cursors.cents_sorted [OF bc] by (auto simp: wf_map_def)
  have "length (cents c) = card (dom (content (rd_store svc) TDBucketName))"
    using d(1) by (metis c(2) dom_map_of_conv_image_fst distinct_card length_map list.set_map)
  moreover have "\<forall>kv \<in> set (cents c). length (strings_Split (fst kv) sl) \<ge> 2 \<and> dir_keeps ser (found_resp (de_json E) key kv)"
    using assms(8) d(1) c(2) by (metis map_of_is_SomeI prod.collapse)
  ultimately have "read_directory (tp, ser, client) n svc = (map (stored_td (de_json E)) (cents c), None)"
    using assms(9) by (intro bucket_cursors.read_directory_all [OF bc assms(2,3,7) _ assms(6) c(1)]) simp_all
  with c(2) d show ?thesis by blast
qed

text \<open>
  The cursor of an empty directory is lost: \<open>First\<close> answers nil, which the client takes for an answer with an empty
  cursor key, and every later call with that cursor fails since no cursor has the empty key.
\<close>

lemma empty_directory_loses_cursor:
  assumes "bucket_service_cursors S content cents cpos"
    and "dir_running error_text S E agent nt Request (tp, ser, client)" "\<And>e. error_text e \<noteq> []"
    and "cc_view (rd_cache svc) key = Some (hc_clientID client, c)" "cents c = []" "cc_view (rd_cache svc) [] = None"
    and "list_all (dir_keeps ser) [CursorFirstArgs key, CursorResp None, CursorNextArgs []]"
  shows "\<exists>svc1 svc2. DirectoryCursorClient_First (tp, ser, client) (dir_cursor_client key) svc
      = ((zero_tv, False, None), dir_cursor_client [], svc1)
    \<and> DirectoryCursorClient_Next (tp, ser, client) (dir_cursor_client []) svc1
      = ((zero_tv, False, Some (ErrLib (error_text ErrCursorNotFound))), dir_cursor_client [], svc2)"
proof -
  obtain svc1 where f: "ReadDirectoryService_First S (de_json E) (de_clock E svc) (hc_clientID client) key svc = ((None, None), svc1)"
    "dom (cc_view (rd_cache svc1)) = dom (cc_view (rd_cache svc))"
    using bucket_cursors.First_empty [OF bucket_service_cursors.axioms(2) [OF assms(1)] assms(4,5)] by blast
  have "cc_view (rd_cache svc1) [] = None" using f(2) assms(6) by (metis domIff)
  then have "fst (CursorCache_Get (de_clock E svc1) [] (hc_clientID client) True (rd_cache svc1)) = Inl ErrCursorNotFound"
    by (simp add: CursorCache_Get_result)
  then obtain svc2 where "ReadDirectoryService_Next S (de_json E) (de_clock E svc1) (hc_clientID client) [] svc1
      = ((None, Some ErrCursorNotFound), svc2)"
    by (cases "CursorCache_Get (de_clock E svc1) [] (hc_clientID client) True (rd_cache svc1)") (simp add: ReadDirectoryService_Next_def)
  from First_local [OF assms(2,3) f(1)] Next_local [OF assms(2,3) this] show ?thesis
    using assms(7) by (simp add: received_cursor_def remote_def Let_def)
qed

section \<open>Publishing\<close>

text \<open>
  The message server hands TD events, to which the service subscribes, to the message handler of the service; events
  have no reply address.
\<close>

definition event_msg :: "string \<Rightarrow> string option \<Rightarrow> nats_msg" where
  "event_msg subject payload = on_wire \<lparr>nm_Subject = subject, nm_Reply = [], nm_Data = payload, nm_hasHeader = False, nm_error = []\<rparr>"

definition td_event :: "string \<Rightarrow> bool" where
  "td_event subject \<longleftrightarrow> (\<exists>p. HubClient_SplitAddress NatsTransport_AddressTokens subject = (p, None)
     \<and> ap_msgType p = MessageTypeEvent \<and> ap_name p = EventNameTD)"

definition broker_delivers_tds :: "(go_error \<Rightarrow> string) \<Rightarrow> 'st NatsTransport \<Rightarrow> 'st hub_transport \<Rightarrow> bool" where
  "broker_delivers_tds error_text nt tp \<longleftrightarrow> tp_tokens tp = NatsTransport_AddressTokens
     \<and> (\<forall>subject payload st. td_event subject \<longrightarrow>
          tp_PubEvent tp subject payload st = (None, snd (NatsTransport_onMessage error_text nt (event_msg subject payload) st)))"

lemma PubTD_stores:
  assumes "broker_delivers_tds error_text nt tp" "nt_eventHandler nt = Some (HubClient_onEvent NatsTransport_AddressTokens now agent)"
    and "hc_eventHandler agent = Some (\<lambda>event svc. svc\<lparr>rd_store := DirectoryService_handleTDEvent S (de_json E) (de_msec E svc) event (rd_store svc)\<rparr>)"
    and "nats_token (hc_clientID pub)" "nats_token t"
  shows "HubClient_PubTD tp pub t doc svc = (None, svc\<lparr>rd_store := snd (UpdateDirectoryService_UpdateTD S (de_json E) (de_msec E svc)
    (hc_clientID pub) (hc_clientID pub) t (Some doc) (rd_store svc))\<rparr>)"
proof -
  let ?addr = "HubClient_MakeAddress NatsTransport_AddressTokens MessageTypeEvent (hc_clientID pub) t EventNameTD (hc_clientID pub)"
  have sp: "HubClient_SplitAddress NatsTransport_AddressTokens ?addr = (\<lparr>ap_msgType = MessageTypeEvent, ap_agentID = hc_clientID pub,
      ap_thingID = t, ap_name = EventNameTD, ap_senderID = hc_clientID pub\<rparr>, None)"
    by (rule SplitAddress_made [OF _ message_type_not_inbox]) (use assms(4,5) in \<open>simp_all add: address_token_def\<close>)
  then have "td_event ?addr" by (simp add: td_event_def)
  moreover have "t \<noteq> []" using assms(5) by (simp add: address_token_def)
  ultimately show ?thesis using assms(1-3) sp
    by (simp add: HubClient_PubTD_def broker_delivers_tds_def NatsTransport_onMessage_def event_msg_def on_wire_def HubClient_onEvent_def
        NewThingValue_def DirectoryService_handleTDEvent_def bytes_of_def)
qed

text \<open>
  C6. A published Thing Description is found in the directory (HubClient.go PubTD, NatsTransport.go onMessage, DirectoryService.go,
  UpdateDirectoryService.go, ReadDirectoryService.go, ReadDirectoryClient.go). After an agent has published the TD of one of its
  Things, and the directory service could store it, any client that asks the directory over the message bus for the TD of that agent
  and Thing gets this document as a TD event of that agent, with the agent as its sender, unless reading the store
  fails; the TDs of all other Things are as they were.
\<close>
theorem published_TD_is_found:
  assumes "bucket_service S content" and "dir_running error_text S E agent nt Request (tp, ser, client)" "\<And>e. error_text e \<noteq> []"
    and "broker_delivers_tds error_text nt tp2" "nt_eventHandler nt = Some (HubClient_onEvent NatsTransport_AddressTokens now agent)"
    and "hc_eventHandler agent = Some (\<lambda>event svc. svc\<lparr>rd_store := DirectoryService_handleTDEvent S (de_json E) (de_msec E svc) event (rd_store svc)\<rparr>)"
    and "nats_token (hc_clientID pub)" "nats_token t" "sl \<notin> set (hc_clientID pub)" "sl \<notin> set a'"
    and "HubClient_PubTD tp2 pub t doc svc = (err, svc1)"
    and "fst (UpdateDirectoryService_UpdateTD S (de_json E) (de_msec E svc) (hc_clientID pub) (hc_clientID pub) t (Some doc) (rd_store svc)) = None"
    and "fst (snd (bk_Get S TDBucketName (thing_addr (hc_clientID pub) t) (rd_store svc1))) = None"
    and "tv = td_value (de_msec E svc) (hc_clientID pub) (hc_clientID pub) t (Some doc)" "tj_dec (de_json E) (tj_enc (de_json E) tv) = (tv, None)"
    and "dir_keeps ser (GetTDArgs (hc_clientID pub) t)" "dir_keeps ser (GetTDResp tv)"
  shows "fst (ReadDirectoryClient_GetTD (tp, ser, client) (hc_clientID pub) t svc1) = (tv, None)
    \<and> ((a', t') \<noteq> (hc_clientID pub, t) \<longrightarrow>
         content (rd_store svc1) TDBucketName (thing_addr a' t') = content (rd_store svc) TDBucketName (thing_addr a' t'))"
proof -
  obtain s1 where u: "UpdateDirectoryService_UpdateTD S (de_json E) (de_msec E svc) (hc_clientID pub) (hc_clientID pub) t (Some doc) (rd_store svc) = (None, s1)"
    using assms(12) by (metis prod.collapse)
  then have s1: "svc1 = svc\<lparr>rd_store := s1\<rparr>" using PubTD_stores [OF assms(4-8), of doc svc] assms(11) by simp
  have g: "fst (snd (bk_Get S TDBucketName (thing_addr (hc_clientID pub) t) s1)) = None" using assms(13) s1 by simp
  from UpdateTD_then_GetTD [OF assms(1) u g assms(15) [unfolded assms(14)] assms(9,10), of t']
  obtain s2 where s2: "ReadDirectoryService_GetTD S (de_json E) (hc_clientID pub) t (rd_store svc1) = (tv, None, s2)"
    and fr: "(a', t') \<noteq> (hc_clientID pub, t) \<longrightarrow> content s1 TDBucketName (thing_addr a' t') = content (rd_store svc) TDBucketName (thing_addr a' t')"
    using s1 assms(14) by auto
  from GetTD_local [OF assms(2,3,16,17) s2] fr s1 show ?thesis by (simp add: remote_def)
qed

section \<open>An instance\<close>

text \<open>A started service and a client, connected by a server that hands the service every message.\<close>

abbreviation demo_tds :: "ldb BoltStore" where
  "demo_tds \<equiv> \<lparr>boltDB = [(''td'', [(''b/t'', ''x''), (''a/t'', ''y'')])], storePath = ''dir.db'', bucketRefCount = 0\<rparr>"

definition demo_dir_env :: "tv_json \<Rightarrow> (ldb BoltStore, lcur BBoltCursor) dir_env" where
  "demo_dir_env J = \<lparr>de_json = J, de_clock = (\<lambda>svc. 0), de_msec = (\<lambda>svc. 7)\<rparr>"

definition demo_dir_start where
  "demo_dir_start J msgs s = DirectoryService_Start null_transport (table_ser msgs) list_store (demo_dir_env J) (\<lambda>tdoc. []) [] s
     (fst (NewHubClientFromTransport null_transport DirectoryServiceName ())) ()"

abbreviation demo_dir_svc :: "tv_json \<Rightarrow> dir_message list \<Rightarrow> ldb BoltStore \<Rightarrow> (ldb BoltStore, lcur BBoltCursor) ReadDirectoryService" where
  "demo_dir_svc J msgs s \<equiv> fst (snd (demo_dir_start J msgs s))"

abbreviation demo_dir_agent :: "tv_json \<Rightarrow> dir_message list \<Rightarrow> ldb BoltStore \<Rightarrow> (ldb BoltStore, lcur BBoltCursor) dir_hub" where
  "demo_dir_agent J msgs s \<equiv> fst (snd (snd (demo_dir_start J msgs s)))"

definition demo_dir_nats where
  "demo_dir_nats J msgs s = \<lparr>nt_status = \<lparr>hs_HubURL = [], hs_ClientID = DirectoryServiceName, hs_ConnectionStatus = Connected, hs_LastError = None\<rparr>,
     nt_connectHandler = (\<lambda>s st. st), nt_eventHandler = Some (HubClient_onEvent NatsTransport_AddressTokens 0 (demo_dir_agent J msgs s)),
     nt_requestHandler = Some (HubClient_onRequest NatsTransport_AddressTokens (table_ser msgs) 0 (demo_dir_agent J msgs s))\<rparr>"

definition demo_dir_tp where
  "demo_dir_tp J msgs s = \<lparr>tp_tokens = NatsTransport_AddressTokens,
     tp_PubEvent = (\<lambda>a p st. (None, snd (NatsTransport_onMessage (\<lambda>e. ''err'') (demo_dir_nats J msgs s) (event_msg a p) st))),
     tp_PubRequest = NatsTransport_PubRequest (direct_Request (\<lambda>e. ''err'') (demo_dir_nats J msgs s)),
     tp_Subscribe = (\<lambda>a w. (None, w)), tp_SetRequestHandler = id, tp_SetEventHandler = id, tp_SetConnectHandler = id\<rparr>"

abbreviation dir_user :: "string \<Rightarrow> (dir_message, unit) HubClient" where
  "dir_user c \<equiv> fst (NewHubClientFromTransport null_transport c ())"

lemma demo_dir_started:
  "serves ReadDirectoryCap (ReadDirectoryService_methods list_store (demo_dir_env J)) (demo_dir_agent J msgs s)"
  "serves UpdateDirectoryCap (UpdateDirectoryService_methods list_store (demo_dir_env J)) (demo_dir_agent J msgs s)"
  "hc_clientID (demo_dir_agent J msgs s) = DirectoryServiceName"
  "hc_eventHandler (demo_dir_agent J msgs s) = Some (\<lambda>event svc. svc\<lparr>rd_store :=
     DirectoryService_handleTDEvent list_store (de_json (demo_dir_env J)) (de_msec (demo_dir_env J) svc) event (rd_store svc)\<rparr>)"
  "demo_dir_svc J msgs s = \<lparr>rd_store = st_GetBucket list_store TDBucketName s, rd_cache = NewCursorCache\<rparr>"
proof -
  obtain err svc agent w1 where d: "demo_dir_start J msgs s = (err, svc, agent, w1)" by (metis prod.exhaust)
  note st = DirectoryService_Start_serves [OF d [unfolded demo_dir_start_def]]
  show "serves ReadDirectoryCap (ReadDirectoryService_methods list_store (demo_dir_env J)) (demo_dir_agent J msgs s)"
    "serves UpdateDirectoryCap (UpdateDirectoryService_methods list_store (demo_dir_env J)) (demo_dir_agent J msgs s)"
    "hc_clientID (demo_dir_agent J msgs s) = DirectoryServiceName"
    "hc_eventHandler (demo_dir_agent J msgs s) = Some (\<lambda>event svc. svc\<lparr>rd_store :=
       DirectoryService_handleTDEvent list_store (de_json (demo_dir_env J)) (de_msec (demo_dir_env J) svc) event (rd_store svc)\<rparr>)"
    "demo_dir_svc J msgs s = \<lparr>rd_store = st_GetBucket list_store TDBucketName s, rd_cache = NewCursorCache\<rparr>"
    using st d by (simp_all add: NewHubClientFromTransport_def)
qed

lemma demo_dir_running:
  "dir_running (\<lambda>e. ''err'') list_store (demo_dir_env J) (demo_dir_agent J msgs s) (demo_dir_nats J msgs s)
     (direct_Request (\<lambda>e. ''err'') (demo_dir_nats J msgs s)) (demo_dir_tp J msgs s, table_ser msgs, dir_user ''alice'')"
  using demo_dir_started [of J msgs s]
  by (auto simp: dir_running_def rpc_connected_def demo_dir_tp_def demo_dir_nats_def direct_routes NewHubClientFromTransport_def address_token_def)

lemma demo_dir_delivers: "broker_delivers_tds (\<lambda>e. ''err'') (demo_dir_nats J msgs s) (demo_dir_tp J msgs s)"
  by (simp add: broker_delivers_tds_def demo_dir_tp_def)

definition list_msgs :: "dir_message list" where
  "list_msgs = loop_msgs ''2'' @ map (found_resp id_tj ''2'') [(''a/t'', ''y''), (''b/t'', ''x'')]"

theorem directory_client_lists_all_witness:
  "\<exists>docs. map_of docs = [''b/t'' \<mapsto> ''x'', ''a/t'' \<mapsto> ''y''] \<and> sorted (map fst docs)
     \<and> read_directory (demo_dir_tp id_tj list_msgs demo_tds, table_ser list_msgs, dir_user ''alice'') 2 (demo_dir_svc id_tj list_msgs demo_tds)
       = (map (stored_td id_tj) docs, None)"
proof -
  have svc: "demo_dir_svc id_tj list_msgs demo_tds = \<lparr>rd_store = demo_tds\<lparr>bucketRefCount := 1\<rparr>, rd_cache = NewCursorCache\<rparr>"
    by (simp add: demo_dir_started(5) BoltStore_iface_def BoltStore_GetBucket_def)
  have c: "store_content ldb_contents (rd_store (demo_dir_svc id_tj list_msgs demo_tds)) TDBucketName = [''b/t'' \<mapsto> ''x'', ''a/t'' \<mapsto> ''y'']"
    unfolding svc by (simp add: store_content_def bucket_content_def ldb_contents_def fun_eq_iff)
  have user: "hc_clientID (dir_user ''alice'') = ''alice''" by (simp add: NewHubClientFromTransport_def)
  obtain svc1 where cur: "ReadDirectoryService_GetCursor list_store (hc_clientID (dir_user ''alice'')) (demo_dir_svc id_tj list_msgs demo_tds)
      = (Inr ''2'', svc1)"
    unfolding user svc by (simp add: ReadDirectoryService_GetCursor_def BoltStore_iface_def on_db_def BoltBucket_Cursor_def list_bbolt_def
        CursorCache_Add_def NewCursorCache_def FormatUint16_demo Let_def)
  have keep: "dir_keeps (table_ser list_msgs) v" if "v \<in> set list_msgs" for v by (rule table_ser_dir_keeps [OF that])
  have mem: "set (loop_msgs ''2'') \<subseteq> set list_msgs" "found_resp id_tj ''2'' (''a/t'', ''y'') \<in> set list_msgs"
    "found_resp id_tj ''2'' (''b/t'', ''x'') \<in> set list_msgs" by (auto simp: list_msgs_def)
  have msgs: "list_all (dir_keeps (table_ser list_msgs)) (loop_msgs ''2'')" unfolding list_all_iff using mem(1) keep by blast
  have docs: "length (strings_Split k sl) \<ge> 2 \<and> dir_keeps (table_ser list_msgs) (found_resp (de_json (demo_dir_env id_tj)) ''2'' (k, v))"
    if "store_content ldb_contents (rd_store (demo_dir_svc id_tj list_msgs demo_tds)) TDBucketName k = Some v" for k v
  proof -
    have "(k, v) \<in> {(''a/t'', ''y''), (''b/t'', ''x'')}" using that unfolding c by (simp split: if_splits)
    then show ?thesis using keep [OF mem(2)] keep [OF mem(3)] by (auto simp: demo_dir_env_def)
  qed
  have inv: "cc_inv (rd_cache (demo_dir_svc id_tj list_msgs demo_tds))" "cc_room (rd_cache (demo_dir_svc id_tj list_msgs demo_tds))"
    unfolding svc using cc_inv_New by (simp_all add: cc_room_def NewCursorCache_def)
  have n: "card (dom (store_content ldb_contents (rd_store (demo_dir_svc id_tj list_msgs demo_tds)) TDBucketName)) \<le> 2" unfolding c by simp
  from directory_client_lists_all [OF ls.bucket_service_cursors_axioms demo_dir_running _ inv cur msgs docs n] c show ?thesis
    by (auto simp: demo_dir_env_def)
qed

text \<open>The agent \<open>a1\<close> publishes a TD.\<close>

definition pub_msgs :: "dir_message list" where
  "pub_msgs = [GetTDArgs ''a1'' ''t1'', GetTDResp (td_value 7 ''a1'' ''a1'' ''t1'' (Some ''{}''))]"

abbreviation pub_tj :: tv_json where
  "pub_tj \<equiv> \<lparr>tj_enc = (\<lambda>tv. ''x''), tj_dec = (\<lambda>s. (td_value 7 ''a1'' ''a1'' ''t1'' (Some ''{}''), None))\<rparr>"

theorem published_TD_is_found_witness:
  "fst (ReadDirectoryClient_GetTD (demo_dir_tp pub_tj pub_msgs demo_tds, table_ser pub_msgs, dir_user ''alice'') ''a1'' ''t1''
       (snd (HubClient_PubTD (demo_dir_tp pub_tj pub_msgs demo_tds) (dir_user ''a1'') ''t1'' ''{}'' (demo_dir_svc pub_tj pub_msgs demo_tds))))
     = (td_value 7 ''a1'' ''a1'' ''t1'' (Some ''{}''), None)"
proof -
  let ?tp = "demo_dir_tp pub_tj pub_msgs demo_tds" and ?nt = "demo_dir_nats pub_tj pub_msgs demo_tds"
  have svc: "demo_dir_svc pub_tj pub_msgs demo_tds = \<lparr>rd_store = demo_tds\<lparr>bucketRefCount := 1\<rparr>, rd_cache = NewCursorCache\<rparr>"
    by (simp add: demo_dir_started(5) BoltStore_iface_def BoltStore_GetBucket_def)
  have user: "hc_clientID (dir_user ''a1'') = ''a1''" by (simp add: NewHubClientFromTransport_def)
  have ev: "nt_eventHandler ?nt = Some (HubClient_onEvent NatsTransport_AddressTokens 0 (demo_dir_agent pub_tj pub_msgs demo_tds))"
    by (simp add: demo_dir_nats_def)
  have tok: "nats_token (hc_clientID (dir_user ''a1''))" "nats_token ''t1''" "sl \<notin> set (hc_clientID (dir_user ''a1''))" "sl \<notin> set ''b''"
    unfolding user by (simp_all add: address_token_def)
  note stores = PubTD_stores [OF demo_dir_delivers ev demo_dir_started(4) tok(1,2), of "''{}''", unfolded user svc]
  have up: "fst (UpdateDirectoryService_UpdateTD list_store pub_tj 7 ''a1'' ''a1'' ''t1'' (Some ''{}'') (demo_tds\<lparr>bucketRefCount := 1\<rparr>)) = None"
    "fst (snd (bk_Get list_store TDBucketName (thing_addr ''a1'' ''t1'')
      (snd (UpdateDirectoryService_UpdateTD list_store pub_tj 7 ''a1'' ''a1'' ''t1'' (Some ''{}'') (demo_tds\<lparr>bucketRefCount := 1\<rparr>))))) = None"
    by (simp_all add: UpdateDirectoryService_UpdateTD_def thing_addr_def BoltStore_iface_def on_db_def on_db2_def bolt_bucket_defs list_db_defs)
  have env: "de_json (demo_dir_env pub_tj) = pub_tj" "de_msec (demo_dir_env pub_tj) = (\<lambda>svc. 7)" by (simp_all add: demo_dir_env_def)
  obtain err svc1 where pub: "HubClient_PubTD ?tp (dir_user ''a1'') ''t1'' ''{}'' (demo_dir_svc pub_tj pub_msgs demo_tds) = (err, svc1)" by fastforce
  have s1: "svc1 = \<lparr>rd_store = snd (UpdateDirectoryService_UpdateTD list_store pub_tj 7 ''a1'' ''a1'' ''t1'' (Some ''{}'') (demo_tds\<lparr>bucketRefCount := 1\<rparr>)),
      rd_cache = NewCursorCache\<rparr>" using stores pub by (auto simp: svc env)
  have keep: "dir_keeps (table_ser pub_msgs) (GetTDArgs ''a1'' ''t1'')"
    "dir_keeps (table_ser pub_msgs) (GetTDResp (td_value 7 ''a1'' ''a1'' ''t1'' (Some ''{}'')))"
    by (rule table_ser_dir_keeps, simp add: pub_msgs_def)+
  have "fst (ReadDirectoryClient_GetTD (?tp, table_ser pub_msgs, dir_user ''alice'') (hc_clientID (dir_user ''a1'')) ''t1'' svc1)
      = (td_value 7 ''a1'' ''a1'' ''t1'' (Some ''{}''), None)"
    by (rule published_TD_is_found [OF ls.bucket_service_axioms demo_dir_running _ demo_dir_delivers ev demo_dir_started(4) tok pub, THEN conjunct1])
      (use up keep in \<open>simp_all add: user svc env s1\<close>)
  with pub user show ?thesis by simp
qed

end
