(* ===== verification/AuthStore.thy ===== *)
theory AuthStore
  imports GoStrings
begin

text \<open>
  Model of \<open>done_mod/mod_auth/auth_str/AuthnFileStore.go\<close>: the client store with its password
  file. The store's memory is the map of entries; \<open>fs_file\<close> is the content of the password file
  (\<open>None\<close> when there is no such file). The file system calls can fail: the record \<open>pw_env\<close> gives
  the error of each call, if any, and the JSON codec. The bcrypt package is the record \<open>bcrypt\<close>.
\<close>

section \<open>Data\<close>

record ClientProfile =
  cp_ClientID :: string
  cp_ClientType :: string
  cp_DisplayName :: string
  cp_PubKey :: string
  cp_UpdatedMSE :: int
  cp_TokenValidityDays :: int
  cp_Role :: string

record AuthnEntry =
  ae_profile :: ClientProfile
  ae_PasswordHash :: string

text \<open>The value Go gives for a missing map entry.\<close>

definition zero_profile :: ClientProfile where
  "zero_profile = \<lparr>cp_ClientID = [], cp_ClientType = [], cp_DisplayName = [], cp_PubKey = [], cp_UpdatedMSE = 0,
     cp_TokenValidityDays = 0, cp_Role = []\<rparr>"

record AuthnFileStore =
  fs_entries :: "(string, AuthnEntry) gomap"
  fs_storePath :: string
  fs_watcher :: bool
  fs_file :: "string option"

record ClientAuthInfo =
  ci_ClientID :: string
  ci_ClientType :: string
  ci_PubKey :: string
  ci_PasswordHash :: string
  ci_Role :: string

record pw_env =
  pe_MkdirAll :: "go_error option"
  pe_CreateTemp :: "go_error option"
  pe_Write :: "go_error option"
  pe_Rename :: "go_error option"
  pe_ReadFile :: "go_error option"  \<comment> \<open>other than the file not existing\<close>
  pe_Watch :: "go_error option"
  pe_Marshal :: "(string, AuthnEntry) gomap \<Rightarrow> go_error + string"
  pe_Unmarshal :: "string \<Rightarrow> go_error + (string, AuthnEntry) gomap"

text \<open>\<open>bcrypt.GenerateFromPassword\<close> picks a salt, given here as an argument.\<close>

record bcrypt =
  bcr_Generate :: "string \<Rightarrow> string \<Rightarrow> go_error + string"
  bcr_Compare :: "string \<Rightarrow> string \<Rightarrow> go_error option"

abbreviation ClientTypeService :: string where "ClientTypeService \<equiv> ''service''"
abbreviation ClientTypeDevice :: string where "ClientTypeDevice \<equiv> ''device''"
abbreviation ClientTypeUser :: string where "ClientTypeUser \<equiv> ''user''"
abbreviation DefaultDeviceTokenValidityDays :: int where "DefaultDeviceTokenValidityDays \<equiv> 90"
abbreviation DefaultServiceTokenValidityDays :: int where "DefaultServiceTokenValidityDays \<equiv> 365"
abbreviation DefaultUserTokenValidityDays :: int where "DefaultUserTokenValidityDays \<equiv> 30"

section \<open>The password file\<close>

text \<open>The result is the content of the temporary file.\<close>

definition WritePasswordsToTempFile :: "pw_env \<Rightarrow> (string, AuthnEntry) gomap \<Rightarrow> go_error + string" where
  "WritePasswordsToTempFile env entries =
     (case pe_CreateTemp env of
        Some e \<Rightarrow> Inl (ErrTempFile e)
      | None \<Rightarrow>
          (case pe_Marshal env entries of
             Inl e \<Rightarrow> Inl e
           | Inr pwData \<Rightarrow> (case pe_Write env of Some e \<Rightarrow> Inl e | None \<Rightarrow> Inr pwData)))"

definition AuthnFileStore_save :: "pw_env \<Rightarrow> AuthnFileStore \<Rightarrow> go_error option \<times> AuthnFileStore" where
  "AuthnFileStore_save env st =
     (case pe_MkdirAll env of
        Some e \<Rightarrow> (Some e, st)
      | None \<Rightarrow>
          (case WritePasswordsToTempFile env (fs_entries st) of
             Inl e \<Rightarrow> (Some (ErrSaveTemp e), st)
           | Inr tmp \<Rightarrow>
               (case pe_Rename env of
                  Some e \<Rightarrow> (Some (ErrSaveRename e), st)
                | None \<Rightarrow> (None, st\<lparr>fs_file := Some tmp\<rparr>))))"

definition AuthnFileStore_Reload :: "pw_env \<Rightarrow> AuthnFileStore \<Rightarrow> go_error option \<times> AuthnFileStore" where
  "AuthnFileStore_Reload env st =
     (case (fs_file st, pe_ReadFile env) of
        (None, _) \<Rightarrow> AuthnFileStore_save env st
      | (Some dataBytes, Some e) \<Rightarrow> (Some (ErrReadPasswords e), st)
      | (Some dataBytes, None) \<Rightarrow>
          if dataBytes = [] then (None, st)
          else (case pe_Unmarshal env dataBytes of
                  Inl e \<Rightarrow> (Some (ErrParsePasswords e), st)
                | Inr entries \<Rightarrow> (None, st\<lparr>fs_entries := entries\<rparr>)))"

definition AuthnFileStore_Open :: "pw_env \<Rightarrow> AuthnFileStore \<Rightarrow> go_error option \<times> AuthnFileStore" where
  "AuthnFileStore_Open env st =
     (if fs_watcher st then (Some (ErrStoreOpen (ErrAlreadyOpen (fs_storePath st))), st)
      else case AuthnFileStore_Reload env st of
             (Some e, st1) \<Rightarrow> (Some (ErrStoreOpen e), st1)
           | (None, st1) \<Rightarrow>
               (case pe_Watch env of
                  Some e \<Rightarrow> (Some (ErrStoreOpen e), st1)
                | None \<Rightarrow> (None, st1\<lparr>fs_watcher := True\<rparr>)))"

definition AuthnFileStore_Close :: "AuthnFileStore \<Rightarrow> AuthnFileStore" where
  "AuthnFileStore_Close st = (if fs_watcher st then st\<lparr>fs_watcher := False\<rparr> else st)"

definition NewAuthnFileStore :: "string \<Rightarrow> string option \<Rightarrow> AuthnFileStore" where
  "NewAuthnFileStore filepath file = \<lparr>fs_entries = [], fs_storePath = filepath, fs_watcher = False, fs_file = file\<rparr>"

section \<open>Clients\<close>

definition default_validity :: "ClientProfile \<Rightarrow> ClientProfile" where
  "default_validity profile =
     (if cp_TokenValidityDays profile = 0
      then profile\<lparr>cp_TokenValidityDays :=
             (if cp_ClientType profile = ClientTypeDevice then DefaultDeviceTokenValidityDays
              else if cp_ClientType profile = ClientTypeService then DefaultServiceTokenValidityDays
              else if cp_ClientType profile = ClientTypeUser then DefaultUserTokenValidityDays else 0)\<rparr>
      else profile)"

definition AuthnFileStore_Add ::
  "pw_env \<Rightarrow> int \<Rightarrow> string \<Rightarrow> ClientProfile \<Rightarrow> AuthnFileStore \<Rightarrow> go_error option \<times> AuthnFileStore" where
  "AuthnFileStore_Add env now clientID profile st =
     (if clientID = [] \<or> clientID \<noteq> cp_ClientID profile then (Some ErrClientIDMissing, st)
      else if cp_ClientType profile \<noteq> ClientTypeDevice \<and> cp_ClientType profile \<noteq> ClientTypeUser
            \<and> cp_ClientType profile \<noteq> ClientTypeService
      then (Some (ErrClientType (cp_ClientType profile)), st)
      else
        (let profile1 = (default_validity profile)\<lparr>cp_UpdatedMSE := now\<rparr>;
             entry = (case mget (fs_entries st) clientID of
                        None \<Rightarrow> \<lparr>ae_profile = profile1, ae_PasswordHash = []\<rparr>
                      | Some entry \<Rightarrow> entry\<lparr>ae_profile := profile1\<rparr>)
         in AuthnFileStore_save env (st\<lparr>fs_entries := mput clientID entry (fs_entries st)\<rparr>)))"

definition AuthnFileStore_Count :: "AuthnFileStore \<Rightarrow> nat" where
  "AuthnFileStore_Count st = length (fs_entries st)"

definition AuthnFileStore_GetEntries :: "AuthnFileStore \<Rightarrow> AuthnEntry list" where
  "AuthnFileStore_GetEntries st = map snd (fs_entries st)"

definition auth_info :: "AuthnEntry \<Rightarrow> ClientAuthInfo" where
  "auth_info e = \<lparr>ci_ClientID = cp_ClientID (ae_profile e), ci_ClientType = cp_ClientType (ae_profile e),
     ci_PubKey = cp_PubKey (ae_profile e), ci_PasswordHash = ae_PasswordHash e, ci_Role = cp_Role (ae_profile e)\<rparr>"

definition AuthnFileStore_GetAuthClientList :: "AuthnFileStore \<Rightarrow> ClientAuthInfo list" where
  "AuthnFileStore_GetAuthClientList st = map auth_info (AuthnFileStore_GetEntries st)"

definition AuthnFileStore_GetProfile :: "string \<Rightarrow> AuthnFileStore \<Rightarrow> ClientProfile \<times> go_error option" where
  "AuthnFileStore_GetProfile clientID st =
     (case mget (fs_entries st) clientID of
        None \<Rightarrow> (zero_profile, Some (ErrClientUnknown clientID))
      | Some entry \<Rightarrow> (ae_profile entry, None))"

definition AuthnFileStore_GetProfiles :: "AuthnFileStore \<Rightarrow> ClientProfile list" where
  "AuthnFileStore_GetProfiles st = map (ae_profile \<circ> snd) (fs_entries st)"

definition AuthnFileStore_Remove :: "pw_env \<Rightarrow> string \<Rightarrow> AuthnFileStore \<Rightarrow> go_error option \<times> AuthnFileStore" where
  "AuthnFileStore_Remove env clientID st =
     AuthnFileStore_save env
       (if mget (fs_entries st) clientID \<noteq> None then st\<lparr>fs_entries := mdel clientID (fs_entries st)\<rparr> else st)"

definition AuthnFileStore_SetPasswordHash ::
  "pw_env \<Rightarrow> int \<Rightarrow> string \<Rightarrow> string \<Rightarrow> AuthnFileStore \<Rightarrow> go_error option \<times> AuthnFileStore" where
  "AuthnFileStore_SetPasswordHash env now loginID hash st =
     (case mget (fs_entries st) loginID of
        None \<Rightarrow> (Some (ErrClientUnknown loginID), st)
      | Some entry \<Rightarrow>
          AuthnFileStore_save env (st\<lparr>fs_entries := mput loginID
            (entry\<lparr>ae_PasswordHash := hash, ae_profile := (ae_profile entry)\<lparr>cp_UpdatedMSE := now\<rparr>\<rparr>) (fs_entries st)\<rparr>))"

definition AuthnFileStore_SetPassword ::
  "pw_env \<Rightarrow> bcrypt \<Rightarrow> string \<Rightarrow> int \<Rightarrow> string \<Rightarrow> string \<Rightarrow> AuthnFileStore \<Rightarrow> go_error option \<times> AuthnFileStore" where
  "AuthnFileStore_SetPassword env bc salt now loginID password st =
     (if length password < 5 then (Some (ErrPasswordTooShort (length password)), st)
      else case bcr_Generate bc salt password of
             Inl e \<Rightarrow> (Some e, st)
           | Inr hash \<Rightarrow> AuthnFileStore_SetPasswordHash env now loginID hash st)"

definition updated_profile :: "int \<Rightarrow> ClientProfile \<Rightarrow> ClientProfile \<Rightarrow> ClientProfile" where
  "updated_profile now profile old = old\<lparr>
     cp_ClientType := (if cp_ClientType profile \<noteq> [] then cp_ClientType profile else cp_ClientType old),
     cp_DisplayName := (if cp_DisplayName profile \<noteq> [] then cp_DisplayName profile else cp_DisplayName old),
     cp_TokenValidityDays := (if cp_TokenValidityDays profile \<noteq> 0 then cp_TokenValidityDays profile
                              else cp_TokenValidityDays old),
     cp_PubKey := (if cp_PubKey profile \<noteq> [] then cp_PubKey profile else cp_PubKey old),
     cp_UpdatedMSE := now\<rparr>"

definition AuthnFileStore_Update ::
  "pw_env \<Rightarrow> int \<Rightarrow> string \<Rightarrow> ClientProfile \<Rightarrow> AuthnFileStore \<Rightarrow> go_error option \<times> AuthnFileStore" where
  "AuthnFileStore_Update env now clientID profile st =
     (case mget (fs_entries st) clientID of
        None \<Rightarrow> (Some (ErrClientUnknown clientID), st)
      | Some entry \<Rightarrow>
          if cp_ClientID profile \<noteq> clientID then (Some (ErrProfileMismatch clientID (cp_ClientID profile)), st)
          else AuthnFileStore_save env (st\<lparr>fs_entries := mput clientID
                 (entry\<lparr>ae_profile := updated_profile now profile (ae_profile entry)\<rparr>) (fs_entries st)\<rparr>))"

definition AuthnFileStore_VerifyPassword ::
  "bcrypt \<Rightarrow> string \<Rightarrow> string \<Rightarrow> AuthnFileStore \<Rightarrow> ClientProfile \<times> go_error option" where
  "AuthnFileStore_VerifyPassword bc loginID password st =
     (case mget (fs_entries st) loginID of
        None \<Rightarrow> (zero_profile, Some (ErrInvalidLogin loginID))
      | Some entry \<Rightarrow>
          if bcr_Compare bc (ae_PasswordHash entry) password = None then (ae_profile entry, None)
          else (zero_profile, Some (ErrInvalidLogin loginID)))"

section \<open>Durability\<close>

datatype store_op =
    StoreAdd int string ClientProfile
  | StoreRemove string
  | StoreUpdate int string ClientProfile
  | StoreSetPassword string int string string

fun run_store_op :: "pw_env \<Rightarrow> bcrypt \<Rightarrow> store_op \<Rightarrow> AuthnFileStore \<Rightarrow> go_error option \<times> AuthnFileStore" where
  "run_store_op env bc (StoreAdd now c p) = AuthnFileStore_Add env now c p"
| "run_store_op env bc (StoreRemove c) = AuthnFileStore_Remove env c"
| "run_store_op env bc (StoreUpdate now c p) = AuthnFileStore_Update env now c p"
| "run_store_op env bc (StoreSetPassword salt now c pw) = AuthnFileStore_SetPassword env bc salt now c pw"

text \<open>The codec reads back the clients it wrote and never writes an empty file.\<close>

definition pw_codec_ok :: "pw_env \<Rightarrow> bool" where
  "pw_codec_ok env \<longleftrightarrow> (\<forall>es data. pe_Marshal env es = Inr data \<longrightarrow>
     data \<noteq> [] \<and> (\<exists>es'. pe_Unmarshal env data = Inr es' \<and> map_of es' = map_of es))"

lemma save_entries [simp]: "fs_entries (snd (AuthnFileStore_save env st)) = fs_entries st"
  by (simp add: AuthnFileStore_save_def split: option.split sum.split)

lemma save_failed: "fst (AuthnFileStore_save env st) = Some e \<Longrightarrow> snd (AuthnFileStore_save env st) = st"
  by (auto simp: AuthnFileStore_save_def split: option.splits sum.splits)

lemma save_done: "fst (AuthnFileStore_save env st) = None \<Longrightarrow>
  \<exists>data. pe_Marshal env (fs_entries st) = Inr data \<and> fs_file (snd (AuthnFileStore_save env st)) = Some data"
  by (auto simp: AuthnFileStore_save_def WritePasswordsToTempFile_def split: option.splits sum.splits)

text \<open>Every operation is refused without any change, or changes the entries in memory and saves them.\<close>

lemma store_op_cases:
  "(\<exists>e. run_store_op env bc op st = (Some e, st))
   \<or> (\<exists>es. run_store_op env bc op st = AuthnFileStore_save env (st\<lparr>fs_entries := es\<rparr>))"
proof (cases op)
  case (StoreRemove c)
  have "run_store_op env bc op st = AuthnFileStore_save env (st\<lparr>fs_entries :=
      (if mget (fs_entries st) c \<noteq> None then mdel c (fs_entries st) else fs_entries st)\<rparr>)"
    by (simp add: StoreRemove AuthnFileStore_Remove_def)
  then show ?thesis by blast
qed (auto simp: AuthnFileStore_Add_def AuthnFileStore_Update_def AuthnFileStore_SetPassword_def
    AuthnFileStore_SetPasswordHash_def Let_def split: option.splits sum.splits)

lemma Open_saved:
  assumes "pw_codec_ok env" "pe_ReadFile env = None" "pe_Watch env = None"
    and "pe_Marshal env es = Inr data"
  shows "\<exists>st. AuthnFileStore_Open env (NewAuthnFileStore path (Some data)) = (None, st)
    \<and> map_of (fs_entries st) = map_of es"
proof -
  from assms(1,4) obtain es' where "data \<noteq> []" "pe_Unmarshal env data = Inr es'" "map_of es' = map_of es"
    unfolding pw_codec_ok_def by blast
  with assms(2,3) show ?thesis
    by (simp add: AuthnFileStore_Open_def AuthnFileStore_Reload_def NewAuthnFileStore_def)
qed

text \<open>
  C23. Durability and atomicity of the password file (AuthnFileStore.go Add, Remove, Update,
  SetPassword, save, Open): when an operation reports success, a store opened on the file that it
  left has exactly the clients the operation left in memory; when it reports an error, for
  whatever reason (a refused request or a failure of any file system step), the password file is
  the one there was before.
\<close>

theorem store_op_durable:
  assumes "pw_codec_ok env" and "pe_ReadFile env = None" and "pe_Watch env = None"
    and "run_store_op env' bc op st = (err, st')" and "pe_Marshal env' = pe_Marshal env"
  shows "(case err of
      None \<Rightarrow> \<exists>st2. AuthnFileStore_Open env (NewAuthnFileStore path (fs_file st')) = (None, st2)
                \<and> map_of (fs_entries st2) = map_of (fs_entries st')
    | Some e \<Rightarrow> fs_file st' = fs_file st)"
proof -
  consider (refused) e where "err = Some e" "st' = st"
    | (saved) es where "(err, st') = AuthnFileStore_save env' (st\<lparr>fs_entries := es\<rparr>)"
    using store_op_cases [of env' bc op st] assms(4) by auto
  then show ?thesis
  proof cases
    case saved
    then have "err = fst (AuthnFileStore_save env' (st\<lparr>fs_entries := es\<rparr>))"
      "st' = snd (AuthnFileStore_save env' (st\<lparr>fs_entries := es\<rparr>))" by (metis fst_conv, metis snd_conv)
    then show ?thesis
      using save_failed [of env' "st\<lparr>fs_entries := es\<rparr>"] save_done [of env' "st\<lparr>fs_entries := es\<rparr>"]
        Open_saved [OF assms(1-3)] assms(5)
      by (cases err) fastforce+
  qed simp
qed

definition demo_entry :: AuthnEntry where
  "demo_entry = \<lparr>ae_profile = zero_profile\<lparr>cp_ClientID := ''bob'', cp_ClientType := ClientTypeUser,
     cp_TokenValidityDays := 30, cp_UpdatedMSE := 7, cp_Role := ''viewer''\<rparr>, ae_PasswordHash = []\<rparr>"

abbreviation demo_pw_env :: pw_env where
  "demo_pw_env \<equiv> \<lparr>pe_MkdirAll = None, pe_CreateTemp = None, pe_Write = None, pe_Rename = None, pe_ReadFile = None,
     pe_Watch = None, pe_Marshal = (\<lambda>es. if es = [(''bob'', demo_entry)] then Inr ''x'' else Inl ErrUnmarshal),
     pe_Unmarshal = (\<lambda>s. Inr [(''bob'', demo_entry)])\<rparr>"

lemma demo_pw_codec: "pw_codec_ok demo_pw_env"
  by (simp add: pw_codec_ok_def)

theorem store_op_durable_witness:
  "\<exists>st2. AuthnFileStore_Open demo_pw_env (NewAuthnFileStore ''pw'' (fs_file (snd (AuthnFileStore_Add demo_pw_env 7 ''bob''
      (ae_profile demo_entry) (NewAuthnFileStore ''pw'' None))))) = (None, st2)
    \<and> map_of (fs_entries st2) = [''bob'' \<mapsto> demo_entry]"
proof -
  have add: "AuthnFileStore_Add demo_pw_env 7 ''bob'' (ae_profile demo_entry) (NewAuthnFileStore ''pw'' None)
      = (None, (NewAuthnFileStore ''pw'' (Some ''x''))\<lparr>fs_entries := [(''bob'', demo_entry)]\<rparr>)"
    by (simp add: AuthnFileStore_Add_def AuthnFileStore_save_def WritePasswordsToTempFile_def NewAuthnFileStore_def
        default_validity_def demo_entry_def zero_profile_def)
  show ?thesis
    using store_op_durable [OF demo_pw_codec, where env' = demo_pw_env and op = "StoreAdd 7 ''bob'' (ae_profile demo_entry)"
      and st = "NewAuthnFileStore ''pw'' None" and path = "''pw''" and err = None
      and st' = "(NewAuthnFileStore ''pw'' (Some ''x''))\<lparr>fs_entries := [(''bob'', demo_entry)]\<rparr>"] add
    by simp
qed

section \<open>Passwords\<close>

definition bcrypt_ok :: "bcrypt \<Rightarrow> bool" where
  "bcrypt_ok bc \<longleftrightarrow> (\<forall>salt p h. bcr_Generate bc salt p = Inr h \<longrightarrow> bcr_Compare bc h p = None)"

lemma SetPassword_done:
  assumes "AuthnFileStore_SetPassword env bc salt now c pw st = (None, st')"
  obtains h e where "5 \<le> length pw" "bcr_Generate bc salt pw = Inr h" "mget (fs_entries st) c = Some e"
    "fs_entries st' = mput c (e\<lparr>ae_PasswordHash := h, ae_profile := (ae_profile e)\<lparr>cp_UpdatedMSE := now\<rparr>\<rparr>) (fs_entries st)"
proof -
  from assms obtain h e where *: "5 \<le> length pw" "bcr_Generate bc salt pw = Inr h" "mget (fs_entries st) c = Some e"
    "AuthnFileStore_save env (st\<lparr>fs_entries := mput c
      (e\<lparr>ae_PasswordHash := h, ae_profile := (ae_profile e)\<lparr>cp_UpdatedMSE := now\<rparr>\<rparr>) (fs_entries st)\<rparr>) = (None, st')"
    by (auto simp: AuthnFileStore_SetPassword_def AuthnFileStore_SetPasswordHash_def split: if_splits sum.splits option.splits)
  from arg_cong [OF *(4), of "fs_entries \<circ> snd"] that [OF *(1-3)] show thesis by simp
qed

text \<open>
  Set and verify a password (AuthnFileStore.go SetPassword, SetPasswordHash,
  VerifyPassword), for every bcrypt that accepts a password against the hash it generated for it:
  after a successful SetPassword the client logs in with the new password and gets its profile,
  unchanged but for the update time; another password is accepted only if bcrypt accepts it
  against the new hash; what the other clients can log in with is unchanged. A password of fewer
  than five bytes is never set.
\<close>

lemma SetPassword_then_VerifyPassword:
  assumes "bcrypt_ok bc" and "AuthnFileStore_SetPassword env bc salt now c pw st = (None, st')"
  shows "5 \<le> length pw
    \<and> AuthnFileStore_VerifyPassword bc c pw st'
       = ((fst (AuthnFileStore_GetProfile c st))\<lparr>cp_UpdatedMSE := now\<rparr>, None)
    \<and> (\<exists>h. bcr_Generate bc salt pw = Inr h
        \<and> (\<forall>q. snd (AuthnFileStore_VerifyPassword bc c q st') = None \<longleftrightarrow> bcr_Compare bc h q = None))
    \<and> (\<forall>c2 q. c2 \<noteq> c \<longrightarrow> AuthnFileStore_VerifyPassword bc c2 q st' = AuthnFileStore_VerifyPassword bc c2 q st)"
proof -
  obtain h e where *: "5 \<le> length pw" "bcr_Generate bc salt pw = Inr h" "mget (fs_entries st) c = Some e"
    "fs_entries st' = mput c (e\<lparr>ae_PasswordHash := h, ae_profile := (ae_profile e)\<lparr>cp_UpdatedMSE := now\<rparr>\<rparr>) (fs_entries st)"
    using SetPassword_done [OF assms(2)] .
  have "bcr_Compare bc h pw = None" using assms(1) *(2) by (auto simp: bcrypt_ok_def)
  with * show ?thesis
    by (simp add: AuthnFileStore_VerifyPassword_def AuthnFileStore_GetProfile_def gomap_simps)
qed

abbreviation plain_bcrypt :: bcrypt where
  "plain_bcrypt \<equiv> \<lparr>bcr_Generate = (\<lambda>salt p. if length p \<le> 72 then Inr p else Inl (ErrLib ''too long'')),
     bcr_Compare = (\<lambda>h p. if h = p then None else Some (ErrLib ''mismatch''))\<rparr>"

lemma plain_bcrypt_ok: "bcrypt_ok plain_bcrypt"
  by (simp add: bcrypt_ok_def)

lemma SetPassword_then_VerifyPassword_witness:
  "\<exists>st'. AuthnFileStore_SetPassword (demo_pw_env\<lparr>pe_Marshal := \<lambda>es. Inr ''x''\<rparr>) plain_bcrypt [] 9 ''bob'' ''secret''
      ((NewAuthnFileStore ''pw'' None)\<lparr>fs_entries := [(''bob'', demo_entry)]\<rparr>) = (None, st')
    \<and> AuthnFileStore_VerifyPassword plain_bcrypt ''bob'' ''secret'' st'
       = ((ae_profile demo_entry)\<lparr>cp_UpdatedMSE := 9\<rparr>, None)"
proof -
  let ?st = "(NewAuthnFileStore ''pw'' None)\<lparr>fs_entries := [(''bob'', demo_entry)]\<rparr>"
  let ?env = "demo_pw_env\<lparr>pe_Marshal := \<lambda>es. Inr ''x''\<rparr>"
  have "fst (AuthnFileStore_SetPassword ?env plain_bcrypt [] 9 ''bob'' ''secret'' ?st) = None"
    by (simp add: AuthnFileStore_SetPassword_def AuthnFileStore_SetPasswordHash_def AuthnFileStore_save_def
        WritePasswordsToTempFile_def)
  then obtain st' where st': "AuthnFileStore_SetPassword ?env plain_bcrypt [] 9 ''bob'' ''secret'' ?st = (None, st')"
    by (cases "AuthnFileStore_SetPassword ?env plain_bcrypt [] 9 ''bob'' ''secret'' ?st") simp
  then show ?thesis
    using SetPassword_then_VerifyPassword [OF plain_bcrypt_ok st'] by (simp add: AuthnFileStore_GetProfile_def)
qed

end
