(* ===== verification/MsgServerAuth.thy ===== *)
theory MsgServerAuth
  imports HubProps AuthStore
begin

text \<open>
  Model of \<open>done_mod/mod_bus/bus_srv/NatsAuth.go\<close> and the role tables of
  \<open>done_mod/mod_auth/auth_api/ManageRolesAPI.go\<close>: permissions per role, the users and keys given to
  the embedded NATS server, tokens and their validation. The JWT, nkeys and base64 functions are
  records of functions; reloading the server options is a function that may give an error.

  The role permission tables are slices that share backing arrays (\<open>append\<close> on a package variable),
  so they live in a heap of arrays. The slices of \<open>servicePermissions\<close> are only reachable
  through their own map entry and are lists.
\<close>

section \<open>Role permissions\<close>

record RolePermission =
  rp_AgentID :: string
  rp_ThingID :: string
  rp_MsgType :: string
  rp_MsgName :: string
  rp_AllowPub :: bool
  rp_AllowSub :: bool

definition zero_perm :: RolePermission where
  "zero_perm = \<lparr>rp_AgentID = [], rp_ThingID = [], rp_MsgType = [], rp_MsgName = [], rp_AllowPub = False, rp_AllowSub = False\<rparr>"

text \<open>A slice that starts at index 0 of its backing array; the capacity is the array's length.\<close>

record perm_slice =
  sl_arr :: nat
  sl_len :: nat

type_synonym perm_heap = "RolePermission list list"

definition slice_values :: "perm_heap \<Rightarrow> perm_slice \<Rightarrow> RolePermission list" where
  "slice_values h s = take (sl_len s) (h ! sl_arr s)"

text \<open>
  \<open>append\<close>: in place when the elements fit in the capacity, into a new array otherwise.
  \<open>grow cap needed\<close> is the capacity the runtime picks; \<open>gc_grow\<close> is the doubling rule of the
  gc runtime for slices of fewer than 256 elements (72-byte elements at capacities 4 and 8 fill
  their size classes exactly).
\<close>

definition go_append ::
  "(nat \<Rightarrow> nat \<Rightarrow> nat) \<Rightarrow> perm_slice \<Rightarrow> RolePermission list \<Rightarrow> perm_heap \<Rightarrow> perm_slice \<times> perm_heap" where
  "go_append grow s xs h =
     (let arr = h ! sl_arr s; n = sl_len s; needed = n + length xs
      in if needed \<le> length arr
         then (s\<lparr>sl_len := needed\<rparr>, h[sl_arr s := take n arr @ xs @ drop needed arr])
         else (\<lparr>sl_arr = length h, sl_len = needed\<rparr>,
               h @ [take n arr @ xs @ replicate (grow (length arr) needed - needed) zero_perm]))"

definition gc_grow :: "nat \<Rightarrow> nat \<Rightarrow> nat" where
  "gc_grow cap needed = (if needed > 2 * cap then needed else 2 * cap)"

abbreviation (input) ClientRoleNone :: string where "ClientRoleNone \<equiv> []"
abbreviation ClientRoleAdmin :: string where "ClientRoleAdmin \<equiv> ''admin''"
abbreviation ClientRoleDevice :: string where "ClientRoleDevice \<equiv> ''device''"
abbreviation ClientRoleManager :: string where "ClientRoleManager \<equiv> ''manager''"
abbreviation ClientRoleOperator :: string where "ClientRoleOperator \<equiv> ''operator''"
abbreviation ClientRoleService :: string where "ClientRoleService \<equiv> ''service''"
abbreviation ClientRoleViewer :: string where "ClientRoleViewer \<equiv> ''viewer''"

abbreviation pub_perm :: "string \<Rightarrow> string \<Rightarrow> RolePermission" where
  "pub_perm msgType agentID \<equiv> zero_perm\<lparr>rp_MsgType := msgType, rp_AgentID := agentID, rp_AllowPub := True\<rparr>"
abbreviation sub_perm :: "string \<Rightarrow> string \<Rightarrow> RolePermission" where
  "sub_perm msgType agentID \<equiv> zero_perm\<lparr>rp_MsgType := msgType, rp_AgentID := agentID, rp_AllowSub := True\<rparr>"
abbreviation own_id :: string where "own_id \<equiv> ''{clientID}''"

definition devicePermissions :: "RolePermission list" where
  "devicePermissions = [pub_perm MessageTypeEvent own_id, sub_perm MessageTypeEvent [],
     sub_perm MessageTypeAction own_id, sub_perm MessageTypeConfig own_id]"

definition viewerPermissions :: "RolePermission list" where
  "viewerPermissions = [sub_perm MessageTypeEvent []]"

definition operatorPermissions :: "RolePermission list" where
  "operatorPermissions = [sub_perm MessageTypeEvent [], pub_perm MessageTypeAction []]"

text \<open>The package variables in initialization order: the heap and the map of roles to slices.\<close>

definition DefaultRolePermissions ::
  "(nat \<Rightarrow> nat \<Rightarrow> nat) \<Rightarrow> perm_heap \<times> (string, perm_slice option) gomap" where
  "DefaultRolePermissions grow =
     (let h0 = [devicePermissions, viewerPermissions, operatorPermissions];
          dev = \<lparr>sl_arr = 0, sl_len = 4\<rparr>; vie = \<lparr>sl_arr = 1, sl_len = 1\<rparr>; ope = \<lparr>sl_arr = 2, sl_len = 2\<rparr>;
          (man, h1) = go_append grow ope [pub_perm MessageTypeConfig []] h0;
          (adm, h2) = go_append grow man [pub_perm MessageTypeRPC []] h1;
          (ser, h3) = go_append grow adm [pub_perm MessageTypeEvent own_id, sub_perm MessageTypeRPC own_id,
             sub_perm MessageTypeAction own_id, sub_perm MessageTypeConfig own_id] h2
      in (h3, [(ClientRoleNone, None), (ClientRoleDevice, Some dev), (ClientRoleService, Some ser),
               (ClientRoleViewer, Some vie), (ClientRoleOperator, Some ope), (ClientRoleManager, Some man),
               (ClientRoleAdmin, Some adm)]))"

section \<open>The server\<close>

record SubjectPermission =
  sp_Allow :: "string list"
  sp_Deny :: "string list"

record Permissions =
  pm_Publish :: SubjectPermission
  pm_Subscribe :: SubjectPermission

text \<open>No permissions object means unlimited access.\<close>

record nats_user =
  nu_Username :: string
  nu_Password :: string
  nu_Permissions :: "Permissions option"

record nkey_user =
  nk_Nkey :: string
  nk_Permissions :: "Permissions option"

record NatsMsgServer =
  ms_authClients :: "(string, ClientAuthInfo) gomap"
  ms_heap :: perm_heap
  ms_rolePermissions :: "(string, perm_slice option) gomap"
  ms_servicePermissions :: "(string, RolePermission list) gomap"
  ms_Users :: "nats_user list"
  ms_Nkeys :: "nkey_user list"
  ms_AuthCallout :: bool
  ms_coreServicePub :: string
  ms_systemUserPub :: string
  ms_appAccountPub :: string
  ms_AppAccountName :: string

definition perm_agent :: "string \<Rightarrow> RolePermission \<Rightarrow> string" where
  "perm_agent clientID perm = (if rp_AgentID perm = own_id then clientID else rp_AgentID perm)"

definition pub_subject :: "string \<Rightarrow> RolePermission \<Rightarrow> string" where
  "pub_subject clientID perm =
     MakeSubject (rp_MsgType perm) (perm_agent clientID perm) (rp_ThingID perm) (rp_MsgName perm) clientID"

definition sub_subject :: "string \<Rightarrow> RolePermission \<Rightarrow> string" where
  "sub_subject clientID perm =
     MakeSubject (rp_MsgType perm) (perm_agent clientID perm) (rp_ThingID perm) (rp_MsgName perm) []"

abbreviation EventsIntakeStreamName :: string where "EventsIntakeStreamName \<equiv> ''$events''"

definition stream_subjects :: "string list" where
  "stream_subjects = [''$JS.API.STREAM.INFO.'' @ EventsIntakeStreamName,
     ''$JS.API.CONSUMER.CREATE.'' @ EventsIntakeStreamName, ''$JS.API.CONSUMER.LIST.'' @ EventsIntakeStreamName,
     ''$JS.API.CONSUMER.INFO.'' @ EventsIntakeStreamName @ ''.>'',
     ''$JS.API.CONSUMER.MSG.NEXT.'' @ EventsIntakeStreamName @ ''.>'']"

definition NatsMsgServer_MakePermissions ::
  "(nat \<Rightarrow> nat \<Rightarrow> nat) \<Rightarrow> ClientAuthInfo \<Rightarrow> NatsMsgServer \<Rightarrow> Permissions \<times> NatsMsgServer" where
  "NatsMsgServer_MakePermissions grow clientInfo srv =
     (let clientID = ci_ClientID clientInfo;
          subInbox = MessageTypeINBOX @ ''.'' @ clientID @ ''.>'';
          pubInbox = MessageTypeINBOX @ ''.>'';
          result = (\<lambda>pubs denies subs.
            \<lparr>pm_Publish = \<lparr>sp_Allow = pubInbox # pubs, sp_Deny = denies\<rparr>,
             pm_Subscribe = \<lparr>sp_Allow = subInbox # subs, sp_Deny = []\<rparr>\<rparr>)
      in case mget (ms_rolePermissions srv) (ci_Role clientInfo) of
           Some None \<Rightarrow> (result [] [] [], srv)
         | Some (Some rolePerm) \<Rightarrow>
             (let (perms, h) =
                    (case mget (ms_servicePermissions srv) (ci_Role clientInfo) of
                       Some servicePerms \<Rightarrow> go_append grow rolePerm servicePerms (ms_heap srv)
                     | None \<Rightarrow> (rolePerm, ms_heap srv));
                  rolePerms = slice_values h perms
              in (result
                    (map (pub_subject clientID) (filter rp_AllowPub rolePerms) @ stream_subjects
                       @ (if ci_Role clientInfo = ClientRoleAdmin then [''$JS.API.INFO''] else []))
                    [] (map (sub_subject clientID) (filter rp_AllowSub rolePerms)),
                  srv\<lparr>ms_heap := h\<rparr>))
         | None \<Rightarrow> (result [] [''$JS.API.CONSUMER.>'', ''$JS.API.STREAM.>''] [], srv))"

text \<open>The loop of \<open>ApplyAuth\<close> over the clients.\<close>

fun apply_clients ::
  "(nat \<Rightarrow> nat \<Rightarrow> nat) \<Rightarrow> ClientAuthInfo list \<Rightarrow> NatsMsgServer
     \<Rightarrow> (nats_user list \<times> nkey_user list \<times> (string, ClientAuthInfo) gomap)
     \<Rightarrow> (nats_user list \<times> nkey_user list \<times> (string, ClientAuthInfo) gomap) \<times> NatsMsgServer" where
  "apply_clients grow [] srv acc = (acc, srv)"
| "apply_clients grow (ci # clients) srv (pwUsers, nkeyUsers, authClients) =
     (case NatsMsgServer_MakePermissions grow ci srv of
        (perms, srv') \<Rightarrow>
          apply_clients grow clients srv'
            (if ci_PasswordHash ci \<noteq> []
             then pwUsers @ [\<lparr>nu_Username = ci_ClientID ci, nu_Password = ci_PasswordHash ci, nu_Permissions = Some perms\<rparr>]
             else pwUsers,
             if ci_PubKey ci \<noteq> [] then nkeyUsers @ [\<lparr>nk_Nkey = ci_PubKey ci, nk_Permissions = Some perms\<rparr>] else nkeyUsers,
             mput (ci_ClientID ci) ci authClients))"

definition NatsMsgServer_ApplyAuth ::
  "(nat \<Rightarrow> nat \<Rightarrow> nat) \<Rightarrow> (NatsMsgServer \<Rightarrow> go_error option) \<Rightarrow> ClientAuthInfo list \<Rightarrow> NatsMsgServer
     \<Rightarrow> go_error option \<times> NatsMsgServer" where
  "NatsMsgServer_ApplyAuth grow ReloadOptions clients srv =
     (let core = [\<lparr>nk_Nkey = ms_coreServicePub srv, nk_Permissions = None\<rparr>,
                  \<lparr>nk_Nkey = ms_systemUserPub srv, nk_Permissions = None\<rparr>];
          ((pwUsers, nkeyUsers, authClients), srv1) = apply_clients grow clients srv ([], core, []);
          srv2 = srv1\<lparr>ms_Users := pwUsers, ms_Nkeys := nkeyUsers, ms_authClients := authClients\<rparr>
      in (ReloadOptions srv2, srv2))"

definition NatsMsgServer_SetRolePermissions ::
  "(string, perm_slice option) gomap \<Rightarrow> NatsMsgServer \<Rightarrow> NatsMsgServer" where
  "NatsMsgServer_SetRolePermissions rolePerms srv = srv\<lparr>ms_rolePermissions := rolePerms\<rparr>"

fun NatsMsgServer_SetServicePermissions ::
  "string \<Rightarrow> string \<Rightarrow> string list \<Rightarrow> NatsMsgServer \<Rightarrow> NatsMsgServer" where
  "NatsMsgServer_SetServicePermissions serviceID capability [] srv = srv"
| "NatsMsgServer_SetServicePermissions serviceID capability (role # roles) srv =
     (let rp = (case mget (ms_servicePermissions srv) role of Some rp \<Rightarrow> rp | None \<Rightarrow> []);
          perm = \<lparr>rp_AgentID = serviceID, rp_ThingID = capability, rp_MsgType = MessageTypeRPC, rp_MsgName = [],
                  rp_AllowPub = True, rp_AllowSub = False\<rparr>
      in NatsMsgServer_SetServicePermissions serviceID capability roles
           (srv\<lparr>ms_servicePermissions := mput role (rp @ [perm]) (ms_servicePermissions srv)\<rparr>))"

definition NewNatsMsgServer ::
  "bool \<Rightarrow> string \<Rightarrow> string \<Rightarrow> string \<Rightarrow> string \<Rightarrow> perm_heap \<times> (string, perm_slice option) gomap \<Rightarrow> NatsMsgServer" where
  "NewNatsMsgServer callout corePub sysPub accPub accName rolePermissions =
     \<lparr>ms_authClients = [], ms_heap = fst rolePermissions, ms_rolePermissions = snd rolePermissions,
      ms_servicePermissions = [], ms_Users = [], ms_Nkeys = [], ms_AuthCallout = callout, ms_coreServicePub = corePub,
      ms_systemUserPub = sysPub, ms_appAccountPub = accPub, ms_AppAccountName = accName\<rparr>"

section \<open>Tokens\<close>

record UserClaims =
  uc_Subject :: string
  uc_Name :: string
  uc_ClientType :: string
  uc_IssuedAt :: int
  uc_Expires :: int
  uc_Issuer :: string
  uc_Audience :: string
  uc_Permissions :: Permissions

text \<open>
  The JWT package: \<open>jl_Validate\<close> gives the errors and warnings of claims at a time (seconds),
  \<open>jl_Encode\<close> signs claims with the account key, \<open>jl_Decode\<close> is \<open>DecodeUserClaims\<close>.
\<close>

record jwt_lib =
  jl_Validate :: "int \<Rightarrow> UserClaims \<Rightarrow> go_error list \<times> go_error list"
  jl_Encode :: "string \<Rightarrow> UserClaims \<Rightarrow> go_error + string"
  jl_Decode :: "string \<Rightarrow> go_error + UserClaims"

text \<open>Base64 decoding (bytes and error), and public keys: \<open>cr_Verify key nonce sig\<close>.\<close>

record key_lib =
  cr_RawURLDecode :: "string \<Rightarrow> string \<times> go_error option"
  cr_StdDecode :: "string \<Rightarrow> string \<times> go_error option"
  cr_FromPublicKey :: "string \<Rightarrow> go_error option"
  cr_Verify :: "string \<Rightarrow> string \<Rightarrow> string \<Rightarrow> go_error option"

definition NatsMsgServer_MakeJWTPermissions ::
  "(nat \<Rightarrow> nat \<Rightarrow> nat) \<Rightarrow> ClientAuthInfo \<Rightarrow> NatsMsgServer \<Rightarrow> Permissions \<times> NatsMsgServer" where
  "NatsMsgServer_MakeJWTPermissions grow clientInfo srv = NatsMsgServer_MakePermissions grow clientInfo srv"

definition token_validity :: "string \<Rightarrow> int" where
  "token_validity clientType =
     (if clientType = ClientTypeDevice then DefaultDeviceTokenValidityDays
      else if clientType = ClientTypeService then DefaultServiceTokenValidityDays else DefaultUserTokenValidityDays)"

text \<open>
  One clock reading stands for the calls of \<open>time.Now()\<close>. The validation error is overwritten by the
  result of \<open>Encode\<close>; with warnings but no errors the index into the errors is out of range.
\<close>

definition NatsMsgServer_CreateJWTToken ::
  "(nat \<Rightarrow> nat \<Rightarrow> nat) \<Rightarrow> jwt_lib \<Rightarrow> int \<Rightarrow> ClientAuthInfo \<Rightarrow> NatsMsgServer
     \<Rightarrow> (string \<times> go_error option) outcome \<times> NatsMsgServer" where
  "NatsMsgServer_CreateJWTToken grow J now authInfo srv =
     (if ci_ClientID authInfo = [] \<or> ci_PubKey authInfo = [] \<or> ci_Role authInfo = [] \<or> ci_ClientType authInfo = []
      then (Returns ([], Some ErrInvalidAuthInfo), srv)
      else
        (let (perms, srv1) = NatsMsgServer_MakeJWTPermissions grow authInfo srv;
             uc = \<lparr>uc_Subject = ci_PubKey authInfo, uc_Name = ci_ClientID authInfo, uc_ClientType = ci_ClientType authInfo,
                   uc_IssuedAt = now, uc_Expires = now + token_validity (ci_ClientType authInfo) * 86400,
                   uc_Issuer = ms_appAccountPub srv, uc_Audience = ms_AppAccountName srv, uc_Permissions = perms\<rparr>
         in (case jl_Validate J now uc of
               ([], w # ws) \<Rightarrow> Panics IndexOutOfRange
             | _ \<Rightarrow> (case jl_Encode J (ms_appAccountPub srv) uc of
                      Inl e \<Rightarrow> Returns ([], Some e) | Inr newToken \<Rightarrow> Returns (newToken, None)), srv1)))"

definition NatsMsgServer_CreateToken ::
  "(nat \<Rightarrow> nat \<Rightarrow> nat) \<Rightarrow> jwt_lib \<Rightarrow> int \<Rightarrow> ClientAuthInfo \<Rightarrow> NatsMsgServer
     \<Rightarrow> (string \<times> go_error option) outcome \<times> NatsMsgServer" where
  "NatsMsgServer_CreateToken grow J now authInfo srv =
     (if ms_AuthCallout srv then NatsMsgServer_CreateJWTToken grow J now authInfo srv
      else (Returns (ci_PubKey authInfo,
              if ci_PubKey authInfo = [] then Some (ErrTokenNeedsKey (ci_ClientID authInfo)) else None), srv))"

definition zero_auth_info :: ClientAuthInfo where
  "zero_auth_info = \<lparr>ci_ClientID = [], ci_ClientType = [], ci_PubKey = [], ci_PasswordHash = [], ci_Role = []\<rparr>"

definition NatsMsgServer_GetClientAuth :: "string \<Rightarrow> NatsMsgServer \<Rightarrow> ClientAuthInfo \<times> go_error option" where
  "NatsMsgServer_GetClientAuth clientID srv =
     (case mget (ms_authClients srv) clientID of
        None \<Rightarrow> (zero_auth_info, Some (ErrClientUnknown clientID))
      | Some clientAuth \<Rightarrow> (clientAuth, None))"

text \<open>The check of the signed nonce in \<open>ValidateJWTToken\<close>; an invalid key is a nil interface.\<close>

definition verify_nonce :: "key_lib \<Rightarrow> string \<Rightarrow> string \<Rightarrow> string \<Rightarrow> go_error option outcome" where
  "verify_nonce K subject signedNonce nonce =
     (let (sig, err) = (case cr_RawURLDecode K signedNonce of
            (sig, None) \<Rightarrow> (sig, None)
          | (_, Some _) \<Rightarrow> cr_StdDecode K signedNonce)
      in if err \<noteq> None then Returns (Some ErrBase64)
         else if cr_FromPublicKey K subject \<noteq> None then Panics NilDereference
         else Returns (if cr_Verify K subject nonce sig \<noteq> None then Some ErrSignature else None))"

text \<open>The error of the claims' validation is overwritten by the result of \<open>GetClientAuth\<close>.\<close>

definition NatsMsgServer_ValidateJWTToken ::
  "jwt_lib \<Rightarrow> key_lib \<Rightarrow> int \<Rightarrow> string \<Rightarrow> string \<Rightarrow> string \<Rightarrow> string \<Rightarrow> NatsMsgServer \<Rightarrow> go_error option outcome" where
  "NatsMsgServer_ValidateJWTToken J K now clientID tokenString signedNonce nonce srv =
     (case jl_Decode J tokenString of
        Inl e \<Rightarrow> Returns (Some ErrTokenDecode)
      | Inr arc \<Rightarrow>
          (let err = (case jl_Validate J now arc of (e # es, _) \<Rightarrow> Some e | ([], w # ws) \<Rightarrow> Some w | ([], []) \<Rightarrow> None);
               (userAuth, err) = NatsMsgServer_GetClientAuth clientID srv
           in if err \<noteq> None \<or> uc_Subject arc \<noteq> ci_PubKey userAuth then Returns (Some ErrKeyNotOnFile)
              else and_then (if signedNonce \<noteq> [] then verify_nonce K (uc_Subject arc) signedNonce nonce else Returns None)
                (\<lambda>sigErr. case sigErr of
                   Some e \<Rightarrow> Returns (Some e)
                 | None \<Rightarrow>
                     if uc_Issuer arc \<noteq> ms_appAccountPub srv then Returns (Some ErrIssuer)
                     else if uc_Name arc \<noteq> clientID then Returns (Some ErrTokenClient)
                     else Returns err)))"

definition NatsMsgServer_ValidatePassword ::
  "bcrypt \<Rightarrow> string \<Rightarrow> string \<Rightarrow> NatsMsgServer \<Rightarrow> go_error option" where
  "NatsMsgServer_ValidatePassword bc loginID password srv =
     (if loginID = [] \<or> password = [] then Some (ErrPassword loginID)
      else case NatsMsgServer_GetClientAuth loginID srv of
             (cAuth, None) \<Rightarrow> bcr_Compare bc (ci_PasswordHash cAuth) password
           | (_, Some err) \<Rightarrow> Some err)"

definition NatsMsgServer_ValidateNKey ::
  "key_lib \<Rightarrow> string \<Rightarrow> string \<Rightarrow> string \<Rightarrow> string \<Rightarrow> NatsMsgServer \<Rightarrow> go_error option" where
  "NatsMsgServer_ValidateNKey K clientID pubKey signedNonce nonce srv =
     (if cr_FromPublicKey K pubKey \<noteq> None then Some ErrNKey
      else case cr_Verify K pubKey nonce (fst (cr_RawURLDecode K signedNonce)) of
             Some e \<Rightarrow> Some e
           | None \<Rightarrow>
               (case NatsMsgServer_GetClientAuth clientID srv of
                  (_, Some e) \<Rightarrow> Some e
                | (prof, None) \<Rightarrow> if ci_PubKey prof \<noteq> pubKey then Some ErrKeyNotOnFile else None))"

definition NatsMsgServer_ValidateToken ::
  "jwt_lib \<Rightarrow> key_lib \<Rightarrow> int \<Rightarrow> string \<Rightarrow> string \<Rightarrow> string \<Rightarrow> string \<Rightarrow> NatsMsgServer \<Rightarrow> go_error option outcome" where
  "NatsMsgServer_ValidateToken J K now clientID token signedNonce nonce srv =
     (if \<not> ms_AuthCallout srv
      then Returns (if token = [] \<or> clientID = [] then Some (ErrInvalidToken clientID) else None)
      else NatsMsgServer_ValidateJWTToken J K now clientID token signedNonce nonce srv)"

end
