(* ===== verification/MsgServerProps.thy ===== *)
theory MsgServerProps
  imports MsgServerAuth
begin

text \<open>
  Theorems about the message server's authorization: a client can only publish under its own
  name, and what tokens are accepted.
\<close>

section \<open>Well-formed permission tables\<close>

text \<open>A subject token that is neither empty nor split nor the tail wildcard.\<close>

definition plain_token :: "string \<Rightarrow> bool" where
  "plain_token s \<longleftrightarrow> CHR ''.'' \<notin> set s \<and> s \<noteq> ''>''"

definition plain_perm :: "RolePermission \<Rightarrow> bool" where
  "plain_perm p \<longleftrightarrow> plain_token (rp_MsgType p) \<and> plain_token (rp_AgentID p) \<and> plain_token (rp_ThingID p)
     \<and> plain_token (rp_MsgName p)"

definition slice_ok :: "perm_heap \<Rightarrow> perm_slice \<Rightarrow> bool" where
  "slice_ok h s \<longleftrightarrow> sl_arr s < length h \<and> sl_len s \<le> length (h ! sl_arr s)"

definition perms_ok :: "NatsMsgServer \<Rightarrow> bool" where
  "perms_ok srv \<longleftrightarrow> list_all (list_all plain_perm) (ms_heap srv)
     \<and> list_all (\<lambda>(r, ps). list_all plain_perm ps) (ms_servicePermissions srv)
     \<and> list_all (\<lambda>(r, so). case so of None \<Rightarrow> True | Some s \<Rightarrow> slice_ok (ms_heap srv) s) (ms_rolePermissions srv)"

lemma perms_okD:
  assumes "perms_ok srv"
  shows "list_all (list_all plain_perm) (ms_heap srv)"
    and "mget (ms_servicePermissions srv) r = Some ps \<Longrightarrow> list_all plain_perm ps"
    and "mget (ms_rolePermissions srv) r = Some (Some s) \<Longrightarrow> slice_ok (ms_heap srv) s"
  using assms by (auto simp: perms_ok_def list_all_iff dest!: map_of_SomeD split: option.splits)

lemma plain_zero_perm [simp]: "plain_perm zero_perm"
  by (simp add: plain_perm_def plain_token_def zero_perm_def)

lemma list_all_take: "list_all P xs \<Longrightarrow> list_all P (take n xs)"
  by (auto simp: list_all_iff dest: in_set_takeD)

lemma list_all_drop: "list_all P xs \<Longrightarrow> list_all P (drop n xs)"
  by (auto simp: list_all_iff dest: in_set_dropD)

lemma list_all_list_update: "list_all P xs \<Longrightarrow> P x \<Longrightarrow> list_all P (xs[i := x])"
  by (auto simp: list_all_iff dest: set_update_subset_insert [THEN subsetD])

text \<open>Appending keeps every array plain and every slice within its array.\<close>

lemma go_append_plain:
  assumes "list_all (list_all plain_perm) h" "list_all plain_perm xs" "slice_ok h s"
    and "go_append grow s xs h = (s', h')"
  shows "list_all (list_all plain_perm) h' \<and> list_all plain_perm (slice_values h' s') \<and> slice_ok h' s'
    \<and> slice_values h' s' = slice_values h s @ xs \<and> (\<forall>t. slice_ok h t \<longrightarrow> slice_ok h' t)"
proof -
  let ?arr = "h ! sl_arr s"
  have arr: "list_all plain_perm ?arr" and lt: "sl_arr s < length h" and len: "sl_len s \<le> length ?arr"
    using assms(1,3) by (auto simp: slice_ok_def list_all_iff)
  show ?thesis
  proof (cases "sl_len s + length xs \<le> length ?arr")
    case True
    then have eq: "s' = s\<lparr>sl_len := sl_len s + length xs\<rparr>"
      "h' = h[sl_arr s := take (sl_len s) ?arr @ xs @ drop (sl_len s + length xs) ?arr]"
      using assms(4) by (auto simp: go_append_def Let_def)
    have "list_all (list_all plain_perm) h'"
      unfolding eq by (intro list_all_list_update assms(1)) (simp add: arr assms(2) list_all_take list_all_drop)
    moreover have "slice_ok h t \<Longrightarrow> slice_ok h' t" for t
      using True len by (cases "sl_arr t = sl_arr s") (auto simp: slice_ok_def eq)
    ultimately show ?thesis
      using lt len True assms(2) arr by (auto simp: eq slice_values_def slice_ok_def list_all_take)
  next
    case False
    then have eq: "s' = \<lparr>sl_arr = length h, sl_len = sl_len s + length xs\<rparr>"
      "h' = h @ [take (sl_len s) ?arr @ xs @ replicate (grow (length ?arr) (sl_len s + length xs) - (sl_len s + length xs)) zero_perm]"
      using assms(4) by (auto simp: go_append_def Let_def)
    have "list_all (list_all plain_perm) h'"
      using assms(1,2) arr by (auto simp: eq list_all_iff dest: in_set_takeD)
    then show ?thesis
      using len assms(2) arr by (auto simp: eq slice_values_def slice_ok_def list_all_take nth_append)
  qed
qed

lemma MakePermissions_state:
  "snd (NatsMsgServer_MakePermissions grow ci srv) =
     (case mget (ms_rolePermissions srv) (ci_Role ci) of
        Some (Some s) \<Rightarrow>
          (case mget (ms_servicePermissions srv) (ci_Role ci) of
             Some ps \<Rightarrow> srv\<lparr>ms_heap := snd (go_append grow s ps (ms_heap srv))\<rparr>
           | None \<Rightarrow> srv)
      | _ \<Rightarrow> srv)"
  by (simp add: NatsMsgServer_MakePermissions_def Let_def split_beta split: option.split)

lemma MakePermissions_perms_ok:
  assumes "perms_ok srv"
  shows "perms_ok (snd (NatsMsgServer_MakePermissions grow ci srv))"
proof (cases "\<exists>s ps. mget (ms_rolePermissions srv) (ci_Role ci) = Some (Some s)
    \<and> mget (ms_servicePermissions srv) (ci_Role ci) = Some ps")
  case True
  then obtain s ps where app: "mget (ms_rolePermissions srv) (ci_Role ci) = Some (Some s)"
    "mget (ms_servicePermissions srv) (ci_Role ci) = Some ps" by blast
  note g = go_append_plain [OF perms_okD(1) [OF assms] perms_okD(2) [OF assms app(2)] perms_okD(3) [OF assms app(1)]
      surjective_pairing]
  show ?thesis
    using assms g by (auto simp: MakePermissions_state app perms_ok_def list_all_iff split: option.splits)
next
  case False
  then have "snd (NatsMsgServer_MakePermissions grow ci srv) = srv"
    by (auto simp: MakePermissions_state split: option.split)
  then show ?thesis using assms by simp
qed

text \<open>The permissions of a role that \<open>MakePermissions\<close> turns into subjects are plain.\<close>

lemma MakePermissions_publish:
  assumes "perms_ok srv"
    and "pat \<in> set (sp_Allow (pm_Publish (fst (NatsMsgServer_MakePermissions grow ci srv))))"
  obtains "pat = MessageTypeINBOX @ ''.>''" | "pat \<in> set (''$JS.API.INFO'' # stream_subjects)"
    | p where "plain_perm p" "pat = pub_subject (ci_ClientID ci) p"
proof (cases "mget (ms_rolePermissions srv) (ci_Role ci)")
  case (Some so)
  show thesis
  proof (cases so)
    case (Some s)
    with \<open>mget (ms_rolePermissions srv) (ci_Role ci) = Some so\<close>
    have role: "mget (ms_rolePermissions srv) (ci_Role ci) = Some (Some s)" by simp
    define sh where "sh = (case mget (ms_servicePermissions srv) (ci_Role ci) of
        Some ps \<Rightarrow> go_append grow s ps (ms_heap srv) | None \<Rightarrow> (s, ms_heap srv))"
    have "list_all plain_perm (slice_values (snd sh) (fst sh))"
    proof (cases "mget (ms_servicePermissions srv) (ci_Role ci)")
      case None
      then show ?thesis
        using perms_okD(1) [OF assms(1)] perms_okD(3) [OF assms(1) role]
        by (fastforce simp: sh_def slice_values_def slice_ok_def list_all_iff dest: in_set_takeD nth_mem)
    next
      case (Some ps)
      then have "go_append grow s ps (ms_heap srv) = (fst sh, snd sh)" by (simp add: sh_def)
      from go_append_plain [OF perms_okD(1) [OF assms(1)] perms_okD(2) [OF assms(1) Some]
          perms_okD(3) [OF assms(1) role] this]
      show ?thesis by blast
    qed
    moreover have "sp_Allow (pm_Publish (fst (NatsMsgServer_MakePermissions grow ci srv))) =
        (MessageTypeINBOX @ ''.>'') # map (pub_subject (ci_ClientID ci))
          (filter rp_AllowPub (slice_values (snd sh) (fst sh))) @ stream_subjects
          @ (if ci_Role ci = ClientRoleAdmin then [''$JS.API.INFO''] else [])"
      unfolding sh_def by (simp add: NatsMsgServer_MakePermissions_def role Let_def split_beta split: option.split)
    ultimately show thesis
      using assms(2) that by (auto simp: list_all_iff split: if_splits)
  qed (use assms(2) that Some in \<open>simp add: NatsMsgServer_MakePermissions_def Let_def\<close>)
qed (use assms(2) that in \<open>simp add: NatsMsgServer_MakePermissions_def Let_def\<close>)

section \<open>Publishing under one's own name\<close>

text \<open>
  The NATS documentation of subject matching, as far as it is needed: a pattern token that does not
  come after the tail wildcard is the single-token wildcard or equals the subject's token.
\<close>

definition nats_matching :: "(string \<Rightarrow> string \<Rightarrow> bool) \<Rightarrow> bool" where
  "nats_matching matches \<longleftrightarrow> (\<forall>pat subj i. matches pat subj
     \<longrightarrow> i < length (strings_Split pat (CHR ''.'')) \<longrightarrow> list_all (\<lambda>t. t \<noteq> ''>'') (take (Suc i) (strings_Split pat (CHR ''.'')))
     \<longrightarrow> i < length (strings_Split subj (CHR ''.''))
       \<and> (strings_Split pat (CHR ''.'') ! i = ''*'' \<or> strings_Split subj (CHR ''.'') ! i = strings_Split pat (CHR ''.'') ! i))"

lemma nats_matchingD:
  assumes "nats_matching matches" "matches pat subj" "strings_Split pat (CHR ''.'') = ts"
    and "i < length ts" "list_all (\<lambda>t. t \<noteq> ''>'') (take (Suc i) ts)" "ts ! i \<noteq> ''*''"
  shows "i < length (strings_Split subj (CHR ''.'')) \<and> strings_Split subj (CHR ''.'') ! i = ts ! i"
  using assms unfolding nats_matching_def by blast

lemma Split_hd_prefix: "strings_HasPrefix s (hd (strings_Split s c))"
proof -
  obtain p ps where sp: "strings_Split s c = p # ps" by (cases "strings_Split s c") auto
  have "s = strings_Join (p # ps) c" using Join_Split [of s c] sp by simp
  then have "strings_HasPrefix s p" by (cases ps) (simp_all add: strings_HasPrefix_def)
  then show ?thesis by (simp add: sp)
qed

lemma first_token:
  assumes "nats_matching matches" "matches pat subj" "strings_Split pat (CHR ''.'') = t # ts" "t \<noteq> ''>''" "t \<noteq> ''*''"
  shows "hd (strings_Split subj (CHR ''.'')) = t"
  using nats_matchingD [OF assms(1-3), of 0] assms(4,5) by (simp add: hd_conv_nth)

lemma pub_subject_parts:
  assumes "plain_perm p" "plain_token c" "c \<noteq> []"
  shows "strings_Split (pub_subject c p) (CHR ''.'') =
      [or_default (rp_MsgType p) MessageTypeEvent, or_default (perm_agent c p) ''*'', or_default (rp_ThingID p) ''*'',
       or_default (rp_MsgName p) ''*'', c]" (is "_ = ?ps")
    "list_all (\<lambda>t. t \<noteq> ''>'') [or_default (rp_MsgType p) MessageTypeEvent, or_default (perm_agent c p) ''*'', or_default (rp_ThingID p) ''*'',
       or_default (rp_MsgName p) ''*'', c]"
proof -
  have dots: "q \<in> set ?ps \<Longrightarrow> CHR ''.'' \<notin> set q" for q
    using assms by (auto simp: plain_perm_def plain_token_def perm_agent_def or_default_def split: if_splits)
  have "pub_subject c p = strings_Join ?ps (CHR ''.'')"
    using assms(3) by (simp add: pub_subject_def MakeSubject_def)
  then show "strings_Split (pub_subject c p) (CHR ''.'') = ?ps" using Split_Join [of ?ps, OF _ dots] by simp
  show "list_all (\<lambda>t. t \<noteq> ''>'') ?ps"
    using assms by (auto simp: plain_perm_def plain_token_def perm_agent_def or_default_def)
qed

lemma pub_subject_split:
  assumes "plain_perm p" "plain_token c" "c \<noteq> []"
  obtains m a t n where "strings_Split (pub_subject c p) (CHR ''.'') = [m, a, t, n, c]"
    "list_all (\<lambda>t. t \<noteq> ''>'') [m, a, t, n, c]"
  using that pub_subject_parts [OF assms] by blast

lemma stream_subject_first:
  "pat \<in> set (''$JS.API.INFO'' # stream_subjects) \<Longrightarrow> \<exists>ts. strings_Split pat (CHR ''.'') = ''$JS'' # ts"
  by (auto simp: stream_subjects_def)

text \<open>
  C10. Clients can only publish as themselves (NatsAuth.go MakePermissions, subjects.go MakeSubject,
  HubClient.go SplitAddress). Let the client ID be a single plain token (nonempty, no dot, no
  wildcard) and the permission tables plain, which \<open>MakePermissions\<close> keeps. For every NATS subject
  matching and every subject that a publish permission of the client admits: it is an inbox, or a
  JetStream API subject, or the receiver's \<open>SplitAddress\<close> takes it to be sent by this client.
\<close>

theorem publish_only_as_self:
  assumes "perms_ok srv" and "nats_matching matches"
    and "plain_token (ci_ClientID ci)" and "ci_ClientID ci \<noteq> []" and "ci_ClientID ci \<noteq> ''*''"
    and "pat \<in> set (sp_Allow (pm_Publish (fst (NatsMsgServer_MakePermissions grow ci srv))))" and "matches pat subj"
  shows "perms_ok (snd (NatsMsgServer_MakePermissions grow ci srv))
    \<and> (strings_HasPrefix subj MessageTypeINBOX \<or> strings_HasPrefix subj ''$JS''
       \<or> ap_senderID (fst (HubClient_SplitAddress NatsTransport_AddressTokens subj)) = ci_ClientID ci)"
  using assms(1,6)
proof (cases rule: MakePermissions_publish)
  case 1
  then have "hd (strings_Split subj (CHR ''.'')) = MessageTypeINBOX"
    using first_token [OF assms(2,7)] by simp
  then show ?thesis using Split_hd_prefix [of subj "CHR ''.''"] MakePermissions_perms_ok [OF assms(1)] by simp
next
  case 2
  then have "hd (strings_Split subj (CHR ''.'')) = ''$JS''"
    using first_token [OF assms(2,7)] stream_subject_first by fastforce
  then show ?thesis using Split_hd_prefix [of subj "CHR ''.''"] MakePermissions_perms_ok [OF assms(1)] by simp
next
  case (3 p)
  obtain m a t n where sp: "strings_Split pat (CHR ''.'') = [m, a, t, n, ci_ClientID ci]"
    "list_all (\<lambda>t. t \<noteq> ''>'') [m, a, t, n, ci_ClientID ci]"
    using pub_subject_split [OF 3(1) assms(3,4)] 3(2) by metis
  have "4 < length (strings_Split subj (CHR ''.''))" "strings_Split subj (CHR ''.'') ! 4 = ci_ClientID ci"
    using nats_matchingD [OF assms(2,7) sp(1), of 4] sp(2) assms(5) by auto
  then show ?thesis
    using MakePermissions_perms_ok [OF assms(1)]
    by (auto simp: HubClient_SplitAddress_def NatsTransport_AddressTokens_def Let_def)
qed

text \<open>A matcher with the two wildcards, as an instance.\<close>

fun tokens_match :: "string list \<Rightarrow> string list \<Rightarrow> bool" where
  "tokens_match [] ss = (ss = [])"
| "tokens_match (p # ps) [] = False"
| "tokens_match (p # ps) (t # ss) =
     (if p = ''>'' then ps = [] else (p = ''*'' \<or> p = t) \<and> tokens_match ps ss)"

definition subject_matches :: "string \<Rightarrow> string \<Rightarrow> bool" where
  "subject_matches pat subj = tokens_match (strings_Split pat (CHR ''.'')) (strings_Split subj (CHR ''.''))"

lemma tokens_match_nth:
  "tokens_match ps ss \<Longrightarrow> i < length ps \<Longrightarrow> list_all (\<lambda>t. t \<noteq> ''>'') (take (Suc i) ps)
     \<Longrightarrow> i < length ss \<and> (ps ! i = ''*'' \<or> ss ! i = ps ! i)"
proof (induction ps ss arbitrary: i rule: tokens_match.induct)
  case (3 p ps t ss)
  then show ?case by (cases i) (auto split: if_splits)
qed auto

lemma subject_matches_ok: "nats_matching subject_matches"
  unfolding nats_matching_def subject_matches_def using tokens_match_nth by blast

definition demo_server :: NatsMsgServer where
  "demo_server = NewNatsMsgServer True ''core'' ''sys'' ''acc'' ''hiveot'' (DefaultRolePermissions gc_grow)"

lemma demo_server_perms: "perms_ok demo_server"
  by code_simp

definition demo_operator :: ClientAuthInfo where
  "demo_operator = zero_auth_info\<lparr>ci_ClientID := ''bob'', ci_ClientType := ClientTypeUser, ci_PubKey := ''K1'',
     ci_Role := ClientRoleOperator\<rparr>"

theorem publish_only_as_self_witness:
  "subject_matches ''action.*.*.*.bob'' ''action.dev.lamp.on.bob''
   \<and> ap_senderID (fst (HubClient_SplitAddress NatsTransport_AddressTokens ''action.dev.lamp.on.bob'')) = ''bob''"
proof -
  have m: "subject_matches ''action.*.*.*.bob'' ''action.dev.lamp.on.bob''" by code_simp
  have mem: "''action.*.*.*.bob'' \<in> set (sp_Allow (pm_Publish (fst (NatsMsgServer_MakePermissions gc_grow demo_operator demo_server))))"
    by code_simp
  have id: "ci_ClientID demo_operator = ''bob''" by (simp add: demo_operator_def)
  show ?thesis
    using publish_only_as_self [OF demo_server_perms subject_matches_ok _ _ _ mem m] m
    by (simp add: id plain_token_def strings_HasPrefix_def)
qed

section \<open>Tokens\<close>

text \<open>What \<open>ValidateJWTToken\<close> accepts; the result of the claims' validation has no part in it.\<close>

lemma ValidateJWTToken_accepts:
  "NatsMsgServer_ValidateJWTToken J K now c tok sig nonce srv = Returns None \<longleftrightarrow>
     (\<exists>arc ci. jl_Decode J tok = Inr arc \<and> mget (ms_authClients srv) c = Some ci \<and> uc_Subject arc = ci_PubKey ci
        \<and> (sig = [] \<or> verify_nonce K (uc_Subject arc) sig nonce = Returns None)
        \<and> uc_Issuer arc = ms_appAccountPub srv \<and> uc_Name arc = c)"
  by (auto simp: NatsMsgServer_ValidateJWTToken_def NatsMsgServer_GetClientAuth_def Let_def
      split: sum.splits option.splits if_splits)

text \<open>\<open>Encode\<close> sets the issuer to the signing account's public key, and decoding gives the claims back.\<close>

definition jwt_ok :: "jwt_lib \<Rightarrow> bool" where
  "jwt_ok J \<longleftrightarrow> (\<forall>k uc t. jl_Encode J k uc = Inr t \<longrightarrow> jl_Decode J t = Inr (uc\<lparr>uc_Issuer := k\<rparr>))"

lemma CreateJWTToken_issued:
  assumes "NatsMsgServer_CreateJWTToken grow J now ci srv = (Returns (tok, None), srv')"
  obtains uc where "jl_Encode J (ms_appAccountPub srv) uc = Inr tok" "uc_Subject uc = ci_PubKey ci" "uc_Name uc = ci_ClientID ci"
    "uc_Expires uc = now + token_validity (ci_ClientType ci) * 86400"
proof -
  obtain perms srv1 where mk: "NatsMsgServer_MakeJWTPermissions grow ci srv = (perms, srv1)" by fastforce
  define uc where "uc = \<lparr>uc_Subject = ci_PubKey ci, uc_Name = ci_ClientID ci, uc_ClientType = ci_ClientType ci,
    uc_IssuedAt = now, uc_Expires = now + token_validity (ci_ClientType ci) * 86400,
    uc_Issuer = ms_appAccountPub srv, uc_Audience = ms_AppAccountName srv, uc_Permissions = perms\<rparr>"
  have "jl_Encode J (ms_appAccountPub srv) uc = Inr tok"
    using assms mk unfolding NatsMsgServer_CreateJWTToken_def uc_def
    by (auto simp: Let_def split: if_splits list.splits prod.splits sum.splits)
  with that [of uc] show thesis by (simp add: uc_def)
qed

lemma issued_token_valid:
  assumes "jwt_ok J" and "ms_AuthCallout srv"
    and "NatsMsgServer_CreateToken grow J now ci srv = (Returns (tok, None), srv')"
    and "ms_AuthCallout srvb" and "ms_appAccountPub srvb = ms_appAccountPub srv"
    and "mget (ms_authClients srvb) (ci_ClientID ci) = Some onfile" and "ci_PubKey onfile = ci_PubKey ci"
  shows "\<exists>uc. jl_Decode J tok = Inr uc \<and> uc_Expires uc = now + token_validity (ci_ClientType ci) * 86400
    \<and> (\<forall>later nonce. NatsMsgServer_ValidateToken J K later (ci_ClientID ci) tok [] nonce srvb = Returns None)
    \<and> (\<forall>c later sig nonce. c \<noteq> ci_ClientID ci \<longrightarrow> NatsMsgServer_ValidateToken J K later c tok sig nonce srvb \<noteq> Returns None)"
proof -
  have "NatsMsgServer_CreateJWTToken grow J now ci srv = (Returns (tok, None), srv')"
    using assms(2,3) by (simp add: NatsMsgServer_CreateToken_def)
  then obtain uc where uc: "jl_Encode J (ms_appAccountPub srv) uc = Inr tok" "uc_Subject uc = ci_PubKey ci"
    "uc_Name uc = ci_ClientID ci" "uc_Expires uc = now + token_validity (ci_ClientType ci) * 86400"
    by (rule CreateJWTToken_issued)
  have dec: "jl_Decode J tok = Inr (uc\<lparr>uc_Issuer := ms_appAccountPub srv\<rparr>)"
    using assms(1) uc(1) by (auto simp: jwt_ok_def)
  show ?thesis
    using assms(4-7) uc(2-4) dec by (auto simp: NatsMsgServer_ValidateToken_def ValidateJWTToken_accepts)
qed

text \<open>
  C36. Issued tokens (NatsAuth.go CreateToken, CreateJWTToken, ValidateToken, ValidateJWTToken), for
  every JWT package that decodes what it encodes: in callout mode a token created for a client is
  valid for that client as long as its public key is on file with the server, and for no other
  client. This holds at every later time: the expiry that the claims carry is not enforced, as
  the error of the claims' validation is overwritten.
\<close>

theorem issued_token_never_expires:
  assumes "jwt_ok J" and "ms_AuthCallout srv"
    and "NatsMsgServer_CreateToken grow J now ci srv = (Returns (tok, None), srv')"
    and "ms_AuthCallout srvb" and "ms_appAccountPub srvb = ms_appAccountPub srv"
    and "mget (ms_authClients srvb) (ci_ClientID ci) = Some onfile" and "ci_PubKey onfile = ci_PubKey ci"
  shows "\<exists>uc. jl_Decode J tok = Inr uc \<and> uc_Expires uc = now + token_validity (ci_ClientType ci) * 86400
    \<and> (\<forall>later nonce. NatsMsgServer_ValidateToken J K later (ci_ClientID ci) tok [] nonce srvb = Returns None)
    \<and> (\<forall>c later sig nonce. c \<noteq> ci_ClientID ci \<longrightarrow> NatsMsgServer_ValidateToken J K later c tok sig nonce srvb \<noteq> Returns None)"
  using assms by (rule issued_token_valid)

text \<open>A JWT package for one set of claims: it encodes nothing else, and reports expired claims.\<close>

definition demo_claims :: UserClaims where
  "demo_claims = \<lparr>uc_Subject = ''K1'', uc_Name = ''bob'', uc_ClientType = ClientTypeUser, uc_IssuedAt = 0,
     uc_Expires = 2592000, uc_Issuer = ''acc'', uc_Audience = ''hiveot'',
     uc_Permissions = fst (NatsMsgServer_MakePermissions gc_grow demo_operator demo_server)\<rparr>"

abbreviation demo_jwt :: jwt_lib where
  "demo_jwt \<equiv> \<lparr>jl_Validate = (\<lambda>t uc. (if t > uc_Expires uc then [ErrLib ''claim is expired''] else [], [])),
     jl_Encode = (\<lambda>k uc. if k = ''acc'' \<and> uc = demo_claims then Inr ''tok'' else Inl (ErrLib ''encode'')),
     jl_Decode = (\<lambda>t. if t = ''tok'' then Inr demo_claims else Inl ErrUnmarshal)\<rparr>"

lemma demo_jwt_ok: "jwt_ok demo_jwt"
  by (simp add: jwt_ok_def demo_claims_def)

abbreviation demo_keys :: key_lib where
  "demo_keys \<equiv> \<lparr>cr_RawURLDecode = (\<lambda>s. (s, None)), cr_StdDecode = (\<lambda>s. (s, None)), cr_FromPublicKey = (\<lambda>k. None),
     cr_Verify = (\<lambda>k n s. None)\<rparr>"

lemma demo_server_fields [simp]:
  "ms_AuthCallout demo_server" "ms_appAccountPub demo_server = ''acc''" "ms_AppAccountName demo_server = ''hiveot''"
  by (simp_all add: demo_server_def NewNatsMsgServer_def)

lemma demo_operator_fields [simp]:
  "ci_ClientID demo_operator = ''bob''" "ci_ClientType demo_operator = ClientTypeUser"
  "ci_PubKey demo_operator = ''K1''" "ci_Role demo_operator = ClientRoleOperator"
  by (simp_all add: demo_operator_def)

theorem issued_token_never_expires_witness:
  "NatsMsgServer_ValidateToken demo_jwt demo_keys 9999999999 ''bob'' ''tok'' [] []
     (demo_server\<lparr>ms_authClients := [(''bob'', demo_operator)]\<rparr>) = Returns None"
proof -
  have cr: "NatsMsgServer_CreateToken gc_grow demo_jwt 0 demo_operator demo_server
      = (Returns (''tok'', None), snd (NatsMsgServer_MakePermissions gc_grow demo_operator demo_server))"
    by (simp add: NatsMsgServer_CreateToken_def NatsMsgServer_CreateJWTToken_def NatsMsgServer_MakeJWTPermissions_def
        demo_claims_def token_validity_def Let_def split_beta)
  show ?thesis
    using issued_token_never_expires [OF demo_jwt_ok _ cr, where K = demo_keys
        and srvb = "demo_server\<lparr>ms_authClients := [(''bob'', demo_operator)]\<rparr>" and onfile = demo_operator]
    by simp
qed

end
