(* ===== verification/AuthService.thy ===== *)
theory AuthService
  imports MsgServerProps
begin

text \<open>
  Model of the auth service, \<open>done_mod/mod_auth/auth_srv\<close>: \<open>AuthManageClients.go\<close>,
  \<open>AuthManageProfile.go\<close> and the start of \<open>AuthService.go\<close>. The service works on the client store
  and the message server; the libraries they need are bundled in \<open>auth_env\<close>. The profile
  handlers apply changes in a goroutine: these are pending jobs that run in any order.
\<close>

section \<open>State\<close>

record auth_env =
  ax_pw :: pw_env
  ax_bcrypt :: bcrypt
  ax_salt :: string
  ax_jwt :: jwt_lib
  ax_grow :: "nat \<Rightarrow> nat \<Rightarrow> nat"
  ax_Reload :: "NatsMsgServer \<Rightarrow> go_error option"
  ax_msec :: int  \<comment> \<open>the clock, in milliseconds\<close>

text \<open>
  \<open>ApplyCaptured\<close> is \<open>go ApplyAuth(list)\<close>, whose argument was evaluated when it was started;
  \<open>RunOnChange\<close> is \<open>go onChange()\<close>.
\<close>

datatype auth_job = ApplyCaptured "ClientAuthInfo list" | RunOnChange

record AuthState =
  as_store :: AuthnFileStore
  as_server :: NatsMsgServer
  as_jobs :: "auth_job list"

abbreviation on_store ::
  "(AuthnFileStore \<Rightarrow> go_error option \<times> AuthnFileStore) \<Rightarrow> AuthState \<Rightarrow> go_error option \<times> AuthState" where
  "on_store f svc \<equiv> (case f (as_store svc) of (err, st) \<Rightarrow> (err, svc\<lparr>as_store := st\<rparr>))"

type_synonym token_result = "(string \<times> go_error option) outcome \<times> AuthState"

definition create_token :: "auth_env \<Rightarrow> ClientAuthInfo \<Rightarrow> AuthState \<Rightarrow> token_result" where
  "create_token env info svc =
     (case NatsMsgServer_CreateToken (ax_grow env) (ax_jwt env) (ax_msec env div 1000) info (as_server svc) of
        (r, srv) \<Rightarrow> (r, svc\<lparr>as_server := srv\<rparr>))"

section \<open>AuthManageClients\<close>

definition AuthManageClients_onChange :: "auth_env \<Rightarrow> AuthState \<Rightarrow> go_error option \<times> AuthState" where
  "AuthManageClients_onChange env svc =
     (case NatsMsgServer_ApplyAuth (ax_grow env) (ax_Reload env)
         (map auth_info (AuthnFileStore_GetEntries (as_store svc))) (as_server svc) of
        (err, srv) \<Rightarrow> (err, svc\<lparr>as_server := srv\<rparr>))"

definition new_profile :: "string \<Rightarrow> string \<Rightarrow> string \<Rightarrow> string \<Rightarrow> string \<Rightarrow> ClientProfile" where
  "new_profile clientID clientType displayName pubKey role =
     zero_profile\<lparr>cp_ClientID := clientID, cp_ClientType := clientType, cp_DisplayName := displayName,
       cp_PubKey := pubKey, cp_Role := role\<rparr>"

definition client_info :: "string \<Rightarrow> string \<Rightarrow> string \<Rightarrow> string \<Rightarrow> ClientAuthInfo" where
  "client_info clientID clientType pubKey role =
     \<lparr>ci_ClientID = clientID, ci_ClientType = clientType, ci_PubKey = pubKey, ci_PasswordHash = [], ci_Role = role\<rparr>"

text \<open>The error of \<open>onChange\<close> is overwritten when a token is created.\<close>

definition AuthManageClients_AddDevice ::
  "auth_env \<Rightarrow> string \<Rightarrow> string \<Rightarrow> string \<Rightarrow> AuthState \<Rightarrow> token_result" where
  "AuthManageClients_AddDevice env deviceID displayName pubKey svc =
     (if deviceID = [] then (Returns ([], Some ErrMissingID), svc)
      else case on_store (AuthnFileStore_Add (ax_pw env) (ax_msec env) deviceID
               (new_profile deviceID ClientTypeDevice displayName pubKey ClientRoleDevice)) svc of
             (Some err, svc1) \<Rightarrow> (Returns ([], Some err), svc1)
           | (None, svc1) \<Rightarrow>
               (case AuthManageClients_onChange env svc1 of
                  (err, svc2) \<Rightarrow>
                    if pubKey \<noteq> [] then create_token env (client_info deviceID ClientTypeDevice pubKey ClientRoleDevice) svc2
                    else (Returns ([], err), svc2)))"

definition AuthManageClients_AddService ::
  "auth_env \<Rightarrow> string \<Rightarrow> string \<Rightarrow> string \<Rightarrow> AuthState \<Rightarrow> token_result" where
  "AuthManageClients_AddService env serviceID displayName pubKey svc =
     (if serviceID = [] then (Returns ([], Some ErrMissingID), svc)
      else case on_store (AuthnFileStore_Add (ax_pw env) (ax_msec env) serviceID
               (new_profile serviceID ClientTypeService displayName pubKey ClientRoleService)) svc of
             (Some err, svc1) \<Rightarrow> (Returns ([], Some err), svc1)
           | (None, svc1) \<Rightarrow>
               (case (if pubKey \<noteq> [] then create_token env (client_info serviceID ClientTypeService pubKey ClientRoleService) svc1
                      else (Returns ([], None), svc1)) of
                  (Panics p, svc2) \<Rightarrow> (Panics p, svc2)
                | (Returns (token, _), svc2) \<Rightarrow>
                    (case AuthManageClients_onChange env svc2 of (err, svc3) \<Rightarrow> (Returns (token, err), svc3))))"

text \<open>A failure to set the password is overwritten when a token is created.\<close>

definition AuthManageClients_AddUser ::
  "auth_env \<Rightarrow> string \<Rightarrow> string \<Rightarrow> string \<Rightarrow> string \<Rightarrow> string \<Rightarrow> AuthState \<Rightarrow> token_result" where
  "AuthManageClients_AddUser env userID displayName password pubKey role svc =
     (if userID = [] then (Returns ([], Some ErrMissingID), svc)
      else case on_store (AuthnFileStore_Add (ax_pw env) (ax_msec env) userID
               (new_profile userID ClientTypeUser displayName pubKey role)) svc of
             (Some err, svc1) \<Rightarrow> (Returns ([], Some err), svc1)
           | (None, svc1) \<Rightarrow>
               (let (pwErr, svc2) =
                      (if password \<noteq> []
                       then (case on_store (AuthnFileStore_SetPassword (ax_pw env) (ax_bcrypt env) (ax_salt env)
                                (ax_msec env) userID password) svc1 of
                               (Some e, s) \<Rightarrow> (Some (ErrUserAddedBut userID e), s) | (None, s) \<Rightarrow> (None, s))
                       else (None, svc1));
                    (r, svc3) =
                      (if pubKey \<noteq> [] then create_token env (client_info userID ClientTypeUser pubKey role) svc2
                       else (Returns ([], pwErr), svc2))
                in case r of
                     Panics p \<Rightarrow> (Panics p, svc3)
                   | Returns (token, Some err) \<Rightarrow> (Returns (token, Some err), svc3)
                   | Returns (token, None) \<Rightarrow>
                       (case AuthManageClients_onChange env svc3 of (err, svc4) \<Rightarrow> (Returns (token, err), svc4))))"

definition AuthManageClients_GetCount :: "AuthState \<Rightarrow> nat" where
  "AuthManageClients_GetCount svc = AuthnFileStore_Count (as_store svc)"

definition AuthManageClients_GetClientProfile :: "string \<Rightarrow> AuthState \<Rightarrow> ClientProfile \<times> go_error option" where
  "AuthManageClients_GetClientProfile clientID svc = AuthnFileStore_GetProfile clientID (as_store svc)"

definition AuthManageClients_GetProfiles :: "AuthState \<Rightarrow> ClientProfile list" where
  "AuthManageClients_GetProfiles svc = AuthnFileStore_GetProfiles (as_store svc)"

text \<open>A store change followed by \<open>onChange\<close> when it succeeds.\<close>

definition store_then_apply ::
  "auth_env \<Rightarrow> (AuthnFileStore \<Rightarrow> go_error option \<times> AuthnFileStore) \<Rightarrow> AuthState \<Rightarrow> go_error option \<times> AuthState" where
  "store_then_apply env f svc =
     (case on_store f svc of
        (Some err, svc1) \<Rightarrow> (Some err, svc1)
      | (None, svc1) \<Rightarrow> AuthManageClients_onChange env svc1)"

definition AuthManageClients_RemoveClient :: "auth_env \<Rightarrow> string \<Rightarrow> AuthState \<Rightarrow> go_error option \<times> AuthState" where
  "AuthManageClients_RemoveClient env clientID svc =
     store_then_apply env (AuthnFileStore_Remove (ax_pw env) clientID) svc"

definition AuthManageClients_SetClientPassword ::
  "auth_env \<Rightarrow> string \<Rightarrow> string \<Rightarrow> AuthState \<Rightarrow> go_error option \<times> AuthState" where
  "AuthManageClients_SetClientPassword env clientID password svc =
     store_then_apply env (AuthnFileStore_SetPassword (ax_pw env) (ax_bcrypt env) (ax_salt env) (ax_msec env)
       clientID password) svc"

definition AuthManageClients_UpdateClient ::
  "auth_env \<Rightarrow> string \<Rightarrow> ClientProfile \<Rightarrow> AuthState \<Rightarrow> go_error option \<times> AuthState" where
  "AuthManageClients_UpdateClient env clientID profile svc =
     on_store (AuthnFileStore_Update (ax_pw env) (ax_msec env) clientID profile) svc"

definition AuthManageClients_UpdateClientRole ::
  "auth_env \<Rightarrow> string \<Rightarrow> string \<Rightarrow> AuthState \<Rightarrow> go_error option \<times> AuthState" where
  "AuthManageClients_UpdateClientRole env clientID role svc =
     (case AuthnFileStore_GetProfile clientID (as_store svc) of
        (_, Some err) \<Rightarrow> (Some err, svc)
      | (prof, None) \<Rightarrow>
          on_store (AuthnFileStore_Update (ax_pw env) (ax_msec env) clientID (prof\<lparr>cp_Role := role\<rparr>)) svc)"

section \<open>AuthManageProfile\<close>

definition AuthManageProfile_onChange :: "AuthState \<Rightarrow> AuthState" where
  "AuthManageProfile_onChange svc =
     svc\<lparr>as_jobs := as_jobs svc @ [ApplyCaptured (AuthnFileStore_GetAuthClientList (as_store svc))]\<rparr>"

text \<open>The scheduler runs one of the pending jobs.\<close>

definition run_job :: "auth_env \<Rightarrow> nat \<Rightarrow> AuthState \<Rightarrow> AuthState" where
  "run_job env i svc =
     (if i < length (as_jobs svc)
      then (let svc1 = svc\<lparr>as_jobs := take i (as_jobs svc) @ drop (Suc i) (as_jobs svc)\<rparr>
            in case as_jobs svc ! i of
                 ApplyCaptured clients \<Rightarrow>
                   svc1\<lparr>as_server := snd (NatsMsgServer_ApplyAuth (ax_grow env) (ax_Reload env) clients (as_server svc1))\<rparr>
               | RunOnChange \<Rightarrow> AuthManageProfile_onChange svc1)
      else svc)"

definition profile_info :: "ClientProfile \<Rightarrow> ClientAuthInfo" where
  "profile_info p = client_info (cp_ClientID p) (cp_ClientType p) (cp_PubKey p) (cp_Role p)"

definition AuthManageProfile_NewToken :: "auth_env \<Rightarrow> string \<Rightarrow> string \<Rightarrow> AuthState \<Rightarrow> token_result" where
  "AuthManageProfile_NewToken env senderID password svc =
     (case AuthnFileStore_VerifyPassword (ax_bcrypt env) senderID password (as_store svc) of
        (_, Some err) \<Rightarrow> (Returns ([], Some err), svc)
      | (prof, None) \<Rightarrow> create_token env (profile_info prof) svc)"

definition AuthManageProfile_RefreshToken :: "auth_env \<Rightarrow> string \<Rightarrow> AuthState \<Rightarrow> token_result" where
  "AuthManageProfile_RefreshToken env senderID svc =
     (case AuthnFileStore_GetProfile senderID (as_store svc) of
        (_, Some err) \<Rightarrow> (Returns ([], Some err), svc)
      | (prof, None) \<Rightarrow> create_token env (profile_info prof) svc)"

definition AuthManageProfile_SetServicePermissions ::
  "string \<Rightarrow> string \<Rightarrow> string list \<Rightarrow> AuthState \<Rightarrow> go_error option \<times> AuthState" where
  "AuthManageProfile_SetServicePermissions senderID capability roles svc =
     (case AuthnFileStore_GetProfile senderID (as_store svc) of
        (_, Some err) \<Rightarrow> (Some err, svc)
      | (prof, None) \<Rightarrow>
          if cp_ClientType prof \<noteq> ClientTypeService then (Some (ErrNotAService senderID (cp_ClientType prof)), svc)
          else (None, svc\<lparr>as_server := NatsMsgServer_SetServicePermissions senderID capability roles (as_server svc)\<rparr>))"

definition AuthManageProfile_UpdateName ::
  "auth_env \<Rightarrow> string \<Rightarrow> string \<Rightarrow> AuthState \<Rightarrow> go_error option \<times> AuthState" where
  "AuthManageProfile_UpdateName env senderID newName svc =
     on_store (AuthnFileStore_Update (ax_pw env) (ax_msec env) senderID
       ((fst (AuthnFileStore_GetProfile senderID (as_store svc)))\<lparr>cp_DisplayName := newName\<rparr>)) svc"

definition AuthManageProfile_UpdatePassword ::
  "auth_env \<Rightarrow> string \<Rightarrow> string \<Rightarrow> AuthState \<Rightarrow> go_error option \<times> AuthState" where
  "AuthManageProfile_UpdatePassword env senderID newPassword svc =
     (case AuthnFileStore_GetProfile senderID (as_store svc) of
        (_, Some err) \<Rightarrow> (Some err, svc)
      | (_, None) \<Rightarrow>
          (case on_store (AuthnFileStore_SetPassword (ax_pw env) (ax_bcrypt env) (ax_salt env) (ax_msec env)
               senderID newPassword) svc of
             (Some err, svc1) \<Rightarrow> (Some err, svc1)
           | (None, svc1) \<Rightarrow> (None, AuthManageProfile_onChange svc1)))"

definition AuthManageProfile_UpdatePubKey ::
  "auth_env \<Rightarrow> string \<Rightarrow> string \<Rightarrow> AuthState \<Rightarrow> go_error option \<times> AuthState" where
  "AuthManageProfile_UpdatePubKey env senderID newPubKey svc =
     (case AuthnFileStore_GetProfile senderID (as_store svc) of
        (_, Some err) \<Rightarrow> (Some err, svc)
      | (prof, None) \<Rightarrow>
          (case on_store (AuthnFileStore_Update (ax_pw env) (ax_msec env) senderID (prof\<lparr>cp_PubKey := newPubKey\<rparr>)) svc of
             (Some err, svc1) \<Rightarrow> (Some err, svc1)
           | (None, svc1) \<Rightarrow> (None, svc1\<lparr>as_jobs := as_jobs svc1 @ [RunOnChange]\<rparr>)))"

section \<open>AuthService\<close>

text \<open>The permissions that \<open>AuthService.Start\<close> sets for its own capabilities.\<close>

definition auth_service_permissions :: "NatsMsgServer \<Rightarrow> NatsMsgServer" where
  "auth_service_permissions srv =
     NatsMsgServer_SetServicePermissions ''auth'' ''profile''
       [ClientRoleViewer, ClientRoleOperator, ClientRoleManager, ClientRoleAdmin]
       (NatsMsgServer_SetServicePermissions ''auth'' ''manageRoles'' [ClientRoleAdmin]
         (NatsMsgServer_SetServicePermissions ''auth'' ''manageClients'' [ClientRoleAdmin] srv))"

end
