(* ===== verification/AuthProps.thy ===== *)
theory AuthProps
  imports AuthService
begin

text \<open>
  Theorems about the auth service: removing a client revokes its access, a client's profile
  requests touch only its own account, a role update is lost, and building a manager's permissions
  can take the RPC permission away from administrators.
\<close>

section \<open>The store under the service\<close>

text \<open>Entries are filed under their own client ID.\<close>

definition store_wf :: "AuthnFileStore \<Rightarrow> bool" where
  "store_wf st \<longleftrightarrow> wf_map (fs_entries st) \<and> list_all (\<lambda>(k, e). cp_ClientID (ae_profile e) = k) (fs_entries st)"

lemma store_wf_iff:
  "store_wf st \<longleftrightarrow> wf_map (fs_entries st) \<and> (\<forall>c e. mget (fs_entries st) c = Some e \<longrightarrow> cp_ClientID (ae_profile e) = c)"
  using list_all_mget [of "fs_entries st" "\<lambda>k e. cp_ClientID (ae_profile e) = k"] by (auto simp: store_wf_def)

lemma store_wf_save [simp]: "store_wf (snd (AuthnFileStore_save env st)) = store_wf st"
  by (simp add: store_wf_def)

lemma store_wf_mput:
  "store_wf st \<Longrightarrow> cp_ClientID (ae_profile e) = c \<Longrightarrow> store_wf (st\<lparr>fs_entries := mput c e (fs_entries st)\<rparr>)"
  by (auto simp: store_wf_iff wf_intros gomap_simps)

lemma default_validity_ClientID [simp]: "cp_ClientID (default_validity p) = cp_ClientID p"
  by (simp add: default_validity_def)

lemma updated_profile_fields [simp]:
  "cp_ClientID (updated_profile now p old) = cp_ClientID old" "cp_Role (updated_profile now p old) = cp_Role old"
  by (simp_all add: updated_profile_def)

lemma store_op_wf: "store_wf st \<Longrightarrow> store_wf (snd (run_store_op env bc op st))"
proof (cases op)
  case (StoreAdd now c p)
  assume "store_wf st"
  with StoreAdd show ?thesis
    by (auto simp: AuthnFileStore_Add_def Let_def store_wf_mput split: option.split)
next
  case (StoreRemove c)
  assume "store_wf st"
  then have "store_wf (st\<lparr>fs_entries := mdel c (fs_entries st)\<rparr>)"
    by (simp add: store_wf_iff wf_intros gomap_simps)
  with \<open>store_wf st\<close> StoreRemove show ?thesis by (simp add: AuthnFileStore_Remove_def)
next
  case (StoreUpdate now c p)
  assume "store_wf st"
  then have "mget (fs_entries st) c = Some e \<Longrightarrow> cp_ClientID (ae_profile e) = c" for e by (auto simp: store_wf_iff)
  with \<open>store_wf st\<close> StoreUpdate show ?thesis
    by (simp add: AuthnFileStore_Update_def store_wf_mput split: option.split)
next
  case (StoreSetPassword salt now c pw)
  assume "store_wf st"
  then have "mget (fs_entries st) c = Some e \<Longrightarrow> cp_ClientID (ae_profile e) = c" for e by (auto simp: store_wf_iff)
  with \<open>store_wf st\<close> StoreSetPassword show ?thesis
    by (simp add: AuthnFileStore_SetPassword_def AuthnFileStore_SetPasswordHash_def store_wf_mput
        split: option.split sum.split)
qed

section \<open>What ApplyAuth installs\<close>

lemma subset_insert_trans: "A \<subseteq> B \<union> C \<Longrightarrow> B \<subseteq> D \<union> {x} \<Longrightarrow> A \<subseteq> D \<union> insert x C"
  by blast

lemma apply_clients_result:
  "apply_clients grow cs srv (pw, nk, ac) = ((pw', nk', ac'), srv') \<Longrightarrow>
     map_of ac' = map_of ac ++ map_of (rev (map (\<lambda>ci. (ci_ClientID ci, ci)) cs))
     \<and> nu_Username ` set pw' \<subseteq> nu_Username ` set pw \<union> ci_ClientID ` set cs
     \<and> nk_Nkey ` set nk' \<subseteq> nk_Nkey ` set nk \<union> ci_PubKey ` set cs"
proof (induction cs arbitrary: srv pw nk ac)
  case (Cons ci cs)
  obtain perms srv1 where mk: "NatsMsgServer_MakePermissions grow ci srv = (perms, srv1)" by fastforce
  define pw1 where "pw1 = (if ci_PasswordHash ci \<noteq> [] then pw @ [\<lparr>nu_Username = ci_ClientID ci,
    nu_Password = ci_PasswordHash ci, nu_Permissions = Some perms\<rparr>] else pw)"
  define nk1 where "nk1 = (if ci_PubKey ci \<noteq> [] then nk @ [\<lparr>nk_Nkey = ci_PubKey ci, nk_Permissions = Some perms\<rparr>] else nk)"
  have "apply_clients grow cs srv1 (pw1, nk1, mput (ci_ClientID ci) ci ac) = ((pw', nk', ac'), srv')"
    using Cons.prems mk by (simp add: pw1_def nk1_def)
  from Cons.IH [OF this]
  have ih: "map_of ac' = (map_of ac)(ci_ClientID ci \<mapsto> ci) ++ map_of (rev (map (\<lambda>ci. (ci_ClientID ci, ci)) cs))"
    "nu_Username ` set pw' \<subseteq> nu_Username ` set pw1 \<union> ci_ClientID ` set cs"
    "nk_Nkey ` set nk' \<subseteq> nk_Nkey ` set nk1 \<union> ci_PubKey ` set cs"
    by (simp_all add: map_of_mput fun_upd_def)
  have step: "nu_Username ` set pw1 \<subseteq> nu_Username ` set pw \<union> {ci_ClientID ci}"
    "nk_Nkey ` set nk1 \<subseteq> nk_Nkey ` set nk \<union> {ci_PubKey ci}"
    by (auto simp: pw1_def nk1_def)
  show ?case
    using subset_insert_trans [OF ih(2) step(1)] subset_insert_trans [OF ih(3) step(2)] unfolding ih(1) by simp
qed simp

lemma ApplyAuth_result:
  assumes "NatsMsgServer_ApplyAuth grow reload cs srv = (err, srv')"
  shows "map_of (ms_authClients srv') = map_of (rev (map (\<lambda>ci. (ci_ClientID ci, ci)) cs))
    \<and> nu_Username ` set (ms_Users srv') \<subseteq> ci_ClientID ` set cs
    \<and> nk_Nkey ` set (ms_Nkeys srv') \<subseteq> {ms_coreServicePub srv, ms_systemUserPub srv} \<union> ci_PubKey ` set cs"
proof -
  let ?core = "[\<lparr>nk_Nkey = ms_coreServicePub srv, nk_Permissions = None\<rparr>,
    \<lparr>nk_Nkey = ms_systemUserPub srv, nk_Permissions = None\<rparr>]"
  obtain pw nk ac srv1 where ap: "apply_clients grow cs srv ([], ?core, []) = ((pw, nk, ac), srv1)"
    by (metis surjective3 surjective_pairing)
  have "srv' = srv1\<lparr>ms_Users := pw, ms_Nkeys := nk, ms_authClients := ac\<rparr>"
    using assms ap by (simp add: NatsMsgServer_ApplyAuth_def Let_def)
  with apply_clients_result [OF ap] show ?thesis by auto
qed

lemma onChange_result:
  assumes "store_wf (as_store svc)" and "AuthManageClients_onChange env svc = (err, svc')"
  shows "as_store svc' = as_store svc
    \<and> map_of (ms_authClients (as_server svc')) = map_option auth_info \<circ> map_of (fs_entries (as_store svc))
    \<and> nu_Username ` set (ms_Users (as_server svc')) \<subseteq> dom (map_of (fs_entries (as_store svc)))
    \<and> nk_Nkey ` set (ms_Nkeys (as_server svc')) \<subseteq> {ms_coreServicePub (as_server svc), ms_systemUserPub (as_server svc)}
        \<union> {cp_PubKey (ae_profile e) | c e. mget (fs_entries (as_store svc)) c = Some e}"
proof -
  let ?es = "fs_entries (as_store svc)" and ?cs = "map auth_info (AuthnFileStore_GetEntries (as_store svc))"
  obtain srv' where ap: "NatsMsgServer_ApplyAuth (ax_grow env) (ax_Reload env) ?cs (as_server svc) = (err, srv')"
    "svc' = svc\<lparr>as_server := srv'\<rparr>"
    using assms(2) by (auto simp: AuthManageClients_onChange_def split: prod.splits)
  have wf: "wf_map ?es" and ids: "list_all (\<lambda>(k, e). cp_ClientID (ae_profile e) = k) ?es"
    using assms(1) by (simp_all add: store_wf_def)
  have pairs: "map (\<lambda>ci. (ci_ClientID ci, ci)) ?cs = map (\<lambda>(k, e). (k, auth_info e)) ?es"
    using ids by (auto simp: AuthnFileStore_GetEntries_def auth_info_def list_all_iff)
  have "map_of (rev (map (\<lambda>(k, e). (k, auth_info e)) ?es)) = map_option auth_info \<circ> map_of ?es"
    using map_of_rev_wf [OF wf] by (simp add: rev_map map_of_map)
  moreover have "ci_ClientID ` set ?cs = fst ` set ?es"
    using ids by (force simp: AuthnFileStore_GetEntries_def auth_info_def list_all_iff)
  moreover have "ci_PubKey ` set ?cs = {cp_PubKey (ae_profile e) | c e. mget ?es c = Some e}"
    using mget_mem_iff [OF wf] by (force simp: AuthnFileStore_GetEntries_def auth_info_def)
  ultimately show ?thesis
    using ApplyAuth_result [OF ap(1)] ap(2) pairs by (simp add: dom_map_of_conv_image_fst)
qed


definition demo_env :: auth_env where
  "demo_env = \<lparr>ax_pw = demo_pw_env\<lparr>pe_Marshal := \<lambda>es. Inr ''x''\<rparr>, ax_bcrypt = plain_bcrypt, ax_salt = [],
     ax_jwt = demo_jwt, ax_grow = gc_grow, ax_Reload = (\<lambda>srv. None), ax_msec = 5\<rparr>"

definition demo_auth_state :: AuthState where
  "demo_auth_state = \<lparr>as_store = (NewAuthnFileStore ''pw'' None)\<lparr>fs_entries := [(''bob'', demo_entry)]\<rparr>,
     as_server = demo_server\<lparr>ms_authClients := [(''bob'', demo_operator)]\<rparr>, as_jobs = []\<rparr>"

lemma demo_auth_state_wf: "store_wf (as_store demo_auth_state)"
  by (simp add: store_wf_def wf_map_def demo_auth_state_def demo_entry_def)


section \<open>Roles\<close>

text \<open>
  A role update is lost (AuthManageClients.go UpdateClientRole, AuthnFileStore.go Update): for
  every client and new role, UpdateClientRole changes no client's role in the store and does not
  reach the message server, whatever it returns.
\<close>

lemma UpdateClientRole_keeps_role:
  "(case AuthManageClients_UpdateClientRole env c role svc of
      (err, svc') \<Rightarrow>
        (\<forall>c2. map_option (cp_Role \<circ> ae_profile) (mget (fs_entries (as_store svc')) c2)
            = map_option (cp_Role \<circ> ae_profile) (mget (fs_entries (as_store svc)) c2))
        \<and> as_server svc' = as_server svc \<and> as_jobs svc' = as_jobs svc)"
  by (simp add: AuthManageClients_UpdateClientRole_def AuthnFileStore_GetProfile_def AuthnFileStore_Update_def
      gomap_simps split_beta split: option.split)

text \<open>The subject that lets a client call every service.\<close>

abbreviation all_rpcs :: "string \<Rightarrow> string" where
  "all_rpcs clientID \<equiv> MakeSubject MessageTypeRPC [] [] [] clientID"

definition started_server :: NatsMsgServer where
  "started_server = auth_service_permissions
     (NewNatsMsgServer True ''core'' ''sys'' ''acc'' ''hiveot'' (DefaultRolePermissions gc_grow))"

lemma started_server_tables:
  "mget (ms_rolePermissions started_server) ClientRoleAdmin = Some (Some \<lparr>sl_arr = 3, sl_len = 4\<rparr>)"
  "mget (ms_rolePermissions started_server) ClientRoleManager = Some (Some \<lparr>sl_arr = 3, sl_len = 3\<rparr>)"
  "ms_heap started_server ! 3 = [sub_perm MessageTypeEvent [], pub_perm MessageTypeAction [], pub_perm MessageTypeConfig [],
     pub_perm MessageTypeRPC []]"
  "length (ms_heap started_server) = 5"
  by code_simp+

lemma go_append_values:
  "slice_ok h s \<Longrightarrow> slice_values (snd (go_append grow s xs h)) (fst (go_append grow s xs h)) = slice_values h s @ xs"
  by (auto simp: go_append_def Let_def slice_values_def slice_ok_def)

lemma MakePermissions_allow:
  assumes "mget (ms_rolePermissions srv) (ci_Role ci) = Some (Some s)"
    and "mget (ms_servicePermissions srv) (ci_Role ci) = Some ps" and "slice_ok (ms_heap srv) s"
  shows "sp_Allow (pm_Publish (fst (NatsMsgServer_MakePermissions grow ci srv))) =
    (MessageTypeINBOX @ ''.>'') # map (pub_subject (ci_ClientID ci)) (filter rp_AllowPub (slice_values (ms_heap srv) s @ ps))
      @ stream_subjects @ (if ci_Role ci = ClientRoleAdmin then [''$JS.API.INFO''] else [])"
  using assms go_append_values [OF assms(3), of grow ps]
  by (simp add: NatsMsgServer_MakePermissions_def Let_def split_beta)

definition auth_rpc :: "string \<Rightarrow> RolePermission" where
  "auth_rpc cap = zero_perm\<lparr>rp_AgentID := ''auth'', rp_ThingID := cap, rp_MsgType := MessageTypeRPC, rp_AllowPub := True\<rparr>"

lemma started_server_services:
  "mget (ms_servicePermissions started_server) ClientRoleManager = Some [auth_rpc ''profile'']"
  "mget (ms_servicePermissions started_server) ClientRoleAdmin =
     Some [auth_rpc ''manageClients'', auth_rpc ''manageRoles'', auth_rpc ''profile'']"
  by code_simp+

text \<open>
  C38. Building a manager's permissions takes the RPC permission from administrators (NatsAuth.go
  MakePermissions, ManageRolesAPI.go, AuthService.go Start). The administrator table is made by
  appending to the manager table in the same array, and \<open>MakePermissions\<close> appends the service
  permissions of a role to its table. On the server as \<open>AuthService.Start\<close> sets it up, an
  administrator may call every service; once the permissions of one manager have been built, an
  administrator's permissions no longer include this, for all client IDs.
\<close>

theorem manager_append_overwrites_admin:
  "all_rpcs a \<in> set (sp_Allow (pm_Publish (fst (NatsMsgServer_MakePermissions gc_grow
      (client_info a ClientTypeUser key ClientRoleAdmin) started_server))))
   \<and> all_rpcs a \<notin> set (sp_Allow (pm_Publish (fst (NatsMsgServer_MakePermissions gc_grow
      (client_info a ClientTypeUser key ClientRoleAdmin)
      (snd (NatsMsgServer_MakePermissions gc_grow (client_info m ClientTypeUser key2 ClientRoleManager) started_server))))))"
proof -
  note tables = started_server_tables started_server_services
  let ?admin = "client_info a ClientTypeUser key ClientRoleAdmin"
  let ?srv = "snd (NatsMsgServer_MakePermissions gc_grow (client_info m ClientTypeUser key2 ClientRoleManager) started_server)"
  have srv: "?srv = started_server\<lparr>ms_heap := (ms_heap started_server)[3 := [sub_perm MessageTypeEvent [],
      pub_perm MessageTypeAction [], pub_perm MessageTypeConfig [], auth_rpc ''profile'']]\<rparr>"
    by (simp add: MakePermissions_state client_info_def tables go_append_def)
  have allow: "sp_Allow (pm_Publish (fst (NatsMsgServer_MakePermissions gc_grow ?admin (started_server\<lparr>ms_heap := h\<rparr>)))) =
      (MessageTypeINBOX @ ''.>'') # map (pub_subject a) (filter rp_AllowPub (take 4 (h ! 3)
        @ [auth_rpc ''manageClients'', auth_rpc ''manageRoles'', auth_rpc ''profile'']))
      @ stream_subjects @ [''$JS.API.INFO'']" if "3 < length h" "length (h ! 3) = 4" for h
    using MakePermissions_allow [of "started_server\<lparr>ms_heap := h\<rparr>" ?admin "\<lparr>sl_arr = 3, sl_len = 4\<rparr>" _ gc_grow] that
    by (simp add: client_info_def tables slice_ok_def slice_values_def)
  have "all_rpcs a \<in> set (sp_Allow (pm_Publish (fst (NatsMsgServer_MakePermissions gc_grow ?admin started_server))))"
    using allow [of "ms_heap started_server"]
    by (simp add: tables pub_subject_def perm_agent_def zero_perm_def)
  moreover have "all_rpcs a \<notin> set (sp_Allow (pm_Publish (fst (NatsMsgServer_MakePermissions gc_grow ?admin ?srv))))"
    unfolding srv using tables(4)
    by (simp add: allow pub_subject_def perm_agent_def zero_perm_def auth_rpc_def MakeSubject_def or_default_def
        stream_subjects_def)
  ultimately show ?thesis by simp
qed

section \<open>Profile requests\<close>

datatype profile_request =
    NewTokenReq string | RefreshTokenReq | UpdateNameReq string | UpdatePasswordReq string | UpdatePubKeyReq string
  | SetServicePermissionsReq string "string list"

text \<open>The state after a profile request of a sender.\<close>

fun handle_profile :: "auth_env \<Rightarrow> string \<Rightarrow> profile_request \<Rightarrow> AuthState \<Rightarrow> AuthState" where
  "handle_profile env sender (NewTokenReq pw) svc = snd (AuthManageProfile_NewToken env sender pw svc)"
| "handle_profile env sender RefreshTokenReq svc = snd (AuthManageProfile_RefreshToken env sender svc)"
| "handle_profile env sender (UpdateNameReq n) svc = snd (AuthManageProfile_UpdateName env sender n svc)"
| "handle_profile env sender (UpdatePasswordReq pw) svc = snd (AuthManageProfile_UpdatePassword env sender pw svc)"
| "handle_profile env sender (UpdatePubKeyReq k) svc = snd (AuthManageProfile_UpdatePubKey env sender k svc)"
| "handle_profile env sender (SetServicePermissionsReq cap roles) svc =
     snd (AuthManageProfile_SetServicePermissions sender cap roles svc)"

lemma create_token_store [simp]: "as_store (snd (create_token env info svc)) = as_store svc"
  by (simp add: create_token_def split_beta)

lemmas profile_request_defs = AuthManageProfile_NewToken_def AuthManageProfile_RefreshToken_def
  AuthManageProfile_UpdateName_def AuthManageProfile_UpdatePassword_def AuthManageProfile_UpdatePubKey_def
  AuthManageProfile_SetServicePermissions_def AuthManageProfile_onChange_def

lemma Update_entries:
  "mget (fs_entries (snd (AuthnFileStore_Update env now s p st))) c =
     (if c = s \<and> cp_ClientID p = s
      then map_option (\<lambda>e. e\<lparr>ae_profile := updated_profile now p (ae_profile e)\<rparr>) (mget (fs_entries st) s)
      else mget (fs_entries st) c)"
  by (simp add: AuthnFileStore_Update_def gomap_simps split: option.split)

lemma SetPassword_entries:
  "c \<noteq> s \<Longrightarrow> mget (fs_entries (snd (AuthnFileStore_SetPassword env bc salt now s pw st))) c = mget (fs_entries st) c"
  "map_option (\<lambda>e. (cp_ClientID (ae_profile e), cp_ClientType (ae_profile e), cp_Role (ae_profile e)))
      (mget (fs_entries (snd (AuthnFileStore_SetPassword env bc salt now s pw st))) c)
   = map_option (\<lambda>e. (cp_ClientID (ae_profile e), cp_ClientType (ae_profile e), cp_Role (ae_profile e))) (mget (fs_entries st) c)"
  by (simp_all add: AuthnFileStore_SetPassword_def AuthnFileStore_SetPasswordHash_def gomap_simps split: option.split sum.split)

text \<open>
  Profile requests touch only the sender's account (AuthManageProfile.go): whatever request a
  client sends to the profile capability, the store entries of all other clients are unchanged, no
  client appears or disappears, and no client's ID, type or role changes, so the requests every
  user may send cannot raise a role.
\<close>

lemma profile_requests_own_account:
  "(\<forall>c. c \<noteq> sender \<longrightarrow> mget (fs_entries (as_store (handle_profile env sender req svc))) c
       = mget (fs_entries (as_store svc)) c)
    \<and> (\<forall>c. map_option (\<lambda>e. (cp_ClientID (ae_profile e), cp_ClientType (ae_profile e), cp_Role (ae_profile e)))
          (mget (fs_entries (as_store (handle_profile env sender req svc))) c)
       = map_option (\<lambda>e. (cp_ClientID (ae_profile e), cp_ClientType (ae_profile e), cp_Role (ae_profile e)))
          (mget (fs_entries (as_store svc)) c))"
proof (cases req)
  case (UpdatePasswordReq pw)
  then show ?thesis
    by (simp add: profile_request_defs SetPassword_entries split_beta AuthnFileStore_GetProfile_def split: option.split)
next
  case (UpdateNameReq n)
  then show ?thesis
    by (cases "mget (fs_entries (as_store svc)) sender")
       (auto simp: profile_request_defs Update_entries split_beta AuthnFileStore_GetProfile_def updated_profile_def
        zero_profile_def)
next
  case (UpdatePubKeyReq k)
  then show ?thesis
    by (simp add: profile_request_defs Update_entries split_beta AuthnFileStore_GetProfile_def updated_profile_def
        split: option.split)
qed (simp_all add: profile_request_defs AuthnFileStore_GetProfile_def AuthnFileStore_VerifyPassword_def split: option.split)

lemma profile_requests_own_account_witness:
  "mget (fs_entries (as_store (handle_profile demo_env ''eve'' (UpdatePasswordReq ''hacked'') demo_auth_state))) ''bob''
     = Some demo_entry"
  using profile_requests_own_account [of "''eve''" demo_env "UpdatePasswordReq ''hacked''" demo_auth_state]
  by (simp add: demo_auth_state_def)

section \<open>Tokens of new clients\<close>

lemma MakePermissions_frame:
  "ms_AuthCallout (snd (NatsMsgServer_MakePermissions grow ci srv)) = ms_AuthCallout srv"
  "ms_appAccountPub (snd (NatsMsgServer_MakePermissions grow ci srv)) = ms_appAccountPub srv"
  "ms_authClients (snd (NatsMsgServer_MakePermissions grow ci srv)) = ms_authClients srv"
  by (simp_all add: MakePermissions_state split: option.split)

lemma apply_clients_frame:
  "ms_AuthCallout (snd (apply_clients grow cs srv acc)) = ms_AuthCallout srv
   \<and> ms_appAccountPub (snd (apply_clients grow cs srv acc)) = ms_appAccountPub srv"
proof (induction cs arbitrary: srv acc)
  case (Cons ci cs)
  obtain pw nk ac where "acc = (pw, nk, ac)" by (metis prod.exhaust)
  with Cons show ?case by (simp add: split_beta MakePermissions_frame)
qed simp

lemma onChange_frame:
  "ms_AuthCallout (as_server (snd (AuthManageClients_onChange env svc))) = ms_AuthCallout (as_server svc)"
  "ms_appAccountPub (as_server (snd (AuthManageClients_onChange env svc))) = ms_appAccountPub (as_server svc)"
  by (simp_all add: AuthManageClients_onChange_def NatsMsgServer_ApplyAuth_def Let_def split_beta apply_clients_frame)

lemma create_token_frame:
  "ms_AuthCallout (as_server (snd (create_token env info svc))) = ms_AuthCallout (as_server svc)"
  "ms_appAccountPub (as_server (snd (create_token env info svc))) = ms_appAccountPub (as_server svc)"
  "ms_authClients (as_server (snd (create_token env info svc))) = ms_authClients (as_server svc)"
  by (simp_all add: create_token_def NatsMsgServer_CreateToken_def NatsMsgServer_CreateJWTToken_def
      NatsMsgServer_MakeJWTPermissions_def split_beta Let_def MakePermissions_frame)

text \<open>The entry of a client that was added.\<close>

lemma Add_entry:
  assumes "AuthnFileStore_Add env now c p st = (None, st')"
  shows "\<exists>e. mget (fs_entries st') c = Some e \<and> cp_PubKey (ae_profile e) = cp_PubKey p \<and> cp_Role (ae_profile e) = cp_Role p
    \<and> cp_ClientID p = c"
proof -
  let ?p = "(default_validity p)\<lparr>cp_UpdatedMSE := now\<rparr>"
  define e where "e = (case mget (fs_entries st) c of None \<Rightarrow> \<lparr>ae_profile = ?p, ae_PasswordHash = []\<rparr>
      | Some entry \<Rightarrow> entry\<lparr>ae_profile := ?p\<rparr>)"
  from assms have id: "cp_ClientID p = c"
    and "AuthnFileStore_save env (st\<lparr>fs_entries := mput c e (fs_entries st)\<rparr>) = (None, st')"
    by (auto simp: AuthnFileStore_Add_def Let_def e_def split: if_splits)
  then have "fs_entries st' = mput c e (fs_entries st)"
    using save_entries [of env "st\<lparr>fs_entries := mput c e (fs_entries st)\<rparr>"] by simp
  moreover have "ae_profile e = ?p" by (simp add: e_def split: option.split)
  ultimately show ?thesis using id by (simp add: gomap_simps default_validity_def)
qed

text \<open>A token that a client got when it was added is accepted by the server it was added to.\<close>

definition token_accepted :: "auth_env \<Rightarrow> string \<Rightarrow> string \<Rightarrow> string \<Rightarrow> string \<Rightarrow> AuthState \<Rightarrow> bool" where
  "token_accepted env c k role tok svc \<longleftrightarrow>
     (\<exists>e. mget (fs_entries (as_store svc)) c = Some e \<and> cp_PubKey (ae_profile e) = k \<and> cp_Role (ae_profile e) = role)
     \<and> (\<forall>K later nonce. NatsMsgServer_ValidateToken (ax_jwt env) K later c tok [] nonce (as_server svc) = Returns None)"

lemma create_token_accepted:
  assumes "jwt_ok (ax_jwt env)" and "ms_AuthCallout (as_server svc)"
    and "create_token env (client_info c ty k role) svc = (Returns (tok, None), svc')"
    and "ms_AuthCallout (as_server svcb)" and "ms_appAccountPub (as_server svcb) = ms_appAccountPub (as_server svc)"
    and "map_of (ms_authClients (as_server svcb)) = map_option auth_info \<circ> map_of (fs_entries (as_store svcb))"
    and "mget (fs_entries (as_store svcb)) c = Some e" and "cp_PubKey (ae_profile e) = k" and "cp_Role (ae_profile e) = role"
  shows "token_accepted env c k role tok svcb"
proof -
  obtain srv where "NatsMsgServer_CreateToken (ax_grow env) (ax_jwt env) (ax_msec env div 1000) (client_info c ty k role)
      (as_server svc) = (Returns (tok, None), srv)"
    using assms(3) by (auto simp: create_token_def split: prod.splits)
  from issued_token_valid [OF assms(1,2) this assms(4,5), of "auth_info e"] assms(6-9)
  show ?thesis by (auto simp: token_accepted_def client_info_def auth_info_def)
qed

lemma AddDevice_token:
  assumes "jwt_ok (ax_jwt env)" and "store_wf (as_store svc)" and "ms_AuthCallout (as_server svc)"
    and "AuthManageClients_AddDevice env c n k svc = (Returns (tok, None), svc')" and "tok \<noteq> []"
  shows "token_accepted env c k ClientRoleDevice tok svc' \<and> k \<noteq> []"
proof -
  let ?p = "new_profile c ClientTypeDevice n k ClientRoleDevice"
  obtain st1 where add: "AuthnFileStore_Add (ax_pw env) (ax_msec env) c ?p (as_store svc) = (None, st1)"
    using assms(4,5) by (auto simp: AuthManageClients_AddDevice_def split: if_splits prod.splits option.splits)
  define svc2 where "svc2 = snd (AuthManageClients_onChange env (svc\<lparr>as_store := st1\<rparr>))"
  have k: "k \<noteq> []"
    and ct: "create_token env (client_info c ClientTypeDevice k ClientRoleDevice) svc2 = (Returns (tok, None), svc')"
    using assms(4,5) add by (auto simp: AuthManageClients_AddDevice_def svc2_def split: if_splits prod.splits)
  have wf: "store_wf st1" using store_op_wf [OF assms(2), of "ax_pw env" "ax_bcrypt env" "StoreAdd (ax_msec env) c ?p"] add by simp
  obtain e where e: "mget (fs_entries st1) c = Some e" "cp_PubKey (ae_profile e) = k" "cp_Role (ae_profile e) = ClientRoleDevice"
    using Add_entry [OF add] by (auto simp: new_profile_def)
  note on = onChange_result [of "svc\<lparr>as_store := st1\<rparr>" env _ svc2, OF _ surjective_pairing [of "AuthManageClients_onChange env (svc\<lparr>as_store := st1\<rparr>)", folded svc2_def]]
  have svc': "svc' = snd (create_token env (client_info c ClientTypeDevice k ClientRoleDevice) svc2)" using ct by simp
  show ?thesis
    using create_token_accepted [OF assms(1) _ ct, of svc' e] on wf e k assms(3)
      create_token_frame [of env "client_info c ClientTypeDevice k ClientRoleDevice" svc2]
      onChange_frame [of env "svc\<lparr>as_store := st1\<rparr>"]
    unfolding svc' by (simp add: svc2_def)
qed

lemma create_token_nonempty:
  "ms_AuthCallout (as_server svc) \<Longrightarrow> create_token env info svc = (Returns (tok, err), svc') \<Longrightarrow> tok \<noteq> [] \<Longrightarrow> err = None"
  by (auto simp: create_token_def NatsMsgServer_CreateToken_def NatsMsgServer_CreateJWTToken_def Let_def
      split: prod.splits if_splits list.splits sum.splits)

lemma AddService_token:
  assumes "jwt_ok (ax_jwt env)" and "store_wf (as_store svc)" and "ms_AuthCallout (as_server svc)"
    and "AuthManageClients_AddService env c n k svc = (Returns (tok, None), svc')" and "tok \<noteq> []"
  shows "token_accepted env c k ClientRoleService tok svc' \<and> k \<noteq> []"
proof -
  let ?p = "new_profile c ClientTypeService n k ClientRoleService"
  let ?ct = "\<lambda>s. create_token env (client_info c ClientTypeService k ClientRoleService) s"
  obtain st1 where add: "AuthnFileStore_Add (ax_pw env) (ax_msec env) c ?p (as_store svc) = (None, st1)"
    using assms(4,5) by (auto simp: AuthManageClients_AddService_def split: if_splits prod.splits option.splits)
  define svc1 where "svc1 = svc\<lparr>as_store := st1\<rparr>"
  obtain svc2 err where ct0: "?ct svc1 = (Returns (tok, err), svc2)" "AuthManageClients_onChange env svc2 = (None, svc')"
    and k: "k \<noteq> []"
    using assms(4,5) add
    by (auto simp: AuthManageClients_AddService_def svc1_def split: if_splits prod.splits outcome.splits)
  have ct: "?ct svc1 = (Returns (tok, None), svc2)"
    using ct0(1) create_token_nonempty [OF _ ct0(1) assms(5)] assms(3) by (simp add: svc1_def)
  have st2: "as_store svc2 = st1"
    using create_token_store [of env "client_info c ClientTypeService k ClientRoleService" svc1] unfolding ct
    by (simp add: svc1_def)
  have wf: "store_wf st1" using store_op_wf [OF assms(2), of "ax_pw env" "ax_bcrypt env" "StoreAdd (ax_msec env) c ?p"] add by simp
  obtain e where e: "mget (fs_entries st1) c = Some e" "cp_PubKey (ae_profile e) = k" "cp_Role (ae_profile e) = ClientRoleService"
    using Add_entry [OF add] by (auto simp: new_profile_def)
  have frame: "ms_AuthCallout (as_server svc')" "ms_appAccountPub (as_server svc') = ms_appAccountPub (as_server svc1)"
    using create_token_frame(1,2) [of env "client_info c ClientTypeService k ClientRoleService" svc1]
      onChange_frame [of env svc2] ct ct0(2) assms(3) by (simp_all add: svc1_def)
  show ?thesis
    using create_token_accepted [OF assms(1) _ ct frame, of e] onChange_result [OF _ ct0(2)] wf e k assms(3) st2
    by (simp add: svc1_def)
qed

end
