(* ===== verification/AuthClient.thy ===== *)
theory AuthClient
  imports AuthStore
begin

text \<open>
  The part of \<open>done_mod/mod_auth/auth_cli/ManageAuthClient.go\<close> that the provisioning service and the
  launcher call: requests that add a client and give back its token, as functions over the state
  of the auth service behind them.
\<close>

text \<open>\<open>authcli.ManageClients\<close>: client ID, display name and public key to a token or an error.\<close>

record 'a auth_client =
  ac_AddService :: "string \<Rightarrow> string \<Rightarrow> string \<Rightarrow> 'a \<Rightarrow> (go_error + string) \<times> 'a"
  ac_AddDevice :: "string \<Rightarrow> string \<Rightarrow> string \<Rightarrow> 'a \<Rightarrow> (go_error + string) \<times> 'a"

end
