(* ===== verification/Provisioning.thy ===== *)
theory Provisioning
  imports AuthClient
begin

text \<open>
  Model of \<open>done_mod/mod_prov/prov_srv/ManageIdProvService.go\<close>: the table of provisioning
  requests and the handlers that submit, approve, pre-approve, reject and list them. The service
  calls the auth service to add the device or service and to get a token: those two calls are a
  record of functions over an auth state \<open>'a\<close>. The clock reading (milliseconds) is an argument.
\<close>

section \<open>Data\<close>

record ProvisionStatus =
  ps_ClientID :: string
  ps_ClientType :: string
  ps_PubKey :: string
  ps_MAC :: string
  ps_Pending :: bool
  ps_ApprovedMSE :: int
  ps_ReceivedMSE :: int
  ps_RejectedMSE :: int
  ps_RetrySec :: int

record PreApprovedClient =
  pc_ClientID :: string
  pc_ClientType :: string
  pc_MAC :: string
  pc_PubKey :: string

record ProvisionRequestArgs =
  pa_ClientID :: string
  pa_MAC :: string
  pa_PubKey :: string

record ProvisionRequestResp =
  pq_Status :: ProvisionStatus
  pq_Token :: string

record 'a ManageIdProvService =
  pr_requests :: "(string, ProvisionStatus) gomap"
  pr_auth :: 'a

section \<open>Handlers\<close>

definition ManageIdProvService_ApproveRequest ::
  "int \<Rightarrow> string \<Rightarrow> string \<Rightarrow> 'a ManageIdProvService \<Rightarrow> go_error option \<times> 'a ManageIdProvService" where
  "ManageIdProvService_ApproveRequest now clientID clientType svc =
     (case mget (pr_requests svc) clientID of
        None \<Rightarrow> (Some (ErrRequestNotFound clientID), svc)
      | Some status \<Rightarrow>
          (None, svc\<lparr>pr_requests := mput clientID (status\<lparr>ps_Pending := False, ps_ClientType := clientType,
              ps_ApprovedMSE := now, ps_RejectedMSE := 0\<rparr>) (pr_requests svc)\<rparr>))"

definition ManageIdProvService_GetRequests ::
  "bool \<Rightarrow> bool \<Rightarrow> bool \<Rightarrow> 'a ManageIdProvService \<Rightarrow> ProvisionStatus list" where
  "ManageIdProvService_GetRequests approved pending rejected svc =
     filter (\<lambda>status. ps_Pending status \<and> pending \<or> ps_ApprovedMSE status \<noteq> 0 \<and> approved
                \<or> ps_RejectedMSE status \<noteq> 0 \<and> rejected) (map snd (pr_requests svc))"

fun pre_approve_each :: "int \<Rightarrow> PreApprovedClient list \<Rightarrow> (string, ProvisionStatus) gomap
    \<Rightarrow> (string, ProvisionStatus) gomap" where
  "pre_approve_each now [] requests = requests"
| "pre_approve_each now (approval # approvals) requests =
     pre_approve_each now approvals
       (if pc_ClientID approval = [] then requests
        else mput (pc_ClientID approval)
               \<lparr>ps_ClientID = pc_ClientID approval, ps_ClientType = pc_ClientType approval,
                ps_PubKey = pc_PubKey approval, ps_MAC = pc_MAC approval, ps_Pending = False,
                ps_ApprovedMSE = now, ps_ReceivedMSE = 0, ps_RejectedMSE = 0, ps_RetrySec = 0\<rparr> requests)"

definition ManageIdProvService_PreApproveClients ::
  "int \<Rightarrow> PreApprovedClient list \<Rightarrow> 'a ManageIdProvService \<Rightarrow> go_error option \<times> 'a ManageIdProvService" where
  "ManageIdProvService_PreApproveClients now approvals svc =
     (None, svc\<lparr>pr_requests := pre_approve_each now approvals (pr_requests svc)\<rparr>)"

definition ManageIdProvService_RejectRequest ::
  "int \<Rightarrow> string \<Rightarrow> 'a ManageIdProvService \<Rightarrow> go_error option \<times> 'a ManageIdProvService" where
  "ManageIdProvService_RejectRequest now clientID svc =
     (case mget (pr_requests svc) clientID of
        None \<Rightarrow> (Some (ErrRequestNotFound clientID), svc)
      | Some status \<Rightarrow>
          (None, svc\<lparr>pr_requests := mput clientID (status\<lparr>ps_Pending := False, ps_RejectedMSE := now\<rparr>)
              (pr_requests svc)\<rparr>))"

definition submit_denied :: "ProvisionStatus \<Rightarrow> ProvisionRequestArgs \<Rightarrow> go_error option" where
  "submit_denied status args =
     (if ps_PubKey status \<noteq> [] \<and> ps_PubKey status \<noteq> pa_PubKey args then Some (ErrPubKeyMismatch (pa_ClientID args))
      else if ps_MAC status \<noteq> [] \<and> ps_MAC status \<noteq> pa_MAC args then Some (ErrMacMismatch (pa_ClientID args))
      else if pa_PubKey args = [] then Some (ErrNoPubKey (pa_ClientID args))
      else None)"

text \<open>
  The status of a request that is not approved: a new one, a rejected one, or a repeat, whose
  retry delay grows.
\<close>

definition waiting_status :: "int \<Rightarrow> ProvisionRequestArgs \<Rightarrow> ProvisionStatus option \<Rightarrow> ProvisionStatus" where
  "waiting_status now args st =
     (case st of
        None \<Rightarrow> \<lparr>ps_ClientID = pa_ClientID args, ps_ClientType = [], ps_PubKey = pa_PubKey args,
           ps_MAC = pa_MAC args, ps_Pending = True, ps_ApprovedMSE = 0, ps_ReceivedMSE = now,
           ps_RejectedMSE = 0, ps_RetrySec = 60\<rparr>
      | Some status \<Rightarrow>
          if ps_RejectedMSE status \<noteq> 0
          then status\<lparr>ps_RetrySec := 3600, ps_ReceivedMSE := now, ps_Pending := False\<rparr>
          else status\<lparr>ps_Pending := True, ps_ReceivedMSE := now,
                 ps_RetrySec := (if ps_RetrySec status < 600 then ps_RetrySec status + 30 else ps_RetrySec status)\<rparr>)"

definition ManageIdProvService_SubmitRequest ::
  "'a auth_client \<Rightarrow> int \<Rightarrow> ProvisionRequestArgs \<Rightarrow> 'a ManageIdProvService
     \<Rightarrow> (go_error + ProvisionRequestResp) \<times> 'a ManageIdProvService" where
  "ManageIdProvService_SubmitRequest A now args svc =
     (let clientID = pa_ClientID args;
          answer = (\<lambda>status token svc. (Inr \<lparr>pq_Status = status, pq_Token = token\<rparr>,
              svc\<lparr>pr_requests := mput clientID status (pr_requests svc)\<rparr>));
          st = mget (pr_requests svc) clientID
      in case st of
           Some status \<Rightarrow>
             if ps_ApprovedMSE status \<noteq> 0
             then (case submit_denied status args of
                     Some err \<Rightarrow> (Inl err, svc)
                   | None \<Rightarrow>
                       (case (if ps_ClientType status = ClientTypeService
                              then ac_AddService A (ps_ClientID status) ''service'' (ps_PubKey status) (pr_auth svc)
                              else ac_AddDevice A (ps_ClientID status) ''device'' (ps_PubKey status) (pr_auth svc)) of
                          (Inl err, auth) \<Rightarrow> (Inl err, svc\<lparr>pr_auth := auth\<rparr>)
                        | (Inr token, auth) \<Rightarrow>
                            answer (status\<lparr>ps_ReceivedMSE := now, ps_Pending := False\<rparr>) token
                              (svc\<lparr>pr_auth := auth\<rparr>)))
             else answer (waiting_status now args st) [] svc
         | None \<Rightarrow> answer (waiting_status now args st) [] svc)"

section \<open>The service as a state machine\<close>

datatype prov_event =
    Approve int string string
  | Reject int string
  | PreApprove int "PreApprovedClient list"
  | Submit int ProvisionRequestArgs

inductive prov_step :: "'a auth_client \<Rightarrow> 'a ManageIdProvService \<Rightarrow> prov_event \<Rightarrow> 'a ManageIdProvService \<Rightarrow> bool"
  for A :: "'a auth_client" where
  step_approve: "prov_step A svc (Approve now c ty) (snd (ManageIdProvService_ApproveRequest now c ty svc))"
| step_reject: "prov_step A svc (Reject now c) (snd (ManageIdProvService_RejectRequest now c svc))"
| step_preapprove: "prov_step A svc (PreApprove now l) (snd (ManageIdProvService_PreApproveClients now l svc))"
| step_submit: "prov_step A svc (Submit now args) (snd (ManageIdProvService_SubmitRequest A now args svc))"

inductive_cases prov_stepE: "prov_step A svc e svc'"

text \<open>The clock reading of the event; it is after 1970 in every run.\<close>

fun event_time :: "prov_event \<Rightarrow> int" where
  "event_time (Approve now c ty) = now"
| "event_time (Reject now c) = now"
| "event_time (PreApprove now l) = now"
| "event_time (Submit now args) = now"

inductive prov_reach :: "'a auth_client \<Rightarrow> 'a \<Rightarrow> prov_event list \<Rightarrow> 'a ManageIdProvService \<Rightarrow> bool"
  for A :: "'a auth_client" and auth0 :: 'a where
  reach_start: "prov_reach A auth0 [] \<lparr>pr_requests = [], pr_auth = auth0\<rparr>"
| reach_step: "prov_reach A auth0 es svc \<Longrightarrow> 0 < event_time e \<Longrightarrow> prov_step A svc e svc' \<Longrightarrow> prov_reach A auth0 (e # es) svc'"

text \<open>The event approves the client.\<close>

fun approves :: "string \<Rightarrow> prov_event \<Rightarrow> bool" where
  "approves c (Approve now c' ty) \<longleftrightarrow> c' = c"
| "approves c (PreApprove now l) \<longleftrightarrow> c \<in> pc_ClientID ` set l"
| "approves c _ \<longleftrightarrow> False"

lemmas prov_defs = ManageIdProvService_ApproveRequest_def ManageIdProvService_RejectRequest_def
  ManageIdProvService_PreApproveClients_def

lemma SubmitRequest_requests:
  assumes "ManageIdProvService_SubmitRequest A now args svc = (r, svc')"
  shows "pr_requests svc' = pr_requests svc \<or>
    (\<exists>status. pr_requests svc' = mput (pa_ClientID args) status (pr_requests svc)
      \<and> (case mget (pr_requests svc) (pa_ClientID args) of
           Some st \<Rightarrow> if ps_ApprovedMSE st \<noteq> 0 then status = st\<lparr>ps_ReceivedMSE := now, ps_Pending := False\<rparr>
                      else status = waiting_status now args (Some st)
         | None \<Rightarrow> status = waiting_status now args None))"
  using assms unfolding ManageIdProvService_SubmitRequest_def Let_def
  by (auto split: option.splits if_splits prod.splits sum.splits)

section \<open>Invariant\<close>

text \<open>
  What holds of the record of client \<open>c\<close> after the events \<open>es\<close>: it is filed under its own ID, it is
  pending exactly when it is neither approved nor rejected, an approval goes back to an approving
  event, and the retry delay is bounded.
\<close>

definition status_ok :: "prov_event list \<Rightarrow> string \<Rightarrow> ProvisionStatus \<Rightarrow> bool" where
  "status_ok es c st \<longleftrightarrow> ps_ClientID st = c
     \<and> (ps_Pending st \<longleftrightarrow> ps_ApprovedMSE st = 0 \<and> ps_RejectedMSE st = 0)
     \<and> (ps_ApprovedMSE st \<noteq> 0 \<longrightarrow> list_ex (approves c) es)
     \<and> 0 \<le> ps_RetrySec st \<and> ps_RetrySec st \<le> 3600
     \<and> (ps_Pending st \<longrightarrow> 60 \<le> ps_RetrySec st \<and> ps_RetrySec st \<le> 600 \<and> 30 dvd ps_RetrySec st)"

definition table_ok :: "prov_event list \<Rightarrow> (string, ProvisionStatus) gomap \<Rightarrow> bool" where
  "table_ok es requests \<longleftrightarrow> wf_map requests \<and> (\<forall>c st. mget requests c = Some st \<longrightarrow> status_ok es c st)"

lemma status_ok_later: "status_ok es c st \<Longrightarrow> status_ok (e # es) c st"
  by (auto simp: status_ok_def)

lemma table_ok_later: "table_ok es m \<Longrightarrow> table_ok (e # es) m"
  by (auto simp: table_ok_def intro: status_ok_later)

lemma table_ok_mput: "table_ok es m \<Longrightarrow> status_ok es c st \<Longrightarrow> table_ok es (mput c st m)"
  by (auto simp: table_ok_def gomap_simps intro: wf_intros split: if_splits)

lemma pre_approve_table_ok:
  "table_ok es m \<Longrightarrow> 0 < now \<Longrightarrow> (\<forall>a \<in> set l. list_ex (approves (pc_ClientID a)) es)
     \<Longrightarrow> table_ok es (pre_approve_each now l m)"
proof (induction l arbitrary: m)
  case Nil
  then show ?case by simp
next
  case (Cons a l)
  then show ?case by (simp, intro impI conjI Cons.IH table_ok_mput) (auto simp: status_ok_def)
qed

lemma waiting_status_ok:
  assumes "0 < now" and "st = None \<or> (\<exists>s. st = Some s \<and> status_ok es (pa_ClientID args) s \<and> ps_ApprovedMSE s = 0)"
  shows "status_ok es (pa_ClientID args) (waiting_status now args st)"
proof (cases st)
  case None
  then show ?thesis by (simp add: waiting_status_def status_ok_def)
next
  case (Some s)
  have next_retry: "60 \<le> (if x < 600 then x + 30 else x) \<and> (if x < 600 then x + 30 else x) \<le> 600
      \<and> 30 dvd (if x < 600 then x + 30 else x)" if "60 \<le> x" "x \<le> 600" "30 dvd x" for x :: int
    using that by presburger
  from Some assms(2) have ok: "status_ok es (pa_ClientID args) s" "ps_ApprovedMSE s = 0" by auto
  show ?thesis
  proof (cases "ps_RejectedMSE s = 0")
    case True
    with ok next_retry [of "ps_RetrySec s"] Some show ?thesis
      by (auto simp: waiting_status_def status_ok_def)
  next
    case False
    with ok Some show ?thesis by (simp add: waiting_status_def status_ok_def)
  qed
qed

lemma prov_step_ok:
  assumes "prov_step A svc e svc'" and "table_ok es (pr_requests svc)" and "0 < event_time e"
  shows "table_ok (e # es) (pr_requests svc')"
proof -
  note ok = table_ok_later [OF assms(2), of e]
  have old: "status_ok (e # es) c st" if "mget (pr_requests svc) c = Some st" for c st
    using ok that by (simp add: table_ok_def)
  from assms(1) show ?thesis
  proof cases
  case (step_approve now c ty)
  show ?thesis
  proof (cases "mget (pr_requests svc) c")
    case None
    with step_approve ok show ?thesis by (simp add: prov_defs)
  next
    case (Some st)
    from old [OF this] assms(3) have "status_ok (e # es) c (st\<lparr>ps_Pending := False, ps_ClientType := ty, ps_ApprovedMSE := now, ps_RejectedMSE := 0\<rparr>)"
      using step_approve(1) by (simp add: status_ok_def)
    from table_ok_mput [OF ok this] step_approve(2) Some show ?thesis by (simp add: prov_defs)
  qed
next
  case (step_reject now c)
  show ?thesis
  proof (cases "mget (pr_requests svc) c")
    case None
    with step_reject ok show ?thesis by (simp add: prov_defs)
  next
    case (Some st)
    from old [OF this] assms(3) have "status_ok (e # es) c (st\<lparr>ps_Pending := False, ps_RejectedMSE := now\<rparr>)"
      using step_reject(1) by (simp add: status_ok_def)
    from table_ok_mput [OF ok this] step_reject(2) Some show ?thesis by (simp add: prov_defs)
  qed
next
  case (step_preapprove now l)
  then show ?thesis
    using assms(3) pre_approve_table_ok [OF table_ok_later [OF assms(2), of e], of now l]
    by (auto simp: prov_defs)
next
  case (step_submit now args)
  obtain r where r: "ManageIdProvService_SubmitRequest A now args svc = (r, svc')"
    using step_submit(2) by (metis prod.collapse)
  have now: "0 < now" using assms(3) step_submit(1) by simp
  show ?thesis
    using SubmitRequest_requests [OF r]
  proof (elim disjE exE conjE)
    fix status
    assume m: "pr_requests svc' = mput (pa_ClientID args) status (pr_requests svc)"
      and c: "case mget (pr_requests svc) (pa_ClientID args) of
           Some st \<Rightarrow> if ps_ApprovedMSE st \<noteq> 0 then status = st\<lparr>ps_ReceivedMSE := now, ps_Pending := False\<rparr>
                      else status = waiting_status now args (Some st)
         | None \<Rightarrow> status = waiting_status now args None"
    have "status_ok (e # es) (pa_ClientID args) status"
    proof (cases "mget (pr_requests svc) (pa_ClientID args)")
      case None
      with c now show ?thesis by (simp add: waiting_status_ok)
    next
      case (Some st)
      with c now old [OF Some] show ?thesis
        by (cases "ps_ApprovedMSE st = 0") (auto simp: waiting_status_ok, auto simp: status_ok_def)
    qed
    with m ok show ?thesis by (simp add: table_ok_mput)
  qed (simp add: ok)
  qed
qed

lemma prov_reach_ok: "prov_reach A auth0 es svc \<Longrightarrow> table_ok es (pr_requests svc)"
proof (induction rule: prov_reach.induct)
  case reach_start
  then show ?case by (simp add: table_ok_def)
next
  case (reach_step es svc e svc')
  then show ?case by (intro prov_step_ok)
qed

lemma SubmitRequest_token:
  assumes "fst (ManageIdProvService_SubmitRequest A now args svc) = Inr resp" and "pq_Token resp \<noteq> []"
  shows "\<exists>st. mget (pr_requests svc) (pa_ClientID args) = Some st \<and> ps_ApprovedMSE st \<noteq> 0
    \<and> submit_denied st args = None"
  using assms unfolding ManageIdProvService_SubmitRequest_def Let_def
  by (auto split: option.splits if_splits prod.splits sum.splits)

section \<open>Properties\<close>

text \<open>
  C37. Invariant of every reachable request table: a client's record is filed under its own ID, it
  is pending exactly when it has been neither approved nor rejected, and while it is pending the
  retry delay is a multiple of 30 seconds between one and ten minutes (an hour at most otherwise).
\<close>

theorem prov_reachable_invariant:
  assumes "prov_reach A auth0 es svc" and "mget (pr_requests svc) c = Some st"
  shows "ps_ClientID st = c
    \<and> (ps_Pending st \<longleftrightarrow> ps_ApprovedMSE st = 0 \<and> ps_RejectedMSE st = 0)
    \<and> 0 \<le> ps_RetrySec st \<and> ps_RetrySec st \<le> 3600
    \<and> (ps_Pending st \<longrightarrow> 60 \<le> ps_RetrySec st \<and> ps_RetrySec st \<le> 600 \<and> 30 dvd ps_RetrySec st)"
  using prov_reach_ok [OF assms(1)] assms(2) by (simp add: table_ok_def status_ok_def)

abbreviation demo_auth :: "nat auth_client" where
  "demo_auth \<equiv> \<lparr>ac_AddService = (\<lambda>c n k a. (Inr ''tok'', a + 1)), ac_AddDevice = (\<lambda>c n k a. (Inr ''tok'', a + 1))\<rparr>"

abbreviation demo_args :: ProvisionRequestArgs where
  "demo_args \<equiv> \<lparr>pa_ClientID = ''dev1'', pa_MAC = ''m1'', pa_PubKey = ''key1''\<rparr>"

definition demo_prov :: "nat ManageIdProvService" where
  "demo_prov = snd (ManageIdProvService_ApproveRequest 20 ''dev1'' ClientTypeDevice
     (snd (ManageIdProvService_SubmitRequest demo_auth 10 demo_args \<lparr>pr_requests = [], pr_auth = 0\<rparr>)))"

lemma demo_prov_reach:
  "prov_reach demo_auth 0 [Approve 20 ''dev1'' ClientTypeDevice, Submit 10 demo_args] demo_prov"
  unfolding demo_prov_def by (rule reach_step [OF reach_step [OF reach_start _ step_submit] _ step_approve]) simp_all

lemma demo_prov_eq:
  "demo_prov = \<lparr>pr_requests = [(''dev1'', \<lparr>ps_ClientID = ''dev1'', ps_ClientType = ''device'', ps_PubKey = ''key1'',
     ps_MAC = ''m1'', ps_Pending = False, ps_ApprovedMSE = 20, ps_ReceivedMSE = 10, ps_RejectedMSE = 0,
     ps_RetrySec = 60\<rparr>)], pr_auth = 0\<rparr>"
  by (simp add: demo_prov_def ManageIdProvService_SubmitRequest_def prov_defs waiting_status_def)

theorem prov_reachable_invariant_witness:
  "\<exists>st. mget (pr_requests demo_prov) ''dev1'' = Some st \<and> ps_RetrySec st \<le> 3600"
proof -
  obtain st where "mget (pr_requests demo_prov) ''dev1'' = Some st" by (simp add: demo_prov_eq)
  with prov_reachable_invariant [OF demo_prov_reach this] show ?thesis by blast
qed

text \<open>
  No token without approval: in any run, a submitted request is answered with a token only if
  an administrator approved or pre-approved that client before, and the request presents a public
  key, and the key and the MAC address on record, where recorded, match those presented.
\<close>

lemma prov_token_needs_approval:
  assumes "prov_reach A auth0 es svc"
    and "fst (ManageIdProvService_SubmitRequest A now args svc) = Inr resp" and "pq_Token resp \<noteq> []"
  shows "list_ex (approves (pa_ClientID args)) es
    \<and> (\<exists>st. mget (pr_requests svc) (pa_ClientID args) = Some st \<and> pa_PubKey args \<noteq> []
        \<and> (ps_PubKey st = [] \<or> ps_PubKey st = pa_PubKey args) \<and> (ps_MAC st = [] \<or> ps_MAC st = pa_MAC args))"
proof -
  obtain st where st: "mget (pr_requests svc) (pa_ClientID args) = Some st" "ps_ApprovedMSE st \<noteq> 0"
      "submit_denied st args = None"
    using SubmitRequest_token [OF assms(2,3)] by blast
  with prov_reach_ok [OF assms(1)] have "list_ex (approves (pa_ClientID args)) es"
    by (simp add: table_ok_def status_ok_def)
  with st show ?thesis by (auto simp: submit_denied_def split: if_splits)
qed

lemma prov_token_needs_approval_witness:
  "list_ex (approves ''dev1'') [Approve 20 ''dev1'' ClientTypeDevice, Submit 10 demo_args]"
proof -
  let ?r = "\<lparr>pq_Status = \<lparr>ps_ClientID = ''dev1'', ps_ClientType = ''device'', ps_PubKey = ''key1'',
     ps_MAC = ''m1'', ps_Pending = False, ps_ApprovedMSE = 20, ps_ReceivedMSE = 30, ps_RejectedMSE = 0,
     ps_RetrySec = 60\<rparr>, pq_Token = ''tok''\<rparr>"
  have "fst (ManageIdProvService_SubmitRequest demo_auth 30 demo_args demo_prov) = Inr ?r"
    by (simp add: demo_prov_eq ManageIdProvService_SubmitRequest_def submit_denied_def Let_def)
  from prov_token_needs_approval [OF demo_prov_reach this] show ?thesis by simp
qed

text \<open>
  Rejecting an approved client has no effect on its access: \<open>RejectRequest\<close> keeps the approval
  time, so the next request of the client is still answered with the token of the auth service.
\<close>

lemma prov_reject_after_approval_ignored:
  assumes "mget (pr_requests svc) c = Some st" and "ps_ApprovedMSE st \<noteq> 0" and "pa_ClientID args = c"
    and "submit_denied st args = None" and "ps_ClientType st \<noteq> ClientTypeService"
    and "ac_AddDevice A (ps_ClientID st) ''device'' (ps_PubKey st) (pr_auth svc) = (Inr token, auth)"
  shows "\<exists>resp. fst (ManageIdProvService_SubmitRequest A now args (snd (ManageIdProvService_RejectRequest t c svc)))
      = Inr resp \<and> pq_Token resp = token \<and> ps_RejectedMSE (pq_Status resp) = t"
proof -
  have "submit_denied (st\<lparr>ps_Pending := False, ps_RejectedMSE := t\<rparr>) args = submit_denied st args"
    by (simp add: submit_denied_def)
  with assms show ?thesis
    by (auto simp: ManageIdProvService_RejectRequest_def ManageIdProvService_SubmitRequest_def gomap_simps Let_def)
qed

lemma prov_reject_after_approval_ignored_witness:
  "\<exists>resp. fst (ManageIdProvService_SubmitRequest demo_auth 50 demo_args
     (snd (ManageIdProvService_RejectRequest 40 ''dev1'' demo_prov))) = Inr resp \<and> pq_Token resp = ''tok''"
proof -
  let ?st = "\<lparr>ps_ClientID = ''dev1'', ps_ClientType = ''device'', ps_PubKey = ''key1'', ps_MAC = ''m1'',
     ps_Pending = False, ps_ApprovedMSE = 20, ps_ReceivedMSE = 10, ps_RejectedMSE = 0, ps_RetrySec = 60\<rparr>"
  have "mget (pr_requests demo_prov) ''dev1'' = Some ?st" by (simp add: demo_prov_eq)
  from prov_reject_after_approval_ignored [OF this, of demo_args demo_auth "''tok''" 1 50 40]
  show ?thesis by (auto simp: demo_prov_eq submit_denied_def)
qed

end
