(* ===== verification/Keys.thy ===== *)
theory Keys
  imports GoPaths
begin

text \<open>
  Model of \<open>done_tool/keys\<close>: the three key types behind the \<open>IHiveKey\<close> interface (nkeys, ECDSA and
  RSA; ECDSA embeds the RSA type and inherits its export functions), and \<open>keys.go\<close>, which
  determines the type of an encoded key and loads keys from files. The cryptographic packages are
  the record \<open>crypto_lib\<close>. The laws of the interface are the locale \<open>hive_key\<close>, interpreted for
  each key type.
\<close>

section \<open>Native keys and the library\<close>

datatype privkey = RsaPriv string | EcdsaPriv string | NKeyPair string | OtherPriv string

text \<open>An nkey's public key is kept as a pointer to a string; \<open>NKeyPubStr\<close> is the string itself.\<close>

datatype pubkey = RsaPub string | EcdsaPub string | OtherPub string | NKeyPub string | NKeyPubStr string

record crypto_lib =
  cy_pem_Decode :: "string \<Rightarrow> string option"
  cy_pem_Encode :: "string \<Rightarrow> string \<Rightarrow> string"      \<comment> \<open>block type, content\<close>
  cy_base64 :: "string \<Rightarrow> string \<times> go_error option"
  cy_ParsePKIX :: "string \<Rightarrow> go_error + pubkey"
  cy_MarshalPKIX :: "pubkey \<Rightarrow> go_error + string"
  cy_ParsePKCS1 :: "string \<Rightarrow> go_error + privkey"
  cy_ParsePKCS8 :: "string \<Rightarrow> go_error + privkey"
  cy_MarshalPKCS8 :: "privkey \<Rightarrow> go_error + string"
  cy_Public :: "privkey \<Rightarrow> pubkey"
  cy_sha256 :: "string \<Rightarrow> string"
  cy_Sign :: "privkey \<Rightarrow> string \<Rightarrow> go_error + string"    \<comment> \<open>rsa.SignPKCS1v15, ecdsa.SignASN1\<close>
  cy_Verify :: "pubkey \<Rightarrow> string \<Rightarrow> string \<Rightarrow> bool"
  nk_FromSeed :: "string \<Rightarrow> go_error option"
  nk_ParseDecorated :: "string \<Rightarrow> go_error + privkey"
  nk_Seed :: "privkey \<Rightarrow> go_error + string"
  nk_PublicKey :: "privkey \<Rightarrow> string"
  nk_Sign :: "privkey \<Rightarrow> string \<Rightarrow> go_error + string"
  nk_Verify :: "privkey \<Rightarrow> string \<Rightarrow> string \<Rightarrow> bool"

text \<open>What a call of \<open>Initialize\<close> generates, per key type; \<open>None\<close> when the generator fails.\<close>

datatype KeyType = KeyTypeECDSA | KeyTypeRSA | KeyTypeNKey | KeyTypeUnknown

type_synonym keygen = "KeyType \<Rightarrow> privkey option"

record HiveKey =
  hk_type :: KeyType
  hk_priv :: "privkey option"
  hk_pub :: "pubkey option"

section \<open>RSA keys\<close>

definition RsaKey_ExportPrivate :: "crypto_lib \<Rightarrow> HiveKey \<Rightarrow> string outcome" where
  "RsaKey_ExportPrivate L k =
     (case hk_priv k of
        None \<Rightarrow> Panics ExplicitPanic
      | Some p \<Rightarrow>
          (case cy_MarshalPKCS8 L p of
             Inl e \<Rightarrow> Panics ExplicitPanic
           | Inr keyBytes \<Rightarrow> Returns (cy_pem_Encode L ''PRIVATE KEY'' keyBytes)))"

definition RsaKey_ExportPublic :: "crypto_lib \<Rightarrow> HiveKey \<Rightarrow> string outcome" where
  "RsaKey_ExportPublic L k =
     (case hk_pub k of
        None \<Rightarrow> Panics ExplicitPanic
      | Some p \<Rightarrow>
          (case cy_MarshalPKIX L p of
             Inl e \<Rightarrow> Panics ExplicitPanic
           | Inr x509EncodedPub \<Rightarrow> Returns (cy_pem_Encode L ''PUBLIC KEY'' x509EncodedPub)))"

definition RsaKey_importDer :: "crypto_lib \<Rightarrow> string \<Rightarrow> string \<times> go_error option" where
  "RsaKey_importDer L privateEnc =
     (case cy_pem_Decode L privateEnc of
        None \<Rightarrow> (case cy_base64 L privateEnc of
                   (derBytes, None) \<Rightarrow> (derBytes, None)
                 | (derBytes, Some e) \<Rightarrow> ([], Some ErrKeyFormat))
      | Some bytes \<Rightarrow> (bytes, None))"

definition RsaKey_ImportPrivate :: "crypto_lib \<Rightarrow> string \<Rightarrow> HiveKey \<Rightarrow> go_error option \<times> HiveKey" where
  "RsaKey_ImportPrivate L privatePEM k =
     (case cy_ParsePKCS8 L (fst (RsaKey_importDer L privatePEM)) of
        Inl e \<Rightarrow> (Some e, k)
      | Inr (RsaPriv x) \<Rightarrow> (None, k\<lparr>hk_priv := Some (RsaPriv x), hk_pub := Some (cy_Public L (RsaPriv x))\<rparr>)
      | Inr _ \<Rightarrow> (Some (ErrNotKeyType ''RSA''), k))"

text \<open>The key's fields are assigned before the type is checked.\<close>

definition RsaKey_ImportPublic :: "crypto_lib \<Rightarrow> string \<Rightarrow> HiveKey \<Rightarrow> go_error option \<times> HiveKey" where
  "RsaKey_ImportPublic L publicPEM k =
     (case cy_ParsePKIX L (fst (RsaKey_importDer L publicPEM)) of
        Inl e \<Rightarrow> (Some (ErrNotKeyType ''RSA''), k\<lparr>hk_pub := None, hk_priv := None\<rparr>)
      | Inr p \<Rightarrow> ((case p of RsaPub _ \<Rightarrow> None | _ \<Rightarrow> Some (ErrNotKeyType ''RSA'')),
                   k\<lparr>hk_pub := Some p, hk_priv := None\<rparr>))"

definition RsaKey_Sign :: "crypto_lib \<Rightarrow> HiveKey \<Rightarrow> string \<Rightarrow> (go_error + string) outcome" where
  "RsaKey_Sign L k msg =
     (case hk_priv k of
        Some (RsaPriv x) \<Rightarrow>
          (case cy_Sign L (RsaPriv x) (cy_sha256 L msg) of
             Inl e \<Rightarrow> Panics FatalExit
           | Inr signature \<Rightarrow> Returns (Inr signature))
      | _ \<Rightarrow> Panics TypeAssertion)"

definition RsaKey_Verify :: "crypto_lib \<Rightarrow> HiveKey \<Rightarrow> string \<Rightarrow> string \<Rightarrow> bool outcome" where
  "RsaKey_Verify L k msg signature =
     (case hk_pub k of
        Some (RsaPub x) \<Rightarrow> Returns (cy_Verify L (RsaPub x) (cy_sha256 L msg) signature)
      | _ \<Rightarrow> Panics TypeAssertion)"

definition NewRsaKeyFromPrivate :: "crypto_lib \<Rightarrow> privkey \<Rightarrow> HiveKey" where
  "NewRsaKeyFromPrivate L p = \<lparr>hk_type = KeyTypeRSA, hk_priv = Some p, hk_pub = Some (cy_Public L p)\<rparr>"

section \<open>ECDSA keys\<close>

definition EcdsaKey_ImportPrivate :: "crypto_lib \<Rightarrow> string \<Rightarrow> HiveKey \<Rightarrow> go_error option \<times> HiveKey" where
  "EcdsaKey_ImportPrivate L privatePEM k =
     (case cy_ParsePKCS8 L (fst (RsaKey_importDer L privatePEM)) of
        Inl e \<Rightarrow> (Some e, k)
      | Inr (EcdsaPriv x) \<Rightarrow> (None, k\<lparr>hk_priv := Some (EcdsaPriv x), hk_pub := Some (cy_Public L (EcdsaPriv x))\<rparr>)
      | Inr _ \<Rightarrow> (Some (ErrNotKeyType ''ECDSA''), k))"

definition EcdsaKey_ImportPublic :: "crypto_lib \<Rightarrow> string \<Rightarrow> HiveKey \<Rightarrow> go_error option \<times> HiveKey" where
  "EcdsaKey_ImportPublic L publicPEM k =
     (case cy_ParsePKIX L (fst (RsaKey_importDer L publicPEM)) of
        Inl e \<Rightarrow> (Some (ErrNotKeyType ''ECDSA''), k\<lparr>hk_pub := None, hk_priv := None\<rparr>)
      | Inr p \<Rightarrow> ((case p of EcdsaPub _ \<Rightarrow> None | _ \<Rightarrow> Some (ErrNotKeyType ''ECDSA'')),
                   k\<lparr>hk_pub := Some p, hk_priv := None\<rparr>))"

definition EcdsaKey_Sign :: "crypto_lib \<Rightarrow> HiveKey \<Rightarrow> string \<Rightarrow> (go_error + string) outcome" where
  "EcdsaKey_Sign L k msg =
     (case hk_priv k of
        Some (EcdsaPriv x) \<Rightarrow> Returns (cy_Sign L (EcdsaPriv x) (cy_sha256 L msg))
      | _ \<Rightarrow> Panics TypeAssertion)"

definition EcdsaKey_Verify :: "crypto_lib \<Rightarrow> HiveKey \<Rightarrow> string \<Rightarrow> string \<Rightarrow> bool outcome" where
  "EcdsaKey_Verify L k msg signature =
     (case hk_pub k of
        Some (EcdsaPub x) \<Rightarrow> Returns (cy_Verify L (EcdsaPub x) (cy_sha256 L msg) signature)
      | _ \<Rightarrow> Panics TypeAssertion)"

definition NewEcdsaKeyFromPrivate :: "crypto_lib \<Rightarrow> privkey \<Rightarrow> HiveKey" where
  "NewEcdsaKeyFromPrivate L p = \<lparr>hk_type = KeyTypeECDSA, hk_priv = Some p, hk_pub = Some (cy_Public L p)\<rparr>"

section \<open>NATS keys\<close>

definition NKeysKey_ExportPrivate :: "crypto_lib \<Rightarrow> HiveKey \<Rightarrow> string outcome" where
  "NKeysKey_ExportPrivate L k =
     (case hk_priv k of
        None \<Rightarrow> Panics ExplicitPanic
      | Some (NKeyPair x) \<Rightarrow>
          (case nk_Seed L (NKeyPair x) of Inl e \<Rightarrow> Panics ExplicitPanic | Inr seed \<Rightarrow> Returns seed)
      | Some _ \<Rightarrow> Panics TypeAssertion)"

definition NKeysKey_ExportPublic :: "crypto_lib \<Rightarrow> HiveKey \<Rightarrow> string outcome" where
  "NKeysKey_ExportPublic L k =
     (case hk_pub k of
        None \<Rightarrow> Panics ExplicitPanic
      | Some (NKeyPub s) \<Rightarrow> Returns s
      | Some _ \<Rightarrow> Panics TypeAssertion)"

definition NKeysKey_ImportPrivate :: "crypto_lib \<Rightarrow> string \<Rightarrow> HiveKey \<Rightarrow> go_error option \<times> HiveKey" where
  "NKeysKey_ImportPrivate L privatePEM k =
     (case nk_ParseDecorated L privatePEM of
        Inl e \<Rightarrow> (Some ErrKeyFormat, k)
      | Inr nk \<Rightarrow> (None, k\<lparr>hk_priv := Some nk, hk_pub := Some (NKeyPub (nk_PublicKey L nk))\<rparr>))"

definition NKeysKey_ImportPublic :: "crypto_lib \<Rightarrow> string \<Rightarrow> HiveKey \<Rightarrow> go_error option \<times> HiveKey" where
  "NKeysKey_ImportPublic L pubEnc k = (None, k\<lparr>hk_pub := Some (NKeyPub pubEnc)\<rparr>)"

definition NKeysKey_Sign :: "crypto_lib \<Rightarrow> HiveKey \<Rightarrow> string \<Rightarrow> (go_error + string) outcome" where
  "NKeysKey_Sign L k msg =
     (case hk_priv k of
        Some (NKeyPair x) \<Rightarrow> Returns (nk_Sign L (NKeyPair x) msg)
      | _ \<Rightarrow> Panics TypeAssertion)"

definition NKeysKey_Verify :: "crypto_lib \<Rightarrow> HiveKey \<Rightarrow> string \<Rightarrow> string \<Rightarrow> bool outcome" where
  "NKeysKey_Verify L k msg signature =
     (case hk_priv k of
        Some (NKeyPair x) \<Rightarrow> Returns (nk_Verify L (NKeyPair x) msg signature)
      | _ \<Rightarrow> Panics TypeAssertion)"

text \<open>The public key is stored as a string here, and not as a pointer to it.\<close>

definition NewNKeysKeyFromPrivate :: "crypto_lib \<Rightarrow> privkey \<Rightarrow> HiveKey" where
  "NewNKeysKeyFromPrivate L p =
     \<lparr>hk_type = KeyTypeNKey, hk_priv = Some p, hk_pub = Some (NKeyPubStr (nk_PublicKey L p))\<rparr>"

section \<open>The IHiveKey interface: dispatch on the key type\<close>

definition IHiveKey_Initialize :: "crypto_lib \<Rightarrow> keygen \<Rightarrow> KeyType \<Rightarrow> HiveKey outcome" where
  "IHiveKey_Initialize L gen ty =
     (case gen ty of
        None \<Rightarrow> Panics ExplicitPanic
      | Some p \<Rightarrow> Returns \<lparr>hk_type = ty, hk_priv = Some p,
            hk_pub = Some (if ty = KeyTypeNKey then NKeyPub (nk_PublicKey L p) else cy_Public L p)\<rparr>)"

definition IHiveKey_ExportPrivate :: "crypto_lib \<Rightarrow> HiveKey \<Rightarrow> string outcome" where
  "IHiveKey_ExportPrivate L k =
     (if hk_type k = KeyTypeNKey then NKeysKey_ExportPrivate L k else RsaKey_ExportPrivate L k)"

definition IHiveKey_ExportPublic :: "crypto_lib \<Rightarrow> HiveKey \<Rightarrow> string outcome" where
  "IHiveKey_ExportPublic L k =
     (if hk_type k = KeyTypeNKey then NKeysKey_ExportPublic L k else RsaKey_ExportPublic L k)"

definition IHiveKey_ImportPrivate :: "crypto_lib \<Rightarrow> string \<Rightarrow> HiveKey \<Rightarrow> go_error option \<times> HiveKey" where
  "IHiveKey_ImportPrivate L privEnc k =
     (case hk_type k of
        KeyTypeNKey \<Rightarrow> NKeysKey_ImportPrivate L privEnc k
      | KeyTypeECDSA \<Rightarrow> EcdsaKey_ImportPrivate L privEnc k
      | _ \<Rightarrow> RsaKey_ImportPrivate L privEnc k)"

text \<open>The private key file is removed first, as it has no write permission.\<close>

definition IHiveKey_ExportPrivateToFile ::
  "crypto_lib \<Rightarrow> go_error option \<Rightarrow> go_error option \<Rightarrow> string \<Rightarrow> HiveKey \<Rightarrow> filesys
     \<Rightarrow> (go_error option \<times> filesys) outcome" where
  "IHiveKey_ExportPrivateToFile L rmErr wrErr privPath k fs =
     and_then (IHiveKey_ExportPrivate L k)
       (\<lambda>privEnc. Returns (os_WriteFile wrErr privPath privEnc (os_Remove rmErr privPath fs)))"

definition IHiveKey_ExportPublicToFile ::
  "crypto_lib \<Rightarrow> go_error option \<Rightarrow> string \<Rightarrow> HiveKey \<Rightarrow> filesys \<Rightarrow> (go_error option \<times> filesys) outcome" where
  "IHiveKey_ExportPublicToFile L wrErr pubPath k fs =
     and_then (IHiveKey_ExportPublic L k) (\<lambda>pubEnc. Returns (os_WriteFile wrErr pubPath pubEnc fs))"

section \<open>keys.go\<close>

definition DetermineKeyType :: "crypto_lib \<Rightarrow> string \<Rightarrow> KeyType" where
  "DetermineKeyType L encKey =
     (if cy_pem_Decode L encKey = None \<and> nk_FromSeed L encKey = None then KeyTypeNKey
      else let derBytes = (case cy_pem_Decode L encKey of None \<Rightarrow> fst (cy_base64 L encKey) | Some b \<Rightarrow> b) in
        case cy_ParsePKIX L derBytes of
          Inr (EcdsaPub _) \<Rightarrow> KeyTypeECDSA
        | Inr (RsaPub _) \<Rightarrow> KeyTypeRSA
        | _ \<Rightarrow>
            (case cy_ParsePKCS1 L derBytes of
               Inr _ \<Rightarrow> KeyTypeRSA
             | Inl _ \<Rightarrow>
                 (case cy_ParsePKCS8 L derBytes of
                    Inr (EcdsaPriv _) \<Rightarrow> KeyTypeECDSA
                  | Inr (RsaPriv _) \<Rightarrow> KeyTypeRSA
                  | _ \<Rightarrow> KeyTypeUnknown)))"

text \<open>\<open>NewKey\<close> returns nil for an unknown type.\<close>

definition NewKey :: "crypto_lib \<Rightarrow> keygen \<Rightarrow> KeyType \<Rightarrow> HiveKey option outcome" where
  "NewKey L gen keyType =
     (if keyType = KeyTypeUnknown then Returns None
      else and_then (IHiveKey_Initialize L gen keyType) (\<lambda>k. Returns (Some k)))"

text \<open>The error of \<open>ImportPrivate\<close> is dropped.\<close>

definition NewKeyFromEnc :: "crypto_lib \<Rightarrow> keygen \<Rightarrow> string \<Rightarrow> HiveKey option outcome" where
  "NewKeyFromEnc L gen privEnc =
     (let keyType = DetermineKeyType L privEnc
      in if keyType = KeyTypeUnknown then Returns None
         else and_then (NewKey L gen keyType)
                (\<lambda>key. case key of
                   None \<Rightarrow> Panics NilDereference
                 | Some k \<Rightarrow> Returns (Some (snd (IHiveKey_ImportPrivate L privEnc k)))))"

definition NewKeyFromFile :: "crypto_lib \<Rightarrow> keygen \<Rightarrow> filesys \<Rightarrow> string \<Rightarrow> (HiveKey option \<times> go_error option) outcome" where
  "NewKeyFromFile L gen fs keyPath =
     (case os_ReadFile fs keyPath of
        Inl e \<Rightarrow> Returns (None, Some e)
      | Inr keyEnc \<Rightarrow>
          and_then (NewKeyFromEnc L gen keyEnc)
            (\<lambda>k. Returns (k, if k = None then Some ErrKeyFormat else None)))"

end
