(* ===== verification/KeysProps.thy ===== *)
theory KeysProps
  imports Keys
begin

text \<open>
  Properties of the keys: the contract of \<open>IHiveKey\<close> as a locale with an interpretation for each
  key type, the round trip of a key through its encoding, and what \<open>NewKeyFromEnc\<close> does with an
  encoding that it recognises and cannot import.
\<close>

section \<open>Documented behaviour of the cryptographic packages\<close>

definition pkcs8_ok :: "crypto_lib \<Rightarrow> privkey \<Rightarrow> bool" where
  "pkcs8_ok L p \<longleftrightarrow> (\<exists>b e1 e2. cy_MarshalPKCS8 L p = Inr b \<and> cy_ParsePKCS8 L b = Inr p
     \<and> cy_ParsePKCS1 L b = Inl e1 \<and> cy_ParsePKIX L b = Inl e2)"

definition nkey_ok :: "crypto_lib \<Rightarrow> privkey \<Rightarrow> bool" where
  "nkey_ok L p \<longleftrightarrow> (\<exists>s. nk_Seed L p = Inr s \<and> nk_FromSeed L s = None \<and> nk_ParseDecorated L s = Inr p
     \<and> cy_pem_Decode L s = None)"

definition crypto_ok :: "crypto_lib \<Rightarrow> bool" where
  "crypto_ok L \<longleftrightarrow>
     (\<forall>t b. cy_pem_Decode L (cy_pem_Encode L t b) = Some b)
     \<and> (\<forall>x. pkcs8_ok L (RsaPriv x) \<and> pkcs8_ok L (EcdsaPriv x) \<and> nkey_ok L (NKeyPair x))
     \<and> (\<forall>x. (\<exists>y. cy_Public L (RsaPriv x) = RsaPub y) \<and> (\<exists>y. cy_Public L (EcdsaPriv x) = EcdsaPub y))
     \<and> (\<forall>p h s. cy_Sign L p h = Inr s \<longrightarrow> cy_Verify L (cy_Public L p) h s)
     \<and> (\<forall>p h s. nk_Sign L p h = Inr s \<longrightarrow> nk_Verify L p h s)
     \<and> (\<forall>x. nk_PublicKey L (NKeyPair x) \<noteq> [])"

lemma crypto_okD:
  assumes "crypto_ok L"
  shows "cy_pem_Decode L (cy_pem_Encode L t b) = Some b"
    and "pkcs8_ok L (RsaPriv x)" and "pkcs8_ok L (EcdsaPriv x)" and "nkey_ok L (NKeyPair x)"
    and "\<exists>y. cy_Public L (RsaPriv x) = RsaPub y" and "\<exists>y. cy_Public L (EcdsaPriv x) = EcdsaPub y"
    and "cy_Sign L p h = Inr s \<Longrightarrow> cy_Verify L (cy_Public L p) h s"
    and "nk_Sign L p h = Inr s \<Longrightarrow> nk_Verify L p h s"
    and "nk_PublicKey L (NKeyPair x) \<noteq> []"
  using assms by (auto simp: crypto_ok_def)

text \<open>A generator gives native keys of the type that was asked for.\<close>

definition keygen_ok :: "keygen \<Rightarrow> bool" where
  "keygen_ok gen \<longleftrightarrow> (\<exists>x y z. gen KeyTypeRSA = Some (RsaPriv x) \<and> gen KeyTypeECDSA = Some (EcdsaPriv y)
     \<and> gen KeyTypeNKey = Some (NKeyPair z))"

section \<open>The contract of a key type\<close>

definition complete_key :: "crypto_lib \<Rightarrow> KeyType \<Rightarrow> privkey \<Rightarrow> pubkey \<Rightarrow> HiveKey" where
  "complete_key L ty p q = \<lparr>hk_type = ty, hk_priv = Some p, hk_pub = Some q\<rparr>"

locale hive_key =
  fixes kind :: KeyType
    and wf_key :: "crypto_lib \<Rightarrow> HiveKey \<Rightarrow> bool"
    and export_priv :: "crypto_lib \<Rightarrow> HiveKey \<Rightarrow> string outcome"
    and import_priv :: "crypto_lib \<Rightarrow> string \<Rightarrow> HiveKey \<Rightarrow> go_error option \<times> HiveKey"
    and sign :: "crypto_lib \<Rightarrow> HiveKey \<Rightarrow> string \<Rightarrow> (go_error + string) outcome"
    and verify :: "crypto_lib \<Rightarrow> HiveKey \<Rightarrow> string \<Rightarrow> string \<Rightarrow> bool outcome"
  assumes kind_known: "kind \<noteq> KeyTypeUnknown"
    and dispatch_export: "hk_type k = kind \<Longrightarrow> IHiveKey_ExportPrivate L k = export_priv L k"
    and dispatch_import: "hk_type k = kind \<Longrightarrow> IHiveKey_ImportPrivate L s k = import_priv L s k"
    and wf_kind: "wf_key L k \<Longrightarrow> hk_type k = kind"
    and export_returns: "crypto_ok L \<Longrightarrow> wf_key L k \<Longrightarrow> \<exists>s. export_priv L k = Returns s"
    and import_export: "crypto_ok L \<Longrightarrow> wf_key L k \<Longrightarrow> export_priv L k = Returns s \<Longrightarrow> hk_type k' = kind
        \<Longrightarrow> import_priv L s k' = (None, k)"
    and determine: "crypto_ok L \<Longrightarrow> wf_key L k \<Longrightarrow> export_priv L k = Returns s \<Longrightarrow> DetermineKeyType L s = kind"
    and sign_verify: "crypto_ok L \<Longrightarrow> wf_key L k \<Longrightarrow> sign L k m = Returns (Inr sg)
        \<Longrightarrow> verify L k m sg = Returns True"
    and initialize_wf: "crypto_ok L \<Longrightarrow> keygen_ok gen
        \<Longrightarrow> \<exists>k. IHiveKey_Initialize L gen kind = Returns k \<and> wf_key L k"
begin

text \<open>An exported key is loaded again as the same key, whatever keys the generator makes.\<close>

lemma reload:
  assumes L: "crypto_ok L" "keygen_ok gen" and k: "wf_key L k"
  shows "\<exists>s. IHiveKey_ExportPrivate L k = Returns s \<and> NewKeyFromEnc L gen s = Returns (Some k)"
proof -
  obtain s where s: "export_priv L k = Returns s" using export_returns [OF L(1) k] by blast
  obtain k0 where k0: "IHiveKey_Initialize L gen kind = Returns k0" "hk_type k0 = kind"
    using initialize_wf [OF L] wf_kind by blast
  have "IHiveKey_ImportPrivate L s k0 = (None, k)"
    using import_export [OF L(1) k s k0(2)] k0(2) by (simp add: dispatch_import)
  then have "NewKeyFromEnc L gen s = Returns (Some k)"
    using k0 kind_known determine [OF L(1) k s] by (simp add: NewKeyFromEnc_def NewKey_def)
  then show ?thesis using s k by (simp add: dispatch_export wf_kind)
qed

text \<open>A copy of the key that was imported from its encoding verifies the key's signatures.\<close>

lemma imported_verifies:
  assumes "crypto_ok L" "wf_key L k" "export_priv L k = Returns s" "hk_type k' = kind"
    "sign L k m = Returns (Inr sg)"
  shows "verify L (snd (import_priv L s k')) m sg = Returns True"
  using import_export [OF assms(1-4)] sign_verify [OF assms(1,2,5)] by simp

end

definition wf_nkey :: "crypto_lib \<Rightarrow> HiveKey \<Rightarrow> bool" where
  "wf_nkey L k \<longleftrightarrow> (\<exists>x. k = complete_key L KeyTypeNKey (NKeyPair x) (NKeyPub (nk_PublicKey L (NKeyPair x))))"

definition wf_rsa :: "crypto_lib \<Rightarrow> HiveKey \<Rightarrow> bool" where
  "wf_rsa L k \<longleftrightarrow> (\<exists>x. k = complete_key L KeyTypeRSA (RsaPriv x) (cy_Public L (RsaPriv x)))"

definition wf_ecdsa :: "crypto_lib \<Rightarrow> HiveKey \<Rightarrow> bool" where
  "wf_ecdsa L k \<longleftrightarrow> (\<exists>x. k = complete_key L KeyTypeECDSA (EcdsaPriv x) (cy_Public L (EcdsaPriv x)))"

text \<open>Exporting and importing PEM: shared by RSA and ECDSA keys.\<close>

lemma pem_export:
  assumes "crypto_ok L" "pkcs8_ok L p" "hk_priv k = Some p"
  shows "\<exists>s b. RsaKey_ExportPrivate L k = Returns s \<and> RsaKey_importDer L s = (b, None)
     \<and> cy_ParsePKCS8 L b = Inr p"
  using assms by (auto simp: pkcs8_ok_def RsaKey_ExportPrivate_def RsaKey_importDer_def crypto_okD(1))

lemma pem_determine:
  assumes "crypto_ok L" "pkcs8_ok L p" "hk_priv k = Some p" "RsaKey_ExportPrivate L k = Returns s"
  shows "DetermineKeyType L s =
     (case p of EcdsaPriv _ \<Rightarrow> KeyTypeECDSA | RsaPriv _ \<Rightarrow> KeyTypeRSA | _ \<Rightarrow> KeyTypeUnknown)"
  using assms by (auto simp: pkcs8_ok_def RsaKey_ExportPrivate_def DetermineKeyType_def crypto_okD(1) split: privkey.splits)

lemmas key_op_defs = complete_key_def IHiveKey_ExportPrivate_def IHiveKey_ImportPrivate_def IHiveKey_Initialize_def

interpretation nkey: hive_key KeyTypeNKey wf_nkey NKeysKey_ExportPrivate NKeysKey_ImportPrivate NKeysKey_Sign NKeysKey_Verify
proof
  fix L k s and k' :: HiveKey
  assume "crypto_ok L" "wf_nkey L k"
  then obtain x t where k: "k = complete_key L KeyTypeNKey (NKeyPair x) (NKeyPub (nk_PublicKey L (NKeyPair x)))"
      and t: "nk_Seed L (NKeyPair x) = Inr t" "nk_FromSeed L t = None" "nk_ParseDecorated L t = Inr (NKeyPair x)"
        "cy_pem_Decode L t = None"
    using crypto_okD(4) [of L] unfolding wf_nkey_def nkey_ok_def by metis
  then have ex: "NKeysKey_ExportPrivate L k = Returns t"
    by (simp add: NKeysKey_ExportPrivate_def complete_key_def)
  then show "\<exists>s. NKeysKey_ExportPrivate L k = Returns s" ..
  assume "NKeysKey_ExportPrivate L k = Returns s"
  with ex have [simp]: "s = t" by simp
  from t show "DetermineKeyType L s = KeyTypeNKey" by (simp add: DetermineKeyType_def)
  assume "hk_type k' = KeyTypeNKey"
  with k t show "NKeysKey_ImportPrivate L s k' = (None, k)"
    by (simp add: NKeysKey_ImportPrivate_def complete_key_def)
qed (auto simp: key_op_defs wf_nkey_def keygen_ok_def NKeysKey_Sign_def NKeysKey_Verify_def crypto_okD(8))

interpretation rsa: hive_key KeyTypeRSA wf_rsa RsaKey_ExportPrivate RsaKey_ImportPrivate RsaKey_Sign RsaKey_Verify
proof
  fix L k s m sg and k' :: HiveKey
  assume L: "crypto_ok L" and "wf_rsa L k"
  then obtain x y where k: "k = complete_key L KeyTypeRSA (RsaPriv x) (cy_Public L (RsaPriv x))"
      and y: "cy_Public L (RsaPriv x) = RsaPub y"
    using crypto_okD(5) [OF L] unfolding wf_rsa_def by metis
  obtain t b where t: "RsaKey_ExportPrivate L k = Returns t" "RsaKey_importDer L t = (b, None)"
      "cy_ParsePKCS8 L b = Inr (RsaPriv x)"
    using pem_export [OF L crypto_okD(2) [OF L], of k x] k by (auto simp: complete_key_def)
  then show "\<exists>s. RsaKey_ExportPrivate L k = Returns s" by blast
  show "RsaKey_Sign L k m = Returns (Inr sg) \<Longrightarrow> RsaKey_Verify L k m sg = Returns True"
    using k y crypto_okD(7) [OF L, of "RsaPriv x"]
    by (auto simp: RsaKey_Sign_def RsaKey_Verify_def complete_key_def split: sum.splits)
  assume s: "RsaKey_ExportPrivate L k = Returns s"
  show "DetermineKeyType L s = KeyTypeRSA"
    using pem_determine [OF L crypto_okD(2) [OF L] _ s] k by (simp add: complete_key_def)
  assume "hk_type k' = KeyTypeRSA"
  with k t s show "RsaKey_ImportPrivate L s k' = (None, k)"
    by (simp add: RsaKey_ImportPrivate_def complete_key_def)
qed (auto simp: key_op_defs wf_rsa_def keygen_ok_def)

interpretation ecdsa: hive_key KeyTypeECDSA wf_ecdsa RsaKey_ExportPrivate EcdsaKey_ImportPrivate EcdsaKey_Sign EcdsaKey_Verify
proof
  fix L k s m sg and k' :: HiveKey
  assume L: "crypto_ok L" and "wf_ecdsa L k"
  then obtain x y where k: "k = complete_key L KeyTypeECDSA (EcdsaPriv x) (cy_Public L (EcdsaPriv x))"
      and y: "cy_Public L (EcdsaPriv x) = EcdsaPub y"
    using crypto_okD(6) [OF L] unfolding wf_ecdsa_def by metis
  obtain t b where t: "RsaKey_ExportPrivate L k = Returns t" "RsaKey_importDer L t = (b, None)"
      "cy_ParsePKCS8 L b = Inr (EcdsaPriv x)"
    using pem_export [OF L crypto_okD(3) [OF L], of k x] k by (auto simp: complete_key_def)
  then show "\<exists>s. RsaKey_ExportPrivate L k = Returns s" by blast
  show "EcdsaKey_Sign L k m = Returns (Inr sg) \<Longrightarrow> EcdsaKey_Verify L k m sg = Returns True"
    using k y crypto_okD(7) [OF L, of "EcdsaPriv x"]
    by (auto simp: EcdsaKey_Sign_def EcdsaKey_Verify_def complete_key_def)
  assume s: "RsaKey_ExportPrivate L k = Returns s"
  show "DetermineKeyType L s = KeyTypeECDSA"
    using pem_determine [OF L crypto_okD(3) [OF L] _ s] k by (simp add: complete_key_def)
  assume "hk_type k' = KeyTypeECDSA"
  with k t s show "EcdsaKey_ImportPrivate L s k' = (None, k)"
    by (simp add: EcdsaKey_ImportPrivate_def complete_key_def)
qed (auto simp: key_op_defs wf_ecdsa_def keygen_ok_def)

section \<open>Round trips and failures\<close>

lemma initialize_wf_cases:
  assumes "crypto_ok L" "keygen_ok gen" "ty \<noteq> KeyTypeUnknown" "IHiveKey_Initialize L gen ty = Returns k"
  shows "wf_nkey L k \<or> wf_rsa L k \<or> wf_ecdsa L k"
  using assms nkey.initialize_wf rsa.initialize_wf ecdsa.initialize_wf by (cases ty) fastforce+

text \<open>
  C31. A key of any type that was generated can be exported, and loading the exported text (in
  another process, with another source of random keys) gives back the same key.
\<close>
theorem key_encoding_roundtrip:
  assumes "crypto_ok L" "keygen_ok gen" "keygen_ok gen'" "ty \<noteq> KeyTypeUnknown"
    "IHiveKey_Initialize L gen ty = Returns k"
  shows "\<exists>s. IHiveKey_ExportPrivate L k = Returns s \<and> NewKeyFromEnc L gen' s = Returns (Some k)"
  using initialize_wf_cases [OF assms(1,2,4,5)] nkey.reload [OF assms(1,3)] rsa.reload [OF assms(1,3)]
    ecdsa.reload [OF assms(1,3)] by blast

text \<open>
  A key file whose type is recognised and that cannot be imported as a private key (the
  file of a public key, an RSA key in PKCS1 form, the seed of an nkey that is not a user) is
  loaded without an error as a key that has just been generated.
\<close>
lemma unimportable_key_file_gives_new_key:
  assumes onfile: "fs keyPath = Some enc"
    and ty: "DetermineKeyType L enc \<noteq> KeyTypeUnknown" and k0: "IHiveKey_Initialize L gen (DetermineKeyType L enc) = Returns k0"
    and bad: "fst (IHiveKey_ImportPrivate L enc k0) \<noteq> None"
  shows "NewKeyFromFile L gen fs keyPath = Returns (Some k0, None)"
proof -
  have "snd (IHiveKey_ImportPrivate L enc k0) = k0"
    using bad by (auto simp: IHiveKey_ImportPrivate_def NKeysKey_ImportPrivate_def RsaKey_ImportPrivate_def
      EcdsaKey_ImportPrivate_def split: KeyType.splits sum.splits privkey.splits)
  then have "NewKeyFromEnc L gen enc = Returns (Some k0)"
    using ty k0 by (simp add: NewKeyFromEnc_def NewKey_def)
  then show ?thesis using onfile by (simp add: NewKeyFromFile_def os_ReadFile_def)
qed

text \<open>An nkey made from an existing key pair cannot export its public key.\<close>

lemma nkey_from_private_no_export: "IHiveKey_ExportPublic L (NewNKeysKeyFromPrivate L p) = Panics TypeAssertion"
  by (simp add: IHiveKey_ExportPublic_def NewNKeysKeyFromPrivate_def NKeysKey_ExportPublic_def)

text \<open>An nkey that only has a public key panics when it is asked to verify a signature.\<close>

lemma nkey_public_only_verify:
  "hk_priv k = None \<Longrightarrow> NKeysKey_Verify L (snd (NKeysKey_ImportPublic L pubEnc k)) msg sg = Panics TypeAssertion"
  by (simp add: NKeysKey_Verify_def NKeysKey_ImportPublic_def)

text \<open>A failed import of a public key loses the key that was there.\<close>

lemma failed_public_import_clears:
  "cy_ParsePKIX L (fst (RsaKey_importDer L pem)) = Inl e
     \<Longrightarrow> hk_pub (snd (EcdsaKey_ImportPublic L pem k)) = None \<and> hk_priv (snd (EcdsaKey_ImportPublic L pem k)) = None"
  by (simp add: EcdsaKey_ImportPublic_def)

subsection \<open>A library that has the documented behaviour\<close>

fun tag :: "string \<Rightarrow> string \<Rightarrow> string option" where
  "tag [] s = Some s"
| "tag (t # ts) [] = None"
| "tag (t # ts) (c # cs) = (if c = t then tag ts cs else None)"

lemma tag_append [simp]: "tag t (t @ s) = Some s"
  by (induction t) auto

definition demo_pkcs8 :: "string \<Rightarrow> go_error + privkey" where
  "demo_pkcs8 b = (case tag ''8R'' b of Some x \<Rightarrow> Inr (RsaPriv x) | None \<Rightarrow>
     (case tag ''8E'' b of Some x \<Rightarrow> Inr (EcdsaPriv x) | None \<Rightarrow> Inl ErrKeyFormat))"

definition demo_pkix :: "string \<Rightarrow> go_error + pubkey" where
  "demo_pkix b = (case tag ''XR'' b of Some x \<Rightarrow> Inr (RsaPub x) | None \<Rightarrow>
     (case tag ''XE'' b of Some x \<Rightarrow> Inr (EcdsaPub x) | None \<Rightarrow> Inl ErrKeyFormat))"

definition demo_crypto :: crypto_lib where
  "demo_crypto = \<lparr>cy_pem_Decode = tag ''P'', cy_pem_Encode = (\<lambda>t b. CHR ''P'' # b),
     cy_base64 = (\<lambda>s. (s, None)), cy_ParsePKIX = demo_pkix,
     cy_MarshalPKIX = (\<lambda>p. case p of RsaPub x \<Rightarrow> Inr (''XR'' @ x) | EcdsaPub x \<Rightarrow> Inr (''XE'' @ x) | _ \<Rightarrow> Inl ErrKeyFormat),
     cy_ParsePKCS1 = (\<lambda>b. Inl ErrKeyFormat), cy_ParsePKCS8 = demo_pkcs8,
     cy_MarshalPKCS8 = (\<lambda>p. case p of RsaPriv x \<Rightarrow> Inr (''8R'' @ x) | EcdsaPriv x \<Rightarrow> Inr (''8E'' @ x) | _ \<Rightarrow> Inl ErrKeyFormat),
     cy_Public = (\<lambda>p. case p of RsaPriv x \<Rightarrow> RsaPub x | EcdsaPriv x \<Rightarrow> EcdsaPub x | NKeyPair x \<Rightarrow> OtherPub x | OtherPriv x \<Rightarrow> OtherPub x),
     cy_sha256 = (\<lambda>m. m), cy_Sign = (\<lambda>p h. Inr h), cy_Verify = (\<lambda>p h s. s = h),
     nk_FromSeed = (\<lambda>s. if tag ''S'' s = None then Some ErrKeyFormat else None),
     nk_ParseDecorated = (\<lambda>s. case tag ''SU'' s of Some x \<Rightarrow> Inr (NKeyPair x) | None \<Rightarrow> Inl ErrKeyFormat),
     nk_Seed = (\<lambda>p. case p of NKeyPair x \<Rightarrow> Inr (''SU'' @ x) | _ \<Rightarrow> Inl ErrKeyFormat),
     nk_PublicKey = (\<lambda>p. case p of NKeyPair x \<Rightarrow> CHR ''U'' # x | _ \<Rightarrow> []),
     nk_Sign = (\<lambda>p m. Inr m), nk_Verify = (\<lambda>p m s. s = m)\<rparr>"

lemma demo_crypto_ok: "crypto_ok demo_crypto"
  by (simp add: crypto_ok_def pkcs8_ok_def nkey_ok_def demo_crypto_def demo_pkcs8_def demo_pkix_def)

definition demo_gen :: "string \<Rightarrow> keygen" where
  "demo_gen r ty = (case ty of KeyTypeRSA \<Rightarrow> Some (RsaPriv r) | KeyTypeECDSA \<Rightarrow> Some (EcdsaPriv r)
     | KeyTypeNKey \<Rightarrow> Some (NKeyPair r) | KeyTypeUnknown \<Rightarrow> None)"

lemma demo_gen_ok: "keygen_ok (demo_gen r)"
  by (simp add: keygen_ok_def demo_gen_def)

theorem key_encoding_roundtrip_witness:
  "\<exists>s. IHiveKey_ExportPrivate demo_crypto (complete_key demo_crypto KeyTypeNKey (NKeyPair ''a'') (NKeyPub ''Ua'')) = Returns s
     \<and> NewKeyFromEnc demo_crypto (demo_gen ''b'') s
         = Returns (Some (complete_key demo_crypto KeyTypeNKey (NKeyPair ''a'') (NKeyPub ''Ua'')))"
  by (rule key_encoding_roundtrip [OF demo_crypto_ok demo_gen_ok [of "''a''"] demo_gen_ok, of KeyTypeNKey])
     (simp_all add: IHiveKey_Initialize_def demo_gen_def complete_key_def demo_crypto_def)

text \<open>The witness is a key file with the public key of an RSA key.\<close>

lemma unimportable_key_file_gives_new_key_witness:
  "NewKeyFromFile demo_crypto (demo_gen ''n'') [''k'' \<mapsto> ''PXRold''] ''k''
     = Returns (Some \<lparr>hk_type = KeyTypeRSA, hk_priv = Some (RsaPriv ''n''), hk_pub = Some (RsaPub ''n'')\<rparr>, None)"
proof (rule unimportable_key_file_gives_new_key [where enc = "''PXRold''"])
  have ty: "DetermineKeyType demo_crypto ''PXRold'' = KeyTypeRSA"
    by (simp add: DetermineKeyType_def demo_crypto_def demo_pkix_def)
  then show "DetermineKeyType demo_crypto ''PXRold'' \<noteq> KeyTypeUnknown" by simp
  show "IHiveKey_Initialize demo_crypto (demo_gen ''n'') (DetermineKeyType demo_crypto ''PXRold'')
      = Returns \<lparr>hk_type = KeyTypeRSA, hk_priv = Some (RsaPriv ''n''), hk_pub = Some (RsaPub ''n'')\<rparr>"
    unfolding ty by (simp add: IHiveKey_Initialize_def demo_gen_def demo_crypto_def)
qed (simp_all add: IHiveKey_ImportPrivate_def RsaKey_ImportPrivate_def RsaKey_importDer_def demo_crypto_def demo_pkcs8_def)

end
