(* ===== verification/Certs.thy ===== *)
theory Certs
  imports KeysProps
begin

text \<open>
  Model of \<open>done_tool/certs\<close>: creating the CA, server and client certificates, the PEM form of a
  certificate and its files, and the verification of a client certificate. An \<open>x509.Certificate\<close> is a
  record of the fields that the code sets or reads; it serves as template and as parsed certificate, as
  in Go. The DER encoding and the signature are the record \<open>x509_lib\<close>; \<open>Certificate.Verify\<close> is
  written out for a pool of root certificates without intermediates, which is all that the code uses.
  Times are nanoseconds since 1970.
\<close>

section \<open>Certificates\<close>

record pkix_name =
  pn_Country :: "string list"
  pn_Province :: "string list"
  pn_Locality :: "string list"
  pn_Organization :: "string list"
  pn_OrganizationalUnit :: "string list"
  pn_CommonName :: string

datatype key_usage = KeyUsageDigitalSignature | KeyUsageKeyEncipherment | KeyUsageDataEncipherment
  | KeyUsageCertSign | KeyUsageCRLSign

datatype ext_key_usage = ExtKeyUsageAny | ExtKeyUsageServerAuth | ExtKeyUsageClientAuth

record x509_cert =
  x_Raw :: string
  x_SerialNumber :: int
  x_Issuer :: pkix_name
  x_Subject :: pkix_name
  x_NotBefore :: int
  x_NotAfter :: int
  x_KeyUsage :: "key_usage list"       \<comment> \<open>the bits that are set\<close>
  x_ExtKeyUsage :: "ext_key_usage list"
  x_BasicConstraintsValid :: bool
  x_IsCA :: bool
  x_MaxPathLen :: int
  x_MaxPathLenZero :: bool
  x_IPAddresses :: "string list"
  x_DNSNames :: "string list"
  x_PublicKey :: "pubkey option"

definition zero_name :: pkix_name where
  "zero_name = \<lparr>pn_Country = [], pn_Province = [], pn_Locality = [], pn_Organization = [],
     pn_OrganizationalUnit = [], pn_CommonName = []\<rparr>"

text \<open>The zero value, of which a template sets some fields.\<close>

definition zero_cert :: x509_cert where
  "zero_cert = \<lparr>x_Raw = [], x_SerialNumber = 0, x_Issuer = zero_name, x_Subject = zero_name, x_NotBefore = 0,
     x_NotAfter = 0, x_KeyUsage = [], x_ExtKeyUsage = [], x_BasicConstraintsValid = False, x_IsCA = False,
     x_MaxPathLen = 0, x_MaxPathLenZero = False, x_IPAddresses = [], x_DNSNames = [], x_PublicKey = None\<rparr>"

text \<open>\<open>x5_AddDays\<close> is \<open>Time.AddDate(0, 0, days)\<close>, which depends on the local time zone.\<close>

record x509_lib =
  x5_CreateCertificate :: "x509_cert \<Rightarrow> x509_cert \<Rightarrow> pubkey option \<Rightarrow> privkey option \<Rightarrow> go_error + string"
  x5_ParseCertificate :: "string \<Rightarrow> go_error + x509_cert"
  x5_SignatureOK :: "x509_cert \<Rightarrow> pubkey \<Rightarrow> bool"
  x5_ParseIP :: "string \<Rightarrow> string option"
  x5_AddDays :: "int \<Rightarrow> int \<Rightarrow> int"

abbreviation second :: int where "second \<equiv> 1000000000"

definition time_Unix :: "int \<Rightarrow> int" where
  "time_Unix now = now div second"

section \<open>Certificate.Verify\<close>

text \<open>An error of the library by its text.\<close>

abbreviation ErrCertExpired :: go_error where
  "ErrCertExpired \<equiv> ErrLib ''x509: certificate has expired or is not yet valid''"
abbreviation ErrUnknownAuthority :: go_error where
  "ErrUnknownAuthority \<equiv> ErrLib ''x509: certificate signed by unknown authority''"
abbreviation ErrKeyUsage :: go_error where
  "ErrKeyUsage \<equiv> ErrLib ''x509: certificate specifies an incompatible key usage''"

definition cert_in_time :: "int \<Rightarrow> x509_cert \<Rightarrow> bool" where
  "cert_in_time now c \<longleftrightarrow> x_NotBefore c \<le> now \<and> now \<le> x_NotAfter c"

text \<open>\<open>CheckSignatureFrom\<close> of a potential parent, which is one with the issuer's name.\<close>

definition signed_by :: "x509_lib \<Rightarrow> x509_cert \<Rightarrow> x509_cert \<Rightarrow> bool" where
  "signed_by X c root \<longleftrightarrow> x_Issuer c = x_Subject root \<and> x_BasicConstraintsValid root \<and> x_IsCA root
     \<and> (x_KeyUsage root = [] \<or> KeyUsageCertSign \<in> set (x_KeyUsage root))
     \<and> (case x_PublicKey root of None \<Rightarrow> False | Some pk \<Rightarrow> x5_SignatureOK X c pk)"

definition usage_allowed :: "ext_key_usage \<Rightarrow> x509_cert \<Rightarrow> bool" where
  "usage_allowed u c \<longleftrightarrow> x_ExtKeyUsage c = [] \<or> ExtKeyUsageAny \<in> set (x_ExtKeyUsage c) \<or> u \<in> set (x_ExtKeyUsage c)"

definition cert_chains :: "x509_lib \<Rightarrow> int \<Rightarrow> x509_cert list \<Rightarrow> x509_cert \<Rightarrow> x509_cert list list" where
  "cert_chains X now roots c =
     (if list_ex (\<lambda>r. x_Raw r = x_Raw c) roots then [[c]]
      else map (\<lambda>r. [c, r]) (filter (\<lambda>r. signed_by X c r \<and> cert_in_time now r) roots))"

definition cert_Verify :: "x509_lib \<Rightarrow> int \<Rightarrow> x509_cert list \<Rightarrow> ext_key_usage list \<Rightarrow> x509_cert \<Rightarrow> go_error option" where
  "cert_Verify X now roots usages c =
     (if \<not> cert_in_time now c then Some ErrCertExpired
      else if cert_chains X now roots c = [] then Some ErrUnknownAuthority
      else if list_ex (\<lambda>chain. list_ex (\<lambda>u. list_all (usage_allowed u) chain) usages) (cert_chains X now roots c) then None
      else Some ErrKeyUsage)"

section \<open>PEM\<close>

definition X509CertFromPEM :: "crypto_lib \<Rightarrow> x509_lib \<Rightarrow> string \<Rightarrow> go_error + x509_cert" where
  "X509CertFromPEM L X certPEM =
     (case cy_pem_Decode L certPEM of
        None \<Rightarrow> Inl (ErrLib ''pem.Decode failed'')
      | Some bytes \<Rightarrow> x5_ParseCertificate X bytes)"

definition X509CertToPEM :: "crypto_lib \<Rightarrow> x509_cert \<Rightarrow> string" where
  "X509CertToPEM L cert = cy_pem_Encode L ''CERTIFICATE'' (x_Raw cert)"

definition LoadX509CertFromPEM :: "crypto_lib \<Rightarrow> x509_lib \<Rightarrow> filesys \<Rightarrow> string \<Rightarrow> go_error + x509_cert" where
  "LoadX509CertFromPEM L X fs pemPath =
     (case os_ReadFile fs pemPath of
        Inl err \<Rightarrow> Inl err
      | Inr pemEncoded \<Rightarrow> X509CertFromPEM L X pemEncoded)"

text \<open>The existing file is removed first, as it has no write permission. The errors are those of the two calls.\<close>

definition SaveX509CertToPEM ::
  "crypto_lib \<Rightarrow> go_error option \<Rightarrow> go_error option \<Rightarrow> x509_cert \<Rightarrow> string \<Rightarrow> filesys \<Rightarrow> go_error option \<times> filesys" where
  "SaveX509CertToPEM L rmErr wrErr cert pemPath fs =
     os_WriteFile wrErr pemPath (X509CertToPEM L cert) (os_Remove rmErr pemPath fs)"

definition PublicKeyFromCert :: "x509_cert \<Rightarrow> pubkey option" where
  "PublicKeyFromCert cert =
     (case x_PublicKey cert of Some (EcdsaPub x) \<Rightarrow> Some (EcdsaPub x) | _ \<Rightarrow> None)"

record tls_cert =
  tc_Certificate :: "string list"
  tc_PrivateKey :: "privkey option"

definition X509CertToTLS :: "x509_cert \<Rightarrow> HiveKey \<Rightarrow> tls_cert" where
  "X509CertToTLS cert privKey = \<lparr>tc_Certificate = [x_Raw cert], tc_PrivateKey = hk_priv privKey\<rparr>"

section \<open>Creating certificates\<close>

text \<open>The certificate that was made and parsed, or the error of either call.\<close>

definition create_and_parse ::
  "x509_lib \<Rightarrow> x509_cert \<Rightarrow> x509_cert \<Rightarrow> pubkey option \<Rightarrow> privkey option \<Rightarrow> go_error + x509_cert" where
  "create_and_parse X template parent pub priv =
     (case x5_CreateCertificate X template parent pub priv of
        Inl err \<Rightarrow> Inl err
      | Inr der \<Rightarrow> x5_ParseCertificate X der)"

definition CA_template :: "x509_lib \<Rightarrow> int \<Rightarrow> string \<Rightarrow> int \<Rightarrow> x509_cert" where
  "CA_template X now cn validityDays = zero_cert
     \<lparr>x_SerialNumber := time_Unix now - 1,
      x_Subject := \<lparr>pn_Country = [''CA''], pn_Province = [''BC''], pn_Locality = [''HiveOT zone''],
         pn_Organization = [''HiveOT''], pn_OrganizationalUnit = [], pn_CommonName = cn\<rparr>,
      x_NotBefore := now - 3 * second, x_NotAfter := x5_AddDays X now validityDays,
      x_KeyUsage := [KeyUsageCertSign, KeyUsageDigitalSignature, KeyUsageCRLSign, KeyUsageDataEncipherment, KeyUsageKeyEncipherment],
      x_ExtKeyUsage := [], x_BasicConstraintsValid := True, x_IsCA := True, x_MaxPathLen := 0, x_MaxPathLenZero := True\<rparr>"

text \<open>
  The errors of creating and parsing the certificate are logged or dropped: the result is then the nil
  certificate and no error.
\<close>

definition CreateCA :: "crypto_lib \<Rightarrow> x509_lib \<Rightarrow> keygen \<Rightarrow> int \<Rightarrow> string \<Rightarrow> int \<Rightarrow> (x509_cert option \<times> HiveKey) outcome" where
  "CreateCA L X gen now cn validityDays =
     and_then (NewKey L gen KeyTypeECDSA) (\<lambda>key.
       case key of
         None \<Rightarrow> Panics NilDereference
       | Some caKey \<Rightarrow>
           (case (hk_priv caKey, hk_pub caKey) of
              (Some (EcdsaPriv x), Some (EcdsaPub y)) \<Rightarrow>
                let rootTemplate = CA_template X now cn validityDays in
                (case create_and_parse X rootTemplate rootTemplate (Some (EcdsaPub y)) (Some (EcdsaPriv x)) of
                   Inl err \<Rightarrow> Returns (None, caKey)
                 | Inr caCert \<Rightarrow> Returns (Some caCert, caKey))
            | _ \<Rightarrow> Panics TypeAssertion))"

text \<open>The loop over the SAN names.\<close>

fun add_hosts :: "x509_lib \<Rightarrow> string list \<Rightarrow> x509_cert \<Rightarrow> x509_cert" where
  "add_hosts X [] template = template"
| "add_hosts X (h # names) template =
     add_hosts X names
       (case x5_ParseIP X h of
          Some ip \<Rightarrow> template\<lparr>x_IPAddresses := x_IPAddresses template @ [ip]\<rparr>
        | None \<Rightarrow> template\<lparr>x_DNSNames := x_DNSNames template @ [h]\<rparr>)"

abbreviation (input) DefaultServerCertValidityDays :: int where "DefaultServerCertValidityDays \<equiv> 100"
abbreviation (input) DefaultClientCertValidityDays :: int where "DefaultClientCertValidityDays \<equiv> 366"

definition CreateServerCert ::
  "x509_lib \<Rightarrow> int \<Rightarrow> string \<Rightarrow> string \<Rightarrow> int \<Rightarrow> HiveKey option \<Rightarrow> string list \<Rightarrow> x509_cert \<Rightarrow> HiveKey \<Rightarrow> go_error + x509_cert" where
  "CreateServerCert X now serverID ou days serverKey names caCert caKey =
     (case serverKey of
        None \<Rightarrow> Inl ErrMissingCertArg
      | Some sk \<Rightarrow>
          if serverID = [] then Inl ErrMissingCertArg
          else
            (let validityDays = (if days = 0 then DefaultServerCertValidityDays else days);
                 template = zero_cert
                   \<lparr>x_SerialNumber := time_Unix now - 3,
                    x_Subject := \<lparr>pn_Country = [''CA''], pn_Province = [''BC''], pn_Locality = [''local''],
                       pn_Organization = [''hiveot''], pn_OrganizationalUnit = [ou], pn_CommonName = serverID\<rparr>,
                    x_NotBefore := now - second, x_NotAfter := x5_AddDays X now validityDays,
                    x_KeyUsage := [KeyUsageDigitalSignature, KeyUsageDataEncipherment, KeyUsageKeyEncipherment],
                    x_ExtKeyUsage := [ExtKeyUsageServerAuth, ExtKeyUsageClientAuth],
                    x_IsCA := False, x_MaxPathLenZero := True\<rparr>
             in create_and_parse X (add_hosts X (names @ [''127.0.0.1'', ''localhost'']) template) caCert
                  (hk_pub sk) (hk_priv caKey)))"

text \<open>A 64 bit duration: the product of hours and nanoseconds wraps around.\<close>

definition wrap64 :: "int \<Rightarrow> int" where
  "wrap64 x = (x + 2 ^ 63) mod 2 ^ 64 - 2 ^ 63"

text \<open>The validity is computed before the default number of days is set.\<close>

definition CreateClientCert ::
  "x509_lib \<Rightarrow> int \<Rightarrow> string \<Rightarrow> string \<Rightarrow> int \<Rightarrow> HiveKey \<Rightarrow> x509_cert \<Rightarrow> HiveKey \<Rightarrow> go_error + x509_cert" where
  "CreateClientCert X now cn ou validityDays pubKey caCert caKeys =
     (let validity = wrap64 (3600 * second * wrap64 (24 * validityDays));
          template = zero_cert
            \<lparr>x_SerialNumber := time_Unix now - 2,
             x_Subject := \<lparr>pn_Country = [''CA''], pn_Province = [''BC''], pn_Locality = [''local''],
                pn_Organization = [''hiveot''], pn_OrganizationalUnit = [ou], pn_CommonName = cn\<rparr>,
             x_NotBefore := now - 10 * second, x_NotAfter := now + validity,
             x_KeyUsage := [KeyUsageDigitalSignature], x_ExtKeyUsage := [ExtKeyUsageClientAuth],
             x_BasicConstraintsValid := True, x_IsCA := False\<rparr>
      in create_and_parse X template caCert (hk_pub pubKey) (hk_priv caKeys))"

section \<open>VerifyCert.go\<close>

text \<open>The common name of a certificate that could not be parsed is read from a nil pointer.\<close>

definition certs_VerifyCert ::
  "crypto_lib \<Rightarrow> x509_lib \<Rightarrow> int \<Rightarrow> string \<Rightarrow> x509_cert option \<Rightarrow> (string \<times> go_error option) outcome" where
  "certs_VerifyCert L X now certPEM caCert =
     (case caCert of
        None \<Rightarrow> Panics ExplicitPanic
      | Some ca \<Rightarrow>
          (case X509CertFromPEM L X certPEM of
             Inl err \<Rightarrow> Panics NilDereference
           | Inr cert \<Rightarrow>
               let cn = pn_CommonName (x_Subject cert) in
               Returns (cn, if cn = [] then Some ErrNoCommonName
                            else cert_Verify X now [ca] [ExtKeyUsageClientAuth] cert)))"

end
