(* ===== verification/TlsServer.thy ===== *)
theory TlsServer
  imports Certs
begin

text \<open>
  Model of \<open>done_tool/tlsserver\<close>: the authenticators of HTTP requests (client certificate, JWT bearer token
  and basic authentication), the handlers of the TLS server, query parameters and the check of
  origins. The router, the JWT library and the base64 encoding are parameters; a request has the fields that
  the code reads, with the peer certificates that the TLS layer has verified.
\<close>

section \<open>Requests\<close>

record http_request =
  rq_Method :: string
  rq_URL :: string
  rq_Authorization :: string            \<comment> \<open>the header, empty when it is not set\<close>
  rq_Query :: "(string, string list) gomap"
  rq_PeerCertificates :: "x509_cert list"
  rq_Body :: string

text \<open>Base64, and \<open>jwt.ParseWithClaims\<close> with a verification key: whether the token is valid and its user name.\<close>

record http_lib =
  hl_b64_Encode :: "string \<Rightarrow> string"
  hl_b64_Decode :: "string \<Rightarrow> string option"
  hl_jwt_Parse :: "pubkey \<Rightarrow> string \<Rightarrow> go_error + bool \<times> string"

definition lower_char :: "char \<Rightarrow> char" where
  "lower_char c = (if 65 \<le> (of_char c :: nat) \<and> (of_char c :: nat) \<le> 90 then char_of ((of_char c :: nat) + 32) else c)"

definition strings_ToLower :: "string \<Rightarrow> string" where
  "strings_ToLower s = map lower_char s"

text \<open>\<open>http.Request.BasicAuth\<close>: the user name ends at the first colon.\<close>

definition http_BasicAuth :: "http_lib \<Rightarrow> http_request \<Rightarrow> (string \<times> string) option" where
  "http_BasicAuth H req =
     (let auth = rq_Authorization req in
      if strings_ToLower (take 6 auth) \<noteq> ''basic '' then None
      else case hl_b64_Decode H (drop 6 auth) of
        None \<Rightarrow> None
      | Some c \<Rightarrow>
          if CHR '':'' \<in> set c then Some (takeWhile (\<lambda>x. x \<noteq> CHR '':'') c, tl (dropWhile (\<lambda>x. x \<noteq> CHR '':'') c)) else None)"

definition GetBearerToken :: "http_request \<Rightarrow> go_error + string" where
  "GetBearerToken req =
     (if rq_Authorization req = [] then Inl ErrBearerToken
      else case strings_Split (rq_Authorization req) (CHR '' '') of
        [ty, token] \<Rightarrow> if strings_ToLower ty = ''bearer'' then Inr token else Inl ErrBearerToken
      | _ \<Rightarrow> Inl ErrBearerToken)"

section \<open>Authenticators\<close>

text \<open>Each returns the user and whether the request is authenticated.\<close>

definition BasicAuthenticator_AuthenticateRequest ::
  "http_lib \<Rightarrow> (string \<Rightarrow> string \<Rightarrow> bool) \<Rightarrow> http_request \<Rightarrow> string \<times> bool" where
  "BasicAuthenticator_AuthenticateRequest H verifyUsernamePassword req =
     (case http_BasicAuth H req of
        None \<Rightarrow> ([], False)
      | Some (username, password) \<Rightarrow> (username, verifyUsernamePassword username password))"

text \<open>A certificate for a plugin has no user.\<close>

definition CertAuthenticator_AuthenticateRequest :: "http_request \<Rightarrow> string \<times> bool" where
  "CertAuthenticator_AuthenticateRequest req =
     (case rq_PeerCertificates req of
        [] \<Rightarrow> ([], False)
      | cert # _ \<Rightarrow> (if pn_CommonName (x_Subject cert) = ''plugin'' then [] else pn_CommonName (x_Subject cert), True))"

abbreviation OUNone :: string where "OUNone \<equiv> ''unauth''"

definition CertAuthenticator_GetClientOU :: "http_request \<Rightarrow> string" where
  "CertAuthenticator_GetClientOU req =
     (case rq_PeerCertificates req of
        [] \<Rightarrow> OUNone
      | cert # _ \<Rightarrow> (case pn_OrganizationalUnit (x_Subject cert) of [] \<Rightarrow> OUNone | ou # _ \<Rightarrow> ou))"

definition JWTAuthenticator_DecodeToken :: "http_lib \<Rightarrow> pubkey \<Rightarrow> string \<Rightarrow> go_error + string" where
  "JWTAuthenticator_DecodeToken H publicKey tokenString =
     (case hl_jwt_Parse H publicKey tokenString of
        Inl err \<Rightarrow> Inl (ErrInvalidJWT tokenString)
      | Inr (valid, username) \<Rightarrow> if valid then Inr username else Inl (ErrInvalidJWT tokenString))"

definition JWTAuthenticator_AuthenticateRequest :: "http_lib \<Rightarrow> pubkey \<Rightarrow> http_request \<Rightarrow> string \<times> bool" where
  "JWTAuthenticator_AuthenticateRequest H publicKey req =
     (case GetBearerToken req of
        Inl _ \<Rightarrow> ([], False)
      | Inr token \<Rightarrow> (case JWTAuthenticator_DecodeToken H publicKey token of Inl _ \<Rightarrow> ([], False) | Inr user \<Rightarrow> (user, True)))"

record HttpAuthenticator =
  ha_CertAuth :: bool
  ha_JwtAuth :: "pubkey option"
  ha_BasicAuth :: "(string \<Rightarrow> string \<Rightarrow> bool) option"

definition NewHttpAuthenticator :: HttpAuthenticator where
  "NewHttpAuthenticator = \<lparr>ha_CertAuth = True, ha_JwtAuth = None, ha_BasicAuth = None\<rparr>"

definition HttpAuthenticator_EnableBasicAuth :: "(string \<Rightarrow> string \<Rightarrow> bool) \<Rightarrow> HttpAuthenticator \<Rightarrow> HttpAuthenticator" where
  "HttpAuthenticator_EnableBasicAuth validateCredentials ha = ha\<lparr>ha_BasicAuth := Some validateCredentials\<rparr>"

definition HttpAuthenticator_EnableJwtAuth :: "pubkey \<Rightarrow> HttpAuthenticator \<Rightarrow> HttpAuthenticator" where
  "HttpAuthenticator_EnableJwtAuth verificationKey ha = ha\<lparr>ha_JwtAuth := Some verificationKey\<rparr>"

text \<open>The certificate, the token and the password, in this order. Without a match the user is that of the last one tried.\<close>

definition HttpAuthenticator_AuthenticateRequest :: "http_lib \<Rightarrow> HttpAuthenticator \<Rightarrow> http_request \<Rightarrow> string \<times> bool" where
  "HttpAuthenticator_AuthenticateRequest H ha req =
     (let r0 = ([], False);
          r1 = (if ha_CertAuth ha then CertAuthenticator_AuthenticateRequest req else r0);
          r2 = (case ha_JwtAuth ha of None \<Rightarrow> r1 | Some k \<Rightarrow> if snd r1 then r1 else JWTAuthenticator_AuthenticateRequest H k req);
          r3 = (case ha_BasicAuth ha of None \<Rightarrow> r2 | Some v \<Rightarrow> if snd r2 then r2 else BasicAuthenticator_AuthenticateRequest H v req)
      in r3)"

section \<open>The server\<close>

datatype http_response =
    HttpStatus nat string            \<comment> \<open>an error status and its message\<close>
  | HttpBody string                  \<comment> \<open>200 with a body\<close>

definition WriteBadRequest :: "string \<Rightarrow> http_response" where "WriteBadRequest errMsg = HttpStatus 400 errMsg"
definition WriteUnauthorized :: "string \<Rightarrow> http_response" where "WriteUnauthorized errMsg = HttpStatus 401 errMsg"
definition WriteForbidden :: "string \<Rightarrow> http_response" where "WriteForbidden errMsg = HttpStatus 403 errMsg"
definition WriteNotFound :: "string \<Rightarrow> http_response" where "WriteNotFound errMsg = HttpStatus 404 errMsg"
definition WriteInternalError :: "string \<Rightarrow> http_response" where "WriteInternalError errMsg = HttpStatus 500 errMsg"
definition WriteNotImplemented :: "string \<Rightarrow> http_response" where "WriteNotImplemented errMsg = HttpStatus 501 errMsg"

type_synonym 'st http_handler = "http_request \<Rightarrow> 'st \<Rightarrow> http_response \<times> 'st"

record 'st TLSServer =
  ts_address :: string
  ts_port :: nat
  ts_caCert :: "x509_cert option"
  ts_serverCert :: "tls_cert option"
  ts_routes :: "(string \<times> (HttpAuthenticator \<Rightarrow> 'st http_handler)) list"
  ts_authenticator :: HttpAuthenticator

definition NewTLSServer :: "string \<Rightarrow> nat \<Rightarrow> tls_cert option \<Rightarrow> x509_cert option \<Rightarrow> 'st TLSServer" where
  "NewTLSServer address port serverCert caCert =
     \<lparr>ts_address = address, ts_port = port, ts_caCert = caCert, ts_serverCert = serverCert, ts_routes = [],
      ts_authenticator = NewHttpAuthenticator\<rparr>"

text \<open>
  The function that \<open>AddHandler\<close> registers. It uses the authenticator of the server at the time of the
  request. The text of the message names the path, the user and the address of the client.
\<close>

definition authenticated_handler ::
  "http_lib \<Rightarrow> string \<Rightarrow> (string \<Rightarrow> 'st http_handler) \<Rightarrow> HttpAuthenticator \<Rightarrow> 'st http_handler" where
  "authenticated_handler H path handler ha req st =
     (if rq_Method req = ''OPTIONS'' then (HttpBody [], st)
      else case HttpAuthenticator_AuthenticateRequest H ha req of
        (userID, False) \<Rightarrow> (WriteForbidden (''TLSServer.HandleFunc '' @ path @ '': User '' @ userID @ '' is unauthorized''), st)
      | (userID, True) \<Rightarrow> handler userID req st)"

definition TLSServer_AddHandler ::
  "http_lib \<Rightarrow> string \<Rightarrow> (string \<Rightarrow> 'st http_handler) \<Rightarrow> 'st TLSServer \<Rightarrow> 'st TLSServer" where
  "TLSServer_AddHandler H path handler srv =
     srv\<lparr>ts_routes := ts_routes srv @ [(path, authenticated_handler H path handler)]\<rparr>"

definition TLSServer_AddHandlerNoAuth :: "string \<Rightarrow> 'st http_handler \<Rightarrow> 'st TLSServer \<Rightarrow> 'st TLSServer" where
  "TLSServer_AddHandlerNoAuth path handler srv = srv\<lparr>ts_routes := ts_routes srv @ [(path, \<lambda>ha. handler)]\<rparr>"

definition TLSServer_EnableBasicAuth :: "(string \<Rightarrow> string \<Rightarrow> bool) \<Rightarrow> 'st TLSServer \<Rightarrow> 'st TLSServer" where
  "TLSServer_EnableBasicAuth v srv = srv\<lparr>ts_authenticator := HttpAuthenticator_EnableBasicAuth v (ts_authenticator srv)\<rparr>"

text \<open>Without a key the public key of the server certificate's own key is used, which must be an ECDSA key.\<close>

definition TLSServer_EnableJwtAuth :: "crypto_lib \<Rightarrow> pubkey option \<Rightarrow> 'st TLSServer \<Rightarrow> 'st TLSServer outcome" where
  "TLSServer_EnableJwtAuth L verificationKey srv =
     and_then (case verificationKey of
                 Some k \<Rightarrow> Returns k
               | None \<Rightarrow>
                   (case ts_serverCert srv of
                      None \<Rightarrow> Panics NilDereference
                    | Some c \<Rightarrow> (case tc_PrivateKey c of Some (EcdsaPriv x) \<Rightarrow> Returns (cy_Public L (EcdsaPriv x)) | _ \<Rightarrow> Panics TypeAssertion)))
       (\<lambda>k. Returns (srv\<lparr>ts_authenticator := HttpAuthenticator_EnableJwtAuth k (ts_authenticator srv)\<rparr>))"

text \<open>\<open>AllowOriginFunc\<close> of the CORS options.\<close>

definition AllowOriginFunc :: "'st TLSServer \<Rightarrow> string \<Rightarrow> bool" where
  "AllowOriginFunc srv orig \<longleftrightarrow>
     strings_HasPrefix orig ''https://127.0.0.1'' \<or> strings_HasPrefix orig ''https://localhost''
     \<or> strings_HasPrefix orig ''http://127.0.0.1'' \<or> strings_HasPrefix orig ''http://localhost''
     \<or> strings_HasPrefix orig (''https://'' @ ts_address srv)"

text \<open>
  \<open>Start\<close> returns the listening error if there is one within a second. A running server verifies the
  certificate of a client, if the client gives one, with the CA.
\<close>

definition TLSServer_Start :: "go_error option \<Rightarrow> 'st TLSServer \<Rightarrow> go_error option" where
  "TLSServer_Start listenErr srv =
     (if ts_caCert srv = None \<or> ts_serverCert srv = None then Some ErrMissingCertArg else listenErr)"

section \<open>Query parameters\<close>

text \<open>\<open>strconv.ParseInt(s, 10, 32)\<close>: a value out of range is clamped and an error.\<close>

definition strconv_ParseInt32 :: "string \<Rightarrow> int \<times> bool" where
  "strconv_ParseInt32 s =
     (case strconv_ParseInt s of
        (v, err) \<Rightarrow>
          if v > 2147483647 then (2147483647, True)
          else if v < -2147483648 then (-2147483648, True) else (v, err))"

definition TLSServer_GetQueryInt :: "http_request \<Rightarrow> string \<Rightarrow> int \<Rightarrow> int \<times> go_error option" where
  "TLSServer_GetQueryInt req paramName defaultValue =
     (case mget (rq_Query req) paramName of
        None \<Rightarrow> (defaultValue, None)
      | Some [s] \<Rightarrow> (case strconv_ParseInt32 s of (v, err) \<Rightarrow> (v, if err then Some (ErrLib ''strconv.ParseInt'') else None))
      | Some _ \<Rightarrow> (defaultValue, Some (ErrLib (''invalid query parameter '' @ paramName))))"

definition TLSServer_GetQueryLimitOffset :: "http_request \<Rightarrow> int \<Rightarrow> int \<times> int \<times> go_error option" where
  "TLSServer_GetQueryLimitOffset req defaultLimit =
     (let (v, err) = TLSServer_GetQueryInt req ''limit'' defaultLimit;
          limit = (if defaultLimit \<noteq> 0 \<and> v > defaultLimit then defaultLimit else v)
      in case err of
           Some e \<Rightarrow> (limit, 0, Some e)
         | None \<Rightarrow> (case TLSServer_GetQueryInt req ''offset'' 0 of (offset, err1) \<Rightarrow> (limit, offset, err1)))"

definition TLSServer_GetQueryString :: "http_request \<Rightarrow> string \<Rightarrow> string \<Rightarrow> string" where
  "TLSServer_GetQueryString req paramName defaultValue =
     (case mget (rq_Query req) paramName of Some (v # _) \<Rightarrow> v | _ \<Rightarrow> defaultValue)"

end
