(* ===== verification/TlsClient.thy ===== *)
theory TlsClient
  imports TlsServer
begin

text \<open>
  Model of \<open>done_tool/tlsclient/TLSClient.go\<close>. All clients of a process use Go's default HTTP transport and
  replace its TLS configuration when they connect, so that configuration is part of the state that
  the operations run on: a \<open>http_world\<close> is the configuration and the rest of the world. The network is the
  function \<open>Do\<close>, which is told the TLS configuration that the request is made with.
\<close>

section \<open>The world\<close>

record tls_config =
  tf_RootCAs :: "x509_cert list"
  tf_Certificates :: "tls_cert list"
  tf_InsecureSkipVerify :: bool

record 'w http_world =
  hw_TLSClientConfig :: tls_config     \<comment> \<open>of http.DefaultTransport\<close>
  hw_world :: 'w

type_synonym 'w network = "tls_config \<Rightarrow> http_request \<Rightarrow> 'w \<Rightarrow> (go_error + http_response) \<times> 'w"

record TLSClient =
  tl_hostPort :: string
  tl_caCert :: "x509_cert option"
  tl_caCertPool :: "x509_cert list"
  tl_started :: bool                   \<comment> \<open>httpClient is not nil\<close>
  tl_checkServerCert :: bool
  tl_clientCert :: "tls_cert option"
  tl_userID :: string
  tl_basicSecret :: string
  tl_jwtAccessToken :: string

definition NewTLSClient :: "string \<Rightarrow> x509_cert option \<Rightarrow> TLSClient" where
  "NewTLSClient hostPort caCert =
     \<lparr>tl_hostPort = hostPort, tl_caCert = caCert, tl_caCertPool = (case caCert of None \<Rightarrow> [] | Some c \<Rightarrow> [c]), tl_started = False,
      tl_checkServerCert = (caCert \<noteq> None), tl_clientCert = None, tl_userID = [], tl_basicSecret = [], tl_jwtAccessToken = []\<rparr>"

section \<open>Connecting\<close>

definition TLSClient_connect :: "TLSClient \<Rightarrow> 'w http_world \<Rightarrow> 'w http_world" where
  "TLSClient_connect cl w = w\<lparr>hw_TLSClientConfig :=
     \<lparr>tf_RootCAs = tl_caCertPool cl, tf_Certificates = [], tf_InsecureSkipVerify = (\<not> tl_checkServerCert cl)\<rparr>\<rparr>"

definition TLSClient_ConnectNoAuth :: "TLSClient \<Rightarrow> 'w http_world \<Rightarrow> TLSClient \<times> 'w http_world" where
  "TLSClient_ConnectNoAuth cl w = (cl\<lparr>tl_started := True\<rparr>, TLSClient_connect cl w)"

definition TLSClient_ConnectWithBasicAuth :: "string \<Rightarrow> string \<Rightarrow> TLSClient \<Rightarrow> 'w http_world \<Rightarrow> TLSClient \<times> 'w http_world" where
  "TLSClient_ConnectWithBasicAuth userID passwd cl w =
     (cl\<lparr>tl_userID := userID, tl_basicSecret := passwd, tl_started := True\<rparr>, TLSClient_connect cl w)"

definition TLSClient_ConnectWithClientCert ::
  "x509_lib \<Rightarrow> int \<Rightarrow> tls_cert option \<Rightarrow> TLSClient \<Rightarrow> 'w http_world \<Rightarrow> (go_error option \<times> TLSClient \<times> 'w http_world) outcome" where
  "TLSClient_ConnectWithClientCert X now clientCert cl w =
     (case clientCert of
        None \<Rightarrow> Returns (Some ErrNoClientCert, cl, w)
      | Some c \<Rightarrow>
          and_then (if tl_caCert cl = None then Returns None
                    else case tc_Certificate c of
                      [] \<Rightarrow> Panics IndexOutOfRange
                    | der # _ \<Rightarrow>
                        Returns (case x5_ParseCertificate X der of
                           Inl err \<Rightarrow> Some err
                         | Inr x509Cert \<Rightarrow> cert_Verify X now (tl_caCertPool cl) [ExtKeyUsageClientAuth] x509Cert)) (\<lambda>err.
            case err of
              Some e \<Rightarrow> Returns (Some (ErrCertVerify e), cl, w)
            | None \<Rightarrow> Returns (None, cl\<lparr>tl_clientCert := Some c, tl_started := True\<rparr>,
                w\<lparr>hw_TLSClientConfig := \<lparr>tf_RootCAs = tl_caCertPool cl, tf_Certificates = [c],
                   tf_InsecureSkipVerify = (\<not> tl_checkServerCert cl)\<rparr>\<rparr>)))"

definition TLSClient_ConnectWithJwtAccessToken :: "string \<Rightarrow> string \<Rightarrow> TLSClient \<Rightarrow> 'w http_world \<Rightarrow> TLSClient \<times> 'w http_world" where
  "TLSClient_ConnectWithJwtAccessToken loginID accessToken cl w =
     (cl\<lparr>tl_userID := loginID, tl_jwtAccessToken := accessToken, tl_started := True\<rparr>, TLSClient_connect cl w)"

definition TLSClient_Close :: "TLSClient \<Rightarrow> TLSClient" where
  "TLSClient_Close cl = cl\<lparr>tl_started := False\<rparr>"

section \<open>Requests\<close>

text \<open>A message is sent as it is when it is a string or bytes and as JSON otherwise; the error of marshalling is dropped.\<close>

datatype 'v http_msg = NoMsg | TextMsg string | ObjectMsg 'v

definition request_body :: "('v \<Rightarrow> string) \<Rightarrow> 'v http_msg \<Rightarrow> string" where
  "request_body marshal msg = (case msg of NoMsg \<Rightarrow> [] | TextMsg s \<Rightarrow> s | ObjectMsg v \<Rightarrow> marshal v)"

definition auth_header :: "http_lib \<Rightarrow> TLSClient \<Rightarrow> string" where
  "auth_header H cl =
     (if tl_userID cl \<noteq> [] \<and> tl_basicSecret cl \<noteq> [] then ''Basic '' @ hl_b64_Encode H (tl_userID cl @ '':'' @ tl_basicSecret cl)
      else if tl_jwtAccessToken cl \<noteq> [] then ''bearer '' @ tl_jwtAccessToken cl else [])"

text \<open>\<open>badURL\<close> is the error of \<open>http.NewRequest\<close>. The query of the URL is read by the server.\<close>

definition TLSClient_Invoke ::
  "http_lib \<Rightarrow> ('v \<Rightarrow> string) \<Rightarrow> (string \<Rightarrow> go_error option) \<Rightarrow> 'w network \<Rightarrow> TLSClient \<Rightarrow> string \<Rightarrow> string \<Rightarrow> 'v http_msg \<Rightarrow> 'w http_world
     \<Rightarrow> (go_error + string) \<times> 'w http_world" where
  "TLSClient_Invoke H marshal badURL Do cl method url msg w =
     (if \<not> tl_started cl then (Inl (ErrNotStarted url), w)
      else case badURL url of
        Some e \<Rightarrow> (Inl e, w)
      | None \<Rightarrow>
          (case Do (hw_TLSClientConfig w) \<lparr>rq_Method = method, rq_URL = url, rq_Authorization = auth_header H cl, rq_Query = [],
                rq_PeerCertificates = [], rq_Body = request_body marshal msg\<rparr> (hw_world w) of
             (Inl e, s) \<Rightarrow> (Inl (ErrInvoke method url e), w\<lparr>hw_world := s\<rparr>)
           | (Inr (HttpStatus code m), s) \<Rightarrow>
               (if code \<ge> 400 then Inl (ErrInvoke method url (ErrHttpStatus code m)) else Inr m, w\<lparr>hw_world := s\<rparr>)
           | (Inr (HttpBody b), s) \<Rightarrow> (Inr b, w\<lparr>hw_world := s\<rparr>)))"

definition https_url :: "TLSClient \<Rightarrow> string \<Rightarrow> string" where
  "https_url cl path = ''https://'' @ tl_hostPort cl @ path"

definition TLSClient_Delete where
  "TLSClient_Delete H marshal badURL Do cl path msg w = TLSClient_Invoke H marshal badURL Do cl ''DELETE'' (https_url cl path) msg w"
definition TLSClient_Get where
  "TLSClient_Get H marshal badURL Do cl path w = TLSClient_Invoke H marshal badURL Do cl ''GET'' (https_url cl path) NoMsg w"
definition TLSClient_Post where
  "TLSClient_Post H marshal badURL Do cl path msg w = TLSClient_Invoke H marshal badURL Do cl ''POST'' (https_url cl path) msg w"
definition TLSClient_Put where
  "TLSClient_Put H marshal badURL Do cl path msg w = TLSClient_Invoke H marshal badURL Do cl ''PUT'' (https_url cl path) msg w"
definition TLSClient_Patch where
  "TLSClient_Patch H marshal badURL Do cl path msg w = TLSClient_Invoke H marshal badURL Do cl ''PATCH'' (https_url cl path) msg w"

section \<open>Tokens\<close>

record JwtAuthLogin =
  jl_LoginID :: string
  jl_Password :: string
  jl_RememberMe :: bool

record JwtAuthResponse =
  jr_AccessToken :: string
  jr_RefreshToken :: string
  jr_RefreshURL :: string

definition TLSClient_ConnectWithJWTLogin ::
  "http_lib \<Rightarrow> (JwtAuthLogin \<Rightarrow> string) \<Rightarrow> (string \<Rightarrow> go_error + JwtAuthResponse) \<Rightarrow> (string \<Rightarrow> go_error option) \<Rightarrow> 'w network
     \<Rightarrow> string \<Rightarrow> string \<Rightarrow> string \<Rightarrow> TLSClient \<Rightarrow> 'w http_world \<Rightarrow> (go_error + string) \<times> TLSClient \<times> 'w http_world" where
  "TLSClient_ConnectWithJWTLogin H marshal unmarshal badURL Do loginID secret authLoginURL cl w =
     (let cl1 = cl\<lparr>tl_userID := loginID, tl_started := True\<rparr>;
          loginURL = (if authLoginURL \<noteq> [] then authLoginURL else https_url cl ''/authn/login'')
      in case TLSClient_Invoke H marshal badURL Do cl1 ''POST'' loginURL
                (ObjectMsg \<lparr>jl_LoginID = loginID, jl_Password = secret, jl_RememberMe = False\<rparr>) (TLSClient_connect cl1 w) of
           (Inl e, w1) \<Rightarrow> (Inl (ErrJWTLogin loginURL e), cl1, w1)
         | (Inr resp, w1) \<Rightarrow>
             (case unmarshal resp of
                Inl e \<Rightarrow> (Inl (ErrJWTLogin loginURL e), cl1, w1)
              | Inr jwtResp \<Rightarrow> (Inr (jr_AccessToken jwtResp), cl1\<lparr>tl_jwtAccessToken := jr_AccessToken jwtResp\<rparr>, w1)))"

text \<open>A client that is not started has no HTTP client. A response that cannot be parsed leaves an empty token.\<close>

definition TLSClient_RefreshJWTTokens ::
  "(string \<Rightarrow> go_error + JwtAuthResponse) \<Rightarrow> (string \<Rightarrow> go_error option) \<Rightarrow> 'w network \<Rightarrow> string \<Rightarrow> TLSClient \<Rightarrow> 'w http_world
     \<Rightarrow> ((go_error + JwtAuthResponse) \<times> TLSClient \<times> 'w http_world) outcome" where
  "TLSClient_RefreshJWTTokens unmarshal badURL Do refreshURL cl w =
     (let url = (if refreshURL = [] then https_url cl ''/authn/refresh'' else refreshURL) in
      case badURL url of
        Some e \<Rightarrow> Returns (Inl (ErrJWTRefresh url e), cl, w)
      | None \<Rightarrow>
          if \<not> tl_started cl then Panics NilDereference
          else
            (case Do (hw_TLSClientConfig w) \<lparr>rq_Method = ''POST'', rq_URL = url, rq_Authorization = [], rq_Query = [],
                  rq_PeerCertificates = [], rq_Body = []\<rparr> (hw_world w) of
               (Inl e, s) \<Rightarrow> Returns (Inl (ErrJWTRefresh url e), cl, w\<lparr>hw_world := s\<rparr>)
             | (Inr r, s) \<Rightarrow>
                 (case (case r of HttpStatus code m \<Rightarrow> if code \<ge> 400 then Inl (ErrHttpStatus code m) else Inr m | HttpBody b \<Rightarrow> Inr b) of
                    Inl e \<Rightarrow> Returns (Inl (ErrJWTRefresh url e), cl, w\<lparr>hw_world := s\<rparr>)
                  | Inr body \<Rightarrow>
                      (case unmarshal body of
                         Inl e \<Rightarrow> Returns (Inl e, cl\<lparr>tl_jwtAccessToken := []\<rparr>, w\<lparr>hw_world := s\<rparr>)
                       | Inr t \<Rightarrow> Returns (Inr t, cl\<lparr>tl_jwtAccessToken := jr_AccessToken t\<rparr>, w\<lparr>hw_world := s\<rparr>)))))"

end
