(* ===== verification/CertsService.thy ===== *)
theory CertsService
  imports Certs RpcCall
begin

text \<open>
  Model of the certificates service: \<open>done_mod/mod_cert/cert_srv\<close> (creating and verifying the
  certificates of devices, services and users), the messages of \<open>cert_api\<close>, the client of \<open>cert_cli\<close>
  and the start of the service in \<open>cert_cmd/main.go\<close>. The service keeps no state of its own but the CA;
  a request handler reads the clock, which is the state that requests are run on.
\<close>

section \<open>The service\<close>

abbreviation (input) DefaultServiceCertValidityDays :: int where "DefaultServiceCertValidityDays \<equiv> 100"
abbreviation (input) DefaultUserCertValidityDays :: int where "DefaultUserCertValidityDays \<equiv> 100"
abbreviation (input) DefaultDeviceCertValidityDays :: int where "DefaultDeviceCertValidityDays \<equiv> 100"

abbreviation (input) OUUser :: string where "OUUser \<equiv> ''user''"
abbreviation (input) OUIoTDevice :: string where "OUIoTDevice \<equiv> ''device''"
abbreviation (input) OUService :: string where "OUService \<equiv> ''service''"

text \<open>\<open>cv_gen\<close> stands for the random keys that \<open>NewKey\<close> makes before a public key is imported.\<close>

record CertsService =
  cv_caCert :: x509_cert
  cv_caCertPEM :: string
  cv_caKey :: HiveKey
  cv_caCertPool :: "x509_cert list"

record cert_env =
  cv_crypto :: crypto_lib
  cv_x509 :: x509_lib
  cv_gen :: keygen

definition client_cert_template :: "x509_lib \<Rightarrow> int \<Rightarrow> string \<Rightarrow> string \<Rightarrow> int \<Rightarrow> x509_cert" where
  "client_cert_template X now clientID ouRole validityDays = zero_cert
     \<lparr>x_SerialNumber := time_Unix now - 2,
      x_Subject := \<lparr>pn_Country = [''CA''], pn_Province = [''BC''], pn_Locality = [''local''],
         pn_Organization = [''HiveOT''], pn_OrganizationalUnit = [ouRole], pn_CommonName = clientID\<rparr>,
      x_NotBefore := now - second, x_NotAfter := x5_AddDays X now validityDays,
      x_KeyUsage := [KeyUsageDigitalSignature], x_ExtKeyUsage := [ExtKeyUsageClientAuth],
      x_BasicConstraintsValid := True, x_IsCA := False,
      x_IPAddresses := (case x5_ParseIP X ''127.0.0.1'' of None \<Rightarrow> [] | Some ip \<Rightarrow> [ip])\<rparr>"

definition createClientCert ::
  "x509_lib \<Rightarrow> int \<Rightarrow> string \<Rightarrow> string \<Rightarrow> HiveKey option \<Rightarrow> x509_cert \<Rightarrow> HiveKey \<Rightarrow> int \<Rightarrow> go_error + x509_cert" where
  "createClientCert X now clientID ouRole ownerPubKey caCert caPrivKey validityDays =
     (case ownerPubKey of
        None \<Rightarrow> Inl ErrMissingCertArg
      | Some k \<Rightarrow>
          if clientID = [] then Inl ErrMissingCertArg
          else create_and_parse X (client_cert_template X now clientID ouRole validityDays) caCert (hk_pub k) (hk_priv caPrivKey))"

definition CertsService_createDeviceCert ::
  "x509_lib \<Rightarrow> int \<Rightarrow> CertsService \<Rightarrow> string \<Rightarrow> HiveKey option \<Rightarrow> int \<Rightarrow> go_error + x509_cert" where
  "CertsService_createDeviceCert X now svc deviceID pubKey days =
     createClientCert X now deviceID OUIoTDevice pubKey (cv_caCert svc) (cv_caKey svc)
       (if days = 0 then DefaultDeviceCertValidityDays else days)"

definition service_cert_template :: "x509_lib \<Rightarrow> int \<Rightarrow> string \<Rightarrow> string list \<Rightarrow> int \<Rightarrow> x509_cert" where
  "service_cert_template X now serviceID names validityDays = add_hosts X names (zero_cert
     \<lparr>x_SerialNumber := time_Unix now - 3,
      x_Subject := \<lparr>pn_Country = [''CA''], pn_Province = [''BC''], pn_Locality = [''local''],
         pn_Organization = [''HiveOT''], pn_OrganizationalUnit = [OUService], pn_CommonName = serviceID\<rparr>,
      x_NotBefore := now - second, x_NotAfter := x5_AddDays X now validityDays,
      x_KeyUsage := [KeyUsageDigitalSignature, KeyUsageDataEncipherment, KeyUsageKeyEncipherment],
      x_ExtKeyUsage := [ExtKeyUsageServerAuth, ExtKeyUsageClientAuth], x_IsCA := False, x_MaxPathLenZero := True\<rparr>)"

text \<open>\<open>names\<close> is nil when the request has no list of names.\<close>

definition CertsService_createServiceCert ::
  "x509_lib \<Rightarrow> int \<Rightarrow> CertsService \<Rightarrow> string \<Rightarrow> HiveKey option \<Rightarrow> string list option \<Rightarrow> int \<Rightarrow> go_error + x509_cert" where
  "CertsService_createServiceCert X now svc serviceID pubKey names days =
     (case (pubKey, names) of
        (Some k, Some ns) \<Rightarrow>
          if serviceID = [] then Inl ErrMissingCertArg
          else create_and_parse X
                 (service_cert_template X now serviceID ns (if days = 0 then DefaultServiceCertValidityDays else days))
                 (cv_caCert svc) (hk_pub k) (hk_priv (cv_caKey svc))
      | _ \<Rightarrow> Inl ErrMissingCertArg)"

definition CertsService_createUserCert ::
  "x509_lib \<Rightarrow> int \<Rightarrow> CertsService \<Rightarrow> string \<Rightarrow> HiveKey option \<Rightarrow> int \<Rightarrow> go_error + x509_cert" where
  "CertsService_createUserCert X now svc userID pubKey days =
     createClientCert X now userID OUUser pubKey (cv_caCert svc) (cv_caKey svc)
       (if days = 0 then DefaultUserCertValidityDays else days)"

section \<open>Messages\<close>

datatype cert_message =
    CreateDeviceCertArgs string string int
  | CreateServiceCertArgs string string "string list option" int
  | CreateUserCertArgs string string int
  | VerifyCertArgs string string
  | CreateCertResp string string

fun cert_message_type :: "cert_message \<Rightarrow> nat" where
  "cert_message_type (CreateDeviceCertArgs _ _ _) = 0"
| "cert_message_type (CreateServiceCertArgs _ _ _ _) = 1"
| "cert_message_type (CreateUserCertArgs _ _ _) = 2"
| "cert_message_type (VerifyCertArgs _ _) = 3"
| "cert_message_type (CreateCertResp _ _) = 4"

text \<open>A new ECDSA key of which the public key is imported, and the error of the import.\<close>

definition import_ecdsa :: "cert_env \<Rightarrow> string \<Rightarrow> (go_error option \<times> HiveKey option) outcome" where
  "import_ecdsa E pubKeyPEM =
     and_then (NewKey (cv_crypto E) (cv_gen E) KeyTypeECDSA) (\<lambda>key.
       case key of
         None \<Rightarrow> Panics NilDereference
       | Some k \<Rightarrow> (case EcdsaKey_ImportPublic (cv_crypto E) pubKeyPEM k of (err, k1) \<Rightarrow> Returns (err, Some k1)))"

text \<open>The response is filled in only without an error.\<close>

definition cert_response :: "cert_env \<Rightarrow> CertsService \<Rightarrow> go_error + x509_cert \<Rightarrow> (string \<times> string) \<times> go_error option" where
  "cert_response E svc r =
     (case r of
        Inl err \<Rightarrow> (([], []), Some err)
      | Inr cert \<Rightarrow> ((X509CertToPEM (cv_crypto E) cert, cv_caCertPEM svc), None))"

definition CertsService_CreateDeviceCert ::
  "cert_env \<Rightarrow> CertsService \<Rightarrow> int \<Rightarrow> string \<Rightarrow> string \<Rightarrow> int \<Rightarrow> ((string \<times> string) \<times> go_error option) outcome" where
  "CertsService_CreateDeviceCert E svc now deviceID pubKeyPEM validityDays =
     and_then (import_ecdsa E pubKeyPEM) (\<lambda>(err, k).
       Returns (cert_response E svc
         (case err of
            Some e \<Rightarrow> Inl (ErrCertPubKey deviceID e)
          | None \<Rightarrow> CertsService_createDeviceCert (cv_x509 E) now svc deviceID k validityDays)))"

definition CertsService_CreateServiceCert ::
  "cert_env \<Rightarrow> CertsService \<Rightarrow> int \<Rightarrow> string \<Rightarrow> string \<Rightarrow> string list option \<Rightarrow> int
     \<Rightarrow> ((string \<times> string) \<times> go_error option) outcome" where
  "CertsService_CreateServiceCert E svc now serviceID pubKeyPEM names validityDays =
     and_then (import_ecdsa E pubKeyPEM) (\<lambda>(err, k).
       Returns (cert_response E svc
         (case err of
            Some e \<Rightarrow> Inl e
          | None \<Rightarrow> CertsService_createServiceCert (cv_x509 E) now svc serviceID k names validityDays)))"

definition CertsService_CreateUserCert ::
  "cert_env \<Rightarrow> CertsService \<Rightarrow> int \<Rightarrow> string \<Rightarrow> string \<Rightarrow> int \<Rightarrow> ((string \<times> string) \<times> go_error option) outcome" where
  "CertsService_CreateUserCert E svc now userID pubKeyPEM validityDays =
     and_then (import_ecdsa E pubKeyPEM) (\<lambda>(err, k).
       Returns (cert_response E svc
         (case err of
            Some e \<Rightarrow> Inl e
          | None \<Rightarrow> CertsService_createUserCert (cv_x509 E) now svc userID k validityDays)))"

definition CertsService_VerifyCert :: "cert_env \<Rightarrow> CertsService \<Rightarrow> int \<Rightarrow> string \<Rightarrow> string \<Rightarrow> go_error option" where
  "CertsService_VerifyCert E svc now clientID certPEM =
     (case X509CertFromPEM (cv_crypto E) (cv_x509 E) certPEM of
        Inl err \<Rightarrow> Some err
      | Inr cert \<Rightarrow>
          if pn_CommonName (x_Subject cert) \<noteq> clientID
          then Some (ErrCertClient clientID (pn_CommonName (x_Subject cert)))
          else cert_Verify (cv_x509 E) now (cv_caCertPool svc) [ExtKeyUsageClientAuth] cert)"

text \<open>The pool and the PEM text use the CA certificate before the check for a missing one.\<close>

definition NewCertsService :: "crypto_lib \<Rightarrow> x509_cert option \<Rightarrow> HiveKey option \<Rightarrow> CertsService outcome" where
  "NewCertsService L caCert caKey =
     (case (caCert, caKey) of
        (None, _) \<Rightarrow> Panics ExplicitPanic
      | (Some ca, None) \<Rightarrow> Panics ExplicitPanic
      | (Some ca, Some k) \<Rightarrow>
          if x_PublicKey ca = None then Panics ExplicitPanic
          else Returns \<lparr>cv_caCert = ca, cv_caCertPEM = X509CertToPEM L ca, cv_caKey = k, cv_caCertPool = [ca]\<rparr>)"

section \<open>Starting the service\<close>

definition cert_reply :: "((string \<times> string) \<times> go_error option) outcome \<Rightarrow> cert_message rpc_result list outcome" where
  "cert_reply r = and_then r (\<lambda>((certPEM, caCertPEM), err). Returns [ValueResult (CreateCertResp certPEM caCertPEM), err_result err])"

fun cert_call :: "cert_env \<Rightarrow> CertsService \<Rightarrow> cert_message rpc_arg list \<Rightarrow> int \<Rightarrow> cert_message rpc_result list outcome \<times> int" where
  "cert_call E svc [ContextArg c, ValueArg (CreateDeviceCertArgs deviceID pub days)] now =
     (cert_reply (CertsService_CreateDeviceCert E svc now deviceID pub days), now)"
| "cert_call E svc [ContextArg c, ValueArg (CreateServiceCertArgs serviceID pub names days)] now =
     (cert_reply (CertsService_CreateServiceCert E svc now serviceID pub names days), now)"
| "cert_call E svc [ContextArg c, ValueArg (CreateUserCertArgs userID pub days)] now =
     (cert_reply (CertsService_CreateUserCert E svc now userID pub days), now)"
| "cert_call E svc [ContextArg c, ValueArg (VerifyCertArgs clientID certPEM)] now =
     (Returns [err_result (CertsService_VerifyCert E svc now clientID certPEM)], now)"
| "cert_call E svc argv now = (Returns [], now)"

abbreviation CertsServiceName :: string where "CertsServiceName \<equiv> ''certs''"
abbreviation ManageCertsCapability :: string where "ManageCertsCapability \<equiv> ''manageCerts''"
abbreviation CreateDeviceCertMethod :: string where "CreateDeviceCertMethod \<equiv> ''createDeviceCert''"
abbreviation CreateServiceCertMethod :: string where "CreateServiceCertMethod \<equiv> ''createServiceCert''"
abbreviation CreateUserCertMethod :: string where "CreateUserCertMethod \<equiv> ''createUserCert''"
abbreviation VerifyCertMethod :: string where "VerifyCertMethod \<equiv> ''verifyCert''"

definition cert_method :: "cert_env \<Rightarrow> CertsService \<Rightarrow> nat \<Rightarrow> (cert_message, int) rpc_method" where
  "cert_method E svc ty = \<lparr>rm_params = [ContextParam, ValueParam ty], rm_call = cert_call E svc\<rparr>"

definition CertsService_methods :: "cert_env \<Rightarrow> CertsService \<Rightarrow> (string, (cert_message, int) rpc_method) gomap" where
  "CertsService_methods E svc =
     [(CreateDeviceCertMethod, cert_method E svc 0), (CreateServiceCertMethod, cert_method E svc 1),
      (CreateUserCertMethod, cert_method E svc 2), (VerifyCertMethod, cert_method E svc 3)]"

text \<open>\<open>hc\<close> is nil or a client of the hub; its ID is logged before anything else.\<close>

definition CertsService_Start ::
  "cert_env \<Rightarrow> CertsService \<Rightarrow> 'w hub_transport \<Rightarrow> (cert_message, int) HubClient option \<Rightarrow> 'w
     \<Rightarrow> ((cert_message, int) HubClient \<times> 'w) outcome" where
  "CertsService_Start E svc tp hc w =
     (case hc of
        None \<Rightarrow> Panics NilDereference
      | Some h \<Rightarrow> Returns (HubClient_SetRPCCapability tp ManageCertsCapability (CertsService_methods E svc) h w))"

text \<open>\<open>cert_cmd/main.go\<close> up to the start of the plugin: the CA is read from the directory of the certificates.\<close>

definition certs_main :: "cert_env \<Rightarrow> filesys \<Rightarrow> string \<Rightarrow> CertsService outcome" where
  "certs_main E fs certsDir =
     (case LoadX509CertFromPEM (cv_crypto E) (cv_x509 E) fs (path_Join certsDir ''caCert.pem'') of
        Inl err \<Rightarrow> Panics FatalExit
      | Inr caCert \<Rightarrow>
          and_then (NewKeyFromFile (cv_crypto E) (cv_gen E) fs (path_Join certsDir ''caKey.pem'')) (\<lambda>(caKey, err).
            case err of
              Some e \<Rightarrow> Panics FatalExit
            | None \<Rightarrow> NewCertsService (cv_crypto E) (Some caCert) caKey))"

section \<open>The client\<close>

type_synonym ('c, 'w) cert_link = "(cert_message, 'c, 'w) hub_link"

definition cert_rpc ::
  "('c, 'w) cert_link \<Rightarrow> string \<Rightarrow> cert_message \<Rightarrow> nat option \<Rightarrow> 'w \<Rightarrow> (cert_message option \<times> go_error option) \<times> 'w" where
  "cert_rpc cl method req resp w =
     (case cl of (tp, ser, hc) \<Rightarrow> HubClient_PubRPCRequest tp ser hc CertsServiceName ManageCertsCapability method (Some req) resp w)"

text \<open>The certificate and the CA certificate of the response, both empty without one.\<close>

definition cert_create_result :: "(cert_message option \<times> go_error option) \<times> 'w \<Rightarrow> (string \<times> string \<times> go_error option) \<times> 'w" where
  "cert_create_result r =
     (case r of
        ((Some (CreateCertResp certPEM caCertPEM), err), w) \<Rightarrow> ((certPEM, caCertPEM, err), w)
      | ((_, err), w) \<Rightarrow> (([], [], err), w))"

definition CertsClient_CreateDeviceCert ::
  "('c, 'w) cert_link \<Rightarrow> string \<Rightarrow> string \<Rightarrow> int \<Rightarrow> 'w \<Rightarrow> (string \<times> string \<times> go_error option) \<times> 'w" where
  "CertsClient_CreateDeviceCert cl deviceID pubKeyPEM validityDays w =
     cert_create_result (cert_rpc cl CreateDeviceCertMethod (CreateDeviceCertArgs deviceID pubKeyPEM validityDays) (Some 4) w)"

definition CertsClient_CreateServiceCert ::
  "('c, 'w) cert_link \<Rightarrow> string \<Rightarrow> string \<Rightarrow> string list option \<Rightarrow> int \<Rightarrow> 'w \<Rightarrow> (string \<times> string \<times> go_error option) \<times> 'w" where
  "CertsClient_CreateServiceCert cl serviceID pubKeyPEM names validityDays w =
     cert_create_result (cert_rpc cl CreateServiceCertMethod (CreateServiceCertArgs serviceID pubKeyPEM names validityDays) (Some 4) w)"

definition CertsClient_CreateUserCert ::
  "('c, 'w) cert_link \<Rightarrow> string \<Rightarrow> string \<Rightarrow> int \<Rightarrow> 'w \<Rightarrow> (string \<times> string \<times> go_error option) \<times> 'w" where
  "CertsClient_CreateUserCert cl userID pubKeyPEM validityDays w =
     cert_create_result (cert_rpc cl CreateUserCertMethod (CreateUserCertArgs userID pubKeyPEM validityDays) (Some 4) w)"

definition CertsClient_VerifyCert :: "('c, 'w) cert_link \<Rightarrow> string \<Rightarrow> string \<Rightarrow> 'w \<Rightarrow> go_error option \<times> 'w" where
  "CertsClient_VerifyCert cl clientID certPEM w =
     (case cert_rpc cl VerifyCertMethod (VerifyCertArgs clientID certPEM) None w of ((_, err), w1) \<Rightarrow> (err, w1))"

end
