(* ===== verification/CertsProps.thy ===== *)
theory CertsProps
  imports CertsService
begin

text \<open>
  Properties of the certificates: what the X.509 library promises, that a certificate which the service
  issues is accepted for its own client and within its lifetime only, that certificates survive being saved
  and loaded, and what the code does with a missing validity and with a certificate that is not readable.
\<close>

section \<open>Documented behaviour of crypto/x509\<close>

definition ascii :: "string \<Rightarrow> bool" where
  "ascii s \<longleftrightarrow> list_all (\<lambda>c. of_char c < (128::nat)) s"

definition name_ok :: "pkix_name \<Rightarrow> bool" where
  "name_ok n \<longleftrightarrow> list_all ascii (pn_Country n @ pn_Province n @ pn_Locality n @ pn_Organization n
     @ pn_OrganizationalUnit n @ [pn_CommonName n])"

text \<open>ASN.1 times end with the year 9999.\<close>

definition encodable_time :: "int \<Rightarrow> bool" where
  "encodable_time t \<longleftrightarrow> 0 \<le> t \<and> t < 253402300800 * second"

text \<open>A template that \<open>CreateCertificate\<close> accepts, with a private key that is the parent's.\<close>

definition template_ok :: "crypto_lib \<Rightarrow> x509_cert \<Rightarrow> x509_cert \<Rightarrow> privkey \<Rightarrow> bool" where
  "template_ok L t parent priv \<longleftrightarrow> 0 < x_SerialNumber t \<and> encodable_time (x_NotBefore t) \<and> encodable_time (x_NotAfter t)
     \<and> name_ok (x_Subject t) \<and> name_ok (x_Subject parent) \<and> list_all ascii (x_DNSNames t)
     \<and> (x_BasicConstraintsValid t \<and> \<not> x_IsCA t \<longrightarrow> x_MaxPathLen t = 0 \<and> \<not> x_MaxPathLenZero t)
     \<and> (x_PublicKey parent = None \<or> x_PublicKey parent = Some (cy_Public L priv))"

definition floor_second :: "int \<Rightarrow> int" where
  "floor_second t = t div second * second"

text \<open>The parsed certificate that was made from a template: times have a resolution of a second.\<close>

definition cert_from :: "x509_cert \<Rightarrow> x509_cert \<Rightarrow> pubkey \<Rightarrow> x509_cert \<Rightarrow> bool" where
  "cert_from t parent pub c \<longleftrightarrow> x_Subject c = x_Subject t \<and> x_Issuer c = x_Subject parent
     \<and> x_NotBefore c = floor_second (x_NotBefore t) \<and> x_NotAfter c = floor_second (x_NotAfter t)
     \<and> x_KeyUsage c = x_KeyUsage t \<and> x_ExtKeyUsage c = x_ExtKeyUsage t
     \<and> x_BasicConstraintsValid c = x_BasicConstraintsValid t \<and> x_IsCA c = (x_BasicConstraintsValid t \<and> x_IsCA t)
     \<and> x_IPAddresses c = x_IPAddresses t \<and> x_DNSNames c = x_DNSNames t \<and> x_PublicKey c = Some pub"

text \<open>
  The library makes a certificate of a template that is acceptable: it can be parsed, it has the template's
  fields, and its signature verifies with the public key of the signer.
\<close>

definition x509_creates :: "crypto_lib \<Rightarrow> x509_lib \<Rightarrow> x509_cert \<Rightarrow> x509_cert \<Rightarrow> pubkey \<Rightarrow> privkey \<Rightarrow> bool" where
  "x509_creates L X t parent pub priv \<longleftrightarrow>
     (template_ok L t parent priv \<and> (\<exists>x. pub = EcdsaPub x) \<and> (\<exists>x. priv = EcdsaPriv x) \<longrightarrow>
      (\<exists>der c. x5_CreateCertificate X t parent (Some pub) (Some priv) = Inr der \<and> x5_ParseCertificate X der = Inr c
         \<and> x_Raw c = der \<and> cert_from t parent pub c \<and> x5_SignatureOK X c (cy_Public L priv)))"

lemma x509_createsE:
  assumes "x509_creates L X t parent (EcdsaPub x) (EcdsaPriv y)" "template_ok L t parent (EcdsaPriv y)"
  obtains c where "create_and_parse X t parent (Some (EcdsaPub x)) (Some (EcdsaPriv y)) = Inr c"
    "x5_ParseCertificate X (x_Raw c) = Inr c" "cert_from t parent (EcdsaPub x) c"
    "x5_SignatureOK X c (cy_Public L (EcdsaPriv y))"
  using assms by (auto simp: x509_creates_def create_and_parse_def)

section \<open>Certificates and their PEM form\<close>

lemma CertFromPEM_ToPEM:
  assumes "crypto_ok L" "x5_ParseCertificate X (x_Raw c) = Inr c"
  shows "X509CertFromPEM L X (X509CertToPEM L c) = Inr c"
  using assms by (simp add: X509CertFromPEM_def X509CertToPEM_def crypto_okD(1))

lemma Load_SaveX509Cert:
  assumes "crypto_ok L" "x5_ParseCertificate X (x_Raw c) = Inr c" "SaveX509CertToPEM L rmErr None c p fs = (e, fs1)"
  shows "e = None \<and> LoadX509CertFromPEM L X fs1 p = Inr c"
  using assms CertFromPEM_ToPEM [OF assms(1,2)]
  by (auto simp: SaveX509CertToPEM_def LoadX509CertFromPEM_def os_WriteFile_def os_ReadFile_def)

section \<open>The CA\<close>

definition ca_request_ok :: "x509_lib \<Rightarrow> int \<Rightarrow> string \<Rightarrow> int \<Rightarrow> bool" where
  "ca_request_ok X now cn days \<longleftrightarrow> 4 * second \<le> now \<and> encodable_time now \<and> encodable_time (x5_AddDays X now days) \<and> ascii cn"

lemma ascii_literals [simp]:
  "ascii ''CA''" "ascii ''BC''" "ascii ''HiveOT zone''" "ascii ''HiveOT''" "ascii ''local''" "ascii ''device''"
  "ascii ''user''" "ascii ''service''" "ascii []"
  by (simp_all add: ascii_def)

lemma time_Unix_lower: "k * second \<le> now \<Longrightarrow> k \<le> time_Unix now"
  using zdiv_mono1 [of "k * second" now second] by (simp add: time_Unix_def)

definition is_hub_ca :: "crypto_lib \<Rightarrow> x509_cert \<Rightarrow> HiveKey \<Rightarrow> bool" where
  "is_hub_ca L ca caKey \<longleftrightarrow> (\<exists>y. hk_priv caKey = Some (EcdsaPriv y) \<and> x_PublicKey ca = Some (cy_Public L (EcdsaPriv y)))
     \<and> x_BasicConstraintsValid ca \<and> x_IsCA ca \<and> KeyUsageCertSign \<in> set (x_KeyUsage ca) \<and> x_ExtKeyUsage ca = []
     \<and> name_ok (x_Subject ca)"

lemma CreateCA_makes_ca:
  assumes L: "crypto_ok L" "keygen_ok gen" and req: "ca_request_ok X now cn days"
    and X: "\<And>p. x509_creates L X (CA_template X now cn days) (CA_template X now cn days) (cy_Public L p) p"
  obtains ca caKey where "CreateCA L X gen now cn days = Returns (Some ca, caKey)" "is_hub_ca L ca caKey" "wf_ecdsa L caKey"
    "x5_ParseCertificate X (x_Raw ca) = Inr ca" "x_Subject ca = x_Subject (CA_template X now cn days)"
    "x_NotBefore ca = floor_second (now - 3 * second)" "x_NotAfter ca = floor_second (x5_AddDays X now days)"
proof -
  let ?t = "CA_template X now cn days"
  obtain y where y: "gen KeyTypeECDSA = Some (EcdsaPriv y)" using L(2) by (auto simp: keygen_ok_def)
  obtain x where x: "cy_Public L (EcdsaPriv y) = EcdsaPub x" using crypto_okD(6) [OF L(1)] by blast
  let ?k = "\<lparr>hk_type = KeyTypeECDSA, hk_priv = Some (EcdsaPriv y), hk_pub = Some (EcdsaPub x)\<rparr>"
  have key: "NewKey L gen KeyTypeECDSA = Returns (Some ?k)"
    using y x by (simp add: NewKey_def IHiveKey_Initialize_def)
  have t: "template_ok L ?t ?t (EcdsaPriv y)"
    using req time_Unix_lower [of 4 now]
    by (auto simp: template_ok_def CA_template_def zero_cert_def ca_request_ok_def name_ok_def encodable_time_def)
  obtain ca where "create_and_parse X ?t ?t (Some (EcdsaPub x)) (Some (EcdsaPriv y)) = Inr ca"
    "x5_ParseCertificate X (x_Raw ca) = Inr ca" "cert_from ?t ?t (EcdsaPub x) ca"
    using x509_createsE [OF X [of "EcdsaPriv y", unfolded x] t] by metis
  then show thesis
    using key t x by (intro that [of ca ?k])
      (auto simp: CreateCA_def is_hub_ca_def wf_ecdsa_def complete_key_def cert_from_def template_ok_def CA_template_def zero_cert_def)
qed

section \<open>Issued certificates\<close>

text \<open>The identity, the validity and the template of a request for a certificate.\<close>

fun request_id :: "cert_message \<Rightarrow> string" where
  "request_id (CreateDeviceCertArgs i _ _) = i"
| "request_id (CreateServiceCertArgs i _ _ _) = i"
| "request_id (CreateUserCertArgs i _ _) = i"
| "request_id _ = []"

fun request_pubkey :: "cert_message \<Rightarrow> string" where
  "request_pubkey (CreateDeviceCertArgs _ p _) = p"
| "request_pubkey (CreateServiceCertArgs _ p _ _) = p"
| "request_pubkey (CreateUserCertArgs _ p _) = p"
| "request_pubkey _ = []"

fun request_days :: "cert_message \<Rightarrow> int" where
  "request_days (CreateDeviceCertArgs _ _ d) = (if d = 0 then 100 else d)"
| "request_days (CreateServiceCertArgs _ _ _ d) = (if d = 0 then 100 else d)"
| "request_days (CreateUserCertArgs _ _ d) = (if d = 0 then 100 else d)"
| "request_days _ = 0"

fun request_template :: "x509_lib \<Rightarrow> int \<Rightarrow> cert_message \<Rightarrow> x509_cert" where
  "request_template X now (CreateServiceCertArgs i p (Some ns) d) = service_cert_template X now i ns (if d = 0 then 100 else d)"
| "request_template X now (CreateUserCertArgs i p d) = client_cert_template X now i OUUser (if d = 0 then 100 else d)"
| "request_template X now (CreateDeviceCertArgs i p d) = client_cert_template X now i OUIoTDevice (if d = 0 then 100 else d)"
| "request_template X now _ = zero_cert"

text \<open>A request with an ID, an ECDSA public key and, for a service, names, at a time that a certificate can express.\<close>

definition cert_request_ok :: "crypto_lib \<Rightarrow> x509_lib \<Rightarrow> int \<Rightarrow> cert_message \<Rightarrow> bool" where
  "cert_request_ok L X now req \<longleftrightarrow>
     (case req of CreateDeviceCertArgs _ _ _ \<Rightarrow> True | CreateUserCertArgs _ _ _ \<Rightarrow> True
        | CreateServiceCertArgs _ _ (Some ns) _ \<Rightarrow> list_all ascii ns | _ \<Rightarrow> False)
     \<and> request_id req \<noteq> [] \<and> ascii (request_id req)
     \<and> (\<exists>x. cy_ParsePKIX L (fst (RsaKey_importDer L (request_pubkey req))) = Inr (EcdsaPub x))
     \<and> 4 * second \<le> now \<and> encodable_time now \<and> encodable_time (x5_AddDays X now (request_days req))"

lemma add_hosts_fields:
  "x_Subject (add_hosts X ns t) = x_Subject t \<and> x_NotBefore (add_hosts X ns t) = x_NotBefore t
   \<and> x_NotAfter (add_hosts X ns t) = x_NotAfter t \<and> x_SerialNumber (add_hosts X ns t) = x_SerialNumber t
   \<and> x_ExtKeyUsage (add_hosts X ns t) = x_ExtKeyUsage t \<and> x_BasicConstraintsValid (add_hosts X ns t) = x_BasicConstraintsValid t
   \<and> x_IsCA (add_hosts X ns t) = x_IsCA t"
  by (induction X ns t rule: add_hosts.induct) (auto split: option.splits)

lemma add_hosts_dns:
  "list_all ascii ns \<Longrightarrow> list_all ascii (x_DNSNames t) \<Longrightarrow> list_all ascii (x_DNSNames (add_hosts X ns t))"
  by (induction X ns t rule: add_hosts.induct) (auto split: option.splits)

lemmas cert_template_defs = client_cert_template_def service_cert_template_def zero_cert_def

text \<open>What all issued certificates have in common.\<close>

lemma request_template_fields:
  assumes "cert_request_ok L X now req"
  shows "pn_CommonName (x_Subject (request_template X now req)) = request_id req"
    "x_NotBefore (request_template X now req) = now - second"
    "x_NotAfter (request_template X now req) = x5_AddDays X now (request_days req)"
    "ExtKeyUsageClientAuth \<in> set (x_ExtKeyUsage (request_template X now req))"
    "\<not> x_IsCA (request_template X now req)"
  using assms by (auto simp: cert_request_ok_def cert_template_defs add_hosts_fields split: cert_message.splits option.splits)

lemma request_template_ok:
  assumes "cert_request_ok L X now req" "is_hub_ca L ca caKey" "hk_priv caKey = Some p"
  shows "template_ok L (request_template X now req) ca p"
  using assms time_Unix_lower [of 4 now]
  by (auto simp: cert_request_ok_def cert_template_defs add_hosts_fields template_ok_def name_ok_def encodable_time_def
      is_hub_ca_def intro!: add_hosts_dns split: cert_message.splits option.splits)

lemma import_ecdsa_ok:
  assumes "crypto_ok (cv_crypto E)" "keygen_ok (cv_gen E)"
    "cy_ParsePKIX (cv_crypto E) (fst (RsaKey_importDer (cv_crypto E) pem)) = Inr (EcdsaPub x)"
  shows "\<exists>k. import_ecdsa E pem = Returns (None, Some k) \<and> hk_pub k = Some (EcdsaPub x)"
  using assms by (auto simp: import_ecdsa_def NewKey_def IHiveKey_Initialize_def EcdsaKey_ImportPublic_def keygen_ok_def)

text \<open>Every request creates its template, signed by the CA, for the public key of the request.\<close>

lemma cert_call_creates:
  assumes "crypto_ok (cv_crypto E)" "keygen_ok (cv_gen E)" and req: "cert_request_ok (cv_crypto E) (cv_x509 E) now req"
    and "cy_ParsePKIX (cv_crypto E) (fst (RsaKey_importDer (cv_crypto E) (request_pubkey req))) = Inr (EcdsaPub x)"
    and c: "create_and_parse (cv_x509 E) (request_template (cv_x509 E) now req) (cv_caCert svc) (Some (EcdsaPub x))
      (hk_priv (cv_caKey svc)) = Inr c"
  shows "cert_call E svc [ContextArg s, ValueArg req] now =
    (Returns [ValueResult (CreateCertResp (X509CertToPEM (cv_crypto E) c) (cv_caCertPEM svc)), NilResult], now)"
proof -
  obtain k where k: "import_ecdsa E (request_pubkey req) = Returns (None, Some k)" "hk_pub k = Some (EcdsaPub x)"
    using import_ecdsa_ok [OF assms(1,2,4)] by blast
  show ?thesis
    using k c req
    by (cases req)
      (auto simp: cert_request_ok_def cert_reply_def cert_response_def CertsService_CreateDeviceCert_def
        CertsService_CreateServiceCert_def CertsService_CreateUserCert_def CertsService_createDeviceCert_def
        CertsService_createServiceCert_def CertsService_createUserCert_def createClientCert_def split: option.splits)
qed

lemma cert_Verify_issued:
  assumes ca: "is_hub_ca L ca caKey" "hk_priv caKey = Some p" "x5_ParseCertificate X (x_Raw ca) = Inr ca"
    and c: "cert_from t ca pub c" "x5_SignatureOK X c (cy_Public L p)" "x5_ParseCertificate X (x_Raw c) = Inr c"
    and t: "ExtKeyUsageClientAuth \<in> set (x_ExtKeyUsage t)" "\<not> x_IsCA t"
  shows "cert_Verify X now [ca] [ExtKeyUsageClientAuth] c = None \<longleftrightarrow> cert_in_time now c \<and> cert_in_time now ca"
proof -
  have "x_Raw ca \<noteq> x_Raw c"
  proof
    assume "x_Raw ca = x_Raw c"
    then have "ca = c" using ca(3) c(3) by (metis sum.inject(2))
    then have "x_IsCA c" using ca(1) by (simp add: is_hub_ca_def)
    then show False using c(1) t(2) by (simp add: cert_from_def)
  qed
  then have "cert_chains X now [ca] c = (if cert_in_time now ca then [[c, ca]] else [])"
    using ca(1,2) c(1,2) by (auto simp: cert_chains_def signed_by_def is_hub_ca_def cert_from_def)
  then show ?thesis
    using ca(1) c(1) t(1) by (auto simp: cert_Verify_def usage_allowed_def is_hub_ca_def cert_from_def)
qed

text \<open>
  C19. A certificate that the service issues, to a device, a service or a user, with a CA made by
  \<open>CreateCA\<close>: a well-formed request is answered with a certificate, and \<open>VerifyCert\<close> accepts that certificate at
  a time \<open>t\<close> for a client \<open>cid\<close> exactly when \<open>cid\<close> is the client it was issued to and \<open>t\<close> is within the lifetime
  of both the certificate (from a second before its creation to the requested number of days after it, or
  100 days) and the CA.
\<close>

theorem issued_cert_verifies:
  assumes "crypto_ok (cv_crypto E)" "keygen_ok (cv_gen E)"
    and "ca_request_ok (cv_x509 E) t0 cn d0"
    and "\<And>p. x509_creates (cv_crypto E) (cv_x509 E) (CA_template (cv_x509 E) t0 cn d0) (CA_template (cv_x509 E) t0 cn d0)
      (cy_Public (cv_crypto E) p) p"
    and "CreateCA (cv_crypto E) (cv_x509 E) (cv_gen E) t0 cn d0 = Returns (ca, caKey)"
    and "NewCertsService (cv_crypto E) ca (Some caKey) = Returns svc"
    and "cert_request_ok (cv_crypto E) (cv_x509 E) now req"
    and "\<And>pub priv. x509_creates (cv_crypto E) (cv_x509 E) (request_template (cv_x509 E) now req) (cv_caCert svc) pub priv"
  shows "\<exists>certPEM. cert_call E svc [ContextArg sender, ValueArg req] now =
        (Returns [ValueResult (CreateCertResp certPEM (cv_caCertPEM svc)), NilResult], now)
      \<and> (\<forall>t cid. CertsService_VerifyCert E svc t cid certPEM = None \<longleftrightarrow>
           cid = request_id req
           \<and> floor_second (now - second) \<le> t \<and> t \<le> floor_second (x5_AddDays (cv_x509 E) now (request_days req))
           \<and> floor_second (t0 - 3 * second) \<le> t \<and> t \<le> floor_second (x5_AddDays (cv_x509 E) t0 d0))"
proof -
  let ?L = "cv_crypto E" and ?X = "cv_x509 E" and ?t = "request_template (cv_x509 E) now req"
  obtain root where ca: "ca = Some root" "is_hub_ca ?L root caKey" "x5_ParseCertificate ?X (x_Raw root) = Inr root"
    "x_NotBefore root = floor_second (t0 - 3 * second)" "x_NotAfter root = floor_second (x5_AddDays ?X t0 d0)"
    by (rule CreateCA_makes_ca [OF assms(1-4)]) (use assms(5) in auto)
  then obtain y where y: "hk_priv caKey = Some (EcdsaPriv y)" by (auto simp: is_hub_ca_def)
  have svc: "cv_caCert svc = root" "cv_caKey svc = caKey" "cv_caCertPool svc = [root]"
    using assms(6) ca(1) by (auto simp: NewCertsService_def split: if_splits)
  obtain x where x: "cy_ParsePKIX ?L (fst (RsaKey_importDer ?L (request_pubkey req))) = Inr (EcdsaPub x)"
    using assms(7) by (auto simp: cert_request_ok_def)
  obtain c where c: "create_and_parse ?X ?t root (Some (EcdsaPub x)) (Some (EcdsaPriv y)) = Inr c"
    "x5_ParseCertificate ?X (x_Raw c) = Inr c" "cert_from ?t root (EcdsaPub x) c" "x5_SignatureOK ?X c (cy_Public ?L (EcdsaPriv y))"
    using x509_createsE [OF assms(8) [unfolded svc] request_template_ok [OF assms(7) ca(2) y]] by metis
  note t = request_template_fields [OF assms(7)]
  have "CertsService_VerifyCert E svc t cid (X509CertToPEM ?L c) = None \<longleftrightarrow>
      cid = request_id req \<and> cert_in_time t c \<and> cert_in_time t root" for t cid
    using cert_Verify_issued [OF ca(2) y ca(3) c(3,4,2) t(4,5)] CertFromPEM_ToPEM [OF assms(1) c(2)] c(3) t(1)
    by (auto simp: CertsService_VerifyCert_def svc cert_from_def)
  then show ?thesis
    using cert_call_creates [OF assms(1,2,7) x, of svc c] c(1,3) t(2,3) ca(4,5) y
    by (intro exI [of _ "X509CertToPEM ?L c"]) (simp add: svc cert_in_time_def cert_from_def)
qed

text \<open>
  A library for the witness: a certificate is encoded as the public key of its holder, and its fields are
  those of two templates.
\<close>

abbreviation demo_time :: int where "demo_time \<equiv> 1700000000 * second"

abbreviation demo_request :: cert_message where "demo_request \<equiv> CreateDeviceCertArgs ''dev1'' ''PXEd'' 0"

definition demo_add_days :: "int \<Rightarrow> int \<Rightarrow> int" where
  "demo_add_days t d = t + d * 86400 * second"

definition demo_x509_0 :: x509_lib where
  "demo_x509_0 = \<lparr>x5_CreateCertificate = (\<lambda>t parent pub priv. case pub of
       Some (EcdsaPub x) \<Rightarrow> Inr ((if x_IsCA t then CHR ''A'' else CHR ''B'') # x) | _ \<Rightarrow> Inl ErrKeyFormat),
     x5_ParseCertificate = (\<lambda>der. Inl ErrKeyFormat),
     x5_SignatureOK = (\<lambda>c pk. pk = (if hd (x_Raw c) = CHR ''A'' then EcdsaPub (tl (x_Raw c)) else EcdsaPub ''ca'')),
     x5_ParseIP = (\<lambda>h. if h = ''127.0.0.1'' then Some h else None), x5_AddDays = demo_add_days\<rparr>"

definition demo_ca_template :: x509_cert where
  "demo_ca_template = CA_template demo_x509_0 demo_time ''hub'' 365"

definition demo_dev_template :: x509_cert where
  "demo_dev_template = request_template demo_x509_0 demo_time demo_request"

fun demo_parse :: "string \<Rightarrow> go_error + x509_cert" where
  "demo_parse [] = Inl ErrKeyFormat"
| "demo_parse (k # x) =
     (let t = (if k = CHR ''A'' then demo_ca_template else demo_dev_template) in
      Inr (t\<lparr>x_Raw := k # x, x_Issuer := x_Subject demo_ca_template, x_NotBefore := floor_second (x_NotBefore t),
        x_NotAfter := floor_second (x_NotAfter t), x_PublicKey := Some (EcdsaPub x)\<rparr>))"

definition demo_cert_env :: cert_env where
  "demo_cert_env = \<lparr>cv_crypto = demo_crypto, cv_x509 = demo_x509_0\<lparr>x5_ParseCertificate := demo_parse\<rparr>, cv_gen = demo_gen ''ca''\<rparr>"

lemmas demo_cert_defs = demo_cert_env_def demo_x509_0_def demo_ca_template_def demo_dev_template_def CA_template_def
  client_cert_template_def zero_cert_def

lemma demo_creates_ca:
  "x509_creates demo_crypto (cv_x509 demo_cert_env) (CA_template (cv_x509 demo_cert_env) demo_time ''hub'' 365)
     (CA_template (cv_x509 demo_cert_env) demo_time ''hub'' 365) (cy_Public demo_crypto p) p"
  by (cases p) (auto simp: x509_creates_def cert_from_def demo_cert_defs demo_crypto_def)

definition demo_certs :: CertsService where
  "demo_certs = (case demo_parse ''Aca'' of Inr ca \<Rightarrow> \<lparr>cv_caCert = ca, cv_caCertPEM = X509CertToPEM demo_crypto ca,
     cv_caKey = complete_key demo_crypto KeyTypeECDSA (EcdsaPriv ''ca'') (EcdsaPub ''ca''), cv_caCertPool = [ca]\<rparr>)"

lemma demo_creates_dev:
  "x509_creates demo_crypto (cv_x509 demo_cert_env) (request_template (cv_x509 demo_cert_env) demo_time demo_request)
     (cv_caCert demo_certs) pub priv"
  unfolding x509_creates_def
proof (clarify)
  fix x y
  assume "template_ok demo_crypto (request_template (cv_x509 demo_cert_env) demo_time demo_request) (cv_caCert demo_certs) (EcdsaPriv y)"
  then have "y = ''ca''" by (simp add: template_ok_def demo_certs_def Let_def demo_crypto_def)
  then show "\<exists>der c. x5_CreateCertificate (cv_x509 demo_cert_env) (request_template (cv_x509 demo_cert_env) demo_time demo_request)
        (cv_caCert demo_certs) (Some (EcdsaPub x)) (Some (EcdsaPriv y)) = Inr der
      \<and> x5_ParseCertificate (cv_x509 demo_cert_env) der = Inr c \<and> x_Raw c = der
      \<and> cert_from (request_template (cv_x509 demo_cert_env) demo_time demo_request) (cv_caCert demo_certs) (EcdsaPub x) c
      \<and> x5_SignatureOK (cv_x509 demo_cert_env) c (cy_Public demo_crypto (EcdsaPriv y))"
    by (intro exI [of _ "CHR ''B'' # x"] exI [of _ "projr (demo_parse (CHR ''B'' # x))"])
      (simp add: cert_from_def demo_cert_defs demo_crypto_def demo_certs_def)
qed

theorem issued_cert_verifies_witness:
  "\<exists>certPEM. cert_call demo_cert_env demo_certs [ContextArg ''admin'', ValueArg demo_request] demo_time =
        (Returns [ValueResult (CreateCertResp certPEM (cv_caCertPEM demo_certs)), NilResult], demo_time)
      \<and> CertsService_VerifyCert demo_cert_env demo_certs (demo_time + second) ''dev1'' certPEM = None
      \<and> CertsService_VerifyCert demo_cert_env demo_certs (demo_time + second) ''dev2'' certPEM \<noteq> None
      \<and> CertsService_VerifyCert demo_cert_env demo_certs (demo_time + 101 * 86400 * second) ''dev1'' certPEM \<noteq> None"
proof -
  have env: "cv_crypto demo_cert_env = demo_crypto" "cv_gen demo_cert_env = demo_gen ''ca''"
    by (simp_all add: demo_cert_env_def)
  have ca: "ca_request_ok (cv_x509 demo_cert_env) demo_time ''hub'' 365"
    by (simp add: ca_request_ok_def encodable_time_def demo_cert_defs demo_add_days_def ascii_def)
  have made: "CreateCA (cv_crypto demo_cert_env) (cv_x509 demo_cert_env) (cv_gen demo_cert_env) demo_time ''hub'' 365 =
      Returns (Some (cv_caCert demo_certs), cv_caKey demo_certs)"
    by (simp add: CreateCA_def NewKey_def IHiveKey_Initialize_def demo_gen_def demo_cert_defs demo_crypto_def create_and_parse_def
        demo_certs_def complete_key_def Let_def)
  have svc: "NewCertsService (cv_crypto demo_cert_env) (Some (cv_caCert demo_certs)) (Some (cv_caKey demo_certs)) = Returns demo_certs"
    by (simp add: NewCertsService_def env demo_certs_def Let_def)
  have req: "cert_request_ok (cv_crypto demo_cert_env) (cv_x509 demo_cert_env) demo_time demo_request"
    by (simp add: cert_request_ok_def encodable_time_def demo_cert_defs demo_add_days_def ascii_def demo_crypto_def demo_pkix_def
        RsaKey_importDer_def)
  have days: "x5_AddDays (cv_x509 demo_cert_env) = demo_add_days" by (simp add: demo_cert_env_def demo_x509_0_def)
  obtain pem where pem: "cert_call demo_cert_env demo_certs [ContextArg ''admin'', ValueArg demo_request] demo_time =
        (Returns [ValueResult (CreateCertResp pem (cv_caCertPEM demo_certs)), NilResult], demo_time)"
    "\<And>t cid. CertsService_VerifyCert demo_cert_env demo_certs t cid pem = None \<longleftrightarrow> cid = request_id demo_request
       \<and> floor_second (demo_time - second) \<le> t \<and> t \<le> floor_second (demo_add_days demo_time (request_days demo_request))
       \<and> floor_second (demo_time - 3 * second) \<le> t \<and> t \<le> floor_second (demo_add_days demo_time 365)"
    using issued_cert_verifies [OF demo_crypto_ok [folded env(1)] demo_gen_ok [of "''ca''", folded env(2)] ca
        demo_creates_ca [folded env(1)] made svc req demo_creates_dev [folded env(1)], of "''admin''"]
    unfolding days by blast
  show ?thesis
    by (intro exI [of _ pem] conjI, rule pem(1)) (simp_all only: pem(2) not_False_eq_True,
      simp_all add: demo_add_days_def floor_second_def)
qed

section \<open>The client\<close>

definition certs_running ::
  "(go_error \<Rightarrow> string) \<Rightarrow> cert_env \<Rightarrow> CertsService \<Rightarrow> (cert_message, int) HubClient \<Rightarrow> int NatsTransport
     \<Rightarrow> (string \<Rightarrow> string option \<Rightarrow> int \<Rightarrow> (go_error + nats_msg) \<times> int) \<Rightarrow> ('c, int) cert_link \<Rightarrow> bool" where
  "certs_running error_text E svc agent nt Request cl \<longleftrightarrow> hc_clientID agent = CertsServiceName
     \<and> rpc_connected error_text ManageCertsCapability (CertsService_methods E svc) agent nt Request cl"

definition cert_keeps :: "cert_message serializer \<Rightarrow> cert_message \<Rightarrow> bool" where
  "cert_keeps ser v \<longleftrightarrow> snd (ser_Marshal ser v) = None \<and> ser_Unmarshal ser (cert_message_type v) (fst (ser_Marshal ser v)) = Inr v"

definition cert_method_of :: "cert_message \<Rightarrow> string" where
  "cert_method_of v = (case v of CreateDeviceCertArgs _ _ _ \<Rightarrow> CreateDeviceCertMethod | CreateServiceCertArgs _ _ _ _ \<Rightarrow> CreateServiceCertMethod
     | CreateUserCertArgs _ _ _ \<Rightarrow> CreateUserCertMethod | _ \<Rightarrow> VerifyCertMethod)"

lemma cert_rpc_is_call:
  assumes "certs_running error_text E svc agent nt Request (tp, ser, client)" "\<And>e. error_text e \<noteq> []"
    "cert_keeps ser req" "cert_message_type req < 4"
  shows "cert_rpc (tp, ser, client) (cert_method_of req) req resp now =
    rpc_outcome error_text ser resp (call_result ser (cert_call E svc [ContextArg (hc_clientID client), ValueArg req] now))"
proof -
  have c: "rpc_connected error_text ManageCertsCapability (CertsService_methods E svc) agent nt Request (tp, ser, client)"
    and a: "hc_clientID agent = CertsServiceName" using assms(1) by (auto simp: certs_running_def)
  have m: "mget (CertsService_methods E svc) (cert_method_of req) =
      Some \<lparr>rm_params = [ContextParam, ValueParam (cert_message_type req)], rm_call = cert_call E svc\<rparr>"
    using assms(4) by (cases req) (simp_all add: CertsService_methods_def cert_method_of_def cert_method_def)
  have tok: "list_all nats_token [hc_clientID agent, ManageCertsCapability, cert_method_of req]"
    using a by (cases req) (simp_all add: address_token_def cert_method_of_def)
  show ?thesis
    using rpc_value_call [OF c assms(2) m tok] assms(3) a by (simp add: cert_rpc_def cert_keeps_def)
qed

text \<open>What a client is told about a certificate, and the certificate it gets, are the service's.\<close>

lemma CertsClient_VerifyCert_local:
  assumes "certs_running error_text E svc agent nt Request (tp, ser, client)" "\<And>e. error_text e \<noteq> []"
    "cert_keeps ser (VerifyCertArgs cid pem)"
  shows "CertsClient_VerifyCert (tp, ser, client) cid pem now = (remote error_text (CertsService_VerifyCert E svc now cid pem), now)"
  using cert_rpc_is_call [OF assms] by (simp add: CertsClient_VerifyCert_def cert_method_of_def)

lemma CertsClient_Create_local:
  assumes "certs_running error_text E svc agent nt Request (tp, ser, client)" "\<And>e. error_text e \<noteq> []"
    and "cert_keeps ser req" "cert_message_type req < 3" "cert_keeps ser (CreateCertResp pem ca)"
    and "cert_call E svc [ContextArg (hc_clientID client), ValueArg req] now =
      (Returns [ValueResult (CreateCertResp pem ca), NilResult], now)"
  shows "cert_create_result (cert_rpc (tp, ser, client) (cert_method_of req) req (Some 4) now) = ((pem, ca, None), now)"
  using cert_rpc_is_call [OF assms(1-3), of "Some 4" now] assms(4-6)
    rpc_outcome_value [of ser "CreateCertResp pem ca" 4 error_text None now]
  by (simp add: cert_create_result_def cert_keeps_def remote_def)

section \<open>Persistence and errors\<close>

text \<open>A service that is started from the files of a CA works with that CA.\<close>

lemma certs_main_loads:
  assumes "crypto_ok (cv_crypto E)" "keygen_ok (cv_gen E)" "x5_ParseCertificate (cv_x509 E) (x_Raw ca) = Inr ca" "x_PublicKey ca \<noteq> None"
    and "wf_ecdsa (cv_crypto E) caKey" "IHiveKey_ExportPrivate (cv_crypto E) caKey = Returns enc"
    and "fs (path_Join d ''caCert.pem'') = Some (X509CertToPEM (cv_crypto E) ca)" "fs (path_Join d ''caKey.pem'') = Some enc"
  shows "\<exists>svc. certs_main E fs d = Returns svc \<and> cv_caCert svc = ca \<and> cv_caKey svc = caKey \<and> cv_caCertPool svc = [ca]"
proof -
  have "NewKeyFromFile (cv_crypto E) (cv_gen E) fs (path_Join d ''caKey.pem'') = Returns (Some caKey, None)"
    using ecdsa.reload [OF assms(1,2,5)] assms(6,8) by (auto simp: NewKeyFromFile_def os_ReadFile_def)
  then show ?thesis
    using CertFromPEM_ToPEM [OF assms(1,3)] assms(4,7)
    by (simp add: certs_main_def LoadX509CertFromPEM_def os_ReadFile_def NewCertsService_def)
qed

text \<open>\<open>CreateClientCert\<close> with the default validity makes a certificate that has expired.\<close>

lemma CreateClientCert_default_expired:
  assumes "\<And>t pub priv. x509_creates L X t ca pub priv" "is_hub_ca L ca caKey"
    "hk_pub k = Some (EcdsaPub x)" "ascii cn" "ascii ou" "10 * second \<le> now" "encodable_time now"
  shows "\<exists>c. CreateClientCert X now cn ou 0 k ca caKey = Inr c \<and> x_NotAfter c = floor_second now"
proof -
  obtain y where y: "hk_priv caKey = Some (EcdsaPriv y)" using assms(2) by (auto simp: is_hub_ca_def)
  define t where "t = zero_cert
            \<lparr>x_SerialNumber := time_Unix now - 2,
             x_Subject := \<lparr>pn_Country = [''CA''], pn_Province = [''BC''], pn_Locality = [''local''],
                pn_Organization = [''hiveot''], pn_OrganizationalUnit = [ou], pn_CommonName = cn\<rparr>,
             x_NotBefore := now - 10 * second, x_NotAfter := now,
             x_KeyUsage := [KeyUsageDigitalSignature], x_ExtKeyUsage := [ExtKeyUsageClientAuth],
             x_BasicConstraintsValid := True, x_IsCA := False\<rparr>"
  have "ascii ''hiveot''" by (simp add: ascii_def)
  then have ok: "template_ok L t ca (EcdsaPriv y)"
    using assms(2,4-7) y time_Unix_lower [of 10 now]
    by (auto simp: template_ok_def t_def zero_cert_def name_ok_def encodable_time_def is_hub_ca_def)
  obtain c where "create_and_parse X t ca (Some (EcdsaPub x)) (Some (EcdsaPriv y)) = Inr c" "cert_from t ca (EcdsaPub x) c"
    using x509_createsE [OF assms(1) ok] by metis
  then show ?thesis
    using assms(3) y by (intro exI [of _ c]) (simp add: CreateClientCert_def t_def wrap64_def cert_from_def)
qed

text \<open>A certificate that cannot be read makes \<open>certs.VerifyCert\<close> panic; the service reports the error.\<close>

lemma unreadable_cert:
  assumes "X509CertFromPEM (cv_crypto E) (cv_x509 E) pem = Inl e"
  shows "certs_VerifyCert (cv_crypto E) (cv_x509 E) now pem (Some ca) = Panics NilDereference"
    and "CertsService_VerifyCert E svc now cid pem = Some e"
  using assms by (simp_all add: certs_VerifyCert_def CertsService_VerifyCert_def)

end
