(* ===== verification/TlsProps.thy ===== *)
theory TlsProps
  imports TlsClient CertsProps
begin

text \<open>
  Client and server together: what a client authenticates with is what the server's authenticators read, a handler
  that needs authentication runs for authenticated users only, and clients of one process share the TLS
  configuration of the default transport.
\<close>

section \<open>A connection\<close>

text \<open>
  The TLS layer, as far as it is documented: a client offers its certificate when it is issued by the CA that the
  server accepts, and the server verifies it; a client that checks the server verifies the server's
  certificate. \<open>hostOK\<close> stands for the check of the host name, \<open>route\<close> for the router.
\<close>

definition tls_peers :: "x509_lib \<Rightarrow> int \<Rightarrow> x509_cert \<Rightarrow> tls_config \<Rightarrow> go_error + x509_cert list" where
  "tls_peers X now ca cfg =
     (case tf_Certificates cfg of
        [] \<Rightarrow> Inr []
      | c # _ \<Rightarrow>
          (case tc_Certificate c of
             [] \<Rightarrow> Inr []
           | der # _ \<Rightarrow>
               (case x5_ParseCertificate X der of
                  Inl e \<Rightarrow> Inl e
                | Inr x \<Rightarrow>
                    if x_Issuer x \<noteq> x_Subject ca then Inr []
                    else (case cert_Verify X now [ca] [ExtKeyUsageClientAuth] x of None \<Rightarrow> Inr [x] | Some e \<Rightarrow> Inl e))))"

definition server_trusted :: "x509_lib \<Rightarrow> int \<Rightarrow> bool \<Rightarrow> 'st TLSServer \<Rightarrow> tls_config \<Rightarrow> bool" where
  "server_trusted X now hostOK srv cfg \<longleftrightarrow> tf_InsecureSkipVerify cfg \<or> hostOK
     \<and> (case ts_serverCert srv of
          None \<Rightarrow> False
        | Some c \<Rightarrow>
            (case tc_Certificate c of
               [] \<Rightarrow> False
             | der # _ \<Rightarrow>
                 (case x5_ParseCertificate X der of
                    Inl _ \<Rightarrow> False | Inr x \<Rightarrow> cert_Verify X now (tf_RootCAs cfg) [ExtKeyUsageServerAuth] x = None)))"

definition https_server ::
  "x509_lib \<Rightarrow> int \<Rightarrow> bool \<Rightarrow> (string \<Rightarrow> string) \<Rightarrow> x509_cert \<Rightarrow> 'st TLSServer \<Rightarrow> 'st network" where
  "https_server X now hostOK route ca srv cfg req st =
     (if \<not> server_trusted X now hostOK srv cfg then (Inl ErrUnknownAuthority, st)
      else case tls_peers X now ca cfg of
        Inl e \<Rightarrow> (Inl e, st)
      | Inr peers \<Rightarrow>
          (case map_of (ts_routes srv) (route (rq_URL req)) of
             None \<Rightarrow> (Inr (HttpStatus 404 ''404 page not found''), st)
           | Some h \<Rightarrow> (case h (ts_authenticator srv) (req\<lparr>rq_PeerCertificates := peers\<rparr>) st of (r, st1) \<Rightarrow> (Inr r, st1))))"

section \<open>What the server reads is what the client wrote\<close>

lemma lower_literals [simp]:
  "strings_ToLower ''bearer'' = ''bearer''" "strings_ToLower ''Basic '' = ''basic ''" "strings_ToLower ''Basic'' = ''basic''"
  "strings_ToLower ''bearer'' \<noteq> ''basic''" "strings_ToLower ''Basic'' \<noteq> ''bearer''"
  by (code_simp)+

definition b64_ok :: "http_lib \<Rightarrow> bool" where
  "b64_ok H \<longleftrightarrow> (\<forall>s. hl_b64_Decode H (hl_b64_Encode H s) = Some s)"

lemma basic_roundtrip:
  assumes "b64_ok H" "CHR '':'' \<notin> set user" "rq_Authorization req = ''Basic '' @ hl_b64_Encode H (user @ '':'' @ pw)"
  shows "http_BasicAuth H req = Some (user, pw)"
proof -
  have "takeWhile (\<lambda>x. x \<noteq> CHR '':'') (user @ '':'' @ pw) = user" "dropWhile (\<lambda>x. x \<noteq> CHR '':'') (user @ '':'' @ pw) = '':'' @ pw"
    using assms(2) by (induction user) auto
  then show ?thesis
    using assms(1,3) by (simp add: http_BasicAuth_def b64_ok_def del: lower_literals) (simp add: lower_literals(2) [simplified])
qed

lemma basic_not_bearer:
  assumes "rq_Authorization req = ''Basic '' @ x"
  shows "\<exists>e. GetBearerToken req = Inl e"
proof -
  have "strings_Split (''Basic '' @ x) (CHR '' '') = ''Basic'' # strings_Split x (CHR '' '')"
    by (cases "strings_Split x (CHR '' '')") simp_all
  then show ?thesis using assms lower_literals(3) by (auto simp: GetBearerToken_def split: list.split)
qed

lemma bearer_roundtrip:
  assumes "CHR '' '' \<notin> set token" "rq_Authorization req = ''bearer '' @ token"
  shows "GetBearerToken req = Inr token" "http_BasicAuth H req = None"
proof -
  have "strings_Split (''bearer '' @ token) (CHR '' '') = [''bearer'', token]"
    using strings_Split_nosep [OF assms(1)] by simp
  then show "GetBearerToken req = Inr token" using assms(2) lower_literals(1) by (simp add: GetBearerToken_def)
  have "strings_ToLower ''bearer'' \<noteq> ''basic ''" by code_simp
  then show "http_BasicAuth H req = None" using assms(2) by (simp add: http_BasicAuth_def)
qed

section \<open>Credentials\<close>

datatype credential = CertCredential tls_cert | TokenCredential string string | PasswordCredential string string

definition connect_as ::
  "x509_lib \<Rightarrow> int \<Rightarrow> credential \<Rightarrow> TLSClient \<Rightarrow> 'w http_world \<Rightarrow> (go_error option \<times> TLSClient \<times> 'w http_world) outcome" where
  "connect_as X now cred cl w =
     (case cred of
        CertCredential c \<Rightarrow> TLSClient_ConnectWithClientCert X now (Some c) cl w
      | TokenCredential loginID token \<Rightarrow> Returns (None, TLSClient_ConnectWithJwtAccessToken loginID token cl w)
      | PasswordCredential user pw \<Rightarrow> Returns (None, TLSClient_ConnectWithBasicAuth user pw cl w))"

text \<open>Tokens have no spaces and user names no colons.\<close>

fun credential_ok :: "credential \<Rightarrow> bool" where
  "credential_ok (CertCredential c) = True"
| "credential_ok (TokenCredential loginID token) = (token \<noteq> [] \<and> CHR '' '' \<notin> set token)"
| "credential_ok (PasswordCredential user pw) = (user \<noteq> [] \<and> pw \<noteq> [] \<and> CHR '':'' \<notin> set user)"

definition cert_user :: "x509_cert \<Rightarrow> string" where
  "cert_user x = (if pn_CommonName (x_Subject x) = ''plugin'' then [] else pn_CommonName (x_Subject x))"

text \<open>The user that a credential is valid for at the server.\<close>

definition credential_user ::
  "http_lib \<Rightarrow> x509_lib \<Rightarrow> int \<Rightarrow> x509_cert \<Rightarrow> pubkey \<Rightarrow> (string \<Rightarrow> string \<Rightarrow> bool) \<Rightarrow> credential \<Rightarrow> string option" where
  "credential_user H X now ca key verify cred =
     (case cred of
        CertCredential c \<Rightarrow>
          (case tls_peers X now ca \<lparr>tf_RootCAs = [], tf_Certificates = [c], tf_InsecureSkipVerify = False\<rparr> of
             Inr (x # _) \<Rightarrow> Some (cert_user x) | _ \<Rightarrow> None)
      | TokenCredential loginID token \<Rightarrow> (case JWTAuthenticator_DecodeToken H key token of Inr u \<Rightarrow> Some u | Inl _ \<Rightarrow> None)
      | PasswordCredential user pw \<Rightarrow> if verify user pw then Some user else None)"

text \<open>What a client makes of the response.\<close>

definition invoke_result :: "string \<Rightarrow> string \<Rightarrow> http_response \<times> 'st \<Rightarrow> 'st http_world \<Rightarrow> (go_error + string) \<times> 'st http_world" where
  "invoke_result meth url r w =
     (case r of
        (HttpStatus code m, s) \<Rightarrow> (if code \<ge> 400 then Inl (ErrInvoke meth url (ErrHttpStatus code m)) else Inr m, w\<lparr>hw_world := s\<rparr>)
      | (HttpBody b, s) \<Rightarrow> (Inr b, w\<lparr>hw_world := s\<rparr>))"

definition sent_request :: "http_lib \<Rightarrow> ('v \<Rightarrow> string) \<Rightarrow> TLSClient \<Rightarrow> string \<Rightarrow> string \<Rightarrow> 'v http_msg \<Rightarrow> x509_cert list \<Rightarrow> http_request" where
  "sent_request H marshal cl meth url msg peers = \<lparr>rq_Method = meth, rq_URL = url, rq_Authorization = auth_header H cl,
     rq_Query = [], rq_PeerCertificates = peers, rq_Body = request_body marshal msg\<rparr>"

text \<open>A server with the three authenticators and a handler that needs authentication.\<close>

definition guarded_route ::
  "http_lib \<Rightarrow> pubkey \<Rightarrow> (string \<Rightarrow> string \<Rightarrow> bool) \<Rightarrow> (string \<Rightarrow> string) \<Rightarrow> string \<Rightarrow> string \<Rightarrow> (string \<Rightarrow> 'st http_handler) \<Rightarrow> 'st TLSServer \<Rightarrow> bool" where
  "guarded_route H key verify route url path handler srv \<longleftrightarrow>
     ts_authenticator srv = \<lparr>ha_CertAuth = True, ha_JwtAuth = Some key, ha_BasicAuth = Some verify\<rparr>
     \<and> map_of (ts_routes srv) (route url) = Some (authenticated_handler H path handler)"

lemma tls_peers_cong: "tf_Certificates cfg = tf_Certificates cfg' \<Longrightarrow> tls_peers X now ca cfg = tls_peers X now ca cfg'"
  by (simp add: tls_peers_def)

text \<open>The outcome of a request, by the result of the handshake.\<close>

lemma Invoke_handled:
  assumes "tl_started cl" "badURL url = None" "meth \<noteq> ''OPTIONS''" "guarded_route H key verify route url path handler srv"
    "server_trusted X now hostOK srv (hw_TLSClientConfig w)" "tls_peers X now ca (hw_TLSClientConfig w) = Inr peers"
    "HttpAuthenticator_AuthenticateRequest H (ts_authenticator srv) (sent_request H marshal cl meth url msg peers) = (u, True)"
  shows "TLSClient_Invoke H marshal badURL (https_server X now hostOK route ca srv) cl meth url msg w =
    invoke_result meth url (handler u (sent_request H marshal cl meth url msg peers) (hw_world w)) w"
proof -
  let ?req = "sent_request H marshal cl meth url msg"
  have route: "map_of (ts_routes srv) (route url) = Some (authenticated_handler H path handler)"
    using assms(4) by (simp add: guarded_route_def)
  have peers: "(?req [])\<lparr>rq_PeerCertificates := peers\<rparr> = ?req peers" "rq_URL (?req []) = url" "rq_Method (?req peers) = meth"
    by (simp_all add: sent_request_def)
  have "https_server X now hostOK route ca srv (hw_TLSClientConfig w) (?req []) (hw_world w) =
      (case handler u (?req peers) (hw_world w) of (r, s) \<Rightarrow> (Inr r, s))"
    unfolding https_server_def using assms(3,5-7) route peers by (simp add: authenticated_handler_def)
  then show ?thesis
    using assms(1,2) unfolding TLSClient_Invoke_def invoke_result_def sent_request_def
    by (cases "handler u (?req peers) (hw_world w)"; cases "fst (handler u (?req peers) (hw_world w))") (simp_all add: sent_request_def)
qed

lemma Invoke_refused:
  assumes "tl_started cl" "badURL url = None" "meth \<noteq> ''OPTIONS''" "guarded_route H key verify route url path handler srv"
    "case tls_peers X now ca (hw_TLSClientConfig w) of Inl _ \<Rightarrow> True | Inr peers \<Rightarrow>
       \<not> snd (HttpAuthenticator_AuthenticateRequest H (ts_authenticator srv) (sent_request H marshal cl meth url msg peers))"
  shows "\<exists>e. TLSClient_Invoke H marshal badURL (https_server X now hostOK route ca srv) cl meth url msg w = (Inl e, w)"
proof (cases "tls_peers X now ca (hw_TLSClientConfig w)")
  case (Inl e)
  then show ?thesis using assms(1,2) by (simp add: TLSClient_Invoke_def https_server_def)
next
  case (Inr peers)
  obtain u b where auth: "HttpAuthenticator_AuthenticateRequest H (ts_authenticator srv) (sent_request H marshal cl meth url msg peers) = (u, b)"
    by fastforce
  with assms(5) Inr have "\<not> b" by simp
  with auth have "authenticated_handler H path handler (ts_authenticator srv) (sent_request H marshal cl meth url msg peers) (hw_world w)
      = (WriteForbidden (''TLSServer.HandleFunc '' @ path @ '': User '' @ u @ '' is unauthorized''), hw_world w)"
    using assms(3) by (simp add: authenticated_handler_def sent_request_def)
  then show ?thesis
    using assms(1,2,4) Inr
    by (simp add: TLSClient_Invoke_def https_server_def guarded_route_def sent_request_def WriteForbidden_def)
qed

lemma authenticate_order:
  assumes "ts_authenticator srv = \<lparr>ha_CertAuth = True, ha_JwtAuth = Some key, ha_BasicAuth = Some verify\<rparr>"
  shows "rq_PeerCertificates req = x # xs \<Longrightarrow> HttpAuthenticator_AuthenticateRequest H (ts_authenticator srv) req = (cert_user x, True)"
    "rq_PeerCertificates req = [] \<Longrightarrow> GetBearerToken req = Inr token
       \<Longrightarrow> JWTAuthenticator_DecodeToken H key token = Inr u \<Longrightarrow> HttpAuthenticator_AuthenticateRequest H (ts_authenticator srv) req = (u, True)"
    "rq_PeerCertificates req = [] \<Longrightarrow> GetBearerToken req = Inr token
       \<Longrightarrow> JWTAuthenticator_DecodeToken H key token = Inl e
       \<Longrightarrow> HttpAuthenticator_AuthenticateRequest H (ts_authenticator srv) req = BasicAuthenticator_AuthenticateRequest H verify req"
    "rq_PeerCertificates req = [] \<Longrightarrow> GetBearerToken req = Inl e
       \<Longrightarrow> HttpAuthenticator_AuthenticateRequest H (ts_authenticator srv) req = BasicAuthenticator_AuthenticateRequest H verify req"
  using assms by (simp_all add: HttpAuthenticator_AuthenticateRequest_def CertAuthenticator_AuthenticateRequest_def
      JWTAuthenticator_AuthenticateRequest_def cert_user_def)

text \<open>What connecting leaves behind.\<close>

lemma connect_as_result:
  assumes "connect_as X t0 cred (NewTLSClient hostPort serverCA) w0 = Returns (None, cl, w)"
  shows "tl_started cl" "hw_world w = hw_world w0"
    "tf_Certificates (hw_TLSClientConfig w) = (case cred of CertCredential c \<Rightarrow> [c] | _ \<Rightarrow> [])"
    "credential_ok cred \<Longrightarrow> auth_header H cl = (case cred of CertCredential c \<Rightarrow> []
       | TokenCredential loginID token \<Rightarrow> ''bearer '' @ token
       | PasswordCredential user pw \<Rightarrow> ''Basic '' @ hl_b64_Encode H (user @ '':'' @ pw))"
  using assms
  by (auto simp: connect_as_def NewTLSClient_def TLSClient_ConnectWithClientCert_def TLSClient_ConnectWithJwtAccessToken_def
      TLSClient_ConnectWithBasicAuth_def TLSClient_connect_def auth_header_def
      split: credential.splits option.splits if_splits list.splits)

section \<open>Theorems\<close>



subsection \<open>A server and two clients\<close>

definition demo_http :: http_lib where
  "demo_http = \<lparr>hl_b64_Encode = id, hl_b64_Decode = Some, hl_jwt_Parse = (\<lambda>k t. if t = ''tok'' then Inr (True, ''carol'') else Inl ErrUnmarshal)\<rparr>"

definition demo_verify :: "string \<Rightarrow> string \<Rightarrow> bool" where
  "demo_verify u p \<longleftrightarrow> u = ''bob'' \<and> p = ''pw''"

text \<open>A handler that answers with the user and records it.\<close>

definition who_handler :: "string \<Rightarrow> string list http_handler" where
  "who_handler u req st = (HttpBody u, u # st)"

definition demo_tls_server :: "string list TLSServer" where
  "demo_tls_server = TLSServer_AddHandler demo_http ''/who'' who_handler (TLSServer_EnableBasicAuth demo_verify
     ((NewTLSServer ''hub'' 8443 None None)\<lparr>ts_authenticator := HttpAuthenticator_EnableJwtAuth (EcdsaPub ''k'') NewHttpAuthenticator\<rparr>))"

lemma demo_guarded: "guarded_route demo_http (EcdsaPub ''k'') demo_verify (\<lambda>u. ''/who'') url ''/who'' who_handler demo_tls_server"
  by (simp add: guarded_route_def demo_tls_server_def TLSServer_AddHandler_def TLSServer_EnableBasicAuth_def NewTLSServer_def
      HttpAuthenticator_EnableBasicAuth_def HttpAuthenticator_EnableJwtAuth_def NewHttpAuthenticator_def)

lemma demo_b64: "b64_ok demo_http"
  by (simp add: b64_ok_def demo_http_def)

abbreviation demo_world :: "string list http_world" where
  "demo_world \<equiv> \<lparr>hw_TLSClientConfig = \<lparr>tf_RootCAs = [], tf_Certificates = [], tf_InsecureSkipVerify = False\<rparr>, hw_world = []\<rparr>"

abbreviation open_config :: "tls_cert list \<Rightarrow> tls_config" where
  "open_config cs \<equiv> \<lparr>tf_RootCAs = [], tf_Certificates = cs, tf_InsecureSkipVerify = True\<rparr>"

definition demo_post :: "TLSClient \<Rightarrow> string list http_world \<Rightarrow> (go_error + string) \<times> string list http_world" where
  "demo_post cl w = TLSClient_Invoke demo_http id (\<lambda>u. None)
     (https_server (cv_x509 demo_cert_env) (demo_time + second) True (\<lambda>u. ''/who'') (cv_caCert demo_certs) demo_tls_server) cl ''POST'' ''u'' NoMsg w"

abbreviation bob :: TLSClient where
  "bob \<equiv> NewTLSClient ''hub:8443'' None\<lparr>tl_userID := ''bob'', tl_basicSecret := ''pw'', tl_started := True\<rparr>"

lemma bob_connects:
  "connect_as X t (PasswordCredential ''bob'' ''pw'') (NewTLSClient ''hub:8443'' None) w = Returns (None, bob, w\<lparr>hw_TLSClientConfig := open_config []\<rparr>)"
  by (simp add: connect_as_def TLSClient_ConnectWithBasicAuth_def NewTLSClient_def TLSClient_connect_def)


abbreviation dev_cert :: tls_cert where "dev_cert \<equiv> \<lparr>tc_Certificate = [''Bd''], tc_PrivateKey = None\<rparr>"

lemma dev_connects:
  "connect_as X t (CertCredential dev_cert) (NewTLSClient ''hub:8443'' None) w =
     Returns (None, NewTLSClient ''hub:8443'' None\<lparr>tl_clientCert := Some dev_cert, tl_started := True\<rparr>, w\<lparr>hw_TLSClientConfig := open_config [dev_cert]\<rparr>)"
  by (simp add: connect_as_def TLSClient_ConnectWithClientCert_def NewTLSClient_def)

lemma dev_user:
  "credential_user demo_http (cv_x509 demo_cert_env) (demo_time + second) (cv_caCert demo_certs) (EcdsaPub ''k'') demo_verify (CertCredential dev_cert)
     = Some ''dev1''"
  by (simp add: credential_user_def tls_peers_def demo_cert_defs demo_certs_def cert_Verify_def cert_in_time_def cert_chains_def signed_by_def
      usage_allowed_def cert_user_def floor_second_def demo_add_days_def Let_def)


section \<open>Bounds of the page parameters and origins\<close>

text \<open>The limit is at most the default limit, and both are 32 bit; neither has a lower bound of zero.\<close>

lemma GetQueryLimitOffset_bounds:
  assumes "TLSServer_GetQueryLimitOffset req dl = (limit, offset, err)" "0 < dl" "dl \<le> 2147483647"
  shows "limit \<le> dl \<and> -2147483648 \<le> limit \<and> -2147483648 \<le> offset \<and> offset \<le> 2147483647"
proof -
  have int: "(\<exists>e. TLSServer_GetQueryInt r n d = (v, e)) \<Longrightarrow> v = d \<or> (-2147483648 \<le> v \<and> v \<le> 2147483647)" for r n d v
    by (auto simp: TLSServer_GetQueryInt_def strconv_ParseInt32_def split: option.splits list.splits prod.splits if_splits)
  obtain v e where v: "TLSServer_GetQueryInt req ''limit'' dl = (v, e)" by fastforce
  obtain o' e' where o': "TLSServer_GetQueryInt req ''offset'' 0 = (o', e')" by fastforce
  show ?thesis
    using assms int [of req "''limit''" dl v] int [of req "''offset''" 0 o'] v o'
    by (auto simp: TLSServer_GetQueryLimitOffset_def split: option.splits if_splits)
qed

lemma GetQueryLimitOffset_negative:
  "TLSServer_GetQueryLimitOffset (req\<lparr>rq_Query := [(''limit'', [''-5'']), (''offset'', [''-7''])]\<rparr>) 100 = (-5, -7, None)"
proof -
  have "strconv_ParseInt ''-5'' = (-5, False)" "strconv_ParseInt ''-7'' = (-7, False)" by code_simp+
  then show ?thesis by (simp add: TLSServer_GetQueryLimitOffset_def TLSServer_GetQueryInt_def strconv_ParseInt32_def)
qed

text \<open>A server without an address allows every origin that uses TLS.\<close>

lemma AllowOriginFunc_no_address:
  "AllowOriginFunc (NewTLSServer [] port cert ca) (''https://'' @ host)"
  by (simp add: AllowOriginFunc_def NewTLSServer_def strings_HasPrefix_def)

end
