(* ===== verification/ProvHttp.thy ===== *)
theory ProvHttp
  imports Provisioning TlsProps
begin

text \<open>
  Provisioning over HTTPS: \<open>done_mod/mod_prov/prov_srv/IdProvHttpServer.go\<close> and \<open>IdProvService.go\<close>, and the
  client of \<open>prov_cli/SubmitIdProvRequest.go\<close>, composed with the TLS client and server and with the management
  service. JSON is a parameter.
\<close>

section \<open>The server\<close>

record prov_json =
  pj_args_Unmarshal :: "string \<Rightarrow> go_error + ProvisionRequestArgs"
  pj_args_Marshal :: "ProvisionRequestArgs \<Rightarrow> string"
  pj_resp_Unmarshal :: "string \<Rightarrow> go_error + ProvisionRequestResp"
  pj_resp_Marshal :: "ProvisionRequestResp \<Rightarrow> string"

text \<open>A request is bad, refused with 406, or answered.\<close>

definition IdProvHttpServer_handleRequest ::
  "'a auth_client \<Rightarrow> prov_json \<Rightarrow> ('a ManageIdProvService \<Rightarrow> int) \<Rightarrow> 'a ManageIdProvService http_handler" where
  "IdProvHttpServer_handleRequest A J clock req mng =
     (case pj_args_Unmarshal J (rq_Body req) of
        Inl _ \<Rightarrow> (HttpStatus 400 [], mng)
      | Inr args \<Rightarrow>
          (case ManageIdProvService_SubmitRequest A (clock mng) args mng of
             (Inl _, mng1) \<Rightarrow> (HttpStatus 406 [], mng1)
           | (Inr resp, mng1) \<Rightarrow> (HttpBody (pj_resp_Marshal J resp), mng1)))"

abbreviation ProvisionRequestPath :: string where "ProvisionRequestPath \<equiv> ''/idprov/request''"

text \<open>The server listens on all addresses: its own address is empty. The handler reads the clock at each request,
  which may show another time each time.\<close>

definition StartIdProvHttpServer ::
  "go_error option \<Rightarrow> 'a auth_client \<Rightarrow> prov_json \<Rightarrow> ('a ManageIdProvService \<Rightarrow> int) \<Rightarrow> nat \<Rightarrow> tls_cert option \<Rightarrow> x509_cert option
     \<Rightarrow> 'a ManageIdProvService TLSServer \<times> go_error option" where
  "StartIdProvHttpServer listenErr A J clock port serverCert caCert =
     (let srv = TLSServer_AddHandlerNoAuth ProvisionRequestPath (IdProvHttpServer_handleRequest A J clock)
                  (NewTLSServer [] port serverCert caCert)
      in (srv, TLSServer_Start listenErr srv))"

section \<open>The service\<close>

record 'a IdProvService =
  ip_port :: nat
  ip_serverCert :: "tls_cert option"
  ip_caCert :: "x509_cert option"
  ip_mng :: "'a ManageIdProvService option"
  ip_httpServer :: "'a ManageIdProvService TLSServer option"

definition NewIdProvService :: "nat \<Rightarrow> tls_cert option \<Rightarrow> x509_cert option \<Rightarrow> 'a IdProvService" where
  "NewIdProvService port serverCert caCert =
     \<lparr>ip_port = port, ip_serverCert = serverCert, ip_caCert = caCert, ip_mng = None, ip_httpServer = None\<rparr>"

definition StartManageIdProvService :: "'a \<Rightarrow> 'a ManageIdProvService" where
  "StartManageIdProvService auth = \<lparr>pr_requests = [], pr_auth = auth\<rparr>"

text \<open>\<open>permErr\<close> is the result of setting the permissions at the auth service.\<close>

definition IdProvService_Start ::
  "go_error option \<Rightarrow> go_error option \<Rightarrow> 'a auth_client \<Rightarrow> prov_json \<Rightarrow> ('a ManageIdProvService \<Rightarrow> int) \<Rightarrow> 'a \<Rightarrow> 'a IdProvService \<Rightarrow> go_error option \<times> 'a IdProvService" where
  "IdProvService_Start permErr listenErr A J clock auth svc =
     (let svc1 = svc\<lparr>ip_mng := Some (StartManageIdProvService auth)\<rparr> in
      case permErr of
        Some e \<Rightarrow> (Some e, svc1)
      | None \<Rightarrow>
          (case StartIdProvHttpServer listenErr A J clock (ip_port svc1) (ip_serverCert svc1) (ip_caCert svc1) of
             (srv, err) \<Rightarrow> (err, svc1\<lparr>ip_httpServer := Some srv\<rparr>)))"

definition IdProvService_Stop :: "'a IdProvService \<Rightarrow> 'a IdProvService" where
  "IdProvService_Stop svc = svc\<lparr>ip_httpServer := None, ip_mng := None\<rparr>"

section \<open>The client\<close>

text \<open>The error of the request is overwritten by that of reading the response, which is then empty.\<close>

definition SubmitIdProvRequest ::
  "http_lib \<Rightarrow> prov_json \<Rightarrow> (string \<Rightarrow> go_error option) \<Rightarrow> 'w network \<Rightarrow> string \<Rightarrow> string \<Rightarrow> string \<Rightarrow> TLSClient \<Rightarrow> 'w http_world
     \<Rightarrow> (go_error + ProvisionRequestResp) \<times> 'w http_world" where
  "SubmitIdProvRequest H J badURL Do clientID pubKey mac cl w =
     (case TLSClient_Post H (\<lambda>u. []) badURL Do cl ProvisionRequestPath
            (TextMsg (pj_args_Marshal J \<lparr>pa_ClientID = clientID, pa_MAC = mac, pa_PubKey = pubKey\<rparr>) :: unit http_msg) w of
        (r, w1) \<Rightarrow> (pj_resp_Unmarshal J (case r of Inl _ \<Rightarrow> [] | Inr respData \<Rightarrow> respData), w1))"

section \<open>A device that asks for provisioning\<close>

text \<open>
  A device that submits a provisioning request over HTTPS, without any authentication, to a provisioning service that is
  running gets the answer of the management service to that request, and the service is left as the management service leaves
  it; when the request is refused, the device gets an error, which is that of reading an empty response.
\<close>

lemma provisioning_over_https:
  assumes "IdProvService_Start None None A J clock auth (NewIdProvService port (Some serverCert) (Some ca)) = (None, svc)"
    and "ip_httpServer svc = Some srv" "TLSClient_ConnectNoAuth (NewTLSClient hostPort serverCA) w0 = (cl, w)"
    and "server_trusted X t hostOK srv (hw_TLSClientConfig w)" "badURL (https_url cl ProvisionRequestPath) = None"
    and "route (https_url cl ProvisionRequestPath) = ProvisionRequestPath"
    and "ManageIdProvService_SubmitRequest A (clock (hw_world w)) \<lparr>pa_ClientID = c, pa_MAC = mac, pa_PubKey = pk\<rparr> (hw_world w) = (r, mng)"
    and "pj_args_Unmarshal J (pj_args_Marshal J \<lparr>pa_ClientID = c, pa_MAC = mac, pa_PubKey = pk\<rparr>) = Inr \<lparr>pa_ClientID = c, pa_MAC = mac, pa_PubKey = pk\<rparr>"
    and "\<And>resp. r = Inr resp \<Longrightarrow> pj_resp_Unmarshal J (pj_resp_Marshal J resp) = Inr resp"
  shows "SubmitIdProvRequest H J badURL (https_server X t hostOK route ca srv) c pk mac cl w =
    (case r of Inl _ \<Rightarrow> pj_resp_Unmarshal J [] | Inr resp \<Rightarrow> Inr resp, w\<lparr>hw_world := mng\<rparr>)"
proof -
  have srv: "ts_routes srv = [(ProvisionRequestPath, \<lambda>ha. IdProvHttpServer_handleRequest A J clock)]"
    using assms(1,2) by (auto simp: IdProvService_Start_def NewIdProvService_def StartIdProvHttpServer_def TLSServer_Start_def
        NewTLSServer_def TLSServer_AddHandlerNoAuth_def Let_def)
  have cl: "tl_started cl" "tls_peers X t ca (hw_TLSClientConfig w) = Inr []"
    using assms(3) by (auto simp: TLSClient_ConnectNoAuth_def TLSClient_connect_def tls_peers_def)
  show ?thesis
    using assms(4-9) cl srv
    by (cases r) (simp_all add: SubmitIdProvRequest_def TLSClient_Post_def TLSClient_Invoke_def https_server_def request_body_def
        IdProvHttpServer_handleRequest_def)
qed

definition demo_prov_json :: prov_json where
  "demo_prov_json = \<lparr>pj_args_Unmarshal = (\<lambda>s. if s = ''a'' then Inr demo_args else Inl ErrUnmarshal), pj_args_Marshal = (\<lambda>a. ''a''),
     pj_resp_Unmarshal = (\<lambda>s. if s = ''r'' then Inr \<lparr>pq_Status = (the (mget (pr_requests demo_prov) ''dev1''))\<lparr>ps_ReceivedMSE := 30\<rparr>, pq_Token = ''tok''\<rparr>
        else Inl ErrUnmarshal), pj_resp_Marshal = (\<lambda>a. ''r'')\<rparr>"

text \<open>An approved device gets its token.\<close>

lemma provisioning_over_https_witness:
  "\<exists>resp. fst (SubmitIdProvRequest demo_http demo_prov_json (\<lambda>u. None)
      (https_server demo_x509_0 40 True (\<lambda>u. ProvisionRequestPath) demo_ca_template
         (fst (StartIdProvHttpServer None demo_auth demo_prov_json (\<lambda>svc. 30) 4443 (Some dev_cert) (Some demo_ca_template)))) ''dev1'' ''key1'' ''m1''
      (NewTLSClient ''hub'' None\<lparr>tl_started := True\<rparr>) \<lparr>hw_TLSClientConfig = open_config [], hw_world = demo_prov\<rparr>) = Inr resp
    \<and> pq_Token resp = ''tok''"
proof -
  let ?w = "\<lparr>hw_TLSClientConfig = open_config [], hw_world = demo_prov\<rparr>"
  let ?srv = "fst (StartIdProvHttpServer None demo_auth demo_prov_json (\<lambda>svc. 30) 4443 (Some dev_cert) (Some demo_ca_template))"
  define svc where "svc = snd (IdProvService_Start None None demo_auth demo_prov_json (\<lambda>svc. 30) 0 (NewIdProvService 4443 (Some dev_cert) (Some demo_ca_template)))"
  have start: "IdProvService_Start None None demo_auth demo_prov_json (\<lambda>svc. 30) 0 (NewIdProvService 4443 (Some dev_cert) (Some demo_ca_template)) = (None, svc)"
    "ip_httpServer svc = Some ?srv"
    by (simp_all add: svc_def IdProvService_Start_def NewIdProvService_def StartIdProvHttpServer_def TLSServer_Start_def
        NewTLSServer_def TLSServer_AddHandlerNoAuth_def Let_def)
  have con: "TLSClient_ConnectNoAuth (NewTLSClient ''hub'' None) ?w = (NewTLSClient ''hub'' None\<lparr>tl_started := True\<rparr>, ?w)"
    by (simp add: TLSClient_ConnectNoAuth_def NewTLSClient_def TLSClient_connect_def)
  let ?resp = "\<lparr>pq_Status = (the (mget (pr_requests demo_prov) ''dev1''))\<lparr>ps_ReceivedMSE := 30\<rparr>, pq_Token = ''tok''\<rparr>"
  obtain mng where sub: "ManageIdProvService_SubmitRequest demo_auth 30 demo_args demo_prov = (Inr ?resp, mng)"
    by (simp add: ManageIdProvService_SubmitRequest_def demo_prov_eq submit_denied_def Let_def)
  have "SubmitIdProvRequest demo_http demo_prov_json (\<lambda>u. None) (https_server demo_x509_0 40 True (\<lambda>u. ProvisionRequestPath) demo_ca_template ?srv)
      ''dev1'' ''key1'' ''m1'' (NewTLSClient ''hub'' None\<lparr>tl_started := True\<rparr>) ?w = (Inr ?resp, ?w\<lparr>hw_world := mng\<rparr>)"
    using provisioning_over_https [OF start con, where r = "Inr ?resp" and mng = mng and X = demo_x509_0 and t = 40 and hostOK = True
      and badURL = "\<lambda>u. None" and route = "\<lambda>u. ProvisionRequestPath" and c = "''dev1''" and mac = "''m1''" and pk = "''key1''" and H = demo_http]
      sub by (simp add: server_trusted_def demo_prov_json_def)
  then show ?thesis by simp
qed

end
