(* ===== verification/HubConnect.thy ===== *)
theory HubConnect
  imports HubClient KeysProps
begin

text \<open>
  Connecting to the hub: the key and token files of \<open>done_cli/cli_done/HubClient.go\<close>
  (\<open>LoadCreateKeyPair\<close>, \<open>ConnectWithTokenFile\<close>, \<open>ConnectWithToken\<close>, \<open>ConnectWithPassword\<close>),
  \<open>ConnectToHub.go\<close>, and the connect functions of \<open>transport/NatsTransport.go\<close>. The NATS client
  library is the record \<open>nats_client\<close>: \<open>nats.Connect\<close> is told the credentials, which are the
  part of its options that differs between the functions.
\<close>

abbreviation TokenFileExt :: string where "TokenFileExt \<equiv> ''.token''"
abbreviation KPFileExt :: string where "KPFileExt \<equiv> ''.key''"
abbreviation PubKeyFileExt :: string where "PubKeyFileExt \<equiv> ''.pub''"

section \<open>Key files\<close>

text \<open>The errors of removing and writing the key file and of writing the public key file.\<close>

record key_file_env =
  kf_Remove :: "go_error option"
  kf_WriteKey :: "go_error option"
  kf_WritePub :: "go_error option"

text \<open>
  \<open>hcID\<close> is the client's own login ID; \<open>gen\<close> is the source of random keys. A key file that cannot
  be loaded is replaced by a new nkey, the key pair of the NATS transport.
\<close>

definition HubClient_LoadCreateKeyPair ::
  "crypto_lib \<Rightarrow> keygen \<Rightarrow> key_file_env \<Rightarrow> string \<Rightarrow> string \<Rightarrow> string \<Rightarrow> filesys
     \<Rightarrow> ((HiveKey option \<times> go_error option) \<times> filesys) outcome" where
  "HubClient_LoadCreateKeyPair L gen E hcID clientID keysDir fs =
     (if keysDir = [] then Returns ((None, Some ErrCertsDir), fs)
      else
        (let cid = or_default clientID hcID;
             keyFile = path_Join keysDir (cid @ KPFileExt);
             pubFile = path_Join keysDir (cid @ PubKeyFileExt)
         in and_then (NewKeyFromFile L gen fs keyFile) (\<lambda>(kp, err).
              case err of
                None \<Rightarrow> Returns ((kp, None), fs)
              | Some _ \<Rightarrow>
                  and_then (IHiveKey_Initialize L gen KeyTypeNKey) (\<lambda>k.
                  and_then (IHiveKey_ExportPrivateToFile L (kf_Remove E) (kf_WriteKey E) keyFile k fs) (\<lambda>(err1, fs1).
                  and_then (IHiveKey_ExportPublicToFile L (kf_WritePub E) pubFile k fs1) (\<lambda>(err2, fs2).
                    Returns ((Some k, if err2 \<noteq> None then err2 else err1), fs2)))))))"

section \<open>The NATS transport\<close>

datatype nats_creds = UserJWTAndSeed string privkey | Nkey privkey | UserInfo string string

record nats_client =
  nl_jwt_Decode :: "string \<Rightarrow> go_error option"
  nl_Connect :: "string \<Rightarrow> nats_creds \<Rightarrow> go_error option"  \<comment> \<open>server URL and credentials\<close>
  nl_JetStream :: "go_error option"

text \<open>The connection of a transport: none, or one that was made with these credentials.\<close>

record nats_conn =
  cn_serverURL :: string
  cn_clientID :: string
  cn_nc :: "nats_creds option"

definition nats_dial :: "nats_client \<Rightarrow> nats_creds \<Rightarrow> nats_conn \<Rightarrow> go_error option \<times> nats_conn" where
  "nats_dial N creds nt =
     (case nl_Connect N (cn_serverURL nt) creds of
        Some err \<Rightarrow> (Some err, nt\<lparr>cn_nc := None\<rparr>)
      | None \<Rightarrow> (nl_JetStream N, nt\<lparr>cn_nc := Some creds\<rparr>))"

definition NatsTransport_ConnectWithJWT ::
  "nats_client \<Rightarrow> privkey \<Rightarrow> string \<Rightarrow> nats_conn \<Rightarrow> go_error option \<times> nats_conn" where
  "NatsTransport_ConnectWithJWT N myKey jwtToken nt = nats_dial N (UserJWTAndSeed jwtToken myKey) nt"

definition NatsTransport_ConnectWithKey ::
  "nats_client \<Rightarrow> privkey option \<Rightarrow> nats_conn \<Rightarrow> go_error option \<times> nats_conn" where
  "NatsTransport_ConnectWithKey N myKey nt =
     (case myKey of
        None \<Rightarrow> (Some (ErrNoAuthKey (cn_clientID nt)), nt)
      | Some k \<Rightarrow> nats_dial N (Nkey k) nt)"

definition NatsTransport_ConnectWithPassword ::
  "nats_client \<Rightarrow> string \<Rightarrow> nats_conn \<Rightarrow> go_error option \<times> nats_conn" where
  "NatsTransport_ConnectWithPassword N password nt = nats_dial N (UserInfo (cn_clientID nt) password) nt"

text \<open>The key is asserted to be an nkey; a token that is not a JWT means login with the nkey itself.\<close>

definition NatsTransport_ConnectWithToken ::
  "nats_client \<Rightarrow> HiveKey option \<Rightarrow> string \<Rightarrow> nats_conn \<Rightarrow> (go_error option \<times> nats_conn) outcome" where
  "NatsTransport_ConnectWithToken N keyPair token nt =
     (case keyPair of
        None \<Rightarrow> Panics NilDereference
      | Some k \<Rightarrow>
          (case hk_priv k of
             Some (NKeyPair x) \<Rightarrow>
               Returns (if nl_jwt_Decode N token \<noteq> None
                        then NatsTransport_ConnectWithKey N (Some (NKeyPair x)) nt
                        else NatsTransport_ConnectWithJWT N (NKeyPair x) token nt)
           | _ \<Rightarrow> Panics TypeAssertion))"

definition NatsTransport_Disconnect :: "nats_conn \<Rightarrow> nats_conn" where
  "NatsTransport_Disconnect nt = nt\<lparr>cn_nc := None\<rparr>"

definition NewNatsTransport :: "string \<Rightarrow> string \<Rightarrow> string \<Rightarrow> nats_conn" where
  "NewNatsTransport defaultURL url clientID =
     \<lparr>cn_serverURL = or_default url defaultURL, cn_clientID = clientID, cn_nc = None\<rparr>"

section \<open>The hub client\<close>

definition HubClient_ConnectWithToken ::
  "nats_client \<Rightarrow> HiveKey option \<Rightarrow> string \<Rightarrow> nats_conn \<Rightarrow> (go_error option \<times> HiveKey option \<times> nats_conn) outcome" where
  "HubClient_ConnectWithToken N kp jwtToken nt =
     and_then (NatsTransport_ConnectWithToken N kp jwtToken nt) (\<lambda>(err, nt'). Returns (err, kp, nt'))"

definition HubClient_ConnectWithTokenFile ::
  "nats_client \<Rightarrow> crypto_lib \<Rightarrow> keygen \<Rightarrow> filesys \<Rightarrow> string \<Rightarrow> nats_conn
     \<Rightarrow> (go_error option \<times> HiveKey option \<times> nats_conn) outcome" where
  "HubClient_ConnectWithTokenFile N L gen fs keysDir nt =
     (let keyFile = path_Join keysDir (cn_clientID nt @ KPFileExt);
          tokenFile = path_Join keysDir (cn_clientID nt @ TokenFileExt)
      in case os_ReadFile fs tokenFile of
           Inl err \<Rightarrow> Returns (Some (ErrTokenFile err), None, nt)
         | Inr token \<Rightarrow>
             and_then (if keyFile \<noteq> [] then NewKeyFromFile L gen fs keyFile else Returns (None, None)) (\<lambda>(kp, err).
               case err of
                 Some e \<Rightarrow> Returns (Some (ErrTokenFile e), None, nt)
               | None \<Rightarrow> and_then (NatsTransport_ConnectWithToken N kp token nt) (\<lambda>(err, nt'). Returns (err, kp, nt'))))"

text \<open>
  \<open>ConnectToHub\<close>: \<open>LocateHub\<close> is the result of the discovery, \<open>loadCA\<close> the error of loading the CA
  certificate. A client is only returned when it is connected.
\<close>

definition ConnectToHub ::
  "nats_client \<Rightarrow> crypto_lib \<Rightarrow> keygen \<Rightarrow> filesys \<Rightarrow> string \<Rightarrow> string \<Rightarrow> (string \<Rightarrow> go_error option) \<Rightarrow> string \<Rightarrow> string
     \<Rightarrow> string \<Rightarrow> string \<Rightarrow> (nats_conn option \<times> go_error option) outcome" where
  "ConnectToHub N L gen fs defaultURL LocateHub loadCA fullURL clientID certDir password =
     (let url = or_default fullURL LocateHub in
      if clientID = [] then Returns (None, Some ErrMissingClientID)
      else case loadCA (path_Join certDir ''caCert.pem'') of
        Some err \<Rightarrow> Returns (None, Some err)
      | None \<Rightarrow>
          (let nt = NewNatsTransport defaultURL url clientID in
           and_then (if password \<noteq> []
                     then (case NatsTransport_ConnectWithPassword N password nt of (err, nt') \<Rightarrow> Returns (err, None, nt'))
                     else HubClient_ConnectWithTokenFile N L gen fs certDir nt)
             (\<lambda>(err, kp, nt'). Returns (if err \<noteq> None then (None, err) else (Some nt', None)))))"

section \<open>Properties\<close>

lemma names_differ [simp]: "cid @ KPFileExt \<noteq> cid @ PubKeyFileExt" "cid @ KPFileExt \<noteq> cid @ TokenFileExt"
  "cid @ PubKeyFileExt \<noteq> cid @ KPFileExt" "cid @ TokenFileExt \<noteq> cid @ KPFileExt"
  by simp_all

lemma plain_ext [simp]:
  "plain_name cid \<Longrightarrow> plain_name (cid @ KPFileExt)"
  "plain_name cid \<Longrightarrow> plain_name (cid @ PubKeyFileExt)"
  "plain_name cid \<Longrightarrow> plain_name (cid @ TokenFileExt)"
  by auto

text \<open>A key that is saved is what later calls load.\<close>

lemma load_saved_key:
  assumes L: "crypto_ok L" "keygen_ok gen" and k: "wf_nkey L k" and ks: "keysDir \<noteq> []" "plain_name cid"
    and saved: "IHiveKey_ExportPrivate L k = Returns s" "fs (path_Join keysDir (cid @ KPFileExt)) = Some s"
  shows "NewKeyFromFile L gen fs (path_Join keysDir (cid @ KPFileExt)) = Returns (Some k, None)"
  using nkey.reload [OF L k] saved by (auto simp: NewKeyFromFile_def os_ReadFile_def)

lemma nkey_exports:
  assumes "crypto_ok L" "wf_nkey L k"
  shows "\<exists>s p. IHiveKey_ExportPrivate L k = Returns s \<and> IHiveKey_ExportPublic L k = Returns p"
  using assms nkey.export_returns [OF assms]
  by (auto simp: nkey.dispatch_export [OF nkey.wf_kind] IHiveKey_ExportPublic_def NKeysKey_ExportPublic_def wf_nkey_def complete_key_def)

text \<open>
  A key pair that was created and saved without an error is loaded by every later call, also after
  the files of other clients have changed: the key and public key files hold its two encodings.
\<close>

lemma LoadCreate_creates:
  assumes L: "crypto_ok L" "keygen_ok gen" and ks: "keysDir \<noteq> []" "plain_name cid"
    and new: "fs (path_Join keysDir (cid @ KPFileExt)) = None"
    and run: "HubClient_LoadCreateKeyPair L gen E hcID cid keysDir fs = Returns ((kp, None), fs')"
  obtains k s p where "kp = Some k" "wf_nkey L k"
    "IHiveKey_ExportPrivate L k = Returns s" "IHiveKey_ExportPublic L k = Returns p"
    "fs' (path_Join keysDir (cid @ KPFileExt)) = Some s" "fs' (path_Join keysDir (cid @ PubKeyFileExt)) = Some p"
proof -
  have cid: "or_default cid hcID = cid" using ks(2) by (auto simp: or_default_def plain_name_def)
  obtain k where k: "IHiveKey_Initialize L gen KeyTypeNKey = Returns k" "wf_nkey L k"
    using nkey.initialize_wf [OF L] by blast
  obtain s p where sp: "IHiveKey_ExportPrivate L k = Returns s" "IHiveKey_ExportPublic L k = Returns p"
    using nkey_exports [OF L(1) k(2)] by blast
  have ne: "path_Join keysDir (cid @ PubKeyFileExt) \<noteq> path_Join keysDir (cid @ KPFileExt)"
    using ks by (simp add: path_Join_inject)
  have "NewKeyFromFile L gen fs (path_Join keysDir (cid @ KPFileExt)) = Returns (None, Some (ErrLib ''no such file or directory''))"
    using new by (simp add: NewKeyFromFile_def os_ReadFile_def)
  with run have "kp = Some k \<and> fs' (path_Join keysDir (cid @ KPFileExt)) = Some s
      \<and> fs' (path_Join keysDir (cid @ PubKeyFileExt)) = Some p"
    using ks(1) cid k(1) sp ne
    by (auto simp: HubClient_LoadCreateKeyPair_def Let_def IHiveKey_ExportPrivateToFile_def
        IHiveKey_ExportPublicToFile_def os_WriteFile_def split: option.splits if_splits)
  with k sp that show thesis by blast
qed

text \<open>
  A key pair that is created and saved without an error is persistent: every later call, in
  another process and with other random keys, loads the same key pair and changes no file.
\<close>
lemma LoadCreateKeyPair_persistent:
  assumes "crypto_ok L" "keygen_ok gen" "keygen_ok gen'" "keysDir \<noteq> []" "plain_name cid"
    "fs (path_Join keysDir (cid @ KPFileExt)) = None"
    "HubClient_LoadCreateKeyPair L gen E hcID cid keysDir fs = Returns ((kp, None), fs')"
  shows "kp \<noteq> None \<and> HubClient_LoadCreateKeyPair L gen' E' hcID' cid keysDir fs' = Returns ((kp, None), fs')"
proof -
  obtain k s where k: "kp = Some k" "wf_nkey L k" "IHiveKey_ExportPrivate L k = Returns s"
      "fs' (path_Join keysDir (cid @ KPFileExt)) = Some s"
    using LoadCreate_creates [OF assms(1,2,4,5,6,7)] by metis
  have "or_default cid hcID' = cid" using assms(5) by (auto simp: or_default_def plain_name_def)
  with load_saved_key [where fs = fs', OF assms(1,3) k(2) assms(4,5) k(3,4)] k(1) assms(4)
  show ?thesis by (simp add: HubClient_LoadCreateKeyPair_def Let_def)
qed

definition files_ok :: key_file_env where
  "files_ok = \<lparr>kf_Remove = None, kf_WriteKey = None, kf_WritePub = None\<rparr>"

lemma LoadCreateKeyPair_persistent_witness:
  "HubClient_LoadCreateKeyPair demo_crypto (demo_gen ''b'') files_ok ''x'' ''hist'' ''/certs''
       [''/certs/hist.key'' \<mapsto> ''SUa'', ''/certs/hist.pub'' \<mapsto> ''Ua'']
     = Returns ((Some \<lparr>hk_type = KeyTypeNKey, hk_priv = Some (NKeyPair ''a''), hk_pub = Some (NKeyPub ''Ua'')\<rparr>, None),
         [''/certs/hist.key'' \<mapsto> ''SUa'', ''/certs/hist.pub'' \<mapsto> ''Ua''])"
proof -
  have j: "path_Join ''/certs'' (''hist'' @ KPFileExt) = ''/certs/hist.key''"
      "path_Join ''/certs'' (''hist'' @ PubKeyFileExt) = ''/certs/hist.pub''"
    by (simp_all add: path_Join_def path_Clean_def path_rooted_def clean_elems.simps(2))
  have "HubClient_LoadCreateKeyPair demo_crypto (demo_gen ''a'') files_ok ''launcher'' ''hist'' ''/certs'' Map.empty
     = Returns ((Some \<lparr>hk_type = KeyTypeNKey, hk_priv = Some (NKeyPair ''a''), hk_pub = Some (NKeyPub ''Ua'')\<rparr>, None),
         [''/certs/hist.key'' \<mapsto> ''SUa'', ''/certs/hist.pub'' \<mapsto> ''Ua''])"
    using j by (simp add: HubClient_LoadCreateKeyPair_def or_default_def NewKeyFromFile_def os_ReadFile_def
        IHiveKey_Initialize_def demo_gen_def demo_crypto_def files_ok_def IHiveKey_ExportPrivateToFile_def
        IHiveKey_ExportPublicToFile_def IHiveKey_ExportPrivate_def IHiveKey_ExportPublic_def
        NKeysKey_ExportPrivate_def NKeysKey_ExportPublic_def os_WriteFile_def os_Remove_def)
  from LoadCreateKeyPair_persistent [OF demo_crypto_ok demo_gen_ok demo_gen_ok _ _ _ this] show ?thesis
    by (simp add: plain_name_def)
qed

end
