(* ===== verification/Launcher.thy ===== *)
theory Launcher
  imports HubConnect AuthClient
begin

text \<open>
  Model of the launcher, \<open>done_mod/mod_run\<close>: the plugin table and the list of started commands of
  \<open>run_srv/LauncherService.go\<close>, starting and stopping plugins (\<open>StartStopPlugins.go\<close>) and stopping a
  process (\<open>Stop.go\<close>). A \<open>PluginInfo\<close> is never removed from the table or replaced, so the pointers
  held by the goroutines that wait for a process are the plugin's name. An \<open>exec.Cmd\<close> has an
  identity of its own, \<open>cmd_ref\<close>; each started command has one goroutine in \<open>ls_waits\<close>, which
  cleans up when its process ends (\<open>plugin_exited\<close>). What the operating system answers is the
  record \<open>launch_env\<close>.
\<close>

section \<open>Data\<close>

record PluginInfo =
  pi_CPU :: int
  pi_RSS :: int
  pi_ModifiedTime :: string
  pi_Name :: string
  pi_Path :: string
  pi_PID :: int
  pi_Running :: bool
  pi_Size :: int
  pi_Status :: string
  pi_StartCount :: int
  pi_StartTimeMSE :: int
  pi_StopTimeMSE :: int
  pi_Uptime :: int

definition zero_PluginInfo :: PluginInfo where
  "zero_PluginInfo = \<lparr>pi_CPU = 0, pi_RSS = 0, pi_ModifiedTime = [], pi_Name = [], pi_Path = [], pi_PID = 0,
     pi_Running = False, pi_Size = 0, pi_Status = [], pi_StartCount = 0, pi_StartTimeMSE = 0, pi_StopTimeMSE = 0,
     pi_Uptime = 0\<rparr>"

text \<open>The logging options have no part in the behaviour that is modelled.\<close>

record LauncherConfig =
  lc_AttachStderr :: bool
  lc_AttachStdout :: bool
  lc_AutoRestart :: bool
  lc_Autostart :: "string list"
  lc_CoreBin :: string
  lc_CreatePluginCred :: bool
  lc_LogLevel :: string
  lc_LogToFile :: bool
  lc_LogPlugins :: bool

definition NewLauncherConfig :: LauncherConfig where
  "NewLauncherConfig = \<lparr>lc_AttachStderr = True, lc_AttachStdout = False, lc_AutoRestart = False, lc_Autostart = [],
     lc_CoreBin = [], lc_CreatePluginCred = True, lc_LogLevel = ''warning'', lc_LogToFile = True, lc_LogPlugins = True\<rparr>"

record exec_Cmd =
  cmd_ref :: nat
  cmd_Path :: string
  cmd_Pid :: int

record 'a LauncherService =
  ls_cfg :: LauncherConfig
  ls_BinDir :: string
  ls_PluginsDir :: string
  ls_CertsDir :: string
  ls_plugins :: "(string, PluginInfo) gomap"
  ls_cmds :: "exec_Cmd list"
  ls_waits :: "(nat \<times> string) list"  \<comment> \<open>the goroutines waiting for a command, with the plugin's name\<close>
  ls_nextCmd :: nat
  ls_hc :: bool        \<comment> \<open>the hub client is set\<close>
  ls_mngAuth :: bool   \<comment> \<open>the auth client is set\<close>
  ls_isRunning :: bool
  ls_fs :: filesys
  ls_auth :: 'a

record launch_env =
  le_crypto :: crypto_lib
  le_gen :: keygen
  le_keyFiles :: key_file_env
  le_RemoveToken :: "go_error option"
  le_WriteToken :: "go_error option"
  le_LookPath :: "string \<Rightarrow> string"
  le_Start :: "string \<Rightarrow> go_error + int"         \<comment> \<open>path to the PID\<close>
  le_now :: "string \<Rightarrow> int"
  le_early :: "string \<Rightarrow> go_error option"        \<comment> \<open>the exit error seen 100 msec after the start\<close>
  le_usage :: "int \<Rightarrow> (int \<times> int) option"       \<comment> \<open>memory and CPU of a PID\<close>
  le_text :: "go_error \<Rightarrow> string"

section \<open>Starting a plugin\<close>

definition LauncherService_updateStatus :: "(int \<Rightarrow> (int \<times> int) option) \<Rightarrow> PluginInfo \<Rightarrow> PluginInfo" where
  "LauncherService_updateStatus usage svcInfo =
     (if pi_PID svcInfo \<noteq> 0
      then (case usage (pi_PID svcInfo) of
              Some (memory, cpu) \<Rightarrow> svcInfo\<lparr>pi_RSS := memory, pi_CPU := cpu\<rparr>
            | None \<Rightarrow> svcInfo\<lparr>pi_CPU := 0, pi_RSS := 0\<rparr>)
      else svcInfo)"

text \<open>\<open>exec.Command\<close> looks a name without a separator up in the search path.\<close>

definition exec_Command_Path :: "(string \<Rightarrow> string) \<Rightarrow> string \<Rightarrow> string" where
  "exec_Command_Path lookPath name = (if slash \<in> set name then name else lookPath name)"

text \<open>
  Step 4 of \<open>_startPlugin\<close>: add the plugin as a service client and save its token. Errors are
  logged and do not stop the start; a nil key pair or client is dereferenced.
\<close>

definition add_plugin_client ::
  "'a auth_client \<Rightarrow> launch_env \<Rightarrow> string \<Rightarrow> 'a LauncherService \<Rightarrow> unit outcome \<times> 'a LauncherService" where
  "add_plugin_client A E pluginName svc =
     (if \<not> ls_hc svc then (Panics NilDereference, svc)
      else
        (case HubClient_LoadCreateKeyPair (le_crypto E) (le_gen E) (le_keyFiles E) [] pluginName (ls_CertsDir svc) (ls_fs svc) of
           Panics p \<Rightarrow> (Panics p, svc)
         | Returns ((pluginKP, _), fs1) \<Rightarrow>
             (let svc1 = svc\<lparr>ls_fs := fs1\<rparr> in
              case pluginKP of
                None \<Rightarrow> (Panics NilDereference, svc1)
              | Some k \<Rightarrow>
                  (case IHiveKey_ExportPublic (le_crypto E) k of
                     Panics p \<Rightarrow> (Panics p, svc1)
                   | Returns pubKey \<Rightarrow>
                       if \<not> ls_mngAuth svc1 then (Panics NilDereference, svc1)
                       else (case ac_AddService A pluginName ''plugin'' pubKey (ls_auth svc1) of
                               (Inl err, auth) \<Rightarrow> (Returns (), svc1\<lparr>ls_auth := auth\<rparr>)
                             | (Inr token, auth) \<Rightarrow>
                                 (let tokenPath = path_Join (ls_CertsDir svc1) (pluginName @ TokenFileExt)
                                  in (Returns (), svc1\<lparr>ls_auth := auth,
                                        ls_fs := snd (os_WriteFile (le_WriteToken E) tokenPath token
                                                   (os_Remove (le_RemoveToken E) tokenPath fs1))\<rparr>)))))))"

text \<open>Steps 5 and 6: start the command, record it, and leave a goroutine waiting for its end.\<close>

definition start_command ::
  "launch_env \<Rightarrow> string \<Rightarrow> PluginInfo \<Rightarrow> 'a LauncherService \<Rightarrow> (PluginInfo \<times> go_error option) \<times> 'a LauncherService" where
  "start_command E pluginName info svc =
     (case le_Start E (pi_Path info) of
        Inl e \<Rightarrow>
          (let err = ErrPluginStart pluginName e; info1 = info\<lparr>pi_Status := le_text E err\<rparr>
           in ((info1, Some err), svc\<lparr>ls_plugins := mput pluginName info1 (ls_plugins svc)\<rparr>))
      | Inr pid \<Rightarrow>
          (let cmd = \<lparr>cmd_ref = ls_nextCmd svc, cmd_Path = exec_Command_Path (le_LookPath E) (pi_Path info), cmd_Pid = pid\<rparr>;
               info1 = info\<lparr>pi_StartTimeMSE := le_now E (pi_Path info), pi_PID := pid, pi_Status := [],
                            pi_StartCount := pi_StartCount info + 1, pi_Running := True\<rparr>;
               info2 = LauncherService_updateStatus (le_usage E) info1
           in ((info2, le_early E (pi_Path info)),
               svc\<lparr>ls_plugins := mput pluginName info2 (ls_plugins svc), ls_cmds := ls_cmds svc @ [cmd],
                   ls_waits := ls_waits svc @ [(ls_nextCmd svc, pluginName)], ls_nextCmd := ls_nextCmd svc + 1\<rparr>)))"

definition LauncherService_startPlugin ::
  "'a auth_client \<Rightarrow> launch_env \<Rightarrow> string \<Rightarrow> 'a LauncherService
     \<Rightarrow> (PluginInfo \<times> go_error option) outcome \<times> 'a LauncherService" where
  "LauncherService_startPlugin A E pluginName svc =
     (case mget (ls_plugins svc) pluginName of
        None \<Rightarrow> (Returns (zero_PluginInfo, Some (ErrPluginNotFound pluginName)), svc)
      | Some pluginInfo \<Rightarrow>
          if pi_Running pluginInfo then (Returns (pluginInfo, None), svc)
          else if list_ex (\<lambda>cmd. cmd_Path cmd = pi_Path pluginInfo) (ls_cmds svc)
          then (Returns (pluginInfo, Some (ErrPluginExists (pi_Name pluginInfo))), svc)
          else (case (if pluginName \<noteq> lc_CoreBin (ls_cfg svc) then add_plugin_client A E pluginName svc
                      else (Returns (), svc)) of
                  (Panics p, svc1) \<Rightarrow> (Panics p, svc1)
                | (Returns _, svc1) \<Rightarrow>
                    (case start_command E pluginName pluginInfo svc1 of (r, svc2) \<Rightarrow> (Returns r, svc2))))"

text \<open>Start a list of plugins, keeping the last error; \<open>skip\<close> says which ones are passed over.\<close>

fun start_each ::
  "'a auth_client \<Rightarrow> launch_env \<Rightarrow> string list \<Rightarrow> go_error option \<Rightarrow> 'a LauncherService
     \<Rightarrow> go_error option outcome \<times> 'a LauncherService" where
  "start_each A E [] err svc = (Returns err, svc)"
| "start_each A E (pluginName # names) err svc =
     (if (case mget (ls_plugins svc) pluginName of Some svcInfo \<Rightarrow> pi_Running svcInfo | None \<Rightarrow> False)
      then start_each A E names err svc
      else (case LauncherService_startPlugin A E pluginName svc of
              (Panics p, svc1) \<Rightarrow> (Panics p, svc1)
            | (Returns (_, err2), svc1) \<Rightarrow> start_each A E names (if err2 \<noteq> None then err2 else err) svc1))"

text \<open>The configured plugins in their order, then the rest of the table in iteration order.\<close>

definition LauncherService_StartAllPlugins ::
  "'a auth_client \<Rightarrow> launch_env \<Rightarrow> 'a LauncherService \<Rightarrow> go_error option outcome \<times> 'a LauncherService" where
  "LauncherService_StartAllPlugins A E svc =
     (case start_each A E (lc_Autostart (ls_cfg svc)) None svc of
        (Panics p, svc1) \<Rightarrow> (Panics p, svc1)
      | (Returns err, svc1) \<Rightarrow> start_each A E (map fst (ls_plugins svc1)) err svc1)"

text \<open>The request handler; the response has the plugin's information also with an error.\<close>

definition LauncherService_StartPlugin ::
  "'a auth_client \<Rightarrow> launch_env \<Rightarrow> string \<Rightarrow> 'a LauncherService
     \<Rightarrow> (PluginInfo \<times> go_error option) outcome \<times> 'a LauncherService" where
  "LauncherService_StartPlugin A E name svc = LauncherService_startPlugin A E name svc"

section \<open>The end of a process\<close>

datatype exit_info = ExitError go_error | ExitCode int string | NoExitInfo

definition quoted :: "string \<Rightarrow> string" where
  "quoted s = CHR 0x27 # s @ [CHR 0x27]"

definition exit_status :: "(go_error \<Rightarrow> string) \<Rightarrow> string \<Rightarrow> exit_info \<Rightarrow> string" where
  "exit_status error_text pluginName x =
     ''Plugin '' @ quoted pluginName @ '' has stopped'' @
     (case x of
        ExitError e \<Rightarrow> '' with: '' @ error_text e
      | ExitCode c sys \<Rightarrow> '' with exit code '' @ strconv_FormatInt c @ '': sys='' @ quoted sys
      | NoExitInfo \<Rightarrow> '' without info'')"

fun lo_IndexOf :: "exec_Cmd list \<Rightarrow> nat \<Rightarrow> nat option" where
  "lo_IndexOf [] r = None"
| "lo_IndexOf (c # cs) r = (if cmd_ref c = r then Some 0 else map_option Suc (lo_IndexOf cs r))"

text \<open>The goroutine of command \<open>r\<close>; an index of -1 is out of range.\<close>

definition plugin_exited ::
  "(go_error \<Rightarrow> string) \<Rightarrow> (int \<Rightarrow> (int \<times> int) option) \<Rightarrow> int \<Rightarrow> exit_info \<Rightarrow> nat \<Rightarrow> string \<Rightarrow> 'a LauncherService
     \<Rightarrow> 'a LauncherService outcome" where
  "plugin_exited error_text usage now x r pluginName svc =
     (case mget (ls_plugins svc) pluginName of
        None \<Rightarrow> Panics NilDereference
      | Some info \<Rightarrow>
          (let info1 = LauncherService_updateStatus usage (info\<lparr>pi_StopTimeMSE := now, pi_Running := False,
                         pi_Status := exit_status error_text pluginName x\<rparr>)
           in case lo_IndexOf (ls_cmds svc) r of
                None \<Rightarrow> Panics IndexOutOfRange
              | Some i \<Rightarrow> Returns (svc\<lparr>ls_plugins := mput pluginName info1 (ls_plugins svc),
                     ls_waits := filter (\<lambda>w. fst w \<noteq> r) (ls_waits svc),
                     ls_cmds := take i (ls_cmds svc) @ drop (Suc i) (ls_cmds svc)\<rparr>)))"

section \<open>Stopping\<close>

text \<open>
  \<open>Stop\<close>: what the operating system answers about the process. \<open>pr_alive n\<close> says whether the n-th
  probe with signal 0 finds it running.
\<close>

record proc_env =
  pr_found :: bool
  pr_alive :: "nat \<Rightarrow> bool"
  pr_Kill :: "go_error option"

text \<open>The loop that waits up to a second: the number of probes it makes, from probe \<open>n\<close> on.\<close>

function stop_wait :: "(nat \<Rightarrow> bool) \<Rightarrow> nat \<Rightarrow> nat \<Rightarrow> nat" where
  "stop_wait alive i n =
     (if i < 1000 then (if alive n then stop_wait alive (i + 10) (n + 1) else n + 1) else n)"
  by auto
termination by (relation "measure (\<lambda>(_, i, _). 1000 - i)") auto

declare stop_wait.simps [simp del]

datatype stop_call = SendTerm | Probe | SendKill

text \<open>The result with the calls that were made on the process.\<close>

definition Stop :: "proc_env \<Rightarrow> go_error option \<times> stop_call list" where
  "Stop P =
     (if \<not> pr_found P then (None, [])
      else let n = stop_wait (pr_alive P) 0 0; calls = SendTerm # replicate (n + 1) Probe
           in if pr_alive P n then (pr_Kill P, calls @ [SendKill]) else (None, calls))"

text \<open>\<open>StopPlugin\<close>: \<open>stop\<close> is the result of stopping the PID of the plugin.\<close>

definition LauncherService_StopPlugin ::
  "(go_error \<Rightarrow> string) \<Rightarrow> (int \<Rightarrow> go_error option) \<Rightarrow> string \<Rightarrow> 'a LauncherService
     \<Rightarrow> (PluginInfo \<times> go_error option) \<times> 'a LauncherService" where
  "LauncherService_StopPlugin error_text stop name svc =
     (case mget (ls_plugins svc) name of
        None \<Rightarrow> ((zero_PluginInfo, Some (ErrPluginNotFound name)), svc)
      | Some info \<Rightarrow>
          (let err = stop (pi_PID info);
               info1 = info\<lparr>pi_Running := False,
                            pi_Status := (case err of Some e \<Rightarrow> error_text e | None \<Rightarrow> ''stopped by user'')\<rparr>
           in ((info1, err), svc\<lparr>ls_plugins := mput name info1 (ls_plugins svc)\<rparr>)))"

definition keeps_core :: "LauncherConfig \<Rightarrow> bool \<Rightarrow> exec_Cmd \<Rightarrow> bool" where
  "keeps_core cfg includingCore c \<longleftrightarrow>
     \<not> includingCore \<and> lc_CoreBin cfg \<noteq> [] \<and> strings_HasSuffix (cmd_Path c) (lc_CoreBin cfg)"

text \<open>
  The loop of \<open>StopAllPlugins\<close> over a list of commands, last one first: the PIDs that are stopped,
  in order, and the error of the last call of \<open>Stop\<close>.
\<close>

fun stop_each :: "(int \<Rightarrow> go_error option) \<Rightarrow> LauncherConfig \<Rightarrow> bool \<Rightarrow> exec_Cmd list \<Rightarrow> go_error option
    \<Rightarrow> int list \<times> go_error option" where
  "stop_each stop cfg includingCore [] err = ([], err)"
| "stop_each stop cfg includingCore (c # cs) err =
     (if keeps_core cfg includingCore c then stop_each stop cfg includingCore cs err
      else (case stop_each stop cfg includingCore cs (stop (cmd_Pid c)) of (pids, e) \<Rightarrow> (cmd_Pid c # pids, e)))"

definition LauncherService_StopAllPlugins ::
  "(int \<Rightarrow> go_error option) \<Rightarrow> bool \<Rightarrow> 'a LauncherService \<Rightarrow> int list \<times> go_error option" where
  "LauncherService_StopAllPlugins stop includingCore svc =
     stop_each stop (ls_cfg svc) includingCore (rev (ls_cmds svc)) None"

definition LauncherService_Stop ::
  "(int \<Rightarrow> go_error option) \<Rightarrow> 'a LauncherService \<Rightarrow> (int list \<times> go_error option) \<times> 'a LauncherService" where
  "LauncherService_Stop stop svc =
     (let svc1 = svc\<lparr>ls_isRunning := False\<rparr> in (LauncherService_StopAllPlugins stop True svc1, svc1))"

section \<open>The plugin table\<close>

record file_info =
  fi_Name :: string
  fi_Size :: int
  fi_Mode :: nat
  fi_ModTime :: string

text \<open>A directory entry: \<open>de_Info\<close> is \<open>None\<close> when its information cannot be read.\<close>

record dir_entry =
  de_Name :: string
  de_IsDir :: bool
  de_Info :: "file_info option"

definition LauncherService_addCore ::
  "(string \<Rightarrow> file_info option) \<Rightarrow> string \<Rightarrow> 'a LauncherService \<Rightarrow> go_error option \<times> 'a LauncherService" where
  "LauncherService_addCore stat coreBin svc =
     (if coreBin = [] then (None, svc)
      else
        (let corePath = path_Join (ls_BinDir svc) coreBin in
         case stat corePath of
           None \<Rightarrow> (Some (ErrCoreNotFound corePath), svc)
         | Some coreInfo \<Rightarrow>
             (let info = (case mget (ls_plugins svc) coreBin of
                            Some pluginInfo \<Rightarrow> pluginInfo
                          | None \<Rightarrow> zero_PluginInfo\<lparr>pi_Name := fi_Name coreInfo, pi_Path := corePath\<rparr>)
              in (None, svc\<lparr>ls_plugins := mput coreBin
                    (info\<lparr>pi_ModifiedTime := fi_ModTime coreInfo, pi_Size := fi_Size coreInfo\<rparr>) (ls_plugins svc)\<rparr>))))"

text \<open>The owner's execute permission, \<open>mode & 0100\<close>.\<close>

definition is_plugin_file :: "dir_entry \<Rightarrow> file_info \<Rightarrow> bool" where
  "is_plugin_file entry fileInfo \<longleftrightarrow> \<not> de_IsDir entry \<and> odd (fi_Mode fileInfo div 64) \<and> fi_Size fileInfo > 0"

fun add_entries :: "string \<Rightarrow> dir_entry list \<Rightarrow> (string, PluginInfo) gomap \<Rightarrow> (string, PluginInfo) gomap" where
  "add_entries folder [] plugins = plugins"
| "add_entries folder (entry # entries) plugins =
     add_entries folder entries
       (case de_Info entry of
          None \<Rightarrow> plugins
        | Some fileInfo \<Rightarrow>
            if is_plugin_file entry fileInfo
            then (let info = (case mget plugins (de_Name entry) of
                                Some pluginInfo \<Rightarrow> pluginInfo
                              | None \<Rightarrow> zero_PluginInfo\<lparr>pi_Name := de_Name entry, pi_Path := path_Join folder (de_Name entry)\<rparr>)
                  in mput (de_Name entry) (info\<lparr>pi_ModifiedTime := fi_ModTime fileInfo, pi_Size := fi_Size fileInfo\<rparr>) plugins)
            else plugins)"

definition LauncherService_addPlugins ::
  "(string \<Rightarrow> go_error + dir_entry list) \<Rightarrow> string \<Rightarrow> 'a LauncherService \<Rightarrow> go_error option \<times> 'a LauncherService" where
  "LauncherService_addPlugins readDir folder svc =
     (case readDir folder of
        Inl err \<Rightarrow> (Some err, svc)
      | Inr entries \<Rightarrow> (None, svc\<lparr>ls_plugins := add_entries folder entries (ls_plugins svc)\<rparr>))"

definition LauncherService_ScanPlugins ::
  "(string \<Rightarrow> go_error + dir_entry list) \<Rightarrow> 'a LauncherService \<Rightarrow> go_error option \<times> 'a LauncherService" where
  "LauncherService_ScanPlugins readDir svc = LauncherService_addPlugins readDir (ls_PluginsDir svc) svc"

text \<open>\<open>List\<close> refreshes the usage of the plugins it lists.\<close>

fun list_each ::
  "(int \<Rightarrow> (int \<times> int) option) \<Rightarrow> string list \<Rightarrow> (string, PluginInfo) gomap
     \<Rightarrow> PluginInfo list outcome \<times> (string, PluginInfo) gomap" where
  "list_each usage [] plugins = (Returns [], plugins)"
| "list_each usage (key # keys) plugins =
     (case mget plugins key of
        None \<Rightarrow> (Panics NilDereference, plugins)
      | Some svcInfo \<Rightarrow>
          (let info = LauncherService_updateStatus usage svcInfo in
           case list_each usage keys (mput key info plugins) of
             (r, plugins') \<Rightarrow> (and_then r (\<lambda>infos. Returns (info # infos)), plugins')))"

definition LauncherService_List ::
  "(int \<Rightarrow> (int \<times> int) option) \<Rightarrow> bool \<Rightarrow> 'a LauncherService \<Rightarrow> PluginInfo list outcome \<times> 'a LauncherService" where
  "LauncherService_List usage onlyRunning svc =
     (let keys = sort (map fst (filter (\<lambda>(key, val). \<not> onlyRunning \<or> pi_Running val) (ls_plugins svc)))
      in case list_each usage keys (ls_plugins svc) of (r, plugins) \<Rightarrow> (r, svc\<lparr>ls_plugins := plugins\<rparr>))"

section \<open>Starting the service\<close>

fun autostart_each ::
  "'a auth_client \<Rightarrow> launch_env \<Rightarrow> string list \<Rightarrow> 'a LauncherService \<Rightarrow> unit outcome \<times> 'a LauncherService" where
  "autostart_each A E [] svc = (Returns (), svc)"
| "autostart_each A E (name # names) svc =
     (case LauncherService_startPlugin A E name svc of
        (Panics p, svc1) \<Rightarrow> (Panics p, svc1)
      | (Returns _, svc1) \<Rightarrow> autostart_each A E names svc1)"

text \<open>
  \<open>Start\<close>: core, inventory, connection (\<open>connect\<close> is the error of \<open>ConnectToHub\<close>), then the
  configured plugins, whose errors are only logged.
\<close>

definition LauncherService_Start ::
  "'a auth_client \<Rightarrow> launch_env \<Rightarrow> (string \<Rightarrow> file_info option) \<Rightarrow> (string \<Rightarrow> go_error + dir_entry list)
     \<Rightarrow> go_error option \<Rightarrow> 'a LauncherService \<Rightarrow> go_error option outcome \<times> 'a LauncherService" where
  "LauncherService_Start A E stat readDir connect svc =
     (let coreBin = lc_CoreBin (ls_cfg svc) in
      case LauncherService_addCore stat coreBin (svc\<lparr>ls_isRunning := True\<rparr>) of
        (Some err, svc1) \<Rightarrow> (Returns (Some err), svc1)
      | (None, svc1) \<Rightarrow>
          (case LauncherService_ScanPlugins readDir svc1 of
             (Some err, svc2) \<Rightarrow> (Returns (Some err), svc2)
           | (None, svc2) \<Rightarrow>
               (case (if mget (ls_plugins svc2) coreBin \<noteq> None then LauncherService_startPlugin A E coreBin svc2
                      else (Returns (zero_PluginInfo, None), svc2)) of
                  (Panics p, svc3) \<Rightarrow> (Panics p, svc3)
                | (Returns (_, Some err), svc3) \<Rightarrow> (Returns (Some err), svc3)
                | (Returns (_, None), svc3) \<Rightarrow>
                    if \<not> ls_hc svc3 \<and> connect \<noteq> None then (Returns connect, svc3)
                    else (case autostart_each A E (lc_Autostart (ls_cfg svc3)) (svc3\<lparr>ls_hc := True, ls_mngAuth := True\<rparr>) of
                            (Panics p, svc4) \<Rightarrow> (Panics p, svc4)
                          | (Returns _, svc4) \<Rightarrow> (Returns None, svc4)))))"

definition NewLauncherService ::
  "LauncherConfig \<Rightarrow> string \<Rightarrow> string \<Rightarrow> string \<Rightarrow> bool \<Rightarrow> filesys \<Rightarrow> 'a \<Rightarrow> 'a LauncherService" where
  "NewLauncherService cfg binDir pluginsDir certsDir hc fs auth =
     \<lparr>ls_cfg = cfg, ls_BinDir = binDir, ls_PluginsDir = pluginsDir, ls_CertsDir = certsDir, ls_plugins = [],
      ls_cmds = [], ls_waits = [], ls_nextCmd = 0, ls_hc = hc, ls_mngAuth = False, ls_isRunning = False,
      ls_fs = fs, ls_auth = auth\<rparr>"

end
