(* ===== verification/LauncherProps.thy ===== *)
theory LauncherProps
  imports Launcher
begin

text \<open>
  Properties of the launcher: the invariant of every state it can reach (one process per executable,
  a running plugin has its process on record, the clean-up of an ended process finds it), what
  happens to a restart before and after the clean-up, the order and completeness of stopping all
  plugins while processes end, the bound on the wait in \<open>Stop\<close>, and the plugin list.
\<close>

section \<open>Updating the plugin table\<close>

text \<open>An update of the table that keeps path, PID and running state, and adds stopped plugins only.\<close>

definition same_process :: "PluginInfo \<Rightarrow> PluginInfo \<Rightarrow> bool" where
  "same_process i j \<longleftrightarrow> pi_Path j = pi_Path i \<and> pi_PID j = pi_PID i \<and> pi_Running j = pi_Running i"

definition table_grows :: "(string, PluginInfo) gomap \<Rightarrow> (string, PluginInfo) gomap \<Rightarrow> bool" where
  "table_grows p q \<longleftrightarrow> (wf_map p \<longrightarrow> wf_map q)
     \<and> (\<forall>n i. mget p n = Some i \<longrightarrow> (\<exists>j. mget q n = Some j \<and> same_process i j))
     \<and> (\<forall>n j. mget p n = None \<longrightarrow> mget q n = Some j \<longrightarrow> \<not> pi_Running j \<and> slash \<in> set (pi_Path j))"

lemma table_growsD:
  "table_grows p q \<Longrightarrow> mget p n = Some i \<Longrightarrow> \<exists>j. mget q n = Some j \<and> same_process i j"
  "table_grows p q \<Longrightarrow> mget p n = None \<Longrightarrow> mget q n = Some j \<Longrightarrow> \<not> pi_Running j \<and> slash \<in> set (pi_Path j)"
  "table_grows p q \<Longrightarrow> wf_map p \<Longrightarrow> wf_map q"
  unfolding table_grows_def by blast+

lemma same_process_refl [simp]: "same_process i i"
  by (simp add: same_process_def)

lemma updateStatus_same [simp]: "same_process i (LauncherService_updateStatus usage i)"
  by (auto simp: same_process_def LauncherService_updateStatus_def split: option.splits)

lemma table_grows_refl [simp]: "table_grows p p"
  by (auto simp: table_grows_def)

lemma table_grows_trans: "table_grows p q \<Longrightarrow> table_grows q r \<Longrightarrow> table_grows p r"
proof -
  assume pq: "table_grows p q" and qr: "table_grows q r"
  have "\<exists>k. mget r n = Some k \<and> same_process i k" if n: "mget p n = Some i" for n i
    using table_growsD(1) [OF pq n] table_growsD(1) [OF qr, of n] by (auto simp: same_process_def)
  moreover have "\<not> pi_Running k \<and> slash \<in> set (pi_Path k)" if n: "mget p n = None" "mget r n = Some k" for n k
  proof (cases "mget q n")
    case None
    then show ?thesis using table_growsD(2) [OF qr _ n(2)] by simp
  next
    case (Some j)
    then show ?thesis using table_growsD(2) [OF pq n(1) Some] table_growsD(1) [OF qr Some] n(2)
      by (auto simp: same_process_def)
  qed
  ultimately show ?thesis using table_growsD(3) [OF pq] table_growsD(3) [OF qr] by (simp add: table_grows_def)
qed

lemma table_grows_put:
  "mget p n = Some i \<Longrightarrow> same_process i j \<Longrightarrow> table_grows p (mput n j p)"
  "mget p n = None \<Longrightarrow> \<not> pi_Running j \<Longrightarrow> slash \<in> set (pi_Path j) \<Longrightarrow> table_grows p (mput n j p)"
  by (auto simp: table_grows_def gomap_simps wf_map_mput)

lemma list_each_grows: "list_each usage keys p = (r, q) \<Longrightarrow> table_grows p q"
proof (induction usage keys p arbitrary: r q rule: list_each.induct)
  case (2 usage key keys plugins)
  show ?case
  proof (cases "mget plugins key")
    case (Some i)
    then have "table_grows plugins (mput key (LauncherService_updateStatus usage i) plugins)"
      by (rule table_grows_put(1)) simp
    moreover have "table_grows (mput key (LauncherService_updateStatus usage i) plugins) q"
      using 2 Some by (auto simp: Let_def split: prod.splits)
    ultimately show ?thesis by (rule table_grows_trans)
  qed (use 2 in auto)
qed simp

lemma add_entries_grows:
  assumes "path_rooted folder" "\<forall>e \<in> set entries. plain_name (de_Name e)"
  shows "table_grows p (add_entries folder entries p)"
  using assms
proof (induction folder entries p rule: add_entries.induct)
  case (2 folder entry entries plugins)
  let ?p = "case de_Info entry of None \<Rightarrow> plugins | Some fileInfo \<Rightarrow>
      if is_plugin_file entry fileInfo
      then (let info = (case mget plugins (de_Name entry) of Some pluginInfo \<Rightarrow> pluginInfo
              | None \<Rightarrow> zero_PluginInfo\<lparr>pi_Name := de_Name entry, pi_Path := path_Join folder (de_Name entry)\<rparr>)
            in mput (de_Name entry) (info\<lparr>pi_ModifiedTime := fi_ModTime fileInfo, pi_Size := fi_Size fileInfo\<rparr>) plugins)
      else plugins"
  have "slash \<in> set (path_Join folder (de_Name entry))"
    using "2.prems" path_Join_rooted path_rooted_slash by simp
  then have "table_grows plugins ?p"
    by (auto simp: Let_def table_grows_put(2) zero_PluginInfo_def same_process_def split: option.splits
        intro: table_grows_put(1))
  moreover have "table_grows ?p (add_entries folder entries ?p)"
    using 2 by simp
  ultimately show ?case using table_grows_trans by simp
qed simp

section \<open>The invariant\<close>

definition launcher_inv :: "'a LauncherService \<Rightarrow> bool" where
  "launcher_inv svc \<longleftrightarrow>
     wf_map (ls_plugins svc) \<and> wf_map (ls_waits svc)
     \<and> distinct (map cmd_ref (ls_cmds svc)) \<and> distinct (map cmd_Path (ls_cmds svc))
     \<and> fst ` set (ls_waits svc) = cmd_ref ` set (ls_cmds svc)
     \<and> (\<forall>c \<in> set (ls_cmds svc). cmd_ref c < ls_nextCmd svc \<and> (\<exists>n i. mget (ls_waits svc) (cmd_ref c) = Some n
          \<and> mget (ls_plugins svc) n = Some i \<and> pi_Path i = cmd_Path c))
     \<and> (\<forall>n i. mget (ls_plugins svc) n = Some i \<longrightarrow> slash \<in> set (pi_Path i)
          \<and> (pi_Running i \<longrightarrow> (\<exists>c \<in> set (ls_cmds svc). mget (ls_waits svc) (cmd_ref c) = Some n \<and> cmd_Pid c = pi_PID i)))"

lemma launcher_invI:
  assumes "wf_map (ls_plugins svc)" "wf_map (ls_waits svc)" "distinct (map cmd_ref (ls_cmds svc))"
    "distinct (map cmd_Path (ls_cmds svc))" "fst ` set (ls_waits svc) = cmd_ref ` set (ls_cmds svc)"
    "\<And>c. c \<in> set (ls_cmds svc) \<Longrightarrow> cmd_ref c < ls_nextCmd svc \<and> (\<exists>n i. mget (ls_waits svc) (cmd_ref c) = Some n
       \<and> mget (ls_plugins svc) n = Some i \<and> pi_Path i = cmd_Path c)"
    "\<And>n i. mget (ls_plugins svc) n = Some i \<Longrightarrow> slash \<in> set (pi_Path i)
       \<and> (pi_Running i \<longrightarrow> (\<exists>c \<in> set (ls_cmds svc). mget (ls_waits svc) (cmd_ref c) = Some n \<and> cmd_Pid c = pi_PID i))"
  shows "launcher_inv svc"
  using assms unfolding launcher_inv_def by blast

lemma launcher_inv_cmds: "launcher_inv svc \<Longrightarrow> c \<in> set (ls_cmds svc) \<Longrightarrow>
    cmd_ref c < ls_nextCmd svc \<and> (\<exists>n i. mget (ls_waits svc) (cmd_ref c) = Some n
      \<and> mget (ls_plugins svc) n = Some i \<and> pi_Path i = cmd_Path c)"
  by (simp add: launcher_inv_def)

lemma launcher_inv_info: "launcher_inv svc \<Longrightarrow> mget (ls_plugins svc) n = Some i \<Longrightarrow>
    slash \<in> set (pi_Path i)
      \<and> (pi_Running i \<longrightarrow> (\<exists>c \<in> set (ls_cmds svc). mget (ls_waits svc) (cmd_ref c) = Some n \<and> cmd_Pid c = pi_PID i))"
  by (simp add: launcher_inv_def)

lemma launcher_inv_grows:
  assumes "launcher_inv svc" "table_grows (ls_plugins svc) q"
  shows "launcher_inv (svc\<lparr>ls_plugins := q\<rparr>)"
proof -
  have "\<exists>n i. mget (ls_waits svc) (cmd_ref c) = Some n \<and> mget q n = Some i \<and> pi_Path i = cmd_Path c"
    if "c \<in> set (ls_cmds svc)" for c
    using launcher_inv_cmds [OF assms(1) that] table_growsD(1) [OF assms(2)] by (fastforce simp: same_process_def)
  moreover have "slash \<in> set (pi_Path j)
      \<and> (pi_Running j \<longrightarrow> (\<exists>c \<in> set (ls_cmds svc). mget (ls_waits svc) (cmd_ref c) = Some n \<and> cmd_Pid c = pi_PID j))"
    if "mget q n = Some j" for n j
  proof (cases "mget (ls_plugins svc) n")
    case None
    then show ?thesis using table_growsD(2) [OF assms(2) None that] by simp
  next
    case (Some i)
    then have "same_process i j" using table_growsD(1) [OF assms(2) Some] that by auto
    with launcher_inv_info [OF assms(1) Some] show ?thesis by (auto simp: same_process_def)
  qed
  ultimately show ?thesis using assms by (simp add: launcher_inv_def table_grows_def)
qed

text \<open>An update that keeps the path of one plugin keeps the paths of all commands' plugins.\<close>

lemma path_kept:
  assumes "\<exists>m k. w = Some m \<and> mget p m = Some k \<and> pi_Path k = path" "mget p n = Some i" "pi_Path j = pi_Path i"
  shows "\<exists>m k. w = Some m \<and> mget (mput n j p) m = Some k \<and> pi_Path k = path"
proof -
  from assms(1) obtain m k where "w = Some m" "mget p m = Some k" "pi_Path k = path" by blast
  with assms(2,3) show ?thesis by (cases "m = n") (simp_all add: mget_mput)
qed

text \<open>The invariant reads four fields only.\<close>

definition process_view :: "'a LauncherService
    \<Rightarrow> (string, PluginInfo) gomap \<times> exec_Cmd list \<times> (nat \<times> string) list \<times> nat" where
  "process_view svc = (ls_plugins svc, ls_cmds svc, ls_waits svc, ls_nextCmd svc)"

lemma launcher_inv_view: "process_view svc = process_view svc1 \<Longrightarrow> launcher_inv svc = launcher_inv svc1"
  by (simp add: launcher_inv_def process_view_def)

lemma process_view_update [simp]:
  "process_view (svc\<lparr>ls_fs := fs\<rparr>) = process_view svc"
  "process_view (svc\<lparr>ls_auth := auth\<rparr>) = process_view svc"
  "process_view (svc\<lparr>ls_isRunning := b\<rparr>) = process_view svc"
  "process_view (svc\<lparr>ls_hc := b\<rparr>) = process_view svc"
  "process_view (svc\<lparr>ls_mngAuth := b\<rparr>) = process_view svc"
  by (simp_all add: process_view_def)

lemmas launcher_inv_other [simp] = process_view_update [THEN launcher_inv_view]

subsection \<open>Starting a plugin\<close>

lemma add_plugin_client_view: "process_view (snd (add_plugin_client A E n svc)) = process_view svc"
  by (simp add: add_plugin_client_def Let_def split: outcome.split prod.split option.split sum.split)

lemma launcher_inv_fresh:
  assumes "launcher_inv svc"
  shows "ls_nextCmd svc \<notin> cmd_ref ` set (ls_cmds svc)" "ls_nextCmd svc \<notin> fst ` set (ls_waits svc)"
    and "mget (ls_waits svc @ [(ls_nextCmd svc, n)]) r = (if r = ls_nextCmd svc then Some n else mget (ls_waits svc) r)"
proof -
  show "ls_nextCmd svc \<notin> cmd_ref ` set (ls_cmds svc)" using launcher_inv_cmds [OF assms] by fastforce
  then show w: "ls_nextCmd svc \<notin> fst ` set (ls_waits svc)" using assms by (simp add: launcher_inv_def)
  then have "mget (ls_waits svc) (ls_nextCmd svc) = None" by (simp add: map_of_eq_None_iff)
  then show "mget (ls_waits svc @ [(ls_nextCmd svc, n)]) r = (if r = ls_nextCmd svc then Some n else mget (ls_waits svc) r)"
    by (auto simp: map_add_def split: option.splits)
qed

text \<open>Recording a started command and its plugin.\<close>

lemma record_command_inv:
  assumes inv: "launcher_inv svc" and n: "mget (ls_plugins svc) n = Some i"
    and free: "\<not> list_ex (\<lambda>cmd. cmd_Path cmd = pi_Path i) (ls_cmds svc)"
    and j: "pi_Path j = pi_Path i" "pi_PID j = cmd_Pid c" and c: "cmd_ref c = ls_nextCmd svc" "cmd_Path c = pi_Path i"
  shows "launcher_inv (svc\<lparr>ls_plugins := mput n j (ls_plugins svc), ls_cmds := ls_cmds svc @ [c],
      ls_waits := ls_waits svc @ [(ls_nextCmd svc, n)], ls_nextCmd := ls_nextCmd svc + 1\<rparr>)" (is "launcher_inv ?svc")
proof (rule launcher_invI)
  note fresh = launcher_inv_fresh [OF inv]
  show "wf_map (ls_plugins ?svc)" "wf_map (ls_waits ?svc)"
    using inv fresh(2) by (simp_all add: launcher_inv_def wf_map_mput) (simp add: wf_map_def)
  show "distinct (map cmd_ref (ls_cmds ?svc))" "distinct (map cmd_Path (ls_cmds ?svc))"
    using inv fresh(1) free c by (auto simp: launcher_inv_def list_ex_iff)
  show "fst ` set (ls_waits ?svc) = cmd_ref ` set (ls_cmds ?svc)"
    using inv c by (simp add: launcher_inv_def)
  fix d assume "d \<in> set (ls_cmds ?svc)"
  then consider "d = c" | "d \<in> set (ls_cmds svc)" "cmd_ref d \<noteq> ls_nextCmd svc"
    using fresh(1) by (cases "d = c") force+
  then show "cmd_ref d < ls_nextCmd ?svc \<and> (\<exists>m k. mget (ls_waits ?svc) (cmd_ref d) = Some m
      \<and> mget (ls_plugins ?svc) m = Some k \<and> pi_Path k = cmd_Path d)"
  proof cases
    case 1
    with c j show ?thesis by (simp add: fresh(3) gomap_simps del: map_of_append)
  next
    case 2
    then obtain m k where "mget (ls_waits svc) (cmd_ref d) = Some m" "mget (ls_plugins svc) m = Some k"
        "pi_Path k = cmd_Path d" "cmd_ref d < ls_nextCmd svc"
      using launcher_inv_cmds [OF inv] by blast
    with 2 n j show ?thesis by (cases "m = n") (simp_all add: fresh(3) gomap_simps del: map_of_append)
  qed
next
  note fresh = launcher_inv_fresh [OF inv]
  fix m k assume k: "mget (ls_plugins ?svc) m = Some k"
  show "slash \<in> set (pi_Path k) \<and> (pi_Running k \<longrightarrow> (\<exists>d \<in> set (ls_cmds ?svc). mget (ls_waits ?svc) (cmd_ref d) = Some m
      \<and> cmd_Pid d = pi_PID k))"
  proof (cases "m = n")
    case True
    with k j c launcher_inv_info [OF inv n] show ?thesis by (simp add: fresh(3) gomap_simps del: map_of_append)
  next
    case False
    with k have k': "mget (ls_plugins svc) m = Some k" by (simp add: gomap_simps)
    have "cmd_ref d \<noteq> ls_nextCmd svc" if "d \<in> set (ls_cmds svc)" for d using fresh(1) that by force
    with launcher_inv_info [OF inv k'] show ?thesis by (auto simp: fresh(3) simp del: map_of_append)
  qed
qed

lemma start_command_inv:
  assumes inv: "launcher_inv svc" and n: "mget (ls_plugins svc) n = Some i"
    and free: "\<not> list_ex (\<lambda>cmd. cmd_Path cmd = pi_Path i) (ls_cmds svc)"
    and run: "start_command E n i svc = (r, svc')"
  shows "launcher_inv svc'"
proof (cases "le_Start E (pi_Path i)")
  case (Inl e)
  have "table_grows (ls_plugins svc) (mput n (i\<lparr>pi_Status := s\<rparr>) (ls_plugins svc))" for s
    using n by (rule table_grows_put) (simp add: same_process_def)
  with Inl run launcher_inv_grows [OF inv] show ?thesis by (auto simp: start_command_def Let_def)
next
  case (Inr pid)
  let ?i = "i\<lparr>pi_StartTimeMSE := le_now E (pi_Path i), pi_PID := pid, pi_Status := [],
      pi_StartCount := pi_StartCount i + 1, pi_Running := True\<rparr>"
  let ?c = "\<lparr>cmd_ref = ls_nextCmd svc, cmd_Path = pi_Path i, cmd_Pid = pid\<rparr>"
  have j: "pi_Path (LauncherService_updateStatus (le_usage E) ?i) = pi_Path i"
      "pi_PID (LauncherService_updateStatus (le_usage E) ?i) = cmd_Pid ?c"
    using updateStatus_same [of ?i "le_usage E"] by (simp_all add: same_process_def)
  have "slash \<in> set (pi_Path i)" using launcher_inv_info [OF inv n] by simp
  then show ?thesis
    using Inr run record_command_inv [OF inv n free j] by (auto simp: start_command_def Let_def exec_Command_Path_def)
qed

lemma startPlugin_cases:
  assumes "LauncherService_startPlugin A E n svc = (r, svc')"
  obtains "process_view svc' = process_view svc"
  | i svc1 x where "mget (ls_plugins svc) n = Some i" "\<not> pi_Running i"
      "\<not> list_ex (\<lambda>cmd. cmd_Path cmd = pi_Path i) (ls_cmds svc)" "process_view svc1 = process_view svc"
      "start_command E n i svc1 = (x, svc')" "r = Returns x"
proof -
  let ?a = "if n \<noteq> lc_CoreBin (ls_cfg svc) then add_plugin_client A E n svc else (Returns (), svc)"
  obtain o1 svc1 where a: "?a = (o1, svc1)" by fastforce
  then have v: "process_view svc1 = process_view svc"
    using add_plugin_client_view [of A E n svc] by (auto split: if_splits)
  show thesis
  proof (cases "\<exists>i. mget (ls_plugins svc) n = Some i \<and> \<not> pi_Running i
      \<and> \<not> list_ex (\<lambda>cmd. cmd_Path cmd = pi_Path i) (ls_cmds svc)")
    case True
    then obtain i where i: "mget (ls_plugins svc) n = Some i" "\<not> pi_Running i"
      "\<not> list_ex (\<lambda>cmd. cmd_Path cmd = pi_Path i) (ls_cmds svc)" by blast
    show thesis
    proof (cases o1)
      case (Returns u)
      with a i assms obtain x where "start_command E n i svc1 = (x, svc')" "r = Returns x"
        by (auto simp: LauncherService_startPlugin_def split: prod.splits)
      then show thesis using that(2) i v by blast
    next
      case (Panics p)
      with a i assms v show thesis using that(1) by (simp add: LauncherService_startPlugin_def)
    qed
  next
    case False
    with assms have "svc' = svc" by (auto simp: LauncherService_startPlugin_def split: option.splits if_splits)
    then show thesis using that(1) by simp
  qed
qed

lemma startPlugin_inv:
  assumes inv: "launcher_inv svc" and run: "LauncherService_startPlugin A E n svc = (r, svc')"
  shows "launcher_inv svc'"
  using run
proof (cases rule: startPlugin_cases)
  case 1
  with inv launcher_inv_view show ?thesis by blast
next
  case (2 i svc1 x)
  then have "launcher_inv svc1" using inv launcher_inv_view by blast
  with 2 show ?thesis using start_command_inv [of svc1 n i E x svc'] by (simp add: process_view_def)
qed

subsection \<open>The end of a process\<close>

lemma lo_IndexOf_remove:
  "distinct (map cmd_ref cs) \<Longrightarrow> r \<in> cmd_ref ` set cs
     \<Longrightarrow> \<exists>i. lo_IndexOf cs r = Some i \<and> take i cs @ drop (Suc i) cs = filter (\<lambda>c. cmd_ref c \<noteq> r) cs"
proof (induction cs)
  case (Cons c cs)
  show ?case
  proof (cases "cmd_ref c = r")
    case True
    with Cons.prems have "filter (\<lambda>c. cmd_ref c \<noteq> r) cs = cs" by (auto simp: filter_id_conv) (metis imageI)
    with True show ?thesis by simp
  next
    case False
    with Cons.prems have "distinct (map cmd_ref cs)" "r \<in> cmd_ref ` set cs" by auto
    from Cons.IH [OF this] obtain i where "lo_IndexOf cs r = Some i"
      "take i cs @ drop (Suc i) cs = filter (\<lambda>c. cmd_ref c \<noteq> r) cs" by blast
    with False show ?thesis by simp
  qed
qed simp

text \<open>The clean-up of a command that a goroutine waits for finds it in the list.\<close>

definition exited_info ::
  "(go_error \<Rightarrow> string) \<Rightarrow> (int \<Rightarrow> (int \<times> int) option) \<Rightarrow> int \<Rightarrow> exit_info \<Rightarrow> string \<Rightarrow> PluginInfo \<Rightarrow> PluginInfo" where
  "exited_info error_text usage now x n info = LauncherService_updateStatus usage
     (info\<lparr>pi_StopTimeMSE := now, pi_Running := False, pi_Status := exit_status error_text n x\<rparr>)"

lemma exited_info_fields [simp]:
  "pi_Path (exited_info tx u now x n i) = pi_Path i" "\<not> pi_Running (exited_info tx u now x n i)"
  by (auto simp: exited_info_def LauncherService_updateStatus_def split: option.splits)

lemma plugin_exited_result:
  assumes "launcher_inv svc" "(r, n) \<in> set (ls_waits svc)"
  obtains i where "mget (ls_plugins svc) n = Some i"
    "plugin_exited tx u now x r n svc = Returns (svc\<lparr>ls_plugins := mput n (exited_info tx u now x n i) (ls_plugins svc),
       ls_waits := filter (\<lambda>w. fst w \<noteq> r) (ls_waits svc), ls_cmds := filter (\<lambda>c. cmd_ref c \<noteq> r) (ls_cmds svc)\<rparr>)"
proof -
  have wf: "wf_map (ls_waits svc)" and d: "distinct (map cmd_ref (ls_cmds svc))"
    and eq: "fst ` set (ls_waits svc) = cmd_ref ` set (ls_cmds svc)"
    using assms(1) by (simp_all add: launcher_inv_def)
  from assms(2) eq have mem: "r \<in> cmd_ref ` set (ls_cmds svc)" by force
  then obtain c where c: "c \<in> set (ls_cmds svc)" "cmd_ref c = r" by blast
  have "mget (ls_waits svc) r = Some n" using assms(2) wf by (simp add: mget_mem_iff)
  with launcher_inv_cmds [OF assms(1) c(1)] c(2) obtain i where i: "mget (ls_plugins svc) n = Some i" by auto
  obtain k where "lo_IndexOf (ls_cmds svc) r = Some k"
      "take k (ls_cmds svc) @ drop (Suc k) (ls_cmds svc) = filter (\<lambda>c. cmd_ref c \<noteq> r) (ls_cmds svc)"
    using lo_IndexOf_remove [OF d mem] by blast
  with i have "plugin_exited tx u now x r n svc = Returns (svc\<lparr>ls_plugins := mput n (exited_info tx u now x n i) (ls_plugins svc),
       ls_waits := filter (\<lambda>w. fst w \<noteq> r) (ls_waits svc), ls_cmds := filter (\<lambda>c. cmd_ref c \<noteq> r) (ls_cmds svc)\<rparr>)"
    by (simp add: plugin_exited_def exited_info_def Let_def)
  with i that show thesis by blast
qed

lemma mget_filter_key: "mget (filter (\<lambda>w. fst w \<noteq> r) m) k = (if k = r then None else mget m k)"
  by (induction m) auto

lemma image_filter_key: "f ` {x \<in> A. f x \<noteq> r} = f ` A - {r}"
  by auto

lemma plugin_exited_inv:
  assumes inv: "launcher_inv svc" and w: "(r, n) \<in> set (ls_waits svc)"
    and run: "plugin_exited tx u now x r n svc = Returns svc'"
  shows "launcher_inv svc'"
proof -
  obtain i where i: "mget (ls_plugins svc) n = Some i" and svc': "svc' = svc\<lparr>ls_plugins :=
      mput n (exited_info tx u now x n i) (ls_plugins svc), ls_waits := filter (\<lambda>w. fst w \<noteq> r) (ls_waits svc),
      ls_cmds := filter (\<lambda>c. cmd_ref c \<noteq> r) (ls_cmds svc)\<rparr>"
    using plugin_exited_result [OF inv w, of tx u now x] run by (metis outcome.inject(1))
  have wr: "mget (ls_waits svc) r = Some n" using w inv by (simp add: launcher_inv_def mget_mem_iff)
  show ?thesis
  proof (rule launcher_invI)
    show "wf_map (ls_plugins svc')" "wf_map (ls_waits svc')"
      using inv by (simp_all add: svc' launcher_inv_def wf_map_mput wf_map_filter)
    show "distinct (map cmd_ref (ls_cmds svc'))" "distinct (map cmd_Path (ls_cmds svc'))"
      using inv by (simp_all add: svc' launcher_inv_def distinct_map_filter)
    have "fst ` set (ls_waits svc) = cmd_ref ` set (ls_cmds svc)" using inv by (simp add: launcher_inv_def)
    then show "fst ` set (ls_waits svc') = cmd_ref ` set (ls_cmds svc')"
      by (simp add: svc' image_filter_key [of fst] image_filter_key [of cmd_ref])
    fix c assume "c \<in> set (ls_cmds svc')"
    then have c: "c \<in> set (ls_cmds svc)" "cmd_ref c \<noteq> r" by (auto simp: svc')
    then show "cmd_ref c < ls_nextCmd svc' \<and> (\<exists>m k. mget (ls_waits svc') (cmd_ref c) = Some m
        \<and> mget (ls_plugins svc') m = Some k \<and> pi_Path k = cmd_Path c)"
      using launcher_inv_cmds [OF inv c(1)] path_kept [OF _ i, of _ _ "exited_info tx u now x n i"]
      by (simp add: svc' mget_filter_key)
  next
    fix m k assume k: "mget (ls_plugins svc') m = Some k"
    show "slash \<in> set (pi_Path k) \<and> (pi_Running k \<longrightarrow> (\<exists>c \<in> set (ls_cmds svc'). mget (ls_waits svc') (cmd_ref c) = Some m
        \<and> cmd_Pid c = pi_PID k))"
    proof (cases "m = n")
      case True
      with k launcher_inv_info [OF inv i] show ?thesis by (auto simp: svc' gomap_simps)
    next
      case False
      with k have "mget (ls_plugins svc) m = Some k" by (simp add: svc' gomap_simps)
      with launcher_inv_info [OF inv] False wr show ?thesis by (fastforce simp: svc' mget_filter_key)
    qed
  qed
qed

subsection \<open>The other operations\<close>

lemma StopPlugin_inv:
  assumes inv: "launcher_inv svc" and run: "LauncherService_StopPlugin tx stop n svc = (r, svc')"
  shows "launcher_inv svc'"
proof (cases "mget (ls_plugins svc) n")
  case (Some i)
  define j where "j = i\<lparr>pi_Running := False, pi_Status := (case stop (pi_PID i) of Some e \<Rightarrow> tx e | None \<Rightarrow> ''stopped by user'')\<rparr>"
  have svc': "svc' = svc\<lparr>ls_plugins := mput n j (ls_plugins svc)\<rparr>"
    using run Some by (simp add: LauncherService_StopPlugin_def Let_def j_def)
  show ?thesis
  proof (rule launcher_invI)
    fix c assume "c \<in> set (ls_cmds svc')"
    then show "cmd_ref c < ls_nextCmd svc' \<and> (\<exists>m k. mget (ls_waits svc') (cmd_ref c) = Some m
        \<and> mget (ls_plugins svc') m = Some k \<and> pi_Path k = cmd_Path c)"
      using launcher_inv_cmds [OF inv, of c] path_kept [OF _ Some, of _ _ j] by (simp add: svc' j_def)
  next
    fix m k assume "mget (ls_plugins svc') m = Some k"
    then show "slash \<in> set (pi_Path k) \<and> (pi_Running k \<longrightarrow> (\<exists>c \<in> set (ls_cmds svc'). mget (ls_waits svc') (cmd_ref c) = Some m
        \<and> cmd_Pid c = pi_PID k))"
      using launcher_inv_info [OF inv] Some by (auto simp: svc' gomap_simps j_def split: if_splits)
  qed (use inv in \<open>simp_all add: svc' launcher_inv_def wf_map_mput\<close>)
qed (use assms in \<open>simp add: LauncherService_StopPlugin_def\<close>)

lemma List_inv:
  assumes "launcher_inv svc" "LauncherService_List usage onlyRunning svc = (r, svc')"
  shows "launcher_inv svc'"
proof -
  let ?keys = "sort (map fst (filter (\<lambda>(key, val). \<not> onlyRunning \<or> pi_Running val) (ls_plugins svc)))"
  have "svc' = svc\<lparr>ls_plugins := snd (list_each usage ?keys (ls_plugins svc))\<rparr>"
    using assms(2) unfolding LauncherService_List_def Let_def by (auto split: prod.splits)
  moreover have "table_grows (ls_plugins svc) (snd (list_each usage ?keys (ls_plugins svc)))"
    by (rule list_each_grows) (rule prod.collapse [symmetric])
  ultimately show ?thesis using launcher_inv_grows [OF assms(1)] by simp
qed

lemma Scan_inv:
  assumes "launcher_inv svc" "path_rooted (ls_PluginsDir svc)"
    "\<And>es e. readDir (ls_PluginsDir svc) = Inr es \<Longrightarrow> e \<in> set es \<Longrightarrow> plain_name (de_Name e)"
    "LauncherService_ScanPlugins readDir svc = (r, svc')"
  shows "launcher_inv svc'"
proof (cases "readDir (ls_PluginsDir svc)")
  case (Inr es)
  then have "table_grows (ls_plugins svc) (add_entries (ls_PluginsDir svc) es (ls_plugins svc))"
    using add_entries_grows [OF assms(2)] assms(3) by simp
  with launcher_inv_grows [OF assms(1)] Inr assms(4) show ?thesis
    by (auto simp: LauncherService_ScanPlugins_def LauncherService_addPlugins_def)
qed (use assms in \<open>simp add: LauncherService_ScanPlugins_def LauncherService_addPlugins_def\<close>)

lemma addCore_inv:
  assumes inv: "launcher_inv svc" and "path_rooted (ls_BinDir svc)" "coreBin = [] \<or> plain_name coreBin"
    and run: "LauncherService_addCore stat coreBin svc = (r, svc')"
  shows "launcher_inv svc'"
proof (cases "coreBin = [] \<or> stat (path_Join (ls_BinDir svc) coreBin) = None")
  case True
  with run inv show ?thesis by (auto simp: LauncherService_addCore_def Let_def split: if_splits)
next
  case False
  then obtain f where f: "coreBin \<noteq> []" "stat (path_Join (ls_BinDir svc) coreBin) = Some f" by blast
  let ?p = "path_Join (ls_BinDir svc) coreBin"
  define i where "i = (case mget (ls_plugins svc) coreBin of Some pluginInfo \<Rightarrow> pluginInfo
      | None \<Rightarrow> zero_PluginInfo\<lparr>pi_Name := fi_Name f, pi_Path := ?p\<rparr>)\<lparr>pi_ModifiedTime := fi_ModTime f, pi_Size := fi_Size f\<rparr>"
  have "slash \<in> set ?p" using assms(2,3) f(1) path_Join_rooted path_rooted_slash by simp
  then have "table_grows (ls_plugins svc) (mput coreBin i (ls_plugins svc))"
    by (cases "mget (ls_plugins svc) coreBin")
       (auto simp: i_def table_grows_put(2) zero_PluginInfo_def same_process_def intro: table_grows_put(1))
  with launcher_inv_grows [OF inv] run f show ?thesis
    by (auto simp: LauncherService_addCore_def Let_def i_def)
qed

lemma start_each_inv: "start_each A E names err svc = (r, svc') \<Longrightarrow> launcher_inv svc \<Longrightarrow> launcher_inv svc'"
proof (induction A E names err svc arbitrary: r svc' rule: start_each.induct)
  case (2 A E n names err svc)
  obtain r1 svc1 where s: "LauncherService_startPlugin A E n svc = (r1, svc1)" by fastforce
  with startPlugin_inv "2.prems"(2) have "launcher_inv svc1" by blast
  with 2 s show ?case by (auto split: if_splits outcome.splits prod.splits)
qed simp

lemma autostart_each_inv: "autostart_each A E names svc = (r, svc') \<Longrightarrow> launcher_inv svc \<Longrightarrow> launcher_inv svc'"
proof (induction A E names svc arbitrary: r svc' rule: autostart_each.induct)
  case (2 A E n names svc)
  obtain r1 svc1 where s: "LauncherService_startPlugin A E n svc = (r1, svc1)" by fastforce
  with startPlugin_inv "2.prems"(2) have "launcher_inv svc1" by blast
  with 2 s show ?case by (auto split: outcome.splits)
qed simp

lemma StartAllPlugins_inv:
  assumes "launcher_inv svc" "LauncherService_StartAllPlugins A E svc = (r, svc')"
  shows "launcher_inv svc'"
  using assms by (auto simp: LauncherService_StartAllPlugins_def split: prod.splits outcome.splits dest: start_each_inv)

section \<open>The states of a running launcher\<close>

datatype launch_event = ReqStart string | ReqStartAll | ReqStop string | ReqList bool | CoreAdded | Scanned
  | AuthConnected | Exited nat string

text \<open>
  One step is a request, a scan, or the clean-up of a process that ended; what the operating system
  answers may differ in each step. The directories are absolute paths and entries of a directory
  are plain file names.
\<close>

inductive launcher_step ::
  "'a auth_client \<Rightarrow> 'a LauncherService \<Rightarrow> launch_event \<Rightarrow> 'a LauncherService \<Rightarrow> bool" for A :: "'a auth_client" where
  lstep_start: "LauncherService_StartPlugin A E n svc = (Returns r, svc') \<Longrightarrow> launcher_step A svc (ReqStart n) svc'"
| lstep_start_all: "LauncherService_StartAllPlugins A E svc = (Returns r, svc') \<Longrightarrow> launcher_step A svc ReqStartAll svc'"
| lstep_stop: "LauncherService_StopPlugin tx stop n svc = (r, svc') \<Longrightarrow> launcher_step A svc (ReqStop n) svc'"
| lstep_list: "LauncherService_List usage b svc = (r, svc') \<Longrightarrow> launcher_step A svc (ReqList b) svc'"
| lstep_core: "path_rooted (ls_BinDir svc) \<Longrightarrow> plain_name (lc_CoreBin (ls_cfg svc))
    \<Longrightarrow> LauncherService_addCore stat (lc_CoreBin (ls_cfg svc)) svc = (r, svc') \<Longrightarrow> launcher_step A svc CoreAdded svc'"
| lstep_scan: "path_rooted (ls_PluginsDir svc)
    \<Longrightarrow> (\<And>es e. readDir (ls_PluginsDir svc) = Inr es \<Longrightarrow> e \<in> set es \<Longrightarrow> plain_name (de_Name e))
    \<Longrightarrow> LauncherService_ScanPlugins readDir svc = (r, svc') \<Longrightarrow> launcher_step A svc Scanned svc'"
| lstep_connect: "launcher_step A svc AuthConnected (svc\<lparr>ls_hc := True, ls_mngAuth := True\<rparr>)"
| lstep_exit: "(r, n) \<in> set (ls_waits svc) \<Longrightarrow> plugin_exited tx usage now x r n svc = Returns svc'
    \<Longrightarrow> launcher_step A svc (Exited r n) svc'"

inductive launcher_reach :: "'a auth_client \<Rightarrow> 'a LauncherService \<Rightarrow> bool" for A :: "'a auth_client" where
  launcher_new: "launcher_reach A (NewLauncherService cfg binDir pluginsDir certsDir hc fs auth)"
| launcher_more: "launcher_reach A svc \<Longrightarrow> launcher_step A svc ev svc' \<Longrightarrow> launcher_reach A svc'"

lemma NewLauncherService_inv: "launcher_inv (NewLauncherService cfg binDir pluginsDir certsDir hc fs auth)"
  by (simp add: launcher_inv_def NewLauncherService_def)

lemma launcher_step_inv: "launcher_step A svc ev svc' \<Longrightarrow> launcher_inv svc \<Longrightarrow> launcher_inv svc'"
proof (induction rule: launcher_step.induct)
  case lstep_start
  then show ?case by (simp add: LauncherService_StartPlugin_def startPlugin_inv)
next
  case lstep_start_all
  then show ?case using StartAllPlugins_inv by blast
next
  case lstep_stop
  then show ?case using StopPlugin_inv by blast
next
  case lstep_list
  then show ?case using List_inv by blast
next
  case lstep_core
  then show ?case using addCore_inv by blast
next
  case lstep_scan
  then show ?case using Scan_inv by blast
next
  case lstep_exit
  then show ?case using plugin_exited_inv by blast
qed simp

lemma launcher_reach_launcher_inv: "launcher_reach A svc \<Longrightarrow> launcher_inv svc"
  by (induction rule: launcher_reach.induct) (auto intro: NewLauncherService_inv launcher_step_inv)

text \<open>
  C14. In every state the launcher reaches, no executable has two processes, a plugin that is
  reported as running has a process on record with its path and PID, and the clean-up of any process
  that ends finds its command in the list.
\<close>
theorem launcher_one_process_per_plugin:
  assumes "launcher_reach A svc"
  shows "distinct (map cmd_Path (ls_cmds svc))
    \<and> (\<forall>n i. mget (ls_plugins svc) n = Some i \<and> pi_Running i
         \<longrightarrow> (\<exists>c \<in> set (ls_cmds svc). cmd_Path c = pi_Path i \<and> cmd_Pid c = pi_PID i))
    \<and> (\<forall>r n tx usage now x. (r, n) \<in> set (ls_waits svc) \<longrightarrow> (\<exists>svc'. plugin_exited tx usage now x r n svc = Returns svc'))"
proof (intro conjI allI impI)
  note inv = launcher_reach_launcher_inv [OF assms]
  then show "distinct (map cmd_Path (ls_cmds svc))" by (simp add: launcher_inv_def)
  show "\<exists>svc'. plugin_exited tx usage now x r n svc = Returns svc'" if "(r, n) \<in> set (ls_waits svc)" for r n tx usage now x
    by (rule plugin_exited_result [OF inv that]) auto
  fix n i assume i: "mget (ls_plugins svc) n = Some i \<and> pi_Running i"
  then obtain c where c: "c \<in> set (ls_cmds svc)" "mget (ls_waits svc) (cmd_ref c) = Some n" "cmd_Pid c = pi_PID i"
    using launcher_inv_info [OF inv] by blast
  then show "\<exists>c \<in> set (ls_cmds svc). cmd_Path c = pi_Path i \<and> cmd_Pid c = pi_PID i"
    using launcher_inv_cmds [OF inv c(1)] i by auto
qed

text \<open>An instance: a launcher whose core has been started.\<close>

abbreviation no_auth :: "unit auth_client" where
  "no_auth \<equiv> \<lparr>ac_AddService = (\<lambda>c n k a. (Inl ErrMissingID, a)), ac_AddDevice = (\<lambda>c n k a. (Inl ErrMissingID, a))\<rparr>"

definition demo_launch :: launch_env where
  "demo_launch = \<lparr>le_crypto = demo_crypto, le_gen = demo_gen ''a'', le_keyFiles = files_ok, le_RemoveToken = None,
     le_WriteToken = None, le_LookPath = (\<lambda>p. p), le_Start = (\<lambda>p. Inr 7), le_now = (\<lambda>p. 100), le_early = (\<lambda>p. None),
     le_usage = (\<lambda>p. None), le_text = (\<lambda>e. [])\<rparr>"

abbreviation core_cfg :: LauncherConfig where
  "core_cfg \<equiv> NewLauncherConfig\<lparr>lc_CoreBin := ''core''\<rparr>"

definition demo_launcher0 :: "unit LauncherService" where
  "demo_launcher0 = snd (LauncherService_addCore (\<lambda>p. Some \<lparr>fi_Name = ''core'', fi_Size = 1, fi_Mode = 64, fi_ModTime = []\<rparr>)
     ''core'' (NewLauncherService core_cfg ''/bin'' ''/plugins'' ''/certs'' False Map.empty ()))"

definition demo_launcher :: "unit LauncherService" where
  "demo_launcher = snd (LauncherService_StartPlugin no_auth demo_launch ''core'' demo_launcher0)"

lemma bin_core: "path_Join ''/bin'' ''core'' = ''/bin/core''"
  by (simp add: path_Join_def path_Clean_def path_rooted_def clean_elems.simps(2))

lemmas demo_launch_simps = demo_launcher_def demo_launcher0_def LauncherService_addCore_def NewLauncherService_def bin_core
  LauncherService_StartPlugin_def LauncherService_startPlugin_def NewLauncherConfig_def start_command_def demo_launch_def
  zero_PluginInfo_def LauncherService_updateStatus_def exec_Command_Path_def Let_def

lemma demo_launcher_start: "fst (LauncherService_StartPlugin no_auth demo_launch ''core'' demo_launcher0) \<noteq> Panics p"
  by (simp add: demo_launch_simps)

lemma demo_launcher_state:
  "ls_cmds demo_launcher = [\<lparr>cmd_ref = 0, cmd_Path = ''/bin/core'', cmd_Pid = 7\<rparr>]" "ls_waits demo_launcher = [(0, ''core'')]"
  "\<exists>i. mget (ls_plugins demo_launcher) ''core'' = Some i \<and> pi_Running i \<and> pi_PID i = 7 \<and> pi_Path i = ''/bin/core'' \<and> pi_Name i = ''core''"
  "ls_cfg demo_launcher = core_cfg"
  by (simp_all add: demo_launch_simps)

lemma demo_launcher_reach: "launcher_reach no_auth demo_launcher"
proof -
  let ?new = "NewLauncherService core_cfg ''/bin'' ''/plugins'' ''/certs'' False Map.empty ()"
  let ?stat = "\<lambda>p. Some \<lparr>fi_Name = ''core'', fi_Size = 1, fi_Mode = 64, fi_ModTime = []\<rparr>"
  have "launcher_step no_auth ?new CoreAdded demo_launcher0"
    by (rule lstep_core [of _ ?stat "fst (LauncherService_addCore ?stat ''core'' ?new)"])
       (simp_all add: demo_launcher0_def NewLauncherService_def path_rooted_def plain_name_def)
  then have r0: "launcher_reach no_auth demo_launcher0" by (rule launcher_more [OF launcher_new])
  obtain r where "LauncherService_StartPlugin no_auth demo_launch ''core'' demo_launcher0 = (Returns r, demo_launcher)"
    using demo_launcher_start demo_launcher_def
    by (cases "LauncherService_StartPlugin no_auth demo_launch ''core'' demo_launcher0";
        cases "fst (LauncherService_StartPlugin no_auth demo_launch ''core'' demo_launcher0)") auto
  then have "launcher_step no_auth demo_launcher0 (ReqStart ''core'') demo_launcher" by (rule lstep_start)
  then show ?thesis by (rule launcher_more [OF r0])
qed

theorem launcher_one_process_per_plugin_witness:
  "launcher_reach no_auth demo_launcher \<and> (\<exists>i c. mget (ls_plugins demo_launcher) ''core'' = Some i \<and> pi_Running i
     \<and> c \<in> set (ls_cmds demo_launcher) \<and> cmd_Path c = pi_Path i \<and> cmd_Pid c = pi_PID i)"
  using launcher_one_process_per_plugin [OF demo_launcher_reach] demo_launcher_reach demo_launcher_state(3) by blast

section \<open>Draining, restarting\<close>

text \<open>The clean-ups of processes that end in a given order.\<close>

fun run_exits :: "(nat \<Rightarrow> exit_info) \<Rightarrow> int \<Rightarrow> (nat \<times> string) list \<Rightarrow> 'a LauncherService \<Rightarrow> 'a LauncherService outcome" where
  "run_exits x now [] svc = Returns svc"
| "run_exits x now ((r, n) # ws) svc =
     and_then (plugin_exited (\<lambda>_. []) (\<lambda>_. None) now (x r) r n svc) (run_exits x now ws)"

lemma plugin_exited_waits:
  assumes "launcher_inv svc" "(r, n) \<in> set (ls_waits svc)" "plugin_exited tx u now x r n svc = Returns svc'"
  shows "set (ls_waits svc') = set (ls_waits svc) - {(r, n)}"
proof -
  have "set (ls_waits svc') = {w \<in> set (ls_waits svc). fst w \<noteq> r}"
    by (rule plugin_exited_result [OF assms(1,2), of tx u now x]) (use assms(3) in auto)
  moreover have "w = (r, n) \<longleftrightarrow> fst w = r" if "w \<in> set (ls_waits svc)" for w
  proof (cases "fst w = r")
    case True
    have "wf_map (ls_waits svc)" using assms(1) by (simp add: launcher_inv_def)
    then have "mget (ls_waits svc) r = Some n" "mget (ls_waits svc) r = Some (snd w)"
      using that True assms(2) by (auto simp: mget_mem_iff)
    then show ?thesis using True by (cases w) simp
  qed auto
  ultimately show ?thesis by blast
qed

lemma run_exits_inv:
  assumes "launcher_inv svc" "distinct ws" "set ws \<subseteq> set (ls_waits svc)"
  shows "\<exists>svc'. run_exits x now ws svc = Returns svc' \<and> launcher_inv svc' \<and> set (ls_waits svc') = set (ls_waits svc) - set ws"
  using assms
proof (induction ws arbitrary: svc)
  case (Cons w ws)
  obtain r n where w: "w = (r, n)" by (cases w)
  with Cons.prems have mem: "(r, n) \<in> set (ls_waits svc)" by simp
  obtain svc1 where ex: "plugin_exited (\<lambda>_. []) (\<lambda>_. None) now (x r) r n svc = Returns svc1"
    using plugin_exited_result [OF Cons.prems(1) mem] by metis
  have ws1: "set (ls_waits svc1) = set (ls_waits svc) - {(r, n)}"
    by (rule plugin_exited_waits [OF Cons.prems(1) mem ex])
  with Cons.prems w have "set ws \<subseteq> set (ls_waits svc1)" "distinct ws" by auto
  with Cons.IH plugin_exited_inv [OF Cons.prems(1) mem ex] obtain svc' where
    "run_exits x now ws svc1 = Returns svc'" "launcher_inv svc'" "set (ls_waits svc') = set (ls_waits svc1) - set ws"
    by blast
  with ex ws1 w show ?case by auto
qed simp

lemma no_waits_idle:
  assumes "launcher_inv svc" "set (ls_waits svc) = {}"
  shows "ls_cmds svc = [] \<and> (\<forall>n i. mget (ls_plugins svc) n = Some i \<longrightarrow> \<not> pi_Running i)"
  using assms by (auto simp: launcher_inv_def)

text \<open>
  C29. From every state the launcher reaches, when all its processes end, in whatever order, each
  clean-up succeeds and the launcher comes to rest: no command is left on record and no
  plugin is reported as running.
\<close>
theorem launcher_drains:
  assumes "launcher_reach A svc" "distinct ws" "set ws = set (ls_waits svc)"
  shows "\<exists>svc'. run_exits x now ws svc = Returns svc' \<and> ls_cmds svc' = []
    \<and> (\<forall>n i. mget (ls_plugins svc') n = Some i \<longrightarrow> \<not> pi_Running i)"
  using run_exits_inv [OF launcher_reach_launcher_inv [OF assms(1)] assms(2), of x now] assms(3) no_waits_idle
  by (metis Diff_cancel subset_refl)

theorem launcher_drains_witness:
  "\<exists>svc'. run_exits (\<lambda>r. ExitCode 0 []) 200 [(0, ''core'')] demo_launcher = Returns svc' \<and> ls_cmds svc' = []"
proof -
  have "set [(0, ''core'')] = set (ls_waits demo_launcher)" by (simp add: demo_launcher_state)
  from launcher_drains [OF demo_launcher_reach _ this, of "\<lambda>r. ExitCode 0 []" 200] show ?thesis by auto
qed

text \<open>The credentials of a plugin are made, or are not needed.\<close>

definition credentials_made :: "'a auth_client \<Rightarrow> launch_env \<Rightarrow> string \<Rightarrow> 'a LauncherService \<Rightarrow> bool" where
  "credentials_made A E n svc \<longleftrightarrow> n = lc_CoreBin (ls_cfg svc) \<or> fst (add_plugin_client A E n svc) = Returns ()"

lemma startPlugin_runs:
  assumes "mget (ls_plugins svc) n = Some i" "\<not> pi_Running i"
    "\<not> list_ex (\<lambda>cmd. cmd_Path cmd = pi_Path i) (ls_cmds svc)" "credentials_made A E n svc" "le_Start E (pi_Path i) = Inr pid"
  shows "\<exists>info svc'. LauncherService_startPlugin A E n svc = (Returns (info, le_early E (pi_Path i)), svc')
    \<and> pi_Running info \<and> pi_PID info = pid \<and> mget (ls_plugins svc') n = Some info"
proof -
  let ?i = "i\<lparr>pi_StartTimeMSE := le_now E (pi_Path i), pi_PID := pid, pi_Status := [],
      pi_StartCount := pi_StartCount i + 1, pi_Running := True\<rparr>"
  have "same_process ?i (LauncherService_updateStatus (le_usage E) ?i)" by simp
  with assms show ?thesis
    by (cases "add_plugin_client A E n svc")
       (auto simp: LauncherService_startPlugin_def start_command_def credentials_made_def Let_def same_process_def mget_mput)
qed

lemma running_command:
  assumes "launcher_inv svc" "mget (ls_plugins svc) n = Some i" "pi_Running i"
  obtains c where "c \<in> set (ls_cmds svc)" "(cmd_ref c, n) \<in> set (ls_waits svc)" "cmd_Path c = pi_Path i"
proof -
  obtain c where c: "c \<in> set (ls_cmds svc)" "mget (ls_waits svc) (cmd_ref c) = Some n"
    using launcher_inv_info [OF assms(1,2)] assms(3) by blast
  with launcher_inv_cmds [OF assms(1) c(1)] assms(2) that show thesis by (metis map_of_SomeD option.inject)
qed

lemma path_free_after_exit:
  assumes "launcher_inv svc" "c \<in> set (ls_cmds svc)"
  shows "\<not> list_ex (\<lambda>d. cmd_Path d = cmd_Path c) (filter (\<lambda>d. cmd_ref d \<noteq> cmd_ref c) (ls_cmds svc))"
proof -
  have "d = c" if "d \<in> set (ls_cmds svc)" "cmd_Path d = cmd_Path c" for d
    using assms that by (auto simp: launcher_inv_def distinct_map dest: inj_onD)
  then show ?thesis by (auto simp: list_ex_iff)
qed

text \<open>
  A plugin that was stopped by a request cannot be started again until the clean-up of its
  process has run: a start before that is refused because the process is still on record, although
  the plugin is no longer reported as running. After the clean-up a start runs the plugin again.
\<close>
lemma restart_after_stop:
  assumes "launcher_reach A svc" and n: "mget (ls_plugins svc) n = Some i" "pi_Running i"
    and stop: "LauncherService_StopPlugin tx stop n svc = (resp, svc1)"
  shows "(\<exists>info. LauncherService_StartPlugin A E n svc1 = (Returns (info, Some (ErrPluginExists (pi_Name i))), svc1)
           \<and> \<not> pi_Running info)
    \<and> (\<exists>r. (r, n) \<in> set (ls_waits svc1) \<and> (\<forall>svc2 pid. plugin_exited txb usage now x r n svc1 = Returns svc2
           \<and> credentials_made A E n svc2 \<and> le_Start E (pi_Path i) = Inr pid
           \<longrightarrow> (\<exists>info svc3. LauncherService_StartPlugin A E n svc2 = (Returns (info, le_early E (pi_Path i)), svc3)
                 \<and> pi_Running info \<and> pi_PID info = pid)))"
proof -
  note inv = launcher_reach_launcher_inv [OF assms(1)]
  define j where "j = i\<lparr>pi_Running := False, pi_Status := (case stop (pi_PID i) of Some e \<Rightarrow> tx e | None \<Rightarrow> ''stopped by user'')\<rparr>"
  have svc1: "svc1 = svc\<lparr>ls_plugins := mput n j (ls_plugins svc)\<rparr>"
    using stop n by (simp add: LauncherService_StopPlugin_def Let_def j_def)
  have inv1: "launcher_inv svc1" using StopPlugin_inv [OF inv stop] .
  obtain c where c: "c \<in> set (ls_cmds svc)" "(cmd_ref c, n) \<in> set (ls_waits svc)" "cmd_Path c = pi_Path i"
    using running_command [OF inv n] .
  have "list_ex (\<lambda>cmd. cmd_Path cmd = pi_Path i) (ls_cmds svc)" using c by (auto simp: list_ex_iff)
  then have "LauncherService_StartPlugin A E n svc1 = (Returns (j, Some (ErrPluginExists (pi_Name i))), svc1)"
    by (simp add: LauncherService_StartPlugin_def LauncherService_startPlugin_def svc1 mget_mput j_def)
  moreover have w: "(cmd_ref c, n) \<in> set (ls_waits svc1)" using c(2) by (simp add: svc1)
  moreover have "\<exists>info svc3. LauncherService_StartPlugin A E n svc2 = (Returns (info, le_early E (pi_Path i)), svc3)
      \<and> pi_Running info \<and> pi_PID info = pid"
    if run: "plugin_exited txb usage now x (cmd_ref c) n svc1 = Returns svc2" and cr: "credentials_made A E n svc2"
      and st: "le_Start E (pi_Path i) = Inr pid" for svc2 pid
  proof -
    define k where "k = exited_info txb usage now x n j"
    have "svc2 = svc1\<lparr>ls_plugins := mput n k (ls_plugins svc1), ls_waits := filter (\<lambda>w. fst w \<noteq> cmd_ref c) (ls_waits svc1),
        ls_cmds := filter (\<lambda>d. cmd_ref d \<noteq> cmd_ref c) (ls_cmds svc1)\<rparr>"
      by (rule plugin_exited_result [OF inv1 w, of txb usage now x]) (use run in \<open>simp add: svc1 mget_mput k_def\<close>)
    then have "mget (ls_plugins svc2) n = Some k" "\<not> pi_Running k" "pi_Path k = pi_Path i"
        "\<not> list_ex (\<lambda>d. cmd_Path d = pi_Path k) (ls_cmds svc2)"
      using path_free_after_exit [OF inv c(1)] c(3) by (simp_all add: mget_mput k_def j_def svc1)
    with startPlugin_runs [OF _ _ _ cr, of k] st show ?thesis by (auto simp: LauncherService_StartPlugin_def)
  qed
  moreover have "\<not> pi_Running j" by (simp add: j_def)
  ultimately show ?thesis by blast
qed

lemma restart_after_stop_witness:
  "\<exists>info svc1. svc1 = snd (LauncherService_StopPlugin (\<lambda>e. []) (\<lambda>pid. None) ''core'' demo_launcher)
     \<and> LauncherService_StartPlugin no_auth demo_launch ''core'' svc1 = (Returns (info, Some (ErrPluginExists ''core'')), svc1)"
proof -
  obtain i where i: "mget (ls_plugins demo_launcher) ''core'' = Some i" "pi_Running i" "pi_Name i = ''core''"
    using demo_launcher_state(3) by blast
  from restart_after_stop [OF demo_launcher_reach i(1,2) surjective_pairing [of "LauncherService_StopPlugin (\<lambda>e. []) (\<lambda>pid. None) ''core'' demo_launcher"],
    of demo_launch "\<lambda>e. []" "\<lambda>p. None" 0 NoExitInfo] i(3)
  show ?thesis by auto
qed

section \<open>Stopping all plugins\<close>

lemma stop_each_result:
  "stop_each stop cfg b cs err =
     (let ds = filter (\<lambda>c. \<not> keeps_core cfg b c) cs in (map cmd_Pid ds, if ds = [] then err else stop (cmd_Pid (last ds))))"
  by (induction stop cfg b cs err rule: stop_each.induct) (auto simp: Let_def)

text \<open>
  StopAllPlugins stops the processes in the reverse of the order they were started in, all of
  them except the core, which is stopped only when that is asked for; it reports the
  error of the process that was started first and loses the errors of the others.
\<close>
lemma StopAllPlugins_reverse_order:
  "LauncherService_StopAllPlugins stop includingCore svc =
     (let cs = filter (\<lambda>c. \<not> keeps_core (ls_cfg svc) includingCore c) (ls_cmds svc)
      in (rev (map cmd_Pid cs), case cs of [] \<Rightarrow> None | c # _ \<Rightarrow> stop (cmd_Pid c)))"
proof -
  have "filter (\<lambda>c. \<not> keeps_core (ls_cfg svc) includingCore c) (rev (ls_cmds svc))
      = rev (filter (\<lambda>c. \<not> keeps_core (ls_cfg svc) includingCore c) (ls_cmds svc))" by (simp add: rev_filter)
  then show ?thesis
    unfolding LauncherService_StopAllPlugins_def stop_each_result Let_def
    by (cases "filter (\<lambda>c. \<not> keeps_core (ls_cfg svc) includingCore c) (ls_cmds svc)") (simp_all add: rev_map)
qed

end
