(* ===== verification/LauncherStop.thy ===== *)
theory LauncherStop
  imports LauncherProps
begin

text \<open>
  Stopping in the launcher, more closely: the loop of \<open>StopAllPlugins\<close> runs without the lock over a
  slice that shares its array with the command list, while clean-ups remove commands from that
  array in place; and the wait of \<open>Stop\<close> for a process to end. Also the result of \<open>List\<close>.
\<close>

section \<open>StopAllPlugins while processes end\<close>

text \<open>
  \<open>sr_arr\<close> is the shared array, \<open>sr_len\<close> the current length of \<open>svc.cmds\<close>; the loop still visits the
  indices below \<open>sr_next\<close>. Visited commands are stopped, or kept when they are the core.
\<close>

record stop_run =
  sr_arr :: "exec_Cmd list"
  sr_len :: nat
  sr_next :: nat
  sr_visited :: "exec_Cmd list"
  sr_exited :: "exec_Cmd list"

text \<open>\<open>append(cmds[:i], cmds[i+1:]...)\<close> moves the later commands down; the last place keeps its old value.\<close>

definition slice_remove :: "exec_Cmd list \<Rightarrow> nat \<Rightarrow> nat \<Rightarrow> exec_Cmd list" where
  "slice_remove arr len i = take i arr @ drop (Suc i) (take len arr) @ drop (len - 1) arr"

definition stop_begin :: "exec_Cmd list \<Rightarrow> stop_run" where
  "stop_begin cmds = \<lparr>sr_arr = cmds, sr_len = length cmds, sr_next = length cmds, sr_visited = [], sr_exited = []\<rparr>"

inductive stopall_step :: "stop_run \<Rightarrow> stop_run \<Rightarrow> bool" where
  stop_visit: "sr_next r = Suc k \<Longrightarrow> stopall_step r (r\<lparr>sr_next := k, sr_visited := sr_visited r @ [sr_arr r ! k]\<rparr>)"
| stop_exit: "i < sr_len r \<Longrightarrow> stopall_step r (r\<lparr>sr_arr := slice_remove (sr_arr r) (sr_len r) i, sr_len := sr_len r - 1,
    sr_exited := sr_exited r @ [sr_arr r ! i]\<rparr>)"

inductive_cases stopall_stepE: "stopall_step r r'"

lemma length_slice_remove: "i < len \<Longrightarrow> len \<le> length arr \<Longrightarrow> length (slice_remove arr len i) = length arr"
  by (simp add: slice_remove_def)

lemma nth_slice_remove:
  assumes "i < len" "len \<le> length arr" "p < len - 1"
  shows "slice_remove arr len i ! p = (if p < i then arr ! p else arr ! Suc p)"
  using assms by (auto simp: slice_remove_def nth_append min_def)

text \<open>Every command of the list is visited, has ended, or is still ahead of the loop.\<close>

definition stop_inv :: "exec_Cmd list \<Rightarrow> stop_run \<Rightarrow> bool" where
  "stop_inv cmds r \<longleftrightarrow> sr_len r \<le> length (sr_arr r) \<and> (\<forall>c \<in> set cmds. c \<in> set (sr_visited r) \<or> c \<in> set (sr_exited r)
     \<or> (\<exists>p. p < sr_next r \<and> p < sr_len r \<and> sr_arr r ! p = c))"

lemma stop_inv_begin: "stop_inv cmds (stop_begin cmds)"
  by (auto simp: stop_inv_def stop_begin_def in_set_conv_nth)

lemma stop_inv_visit:
  assumes "stop_inv cmds r" "sr_next r = Suc k"
  shows "stop_inv cmds (r\<lparr>sr_next := k, sr_visited := sr_visited r @ [sr_arr r ! k]\<rparr>)"
  using assms by (auto simp: stop_inv_def less_Suc_eq)

lemma stop_inv_exit:
  assumes inv: "stop_inv cmds r" and i: "i < sr_len r"
  shows "stop_inv cmds (r\<lparr>sr_arr := slice_remove (sr_arr r) (sr_len r) i, sr_len := sr_len r - 1,
    sr_exited := sr_exited r @ [sr_arr r ! i]\<rparr>)" (is "stop_inv cmds ?r")
proof -
  have len: "sr_len r \<le> length (sr_arr r)" using inv by (simp add: stop_inv_def)
  have "c \<in> set (sr_visited ?r) \<or> c \<in> set (sr_exited ?r) \<or> (\<exists>p. p < sr_next ?r \<and> p < sr_len ?r \<and> sr_arr ?r ! p = c)"
    if mem: "c \<in> set cmds" for c
  proof -
    consider "c \<in> set (sr_visited r)" | "c \<in> set (sr_exited r)"
      | p where "p < sr_next r" "p < sr_len r" "sr_arr r ! p = c"
      using inv mem unfolding stop_inv_def by blast
    then show ?thesis
    proof cases
      case 3
      consider "p = i" | "p < i" | "i < p" by linarith
      then show ?thesis
      proof cases
        case 2
        with 3 i len nth_slice_remove [OF i len, of p] show ?thesis by (intro disjI2) (auto intro!: exI [of _ p])
      next
        case i: 3
        with 3 assms(2) len nth_slice_remove [OF assms(2) len, of "p - 1"]
        show ?thesis by (intro disjI2) (auto intro!: exI [of _ "p - 1"])
      qed (use 3 in simp)
    qed simp_all
  qed
  then show ?thesis using len i by (simp add: stop_inv_def length_slice_remove)
qed

lemma stopall_inv:
  assumes "stopall_step\<^sup>*\<^sup>* (stop_begin cmds) r"
  shows "stop_inv cmds r"
  using assms
proof (induction rule: rtranclp_induct)
  case (step y z)
  then show ?case using stop_inv_visit stop_inv_exit by (auto elim!: stopall_stepE)
qed (rule stop_inv_begin)

text \<open>
  C27. StopAllPlugins misses no process: although the clean-ups of processes that end during the loop
  shift the array that the loop reads, when the loop is done every command that was on record at
  its start has been visited or has ended.
\<close>
theorem StopAllPlugins_misses_none:
  assumes "stopall_step\<^sup>*\<^sup>* (stop_begin (ls_cmds svc)) r" "sr_next r = 0" "c \<in> set (ls_cmds svc)"
  shows "c \<in> set (sr_visited r) \<or> c \<in> set (sr_exited r)"
  using stopall_inv [OF assms(1)] assms(2,3) by (auto simp: stop_inv_def)

abbreviation demo_cmd :: "nat \<Rightarrow> exec_Cmd" where
  "demo_cmd k \<equiv> \<lparr>cmd_ref = k, cmd_Path = ''p'', cmd_Pid = int k\<rparr>"

text \<open>The second of three commands is visited when the first one has ended during the loop.\<close>

theorem StopAllPlugins_misses_none_witness:
  "\<exists>r. stopall_step\<^sup>*\<^sup>* (stop_begin (ls_cmds (demo_launcher\<lparr>ls_cmds := [demo_cmd 1, demo_cmd 2, demo_cmd 3]\<rparr>))) r
     \<and> sr_exited r = [demo_cmd 1] \<and> demo_cmd 2 \<in> set (sr_visited r)"
proof -
  let ?cs = "[demo_cmd 1, demo_cmd 2, demo_cmd 3]"
  let ?svc = "demo_launcher\<lparr>ls_cmds := ?cs\<rparr>"
  let ?ra = "\<lparr>sr_arr = ?cs, sr_len = 3, sr_next = 2, sr_visited = [demo_cmd 3], sr_exited = []\<rparr>"
  let ?rb = "\<lparr>sr_arr = [demo_cmd 2, demo_cmd 3, demo_cmd 3], sr_len = 2, sr_next = 2, sr_visited = [demo_cmd 3], sr_exited = [demo_cmd 1]\<rparr>"
  let ?rc = "?rb\<lparr>sr_next := 1, sr_visited := [demo_cmd 3, demo_cmd 3]\<rparr>"
  let ?rd = "?rb\<lparr>sr_next := 0, sr_visited := [demo_cmd 3, demo_cmd 3, demo_cmd 2]\<rparr>"
  have "stopall_step (stop_begin (ls_cmds ?svc)) ?ra"
    using stop_visit [of "stop_begin ?cs" 2] by (simp add: stop_begin_def numeral_2_eq_2 numeral_3_eq_3)
  moreover have "stopall_step ?ra ?rb" using stop_exit [of 0 ?ra] by (simp add: slice_remove_def numeral_2_eq_2 numeral_3_eq_3)
  moreover have "stopall_step ?rb ?rc" using stop_visit [of ?rb 1] by simp
  moreover have "stopall_step ?rc ?rd" using stop_visit [of ?rc 0] by simp
  ultimately have run: "stopall_step\<^sup>*\<^sup>* (stop_begin (ls_cmds ?svc)) ?rd" by auto
  have "demo_cmd 2 \<in> set (sr_visited ?rd) \<or> demo_cmd 2 \<in> set (sr_exited ?rd)"
    by (rule StopAllPlugins_misses_none [OF run]) simp_all
  with run show ?thesis by (intro exI [of _ ?rd]) simp
qed

section \<open>Stopping one process\<close>

text \<open>A process that has ended stays ended.\<close>

definition ends_for_good :: "(nat \<Rightarrow> bool) \<Rightarrow> bool" where
  "ends_for_good alive \<longleftrightarrow> (\<forall>n m. n \<le> m \<longrightarrow> \<not> alive n \<longrightarrow> \<not> alive m)"

lemma ends_for_goodD: "ends_for_good alive \<Longrightarrow> \<not> alive n \<Longrightarrow> n \<le> m \<Longrightarrow> \<not> alive m"
  by (simp add: ends_for_good_def)

text \<open>The loop counted in rounds instead of milliseconds.\<close>

lemma stop_wait_rounds:
  "stop_wait alive (10 * k) n = (if k < 100 then if alive n then stop_wait alive (10 * Suc k) (Suc n) else Suc n else n)"
  by (subst stop_wait.simps) (simp add: add.commute)

lemma stop_wait_bound: "stop_wait alive (10 * k) n \<le> n + (100 - k)"
proof (induction "100 - k" arbitrary: k n)
  case 0
  then show ?case by (simp add: stop_wait_rounds)
next
  case (Suc d)
  from Suc(2) have "d = 100 - Suc k" by simp
  from Suc(1) [OF this, of "Suc n"] Suc(2) show ?case by (subst stop_wait_rounds) auto
qed

lemma stop_wait_alive:
  assumes "ends_for_good alive"
  shows "alive (stop_wait alive (10 * k) n) \<Longrightarrow> stop_wait alive (10 * k) n = n + (100 - k)"
proof (induction "100 - k" arbitrary: k n)
  case 0
  then show ?case by (simp add: stop_wait_rounds)
next
  case (Suc d)
  then have k: "k < 100" "d = 100 - Suc k" by simp_all
  have al: "alive n"
    using Suc.prems k ends_for_goodD [OF assms, of n "Suc n"] by (auto simp: stop_wait_rounds [of alive k n] split: if_splits)
  then have "stop_wait alive (10 * k) n = stop_wait alive (10 * Suc k) (Suc n)"
    using k by (subst stop_wait_rounds) simp
  with Suc.hyps(1) [OF k(2), of "Suc n"] Suc.prems k show ?case by simp
qed

text \<open>
  C30. Stop always returns: it asks at most 101 times whether the process still runs (100 times with a
  wait of 10 msec in between), and sends one SIGTERM and at most one kill. For a process that stays
  ended once it has ended, the kill is sent exactly when it still runs after the last wait, and an
  error is returned only when that kill fails.
\<close>
theorem Stop_bounded:
  assumes "ends_for_good (pr_alive P)" "pr_found P"
  shows "count_list (snd (Stop P)) SendTerm = 1 \<and> count_list (snd (Stop P)) Probe \<le> 101
    \<and> (SendKill \<in> set (snd (Stop P)) \<longleftrightarrow> pr_alive P 100)
    \<and> fst (Stop P) = (if pr_alive P 100 then pr_Kill P else None)"
proof -
  let ?n = "stop_wait (pr_alive P) 0 0"
  have le: "?n \<le> 100" using stop_wait_bound [of "pr_alive P" 0 0] by simp
  have "pr_alive P ?n \<longleftrightarrow> pr_alive P 100"
    using stop_wait_alive [OF assms(1), of 0 0] ends_for_goodD [OF assms(1) _ le] by auto
  moreover have "count_list (replicate k Probe) SendTerm = 0" "count_list (replicate k Probe) Probe = k" for k
    by (induction k) auto
  ultimately show ?thesis using assms(2) le by (simp add: Stop_def Let_def)
qed

theorem Stop_bounded_witness:
  "fst (Stop \<lparr>pr_found = True, pr_alive = (\<lambda>n. n < 3), pr_Kill = Some (ErrLib ''kill'')\<rparr>) = None"
  using Stop_bounded [of "\<lparr>pr_found = True, pr_alive = (\<lambda>n. n < 3), pr_Kill = Some (ErrLib ''kill'')\<rparr>"]
  by (simp add: ends_for_good_def)

section \<open>The list of plugins\<close>

lemma list_each_result:
  "set keys \<subseteq> dom (mget p) \<Longrightarrow> distinct keys
     \<Longrightarrow> fst (list_each usage keys p) = Returns (map (\<lambda>k. LauncherService_updateStatus usage (the (mget p k))) keys)"
proof (induction keys arbitrary: p)
  case (Cons k keys)
  then obtain i where i: "mget p k = Some i" by auto
  let ?p = "mput k (LauncherService_updateStatus usage i) p"
  have "fst (list_each usage keys ?p) = Returns (map (\<lambda>k. LauncherService_updateStatus usage (the (mget ?p k))) keys)"
    by (rule Cons.IH) (use Cons.prems in \<open>auto simp: mget_mput\<close>)
  moreover have "map (\<lambda>k. LauncherService_updateStatus usage (the (mget ?p k))) keys
      = map (\<lambda>k. LauncherService_updateStatus usage (the (mget p k))) keys"
    using Cons.prems by (auto simp: mget_mput)
  ultimately show ?case using i by (cases "list_each usage keys ?p") (simp add: Let_def)
qed simp

text \<open>
  List returns every plugin, or every running one, once and in the order of their names, with the
  current usage, and changes neither the running state nor the path or PID of any plugin.
\<close>
lemma List_sorted_complete:
  assumes "launcher_reach A svc"
  shows "\<exists>keys svc'. LauncherService_List usage onlyRunning svc
      = (Returns (map (\<lambda>k. LauncherService_updateStatus usage (the (mget (ls_plugins svc) k))) keys), svc')
    \<and> sorted keys \<and> distinct keys
    \<and> (\<forall>k. k \<in> set keys \<longleftrightarrow> (\<exists>i. mget (ls_plugins svc) k = Some i \<and> (\<not> onlyRunning \<or> pi_Running i)))
    \<and> table_grows (ls_plugins svc) (ls_plugins svc')"
proof -
  let ?p = "ls_plugins svc"
  define keys where "keys = sort (map fst (filter (\<lambda>(key, val). \<not> onlyRunning \<or> pi_Running val) ?p))"
  have wf: "wf_map ?p" using launcher_reach_launcher_inv [OF assms] by (simp add: launcher_inv_def)
  then have d: "distinct keys" by (simp add: keys_def wf_map_def distinct_map_filter)
  have mem: "k \<in> set keys \<longleftrightarrow> (\<exists>i. mget ?p k = Some i \<and> (\<not> onlyRunning \<or> pi_Running i))" for k
    using wf by (auto simp: keys_def mget_mem_iff image_iff split_beta)
  then have "set keys \<subseteq> dom (mget ?p)" by auto
  from list_each_result [OF this d, of usage]
  obtain q where q: "list_each usage keys ?p
      = (Returns (map (\<lambda>k. LauncherService_updateStatus usage (the (mget ?p k))) keys), q)"
    by (cases "list_each usage keys ?p") auto
  then have "LauncherService_List usage onlyRunning svc
      = (Returns (map (\<lambda>k. LauncherService_updateStatus usage (the (mget ?p k))) keys), svc\<lparr>ls_plugins := q\<rparr>)"
    unfolding LauncherService_List_def Let_def keys_def [symmetric] by simp
  with d mem list_each_grows [OF q] show ?thesis by (intro exI) (auto simp: keys_def)
qed

lemma List_sorted_complete_witness:
  "\<exists>keys svc'. LauncherService_List (\<lambda>p. None) True demo_launcher
      = (Returns (map (\<lambda>k. LauncherService_updateStatus (\<lambda>p. None) (the (mget (ls_plugins demo_launcher) k))) keys), svc')
     \<and> ''core'' \<in> set keys"
  using List_sorted_complete [OF demo_launcher_reach, of "\<lambda>p. None" True] demo_launcher_state(3) by blast

end
