(* ===== verification/AuthServiceClient.thy ===== *)
theory AuthServiceClient
  imports AuthProps AuthClient
begin

text \<open>
  The auth client of \<open>AuthClient\<close>, answered by the auth service.
\<close>

text \<open>
  \<open>authcli.ManageClients\<close> as the services see it; a handler that panics gives no response.
\<close>

definition token_response ::
  "(string \<times> go_error option) outcome \<times> AuthState \<Rightarrow> (go_error + string) \<times> AuthState" where
  "token_response r =
     (case r of
        (Returns (token, None), svc) \<Rightarrow> (Inr token, svc)
      | (Returns (_, Some err), svc) \<Rightarrow> (Inl err, svc)
      | (Panics p, svc) \<Rightarrow> (Inl (ErrLib ''no response''), svc))"

definition ManageClients :: "auth_env \<Rightarrow> AuthState auth_client" where
  "ManageClients env =
     \<lparr>ac_AddService = (\<lambda>serviceID displayName pubKey svc.
        token_response (AuthManageClients_AddService env serviceID displayName pubKey svc)),
      ac_AddDevice = (\<lambda>deviceID displayName pubKey svc.
        token_response (AuthManageClients_AddDevice env deviceID displayName pubKey svc))\<rparr>"

lemma token_response_Inr: "token_response r = (Inr tok, svc) \<longleftrightarrow> r = (Returns (tok, None), svc)"
  by (auto simp: token_response_def split: prod.splits outcome.splits option.splits)

end
