(* ===== verification/PluginLogin.thy ===== *)
theory PluginLogin
  imports LauncherStop AuthServiceClient
begin

text \<open>
  The launcher, the key files, the auth service, the message server and the hub client together: a
  plugin that the launcher starts finds a key and a token in the certificates directory with
  which the message server lets it in.
\<close>

section \<open>The keys of the message server\<close>

abbreviation nkeys_of :: "(nats_user list \<times> nkey_user list \<times> (string, ClientAuthInfo) gomap) \<times> NatsMsgServer \<Rightarrow> nkey_user list" where
  "nkeys_of r \<equiv> fst (snd (fst r))"

lemma apply_clients_keeps_nkeys: "set nks \<subseteq> set (nkeys_of (apply_clients grow cs srv (pws, nks, acs)))"
proof (induction cs arbitrary: srv pws nks acs)
  case (Cons c cs)
  obtain perms srv1 where m: "NatsMsgServer_MakePermissions grow c srv = (perms, srv1)" by fastforce
  show ?case
  proof (cases "ci_PubKey c \<noteq> []")
    case True
    have "set nks \<subseteq> set (nks @ [\<lparr>nk_Nkey = ci_PubKey c, nk_Permissions = Some perms\<rparr>])" by auto
    also note Cons.IH [of _ srv1]
    finally show ?thesis using m True by simp
  next
    case False
    with m Cons.IH [of nks srv1] show ?thesis by simp
  qed
qed simp

lemma apply_clients_nkeys:
  "ci \<in> set cs \<Longrightarrow> ci_PubKey ci \<noteq> [] \<Longrightarrow> ci_PubKey ci \<in> nk_Nkey ` set (nkeys_of (apply_clients grow cs srv (pws, nks, acs)))"
proof (induction cs arbitrary: srv pws nks acs)
  case (Cons c cs)
  obtain perms srv1 where m: "NatsMsgServer_MakePermissions grow c srv = (perms, srv1)" by fastforce
  show ?case
  proof (cases "ci \<in> set cs")
    case True
    with Cons.IH [OF True Cons.prems(2)] m show ?thesis by simp
  next
    case False
    with Cons.prems have c: "ci = c" "ci_PubKey c \<noteq> []" by auto
    let ?u = "\<lparr>nk_Nkey = ci_PubKey c, nk_Permissions = Some perms\<rparr>"
    have "?u \<in> set (nkeys_of (apply_clients grow (c # cs) srv (pws, nks, acs)))"
      using apply_clients_keeps_nkeys [of "nks @ [?u]" grow cs srv1] m c(2) by auto
    then have "nk_Nkey ?u \<in> nk_Nkey ` set (nkeys_of (apply_clients grow (c # cs) srv (pws, nks, acs)))" by (rule imageI)
    then show ?thesis using c(1) by simp
  qed
qed simp

lemma onChange_nkeys:
  assumes "AuthManageClients_onChange env svc = (err, svc')" "mget (fs_entries (as_store svc)) c = Some e"
    "cp_PubKey (ae_profile e) \<noteq> []"
  shows "cp_PubKey (ae_profile e) \<in> nk_Nkey ` set (ms_Nkeys (as_server svc'))"
proof -
  let ?cs = "map auth_info (AuthnFileStore_GetEntries (as_store svc))"
  have "e \<in> set (AuthnFileStore_GetEntries (as_store svc))"
    using assms(2) by (force simp: AuthnFileStore_GetEntries_def dest: map_of_SomeD)
  then have "auth_info e \<in> set ?cs" by simp
  moreover have "ci_PubKey (auth_info e) = cp_PubKey (ae_profile e)" by (simp add: auth_info_def)
  ultimately have "cp_PubKey (ae_profile e) \<in> nk_Nkey ` set (nkeys_of (apply_clients (ax_grow env) ?cs (as_server svc) acc))" for acc
    using apply_clients_nkeys [of "auth_info e" ?cs] assms(3) by (cases acc) simp
  then show ?thesis
    using assms(1) by (auto simp: AuthManageClients_onChange_def NatsMsgServer_ApplyAuth_def Let_def split: prod.splits)
       (metis fst_conv snd_conv)
qed

text \<open>A service that was added without an error has its key registered with the server; without
  callout the token is the public key.\<close>

lemma AddService_nkey:
  assumes "\<not> ms_AuthCallout (as_server svc)" "pub \<noteq> []"
    and run: "AuthManageClients_AddService env c dn pub svc = (Returns (tok, None), svc')"
  shows "tok = pub \<and> pub \<in> nk_Nkey ` set (ms_Nkeys (as_server svc'))
    \<and> (\<exists>e. mget (fs_entries (as_store svc')) c = Some e \<and> cp_PubKey (ae_profile e) = pub \<and> cp_Role (ae_profile e) = ClientRoleService)"
proof -
  let ?p = "new_profile c ClientTypeService dn pub ClientRoleService"
  obtain st1 where add: "AuthnFileStore_Add (ax_pw env) (ax_msec env) c ?p (as_store svc) = (None, st1)"
    using run by (auto simp: AuthManageClients_AddService_def split: if_splits prod.splits option.splits)
  obtain e where e: "mget (fs_entries st1) c = Some e" "cp_PubKey (ae_profile e) = pub"
      "cp_Role (ae_profile e) = ClientRoleService"
    using Add_entry [OF add] by (auto simp: new_profile_def)
  have ct: "create_token env (client_info c ClientTypeService pub ClientRoleService) (svc\<lparr>as_store := st1\<rparr>)
      = (Returns (pub, None), svc\<lparr>as_store := st1\<rparr>)"
    using assms(1,2) by (simp add: create_token_def NatsMsgServer_CreateToken_def client_info_def)
  from run add ct have tok: "tok = pub" and on: "AuthManageClients_onChange env (svc\<lparr>as_store := st1\<rparr>) = (None, svc')"
    using assms(2) by (auto simp: AuthManageClients_AddService_def split: if_splits prod.splits)
  have "as_store svc' = st1" using on by (auto simp: AuthManageClients_onChange_def split: prod.splits)
  with tok on e onChange_nkeys [OF on, of c e] assms(2) show ?thesis by simp
qed

section \<open>The files of a plugin\<close>

lemma LoadCreate_new_key:
  assumes L: "crypto_ok L" "keygen_ok gen" and ks: "dir \<noteq> []" "plain_name n"
    and new: "fs (path_Join dir (n @ KPFileExt)) = None"
  obtains x s fs' where "HubClient_LoadCreateKeyPair L gen files_ok hcID n dir fs
      = Returns ((Some (complete_key L KeyTypeNKey (NKeyPair x) (NKeyPub (nk_PublicKey L (NKeyPair x)))), None), fs')"
    "IHiveKey_ExportPrivate L (complete_key L KeyTypeNKey (NKeyPair x) (NKeyPub (nk_PublicKey L (NKeyPair x)))) = Returns s"
    "fs' (path_Join dir (n @ KPFileExt)) = Some s"
    "\<And>q. q \<noteq> path_Join dir (n @ KPFileExt) \<Longrightarrow> q \<noteq> path_Join dir (n @ PubKeyFileExt) \<Longrightarrow> fs' q = fs q"
proof -
  have cid: "or_default n hcID = n" using ks(2) by (auto simp: or_default_def plain_name_def)
  obtain k where k: "IHiveKey_Initialize L gen KeyTypeNKey = Returns k" "wf_nkey L k"
    using nkey.initialize_wf [OF L] by blast
  then obtain x where x: "k = complete_key L KeyTypeNKey (NKeyPair x) (NKeyPub (nk_PublicKey L (NKeyPair x)))"
    by (auto simp: wf_nkey_def)
  obtain s p where sp: "IHiveKey_ExportPrivate L k = Returns s" "IHiveKey_ExportPublic L k = Returns p"
    using nkey_exports [OF L(1) k(2)] by blast
  have ne: "path_Join dir (n @ PubKeyFileExt) \<noteq> path_Join dir (n @ KPFileExt)" using ks by (simp add: path_Join_inject)
  have "NewKeyFromFile L gen fs (path_Join dir (n @ KPFileExt)) = Returns (None, Some (ErrLib ''no such file or directory''))"
    using new by (simp add: NewKeyFromFile_def os_ReadFile_def)
  then have "HubClient_LoadCreateKeyPair L gen files_ok hcID n dir fs = Returns ((Some k, None),
      fs(path_Join dir (n @ KPFileExt) := Some s, path_Join dir (n @ PubKeyFileExt) := Some p))"
    using ks(1) cid k(1) sp
    by (simp add: HubClient_LoadCreateKeyPair_def Let_def IHiveKey_ExportPrivateToFile_def files_ok_def
        IHiveKey_ExportPublicToFile_def os_WriteFile_def os_Remove_def)
  then show thesis using that x sp(1) ne by simp
qed

text \<open>Logging in with a saved nkey, when the token is not a JWT.\<close>

lemma token_file_login:
  assumes L: "crypto_ok L" "keygen_ok gen" and ks: "dir \<noteq> []" "plain_name n"
    and s: "IHiveKey_ExportPrivate L (complete_key L KeyTypeNKey (NKeyPair x) (NKeyPub (nk_PublicKey L (NKeyPair x)))) = Returns s"
    and files: "fs (path_Join dir (n @ KPFileExt)) = Some s" "fs (path_Join dir (n @ TokenFileExt)) = Some (nk_PublicKey L (NKeyPair x))"
    and "nl_jwt_Decode N (nk_PublicKey L (NKeyPair x)) \<noteq> None" "cn_clientID nt = n"
  shows "HubClient_ConnectWithTokenFile N L gen fs dir nt = Returns (case nats_dial N (Nkey (NKeyPair x)) nt of
    (err, nt') \<Rightarrow> (err, Some (complete_key L KeyTypeNKey (NKeyPair x) (NKeyPub (nk_PublicKey L (NKeyPair x)))), nt'))"
proof -
  have "wf_nkey L (complete_key L KeyTypeNKey (NKeyPair x) (NKeyPub (nk_PublicKey L (NKeyPair x))))" unfolding wf_nkey_def by blast
  from load_saved_key [where fs = fs, OF L this ks s files(1)] show ?thesis
    using assms(7-9) path_Join_ne [of dir] ks
    by (auto simp: HubClient_ConnectWithTokenFile_def Let_def os_ReadFile_def NatsTransport_ConnectWithToken_def
        NatsTransport_ConnectWithKey_def complete_key_def split: prod.splits)
qed

text \<open>What a start of a plugin that writes its first token does before the process is started.\<close>

lemma start_writes_token:
  assumes run: "LauncherService_StartPlugin A E n svc = (Returns (info, err), svc')"
    and tok: "ls_fs svc (path_Join (ls_CertsDir svc) (n @ TokenFileExt)) = None"
      "ls_fs svc' (path_Join (ls_CertsDir svc) (n @ TokenFileExt)) = Some token"
  obtains svc1 where "add_plugin_client A E n svc = (Returns (), svc1)" "ls_fs svc' = ls_fs svc1" "ls_auth svc' = ls_auth svc1"
proof -
  have keep: "ls_fs svc' = ls_fs s1 \<and> ls_auth svc' = ls_auth s1" if "start_command E n i s1 = (x, svc')" for i s1 x
    using that by (auto simp: start_command_def Let_def split: sum.splits)
  have "\<exists>i x s1. (if n \<noteq> lc_CoreBin (ls_cfg svc) then add_plugin_client A E n svc else (Returns (), svc)) = (Returns (), s1)
      \<and> start_command E n i s1 = (x, svc')"
    using run tok by (auto simp: LauncherService_StartPlugin_def LauncherService_startPlugin_def
        split: option.splits if_splits prod.splits outcome.splits)
  then obtain s1 where s1: "(if n \<noteq> lc_CoreBin (ls_cfg svc) then add_plugin_client A E n svc else (Returns (), svc)) = (Returns (), s1)"
      "ls_fs svc' = ls_fs s1" "ls_auth svc' = ls_auth s1"
    using keep by blast
  with tok have "n \<noteq> lc_CoreBin (ls_cfg svc)" by (auto split: if_splits)
  with s1 that show thesis by simp
qed

section \<open>Logging in\<close>

text \<open>
  C2. A plugin that the launcher starts can log in (StartStopPlugins.go, HubClient.go, AuthManageClients.go,
  NatsAuth.go, NatsTransport.go). When the launcher starts a plugin for the first time and a token
  file appears, the plugin's ConnectWithTokenFile on the same directory dials the message
  server with the nkey that was saved in its key file, and the public key of that nkey is
  one the message server accepts, on file for this plugin with the service role.
\<close>
theorem started_plugin_logs_in:
  assumes L: "crypto_ok (le_crypto E)" "keygen_ok (le_gen E)" "keygen_ok gen"
    and E: "le_keyFiles E = files_ok" "le_RemoveToken E = None" "le_WriteToken E = None"
    and dir: "ls_CertsDir svc \<noteq> []" "plain_name n" and mode: "\<not> ms_AuthCallout (as_server (ls_auth svc))"
    and new: "ls_fs svc (path_Join (ls_CertsDir svc) (n @ KPFileExt)) = None"
      "ls_fs svc (path_Join (ls_CertsDir svc) (n @ TokenFileExt)) = None"
    and run: "LauncherService_StartPlugin (ManageClients env) E n svc = (Returns (info, err), svc')"
    and token: "ls_fs svc' (path_Join (ls_CertsDir svc) (n @ TokenFileExt)) = Some tok"
    and nojwt: "\<And>x. nl_jwt_Decode N (nk_PublicKey (le_crypto E) (NKeyPair x)) \<noteq> None" and nt: "cn_clientID nt = n"
  shows "\<exists>x kp entry. HubClient_ConnectWithTokenFile N (le_crypto E) gen (ls_fs svc') (ls_CertsDir svc) nt
        = Returns (case nats_dial N (Nkey (NKeyPair x)) nt of (err, nt') \<Rightarrow> (err, Some kp, nt'))
    \<and> nk_PublicKey (le_crypto E) (NKeyPair x) \<in> nk_Nkey ` set (ms_Nkeys (as_server (ls_auth svc')))
    \<and> mget (fs_entries (as_store (ls_auth svc'))) n = Some entry
    \<and> cp_PubKey (ae_profile entry) = nk_PublicKey (le_crypto E) (NKeyPair x) \<and> cp_Role (ae_profile entry) = ClientRoleService"
proof -
  let ?L = "le_crypto E" and ?dir = "ls_CertsDir svc"
  let ?tokenPath = "path_Join ?dir (n @ TokenFileExt)" and ?keyPath = "path_Join ?dir (n @ KPFileExt)"
  obtain svc1 where cl: "add_plugin_client (ManageClients env) E n svc = (Returns (), svc1)"
    and fs': "ls_fs svc' = ls_fs svc1" and auth': "ls_auth svc' = ls_auth svc1"
    using start_writes_token [OF run new(2) token] .
  obtain x s fs1 where lc: "HubClient_LoadCreateKeyPair ?L (le_gen E) files_ok [] n ?dir (ls_fs svc)
      = Returns ((Some (complete_key ?L KeyTypeNKey (NKeyPair x) (NKeyPub (nk_PublicKey ?L (NKeyPair x)))), None), fs1)"
    and s: "IHiveKey_ExportPrivate ?L (complete_key ?L KeyTypeNKey (NKeyPair x) (NKeyPub (nk_PublicKey ?L (NKeyPair x)))) = Returns s"
    and fs1: "fs1 ?keyPath = Some s" and frame: "\<And>q. q \<noteq> ?keyPath \<Longrightarrow> q \<noteq> path_Join ?dir (n @ PubKeyFileExt) \<Longrightarrow> fs1 q = ls_fs svc q"
    by (rule LoadCreate_new_key [where fs = "ls_fs svc" and hcID = "[]", OF L(1,2) dir new(1)]) blast
  have tokfs: "fs1 ?tokenPath = ls_fs svc ?tokenPath" using frame dir by (simp add: path_Join_inject)
  let ?k = "complete_key ?L KeyTypeNKey (NKeyPair x) (NKeyPub (nk_PublicKey ?L (NKeyPair x)))"
  let ?pub = "nk_PublicKey ?L (NKeyPair x)"
  have pub: "IHiveKey_ExportPublic ?L ?k = Returns ?pub"
    by (simp add: IHiveKey_ExportPublic_def NKeysKey_ExportPublic_def complete_key_def)
  have "\<exists>tk auth. ac_AddService (ManageClients env) n ''plugin'' ?pub (ls_auth svc) = (Inr tk, auth)
      \<and> ls_auth svc1 = auth \<and> ls_fs svc1 = fs1(?tokenPath \<mapsto> tk)"
    using cl lc pub E fs' token new(2) tokfs
    by (auto simp: add_plugin_client_def Let_def os_WriteFile_def os_Remove_def split: if_splits sum.splits prod.splits)
  then obtain tk auth where add: "AuthManageClients_AddService env n ''plugin'' ?pub (ls_auth svc) = (Returns (tk, None), auth)"
      and svc1: "ls_auth svc1 = auth" "ls_fs svc1 = fs1(?tokenPath \<mapsto> tk)"
    by (auto simp: ManageClients_def token_response_Inr)
  have reg: "tk = ?pub" "?pub \<in> nk_Nkey ` set (ms_Nkeys (as_server auth))"
      "\<exists>e. mget (fs_entries (as_store auth)) n = Some e \<and> cp_PubKey (ae_profile e) = ?pub \<and> cp_Role (ae_profile e) = ClientRoleService"
    using AddService_nkey [OF mode crypto_okD(9) [OF L(1)] add] by blast+
  have ne: "?keyPath \<noteq> ?tokenPath" "?keyPath \<noteq> []"
    using dir by (simp_all add: path_Join_inject path_Join_ne)
  have "HubClient_ConnectWithTokenFile N ?L gen (ls_fs svc') ?dir nt
      = Returns (case nats_dial N (Nkey (NKeyPair x)) nt of (err, nt') \<Rightarrow> (err, Some ?k, nt'))"
    by (rule token_file_login [OF L(1,3) dir s, where fs = "ls_fs svc'"]) (use fs' svc1(2) fs1 ne reg(1) nt nojwt in simp_all)
  moreover obtain e where "mget (fs_entries (as_store auth)) n = Some e" "cp_PubKey (ae_profile e) = ?pub"
      "cp_Role (ae_profile e) = ClientRoleService" using reg(3) by blast
  ultimately show ?thesis using reg(2) auth' svc1(1)
    by (intro exI [of _ x] exI [of _ ?k] exI [of _ e] conjI) simp_all
qed

text \<open>An instance: the first start of a plugin \<open>hist\<close>.\<close>

definition nkey_auth :: AuthState where
  "nkey_auth = \<lparr>as_store = NewAuthnFileStore ''pw'' None, as_server = demo_server\<lparr>ms_AuthCallout := False\<rparr>, as_jobs = []\<rparr>"

definition hist_launcher :: "AuthState LauncherService" where
  "hist_launcher = (NewLauncherService core_cfg ''/bin'' ''/plugins'' ''/certs'' True Map.empty nkey_auth)
     \<lparr>ls_plugins := [(''hist'', zero_PluginInfo\<lparr>pi_Name := ''hist'', pi_Path := ''/plugins/hist''\<rparr>)], ls_mngAuth := True\<rparr>"

lemma hist_AddService:
  "\<exists>auth. AuthManageClients_AddService demo_env ''hist'' ''plugin'' ''Ua'' nkey_auth = (Returns (''Ua'', None), auth)"
  by (simp add: AuthManageClients_AddService_def nkey_auth_def NewAuthnFileStore_def demo_env_def AuthnFileStore_Add_def
      AuthnFileStore_save_def WritePasswordsToTempFile_def new_profile_def zero_profile_def default_validity_def
      create_token_def NatsMsgServer_CreateToken_def client_info_def AuthManageClients_onChange_def NatsMsgServer_ApplyAuth_def
      split_beta Let_def)

lemma certs_hist: "path_Join ''/certs'' (''hist'' @ KPFileExt) = ''/certs/hist.key''"
    "path_Join ''/certs'' (''hist'' @ PubKeyFileExt) = ''/certs/hist.pub''"
    "path_Join ''/certs'' (''hist'' @ TokenFileExt) = ''/certs/hist.token''"
  by (simp_all add: path_Join_def path_Clean_def path_rooted_def clean_elems.simps(2))

lemma hist_key:
  "HubClient_LoadCreateKeyPair demo_crypto (demo_gen ''a'') files_ok [] ''hist'' ''/certs'' Map.empty
     = Returns ((Some \<lparr>hk_type = KeyTypeNKey, hk_priv = Some (NKeyPair ''a''), hk_pub = Some (NKeyPub ''Ua'')\<rparr>, None),
         [''/certs/hist.key'' \<mapsto> ''SUa'', ''/certs/hist.pub'' \<mapsto> ''Ua''])"
  using certs_hist by (simp add: HubClient_LoadCreateKeyPair_def or_default_def NewKeyFromFile_def os_ReadFile_def
        IHiveKey_Initialize_def demo_gen_def demo_crypto_def files_ok_def IHiveKey_ExportPrivateToFile_def
        IHiveKey_ExportPublicToFile_def IHiveKey_ExportPrivate_def IHiveKey_ExportPublic_def
        NKeysKey_ExportPrivate_def NKeysKey_ExportPublic_def os_WriteFile_def os_Remove_def)

lemma hist_start:
  "\<exists>info err svc'. LauncherService_StartPlugin (ManageClients demo_env) demo_launch ''hist'' hist_launcher = (Returns (info, err), svc')
     \<and> ls_fs svc' ''/certs/hist.token'' = Some ''Ua''"
proof -
  obtain auth where add: "AuthManageClients_AddService demo_env ''hist'' ''plugin'' ''Ua'' nkey_auth = (Returns (''Ua'', None), auth)"
    using hist_AddService by blast
  have "\<exists>svc1. add_plugin_client (ManageClients demo_env) demo_launch ''hist'' hist_launcher = (Returns (), svc1)
      \<and> ls_fs svc1 ''/certs/hist.token'' = Some ''Ua''"
    using hist_key add certs_hist by (simp add: add_plugin_client_def hist_launcher_def NewLauncherService_def demo_launch_def
        IHiveKey_ExportPublic_def NKeysKey_ExportPublic_def ManageClients_def token_response_def os_WriteFile_def Let_def)
  then obtain svc1 where c: "add_plugin_client (ManageClients demo_env) demo_launch ''hist'' hist_launcher = (Returns (), svc1)"
      "ls_fs svc1 ''/certs/hist.token'' = Some ''Ua''" by blast
  then show ?thesis
    by (simp add: LauncherService_StartPlugin_def LauncherService_startPlugin_def hist_launcher_def NewLauncherService_def
        NewLauncherConfig_def start_command_def demo_launch_def zero_PluginInfo_def split_beta Let_def)
qed

theorem started_plugin_logs_in_witness:
  "\<exists>svc'. (\<exists>r. LauncherService_StartPlugin (ManageClients demo_env) demo_launch ''hist'' hist_launcher = (Returns r, svc'))
     \<and> (\<exists>x. nk_PublicKey demo_crypto (NKeyPair x) \<in> nk_Nkey ` set (ms_Nkeys (as_server (ls_auth svc'))))"
proof -
  let ?N = "\<lparr>nl_jwt_Decode = (\<lambda>t. Some ErrUnmarshal), nl_Connect = (\<lambda>u c. None), nl_JetStream = None\<rparr>"
  let ?nt = "NewNatsTransport ''nats://localhost'' [] ''hist''"
  obtain info err svc' where run: "LauncherService_StartPlugin (ManageClients demo_env) demo_launch ''hist'' hist_launcher
      = (Returns (info, err), svc')" and tok: "ls_fs svc' ''/certs/hist.token'' = Some ''Ua''"
    using hist_start by blast
  have h: "ls_CertsDir hist_launcher = ''/certs''" "ls_fs hist_launcher = Map.empty"
      "\<not> ms_AuthCallout (as_server (ls_auth hist_launcher))" "le_crypto demo_launch = demo_crypto" "le_gen demo_launch = demo_gen ''a''"
      "le_keyFiles demo_launch = files_ok" "le_RemoveToken demo_launch = None" "le_WriteToken demo_launch = None"
    by (simp_all add: hist_launcher_def NewLauncherService_def nkey_auth_def demo_launch_def)
  have "\<exists>x kp entry. HubClient_ConnectWithTokenFile ?N (le_crypto demo_launch) (demo_gen ''b'') (ls_fs svc') (ls_CertsDir hist_launcher) ?nt
        = Returns (case nats_dial ?N (Nkey (NKeyPair x)) ?nt of (err, nt') \<Rightarrow> (err, Some kp, nt'))
    \<and> nk_PublicKey (le_crypto demo_launch) (NKeyPair x) \<in> nk_Nkey ` set (ms_Nkeys (as_server (ls_auth svc')))
    \<and> mget (fs_entries (as_store (ls_auth svc'))) ''hist'' = Some entry
    \<and> cp_PubKey (ae_profile entry) = nk_PublicKey (le_crypto demo_launch) (NKeyPair x) \<and> cp_Role (ae_profile entry) = ClientRoleService"
    by (rule started_plugin_logs_in [OF _ _ _ _ _ _ _ _ _ _ _ run, where tok = "''Ua''"])
       (simp_all only: h certs_hist tok demo_crypto_ok demo_gen_ok, simp_all add: plain_name_def NewNatsTransport_def)
  then show ?thesis using run h(4) by auto
qed

end
