(* ===== verification/AuthRpc.thy ===== *)
theory AuthRpc
  imports AuthServiceClient RpcCall
begin

text \<open>
  The auth service as its clients see it: the messages of \<open>done_mod/mod_auth/auth_api\<close>, the method tables that
  \<open>AuthManageClients\<close>, \<open>AuthManageRoles\<close> and \<open>AuthManageProfile\<close> register when they start, and the clients of
  \<open>done_mod/mod_auth/auth_cli\<close> (\<open>ManageAuthClient.go\<close>, \<open>ManageRolesClient.go\<close>, \<open>ProfileClient.go\<close>). The result is that a
  request of a client is the handler of the service, run with the client's ID.
\<close>

section \<open>Messages\<close>

abbreviation AuthServiceName :: string where "AuthServiceName \<equiv> ''auth''"
abbreviation AuthManageClientsCapability :: string where "AuthManageClientsCapability \<equiv> ''manageClients''"
abbreviation AuthManageRolesCapability :: string where "AuthManageRolesCapability \<equiv> ''manageRoles''"
abbreviation (input) AuthProfileCapability :: string where "AuthProfileCapability \<equiv> ''profile''"

text \<open>The responses to adding a client, a new token and a refreshed token all have the token as their only field.\<close>

datatype auth_message =
    AddDeviceArgs string string string
  | AddServiceArgs string string string
  | AddUserArgs string string string string string
  | GetClientProfileArgs string
  | RemoveClientArgs string
  | SetClientPasswordArgs string string
  | UpdateClientArgs string ClientProfile
  | UpdateClientRoleArgs string string
  | CreateRoleArgs string
  | DeleteRoleArgs string
  | NewTokenArgs string
  | ServicePermissionsArgs string "string list"
  | UpdateNameArgs string
  | UpdatePasswordArgs string
  | UpdatePubKeyArgs string
  | TokenResp string
  | GetCountResp nat
  | GetProfileResp ClientProfile
  | GetProfilesResp "ClientProfile list"

fun auth_message_type :: "auth_message \<Rightarrow> nat" where
  "auth_message_type (AddDeviceArgs _ _ _) = 0"
| "auth_message_type (AddServiceArgs _ _ _) = 1"
| "auth_message_type (AddUserArgs _ _ _ _ _) = 2"
| "auth_message_type (GetClientProfileArgs _) = 3"
| "auth_message_type (RemoveClientArgs _) = 4"
| "auth_message_type (SetClientPasswordArgs _ _) = 5"
| "auth_message_type (UpdateClientArgs _ _) = 6"
| "auth_message_type (UpdateClientRoleArgs _ _) = 7"
| "auth_message_type (CreateRoleArgs _) = 8"
| "auth_message_type (DeleteRoleArgs _) = 9"
| "auth_message_type (NewTokenArgs _) = 10"
| "auth_message_type (ServicePermissionsArgs _ _) = 11"
| "auth_message_type (UpdateNameArgs _) = 12"
| "auth_message_type (UpdatePasswordArgs _) = 13"
| "auth_message_type (UpdatePubKeyArgs _) = 14"
| "auth_message_type (TokenResp _) = 15"
| "auth_message_type (GetCountResp _) = 16"
| "auth_message_type (GetProfileResp _) = 17"
| "auth_message_type (GetProfilesResp _) = 18"

section \<open>The methods of the service\<close>

type_synonym auth_results = "auth_message rpc_result list outcome \<times> AuthState"

definition token_reply :: "token_result \<Rightarrow> auth_results" where
  "token_reply r = (case r of (res, svc) \<Rightarrow>
     (and_then res (\<lambda>(token, err). Returns [ValueResult (TokenResp token), err_result err]), svc))"

definition error_reply :: "go_error option \<times> AuthState \<Rightarrow> auth_results" where
  "error_reply r = (case r of (err, svc) \<Rightarrow> (Returns [err_result err], svc))"

definition profile_reply :: "ClientProfile \<times> go_error option \<Rightarrow> AuthState \<Rightarrow> auth_results" where
  "profile_reply r svc = (case r of (prof, err) \<Rightarrow> (Returns [ValueResult (GetProfileResp prof), err_result err], svc))"

text \<open>The roles cannot be changed: both requests report success without doing anything.\<close>

definition AuthManageRoles_CreateRole :: "string \<Rightarrow> AuthState \<Rightarrow> go_error option \<times> AuthState" where
  "AuthManageRoles_CreateRole role svc = (None, svc)"

definition AuthManageRoles_DeleteRole :: "string \<Rightarrow> AuthState \<Rightarrow> go_error option \<times> AuthState" where
  "AuthManageRoles_DeleteRole role svc = (None, svc)"

definition AuthManageProfile_GetProfile :: "string \<Rightarrow> AuthState \<Rightarrow> ClientProfile \<times> go_error option" where
  "AuthManageProfile_GetProfile senderID svc = AuthnFileStore_GetProfile senderID (as_store svc)"

text \<open>The methods that take a message; the role methods have no context.\<close>

fun auth_call :: "auth_env \<Rightarrow> auth_message rpc_arg list \<Rightarrow> AuthState \<Rightarrow> auth_results" where
  "auth_call env [ContextArg c, ValueArg (AddDeviceArgs d n k)] svc = token_reply (AuthManageClients_AddDevice env d n k svc)"
| "auth_call env [ContextArg c, ValueArg (AddServiceArgs s n k)] svc = token_reply (AuthManageClients_AddService env s n k svc)"
| "auth_call env [ContextArg c, ValueArg (AddUserArgs u n pw k role)] svc =
     token_reply (AuthManageClients_AddUser env u n pw k role svc)"
| "auth_call env [ContextArg c, ValueArg (GetClientProfileArgs cid)] svc =
     profile_reply (AuthManageClients_GetClientProfile cid svc) svc"
| "auth_call env [ContextArg c, ValueArg (RemoveClientArgs cid)] svc = error_reply (AuthManageClients_RemoveClient env cid svc)"
| "auth_call env [ContextArg c, ValueArg (SetClientPasswordArgs cid pw)] svc =
     error_reply (AuthManageClients_SetClientPassword env cid pw svc)"
| "auth_call env [ContextArg c, ValueArg (UpdateClientArgs cid prof)] svc =
     error_reply (AuthManageClients_UpdateClient env cid prof svc)"
| "auth_call env [ContextArg c, ValueArg (UpdateClientRoleArgs cid role)] svc =
     error_reply (AuthManageClients_UpdateClientRole env cid role svc)"
| "auth_call env [ValueArg (CreateRoleArgs role)] svc = error_reply (AuthManageRoles_CreateRole role svc)"
| "auth_call env [ValueArg (DeleteRoleArgs role)] svc = error_reply (AuthManageRoles_DeleteRole role svc)"
| "auth_call env [ContextArg c, ValueArg (NewTokenArgs pw)] svc = token_reply (AuthManageProfile_NewToken env c pw svc)"
| "auth_call env [ContextArg c, ValueArg (ServicePermissionsArgs cap roles)] svc =
     error_reply (AuthManageProfile_SetServicePermissions c cap roles svc)"
| "auth_call env [ContextArg c, ValueArg (UpdateNameArgs name)] svc = error_reply (AuthManageProfile_UpdateName env c name svc)"
| "auth_call env [ContextArg c, ValueArg (UpdatePasswordArgs pw)] svc =
     error_reply (AuthManageProfile_UpdatePassword env c pw svc)"
| "auth_call env [ContextArg c, ValueArg (UpdatePubKeyArgs k)] svc = error_reply (AuthManageProfile_UpdatePubKey env c k svc)"
| "auth_call env argv svc = (Returns [], svc)"

type_synonym auth_method = "(auth_message, AuthState) rpc_method"

definition value_method :: "auth_env \<Rightarrow> nat \<Rightarrow> auth_method" where
  "value_method env ty = \<lparr>rm_params = [ContextParam, ValueParam ty], rm_call = auth_call env\<rparr>"

definition AuthManageClients_methods :: "auth_env \<Rightarrow> (string, auth_method) gomap" where
  "AuthManageClients_methods env =
     [(''addDevice'', value_method env 0), (''addService'', value_method env 1), (''addUser'', value_method env 2),
      (''getCount'', \<lparr>rm_params = [], rm_call = (\<lambda>argv svc.
         (Returns [ValueResult (GetCountResp (AuthManageClients_GetCount svc)), NilResult], svc))\<rparr>),
      (''getClientProfile'', value_method env 3),
      (''getProfiles'', \<lparr>rm_params = [], rm_call = (\<lambda>argv svc.
         (Returns [ValueResult (GetProfilesResp (AuthManageClients_GetProfiles svc)), NilResult], svc))\<rparr>),
      (''removeClient'', value_method env 4), (''updateClient'', value_method env 6),
      (''setClientPassword'', value_method env 5), (''updateRole'', value_method env 7)]"

definition AuthManageRoles_methods :: "auth_env \<Rightarrow> (string, auth_method) gomap" where
  "AuthManageRoles_methods env =
     [(''createRole'', \<lparr>rm_params = [ValueParam 8], rm_call = auth_call env\<rparr>),
      (''deleteRole'', \<lparr>rm_params = [ValueParam 9], rm_call = auth_call env\<rparr>)]"

definition context_method :: "(string \<Rightarrow> AuthState \<Rightarrow> auth_results) \<Rightarrow> auth_method" where
  "context_method f = \<lparr>rm_params = [ContextParam],
     rm_call = (\<lambda>argv svc. case argv of [ContextArg c] \<Rightarrow> f c svc | _ \<Rightarrow> (Returns [], svc))\<rparr>"

definition AuthManageProfile_methods :: "auth_env \<Rightarrow> (string, auth_method) gomap" where
  "AuthManageProfile_methods env =
     [(''getProfile'', context_method (\<lambda>c svc. profile_reply (AuthManageProfile_GetProfile c svc) svc)),
      (''newToken'', value_method env 10),
      (''refresh'', context_method (\<lambda>c svc. token_reply (AuthManageProfile_RefreshToken env c svc))),
      (''setServicePermissions'', value_method env 11), (''updateName'', value_method env 12),
      (''updatePassword'', value_method env 13), (''updatePubKey'', value_method env 14)]"

text \<open>Without a hub client there is nothing to register.\<close>

type_synonym 'w auth_hub = "(auth_message, AuthState) HubClient option \<times> 'w"

definition start_capability :: "'w hub_transport \<Rightarrow> string \<Rightarrow> (string, auth_method) gomap \<Rightarrow> 'w auth_hub \<Rightarrow> 'w auth_hub" where
  "start_capability tp cap methods h =
     (case h of
        (None, w) \<Rightarrow> (None, w)
      | (Some hc, w) \<Rightarrow> (case HubClient_SetRPCCapability tp cap methods hc w of (hc1, w1) \<Rightarrow> (Some hc1, w1)))"

definition AuthManageClients_Start :: "'w hub_transport \<Rightarrow> auth_env \<Rightarrow> 'w auth_hub \<Rightarrow> 'w auth_hub" where
  "AuthManageClients_Start tp env = start_capability tp AuthManageClientsCapability (AuthManageClients_methods env)"

definition AuthManageRoles_Start :: "'w hub_transport \<Rightarrow> auth_env \<Rightarrow> 'w auth_hub \<Rightarrow> 'w auth_hub" where
  "AuthManageRoles_Start tp env = start_capability tp AuthManageRolesCapability (AuthManageRoles_methods env)"

definition AuthManageProfile_Start :: "'w hub_transport \<Rightarrow> auth_env \<Rightarrow> 'w auth_hub \<Rightarrow> 'w auth_hub" where
  "AuthManageProfile_Start tp env = start_capability tp AuthProfileCapability (AuthManageProfile_methods env)"

section \<open>The clients\<close>

type_synonym ('c, 'w) auth_link = "(auth_message, 'c, 'w) hub_link"

definition auth_request ::
  "('c, 'w) auth_link \<Rightarrow> string \<Rightarrow> string \<Rightarrow> auth_message option \<Rightarrow> nat option \<Rightarrow> 'w \<Rightarrow> (auth_message option \<times> go_error option) \<times> 'w" where
  "auth_request cl cap m req resp w =
     (case cl of (tp, ser, hc) \<Rightarrow> HubClient_PubRPCRequest tp ser hc AuthServiceName cap m req resp w)"

text \<open>A response that was not received is the zero value.\<close>

definition response_token :: "(auth_message option \<times> go_error option) \<times> 'w \<Rightarrow> (string \<times> go_error option) \<times> 'w" where
  "response_token r = (case r of ((resp, err), w) \<Rightarrow> ((case resp of Some (TokenResp t) \<Rightarrow> t | _ \<Rightarrow> [], err), w))"

definition response_profile :: "(auth_message option \<times> go_error option) \<times> 'w \<Rightarrow> (ClientProfile \<times> go_error option) \<times> 'w" where
  "response_profile r =
     (case r of ((resp, err), w) \<Rightarrow> ((case resp of Some (GetProfileResp p) \<Rightarrow> p | _ \<Rightarrow> zero_profile, err), w))"

definition response_error :: "(auth_message option \<times> go_error option) \<times> 'w \<Rightarrow> go_error option \<times> 'w" where
  "response_error r = (case r of ((resp, err), w) \<Rightarrow> (err, w))"

subsection \<open>ManageClients\<close>

definition manage_rpc ::
  "('c, 'w) auth_link \<Rightarrow> string \<Rightarrow> auth_message option \<Rightarrow> nat option \<Rightarrow> 'w \<Rightarrow> (auth_message option \<times> go_error option) \<times> 'w" where
  "manage_rpc cl = auth_request cl AuthManageClientsCapability"

definition ManageClients_AddDevice where
  "ManageClients_AddDevice cl deviceID displayName pubKey w =
     response_token (manage_rpc cl ''addDevice'' (Some (AddDeviceArgs deviceID displayName pubKey)) (Some 15) w)"

definition ManageClients_AddService where
  "ManageClients_AddService cl serviceID displayName pubKey w =
     response_token (manage_rpc cl ''addService'' (Some (AddServiceArgs serviceID displayName pubKey)) (Some 15) w)"

definition ManageClients_AddUser where
  "ManageClients_AddUser cl userID displayName password pubKey role w =
     response_token (manage_rpc cl ''addUser'' (Some (AddUserArgs userID displayName password pubKey role)) (Some 15) w)"

definition ManageClients_GetCount where
  "ManageClients_GetCount cl w =
     (case manage_rpc cl ''getCount'' None (Some 16) w of
        ((resp, err), w1) \<Rightarrow> ((case resp of Some (GetCountResp n) \<Rightarrow> n | _ \<Rightarrow> 0, err), w1))"

text \<open>The request names the method that lists all profiles.\<close>

definition ManageClients_GetProfile where
  "ManageClients_GetProfile cl clientID w =
     response_profile (manage_rpc cl ''getProfiles'' (Some (GetClientProfileArgs clientID)) (Some 17) w)"

definition ManageClients_GetProfiles where
  "ManageClients_GetProfiles cl w =
     (case manage_rpc cl ''getProfiles'' None (Some 18) w of
        ((resp, err), w1) \<Rightarrow> ((case resp of Some (GetProfilesResp ps) \<Rightarrow> ps | _ \<Rightarrow> [], err), w1))"

definition ManageClients_RemoveClient where
  "ManageClients_RemoveClient cl clientID w =
     response_error (manage_rpc cl ''removeClient'' (Some (RemoveClientArgs clientID)) None w)"

definition ManageClients_SetClientPassword where
  "ManageClients_SetClientPassword cl clientID newPass w =
     response_error (manage_rpc cl ''setClientPassword'' (Some (SetClientPasswordArgs clientID newPass)) None w)"

definition ManageClients_UpdateClient where
  "ManageClients_UpdateClient cl clientID prof w =
     response_error (manage_rpc cl ''updateClient'' (Some (UpdateClientArgs clientID prof)) None w)"

definition ManageClients_UpdateClientRole where
  "ManageClients_UpdateClientRole cl clientID newRole w =
     response_error (manage_rpc cl ''updateRole'' (Some (UpdateClientRoleArgs clientID newRole)) None w)"

subsection \<open>RolesClient\<close>

definition RolesClient_CreateRole where
  "RolesClient_CreateRole cl role w =
     response_error (auth_request cl AuthManageRolesCapability ''createRole'' (Some (CreateRoleArgs role)) None w)"

definition RolesClient_DeleteRole where
  "RolesClient_DeleteRole cl role w =
     response_error (auth_request cl AuthManageRolesCapability ''deleteRole'' (Some (DeleteRoleArgs role)) None w)"

subsection \<open>ProfileClient\<close>

definition profile_rpc ::
  "('c, 'w) auth_link \<Rightarrow> string \<Rightarrow> auth_message option \<Rightarrow> nat option \<Rightarrow> 'w \<Rightarrow> (auth_message option \<times> go_error option) \<times> 'w" where
  "profile_rpc cl = auth_request cl AuthProfileCapability"

definition ProfileClient_GetProfile where
  "ProfileClient_GetProfile cl w = response_profile (profile_rpc cl ''getProfile'' None (Some 17) w)"

definition ProfileClient_NewToken where
  "ProfileClient_NewToken cl password w =
     response_token (profile_rpc cl ''newToken'' (Some (NewTokenArgs password)) (Some 15) w)"

definition ProfileClient_RefreshToken where
  "ProfileClient_RefreshToken cl w = response_token (profile_rpc cl ''refresh'' None (Some 15) w)"

definition ProfileClient_SetServicePermissions where
  "ProfileClient_SetServicePermissions cl capID roles w =
     response_error (profile_rpc cl ''setServicePermissions'' (Some (ServicePermissionsArgs capID roles)) None w)"

definition ProfileClient_UpdateName where
  "ProfileClient_UpdateName cl newName w = response_error (profile_rpc cl ''updateName'' (Some (UpdateNameArgs newName)) None w)"

definition ProfileClient_UpdatePassword where
  "ProfileClient_UpdatePassword cl newPassword w =
     response_error (profile_rpc cl ''updatePassword'' (Some (UpdatePasswordArgs newPassword)) None w)"

definition ProfileClient_UpdatePubKey where
  "ProfileClient_UpdatePubKey cl newPubKey w =
     response_error (profile_rpc cl ''updatePubKey'' (Some (UpdatePubKeyArgs newPubKey)) None w)"

end
