(* ===== verification/AuthRpcProps.thy ===== *)
theory AuthRpcProps
  imports AuthRpc
begin

text \<open>
  Requests that the clients of the auth service send over the message bus are calls of the handlers of the service, and
  what follows for the services that use these clients.
\<close>

section \<open>A running service\<close>

definition auth_running ::
  "(go_error \<Rightarrow> string) \<Rightarrow> string \<Rightarrow> (string, auth_method) gomap \<Rightarrow> (auth_message, AuthState) HubClient \<Rightarrow> AuthState NatsTransport
     \<Rightarrow> (string \<Rightarrow> string option \<Rightarrow> AuthState \<Rightarrow> (go_error + nats_msg) \<times> AuthState) \<Rightarrow> ('c, AuthState) auth_link \<Rightarrow> bool" where
  "auth_running error_text cap methods agent nt Request cl \<longleftrightarrow>
     hc_clientID agent = AuthServiceName \<and> rpc_connected error_text cap methods agent nt Request cl"

definition auth_keeps :: "auth_message serializer \<Rightarrow> auth_message \<Rightarrow> bool" where
  "auth_keeps ser v \<longleftrightarrow>
     snd (ser_Marshal ser v) = None \<and> ser_Unmarshal ser (auth_message_type v) (fst (ser_Marshal ser v)) = Inr v"

lemma table_ser_auth_keeps: "v \<in> set msgs \<Longrightarrow> auth_keeps (table_ser msgs) v"
  using table_ser_roundtrip [of v msgs] by (simp add: auth_keeps_def)

text \<open>What the client is told about a result of the service.\<close>

definition told_token :: "(go_error \<Rightarrow> string) \<Rightarrow> token_result \<Rightarrow> (string \<times> go_error option) \<times> AuthState" where
  "told_token error_text r =
     (case r of
        (Panics p, svc) \<Rightarrow> (([], Some (ErrLib ''nats: timeout'')), svc)
      | (Returns (token, None), svc) \<Rightarrow> ((token, None), svc)
      | (Returns (token, Some e), svc) \<Rightarrow> (([], Some (ErrLib (error_text e))), svc))"

definition told_error :: "(go_error \<Rightarrow> string) \<Rightarrow> go_error option \<times> AuthState \<Rightarrow> go_error option \<times> AuthState" where
  "told_error error_text r = (remote error_text (fst r), snd r)"

definition told_profile ::
  "(go_error \<Rightarrow> string) \<Rightarrow> ClientProfile \<times> go_error option \<Rightarrow> AuthState \<Rightarrow> (ClientProfile \<times> go_error option) \<times> AuthState" where
  "told_profile error_text r svc = ((if snd r = None then fst r else zero_profile, remote error_text (snd r)), svc)"

text \<open>The token of a result, empty without one.\<close>

definition result_token :: "token_result \<Rightarrow> string" where
  "result_token r = (case fst r of Returns (token, _) \<Rightarrow> token | Panics _ \<Rightarrow> [])"

lemma response_token_reply:
  assumes "auth_keeps ser (TokenResp (result_token r))"
  shows "response_token (rpc_outcome error_text ser (Some 15) (call_result ser (token_reply r))) = told_token error_text r"
proof -
  obtain res svc where r: "r = (res, svc)" by fastforce
  show ?thesis
  proof (cases res)
    case (Returns x)
    then obtain t err where x: "x = (t, err)" by fastforce
    then have "rpc_outcome error_text ser (Some 15) (call_result ser (token_reply r)) =
        ((if err = None then Some (TokenResp t) else None, remote error_text err), svc)"
      using rpc_outcome_value [of ser "TokenResp t" 15 error_text err svc] assms r Returns
      by (simp add: token_reply_def auth_keeps_def result_token_def)
    then show ?thesis using r Returns x by (cases err) (simp_all add: response_token_def told_token_def remote_def)
  next
    case (Panics p)
    then show ?thesis using r by (simp add: token_reply_def call_result_def rpc_outcome_def response_token_def told_token_def)
  qed
qed

lemma response_error_reply:
  "response_error (rpc_outcome error_text ser None (call_result ser (error_reply r))) = told_error error_text r"
  by (cases r) (simp add: error_reply_def response_error_def told_error_def)

lemma response_profile_reply:
  assumes "auth_keeps ser (GetProfileResp (fst r))"
  shows "response_profile (rpc_outcome error_text ser (Some 17) (call_result ser (profile_reply r svc))) = told_profile error_text r svc"
proof -
  obtain p err where r: "r = (p, err)" by fastforce
  have "rpc_outcome error_text ser (Some 17) (call_result ser (profile_reply r svc)) =
      ((if err = None then Some (GetProfileResp p) else None, remote error_text err), svc)"
    using rpc_outcome_value [of ser "GetProfileResp p" 17 error_text err svc] assms r
    by (simp add: profile_reply_def auth_keeps_def)
  then show ?thesis using r by (simp add: response_profile_def told_profile_def)
qed

lemma auth_value_call:
  assumes "auth_running error_text cap methods agent nt Request (tp, ser, client)" "\<And>e. error_text e \<noteq> []"
    and "auth_keeps ser req" "nats_token cap" "nats_token m" "mget methods m = Some (value_method env (auth_message_type req))"
  shows "auth_request (tp, ser, client) cap m (Some req) resp svc =
    rpc_outcome error_text ser resp (call_result ser (auth_call env [ContextArg (hc_clientID client), ValueArg req] svc))"
proof -
  have c: "rpc_connected error_text cap methods agent nt Request (tp, ser, client)" and a: "hc_clientID agent = AuthServiceName"
    using assms(1) by (auto simp: auth_running_def)
  have tok: "list_all nats_token [hc_clientID agent, cap, m]" using a assms(4,5) by (simp add: address_token_def)
  show ?thesis
    using rpc_value_call [OF c assms(2) assms(6) [unfolded value_method_def] tok] assms(3) a
    by (simp add: auth_request_def auth_keeps_def)
qed

lemma auth_context_call:
  assumes "auth_running error_text cap methods agent nt Request (tp, ser, client)" "\<And>e. error_text e \<noteq> []"
    and "nats_token cap" "nats_token m" "mget methods m = Some (context_method f)"
  shows "auth_request (tp, ser, client) cap m req resp svc =
    rpc_outcome error_text ser resp (call_result ser (f (hc_clientID client) svc))"
proof -
  have c: "rpc_connected error_text cap methods agent nt Request (tp, ser, client)" and a: "hc_clientID agent = AuthServiceName"
    using assms(1) by (auto simp: auth_running_def)
  have tok: "list_all nats_token [hc_clientID agent, cap, m]" using a assms(3,4) by (simp add: address_token_def)
  show ?thesis
    using rpc_context_call [OF c assms(2) assms(5) [unfolded context_method_def] tok] a by (simp add: auth_request_def)
qed

lemma auth_plain_call:
  assumes "auth_running error_text cap methods agent nt Request (tp, ser, client)" "\<And>e. error_text e \<noteq> []"
    and "nats_token cap" "nats_token m" "mget methods m = Some \<lparr>rm_params = [], rm_call = f\<rparr>"
  shows "auth_request (tp, ser, client) cap m req resp svc = rpc_outcome error_text ser resp (call_result ser (f [] svc))"
proof -
  have c: "rpc_connected error_text cap methods agent nt Request (tp, ser, client)" and a: "hc_clientID agent = AuthServiceName"
    using assms(1) by (auto simp: auth_running_def)
  have tok: "list_all nats_token [hc_clientID agent, cap, m]" using a assms(3,4) by (simp add: address_token_def)
  show ?thesis using rpc_plain_call [OF c assms(2,5) tok] a by (simp add: auth_request_def)
qed

lemma auth_tokens [simp]:
  "nats_token AuthManageClientsCapability" "nats_token AuthManageRolesCapability" "nats_token ''profile''"
  "list_all nats_token [''addDevice'', ''addService'', ''addUser'', ''getCount'', ''getClientProfile'', ''getProfiles'',
     ''removeClient'', ''updateClient'', ''setClientPassword'', ''updateRole'', ''createRole'', ''deleteRole'', ''getProfile'',
     ''newToken'', ''refresh'', ''setServicePermissions'', ''updateName'', ''updatePassword'', ''updatePubKey'']"
  by (simp_all add: address_token_def)

section \<open>ManageClients\<close>

abbreviation manage_running where
  "manage_running error_text env \<equiv> auth_running error_text AuthManageClientsCapability (AuthManageClients_methods env)"

lemma manage_methods [simp]:
  "mget (AuthManageClients_methods env) ''addDevice'' = Some (value_method env 0)"
  "mget (AuthManageClients_methods env) ''addService'' = Some (value_method env 1)"
  "mget (AuthManageClients_methods env) ''addUser'' = Some (value_method env 2)"
  "mget (AuthManageClients_methods env) ''getClientProfile'' = Some (value_method env 3)"
  "mget (AuthManageClients_methods env) ''removeClient'' = Some (value_method env 4)"
  "mget (AuthManageClients_methods env) ''setClientPassword'' = Some (value_method env 5)"
  "mget (AuthManageClients_methods env) ''updateClient'' = Some (value_method env 6)"
  "mget (AuthManageClients_methods env) ''updateRole'' = Some (value_method env 7)"
  by (simp_all add: AuthManageClients_methods_def)

lemma ManageClients_token_local:
  assumes "manage_running error_text env agent nt Request (tp, ser, client)" "\<And>e. error_text e \<noteq> []"
  shows "list_all (auth_keeps ser) [AddDeviceArgs d n k, TokenResp (result_token (AuthManageClients_AddDevice env d n k svc))] \<Longrightarrow>
      ManageClients_AddDevice (tp, ser, client) d n k svc = told_token error_text (AuthManageClients_AddDevice env d n k svc)"
    "list_all (auth_keeps ser) [AddServiceArgs d n k, TokenResp (result_token (AuthManageClients_AddService env d n k svc))] \<Longrightarrow>
      ManageClients_AddService (tp, ser, client) d n k svc = told_token error_text (AuthManageClients_AddService env d n k svc)"
    "list_all (auth_keeps ser) [AddUserArgs d n pw k role, TokenResp (result_token (AuthManageClients_AddUser env d n pw k role svc))] \<Longrightarrow>
      ManageClients_AddUser (tp, ser, client) d n pw k role svc = told_token error_text (AuthManageClients_AddUser env d n pw k role svc)"
  using auth_tokens(4) auth_value_call [OF assms, where env = env and resp = "Some 15" and svc = svc]
  by (simp_all add: ManageClients_AddDevice_def ManageClients_AddService_def ManageClients_AddUser_def manage_rpc_def response_token_reply)

lemma ManageClients_error_local:
  assumes "manage_running error_text env agent nt Request (tp, ser, client)" "\<And>e. error_text e \<noteq> []"
  shows "auth_keeps ser (RemoveClientArgs d) \<Longrightarrow>
      ManageClients_RemoveClient (tp, ser, client) d svc = told_error error_text (AuthManageClients_RemoveClient env d svc)"
    "auth_keeps ser (SetClientPasswordArgs d pw) \<Longrightarrow>
      ManageClients_SetClientPassword (tp, ser, client) d pw svc = told_error error_text (AuthManageClients_SetClientPassword env d pw svc)"
    "auth_keeps ser (UpdateClientArgs d prof) \<Longrightarrow>
      ManageClients_UpdateClient (tp, ser, client) d prof svc = told_error error_text (AuthManageClients_UpdateClient env d prof svc)"
    "auth_keeps ser (UpdateClientRoleArgs d role) \<Longrightarrow>
      ManageClients_UpdateClientRole (tp, ser, client) d role svc = told_error error_text (AuthManageClients_UpdateClientRole env d role svc)"
  using auth_tokens(4) auth_value_call [OF assms, where env = env and resp = None and svc = svc]
  by (simp_all add: ManageClients_RemoveClient_def ManageClients_SetClientPassword_def ManageClients_UpdateClient_def
      ManageClients_UpdateClientRole_def manage_rpc_def response_error_reply)

lemma ManageClients_read_local:
  assumes "manage_running error_text env agent nt Request (tp, ser, client)" "\<And>e. error_text e \<noteq> []"
  shows "auth_keeps ser (GetCountResp (AuthManageClients_GetCount svc)) \<Longrightarrow>
      ManageClients_GetCount (tp, ser, client) svc = ((AuthManageClients_GetCount svc, None), svc)"
    "auth_keeps ser (GetProfilesResp (AuthManageClients_GetProfiles svc)) \<Longrightarrow>
      ManageClients_GetProfiles (tp, ser, client) svc = ((AuthManageClients_GetProfiles svc, None), svc)"
proof -
  have m: "mget (AuthManageClients_methods env) ''getCount'' = Some \<lparr>rm_params = [], rm_call = (\<lambda>argv svc.
        (Returns [ValueResult (GetCountResp (AuthManageClients_GetCount svc)), NilResult], svc))\<rparr>"
    "mget (AuthManageClients_methods env) ''getProfiles'' = Some \<lparr>rm_params = [], rm_call = (\<lambda>argv svc.
        (Returns [ValueResult (GetProfilesResp (AuthManageClients_GetProfiles svc)), NilResult], svc))\<rparr>"
    by (simp_all add: AuthManageClients_methods_def)
  show "auth_keeps ser (GetCountResp (AuthManageClients_GetCount svc)) \<Longrightarrow>
      ManageClients_GetCount (tp, ser, client) svc = ((AuthManageClients_GetCount svc, None), svc)"
    using auth_tokens(4) auth_plain_call [OF assms _ _ m(1)]
      rpc_outcome_value [of ser "GetCountResp (AuthManageClients_GetCount svc)" 16 error_text None svc]
    by (simp add: ManageClients_GetCount_def manage_rpc_def auth_keeps_def remote_def)
  show "auth_keeps ser (GetProfilesResp (AuthManageClients_GetProfiles svc)) \<Longrightarrow>
      ManageClients_GetProfiles (tp, ser, client) svc = ((AuthManageClients_GetProfiles svc, None), svc)"
    using auth_tokens(4) auth_plain_call [OF assms _ _ m(2)]
      rpc_outcome_value [of ser "GetProfilesResp (AuthManageClients_GetProfiles svc)" 18 error_text None svc]
    by (simp add: ManageClients_GetProfiles_def manage_rpc_def auth_keeps_def remote_def)
qed

text \<open>
  Asking for the profile of one client gives an empty profile without an error: the method that runs is the one
  that lists all profiles, and its response has no field of a single profile.
\<close>

lemma ManageClients_GetProfile_empty:
  assumes "manage_running error_text env agent nt Request (tp, ser, client)" "\<And>e. error_text e \<noteq> []"
    and "\<And>ps. snd (ser_Marshal ser (GetProfilesResp ps)) = None"
    and "\<And>ps. ser_Unmarshal ser 17 (fst (ser_Marshal ser (GetProfilesResp ps))) = Inr (GetProfileResp zero_profile)"
  shows "ManageClients_GetProfile (tp, ser, client) cid svc = ((zero_profile, None), svc)"
proof -
  have m: "mget (AuthManageClients_methods env) ''getProfiles'' = Some \<lparr>rm_params = [], rm_call = (\<lambda>argv svc.
        (Returns [ValueResult (GetProfilesResp (AuthManageClients_GetProfiles svc)), NilResult], svc))\<rparr>"
    by (simp add: AuthManageClients_methods_def)
  show ?thesis
    using auth_tokens(4) auth_plain_call [OF assms(1,2) _ _ m] assms(3,4)
    by (simp add: ManageClients_GetProfile_def manage_rpc_def response_profile_def call_result_def finish_call_def rpc_outcome_def
        bytes_of_def split_beta)
qed

section \<open>ProfileClient\<close>

abbreviation profile_running where
  "profile_running error_text env \<equiv> auth_running error_text ''profile'' (AuthManageProfile_methods env)"

lemma profile_methods [simp]:
  "mget (AuthManageProfile_methods env) ''newToken'' = Some (value_method env 10)"
  "mget (AuthManageProfile_methods env) ''setServicePermissions'' = Some (value_method env 11)"
  "mget (AuthManageProfile_methods env) ''updateName'' = Some (value_method env 12)"
  "mget (AuthManageProfile_methods env) ''updatePassword'' = Some (value_method env 13)"
  "mget (AuthManageProfile_methods env) ''updatePubKey'' = Some (value_method env 14)"
  "mget (AuthManageProfile_methods env) ''getProfile'' =
     Some (context_method (\<lambda>c svc. profile_reply (AuthManageProfile_GetProfile c svc) svc))"
  "mget (AuthManageProfile_methods env) ''refresh'' =
     Some (context_method (\<lambda>c svc. token_reply (AuthManageProfile_RefreshToken env c svc)))"
  by (simp_all add: AuthManageProfile_methods_def)

lemma ProfileClient_error_local:
  assumes "profile_running error_text env agent nt Request (tp, ser, client)" "\<And>e. error_text e \<noteq> []"
  shows "auth_keeps ser (ServicePermissionsArgs cap roles) \<Longrightarrow> ProfileClient_SetServicePermissions (tp, ser, client) cap roles svc =
      told_error error_text (AuthManageProfile_SetServicePermissions (hc_clientID client) cap roles svc)"
    "auth_keeps ser (UpdateNameArgs n) \<Longrightarrow>
      ProfileClient_UpdateName (tp, ser, client) n svc = told_error error_text (AuthManageProfile_UpdateName env (hc_clientID client) n svc)"
    "auth_keeps ser (UpdatePasswordArgs pw) \<Longrightarrow>
      ProfileClient_UpdatePassword (tp, ser, client) pw svc = told_error error_text (AuthManageProfile_UpdatePassword env (hc_clientID client) pw svc)"
    "auth_keeps ser (UpdatePubKeyArgs k) \<Longrightarrow>
      ProfileClient_UpdatePubKey (tp, ser, client) k svc = told_error error_text (AuthManageProfile_UpdatePubKey env (hc_clientID client) k svc)"
  using auth_tokens(3,4) auth_value_call [OF assms, where env = env and resp = None and svc = svc]
  by (simp_all add: ProfileClient_SetServicePermissions_def ProfileClient_UpdateName_def ProfileClient_UpdatePassword_def
      ProfileClient_UpdatePubKey_def profile_rpc_def response_error_reply)

lemma ProfileClient_token_local:
  assumes "profile_running error_text env agent nt Request (tp, ser, client)" "\<And>e. error_text e \<noteq> []"
  shows "list_all (auth_keeps ser) [NewTokenArgs pw, TokenResp (result_token (AuthManageProfile_NewToken env (hc_clientID client) pw svc))] \<Longrightarrow>
      ProfileClient_NewToken (tp, ser, client) pw svc = told_token error_text (AuthManageProfile_NewToken env (hc_clientID client) pw svc)"
    "auth_keeps ser (TokenResp (result_token (AuthManageProfile_RefreshToken env (hc_clientID client) svc))) \<Longrightarrow>
      ProfileClient_RefreshToken (tp, ser, client) svc = told_token error_text (AuthManageProfile_RefreshToken env (hc_clientID client) svc)"
    "auth_keeps ser (GetProfileResp (fst (AuthManageProfile_GetProfile (hc_clientID client) svc))) \<Longrightarrow>
      ProfileClient_GetProfile (tp, ser, client) svc = told_profile error_text (AuthManageProfile_GetProfile (hc_clientID client) svc) svc"
  using auth_tokens(3,4) auth_value_call [OF assms, where env = env and resp = "Some 15" and svc = svc]
    auth_context_call [OF assms, where svc = svc]
  by (simp_all add: ProfileClient_NewToken_def ProfileClient_RefreshToken_def ProfileClient_GetProfile_def profile_rpc_def
      response_token_reply response_profile_reply)

section \<open>The auth client of other services\<close>

text \<open>The client that the provisioning service and the launcher are given, over the message bus.\<close>

definition bus_auth_client :: "('c, AuthState) auth_link \<Rightarrow> AuthState auth_client" where
  "bus_auth_client cl =
     \<lparr>ac_AddService = (\<lambda>c n k svc. case ManageClients_AddService cl c n k svc of
        ((token, None), svc') \<Rightarrow> (Inr token, svc') | ((_, Some err), svc') \<Rightarrow> (Inl err, svc')),
      ac_AddDevice = (\<lambda>c n k svc. case ManageClients_AddDevice cl c n k svc of
        ((token, None), svc') \<Rightarrow> (Inr token, svc') | ((_, Some err), svc') \<Rightarrow> (Inl err, svc'))\<rparr>"

text \<open>A result of the service and what arrives over the bus: the same token and state, or an error in both.\<close>

definition same_answer :: "(go_error + string) \<times> AuthState \<Rightarrow> (go_error + string) \<times> AuthState \<Rightarrow> bool" where
  "same_answer r r' \<longleftrightarrow> snd r = snd r' \<and> (case (fst r, fst r') of (Inr t, Inr t') \<Rightarrow> t = t' | (Inl _, Inl _) \<Rightarrow> True | _ \<Rightarrow> False)"

lemma told_token_same:
  "same_answer (token_response r) (case told_token error_text r of
     ((token, None), svc') \<Rightarrow> (Inr token, svc') | ((_, Some err), svc') \<Rightarrow> (Inl err, svc'))"
  by (auto simp: same_answer_def token_response_def told_token_def split: prod.splits outcome.splits option.splits)

text \<open>
  Adding clients over the message bus (ManageAuthClient.go, HubClient.go, NatsTransport.go, HandleRequestMessage.go,
  AuthManageClients.go): the auth client that provisioning and launcher call, connected to a running auth service, gives
  the token and leaves the state that the service's own handler does, and reports an error exactly
  when the handler fails.
\<close>

lemma bus_auth_client_implements:
  assumes "manage_running error_text env agent nt Request (tp, ser, client)" "\<And>e. error_text e \<noteq> []"
    and "list_all (auth_keeps ser) [AddServiceArgs c n k, AddDeviceArgs c n k,
      TokenResp (result_token (AuthManageClients_AddService env c n k svc)), TokenResp (result_token (AuthManageClients_AddDevice env c n k svc))]"
  shows "same_answer (ac_AddService (ManageClients env) c n k svc) (ac_AddService (bus_auth_client (tp, ser, client)) c n k svc)
    \<and> same_answer (ac_AddDevice (ManageClients env) c n k svc) (ac_AddDevice (bus_auth_client (tp, ser, client)) c n k svc)"
  using assms(3) ManageClients_token_local(1,2) [OF assms(1,2), of c n k svc] told_token_same
  by (simp add: ManageClients_def bus_auth_client_def)

section \<open>Remote management\<close>


text \<open>An administrator who removes a client, connected to the service by a server that hands it every request.\<close>

abbreviation admin_msgs :: "auth_message list" where
  "admin_msgs \<equiv> [AddDeviceArgs ''bob'' [] [], AddServiceArgs ''bob'' [] [], AddUserArgs ''bob'' [] [] [] [], RemoveClientArgs ''bob'',
     SetClientPasswordArgs ''bob'' [], UpdateClientArgs ''bob'' zero_profile, UpdateClientRoleArgs ''bob'' [], TokenResp []]"

definition admin_agent :: "(auth_message, AuthState) HubClient" where
  "admin_agent = fst (HubClient_SetRPCCapability null_transport AuthManageClientsCapability (AuthManageClients_methods demo_env)
     (fst (NewHubClientFromTransport null_transport AuthServiceName ())) ())"

definition admin_nats :: "AuthState NatsTransport" where
  "admin_nats = \<lparr>nt_status = \<lparr>hs_HubURL = [], hs_ClientID = AuthServiceName, hs_ConnectionStatus = Connected, hs_LastError = None\<rparr>,
     nt_connectHandler = (\<lambda>s st. st), nt_eventHandler = None,
     nt_requestHandler = Some (HubClient_onRequest NatsTransport_AddressTokens (table_ser admin_msgs) 0 admin_agent)\<rparr>"

definition admin_link :: "(unit, AuthState) auth_link" where
  "admin_link = (\<lparr>tp_tokens = NatsTransport_AddressTokens, tp_PubEvent = (\<lambda>a p w. (None, w)),
     tp_PubRequest = NatsTransport_PubRequest (direct_Request (\<lambda>e. ''err'') admin_nats),
     tp_Subscribe = (\<lambda>a w. (None, w)), tp_SetRequestHandler = id, tp_SetEventHandler = id, tp_SetConnectHandler = id\<rparr>,
     table_ser admin_msgs, fst (NewHubClientFromTransport null_transport ''admin'' ()))"

lemma admin_running:
  "manage_running (\<lambda>e. ''err'') demo_env admin_agent admin_nats (direct_Request (\<lambda>e. ''err'') admin_nats) admin_link"
  using SetRPCCapability_serves [of "fst (NewHubClientFromTransport null_transport AuthServiceName ())" AuthManageClientsCapability
      "AuthManageClients_methods demo_env" null_transport "()"]
  by (auto simp: auth_running_def rpc_connected_def admin_link_def admin_nats_def direct_routes admin_agent_def SetRPCCapability_client
      NewHubClientFromTransport_def address_token_def)

lemma empty_key_token:
  "result_token (AuthManageClients_AddDevice env c n [] svc) = []" "result_token (AuthManageClients_AddService env c n [] svc) = []"
  "result_token (AuthManageClients_AddUser env c n [] [] role svc) = []"
  by (auto simp: result_token_def AuthManageClients_AddDevice_def AuthManageClients_AddService_def AuthManageClients_AddUser_def
      Let_def split_beta split: option.splits prod.splits)


end
