(* ===== verification/AuthAccess.thy ===== *)
theory AuthAccess
  imports AuthRpcProps
begin

text \<open>
  What ordinary users can do to accounts: the permissions that the message server builds for viewers, operators and
  managers, the subjects these admit, the dispatch of messages by the auth service's hub client and the profile
  handlers, together.
\<close>

section \<open>Permissions of a limited role\<close>

text \<open>
  A limited role may publish events, actions and configuration, and call services, of the auth service
  only the profile capability. No table that shares its array is shorter, so that appending to another table cannot
  overwrite it.
\<close>

definition limited_role_perm :: "RolePermission \<Rightarrow> bool" where
  "limited_role_perm p \<longleftrightarrow> (rp_AllowPub p \<longrightarrow> rp_MsgType p \<in> {MessageTypeEvent, MessageTypeAction, MessageTypeConfig})"

definition limited_service_perm :: "RolePermission \<Rightarrow> bool" where
  "limited_service_perm p \<longleftrightarrow> rp_MsgType p = MessageTypeRPC \<and> rp_AgentID p \<notin> {[], ''*'', own_id}
     \<and> (rp_AgentID p = AuthServiceName \<longrightarrow> rp_ThingID p = ''profile'')"

definition role_limited :: "NatsMsgServer \<Rightarrow> string \<Rightarrow> bool" where
  "role_limited srv role \<longleftrightarrow>
     (case mget (ms_rolePermissions srv) role of
        Some (Some s) \<Rightarrow> list_all limited_role_perm (slice_values (ms_heap srv) s)
          \<and> list_all (\<lambda>(r, so). case so of None \<Rightarrow> True | Some s' \<Rightarrow> sl_arr s' = sl_arr s \<longrightarrow> sl_len s \<le> sl_len s') (ms_rolePermissions srv)
      | _ \<Rightarrow> True)
     \<and> (case mget (ms_servicePermissions srv) role of Some ps \<Rightarrow> list_all limited_service_perm ps | None \<Rightarrow> True)"

text \<open>Appending to one table leaves the values of every other one that is not longer in the same array.\<close>

lemma go_append_keeps:
  assumes "slice_ok h s" "slice_ok h t" "sl_arr t = sl_arr s \<longrightarrow> sl_len t \<le> sl_len s" "go_append grow s xs h = (s', h')"
  shows "slice_values h' t = slice_values h t"
  using assms by (cases "sl_arr t = sl_arr s")
    (auto simp: go_append_def Let_def slice_values_def slice_ok_def nth_append split: if_splits)

lemma MakePermissions_keeps_limited:
  assumes "perms_ok srv" "role_limited srv role"
  shows "role_limited (snd (NatsMsgServer_MakePermissions grow ci srv)) role"
proof (cases "\<exists>s ps t. mget (ms_rolePermissions srv) (ci_Role ci) = Some (Some s)
    \<and> mget (ms_servicePermissions srv) (ci_Role ci) = Some ps \<and> mget (ms_rolePermissions srv) role = Some (Some t)")
  case True
  then obtain s ps t where app: "mget (ms_rolePermissions srv) (ci_Role ci) = Some (Some s)"
    "mget (ms_servicePermissions srv) (ci_Role ci) = Some ps" and t: "mget (ms_rolePermissions srv) role = Some (Some t)" by blast
  have le: "sl_arr t = sl_arr s \<longrightarrow> sl_len t \<le> sl_len s"
    using assms(2) t app(1) by (force simp: role_limited_def list_all_iff dest: map_of_SomeD)
  have "slice_values (snd (go_append grow s ps (ms_heap srv))) t = slice_values (ms_heap srv) t"
    by (rule go_append_keeps [OF perms_okD(3) [OF assms(1) app(1)] perms_okD(3) [OF assms(1) t] le surjective_pairing])
  then show ?thesis using assms(2) t by (simp add: MakePermissions_state app role_limited_def)
next
  case False
  then show ?thesis
    using assms(2) by (auto simp: MakePermissions_state role_limited_def split: option.splits)
qed

lemma SetServicePermissions_keeps_limited:
  assumes "role_limited srv role" "serviceID \<notin> {[], ''*'', own_id, AuthServiceName}"
  shows "role_limited (NatsMsgServer_SetServicePermissions serviceID cap roles srv) role"
  using assms
proof (induction roles arbitrary: srv)
  case (Cons r rs)
  have "role_limited (srv\<lparr>ms_servicePermissions := mput r ((case mget (ms_servicePermissions srv) r of Some rp \<Rightarrow> rp | None \<Rightarrow> []) @
      [\<lparr>rp_AgentID = serviceID, rp_ThingID = cap, rp_MsgType = MessageTypeRPC, rp_MsgName = [], rp_AllowPub = True, rp_AllowSub = False\<rparr>])
        (ms_servicePermissions srv)\<rparr>) role"
    using Cons.prems by (auto simp: role_limited_def gomap_simps limited_service_perm_def split: option.splits)
  with Cons.IH Cons.prems(2) show ?case by (simp add: Let_def)
qed simp

section \<open>The subjects of a limited role\<close>

lemma MakePermissions_publish_from:
  assumes "perms_ok srv"
    and "pat \<in> set (sp_Allow (pm_Publish (fst (NatsMsgServer_MakePermissions grow ci srv))))"
  obtains "pat = MessageTypeINBOX @ ''.>''" | "pat \<in> set (''$JS.API.INFO'' # stream_subjects)"
    | s p where "mget (ms_rolePermissions srv) (ci_Role ci) = Some (Some s)" "p \<in> set (slice_values (ms_heap srv) s)"
        "rp_AllowPub p" "pat = pub_subject (ci_ClientID ci) p"
    | ps p where "mget (ms_servicePermissions srv) (ci_Role ci) = Some ps" "p \<in> set ps" "pat = pub_subject (ci_ClientID ci) p"
proof (cases "\<exists>s. mget (ms_rolePermissions srv) (ci_Role ci) = Some (Some s)")
  case True
  then obtain s where role: "mget (ms_rolePermissions srv) (ci_Role ci) = Some (Some s)" by blast
  let ?ps = "case mget (ms_servicePermissions srv) (ci_Role ci) of Some ps \<Rightarrow> ps | None \<Rightarrow> []"
  have "pat \<in> {MessageTypeINBOX @ ''.>''} \<union> pub_subject (ci_ClientID ci) ` {p \<in> set (slice_values (ms_heap srv) s @ ?ps). rp_AllowPub p}
        \<union> set (''$JS.API.INFO'' # stream_subjects)"
    using assms(2) go_append_values [OF perms_okD(3) [OF assms(1) role]] role
    by (auto simp: NatsMsgServer_MakePermissions_def Let_def split_beta split: option.splits if_splits)
  with role that show thesis by (cases "mget (ms_servicePermissions srv) (ci_Role ci)") auto
next
  case False
  then show thesis
    using assms(2) that by (auto simp: NatsMsgServer_MakePermissions_def Let_def split: option.splits)
qed

lemma SplitAddress_parts:
  assumes "HubClient_SplitAddress NatsTransport_AddressTokens subj = (p, None)" "ap_msgType p = MessageTypeRPC"
  shows "strings_Split subj (CHR ''.'') ! 0 = MessageTypeRPC" "strings_Split subj (CHR ''.'') ! 1 = ap_agentID p"
    "strings_Split subj (CHR ''.'') ! 2 = ap_thingID p"
    "4 < length (strings_Split subj (CHR ''.'')) \<Longrightarrow> strings_Split subj (CHR ''.'') ! 4 = ap_senderID p"
proof -
  have "\<not> strings_HasPrefix subj MessageTypeINBOX"
  proof
    assume inbox: "strings_HasPrefix subj MessageTypeINBOX"
    then have "strings_Split subj (CHR ''.'') ! 0 = MessageTypeRPC"
      using assms strings_Split_ne [of subj "CHR ''.''"]
      by (auto simp: HubClient_SplitAddress_def NatsTransport_AddressTokens_def Let_def split: if_splits)
    then have "strings_HasPrefix subj MessageTypeRPC"
      using Split_hd_prefix [of subj "CHR ''.''"] by (simp add: hd_conv_nth)
    with inbox show False by (cases subj) (auto simp: strings_HasPrefix_def)
  qed
  then show "strings_Split subj (CHR ''.'') ! 0 = MessageTypeRPC" "strings_Split subj (CHR ''.'') ! 1 = ap_agentID p"
    "strings_Split subj (CHR ''.'') ! 2 = ap_thingID p"
    "4 < length (strings_Split subj (CHR ''.'')) \<Longrightarrow> strings_Split subj (CHR ''.'') ! 4 = ap_senderID p"
    using assms by (auto simp: HubClient_SplitAddress_def NatsTransport_AddressTokens_def Let_def split: if_splits)
qed

text \<open>Of the auth service, a limited role can call the profile capability only, and as itself.\<close>

lemma limited_subject:
  assumes "perms_ok srv" "role_limited srv (ci_Role ci)" "nats_matching matches"
    and c: "plain_token (ci_ClientID ci)" "ci_ClientID ci \<noteq> []" "ci_ClientID ci \<noteq> ''*''"
    and pat: "pat \<in> set (sp_Allow (pm_Publish (fst (NatsMsgServer_MakePermissions grow ci srv))))" "matches pat subj"
    and addr: "HubClient_SplitAddress NatsTransport_AddressTokens subj = (a, None)" "ap_msgType a = MessageTypeRPC"
      "ap_agentID a = AuthServiceName"
  shows "ap_thingID a = ''profile'' \<and> ap_senderID a = ci_ClientID ci"
proof -
  let ?ss = "strings_Split subj (CHR ''.'')"
  note parts = SplitAddress_parts [OF addr(1,2)]
  have first: "hd ?ss = MessageTypeRPC" using parts(1) by (simp add: hd_conv_nth)
  have match: "i < length ?ss \<and> ?ss ! i = ts ! i" if "strings_Split pat (CHR ''.'') = ts" "list_all (\<lambda>t. t \<noteq> ''>'') ts"
      "i < length ts" "ts ! i \<noteq> ''*''" for ts i
    using nats_matchingD [OF assms(3) pat(2) that(1,3)] that(2,4) by (simp add: list_all_take)
  from assms(1) pat(1) show ?thesis
  proof (cases rule: MakePermissions_publish_from)
    case 1
    then show ?thesis using first_token [OF assms(3) pat(2)] first by simp
  next
    case 2
    then show ?thesis using first_token [OF assms(3) pat(2)] stream_subject_first [of pat] first by fastforce
  next
    case (3 s p)
    have "plain_perm p" using perms_okD(1,3) [OF assms(1)] 3(1,2)
      by (fastforce simp: slice_values_def slice_ok_def list_all_iff dest: in_set_takeD nth_mem)
    note sub = pub_subject_parts [OF this c(1,2), folded 3(4)]
    have "rp_MsgType p \<in> {MessageTypeEvent, MessageTypeAction, MessageTypeConfig}"
      using assms(2) 3(1-3) by (auto simp: role_limited_def limited_role_perm_def list_all_iff)
    then show ?thesis using match [OF sub, of 0] parts(1) by (auto simp: or_default_def)
  next
    case (4 ps p)
    have "plain_perm p" using perms_okD(2) [OF assms(1) 4(1)] 4(2) by (auto simp: list_all_iff)
    note sub = pub_subject_parts [OF this c(1,2), folded 4(3)]
    have lim: "limited_service_perm p" using assms(2) 4(1,2) by (auto simp: role_limited_def list_all_iff)
    then have "perm_agent (ci_ClientID ci) p = rp_AgentID p" "rp_AgentID p \<noteq> []" "rp_AgentID p \<noteq> ''*''"
      by (simp_all add: limited_service_perm_def perm_agent_def)
    then have "rp_AgentID p = AuthServiceName"
      using match [OF sub, of 1] parts(2) addr(3) by (simp add: or_default_def)
    then have "rp_ThingID p = ''profile''" using lim by (simp add: limited_service_perm_def)
    then show ?thesis
      using match [OF sub, of 2] match [OF sub, of 4] parts(3,4) c(3) by (simp add: or_default_def)
  qed
qed

text \<open>The permissions of a key of a client, in the tables that \<open>ApplyAuth\<close> builds.\<close>

lemma apply_clients_entry:
  assumes "perms_ok srv" "u \<in> set (fst (snd (fst (apply_clients grow cs srv (pws, nks, acs)))))"
  shows "u \<in> set nks \<or> (\<exists>ci \<in> set cs. \<exists>srv1. perms_ok srv1 \<and> (\<forall>r. role_limited srv r \<longrightarrow> role_limited srv1 r)
    \<and> nk_Nkey u = ci_PubKey ci \<and> nk_Permissions u = Some (fst (NatsMsgServer_MakePermissions grow ci srv1)))"
  using assms
proof (induction cs arbitrary: srv pws nks acs)
  case (Cons ci cs)
  obtain perms srv1 where m: "NatsMsgServer_MakePermissions grow ci srv = (perms, srv1)" by fastforce
  have ok: "perms_ok srv1" "\<And>r. role_limited srv r \<Longrightarrow> role_limited srv1 r"
    using MakePermissions_perms_ok [OF Cons.prems(1)] MakePermissions_keeps_limited [OF Cons.prems(1)] m by (metis snd_conv)+
  let ?nks = "if ci_PubKey ci \<noteq> [] then nks @ [\<lparr>nk_Nkey = ci_PubKey ci, nk_Permissions = Some perms\<rparr>] else nks"
  have "u \<in> set ?nks \<or> (\<exists>c \<in> set cs. \<exists>srv2. perms_ok srv2 \<and> (\<forall>r. role_limited srv1 r \<longrightarrow> role_limited srv2 r)
      \<and> nk_Nkey u = ci_PubKey c \<and> nk_Permissions u = Some (fst (NatsMsgServer_MakePermissions grow c srv2)))"
    using Cons.IH [OF ok(1)] Cons.prems(2) m by (auto simp del: apply_clients.simps(1) split: if_splits)
  then show ?case
  proof
    assume "u \<in> set ?nks"
    then consider "u \<in> set nks" | "u = \<lparr>nk_Nkey = ci_PubKey ci, nk_Permissions = Some perms\<rparr>" by (auto split: if_splits)
    then show ?case using m Cons.prems(1) by cases (auto intro!: exI [of _ srv])
  qed (use ok(2) in \<open>meson list.set_intros(2)\<close>)
qed simp

section \<open>The service\<close>

text \<open>The hub client of the service, with the three capabilities registered in the order of \<open>AuthService.Start\<close>.\<close>

definition started_auth_agent :: "'w hub_transport \<Rightarrow> auth_env \<Rightarrow> 'w \<Rightarrow> 'w auth_hub" where
  "started_auth_agent tp env w =
     (case NewHubClientFromTransport tp AuthServiceName w of
        (hc, w1) \<Rightarrow> AuthManageProfile_Start tp env (AuthManageRoles_Start tp env (AuthManageClients_Start tp env (Some hc, w1))))"

lemma started_auth_agent_fields:
  assumes "fst (started_auth_agent tp env w) = Some agent"
  shows "hc_clientID agent = AuthServiceName" "hc_rpcHandler agent = Some (MultiCap AuthManageClientsCapability)"
    "mget (hc_capTable agent) AuthManageClientsCapability = Some (AuthManageClients_methods env)"
    "mget (hc_capTable agent) AuthManageRolesCapability = Some (AuthManageRoles_methods env)"
    "mget (hc_capTable agent) ''profile'' = Some (AuthManageProfile_methods env)"
    "hc_actionHandler agent = None" "hc_configHandler agent = None" "hc_eventHandler agent = None"
  using assms
  by (auto simp: started_auth_agent_def AuthManageProfile_Start_def AuthManageRoles_Start_def AuthManageClients_Start_def
      start_capability_def SetRPCCapability_client NewHubClientFromTransport_def mget_mput split_beta)

text \<open>What a sender may change: its own entry, but not the ID, type or role in it.\<close>

definition own_account :: "string \<Rightarrow> AuthState \<Rightarrow> AuthState \<Rightarrow> bool" where
  "own_account sender svc svc' \<longleftrightarrow>
     (\<forall>c. c \<noteq> sender \<longrightarrow> mget (fs_entries (as_store svc')) c = mget (fs_entries (as_store svc)) c)
     \<and> (\<forall>c. map_option (\<lambda>e. (cp_ClientID (ae_profile e), cp_ClientType (ae_profile e), cp_Role (ae_profile e)))
           (mget (fs_entries (as_store svc')) c)
        = map_option (\<lambda>e. (cp_ClientID (ae_profile e), cp_ClientType (ae_profile e), cp_Role (ae_profile e)))
           (mget (fs_entries (as_store svc)) c))"

lemma own_account_refl [simp]: "own_account c svc svc"
  by (simp add: own_account_def)

lemma profile_own_account: "own_account sender svc (handle_profile env sender req svc)"
  using profile_requests_own_account unfolding own_account_def by blast

lemma reply_states [simp]:
  "snd (token_reply r) = snd r" "snd (error_reply e) = snd e" "snd (profile_reply p svc) = svc"
  by (simp_all add: token_reply_def error_reply_def profile_reply_def split_beta)

text \<open>Unmarshalling into a type gives a message of that type.\<close>

definition typed_ser :: "auth_message serializer \<Rightarrow> bool" where
  "typed_ser ser \<longleftrightarrow> (\<forall>ty d v. ser_Unmarshal ser ty d = Inr v \<longrightarrow> auth_message_type v = ty)"

lemma profile_message_own:
  assumes "auth_message_type v \<in> {10, 11, 12, 13, 14}"
  shows "own_account c svc (snd (auth_call env [ContextArg c, ValueArg v] svc))"
  using assms profile_own_account [of c svc env "NewTokenReq _"] profile_own_account [of c svc env "SetServicePermissionsReq _ _"]
    profile_own_account [of c svc env "UpdateNameReq _"] profile_own_account [of c svc env "UpdatePasswordReq _"]
    profile_own_account [of c svc env "UpdatePubKeyReq _"]
  by (cases v) simp_all

lemma HandleRequestMessage_state:
  "snd (HandleRequestMessage ser c meth payload svc) =
     (case make_args ser c payload (rm_params meth) of Inl _ \<Rightarrow> svc | Inr argv \<Rightarrow> snd (rm_call meth argv svc))"
  by (auto simp: HandleRequestMessage_def split: sum.splits prod.splits outcome.splits list.splits)

lemma profile_method_own:
  assumes "typed_ser ser" "mget (AuthManageProfile_methods env) m = Some meth"
  shows "own_account c svc (snd (HandleRequestMessage ser c meth payload svc))"
proof -
  have v: "own_account c svc (snd (HandleRequestMessage ser c (value_method env ty) payload svc))" if "ty \<in> {10, 11, 12, 13, 14}" for ty
    using assms(1) that profile_message_own [of _ c svc env]
    by (auto simp: HandleRequestMessage_state value_method_def typed_ser_def split: sum.splits)
  have "own_account c svc (snd (HandleRequestMessage ser c (context_method f) payload svc))" if "own_account c svc (snd (f c svc))" for f
    using that by (simp add: HandleRequestMessage_state context_method_def)
  then show ?thesis
    using assms(2) v profile_own_account [of c svc env RefreshTokenReq]
    by (auto simp: AuthManageProfile_methods_def split: if_splits)
qed

lemma agent_message_own:
  assumes agent: "fst (started_auth_agent tp env w) = Some agent" and ser: "typed_ser ser"
    and sub: "\<And>a. HubClient_SplitAddress NatsTransport_AddressTokens subj = (a, None) \<Longrightarrow> ap_msgType a = MessageTypeRPC
      \<Longrightarrow> ap_agentID a = AuthServiceName \<Longrightarrow> ap_thingID a = ''profile'' \<and> ap_senderID a = c"
  shows "own_account c svc (snd (HubClient_onRequest NatsTransport_AddressTokens ser now agent subj payload svc))"
proof (cases "\<exists>a. HubClient_SplitAddress NatsTransport_AddressTokens subj = (a, None) \<and> ap_msgType a = MessageTypeRPC
    \<and> ap_agentID a = AuthServiceName")
  case True
  then obtain a where a: "HubClient_SplitAddress NatsTransport_AddressTokens subj = (a, None)" "ap_msgType a = MessageTypeRPC"
    "ap_agentID a = AuthServiceName" by blast
  note f = started_auth_agent_fields [OF agent]
  have tc: "ap_thingID a = ''profile''" "ap_senderID a = c" using sub [OF a] by auto
  have "HubClient_SplitAddress NatsTransport_AddressTokens subj = (\<lparr>ap_msgType = MessageTypeRPC, ap_agentID = hc_clientID agent,
      ap_thingID = ''profile'', ap_name = ap_name a, ap_senderID = c\<rparr>, None)" using a tc f(1) by (cases a) simp
  from onRequest_rpc [OF this f(2), of ser now payload svc] f(5) show ?thesis
    using profile_method_own [OF ser] by (auto simp: multiCapHandler_def NewThingValue_def split: option.splits prod.splits) (metis snd_conv)
next
  case False
  note f = started_auth_agent_fields [OF agent]
  have "ap_agentID (fst (HubClient_SplitAddress NatsTransport_AddressTokens subj)) \<noteq> AuthServiceName"
    if "snd (HubClient_SplitAddress NatsTransport_AddressTokens subj) \<noteq> None"
    using that by (auto simp: HubClient_SplitAddress_def Let_def split: if_splits)
  with False show ?thesis
    by (cases "HubClient_SplitAddress NatsTransport_AddressTokens subj") (auto simp: HubClient_onRequest_def Let_def f split: bool.splits)
qed

lemma onMessage_state:
  "snd (NatsTransport_onMessage error_text nt msg st) =
     (if nm_Reply msg = [] then (case nt_eventHandler nt of Some h \<Rightarrow> h (nm_Subject msg) (nm_Data msg) st | None \<Rightarrow> st)
      else case nt_requestHandler nt of Some h \<Rightarrow> snd (h (nm_Subject msg) (nm_Data msg) st) | None \<Rightarrow> st)"
  by (simp add: NatsTransport_onMessage_def split_beta split: option.split)

section \<open>Accounts of others\<close>

text \<open>
  C3. No ordinary user can change the account of another (NatsAuth.go, ManageRolesAPI.go, subjects.go, NatsTransport.go, HubClient.go,
  HandleRequestMessage.go, AuthManageClients.go, AuthManageProfile.go). Take the NATS users that \<open>ApplyAuth\<close>
  registers for a list of clients, and one of them whose key belongs to a client with a limited role: viewer, operator or
  manager on a server as it is set up. Whatever message this user may publish, with whatever
  payload, the hub client of the auth service handles it without changing the store entry of any
  other client, and without changing the ID, type or role of any client.
\<close>

theorem users_change_only_own_account:
  assumes "perms_ok srv" "nats_matching matches" "NatsMsgServer_ApplyAuth grow reload clients srv = (err, srv')"
    and "u \<in> set (ms_Nkeys srv')" "nk_Permissions u = Some perms"
    and "\<forall>ci \<in> set clients. ci_PubKey ci = nk_Nkey u \<longrightarrow> ci_ClientID ci = c \<and> role_limited srv (ci_Role ci)"
    and "plain_token c" "c \<noteq> []" "c \<noteq> ''*''"
    and "pat \<in> set (sp_Allow (pm_Publish perms))" "matches pat (nm_Subject msg)"
    and "fst (started_auth_agent tp env w) = Some agent" "typed_ser ser"
    and "nt_requestHandler nt = Some (HubClient_onRequest NatsTransport_AddressTokens ser now agent)"
    and "nt_eventHandler nt = Some (HubClient_onEvent NatsTransport_AddressTokens now agent)"
  shows "own_account c svc (snd (NatsTransport_onMessage error_text nt msg svc))"
proof -
  let ?core = "[\<lparr>nk_Nkey = ms_coreServicePub srv, nk_Permissions = None\<rparr>, \<lparr>nk_Nkey = ms_systemUserPub srv, nk_Permissions = None\<rparr>]"
  have "u \<in> set (fst (snd (fst (apply_clients grow clients srv ([], ?core, [])))))" "u \<notin> set ?core"
    using assms(3-5) by (auto simp: NatsMsgServer_ApplyAuth_def Let_def split_beta)
  with apply_clients_entry [OF assms(1)] obtain ci srv1 where ci: "ci \<in> set clients" "perms_ok srv1"
      "\<And>r. role_limited srv r \<Longrightarrow> role_limited srv1 r" "nk_Nkey u = ci_PubKey ci"
      "perms = fst (NatsMsgServer_MakePermissions grow ci srv1)"
    using assms(5) by (metis option.inject)
  have c: "ci_ClientID ci = c" "role_limited srv1 (ci_Role ci)" using assms(6) ci(1,3,4) by auto
  have "own_account c svc (snd (HubClient_onRequest NatsTransport_AddressTokens ser now agent (nm_Subject msg) payload svc))" for payload
    using limited_subject [OF ci(2) c(2) assms(2), of pat grow "nm_Subject msg"] assms(7-11) ci(5) c(1)
    by (intro agent_message_own [OF assms(12,13)]) auto
  moreover have "hc_eventHandler agent = None" by (rule started_auth_agent_fields [OF assms(12)])
  ultimately show ?thesis
    using assms(14,15) by (simp add: onMessage_state HubClient_onEvent_def split_beta split: option.split)
qed

subsection \<open>A viewer\<close>

lemma started_server_limited:
  "perms_ok started_server" "role_limited started_server ClientRoleViewer" "role_limited started_server ClientRoleOperator"
  "role_limited started_server ClientRoleManager"
  by code_simp+

definition eve_info :: ClientAuthInfo where
  "eve_info = client_info ''eve'' ClientTypeUser ''KE'' ClientRoleViewer"

definition eve_user :: nkey_user where
  "eve_user = \<lparr>nk_Nkey = ''KE'', nk_Permissions = Some (fst (NatsMsgServer_MakePermissions gc_grow eve_info started_server))\<rparr>"

definition password_ser :: "auth_message serializer" where
  "password_ser = \<lparr>ser_Marshal = (\<lambda>v. ([], None)), ser_MarshalError = (\<lambda>e. ([], None)),
     ser_Unmarshal = (\<lambda>ty d. if ty = 13 then Inr (UpdatePasswordArgs d) else Inl ErrUnmarshal)\<rparr>"

definition eve_message :: nats_msg where
  "eve_message = \<lparr>nm_Subject = ''rpc.auth.profile.updatePassword.eve'', nm_Reply = ''_INBOX.1'', nm_Data = Some ''hacked'',
     nm_hasHeader = False, nm_error = []\<rparr>"

theorem users_change_only_own_account_witness:
  "\<exists>agent nt. fst (started_auth_agent null_transport demo_env ()) = Some agent
     \<and> nt_requestHandler nt = Some (HubClient_onRequest NatsTransport_AddressTokens password_ser 0 agent)
     \<and> mget (fs_entries (as_store (snd (NatsTransport_onMessage (\<lambda>e. ''err'') nt eve_message demo_auth_state)))) ''bob'' = Some demo_entry"
proof -
  obtain agent where a: "fst (started_auth_agent null_transport demo_env ()) = Some agent"
    by (simp add: started_auth_agent_def AuthManageProfile_Start_def AuthManageRoles_Start_def AuthManageClients_Start_def
        start_capability_def split_beta)
  define nt :: "AuthState NatsTransport" where
    "nt = \<lparr>nt_status = \<lparr>hs_HubURL = [], hs_ClientID = AuthServiceName, hs_ConnectionStatus = Connected, hs_LastError = None\<rparr>,
       nt_connectHandler = (\<lambda>s st. st), nt_eventHandler = Some (HubClient_onEvent NatsTransport_AddressTokens 0 agent),
       nt_requestHandler = Some (HubClient_onRequest NatsTransport_AddressTokens password_ser 0 agent)\<rparr>"
  obtain err srv' where ap: "NatsMsgServer_ApplyAuth gc_grow (\<lambda>s. None) [eve_info] started_server = (err, srv')" by fastforce
  then have u: "eve_user \<in> set (ms_Nkeys srv')"
    by (auto simp: NatsMsgServer_ApplyAuth_def Let_def split_beta eve_user_def eve_info_def client_info_def)
  have pat: "''rpc.auth.profile.*.eve'' \<in> set (sp_Allow (pm_Publish (fst (NatsMsgServer_MakePermissions gc_grow eve_info started_server))))"
    and m: "subject_matches ''rpc.auth.profile.*.eve'' (nm_Subject eve_message)" by code_simp+
  have "own_account ''eve'' demo_auth_state (snd (NatsTransport_onMessage (\<lambda>e. ''err'') nt eve_message demo_auth_state))"
    by (rule users_change_only_own_account [OF started_server_limited(1) subject_matches_ok ap u _ _ _ _ _ pat m a])
      (simp_all add: eve_user_def eve_info_def client_info_def started_server_limited plain_token_def typed_ser_def password_ser_def nt_def)
  then show ?thesis
    using a by (intro exI [of _ agent] exI [of _ nt]) (simp add: own_account_def nt_def demo_auth_state_def)
qed

end
