(* ===== verification/AppEnvironment.thy ===== *)
theory AppEnvironment
  imports Certs
begin

text \<open>
  Model of \<open>done_tool/plugin/GetAppEnvironment.go\<close>: the directories and files of a service, derived
  from its command line, and \<open>LoadConfig\<close>. The command line, the working directory and the home directory
  of the user are the record \<open>os_context\<close>; a flag that is not given is \<open>None\<close>.
\<close>

section \<open>Paths of a disk\<close>

text \<open>\<open>path.Base\<close> and \<open>path.Dir\<close>, which are also those of \<open>filepath\<close>.\<close>

definition drop_trailing_slashes :: "string \<Rightarrow> string" where
  "drop_trailing_slashes p = rev (dropWhile (\<lambda>c. c = slash) (rev p))"

definition path_Base :: "string \<Rightarrow> string" where
  "path_Base p =
     (if p = [] then ''.''
      else if drop_trailing_slashes p = [] then ''/''
      else rev (takeWhile (\<lambda>c. c \<noteq> slash) (rev (drop_trailing_slashes p))))"

definition path_Dir :: "string \<Rightarrow> string" where
  "path_Dir p = path_Clean (rev (dropWhile (\<lambda>c. c \<noteq> slash) (rev p)))"

section \<open>The environment\<close>

record AppEnvironment =
  av_BinDir :: string
  av_PluginsDir :: string
  av_HomeDir :: string
  av_ConfigDir :: string
  av_ConfigFile :: string
  av_CertsDir :: string
  av_LogsDir :: string
  av_LogLevel :: string
  av_StoresDir :: string
  av_ServerURL :: string
  av_CaCert :: "x509_cert option"
  av_ClientID :: string
  av_KeyFile :: string
  av_TokenFile :: string

record os_context =
  oc_arg0 :: string                  \<comment> \<open>os.Args[0]\<close>
  oc_LOGLEVEL :: string
  oc_cwd :: string
  oc_userHome :: string
  oc_home :: "string option"         \<comment> \<open>the command line flags\<close>
  oc_config :: "string option"
  oc_configFile :: "string option"
  oc_clientID :: "string option"
  oc_logLevel :: "string option"
  oc_server :: "string option"

definition flag_or :: "bool \<Rightarrow> string option \<Rightarrow> string \<Rightarrow> string" where
  "flag_or withFlags given d = (case given of Some v \<Rightarrow> if withFlags then v else d | None \<Rightarrow> d)"

text \<open>The home directory by default: the parent of the directory of the binary.\<close>

definition default_home :: "os_context \<Rightarrow> string" where
  "default_home C =
     (let dir = path_Dir (oc_arg0 C);
          binDir = (if path_rooted dir then dir else path_Join (oc_cwd C) dir)
      in path_Join binDir ''..'')"

definition GetAppEnvironment :: "crypto_lib \<Rightarrow> x509_lib \<Rightarrow> filesys \<Rightarrow> os_context \<Rightarrow> string \<Rightarrow> bool \<Rightarrow> AppEnvironment" where
  "GetAppEnvironment L X fs C homeDir withFlags =
     (let clientID = flag_or withFlags (oc_clientID C) (path_Base (oc_arg0 C));
          logLevel = flag_or withFlags (oc_logLevel C) (if oc_LOGLEVEL C = [] then ''warning'' else oc_LOGLEVEL C);
          home1 = flag_or withFlags (oc_home C) (if homeDir = [] then default_home C else homeDir);
          home2 = (if strings_HasPrefix home1 ''~'' then path_Join (oc_userHome C) (tl home1)
                   else if \<not> path_rooted home1 then path_Join (oc_cwd C) home1 else home1);
          useSystem = (strings_HasPrefix home2 ''/usr'' \<or> strings_HasPrefix home2 ''/opt'');
          home = (if useSystem then ''/var/lib/hiveot'' else home2);
          configFlag = flag_or withFlags (oc_config C) [];
          configDir = (if useSystem then ''/etc/hiveot/conf.d''
                       else if configFlag = [] then path_Join home ''config'' else configFlag);
          certsDir = (if useSystem then ''/etc/hiveot/certs'' else path_Join home ''certs'');
          configFileFlag = flag_or withFlags (oc_configFile C) []
      in \<lparr>av_BinDir = (if useSystem then ''/opt/hiveot'' else path_Join home ''bin''),
          av_PluginsDir = (if useSystem then ''/opt/hiveot/plugins'' else path_Join home ''plugins''),
          av_HomeDir = home, av_ConfigDir = configDir,
          av_ConfigFile = (if configFileFlag = [] then path_Join configDir (clientID @ ''.yaml'') else configFileFlag),
          av_CertsDir = certsDir,
          av_LogsDir = (if useSystem then ''/var/log/hiveot'' else path_Join home ''logs''),
          av_LogLevel = logLevel,
          av_StoresDir = (if useSystem then ''/var/lib/hiveot'' else path_Join home ''stores''),
          av_ServerURL = flag_or withFlags (oc_server C) [],
          av_CaCert = (case LoadX509CertFromPEM L X fs (path_Join certsDir ''caCert.pem'') of Inl _ \<Rightarrow> None | Inr c \<Rightarrow> Some c),
          av_ClientID = clientID,
          av_KeyFile = path_Join certsDir (clientID @ ''.key''),
          av_TokenFile = path_Join certsDir (clientID @ ''.token'')\<rparr>)"

text \<open>
  A relative configuration file is looked up in the directory of the certificates. \<open>unmarshal\<close> is
  \<open>yaml.Unmarshal\<close> into the configuration of the application; \<open>rdErr\<close> is the error of reading a file that exists.
\<close>

definition AppEnvironment_LoadConfig ::
  "(string \<Rightarrow> 'cfg \<Rightarrow> go_error option \<times> 'cfg) \<Rightarrow> go_error option \<Rightarrow> filesys \<Rightarrow> AppEnvironment \<Rightarrow> 'cfg
     \<Rightarrow> go_error option \<times> 'cfg" where
  "AppEnvironment_LoadConfig unmarshal rdErr fs env cfg =
     (let configFile = (if path_rooted (av_ConfigFile env) then av_ConfigFile env
                        else path_Join (av_CertsDir env) (av_ConfigFile env))
      in case fs configFile of
           None \<Rightarrow> (None, cfg)
         | Some cfgData \<Rightarrow>
             (case rdErr of Some e \<Rightarrow> (Some (ErrLoadConfig e), cfg) | None \<Rightarrow> unmarshal cfgData cfg))"

section \<open>The layout of the directories\<close>

text \<open>The environment puts key and token of a service in the directory of the certificates, next to the CA.\<close>

lemma GetAppEnvironment_files:
  "av_KeyFile (GetAppEnvironment L X fs C h f) = path_Join (av_CertsDir (GetAppEnvironment L X fs C h f)) (av_ClientID (GetAppEnvironment L X fs C h f) @ ''.key'')"
  "av_TokenFile (GetAppEnvironment L X fs C h f) = path_Join (av_CertsDir (GetAppEnvironment L X fs C h f)) (av_ClientID (GetAppEnvironment L X fs C h f) @ ''.token'')"
  by (simp_all add: GetAppEnvironment_def Let_def)

lemma path_Clean_rooted [simp]: "path_rooted p \<Longrightarrow> path_rooted (path_Clean p)"
  by (simp add: path_Clean_def Let_def path_rooted_def)

lemma path_Join_rooted_any: "path_rooted d \<Longrightarrow> path_rooted (path_Join d n)"
  by (cases d) (auto simp: path_Join_def path_rooted_def intro!: path_Clean_rooted [unfolded path_rooted_def])

text \<open>All directories of the environment are absolute, whatever the command line.\<close>

lemma GetAppEnvironment_absolute:
  assumes "path_rooted (oc_cwd C)" "path_rooted (oc_userHome C)"
  shows "list_all path_rooted (map (\<lambda>sel. sel (GetAppEnvironment L X fs C h f))
    [av_HomeDir, av_BinDir, av_PluginsDir, av_CertsDir, av_LogsDir, av_StoresDir, av_KeyFile, av_TokenFile])"
proof -
  have sys: "list_all path_rooted [''/var/lib/hiveot'', ''/opt/hiveot'', ''/opt/hiveot/plugins'', ''/etc/hiveot/certs'', ''/var/log/hiveot'']"
    by (simp add: path_rooted_def)
  show ?thesis
    using assms sys by (auto simp: GetAppEnvironment_def Let_def path_Join_rooted_any)
qed

text \<open>A binary in \<open>/home/hub/bin\<close> has its home there; one in \<open>/opt\<close> uses the directories of the system.\<close>

abbreviation bin_context :: "string \<Rightarrow> os_context" where
  "bin_context arg0 \<equiv> \<lparr>oc_arg0 = arg0, oc_LOGLEVEL = [], oc_cwd = ''/root'', oc_userHome = ''/home/hub'', oc_home = None,
     oc_config = None, oc_configFile = None, oc_clientID = None, oc_logLevel = None, oc_server = None\<rparr>"

lemma GetAppEnvironment_user:
  "av_HomeDir (GetAppEnvironment L X fs (bin_context ''/srv/hub/bin/launcher'') [] True) = ''/srv/hub''"
  "av_KeyFile (GetAppEnvironment L X fs (bin_context ''/srv/hub/bin/launcher'') [] True) = ''/srv/hub/certs/launcher.key''"
  by (code_simp | simp add: GetAppEnvironment_def)+

end
