(* ===== verification/CoreConfig.thy ===== *)
theory CoreConfig
  imports AppEnvironment
begin

text \<open>
  Model of the setup of the hub: \<open>done_cfg/HubCoreConfig.go\<close> (directories, CA, server key and
  certificate), \<open>done_mod/mod_bus/bus_cfg/NatsServerConfig.go\<close> (the NATS keys) and
  \<open>done_mod/mod_auth/auth_cfg\<close>. A disk has files and directories. What the system contributes is the record
  \<open>setup_env\<close>: the errors of file operations by path, the clock, the network names and the random keys of
  one run.
\<close>

section \<open>Disks\<close>

record disk =
  dk_files :: filesys
  dk_dirs :: "string list"

definition os_Stat :: "disk \<Rightarrow> string \<Rightarrow> bool" where
  "os_Stat dk p \<longleftrightarrow> p \<noteq> [] \<and> (dk_files dk p \<noteq> None \<or> p \<in> set (dk_dirs dk))"

definition parent_dirs :: "string \<Rightarrow> string list" where
  "parent_dirs p = map (\<lambda>i. take i p) (filter (\<lambda>i. 0 < i \<and> p ! i = slash) [0..<length p])"

text \<open>An empty path cannot be created; \<open>e\<close> is the error of the call for another path.\<close>

definition os_MkdirAll :: "go_error option \<Rightarrow> string \<Rightarrow> disk \<Rightarrow> go_error option \<times> disk" where
  "os_MkdirAll e p dk =
     (if p = [] then (Some (ErrLib ''mkdir : no such file or directory''), dk)
      else case e of
        Some err \<Rightarrow> (Some err, dk)
      | None \<Rightarrow> (None, dk\<lparr>dk_dirs := p # parent_dirs p @ dk_dirs dk\<rparr>))"

definition in_tree :: "string \<Rightarrow> string \<Rightarrow> bool" where
  "in_tree d p \<longleftrightarrow> p = d \<or> strings_HasPrefix p (d @ [slash])"

definition os_RemoveAll :: "go_error option \<Rightarrow> string \<Rightarrow> disk \<Rightarrow> disk" where
  "os_RemoveAll e d dk =
     (if d = [] \<or> e \<noteq> None then dk
      else dk\<lparr>dk_files := (\<lambda>p. if in_tree d p then None else dk_files dk p),
              dk_dirs := filter (\<lambda>p. \<not> in_tree d p) (dk_dirs dk)\<rparr>)"

section \<open>The configuration\<close>

record NatsServerConfig =
  nc_Host :: string
  nc_Port :: int
  nc_WSPort :: int
  nc_LogLevel :: string
  nc_LogFile :: string
  nc_Debug :: bool
  nc_MaxDataMemoryMB :: int
  nc_DataDir :: string
  nc_AppAccountName :: string
  nc_NoAutoStart :: bool
  nc_CaCert :: "x509_cert option"
  nc_CaKey :: "HiveKey option"
  nc_ServerTLS :: "tls_cert option"
  nc_AppAccountKP :: "privkey option"
  nc_AdminUserKP :: "privkey option"
  nc_CoreServiceKP :: "privkey option"
  nc_SystemAccountKP :: "privkey option"
  nc_SystemUserKP :: "privkey option"

record AuthConfig =
  ag_PasswordFile :: string
  ag_DeviceTokenValidityDays :: int
  ag_ServiceTokenValidityDays :: int
  ag_UserTokenValidityDays :: int
  ag_NoAutoStart :: bool
  ag_KeysDir :: string
  ag_AdminAccountID :: string
  ag_LauncherAccountID :: string

record HubCoreConfig =
  hg_Env :: AppEnvironment
  hg_CaCertFile :: string
  hg_CaKeyFile :: string
  hg_ServerCertFile :: string
  hg_ServerKeyFile :: string
  hg_CaCert :: "x509_cert option"
  hg_CaKey :: "HiveKey option"
  hg_ServerTLS :: "tls_cert option"
  hg_ServerKey :: "HiveKey option"
  hg_NatsServer :: NatsServerConfig
  hg_Auth :: AuthConfig
  hg_EnableMDNS :: bool

text \<open>
  \<open>se_loadGen\<close>, \<open>se_caGen\<close> and \<open>se_serverGen\<close> are the random keys that are made while a key is loaded, for the CA
  and for the server; the five NATS keys are those of the calls of \<open>nkeys.CreateAccount\<close> and
  \<open>nkeys.CreateUser\<close>. \<open>se_outboundIP\<close> is the text of the outbound address.
\<close>

record setup_env =
  se_crypto :: crypto_lib
  se_x509 :: x509_lib
  se_now :: int
  se_hostName :: string
  se_outboundIP :: string
  se_MkdirAll :: "string \<Rightarrow> go_error option"
  se_RemoveAll :: "string \<Rightarrow> go_error option"
  se_Remove :: "string \<Rightarrow> go_error option"
  se_Write :: "string \<Rightarrow> go_error option"
  se_Read :: "string \<Rightarrow> go_error option"
  se_yaml :: "string \<Rightarrow> HubCoreConfig \<Rightarrow> go_error + HubCoreConfig"
  se_loadGen :: keygen
  se_caGen :: keygen
  se_serverGen :: keygen
  se_appAccount :: "privkey option"
  se_adminUser :: "privkey option"
  se_coreService :: "privkey option"
  se_systemAccount :: "privkey option"
  se_systemUser :: "privkey option"

definition on_files :: "(filesys \<Rightarrow> 'a \<times> filesys) \<Rightarrow> disk \<Rightarrow> 'a \<times> disk" where
  "on_files f dk = (case f (dk_files dk) of (r, fs) \<Rightarrow> (r, dk\<lparr>dk_files := fs\<rparr>))"

section \<open>NATS keys\<close>

text \<open>The seed of a key pair; the error is dropped, which leaves an empty seed, and a nil key pair has none.\<close>

definition kp_seed :: "crypto_lib \<Rightarrow> privkey option \<Rightarrow> string outcome" where
  "kp_seed L kp =
     (case kp of
        None \<Rightarrow> Panics NilDereference
      | Some k \<Rightarrow> Returns (case nk_Seed L k of Inl _ \<Rightarrow> [] | Inr s \<Rightarrow> s))"

definition load_nkey :: "crypto_lib \<Rightarrow> filesys \<Rightarrow> string \<Rightarrow> privkey option" where
  "load_nkey L fs p =
     (case fs p of
        None \<Rightarrow> None
      | Some kpSeed \<Rightarrow> (case nk_ParseDecorated L kpSeed of Inl _ \<Rightarrow> None | Inr kp \<Rightarrow> Some kp))"

definition NatsServerConfig_LoadCreateUserKP ::
  "setup_env \<Rightarrow> privkey option \<Rightarrow> string \<Rightarrow> string \<Rightarrow> bool \<Rightarrow> disk \<Rightarrow> ((privkey option \<times> go_error option) \<times> disk) outcome" where
  "NatsServerConfig_LoadCreateUserKP E created clientID keysDir writeChanges dk =
     (let kpPath = path_Join keysDir (clientID @ ''.key'') in
      case load_nkey (se_crypto E) (dk_files dk) kpPath of
        Some kp \<Rightarrow> Returns ((Some kp, None), dk)
      | None \<Rightarrow>
          if writeChanges
          then and_then (kp_seed (se_crypto E) created) (\<lambda>seed.
                 case on_files (os_WriteFile (se_Write E kpPath) kpPath seed) dk of
                   (err, dk1) \<Rightarrow> Returns ((created, err), dk1))
          else Returns ((created, None), dk))"

definition nats_defaults :: "setup_env \<Rightarrow> string \<Rightarrow> NatsServerConfig \<Rightarrow> NatsServerConfig" where
  "nats_defaults E storesDir cfg = cfg
     \<lparr>nc_Host := (if nc_Host cfg = [] then se_outboundIP E else nc_Host cfg),
      nc_Port := (if nc_Port cfg = 0 then 4222 else nc_Port cfg),
      nc_DataDir := (if nc_DataDir cfg = [] then path_Join storesDir ''natsserver'' else nc_DataDir cfg),
      nc_MaxDataMemoryMB := (if nc_MaxDataMemoryMB cfg = 0 then 1024 else nc_MaxDataMemoryMB cfg),
      nc_LogLevel := (if nc_LogLevel cfg = [] then ''warn'' else nc_LogLevel cfg),
      nc_AppAccountName := (if nc_AppAccountName cfg = [] then ''hiveot'' else nc_AppAccountName cfg)\<rparr>"

text \<open>Step 2: the missing CA and server certificate. An error leaves the server without TLS.\<close>

definition nats_certs :: "setup_env \<Rightarrow> NatsServerConfig \<Rightarrow> NatsServerConfig outcome" where
  "nats_certs E cfg =
     and_then (if nc_CaCert cfg = None \<or> nc_CaKey cfg = None
               then and_then (CreateCA (se_crypto E) (se_x509 E) (se_caGen E) (se_now E) ''hiveot'' 365)
                      (\<lambda>(ca, key). Returns (cfg\<lparr>nc_CaCert := ca, nc_CaKey := Some key\<rparr>))
               else Returns cfg) (\<lambda>cfg1.
       case (nc_ServerTLS cfg1, nc_CaKey cfg1) of
         (None, Some caKey) \<Rightarrow>
           and_then (NewKey (se_crypto E) (se_serverGen E) (hk_type caKey)) (\<lambda>serverKeys.
             case nc_CaCert cfg1 of
               None \<Rightarrow> if nc_AppAccountName cfg1 = [] \<or> serverKeys = None then Returns cfg1 else Panics NilDereference
             | Some ca \<Rightarrow>
                 (case (CreateServerCert (se_x509 E) (se_now E) (nc_AppAccountName cfg1) ''server'' 365 serverKeys
                          [nc_Host cfg1] ca caKey, serverKeys) of
                    (Inr serverX509, Some sk) \<Rightarrow> Returns (cfg1\<lparr>nc_ServerTLS := Some (X509CertToTLS serverX509 sk)\<rparr>)
                  | _ \<Rightarrow> Returns cfg1))
       | _ \<Rightarrow> Returns cfg1)"

text \<open>Step 3: a relative path of the account key is put in \<open>keysDir\<close> twice.\<close>

definition app_account_path :: "string \<Rightarrow> NatsServerConfig \<Rightarrow> string" where
  "app_account_path keysDir cfg =
     (let kpPath = path_Join keysDir (nc_AppAccountName cfg @ ''App.key'')
      in if path_rooted kpPath then kpPath else path_Join keysDir kpPath)"

definition nats_account_key ::
  "setup_env \<Rightarrow> string \<Rightarrow> bool \<Rightarrow> NatsServerConfig \<Rightarrow> disk \<Rightarrow> (go_error option \<times> NatsServerConfig \<times> disk) outcome" where
  "nats_account_key E keysDir writeChanges cfg dk =
     (if nc_AppAccountKP cfg \<noteq> None then Returns (None, cfg, dk)
      else let kpPath = app_account_path keysDir cfg in
        case load_nkey (se_crypto E) (dk_files dk) kpPath of
          Some kp \<Rightarrow> Returns (None, cfg\<lparr>nc_AppAccountKP := Some kp\<rparr>, dk)
        | None \<Rightarrow>
            if writeChanges
            then and_then (kp_seed (se_crypto E) (se_appAccount E)) (\<lambda>seed.
                   case on_files (os_WriteFile (se_Write E kpPath) kpPath seed) dk of
                     (err, dk1) \<Rightarrow> Returns (map_option ErrAppAccountKey err, cfg\<lparr>nc_AppAccountKP := se_appAccount E\<rparr>, dk1))
            else Returns (None, cfg\<lparr>nc_AppAccountKP := se_appAccount E\<rparr>, dk))"

text \<open>Step 4: the errors of writing a user key are dropped.\<close>

definition nats_user_keys ::
  "setup_env \<Rightarrow> string \<Rightarrow> bool \<Rightarrow> NatsServerConfig \<Rightarrow> disk \<Rightarrow> (NatsServerConfig \<times> disk) outcome" where
  "nats_user_keys E keysDir writeChanges cfg dk =
     and_then (if nc_AdminUserKP cfg \<noteq> None then Returns (cfg, dk)
               else and_then (NatsServerConfig_LoadCreateUserKP E (se_adminUser E) ''admin'' keysDir writeChanges dk)
                      (\<lambda>((kp, _), dk1). Returns (cfg\<lparr>nc_AdminUserKP := kp\<rparr>, dk1))) (\<lambda>(cfg1, dk1).
       let cfg2 = (if nc_CoreServiceKP cfg1 = None then cfg1\<lparr>nc_CoreServiceKP := se_coreService E\<rparr> else cfg1);
           cfg3 = (if nc_SystemAccountKP cfg2 = None then cfg2\<lparr>nc_SystemAccountKP := se_systemAccount E\<rparr> else cfg2)
       in if nc_SystemUserKP cfg3 \<noteq> None then Returns (cfg3, dk1)
          else and_then (NatsServerConfig_LoadCreateUserKP E (se_systemUser E) (nc_AppAccountName cfg3 @ ''System'') keysDir writeChanges dk1)
                 (\<lambda>((kp, _), dk2). Returns (cfg3\<lparr>nc_SystemUserKP := kp\<rparr>, dk2)))"

definition NatsServerConfig_Setup ::
  "setup_env \<Rightarrow> string \<Rightarrow> string \<Rightarrow> bool \<Rightarrow> NatsServerConfig \<Rightarrow> disk \<Rightarrow> (go_error option \<times> NatsServerConfig \<times> disk) outcome" where
  "NatsServerConfig_Setup E keysDir storesDir writeChanges cfg dk =
     and_then (nats_certs E (nats_defaults E storesDir cfg)) (\<lambda>cfg1.
     and_then (nats_account_key E keysDir writeChanges cfg1 dk) (\<lambda>(err, cfg2, dk1).
       if err \<noteq> None then Returns (err, cfg2, dk1)
       else and_then (nats_user_keys E keysDir writeChanges cfg2 dk1) (\<lambda>(cfg3, dk2). Returns (None, cfg3, dk2))))"

section \<open>Server options\<close>

text \<open>
  The options of the NATS server: the fields that \<open>CreateNatsNKeyOptions\<close> sets. A nkey user belongs to an account
  by name; the TLS configuration is the CA of the clients, which also is the root, and the server's certificate.
\<close>

record nats_options =
  no_Host :: string
  no_Port :: int
  no_SystemAccount :: string
  no_Accounts :: "(string \<times> string) list"         \<comment> \<open>name and public key\<close>
  no_Nkeys :: "(string \<times> string) list"            \<comment> \<open>public key and account\<close>
  no_JetStream :: bool
  no_JetStreamMaxMemory :: int
  no_StoreDir :: string
  no_Debug :: bool
  no_TLSConfig :: "(x509_cert list \<times> tls_cert) option"

definition zero_nats_options :: nats_options where
  "zero_nats_options = \<lparr>no_Host = [], no_Port = 0, no_SystemAccount = [], no_Accounts = [], no_Nkeys = [], no_JetStream = False,
     no_JetStreamMaxMemory = 0, no_StoreDir = [], no_Debug = False, no_TLSConfig = None\<rparr>"

definition kp_PublicKey :: "crypto_lib \<Rightarrow> privkey option \<Rightarrow> string outcome" where
  "kp_PublicKey L kp = (case kp of None \<Rightarrow> Panics NilDereference | Some k \<Rightarrow> Returns (nk_PublicKey L k))"

text \<open>
  \<open>wrErr\<close> is the error of writing the temporary file, \<open>processed\<close> what \<open>ProcessConfigFile\<close> makes of the file, which
  enables JetStream for the account of that name: an error or the accounts. The result includes the application account, which is kept in the configuration.
\<close>

definition NatsServerConfig_CreateNatsNKeyOptions ::
  "crypto_lib \<Rightarrow> go_error option \<Rightarrow> (string \<Rightarrow> go_error + (string \<times> string) list) \<Rightarrow> NatsServerConfig
     \<Rightarrow> (nats_options \<times> go_error option \<times> (string \<times> string) option) outcome" where
  "NatsServerConfig_CreateNatsNKeyOptions L wrErr processed cfg =
     (case wrErr of
        Some e \<Rightarrow> Returns (zero_nats_options, Some e, None)
      | None \<Rightarrow>
          (case processed (nc_AppAccountName cfg) of
             Inl e \<Rightarrow> Returns (zero_nats_options, Some e, None)
           | Inr accounts \<Rightarrow>
               and_then (kp_PublicKey L (nc_SystemAccountKP cfg)) (\<lambda>systemAccountPub.
               and_then (kp_PublicKey L (nc_AppAccountKP cfg)) (\<lambda>appAccountPub.
               and_then (kp_PublicKey L (nc_CoreServiceKP cfg)) (\<lambda>coreServicePub.
               and_then (kp_PublicKey L (nc_SystemUserKP cfg)) (\<lambda>systemUserPub.
                 Returns (\<lparr>no_Host = nc_Host cfg, no_Port = nc_Port cfg, no_SystemAccount = ''SYS'',
                    no_Accounts = accounts @ [(''SYS'', systemAccountPub)],
                    no_Nkeys = [(coreServicePub, nc_AppAccountName cfg), (systemUserPub, ''SYS'')],
                    no_JetStream = True, no_JetStreamMaxMemory = wrap64 (nc_MaxDataMemoryMB cfg * 1024 * 1024),
                    no_StoreDir = nc_DataDir cfg, no_Debug = nc_Debug cfg,
                    no_TLSConfig = (case (nc_CaCert cfg, nc_ServerTLS cfg) of
                        (Some ca, Some tls) \<Rightarrow> Some ([ca], tls) | _ \<Rightarrow> None)\<rparr>,
                  None, Some (nc_AppAccountName cfg, appAccountPub))))))))"

section \<open>Authentication configuration\<close>

definition AuthConfig_Setup :: "string \<Rightarrow> string \<Rightarrow> AuthConfig \<Rightarrow> AuthConfig" where
  "AuthConfig_Setup keysDir storesDir cfg =
     (let f = (if ag_PasswordFile cfg = [] then ''hub.passwd'' else ag_PasswordFile cfg) in cfg
      \<lparr>ag_PasswordFile := (if path_rooted f then f else path_Join (path_Join storesDir ''auth'') f),
       ag_DeviceTokenValidityDays := (if ag_DeviceTokenValidityDays cfg = 0 then 90 else ag_DeviceTokenValidityDays cfg),
       ag_ServiceTokenValidityDays := (if ag_ServiceTokenValidityDays cfg = 0 then 365 else ag_ServiceTokenValidityDays cfg),
       ag_UserTokenValidityDays := (if ag_UserTokenValidityDays cfg = 0 then 30 else ag_UserTokenValidityDays cfg),
       ag_KeysDir := keysDir, ag_AdminAccountID := ''admin'', ag_LauncherAccountID := ''launcher''\<rparr>)"

section \<open>Directories\<close>

text \<open>The directories that are created when they do not exist; errors are dropped.\<close>

fun ensure_dirs :: "setup_env \<Rightarrow> string list \<Rightarrow> disk \<Rightarrow> disk" where
  "ensure_dirs E [] dk = dk"
| "ensure_dirs E (d # ds) dk =
     ensure_dirs E ds (if os_Stat dk d then dk else snd (os_MkdirAll (se_MkdirAll E d) d dk))"

definition HubCoreConfig_setupDirectories :: "setup_env \<Rightarrow> bool \<Rightarrow> AppEnvironment \<Rightarrow> disk \<Rightarrow> go_error option \<times> disk" where
  "HubCoreConfig_setupDirectories E new env dk =
     (if path_Clean (av_HomeDir env) = ''/etc'' then (Some (ErrHomeDir ''home cannot be /etc''), dk)
      else if path_Clean (av_HomeDir env) = ''/tmp'' then (Some (ErrHomeDir ''home cannot be /tmp. Choose a subdir''), dk)
      else if path_Clean (path_Dir (av_HomeDir env)) = ''/home''
      then (Some (ErrHomeDir ''application home directory cannot be a home directory''), dk)
      else
        (let dk1 = (if os_Stat dk (av_HomeDir env) \<and> new
                    then os_RemoveAll (se_RemoveAll E (av_LogsDir env)) (av_LogsDir env)
                           (os_RemoveAll (se_RemoveAll E (av_StoresDir env)) (av_StoresDir env)
                             (os_RemoveAll (se_RemoveAll E (av_CertsDir env)) (av_CertsDir env) dk))
                    else dk);
             (err, dk2) = (if os_Stat dk1 (av_HomeDir env) then (None, dk1)
                           else os_MkdirAll (se_MkdirAll E (av_HomeDir env)) (av_HomeDir env) dk1)
         in case err of
              Some e \<Rightarrow> (Some (ErrHomeDirCreate (av_HomeDir env) e), dk2)
            | None \<Rightarrow> (None, ensure_dirs E [av_HomeDir env, av_BinDir env, av_PluginsDir env, av_CertsDir env,
                                av_ConfigDir env, av_LogsDir env, av_StoresDir env] dk2)))"

section \<open>Certificates\<close>

definition in_dir :: "string \<Rightarrow> string \<Rightarrow> string" where
  "in_dir d f = (if path_rooted f then f else path_Join d f)"

abbreviation ErrNotExist :: go_error where "ErrNotExist \<equiv> ErrLib ''no such file or directory''"

text \<open>
  Loading the CA: the result of looking at the directory is the error that is left when certificate and key were
  preset. The key is loaded only with a certificate.
\<close>

definition load_CA ::
  "setup_env \<Rightarrow> go_error option \<Rightarrow> HubCoreConfig \<Rightarrow> disk \<Rightarrow> ((x509_cert option \<times> HiveKey option) \<times> go_error option) outcome" where
  "load_CA E err0 cfg dk =
     (let certPath = in_dir (av_CertsDir (hg_Env cfg)) (hg_CaCertFile cfg);
          keyPath = in_dir (av_CertsDir (hg_Env cfg)) (hg_CaKeyFile cfg);
          (ca, err1) = (case hg_CaCert cfg of
              Some c \<Rightarrow> (Some c, err0)
            | None \<Rightarrow> (case LoadX509CertFromPEM (se_crypto E) (se_x509 E) (dk_files dk) certPath of
                         Inl e \<Rightarrow> (None, Some e) | Inr c \<Rightarrow> (Some c, None)))
      in if ca \<noteq> None \<and> hg_CaKey cfg = None
         then and_then (NewKeyFromFile (se_crypto E) (se_loadGen E) (dk_files dk) keyPath) (\<lambda>(key, err). Returns ((ca, key), err))
         else Returns ((ca, hg_CaKey cfg), err1))"

text \<open>A new CA is saved, the key first. A nil certificate has no content to save.\<close>

definition create_CA :: "setup_env \<Rightarrow> HubCoreConfig \<Rightarrow> disk \<Rightarrow> ((x509_cert \<times> HiveKey) \<times> disk) outcome" where
  "create_CA E cfg dk =
     (let certPath = in_dir (av_CertsDir (hg_Env cfg)) (hg_CaCertFile cfg);
          keyPath = in_dir (av_CertsDir (hg_Env cfg)) (hg_CaKeyFile cfg)
      in and_then (CreateCA (se_crypto E) (se_x509 E) (se_caGen E) (se_now E) ''hiveot'' (365 * 10)) (\<lambda>(caCert, caKey).
         and_then (IHiveKey_ExportPrivateToFile (se_crypto E) (se_Remove E keyPath) (se_Write E keyPath) keyPath caKey (dk_files dk))
           (\<lambda>(err, fs1).
             case (err, caCert) of
               (Some _, _) \<Rightarrow> Panics ExplicitPanic
             | (None, None) \<Rightarrow> Panics NilDereference
             | (None, Some ca) \<Rightarrow>
                 (case SaveX509CertToPEM (se_crypto E) (se_Remove E certPath) (se_Write E certPath) ca certPath fs1 of
                    (Some _, _) \<Rightarrow> Panics ExplicitPanic
                  | (None, fs2) \<Rightarrow> Returns ((ca, caKey), dk\<lparr>dk_files := fs2\<rparr>)))))"

definition setup_CA :: "setup_env \<Rightarrow> go_error option \<Rightarrow> HubCoreConfig \<Rightarrow> disk \<Rightarrow> ((x509_cert \<times> HiveKey) \<times> disk) outcome" where
  "setup_CA E err0 cfg dk =
     and_then (load_CA E err0 cfg dk) (\<lambda>((ca, key), err).
       case (ca, key, err) of
         (Some c, Some k, None) \<Rightarrow> Returns ((c, k), dk)
       | _ \<Rightarrow> create_CA E cfg dk)"

text \<open>The server key: one of the type of the CA key is made and saved when none can be loaded.\<close>

definition setup_server_key :: "setup_env \<Rightarrow> HiveKey \<Rightarrow> HubCoreConfig \<Rightarrow> disk \<Rightarrow> (HiveKey \<times> disk) outcome" where
  "setup_server_key E caKey cfg dk =
     (let keyPath = in_dir (av_CertsDir (hg_Env cfg)) (hg_ServerKeyFile cfg) in
      and_then (case hg_ServerKey cfg of
                  Some k \<Rightarrow> Returns (Some k, None)
                | None \<Rightarrow> NewKeyFromFile (se_crypto E) (se_loadGen E) (dk_files dk) keyPath) (\<lambda>(key, err).
        case (key, err) of
          (Some k, None) \<Rightarrow> Returns (k, dk)
        | _ \<Rightarrow>
            and_then (NewKey (se_crypto E) (se_serverGen E) (hk_type caKey)) (\<lambda>created.
              case created of
                None \<Rightarrow> Panics NilDereference
              | Some k \<Rightarrow>
                  and_then (IHiveKey_ExportPrivateToFile (se_crypto E) (se_Remove E keyPath) (se_Write E keyPath) keyPath k (dk_files dk))
                    (\<lambda>(_, fs1). Returns (k, dk\<lparr>dk_files := fs1\<rparr>)))))"

definition HubCoreConfig_setupCerts :: "setup_env \<Rightarrow> HubCoreConfig \<Rightarrow> disk \<Rightarrow> (HubCoreConfig \<times> disk) outcome" where
  "HubCoreConfig_setupCerts E cfg dk =
     (let certsDir = av_CertsDir (hg_Env cfg);
          err0 = (if os_Stat dk certsDir then None else Some ErrNotExist);
          dk0 = (if os_Stat dk certsDir then dk else snd (os_MkdirAll (se_MkdirAll E certsDir) certsDir dk));
          certPath = in_dir certsDir (hg_ServerCertFile cfg)
      in and_then (setup_CA E err0 cfg dk0) (\<lambda>((ca, caKey), dk1).
         and_then (setup_server_key E caKey cfg dk1) (\<lambda>(serverKey, dk2).
           case CreateServerCert (se_x509 E) (se_now E) (''nats-'' @ se_hostName E) ''hiveot'' 365 (Some serverKey)
                  [''localhost'', ''127.0.0.1'', se_hostName E, se_outboundIP E] ca caKey of
             Inl _ \<Rightarrow> Panics ExplicitPanic
           | Inr serverCert \<Rightarrow>
               (case on_files (SaveX509CertToPEM (se_crypto E) (se_Remove E certPath) (se_Write E certPath) serverCert certPath) dk2 of
                  (_, dk3) \<Rightarrow> Returns (cfg\<lparr>hg_CaCert := Some ca, hg_CaKey := Some caKey, hg_ServerKey := Some serverKey,
                                 hg_ServerTLS := Some (X509CertToTLS serverCert serverKey)\<rparr>, dk3)))))"

section \<open>Setup\<close>

text \<open>An error of the message server's setup is overwritten when the data directory has to be created.\<close>

definition HubCoreConfig_setupNatsCore :: "setup_env \<Rightarrow> HubCoreConfig \<Rightarrow> disk \<Rightarrow> (HubCoreConfig \<times> disk) outcome" where
  "HubCoreConfig_setupNatsCore E cfg dk =
     and_then (NatsServerConfig_Setup E (av_CertsDir (hg_Env cfg)) (av_StoresDir (hg_Env cfg)) True
         ((hg_NatsServer cfg)\<lparr>nc_CaCert := hg_CaCert cfg, nc_CaKey := hg_CaKey cfg, nc_ServerTLS := hg_ServerTLS cfg\<rparr>) dk)
       (\<lambda>(err, nats, dk1).
          if nc_DataDir nats = [] then Panics ExplicitPanic
          else
            (let (err1, dk2) = (if os_Stat dk1 (nc_DataDir nats) then (err, dk1)
                                else os_MkdirAll (se_MkdirAll E (nc_DataDir nats)) (nc_DataDir nats) dk1)
             in if err1 \<noteq> None then Panics ExplicitPanic else Returns (cfg\<lparr>hg_NatsServer := nats\<rparr>, dk2)))"

text \<open>
  The file that is looked for is that of the configuration's environment, the file that is read that
  of the argument \<open>env\<close>, which is not used for anything else.
\<close>

definition load_core_config :: "setup_env \<Rightarrow> AppEnvironment \<Rightarrow> HubCoreConfig \<Rightarrow> disk \<Rightarrow> go_error + HubCoreConfig" where
  "load_core_config E env cfg dk =
     (if \<not> os_Stat dk (av_ConfigFile (hg_Env cfg)) then Inr cfg
      else case (se_Read E (av_ConfigFile env), os_ReadFile (dk_files dk) (av_ConfigFile env)) of
        (Some e, _) \<Rightarrow> Inl (ErrLoadConfig e)
      | (None, Inl e) \<Rightarrow> Inl (ErrLoadConfig e)
      | (None, Inr data) \<Rightarrow> (case se_yaml E data cfg of Inl e \<Rightarrow> Inl (ErrParseConfig e) | Inr cfg1 \<Rightarrow> Inr cfg1))"

definition HubCoreConfig_Setup ::
  "setup_env \<Rightarrow> AppEnvironment \<Rightarrow> bool \<Rightarrow> HubCoreConfig \<Rightarrow> disk \<Rightarrow> (go_error option \<times> HubCoreConfig \<times> disk) outcome" where
  "HubCoreConfig_Setup E env new cfg dk =
     (case load_core_config E env cfg dk of
        Inl err \<Rightarrow> Returns (Some err, cfg, dk)
      | Inr cfg1 \<Rightarrow>
          (case HubCoreConfig_setupDirectories E new (hg_Env cfg1) dk of
             (Some err, dk1) \<Rightarrow> Returns (Some err, cfg1, dk1)
           | (None, dk1) \<Rightarrow>
               and_then (HubCoreConfig_setupCerts E (cfg1\<lparr>hg_CaCertFile := ''caCert.pem'', hg_CaKeyFile := ''caKey.pem'',
                   hg_ServerCertFile := ''hubCert.pem'', hg_ServerKeyFile := ''hubKey.pem''\<rparr>) dk1) (\<lambda>(cfg2, dk2).
               and_then (HubCoreConfig_setupNatsCore E cfg2 dk2) (\<lambda>(cfg3, dk3).
                 Returns (None, cfg3\<lparr>hg_Auth := AuthConfig_Setup (av_CertsDir (hg_Env cfg3)) (av_StoresDir (hg_Env cfg3)) (hg_Auth cfg3)\<rparr>, dk3)))))"

definition zero_env :: AppEnvironment where
  "zero_env = \<lparr>av_BinDir = [], av_PluginsDir = [], av_HomeDir = [], av_ConfigDir = [], av_ConfigFile = [], av_CertsDir = [],
     av_LogsDir = [], av_LogLevel = [], av_StoresDir = [], av_ServerURL = [], av_CaCert = None, av_ClientID = [],
     av_KeyFile = [], av_TokenFile = []\<rparr>"

definition zero_nats_config :: NatsServerConfig where
  "zero_nats_config = \<lparr>nc_Host = [], nc_Port = 0, nc_WSPort = 0, nc_LogLevel = [], nc_LogFile = [], nc_Debug = False,
     nc_MaxDataMemoryMB = 0, nc_DataDir = [], nc_AppAccountName = [], nc_NoAutoStart = False, nc_CaCert = None, nc_CaKey = None,
     nc_ServerTLS = None, nc_AppAccountKP = None, nc_AdminUserKP = None, nc_CoreServiceKP = None, nc_SystemAccountKP = None,
     nc_SystemUserKP = None\<rparr>"

definition zero_auth_config :: AuthConfig where
  "zero_auth_config = \<lparr>ag_PasswordFile = [], ag_DeviceTokenValidityDays = 0, ag_ServiceTokenValidityDays = 0,
     ag_UserTokenValidityDays = 0, ag_NoAutoStart = False, ag_KeysDir = [], ag_AdminAccountID = [], ag_LauncherAccountID = []\<rparr>"

definition NewHubCoreConfig :: HubCoreConfig where
  "NewHubCoreConfig = \<lparr>hg_Env = zero_env, hg_CaCertFile = [], hg_CaKeyFile = [], hg_ServerCertFile = [], hg_ServerKeyFile = [],
     hg_CaCert = None, hg_CaKey = None, hg_ServerTLS = None, hg_ServerKey = None, hg_NatsServer = zero_nats_config,
     hg_Auth = zero_auth_config, hg_EnableMDNS = True\<rparr>"

end
