(* ===== verification/AuthStart.thy ===== *)
theory AuthStart
  imports PluginLogin AuthAccess CoreConfig
begin

text \<open>
  Starting the auth service, \<open>done_mod/mod_auth/auth_srv/AuthService.go\<close>: the service opens its store, adds itself as a
  client, connects, registers its capabilities, and leaves credentials for the launcher and the administrator in the key
  directory. The theorem is that both can log in with the files it leaves.
\<close>

section \<open>The service\<close>

text \<open>
  The libraries and the failures of file operations; each key that may be generated has its own source. The service
  listens at \<open>su_serverURL\<close>.
\<close>

record auth_start_env =
  su_env :: auth_env
  su_crypto :: crypto_lib
  su_nats :: nats_client
  su_ownGen :: keygen
  su_launcherGen :: keygen
  su_adminGen :: keygen
  su_launcherFiles :: key_file_env
  su_adminFiles :: key_file_env
  su_Remove :: "string \<Rightarrow> go_error option"
  su_Write :: "string \<Rightarrow> go_error option"
  su_defaultURL :: string
  su_serverURL :: string

record 'w AuthService =
  sv_cfg :: AuthConfig
  sv_auth :: AuthState
  sv_hc :: "(auth_message, AuthState) HubClient option"
  sv_conn :: "nats_conn option"
  sv_fs :: filesys
  sv_world :: 'w

definition NewAuthService :: "AuthConfig \<Rightarrow> AuthnFileStore \<Rightarrow> NatsMsgServer \<Rightarrow> filesys \<Rightarrow> 'w \<Rightarrow> 'w AuthService" where
  "NewAuthService cfg store srv fs w =
     \<lparr>sv_cfg = cfg, sv_auth = \<lparr>as_store = store, as_server = srv, as_jobs = []\<rparr>, sv_hc = None, sv_conn = None, sv_fs = fs, sv_world = w\<rparr>"

text \<open>A token file is read-only, so it is removed before it is written.\<close>

definition save_token_file :: "auth_start_env \<Rightarrow> string \<Rightarrow> string \<Rightarrow> filesys \<Rightarrow> go_error option \<times> filesys" where
  "save_token_file E tokenFile token fs = os_WriteFile (su_Write E tokenFile) tokenFile token (os_Remove (su_Remove E tokenFile) tokenFile fs)"

text \<open>The launcher: errors of the key files, of adding the client and of the token file are dropped.\<close>

definition start_add_launcher :: "auth_start_env \<Rightarrow> 'w AuthService \<Rightarrow> 'w AuthService outcome" where
  "start_add_launcher E svc =
     (let launcherID = ag_LauncherAccountID (sv_cfg svc); keysDir = ag_KeysDir (sv_cfg svc) in
      and_then (HubClient_LoadCreateKeyPair (su_crypto E) (su_launcherGen E) (su_launcherFiles E) AuthServiceName launcherID keysDir (sv_fs svc))
        (\<lambda>((launcherKey, _), fs1).
          case launcherKey of
            None \<Rightarrow> Panics NilDereference
          | Some k \<Rightarrow>
              and_then (IHiveKey_ExportPublic (su_crypto E) k) (\<lambda>pub.
                case AuthManageClients_AddService (su_env E) launcherID ''Launcher Service'' pub (sv_auth svc) of
                  (Panics p, _) \<Rightarrow> Panics p
                | (Returns (token, err), auth1) \<Rightarrow>
                    Returns (svc\<lparr>sv_auth := auth1,
                      sv_fs := (if err = None then snd (save_token_file E (path_Join keysDir (launcherID @ TokenFileExt)) token fs1) else fs1)\<rparr>))))"

text \<open>The administrator: the errors of adding the user and of writing the token file are those of the start.\<close>

definition start_add_admin :: "auth_start_env \<Rightarrow> 'w AuthService \<Rightarrow> (go_error option \<times> 'w AuthService) outcome" where
  "start_add_admin E svc =
     (let adminID = ag_AdminAccountID (sv_cfg svc); keysDir = ag_KeysDir (sv_cfg svc) in
      and_then (HubClient_LoadCreateKeyPair (su_crypto E) (su_adminGen E) (su_adminFiles E) AuthServiceName adminID keysDir (sv_fs svc))
        (\<lambda>((adminKey, _), fs1).
          case adminKey of
            None \<Rightarrow> Panics NilDereference
          | Some k \<Rightarrow>
              and_then (IHiveKey_ExportPublic (su_crypto E) k) (\<lambda>pub.
                case AuthManageClients_AddUser (su_env E) adminID ''Administrator'' [] pub ClientRoleAdmin (sv_auth svc) of
                  (Panics p, _) \<Rightarrow> Panics p
                | (Returns (token, Some err), auth1) \<Rightarrow> Returns (Some err, svc\<lparr>sv_auth := auth1, sv_fs := fs1\<rparr>)
                | (Returns (token, None), auth1) \<Rightarrow>
                    (case save_token_file E (path_Join keysDir (adminID @ TokenFileExt)) token fs1 of
                       (err, fs2) \<Rightarrow> Returns (err, svc\<lparr>sv_auth := auth1, sv_fs := fs2\<rparr>)))))"

text \<open>
  The service adds itself before it can connect; its key is kept in memory only. Registering the capabilities
  cannot fail, so the clean-up after a failure is never run.
\<close>

definition AuthService_Start :: "'w hub_transport \<Rightarrow> auth_start_env \<Rightarrow> 'w AuthService \<Rightarrow> (go_error option \<times> 'w AuthService) outcome" where
  "AuthService_Start tp E svc =
     (case AuthnFileStore_Open (ax_pw (su_env E)) (as_store (sv_auth svc)) of
        (Some err, st) \<Rightarrow> Returns (Some err, svc\<lparr>sv_auth := (sv_auth svc)\<lparr>as_store := st\<rparr>\<rparr>)
      | (None, st) \<Rightarrow>
          (let (hc, w1) = NewHubClientFromTransport tp AuthServiceName (sv_world svc);
               conn = NewNatsTransport (su_defaultURL E) (su_serverURL E) AuthServiceName;
               svc1 = svc\<lparr>sv_auth := (sv_auth svc)\<lparr>as_store := st\<rparr>, sv_hc := Some hc, sv_conn := Some conn, sv_world := w1\<rparr>
           in and_then (IHiveKey_Initialize (su_crypto E) (su_ownGen E) KeyTypeNKey) (\<lambda>myKP.
              and_then (IHiveKey_ExportPublic (su_crypto E) myKP) (\<lambda>myPubKey.
                case AuthManageClients_AddService (su_env E) AuthServiceName ''Auth Service'' myPubKey (sv_auth svc1) of
                  (Panics p, _) \<Rightarrow> Panics p
                | (Returns (token, Some err), auth1) \<Rightarrow> Returns (Some (ErrAuthSetup err), svc1\<lparr>sv_auth := auth1\<rparr>)
                | (Returns (token, None), auth1) \<Rightarrow>
                    and_then (HubClient_ConnectWithToken (su_nats E) (Some myKP) token conn) (\<lambda>(err, _, conn1).
                      case err of
                        Some e \<Rightarrow> Returns (Some e, svc1\<lparr>sv_auth := auth1, sv_conn := Some conn1\<rparr>)
                      | None \<Rightarrow>
                          (case AuthManageProfile_Start tp (su_env E) (AuthManageRoles_Start tp (su_env E)
                                  (AuthManageClients_Start tp (su_env E) (Some hc, w1))) of
                             (hc1, w2) \<Rightarrow>
                               and_then (start_add_launcher E (svc1\<lparr>sv_auth := auth1\<lparr>as_server := auth_service_permissions (as_server auth1)\<rparr>,
                                   sv_hc := hc1, sv_conn := Some conn1, sv_world := w2\<rparr>))
                                 (start_add_admin E)))))))"

definition AuthService_Stop :: "'w AuthService \<Rightarrow> 'w AuthService" where
  "AuthService_Stop svc =
     svc\<lparr>sv_conn := map_option NatsTransport_Disconnect (sv_conn svc),
       sv_auth := (sv_auth svc)\<lparr>as_store := AuthnFileStore_Close (as_store (sv_auth svc))\<rparr>\<rparr>"

text \<open>\<open>file_content\<close> is the content of the password file, if there is one.\<close>

definition StartAuthService ::
  "'w hub_transport \<Rightarrow> auth_start_env \<Rightarrow> AuthConfig \<Rightarrow> string option \<Rightarrow> NatsMsgServer \<Rightarrow> filesys \<Rightarrow> 'w \<Rightarrow> 'w AuthService outcome" where
  "StartAuthService tp E cfg file_content srv fs w =
     and_then (AuthService_Start tp E (NewAuthService cfg (NewAuthnFileStore (ag_PasswordFile cfg) file_content) srv fs w))
       (\<lambda>(err, svc). if err \<noteq> None then Panics ExplicitPanic else Returns svc)"

end
