(* ===== verification/AuthStartProps.thy ===== *)
theory AuthStartProps
  imports AuthStart
begin

text \<open>
  The auth service starts when nothing fails, and the launcher and the administrator can log in with the key and
  token files it leaves.
\<close>

section \<open>Adding clients when nothing fails\<close>

definition auth_io_ok :: "auth_env \<Rightarrow> bool" where
  "auth_io_ok env \<longleftrightarrow> pe_MkdirAll (ax_pw env) = None \<and> pe_CreateTemp (ax_pw env) = None \<and> pe_Write (ax_pw env) = None
     \<and> pe_Rename (ax_pw env) = None \<and> (\<forall>es. \<exists>d. pe_Marshal (ax_pw env) es = Inr d) \<and> (\<forall>srv. ax_Reload env srv = None)"

lemma save_io_ok: "auth_io_ok env \<Longrightarrow> \<exists>st'. AuthnFileStore_save (ax_pw env) st = (None, st') \<and> fs_entries st' = fs_entries st"
  unfolding auth_io_ok_def AuthnFileStore_save_def WritePasswordsToTempFile_def
  by (auto split: sum.splits) (metis sum.distinct(1))

text \<open>What is on file for a client, and that its key is registered with the server.\<close>

definition on_file :: "string \<Rightarrow> string \<Rightarrow> string \<Rightarrow> AuthState \<Rightarrow> bool" where
  "on_file c k role svc \<longleftrightarrow>
     (\<exists>e. mget (fs_entries (as_store svc)) c = Some e \<and> cp_PubKey (ae_profile e) = k \<and> cp_Role (ae_profile e) = role)"

definition key_registered :: "string \<Rightarrow> string \<Rightarrow> string \<Rightarrow> AuthState \<Rightarrow> bool" where
  "key_registered c k role svc \<longleftrightarrow> on_file c k role svc \<and> k \<in> nk_Nkey ` set (ms_Nkeys (as_server svc))"

lemma Add_io_ok:
  assumes "auth_io_ok env" "c \<noteq> []" "cp_ClientID p = c" "cp_ClientType p \<in> {ClientTypeDevice, ClientTypeService, ClientTypeUser}"
  shows "\<exists>st'. AuthnFileStore_Add (ax_pw env) now c p st = (None, st')
    \<and> (\<forall>c2. c2 \<noteq> c \<longrightarrow> mget (fs_entries st') c2 = mget (fs_entries st) c2)"
proof -
  obtain st' where "AuthnFileStore_Add (ax_pw env) now c p st = (None, st')"
    "\<exists>e. fs_entries st' = mput c e (fs_entries st)"
    using save_io_ok [OF assms(1)] assms(2-4) unfolding AuthnFileStore_Add_def Let_def by fastforce
  then show ?thesis by (auto simp: mget_mput)
qed

lemma onChange_io_ok:
  assumes "auth_io_ok env"
  shows "\<exists>svc'. AuthManageClients_onChange env svc = (None, svc') \<and> as_store svc' = as_store svc
    \<and> ms_AuthCallout (as_server svc') = ms_AuthCallout (as_server svc)
    \<and> (\<forall>c k role. on_file c k role svc \<longrightarrow> k \<noteq> [] \<longrightarrow> key_registered c k role svc')"
proof -
  obtain err svc' where on: "AuthManageClients_onChange env svc = (err, svc')" by fastforce
  have e: "err = None" using on assms
    by (auto simp: AuthManageClients_onChange_def NatsMsgServer_ApplyAuth_def auth_io_ok_def Let_def split_beta)
  have st: "as_store svc' = as_store svc" using on by (auto simp: AuthManageClients_onChange_def split: prod.splits)
  have "ms_AuthCallout (as_server svc') = ms_AuthCallout (as_server svc)" using onChange_frame(1) [of env svc] on by simp
  moreover have "key_registered c k role svc'" if "on_file c k role svc" "k \<noteq> []" for c k role
    using that onChange_nkeys [OF on] st by (auto simp: key_registered_def on_file_def)
  ultimately show ?thesis using on e st by blast
qed

text \<open>Without callout the token of a client is its public key.\<close>

lemma create_token_nkey:
  "\<not> ms_AuthCallout (as_server svc) \<Longrightarrow> k \<noteq> [] \<Longrightarrow> create_token env (client_info c ty k role) svc = (Returns (k, None), svc)"
  by (simp add: create_token_def NatsMsgServer_CreateToken_def client_info_def)

definition adds_client :: "string \<Rightarrow> string \<Rightarrow> string \<Rightarrow> AuthState \<Rightarrow> token_result \<Rightarrow> bool" where
  "adds_client c k role svc r \<longleftrightarrow>
     (\<exists>svc'. r = (Returns (k, None), svc') \<and> \<not> ms_AuthCallout (as_server svc') \<and> key_registered c k role svc'
        \<and> (\<forall>c2 k2 role2. c2 \<noteq> c \<longrightarrow> k2 \<noteq> [] \<longrightarrow> on_file c2 k2 role2 svc \<longrightarrow> key_registered c2 k2 role2 svc'))"

lemma adds_clientI:
  assumes "auth_io_ok env" "\<not> ms_AuthCallout (as_server svc)" "k \<noteq> []"
    and "AuthnFileStore_Add (ax_pw env) now c p (as_store svc) = (None, st)"
    and "\<forall>c2. c2 \<noteq> c \<longrightarrow> mget (fs_entries st) c2 = mget (fs_entries (as_store svc)) c2"
    and "cp_PubKey p = k" "cp_Role p = role"
    and "r = (case AuthManageClients_onChange env (svc\<lparr>as_store := st\<rparr>) of (err, svc') \<Rightarrow> (Returns (k, err), svc'))"
  shows "adds_client c k role svc r"
proof -
  obtain svc' where on: "AuthManageClients_onChange env (svc\<lparr>as_store := st\<rparr>) = (None, svc')" "\<not> ms_AuthCallout (as_server svc')"
    "\<And>c k role. on_file c k role (svc\<lparr>as_store := st\<rparr>) \<Longrightarrow> k \<noteq> [] \<Longrightarrow> key_registered c k role svc'"
    using onChange_io_ok [OF assms(1), of "svc\<lparr>as_store := st\<rparr>"] assms(2) by auto
  have "on_file c k role (svc\<lparr>as_store := st\<rparr>)" using Add_entry [OF assms(4)] assms(6,7) by (auto simp: on_file_def)
  moreover have "on_file c2 k2 role2 (svc\<lparr>as_store := st\<rparr>)" if "c2 \<noteq> c" "on_file c2 k2 role2 svc" for c2 k2 role2
    using that assms(5) by (simp add: on_file_def)
  ultimately show ?thesis using on assms(3,8) unfolding adds_client_def by auto
qed

lemma AddService_adds:
  assumes "auth_io_ok env" "\<not> ms_AuthCallout (as_server svc)" "c \<noteq> []" "k \<noteq> []"
  shows "adds_client c k ClientRoleService svc (AuthManageClients_AddService env c n k svc)"
proof -
  let ?p = "new_profile c ClientTypeService n k ClientRoleService"
  obtain st where st: "AuthnFileStore_Add (ax_pw env) (ax_msec env) c ?p (as_store svc) = (None, st)"
    "\<forall>c2. c2 \<noteq> c \<longrightarrow> mget (fs_entries st) c2 = mget (fs_entries (as_store svc)) c2"
    using Add_io_ok [OF assms(1,3), of ?p "ax_msec env" "as_store svc"] by (auto simp: new_profile_def)
  show ?thesis
    by (rule adds_clientI [OF assms(1,2,4) st])
      (use assms(2-4) st(1) create_token_nkey [of "svc\<lparr>as_store := st\<rparr>" k env c] in
        \<open>simp_all add: new_profile_def AuthManageClients_AddService_def\<close>)
qed

lemma AddDevice_adds:
  assumes "auth_io_ok env" "\<not> ms_AuthCallout (as_server svc)" "c \<noteq> []" "k \<noteq> []"
  shows "adds_client c k ClientRoleDevice svc (AuthManageClients_AddDevice env c n k svc)"
proof -
  let ?p = "new_profile c ClientTypeDevice n k ClientRoleDevice"
  obtain st where st: "AuthnFileStore_Add (ax_pw env) (ax_msec env) c ?p (as_store svc) = (None, st)"
    "\<forall>c2. c2 \<noteq> c \<longrightarrow> mget (fs_entries st) c2 = mget (fs_entries (as_store svc)) c2"
    using Add_io_ok [OF assms(1,3), of ?p "ax_msec env" "as_store svc"] by (auto simp: new_profile_def)
  obtain svc2 where on: "AuthManageClients_onChange env (svc\<lparr>as_store := st\<rparr>) = (None, svc2)" "\<not> ms_AuthCallout (as_server svc2)"
    using onChange_io_ok [OF assms(1), of "svc\<lparr>as_store := st\<rparr>"] assms(2) by auto
  show ?thesis
    by (rule adds_clientI [OF assms(1,2,4) st])
      (use assms(3,4) st(1) on create_token_nkey [OF on(2) assms(4), of env c] in
        \<open>simp_all add: new_profile_def AuthManageClients_AddDevice_def\<close>)
qed

lemma AddUser_adds:
  assumes "auth_io_ok env" "\<not> ms_AuthCallout (as_server svc)" "c \<noteq> []" "k \<noteq> []"
  shows "adds_client c k role svc (AuthManageClients_AddUser env c n [] k role svc)"
proof -
  let ?p = "new_profile c ClientTypeUser n k role"
  obtain st where st: "AuthnFileStore_Add (ax_pw env) (ax_msec env) c ?p (as_store svc) = (None, st)"
    "\<forall>c2. c2 \<noteq> c \<longrightarrow> mget (fs_entries st) c2 = mget (fs_entries (as_store svc)) c2"
    using Add_io_ok [OF assms(1,3), of ?p "ax_msec env" "as_store svc"] by (auto simp: new_profile_def)
  show ?thesis
    by (rule adds_clientI [OF assms(1,2,4) st])
      (use assms(2-4) st(1) create_token_nkey [of "svc\<lparr>as_store := st\<rparr>" k env c] in
        \<open>simp_all add: new_profile_def AuthManageClients_AddUser_def\<close>)
qed

section \<open>Key files\<close>

abbreviation nkey_of :: "crypto_lib \<Rightarrow> string \<Rightarrow> HiveKey" where
  "nkey_of L x \<equiv> complete_key L KeyTypeNKey (NKeyPair x) (NKeyPub (nk_PublicKey L (NKeyPair x)))"

text \<open>The key file of a client is absent or holds an nkey.\<close>

definition key_slot :: "crypto_lib \<Rightarrow> filesys \<Rightarrow> string \<Rightarrow> string \<Rightarrow> bool" where
  "key_slot L fs dir cid \<longleftrightarrow> fs (path_Join dir (cid @ KPFileExt)) = None
     \<or> (\<exists>x s. IHiveKey_ExportPrivate L (nkey_of L x) = Returns s \<and> fs (path_Join dir (cid @ KPFileExt)) = Some s)"

lemma LoadCreate_slot:
  assumes L: "crypto_ok L" "keygen_ok gen" and ks: "dir \<noteq> []" "plain_name n" and slot: "key_slot L fs dir n"
  obtains x s fs' where "HubClient_LoadCreateKeyPair L gen files_ok hcID n dir fs = Returns ((Some (nkey_of L x), None), fs')"
    "IHiveKey_ExportPrivate L (nkey_of L x) = Returns s" "fs' (path_Join dir (n @ KPFileExt)) = Some s"
    "\<And>q. q \<noteq> path_Join dir (n @ KPFileExt) \<Longrightarrow> q \<noteq> path_Join dir (n @ PubKeyFileExt) \<Longrightarrow> fs' q = fs q"
  using slot unfolding key_slot_def
proof
  assume "fs (path_Join dir (n @ KPFileExt)) = None"
  then show thesis by (rule LoadCreate_new_key [where fs = fs and hcID = hcID, OF L ks]) (rule that)
next
  assume "\<exists>x s. IHiveKey_ExportPrivate L (nkey_of L x) = Returns s \<and> fs (path_Join dir (n @ KPFileExt)) = Some s"
  then obtain x s where s: "IHiveKey_ExportPrivate L (nkey_of L x) = Returns s" "fs (path_Join dir (n @ KPFileExt)) = Some s" by blast
  have "wf_nkey L (nkey_of L x)" unfolding wf_nkey_def by blast
  note load = load_saved_key [where fs = fs, OF L this ks s]
  have "or_default n hcID = n" using ks(2) by (auto simp: or_default_def plain_name_def)
  then have "HubClient_LoadCreateKeyPair L gen files_ok hcID n dir fs = Returns ((Some (nkey_of L x), None), fs)"
    using load ks(1) by (simp add: HubClient_LoadCreateKeyPair_def Let_def)
  with s that show thesis by blast
qed

text \<open>The credentials of a client: the key file with an nkey and the token file with its public key.\<close>

definition credentials :: "crypto_lib \<Rightarrow> filesys \<Rightarrow> string \<Rightarrow> string \<Rightarrow> string \<Rightarrow> bool" where
  "credentials L fs dir n x \<longleftrightarrow> (\<exists>s. IHiveKey_ExportPrivate L (nkey_of L x) = Returns s
     \<and> fs (path_Join dir (n @ KPFileExt)) = Some s \<and> fs (path_Join dir (n @ TokenFileExt)) = Some (nk_PublicKey L (NKeyPair x)))"

lemma names_differ_other:
  assumes "n \<noteq> (m :: string)"
  shows "n @ KPFileExt \<noteq> m @ KPFileExt" "n @ KPFileExt \<noteq> m @ PubKeyFileExt" "n @ KPFileExt \<noteq> m @ TokenFileExt"
    "n @ TokenFileExt \<noteq> m @ TokenFileExt" "n @ TokenFileExt \<noteq> m @ KPFileExt" "n @ TokenFileExt \<noteq> m @ PubKeyFileExt"
proof -
  have "last (n @ KPFileExt) \<noteq> last (m @ PubKeyFileExt)" "last (n @ KPFileExt) \<noteq> last (m @ TokenFileExt)"
    "last (n @ TokenFileExt) \<noteq> last (m @ KPFileExt)" "last (n @ TokenFileExt) \<noteq> last (m @ PubKeyFileExt)"
    by (simp_all add: last_append)
  then show "n @ KPFileExt \<noteq> m @ PubKeyFileExt" "n @ KPFileExt \<noteq> m @ TokenFileExt" "n @ TokenFileExt \<noteq> m @ KPFileExt"
    "n @ TokenFileExt \<noteq> m @ PubKeyFileExt" by metis+
qed (use assms in simp_all)

section \<open>A start in which nothing fails\<close>

definition start_ok :: "auth_start_env \<Rightarrow> bool" where
  "start_ok E \<longleftrightarrow> crypto_ok (su_crypto E) \<and> keygen_ok (su_ownGen E) \<and> keygen_ok (su_launcherGen E) \<and> keygen_ok (su_adminGen E)
     \<and> auth_io_ok (su_env E) \<and> su_launcherFiles E = files_ok \<and> su_adminFiles E = files_ok
     \<and> (\<forall>p. su_Remove E p = None) \<and> (\<forall>p. su_Write E p = None)
     \<and> (\<forall>url creds. nl_Connect (su_nats E) url creds = None) \<and> nl_JetStream (su_nats E) = None
     \<and> (\<forall>x. nl_jwt_Decode (su_nats E) (nk_PublicKey (su_crypto E) (NKeyPair x)) \<noteq> None)"

lemma start_okD:
  assumes "start_ok E"
  shows "crypto_ok (su_crypto E)" "keygen_ok (su_ownGen E)" "keygen_ok (su_launcherGen E)" "keygen_ok (su_adminGen E)"
    "auth_io_ok (su_env E)" "su_launcherFiles E = files_ok" "su_adminFiles E = files_ok" "su_Remove E p = None" "su_Write E p = None"
    "nl_Connect (su_nats E) url creds = None" "nl_JetStream (su_nats E) = None"
    "nl_jwt_Decode (su_nats E) (nk_PublicKey (su_crypto E) (NKeyPair x)) \<noteq> None"
  using assms by (simp_all add: start_ok_def)

lemma nkey_public: "IHiveKey_ExportPublic L (nkey_of L x) = Returns (nk_PublicKey L (NKeyPair x))"
  by (simp add: IHiveKey_ExportPublic_def NKeysKey_ExportPublic_def complete_key_def)

text \<open>The files of a client whose key was loaded or created, once its token is saved.\<close>

lemma token_saved:
  assumes "start_ok E" "dir \<noteq> []" "plain_name n" "IHiveKey_ExportPrivate (su_crypto E) (nkey_of (su_crypto E) x) = Returns s"
    and "fs1 (path_Join dir (n @ KPFileExt)) = Some s"
    and frame: "\<And>q. q \<noteq> path_Join dir (n @ KPFileExt) \<Longrightarrow> q \<noteq> path_Join dir (n @ PubKeyFileExt) \<Longrightarrow> fs1 q = fs q"
  shows "\<exists>fs2. save_token_file E (path_Join dir (n @ TokenFileExt)) (nk_PublicKey (su_crypto E) (NKeyPair x)) fs1 = (None, fs2)
    \<and> credentials (su_crypto E) fs2 dir n x
    \<and> (\<forall>m. m \<noteq> n \<longrightarrow> plain_name m \<longrightarrow> fs2 (path_Join dir (m @ KPFileExt)) = fs (path_Join dir (m @ KPFileExt))
       \<and> fs2 (path_Join dir (m @ TokenFileExt)) = fs (path_Join dir (m @ TokenFileExt)))"
proof -
  let ?t = "path_Join dir (n @ TokenFileExt)" and ?pub = "nk_PublicKey (su_crypto E) (NKeyPair x)"
  have save: "save_token_file E ?t ?pub fs1 = (None, fs1(?t := Some ?pub))"
    using start_okD(8,9) [OF assms(1), of ?t] by (simp add: save_token_file_def os_WriteFile_def os_Remove_def)
  have ne: "path_Join dir (n @ KPFileExt) \<noteq> ?t" using assms(2,3) by (simp add: path_Join_inject)
  have "credentials (su_crypto E) (fs1(?t := Some ?pub)) dir n x" using assms(4,5) ne by (simp add: credentials_def)
  moreover have "(fs1(?t := Some ?pub)) (path_Join dir (m @ KPFileExt)) = fs (path_Join dir (m @ KPFileExt))
      \<and> (fs1(?t := Some ?pub)) (path_Join dir (m @ TokenFileExt)) = fs (path_Join dir (m @ TokenFileExt))" if "m \<noteq> n" "plain_name m" for m
  proof -
    note d = names_differ_other [OF that(1)]
    have "path_Join dir (m @ KPFileExt) \<noteq> ?t" "path_Join dir (m @ TokenFileExt) \<noteq> ?t"
      "path_Join dir (m @ KPFileExt) \<noteq> path_Join dir (n @ KPFileExt)" "path_Join dir (m @ KPFileExt) \<noteq> path_Join dir (n @ PubKeyFileExt)"
      "path_Join dir (m @ TokenFileExt) \<noteq> path_Join dir (n @ KPFileExt)" "path_Join dir (m @ TokenFileExt) \<noteq> path_Join dir (n @ PubKeyFileExt)"
      using d assms(2,3) that(2) by (simp_all add: path_Join_inject)
    then show ?thesis using frame by simp
  qed
  ultimately show ?thesis using save by blast
qed

lemma add_launcher_ok:
  assumes E: "start_ok E" and dir: "ag_KeysDir (sv_cfg svc) \<noteq> []" "plain_name (ag_LauncherAccountID (sv_cfg svc))"
    and slot: "key_slot (su_crypto E) (sv_fs svc) (ag_KeysDir (sv_cfg svc)) (ag_LauncherAccountID (sv_cfg svc))"
    and mode: "\<not> ms_AuthCallout (as_server (sv_auth svc))"
  obtains x auth1 fs1 where "start_add_launcher E svc = Returns (svc\<lparr>sv_auth := auth1, sv_fs := fs1\<rparr>)"
    "credentials (su_crypto E) fs1 (ag_KeysDir (sv_cfg svc)) (ag_LauncherAccountID (sv_cfg svc)) x" "\<not> ms_AuthCallout (as_server auth1)"
    "key_registered (ag_LauncherAccountID (sv_cfg svc)) (nk_PublicKey (su_crypto E) (NKeyPair x)) ClientRoleService auth1"
    "\<And>m. m \<noteq> ag_LauncherAccountID (sv_cfg svc) \<Longrightarrow> plain_name m \<Longrightarrow> fs1 (path_Join (ag_KeysDir (sv_cfg svc)) (m @ KPFileExt))
       = sv_fs svc (path_Join (ag_KeysDir (sv_cfg svc)) (m @ KPFileExt))"
proof -
  let ?n = "ag_LauncherAccountID (sv_cfg svc)" and ?dir = "ag_KeysDir (sv_cfg svc)" and ?L = "su_crypto E"
  note ok = start_okD [OF E]
  obtain x s fs0 where lc: "HubClient_LoadCreateKeyPair ?L (su_launcherGen E) files_ok AuthServiceName ?n ?dir (sv_fs svc) = Returns ((Some (nkey_of ?L x), None), fs0)"
    and s: "IHiveKey_ExportPrivate ?L (nkey_of ?L x) = Returns s" "fs0 (path_Join ?dir (?n @ KPFileExt)) = Some s"
      "\<And>q. q \<noteq> path_Join ?dir (?n @ KPFileExt) \<Longrightarrow> q \<noteq> path_Join ?dir (?n @ PubKeyFileExt) \<Longrightarrow> fs0 q = sv_fs svc q"
    by (rule LoadCreate_slot [where hcID = AuthServiceName, OF ok(1,3) dir slot]) blast
  obtain fs1 where fs1: "save_token_file E (path_Join ?dir (?n @ TokenFileExt)) (nk_PublicKey ?L (NKeyPair x)) fs0 = (None, fs1)"
    "credentials ?L fs1 ?dir ?n x"
    "\<And>m. m \<noteq> ?n \<Longrightarrow> plain_name m \<Longrightarrow> fs1 (path_Join ?dir (m @ KPFileExt)) = sv_fs svc (path_Join ?dir (m @ KPFileExt))"
    using token_saved [where fs = "sv_fs svc" and ?fs1.0 = fs0, OF E dir s] by blast
  have "?n \<noteq> []" using dir(2) by (auto simp: plain_name_def)
  from AddService_adds [OF ok(5) mode this crypto_okD(9) [OF ok(1)]]
  obtain auth1 where a: "AuthManageClients_AddService (su_env E) ?n ''Launcher Service'' (nk_PublicKey ?L (NKeyPair x)) (sv_auth svc)
      = (Returns (nk_PublicKey ?L (NKeyPair x), None), auth1)" "\<not> ms_AuthCallout (as_server auth1)"
    "key_registered ?n (nk_PublicKey ?L (NKeyPair x)) ClientRoleService auth1" unfolding adds_client_def by blast
  have "start_add_launcher E svc = Returns (svc\<lparr>sv_auth := auth1, sv_fs := fs1\<rparr>)"
    using lc a(1) fs1(1) ok(6) by (simp add: start_add_launcher_def Let_def nkey_public)
  with fs1 a that show thesis by blast
qed

lemma add_admin_ok:
  assumes E: "start_ok E" and dir: "ag_KeysDir (sv_cfg svc) \<noteq> []" "plain_name (ag_AdminAccountID (sv_cfg svc))"
    and slot: "key_slot (su_crypto E) (sv_fs svc) (ag_KeysDir (sv_cfg svc)) (ag_AdminAccountID (sv_cfg svc))"
    and mode: "\<not> ms_AuthCallout (as_server (sv_auth svc))"
  obtains x auth1 fs1 where "start_add_admin E svc = Returns (None, svc\<lparr>sv_auth := auth1, sv_fs := fs1\<rparr>)"
    "credentials (su_crypto E) fs1 (ag_KeysDir (sv_cfg svc)) (ag_AdminAccountID (sv_cfg svc)) x"
    "key_registered (ag_AdminAccountID (sv_cfg svc)) (nk_PublicKey (su_crypto E) (NKeyPair x)) ClientRoleAdmin auth1"
    "\<And>m y. m \<noteq> ag_AdminAccountID (sv_cfg svc) \<Longrightarrow> plain_name m \<Longrightarrow> credentials (su_crypto E) (sv_fs svc) (ag_KeysDir (sv_cfg svc)) m y
       \<Longrightarrow> credentials (su_crypto E) fs1 (ag_KeysDir (sv_cfg svc)) m y"
    "\<And>c k role. c \<noteq> ag_AdminAccountID (sv_cfg svc) \<Longrightarrow> k \<noteq> [] \<Longrightarrow> on_file c k role (sv_auth svc) \<Longrightarrow> key_registered c k role auth1"
proof -
  let ?n = "ag_AdminAccountID (sv_cfg svc)" and ?dir = "ag_KeysDir (sv_cfg svc)" and ?L = "su_crypto E"
  note ok = start_okD [OF E]
  obtain x s fs0 where lc: "HubClient_LoadCreateKeyPair ?L (su_adminGen E) files_ok AuthServiceName ?n ?dir (sv_fs svc) = Returns ((Some (nkey_of ?L x), None), fs0)"
    and s: "IHiveKey_ExportPrivate ?L (nkey_of ?L x) = Returns s" "fs0 (path_Join ?dir (?n @ KPFileExt)) = Some s"
      "\<And>q. q \<noteq> path_Join ?dir (?n @ KPFileExt) \<Longrightarrow> q \<noteq> path_Join ?dir (?n @ PubKeyFileExt) \<Longrightarrow> fs0 q = sv_fs svc q"
    by (rule LoadCreate_slot [where hcID = AuthServiceName, OF ok(1,4) dir slot]) blast
  obtain fs1 where fs1: "save_token_file E (path_Join ?dir (?n @ TokenFileExt)) (nk_PublicKey ?L (NKeyPair x)) fs0 = (None, fs1)"
    "credentials ?L fs1 ?dir ?n x"
    "\<And>m. m \<noteq> ?n \<Longrightarrow> plain_name m \<Longrightarrow> fs1 (path_Join ?dir (m @ KPFileExt)) = sv_fs svc (path_Join ?dir (m @ KPFileExt))
       \<and> fs1 (path_Join ?dir (m @ TokenFileExt)) = sv_fs svc (path_Join ?dir (m @ TokenFileExt))"
    using token_saved [where fs = "sv_fs svc" and ?fs1.0 = fs0, OF E dir s] by blast
  have "?n \<noteq> []" using dir(2) by (auto simp: plain_name_def)
  from AddUser_adds [OF ok(5) mode this crypto_okD(9) [OF ok(1)]]
  obtain auth1 where a: "AuthManageClients_AddUser (su_env E) ?n ''Administrator'' [] (nk_PublicKey ?L (NKeyPair x)) ClientRoleAdmin (sv_auth svc)
      = (Returns (nk_PublicKey ?L (NKeyPair x), None), auth1)"
    "key_registered ?n (nk_PublicKey ?L (NKeyPair x)) ClientRoleAdmin auth1"
    "\<And>c k role. c \<noteq> ?n \<Longrightarrow> k \<noteq> [] \<Longrightarrow> on_file c k role (sv_auth svc) \<Longrightarrow> key_registered c k role auth1"
    unfolding adds_client_def by blast
  have "start_add_admin E svc = Returns (None, svc\<lparr>sv_auth := auth1, sv_fs := fs1\<rparr>)"
    using lc a(1) fs1(1) ok(7) by (simp add: start_add_admin_def Let_def nkey_public)
  moreover have "credentials ?L fs1 ?dir m y" if "m \<noteq> ?n" "plain_name m" "credentials ?L (sv_fs svc) ?dir m y" for m y
    using that(3) fs1(3) [OF that(1,2)] by (simp add: credentials_def)
  ultimately show thesis using fs1(2) a(2,3) that by blast
qed

section \<open>Logging in after the start\<close>

text \<open>A client can log in with its files: its public key is registered for its role and the connection is made with its key.\<close>

definition can_login :: "auth_start_env \<Rightarrow> string \<Rightarrow> string \<Rightarrow> 'w AuthService \<Rightarrow> bool" where
  "can_login E n role svc \<longleftrightarrow>
     (\<exists>x. key_registered n (nk_PublicKey (su_crypto E) (NKeyPair x)) role (sv_auth svc)
        \<and> (\<forall>gen nt. keygen_ok gen \<longrightarrow> cn_clientID nt = n \<longrightarrow>
             HubClient_ConnectWithTokenFile (su_nats E) (su_crypto E) gen (sv_fs svc) (ag_KeysDir (sv_cfg svc)) nt
               = Returns (None, Some (nkey_of (su_crypto E) x), nt\<lparr>cn_nc := Some (Nkey (NKeyPair x))\<rparr>)))"

lemma can_loginI:
  assumes E: "start_ok E" and dir: "ag_KeysDir (sv_cfg svc) \<noteq> []" "plain_name n"
    and c: "credentials (su_crypto E) (sv_fs svc) (ag_KeysDir (sv_cfg svc)) n x"
    and k: "key_registered n (nk_PublicKey (su_crypto E) (NKeyPair x)) role (sv_auth svc)"
  shows "can_login E n role svc"
proof -
  obtain s where s: "IHiveKey_ExportPrivate (su_crypto E) (nkey_of (su_crypto E) x) = Returns s"
    "sv_fs svc (path_Join (ag_KeysDir (sv_cfg svc)) (n @ KPFileExt)) = Some s"
    "sv_fs svc (path_Join (ag_KeysDir (sv_cfg svc)) (n @ TokenFileExt)) = Some (nk_PublicKey (su_crypto E) (NKeyPair x))"
    using c by (auto simp: credentials_def)
  have "HubClient_ConnectWithTokenFile (su_nats E) (su_crypto E) gen (sv_fs svc) (ag_KeysDir (sv_cfg svc)) nt
      = Returns (None, Some (nkey_of (su_crypto E) x), nt\<lparr>cn_nc := Some (Nkey (NKeyPair x))\<rparr>)" if "keygen_ok gen" "cn_clientID nt = n" for gen nt
    using token_file_login [where fs = "sv_fs svc", OF start_okD(1) [OF E] that(1) dir s start_okD(12) [OF E] that(2)]
      start_okD(10,11) [OF E] by (simp add: nats_dial_def)
  with k show ?thesis unfolding can_login_def by blast
qed

lemma SetServicePermissions_callout: "ms_AuthCallout (NatsMsgServer_SetServicePermissions s cap roles srv) = ms_AuthCallout srv"
  by (induction roles arbitrary: srv) (simp_all add: Let_def)

lemma permissions_callout: "ms_AuthCallout (auth_service_permissions srv) = ms_AuthCallout srv"
  by (simp only: auth_service_permissions_def SetServicePermissions_callout)

text \<open>The service adds itself, connects and registers its capabilities.\<close>

lemma start_self:
  assumes E: "start_ok E" and op: "AuthnFileStore_Open (ax_pw (su_env E)) (as_store (sv_auth svc)) = (None, st)"
    and mode: "\<not> ms_AuthCallout (as_server (sv_auth svc))"
  obtains svc1 where "AuthService_Start tp E svc = and_then (start_add_launcher E svc1) (start_add_admin E)"
    "sv_cfg svc1 = sv_cfg svc" "sv_fs svc1 = sv_fs svc" "\<not> ms_AuthCallout (as_server (sv_auth svc1))"
    "sv_hc svc1 = fst (started_auth_agent tp (su_env E) (sv_world svc))"
proof -
  let ?L = "su_crypto E"
  note ok = start_okD [OF E]
  obtain x where gen: "su_ownGen E KeyTypeNKey = Some (NKeyPair x)" using ok(2) by (auto simp: keygen_ok_def)
  let ?pub = "nk_PublicKey ?L (NKeyPair x)"
  have init: "IHiveKey_Initialize ?L (su_ownGen E) KeyTypeNKey = Returns (nkey_of ?L x)"
    using gen by (simp add: IHiveKey_Initialize_def complete_key_def)
  have m: "\<not> ms_AuthCallout (as_server ((sv_auth svc)\<lparr>as_store := st\<rparr>))" "AuthServiceName \<noteq> []" using mode by simp_all
  from AddService_adds [OF ok(5) m crypto_okD(9) [OF ok(1)]]
  obtain auth1 where a: "AuthManageClients_AddService (su_env E) AuthServiceName ''Auth Service'' ?pub ((sv_auth svc)\<lparr>as_store := st\<rparr>)
      = (Returns (?pub, None), auth1)" "\<not> ms_AuthCallout (as_server auth1)" unfolding adds_client_def by blast
  have conn: "HubClient_ConnectWithToken (su_nats E) (Some (nkey_of ?L x)) ?pub nt
      = Returns (None, Some (nkey_of ?L x), nt\<lparr>cn_nc := Some (Nkey (NKeyPair x))\<rparr>)" for nt
    using ok(10,11,12) by (simp add: HubClient_ConnectWithToken_def NatsTransport_ConnectWithToken_def NatsTransport_ConnectWithKey_def
        complete_key_def nats_dial_def)
  obtain hc :: "(auth_message, AuthState) HubClient" and w1
    where hc: "NewHubClientFromTransport tp AuthServiceName (sv_world svc) = (hc, w1)" by fastforce
  obtain hc1 w2 where st: "AuthManageProfile_Start tp (su_env E) (AuthManageRoles_Start tp (su_env E)
      (AuthManageClients_Start tp (su_env E) (Some hc, w1))) = (hc1, w2)" by fastforce
  show thesis
    by (rule that [of "svc\<lparr>sv_auth := auth1\<lparr>as_server := auth_service_permissions (as_server auth1)\<rparr>, sv_hc := hc1,
        sv_conn := Some ((NewNatsTransport (su_defaultURL E) (su_serverURL E) AuthServiceName)\<lparr>cn_nc := Some (Nkey (NKeyPair x))\<rparr>),
        sv_world := w2\<rparr>"])
      (use op init a conn hc st in \<open>simp_all add: AuthService_Start_def nkey_public started_auth_agent_def permissions_callout\<close>)
qed

text \<open>
  C4. Once the auth service has started, the launcher and the administrator can log in (AuthService.go,
  AuthManageClients.go, NatsAuth.go, HubClient.go). When no file operation, store operation or connection of the start
  fails, authorization is by nkeys, and the key files of the two clients in the keys directory are absent or hold an
  nkey, \<open>StartAuthService\<close> does not panic: the service answers requests for its three capabilities, and both the launcher
  (as a service) and the administrator (as an admin) are on file, with a public key that the message server accepts, for
  which the key file and the token file in the keys directory connect.
\<close>
theorem auth_start_credentials:
  assumes "start_ok E" and "ag_KeysDir cfg \<noteq> []" and "plain_name (ag_LauncherAccountID cfg)" "plain_name (ag_AdminAccountID cfg)"
    and "ag_LauncherAccountID cfg \<noteq> ag_AdminAccountID cfg"
    and "key_slot (su_crypto E) fs (ag_KeysDir cfg) (ag_LauncherAccountID cfg)"
    and "key_slot (su_crypto E) fs (ag_KeysDir cfg) (ag_AdminAccountID cfg)"
    and "\<not> ms_AuthCallout srv"
    and "AuthnFileStore_Open (ax_pw (su_env E)) (NewAuthnFileStore (ag_PasswordFile cfg) content) = (None, st)"
  shows "\<exists>svc. StartAuthService tp E cfg content srv fs w = Returns svc \<and> sv_hc svc = fst (started_auth_agent tp (su_env E) w)
    \<and> can_login E (ag_LauncherAccountID cfg) ClientRoleService svc \<and> can_login E (ag_AdminAccountID cfg) ClientRoleAdmin svc"
proof -
  let ?l = "ag_LauncherAccountID cfg" and ?a = "ag_AdminAccountID cfg" and ?dir = "ag_KeysDir cfg" and ?L = "su_crypto E"
  let ?svc = "NewAuthService cfg (NewAuthnFileStore (ag_PasswordFile cfg) content) srv fs w"
  obtain svc1 where s1: "AuthService_Start tp E ?svc = and_then (start_add_launcher E svc1) (start_add_admin E)"
    "sv_cfg svc1 = cfg" "sv_fs svc1 = fs" "\<not> ms_AuthCallout (as_server (sv_auth svc1))" "sv_hc svc1 = fst (started_auth_agent tp (su_env E) w)"
    by (rule start_self [OF assms(1), of ?svc st tp]) (use assms(8,9) in \<open>simp_all add: NewAuthService_def\<close>)
  obtain x auth2 fs2 where l: "start_add_launcher E svc1 = Returns (svc1\<lparr>sv_auth := auth2, sv_fs := fs2\<rparr>)"
    "credentials ?L fs2 ?dir ?l x" "\<not> ms_AuthCallout (as_server auth2)" "key_registered ?l (nk_PublicKey ?L (NKeyPair x)) ClientRoleService auth2"
    "\<And>m. m \<noteq> ?l \<Longrightarrow> plain_name m \<Longrightarrow> fs2 (path_Join ?dir (m @ KPFileExt)) = fs (path_Join ?dir (m @ KPFileExt))"
    by (rule add_launcher_ok [OF assms(1), of svc1]) (use s1(2-4) assms(2,3,6) in simp_all)
  let ?svc2 = "svc1\<lparr>sv_auth := auth2, sv_fs := fs2\<rparr>"
  have slot: "key_slot ?L fs2 ?dir ?a" using assms(4,5,7) l(5) by (simp add: key_slot_def)
  obtain y auth3 fs3 where a: "start_add_admin E ?svc2 = Returns (None, ?svc2\<lparr>sv_auth := auth3, sv_fs := fs3\<rparr>)"
    "credentials ?L fs3 ?dir ?a y" "key_registered ?a (nk_PublicKey ?L (NKeyPair y)) ClientRoleAdmin auth3"
    "\<And>m z. m \<noteq> ?a \<Longrightarrow> plain_name m \<Longrightarrow> credentials ?L fs2 ?dir m z \<Longrightarrow> credentials ?L fs3 ?dir m z"
    "\<And>c k role. c \<noteq> ?a \<Longrightarrow> k \<noteq> [] \<Longrightarrow> on_file c k role auth2 \<Longrightarrow> key_registered c k role auth3"
    by (rule add_admin_ok [OF assms(1), of ?svc2]) (use s1 assms(2,4) slot l(3) in simp_all)
  let ?svc3 = "?svc2\<lparr>sv_auth := auth3, sv_fs := fs3\<rparr>"
  have "StartAuthService tp E cfg content srv fs w = Returns ?svc3" using s1(1) l(1) a(1) by (simp add: StartAuthService_def)
  moreover have "key_registered ?l (nk_PublicKey ?L (NKeyPair x)) ClientRoleService auth3"
    using a(5) assms(5) crypto_okD(9) [OF start_okD(1) [OF assms(1)]] l(4) by (simp add: key_registered_def [of _ _ _ auth2])
  then have "can_login E ?l ClientRoleService ?svc3"
    by (intro can_loginI [OF assms(1), of _ _ x]) (use s1 assms(2,3) a(4) [OF assms(5,3) l(2)] in simp_all)
  moreover have "can_login E ?a ClientRoleAdmin ?svc3"
    by (rule can_loginI [OF assms(1), of _ _ y]) (use s1 assms(2,4) a(2,3) in simp_all)
  ultimately show ?thesis using s1(5) by (intro exI [of _ ?svc3]) simp
qed

text \<open>An instance: the first start with an empty keys directory.\<close>

definition demo_start :: auth_start_env where
  "demo_start = \<lparr>su_env = demo_env, su_crypto = demo_crypto,
     su_nats = \<lparr>nl_jwt_Decode = (\<lambda>t. Some ErrUnmarshal), nl_Connect = (\<lambda>u c. None), nl_JetStream = None\<rparr>,
     su_ownGen = demo_gen ''s'', su_launcherGen = demo_gen ''l'', su_adminGen = demo_gen ''a'', su_launcherFiles = files_ok,
     su_adminFiles = files_ok, su_Remove = (\<lambda>p. None), su_Write = (\<lambda>p. None), su_defaultURL = ''nats://localhost'', su_serverURL = []\<rparr>"

definition demo_auth_cfg :: AuthConfig where
  "demo_auth_cfg = \<lparr>ag_PasswordFile = ''/stores/hub.passwd'', ag_DeviceTokenValidityDays = 0, ag_ServiceTokenValidityDays = 0,
     ag_UserTokenValidityDays = 0, ag_NoAutoStart = False, ag_KeysDir = ''/certs'', ag_AdminAccountID = ''admin'',
     ag_LauncherAccountID = ''launcher''\<rparr>"

lemma demo_start_ok: "start_ok demo_start"
  by (simp add: start_ok_def demo_start_def demo_crypto_ok demo_gen_ok auth_io_ok_def demo_env_def)

theorem auth_start_credentials_witness:
  "\<exists>svc. StartAuthService null_transport demo_start demo_auth_cfg None (demo_server\<lparr>ms_AuthCallout := False\<rparr>) Map.empty () = Returns svc
     \<and> can_login demo_start ''launcher'' ClientRoleService svc \<and> can_login demo_start ''admin'' ClientRoleAdmin svc"
proof -
  obtain st where st: "AuthnFileStore_Open (ax_pw (su_env demo_start)) (NewAuthnFileStore (ag_PasswordFile demo_auth_cfg) None) = (None, st)"
    by (simp add: AuthnFileStore_Open_def AuthnFileStore_Reload_def NewAuthnFileStore_def AuthnFileStore_save_def
        WritePasswordsToTempFile_def demo_start_def demo_env_def)
  have c: "ag_KeysDir demo_auth_cfg = ''/certs''" "ag_LauncherAccountID demo_auth_cfg = ''launcher''" "ag_AdminAccountID demo_auth_cfg = ''admin''"
    by (simp_all add: demo_auth_cfg_def)
  have "\<exists>svc. StartAuthService null_transport demo_start demo_auth_cfg None (demo_server\<lparr>ms_AuthCallout := False\<rparr>) Map.empty () = Returns svc
      \<and> sv_hc svc = fst (started_auth_agent null_transport (su_env demo_start) ())
      \<and> can_login demo_start (ag_LauncherAccountID demo_auth_cfg) ClientRoleService svc
      \<and> can_login demo_start (ag_AdminAccountID demo_auth_cfg) ClientRoleAdmin svc"
    by (rule auth_start_credentials [OF demo_start_ok _ _ _ _ _ _ _ st]) (simp_all add: c plain_name_def key_slot_def)
  then show ?thesis unfolding c by blast
qed

end
