(* ===== verification/ProvRpc.thy ===== *)
theory ProvRpc
  imports ProvHttp AuthStartProps
begin

text \<open>
  Managing provisioning over the message bus: the messages of \<open>done_mod/mod_prov/prov_api/ManageIdProv.go\<close>, the method table
  of \<open>prov_srv/ManageIdProvService.go\<close> and the client of \<open>prov_cli/ManageIdProvClient.go\<close>; and the way of a device from its
  first request to its login, through HTTPS, the message bus, the provisioning service, the auth service and the message
  server.
\<close>

section \<open>The service\<close>

abbreviation ProvServiceName :: string where "ProvServiceName \<equiv> ''idprov''"
abbreviation ManageProvisioningCap :: string where "ManageProvisioningCap \<equiv> ''manageIdProv''"

text \<open>The client submits \<open>SubmitRequestArgs\<close>, which name a client type; the service reads \<open>ProvisionRequestArgs\<close>, which have none.\<close>

datatype prov_message =
    ApproveRequestArgs string string
  | GetRequestsArgs bool bool bool
  | PreApproveClientsArgs "PreApprovedClient list"
  | RejectRequestArgs string
  | SubmitRequestArgs string string string string
  | GetRequestsResp "ProvisionStatus list"
  | ProvisionArgs ProvisionRequestArgs
  | SubmitRequestResp "ProvisionRequestResp option"

fun prov_message_type :: "prov_message \<Rightarrow> nat" where
  "prov_message_type (ApproveRequestArgs _ _) = 0"
| "prov_message_type (GetRequestsArgs _ _ _) = 1"
| "prov_message_type (PreApproveClientsArgs _) = 2"
| "prov_message_type (RejectRequestArgs _) = 3"
| "prov_message_type (ProvisionArgs _) = 4"
| "prov_message_type (GetRequestsResp _) = 5"
| "prov_message_type (SubmitRequestResp _) = 6"
| "prov_message_type (SubmitRequestArgs _ _ _ _) = 7"

type_synonym 'a prov_results = "prov_message rpc_result list outcome \<times> 'a ManageIdProvService"

fun prov_call ::
  "'a auth_client \<Rightarrow> ('a ManageIdProvService \<Rightarrow> int) \<Rightarrow> prov_message rpc_arg list \<Rightarrow> 'a ManageIdProvService \<Rightarrow> 'a prov_results" where
  "prov_call A clock [ContextArg c, ValueArg (ApproveRequestArgs clientID clientType)] svc =
     (case ManageIdProvService_ApproveRequest (clock svc) clientID clientType svc of (e, svc1) \<Rightarrow> (Returns [err_result e], svc1))"
| "prov_call A clock [ContextArg c, ValueArg (GetRequestsArgs approved pending rejected)] svc =
     (Returns [ValueResult (GetRequestsResp (ManageIdProvService_GetRequests approved pending rejected svc)), NilResult], svc)"
| "prov_call A clock [ContextArg c, ValueArg (PreApproveClientsArgs approvals)] svc =
     (case ManageIdProvService_PreApproveClients (clock svc) approvals svc of (e, svc1) \<Rightarrow> (Returns [err_result e], svc1))"
| "prov_call A clock [ContextArg c, ValueArg (RejectRequestArgs clientID)] svc =
     (case ManageIdProvService_RejectRequest (clock svc) clientID svc of (e, svc1) \<Rightarrow> (Returns [err_result e], svc1))"
| "prov_call A clock [ContextArg c, ValueArg (ProvisionArgs args)] svc =
     (case ManageIdProvService_SubmitRequest A (clock svc) args svc of
        (Inl e, svc1) \<Rightarrow> (Returns [ValueResult (SubmitRequestResp None), ErrorResult e], svc1)
      | (Inr resp, svc1) \<Rightarrow> (Returns [ValueResult (SubmitRequestResp (Some resp)), NilResult], svc1))"
| "prov_call A clock argv svc = (Returns [], svc)"

definition prov_method :: "'a auth_client \<Rightarrow> ('a ManageIdProvService \<Rightarrow> int) \<Rightarrow> nat \<Rightarrow> (prov_message, 'a ManageIdProvService) rpc_method" where
  "prov_method A clock ty = \<lparr>rm_params = [ContextParam, ValueParam ty], rm_call = prov_call A clock\<rparr>"

definition ManageIdProvService_methods ::
  "'a auth_client \<Rightarrow> ('a ManageIdProvService \<Rightarrow> int) \<Rightarrow> (string, (prov_message, 'a ManageIdProvService) rpc_method) gomap" where
  "ManageIdProvService_methods A clock =
     [(''approveRequest'', prov_method A clock 0), (''getRequests'', prov_method A clock 1), (''preApproveClients'', prov_method A clock 2),
      (''rejectRequest'', prov_method A clock 3), (''submitRequest'', prov_method A clock 4)]"

type_synonym 'a prov_hub = "(prov_message, 'a ManageIdProvService) HubClient"

definition register_ManageIdProv ::
  "'w hub_transport \<Rightarrow> 'a auth_client \<Rightarrow> ('a ManageIdProvService \<Rightarrow> int) \<Rightarrow> 'a prov_hub \<Rightarrow> 'w \<Rightarrow> 'a prov_hub \<times> 'w" where
  "register_ManageIdProv tp A clock hc w =
     HubClient_SetRPCCapability tp ManageProvisioningCap (ManageIdProvService_methods A clock) hc w"

section \<open>The client\<close>

type_synonym ('c, 'w) prov_link = "(prov_message, 'c, 'w) hub_link"

definition prov_rpc ::
  "('c, 'w) prov_link \<Rightarrow> string \<Rightarrow> prov_message \<Rightarrow> nat option \<Rightarrow> 'w \<Rightarrow> (prov_message option \<times> go_error option) \<times> 'w" where
  "prov_rpc cl m req resp w =
     (case cl of (tp, ser, hc) \<Rightarrow> HubClient_PubRPCRequest tp ser hc ProvServiceName ManageProvisioningCap m (Some req) resp w)"

definition ManageIdProvClient_ApproveRequest :: "('c, 'w) prov_link \<Rightarrow> string \<Rightarrow> string \<Rightarrow> 'w \<Rightarrow> go_error option \<times> 'w" where
  "ManageIdProvClient_ApproveRequest cl clientID clientType w =
     (case prov_rpc cl ''approveRequest'' (ApproveRequestArgs clientID clientType) None w of ((_, err), w1) \<Rightarrow> (err, w1))"

definition ManageIdProvClient_GetRequests ::
  "('c, 'w) prov_link \<Rightarrow> bool \<Rightarrow> bool \<Rightarrow> bool \<Rightarrow> 'w \<Rightarrow> (ProvisionStatus list \<times> go_error option) \<times> 'w" where
  "ManageIdProvClient_GetRequests cl pending approved rejected w =
     (case prov_rpc cl ''getRequests'' (GetRequestsArgs approved pending rejected) (Some 5) w of
        ((resp, err), w1) \<Rightarrow> ((case resp of Some (GetRequestsResp rs) \<Rightarrow> rs | _ \<Rightarrow> [], err), w1))"

definition ManageIdProvClient_PreApproveDevices :: "('c, 'w) prov_link \<Rightarrow> PreApprovedClient list \<Rightarrow> 'w \<Rightarrow> go_error option \<times> 'w" where
  "ManageIdProvClient_PreApproveDevices cl approvals w =
     (case prov_rpc cl ''preApproveClients'' (PreApproveClientsArgs approvals) None w of ((_, err), w1) \<Rightarrow> (err, w1))"

definition ManageIdProvClient_RejectRequest :: "('c, 'w) prov_link \<Rightarrow> string \<Rightarrow> 'w \<Rightarrow> go_error option \<times> 'w" where
  "ManageIdProvClient_RejectRequest cl clientID w =
     (case prov_rpc cl ''rejectRequest'' (RejectRequestArgs clientID) None w of ((_, err), w1) \<Rightarrow> (err, w1))"

text \<open>The status and the token of a response that was not received are zero values.\<close>

definition zero_status :: ProvisionStatus where
  "zero_status = \<lparr>ps_ClientID = [], ps_ClientType = [], ps_PubKey = [], ps_MAC = [], ps_Pending = False, ps_ApprovedMSE = 0,
     ps_ReceivedMSE = 0, ps_RejectedMSE = 0, ps_RetrySec = 0\<rparr>"

definition ManageIdProvClient_SubmitRequest ::
  "('c, 'w) prov_link \<Rightarrow> string \<Rightarrow> string \<Rightarrow> string \<Rightarrow> 'w \<Rightarrow> (ProvisionStatus \<times> string \<times> go_error option) \<times> 'w" where
  "ManageIdProvClient_SubmitRequest cl clientID pubKey mac w =
     (case prov_rpc cl ''submitRequest'' (SubmitRequestArgs clientID ClientTypeDevice mac pubKey) (Some 6) w of
        ((resp, err), w1) \<Rightarrow>
          (case resp of Some (SubmitRequestResp (Some r)) \<Rightarrow> ((pq_Status r, pq_Token r, err), w1) | _ \<Rightarrow> ((zero_status, [], err), w1)))"

section \<open>Client operations are service operations\<close>

definition prov_running ::
  "(go_error \<Rightarrow> string) \<Rightarrow> 'a auth_client \<Rightarrow> ('a ManageIdProvService \<Rightarrow> int) \<Rightarrow> 'a prov_hub \<Rightarrow> 'a ManageIdProvService NatsTransport
     \<Rightarrow> (string \<Rightarrow> string option \<Rightarrow> 'a ManageIdProvService \<Rightarrow> (go_error + nats_msg) \<times> 'a ManageIdProvService)
     \<Rightarrow> ('c, 'a ManageIdProvService) prov_link \<Rightarrow> bool" where
  "prov_running error_text A clock agent nt Request cl \<longleftrightarrow> hc_clientID agent = ProvServiceName
     \<and> rpc_connected error_text ManageProvisioningCap (ManageIdProvService_methods A clock) agent nt Request cl"

definition prov_keeps :: "prov_message serializer \<Rightarrow> prov_message \<Rightarrow> bool" where
  "prov_keeps ser v \<longleftrightarrow> snd (ser_Marshal ser v) = None \<and> ser_Unmarshal ser (prov_message_type v) (fst (ser_Marshal ser v)) = Inr v"

lemma prov_rpc_call:
  assumes "prov_running error_text A clock agent nt Request (tp, ser, client)" "\<And>e. error_text e \<noteq> []"
    and "mget (ManageIdProvService_methods A clock) m = Some (prov_method A clock (prov_message_type req))" "prov_keeps ser req" "nats_token m"
  shows "prov_rpc (tp, ser, client) m req resp svc
    = rpc_outcome error_text ser resp (call_result ser (prov_call A clock [ContextArg (hc_clientID client), ValueArg req] svc))"
proof -
  have r: "rpc_connected error_text ManageProvisioningCap (ManageIdProvService_methods A clock) agent nt Request (tp, ser, client)"
    "hc_clientID agent = ProvServiceName" using assms(1) by (simp_all add: prov_running_def)
  show ?thesis using rpc_value_call [OF r(1) assms(2,3) [unfolded prov_method_def], of req resp svc] assms(4,5) r(2)
    by (simp add: prov_rpc_def prov_keeps_def address_token_def)
qed

lemma prov_client_local:
  assumes "prov_running error_text A clock agent nt Request (tp, ser, client)" "\<And>e. error_text e \<noteq> []"
  shows "prov_keeps ser (ApproveRequestArgs c ty) \<Longrightarrow> ManageIdProvClient_ApproveRequest (tp, ser, client) c ty svc =
      (case ManageIdProvService_ApproveRequest (clock svc) c ty svc of (e, svc1) \<Rightarrow> (remote error_text e, svc1))"
    and "prov_keeps ser (RejectRequestArgs c) \<Longrightarrow> ManageIdProvClient_RejectRequest (tp, ser, client) c svc =
      (case ManageIdProvService_RejectRequest (clock svc) c svc of (e, svc1) \<Rightarrow> (remote error_text e, svc1))"
    and "prov_keeps ser (PreApproveClientsArgs as) \<Longrightarrow> ManageIdProvClient_PreApproveDevices (tp, ser, client) as svc =
      (case ManageIdProvService_PreApproveClients (clock svc) as svc of (e, svc1) \<Rightarrow> (remote error_text e, svc1))"
  using prov_rpc_call [OF assms, of "''approveRequest''" "ApproveRequestArgs c ty" None svc]
    prov_rpc_call [OF assms, of "''rejectRequest''" "RejectRequestArgs c" None svc]
    prov_rpc_call [OF assms, of "''preApproveClients''" "PreApproveClientsArgs as" None svc]
  by (simp_all add: ManageIdProvClient_ApproveRequest_def ManageIdProvClient_RejectRequest_def ManageIdProvClient_PreApproveDevices_def
      ManageIdProvService_methods_def address_token_def split: prod.splits)

section \<open>From the first request to the login\<close>

text \<open>The answers that a device gets before and after it is approved.\<close>

abbreviation prov_args :: "string \<Rightarrow> string \<Rightarrow> string \<Rightarrow> ProvisionRequestArgs" where
  "prov_args c mac pk \<equiv> \<lparr>pa_ClientID = c, pa_MAC = mac, pa_PubKey = pk\<rparr>"

definition first_answer :: "string \<Rightarrow> string \<Rightarrow> string \<Rightarrow> int \<Rightarrow> ProvisionRequestResp" where
  "first_answer c mac pk t = \<lparr>pq_Status = \<lparr>ps_ClientID = c, ps_ClientType = [], ps_PubKey = pk, ps_MAC = mac, ps_Pending = True,
     ps_ApprovedMSE = 0, ps_ReceivedMSE = t, ps_RejectedMSE = 0, ps_RetrySec = 60\<rparr>, pq_Token = []\<rparr>"

definition approved_answer :: "string \<Rightarrow> string \<Rightarrow> string \<Rightarrow> int \<Rightarrow> int \<Rightarrow> ProvisionRequestResp" where
  "approved_answer c mac pk t2 t3 = \<lparr>pq_Status = \<lparr>ps_ClientID = c, ps_ClientType = ClientTypeDevice, ps_PubKey = pk, ps_MAC = mac,
     ps_Pending = False, ps_ApprovedMSE = t2, ps_ReceivedMSE = t3, ps_RejectedMSE = 0, ps_RetrySec = 60\<rparr>, pq_Token = pk\<rparr>"

text \<open>The JSON texts of the request and of these answers are read back, at whatever times the clock shows.\<close>

definition prov_json_keeps :: "prov_json \<Rightarrow> int set \<Rightarrow> string \<Rightarrow> string \<Rightarrow> string \<Rightarrow> bool" where
  "prov_json_keeps J T c mac pk \<longleftrightarrow> pj_args_Unmarshal J (pj_args_Marshal J (prov_args c mac pk)) = Inr (prov_args c mac pk)
     \<and> (\<forall>t \<in> T. pj_resp_Unmarshal J (pj_resp_Marshal J (first_answer c mac pk t)) = Inr (first_answer c mac pk t)
         \<and> (\<forall>t3 \<in> T. pj_resp_Unmarshal J (pj_resp_Marshal J (approved_answer c mac pk t t3)) = Inr (approved_answer c mac pk t t3)))"

lemma first_submit:
  assumes "mget (pr_requests mng) c = None"
  shows "ManageIdProvService_SubmitRequest A t (prov_args c mac pk) mng
    = (Inr (first_answer c mac pk t), mng\<lparr>pr_requests := mput c (pq_Status (first_answer c mac pk t)) (pr_requests mng)\<rparr>)"
  using assms by (simp add: ManageIdProvService_SubmitRequest_def Let_def first_answer_def waiting_status_def)

lemma approved_submit:
  assumes "mget (pr_requests mng) c = Some (pq_Status (approved_answer c mac pk t2 t'))" "t2 \<noteq> 0" "c \<noteq> []" "pk \<noteq> []"
    and "auth_io_ok env" "\<not> ms_AuthCallout (as_server (pr_auth mng))"
  shows "\<exists>mng'. ManageIdProvService_SubmitRequest (ManageClients env) t3 (prov_args c mac pk) mng
      = (Inr (approved_answer c mac pk t2 t3), mng')
    \<and> key_registered c pk ClientRoleDevice (pr_auth mng')"
proof -
  obtain au where "AuthManageClients_AddDevice env c ''device'' pk (pr_auth mng) = (Returns (pk, None), au)"
      "key_registered c pk ClientRoleDevice au"
    using AddDevice_adds [OF assms(5,6,3,4), of "''device''"] by (auto simp: adds_client_def)
  then show ?thesis
    using assms(1-4) by (simp add: ManageIdProvService_SubmitRequest_def Let_def submit_denied_def approved_answer_def ManageClients_def
        token_response_def)
qed

text \<open>
  C5. A device that is not known yet submits its public key over HTTPS, without authentication, and is told to wait; an
  administrator approves it over the message bus; and when the device submits the same request again it gets its token, which is
  its public key, and is by then in the password file, with the role of a device, and its key is in the tables of the message
  server: it can log in.
\<close>

theorem device_gets_provisioned:
  assumes service: "IdProvService_Start None None (ManageClients env) J clock auth (NewIdProvService port (Some serverCert) (Some ca)) = (None, svc)"
      "ip_httpServer svc = Some srv" "prov_running error_text (ManageClients env) clock agent nt Request (tp, ser, admin)"
      "\<And>e. error_text e \<noteq> []" "\<And>mng. clock mng \<noteq> 0"
    and device: "TLSClient_ConnectNoAuth (NewTLSClient hostPort serverCA) w0 = (cl, w)" "server_trusted X t hostOK srv (hw_TLSClientConfig w)"
      "badURL (https_url cl ProvisionRequestPath) = None" "route (https_url cl ProvisionRequestPath) = ProvisionRequestPath"
      "c \<noteq> []" "pk \<noteq> []" "mget (pr_requests (hw_world w)) c = None"
    and texts: "prov_json_keeps J (range clock) c mac pk" "prov_keeps ser (ApproveRequestArgs c ClientTypeDevice)"
    and server: "auth_io_ok env" "\<not> ms_AuthCallout (as_server (pr_auth (hw_world w)))"
  shows "\<exists>w1 mng2 w3 t1 t2 t3.
      SubmitIdProvRequest H J badURL (https_server X t hostOK route ca srv) c pk mac cl w = (Inr (first_answer c mac pk t1), w1)
    \<and> ManageIdProvClient_ApproveRequest (tp, ser, admin) c ClientTypeDevice (hw_world w1) = (None, mng2)
    \<and> SubmitIdProvRequest H J badURL (https_server X t hostOK route ca srv) c pk mac cl (w1\<lparr>hw_world := mng2\<rparr>)
        = (Inr (approved_answer c mac pk t2 t3), w3)
    \<and> key_registered c pk ClientRoleDevice (pr_auth (hw_world w3))"
proof -
  let ?A = "ManageClients env" and ?args = "prov_args c mac pk" and ?Do = "https_server X t hostOK route ca srv"
  define m0 where "m0 = hw_world w"
  define m1 where "m1 = m0\<lparr>pr_requests := mput c (pq_Status (first_answer c mac pk (clock m0))) (pr_requests m0)\<rparr>"
  define m2 where "m2 = snd (ManageIdProvService_ApproveRequest (clock m1) c ClientTypeDevice m1)"
  have submit: "SubmitIdProvRequest H J badURL ?Do c pk mac cl (w\<lparr>hw_world := m\<rparr>) = (Inr resp, w\<lparr>hw_world := m'\<rparr>)"
    if "ManageIdProvService_SubmitRequest ?A (clock m) ?args m = (Inr resp, m')"
      "pj_resp_Unmarshal J (pj_resp_Marshal J resp) = Inr resp" for m resp m'
  proof -
    have con: "TLSClient_ConnectNoAuth (NewTLSClient hostPort serverCA) (w0\<lparr>hw_world := m\<rparr>) = (cl, w\<lparr>hw_world := m\<rparr>)"
      using device(1) by (auto simp: TLSClient_ConnectNoAuth_def TLSClient_connect_def)
    show ?thesis
      using provisioning_over_https [OF service(1,2) con, where r = "Inr resp" and mng = m' and X = X and t = t and hostOK = hostOK
          and badURL = badURL and route = route and c = c and mac = mac and pk = pk and H = H] device(2-4) texts(1) that
      by (simp add: prov_json_keeps_def)
  qed
  have s1: "ManageIdProvService_SubmitRequest ?A (clock m0) ?args m0 = (Inr (first_answer c mac pk (clock m0)), m1)"
    using first_submit [of m0 c] device(7) by (simp add: m0_def m1_def)
  have s2: "ManageIdProvService_ApproveRequest (clock m1) c ClientTypeDevice m1 = (None, m2)"
    "mget (pr_requests m2) c = Some (pq_Status (approved_answer c mac pk (clock m1) (clock m0)))" "pr_auth m2 = pr_auth (hw_world w)"
    by (simp_all add: m2_def m1_def m0_def ManageIdProvService_ApproveRequest_def gomap_simps first_answer_def approved_answer_def)
  obtain m3 where s3: "ManageIdProvService_SubmitRequest ?A (clock m2) ?args m2 = (Inr (approved_answer c mac pk (clock m1) (clock m2)), m3)"
    "key_registered c pk ClientRoleDevice (pr_auth m3)"
    using approved_submit [OF s2(2) service(5) device(5,6) server(1), of "clock m2"] s2(3) server(2) by auto
  have approve: "ManageIdProvClient_ApproveRequest (tp, ser, admin) c ClientTypeDevice m1 = (None, m2)"
    using prov_client_local(1) [OF service(3,4) texts(2), of m1] s2(1) by (simp add: remote_def)
  show ?thesis
    using submit [OF s1] submit [OF s3(1)] approve s3(2) texts(1)
    by (intro exI [of _ "w\<lparr>hw_world := m1\<rparr>"] exI [of _ m2] exI [of _ "w\<lparr>hw_world := m3\<rparr>"]) (auto simp: prov_json_keeps_def m0_def)
qed

text \<open>The device \<open>d1\<close> and an administrator, with a message server without callout.\<close>

abbreviation prov_clock :: "AuthState ManageIdProvService \<Rightarrow> int" where "prov_clock \<equiv> \<lambda>mng. 30"
abbreviation prov_ser :: "prov_message serializer" where "prov_ser \<equiv> table_ser [ApproveRequestArgs ''d1'' ClientTypeDevice]"

definition device_json :: prov_json where
  "device_json = \<lparr>pj_args_Unmarshal = (\<lambda>s. Inr (prov_args ''d1'' ''m1'' ''K9'')), pj_args_Marshal = (\<lambda>a. ''a''),
     pj_resp_Unmarshal = (\<lambda>s. Inr (if s = ''p'' then first_answer ''d1'' ''m1'' ''K9'' 30 else approved_answer ''d1'' ''m1'' ''K9'' 30 30)),
     pj_resp_Marshal = (\<lambda>r. if pq_Token r = [] then ''p'' else ''t'')\<rparr>"

definition prov_agent :: "AuthState prov_hub" where
  "prov_agent = fst (register_ManageIdProv null_transport (ManageClients demo_env) prov_clock
     (fst (NewHubClientFromTransport null_transport ProvServiceName ())) ())"

definition prov_nats :: "AuthState ManageIdProvService NatsTransport" where
  "prov_nats = \<lparr>nt_status = \<lparr>hs_HubURL = [], hs_ClientID = ProvServiceName, hs_ConnectionStatus = Connected, hs_LastError = None\<rparr>,
     nt_connectHandler = (\<lambda>s st. st), nt_eventHandler = None,
     nt_requestHandler = Some (HubClient_onRequest NatsTransport_AddressTokens prov_ser 0 prov_agent)\<rparr>"

definition prov_tp :: "AuthState ManageIdProvService hub_transport" where
  "prov_tp = \<lparr>tp_tokens = NatsTransport_AddressTokens, tp_PubEvent = (\<lambda>a p w. (None, w)),
     tp_PubRequest = NatsTransport_PubRequest (direct_Request (\<lambda>e. ''err'') prov_nats),
     tp_Subscribe = (\<lambda>a w. (None, w)), tp_SetRequestHandler = id, tp_SetEventHandler = id, tp_SetConnectHandler = id\<rparr>"

abbreviation prov_admin :: "(prov_message, unit) HubClient" where
  "prov_admin \<equiv> fst (NewHubClientFromTransport null_transport ''admin'' ())"

lemma demo_prov_running:
  "prov_running (\<lambda>e. ''err'') (ManageClients demo_env) prov_clock prov_agent prov_nats (direct_Request (\<lambda>e. ''err'') prov_nats)
     (prov_tp, prov_ser, prov_admin)"
  using SetRPCCapability_serves [of "fst (NewHubClientFromTransport null_transport ProvServiceName ())" ManageProvisioningCap
      "ManageIdProvService_methods (ManageClients demo_env) prov_clock" null_transport "()"]
  by (auto simp: prov_running_def rpc_connected_def prov_tp_def prov_nats_def direct_routes prov_agent_def register_ManageIdProv_def
      SetRPCCapability_client NewHubClientFromTransport_def address_token_def)

definition device_world :: "AuthState ManageIdProvService http_world" where
  "device_world = \<lparr>hw_TLSClientConfig = open_config [],
     hw_world = StartManageIdProvService (demo_auth_state\<lparr>as_server := demo_server\<lparr>ms_AuthCallout := False\<rparr>\<rparr>)\<rparr>"

abbreviation device_server :: "AuthState ManageIdProvService TLSServer" where
  "device_server \<equiv> fst (StartIdProvHttpServer None (ManageClients demo_env) device_json prov_clock 4443 (Some dev_cert) (Some demo_ca_template))"

abbreviation device_submits ::
  "AuthState ManageIdProvService http_world \<Rightarrow> (go_error + ProvisionRequestResp) \<times> AuthState ManageIdProvService http_world" where
  "device_submits \<equiv> SubmitIdProvRequest demo_http device_json (\<lambda>u. None)
     (https_server demo_x509_0 40 True (\<lambda>u. ProvisionRequestPath) demo_ca_template device_server) ''d1'' ''K9'' ''m1''
     (NewTLSClient ''hub'' None\<lparr>tl_started := True\<rparr>)"

theorem device_gets_provisioned_witness:
  "\<exists>w1 mng2 w3 t1 t2 t3. device_submits device_world = (Inr (first_answer ''d1'' ''m1'' ''K9'' t1), w1)
    \<and> ManageIdProvClient_ApproveRequest (prov_tp, prov_ser, prov_admin) ''d1'' ClientTypeDevice (hw_world w1) = (None, mng2)
    \<and> device_submits (w1\<lparr>hw_world := mng2\<rparr>) = (Inr (approved_answer ''d1'' ''m1'' ''K9'' t2 t3), w3)
    \<and> key_registered ''d1'' ''K9'' ClientRoleDevice (pr_auth (hw_world w3))"
proof -
  define svc where "svc = snd (IdProvService_Start None None (ManageClients demo_env) device_json prov_clock demo_auth_state
    (NewIdProvService 4443 (Some dev_cert) (Some demo_ca_template)))"
  have start: "IdProvService_Start None None (ManageClients demo_env) device_json prov_clock demo_auth_state
      (NewIdProvService 4443 (Some dev_cert) (Some demo_ca_template)) = (None, svc)" "ip_httpServer svc = Some device_server"
    by (simp_all add: svc_def IdProvService_Start_def NewIdProvService_def StartIdProvHttpServer_def TLSServer_Start_def
        NewTLSServer_def TLSServer_AddHandlerNoAuth_def Let_def)
  have con: "TLSClient_ConnectNoAuth (NewTLSClient ''hub'' None) device_world = (NewTLSClient ''hub'' None\<lparr>tl_started := True\<rparr>, device_world)"
    by (simp add: TLSClient_ConnectNoAuth_def NewTLSClient_def TLSClient_connect_def device_world_def)
  have trusted: "server_trusted demo_x509_0 40 True device_server (hw_TLSClientConfig device_world)"
    by (simp add: server_trusted_def device_world_def)
  have texts: "prov_json_keeps device_json (range prov_clock) ''d1'' ''m1'' ''K9''" "prov_keeps prov_ser (ApproveRequestArgs ''d1'' ClientTypeDevice)"
    by (simp_all add: prov_json_keeps_def device_json_def first_answer_def approved_answer_def prov_keeps_def table_ser_def)
  have auth: "auth_io_ok demo_env" "\<not> ms_AuthCallout (as_server (pr_auth (hw_world device_world)))" "mget (pr_requests (hw_world device_world)) ''d1'' = None"
    by (simp_all add: auth_io_ok_def demo_env_def device_world_def StartManageIdProvService_def)
  show ?thesis
    by (rule device_gets_provisioned [OF start demo_prov_running _ _ con trusted _ _ _ _ auth(3) texts auth(1,2)]) simp_all
qed

end
