(* ===== verification/WebSession.thy ===== *)
theory WebSession
  imports HubClient
begin

text \<open>
  Model of the browser sessions, \<open>done_mod/mod_web/web_session\<close>: \<open>SessionManager.go\<close>,
  \<open>ClientSession.go\<close>, \<open>SessionCookie.go\<close>, \<open>SessionContext.go\<close>, \<open>SessionLogout.go\<close> and the life of
  an SSE connection in \<open>SseHandler.go\<close>. Sessions are objects in a heap, as the SSE handlers keep
  a pointer to their session after it has been removed from the manager's table. A channel is a
  number; \<open>sm_closed\<close> are the channels that were closed and \<open>sm_out\<close> what was delivered. Hub
  connections are numbers too, with the client and status of each. Signing and parsing
  of the session cookie and the calls of the hub are the record \<open>web_env\<close>.
\<close>

section \<open>Data\<close>

record SSEEvent =
  se_Event :: string
  se_Payload :: string

record ClientSession =
  cs_sessionID :: string
  cs_clientID :: string
  cs_remoteAddr :: string
  cs_agents :: "string list"     \<comment> \<open>the agents of the client's model\<close>
  cs_subs :: "string list"       \<comment> \<open>the agents subscribed to, the empty name for all\<close>
  cs_hc :: nat
  cs_sse :: "nat list"
  cs_lastActivity :: int

record hub_conn =
  hn_ClientID :: string
  hn_Status :: ConnectionStatus
  hn_LastError :: "go_error option"

record SessionManager =
  sm_sessions :: "(string, nat) gomap"
  sm_heap :: "(nat, ClientSession) gomap"
  sm_conns :: "(nat, hub_conn) gomap"
  sm_closed :: "nat list"
  sm_out :: "(nat \<times> SSEEvent) list"

record SessionClaims =
  sc_ID :: string
  sc_Subject :: string
  sc_AuthToken :: string
  sc_MaxAge :: int

text \<open>A request: the session cookie, if there is one, the address and whether it is an htmx request.\<close>

record http_req =
  rq_Cookie :: "string option"
  rq_RemoteAddr :: string
  rq_Htmx :: bool

record web_env =
  we_CookieValid :: "string \<Rightarrow> bool"
  we_ParseClaims :: "string \<Rightarrow> go_error + SessionClaims"
  we_SignClaims :: "SessionClaims \<Rightarrow> go_error + string"
  we_NewUUID :: string
  we_Model :: "string \<Rightarrow> string list"                      \<comment> \<open>the agents of a client's stored model\<close>
  we_tokenKP :: "string option"                          \<comment> \<open>the public key of the service's key pair\<close>
  we_RefreshToken :: "bool \<Rightarrow> string \<times> go_error option"   \<comment> \<open>whether the account got a public key first\<close>
  we_GetProfile :: "go_error + string"                   \<comment> \<open>the public key of the account\<close>
  we_Connect :: "string \<Rightarrow> string \<Rightarrow> go_error option"      \<comment> \<open>login ID and token\<close>

section \<open>The cookie\<close>

definition GetSessionCookie :: "web_env \<Rightarrow> http_req \<Rightarrow> SessionClaims option \<times> go_error option" where
  "GetSessionCookie W r =
     (case rq_Cookie r of
        None \<Rightarrow> (None, Some ErrNoSessionCookie)
      | Some cookie \<Rightarrow>
          if \<not> we_CookieValid W cookie then (None, Some ErrInvalidCookie)
          else (case we_ParseClaims W cookie of
                  Inl err \<Rightarrow> (Some \<lparr>sc_ID = [], sc_Subject = [], sc_AuthToken = [], sc_MaxAge = 0\<rparr>, Some err)
                | Inr claims \<Rightarrow> (Some claims, None)))"

text \<open>The cookie that is set, if the claims can be signed.\<close>

definition SetSessionCookie ::
  "web_env \<Rightarrow> string \<Rightarrow> string \<Rightarrow> string \<Rightarrow> int \<Rightarrow> go_error option \<times> string option" where
  "SetSessionCookie W sessionID clientID authToken maxAge =
     (case we_SignClaims W \<lparr>sc_ID = sessionID, sc_Subject = clientID, sc_AuthToken = authToken, sc_MaxAge = maxAge\<rparr> of
        Inl err \<Rightarrow> (Some err, None)
      | Inr cookieValue \<Rightarrow> (None, Some cookieValue))"

section \<open>Sessions\<close>

abbreviation conn_status :: "SessionManager \<Rightarrow> nat \<Rightarrow> ConnectionStatus" where
  "conn_status sm hc \<equiv> (case mget (sm_conns sm) hc of Some c \<Rightarrow> hn_Status c | None \<Rightarrow> Disconnected)"

definition ClientSession_IsActive :: "SessionManager \<Rightarrow> ClientSession \<Rightarrow> bool" where
  "ClientSession_IsActive sm cs \<longleftrightarrow> conn_status sm (cs_hc cs) = Connected \<or> conn_status sm (cs_hc cs) = Connecting"

definition disconnect :: "nat \<Rightarrow> SessionManager \<Rightarrow> SessionManager" where
  "disconnect hc sm =
     (case mget (sm_conns sm) hc of
        None \<Rightarrow> sm
      | Some c \<Rightarrow> sm\<lparr>sm_conns := mput hc (c\<lparr>hn_Status := Disconnected\<rparr>) (sm_conns sm)\<rparr>)"

text \<open>A send on a closed channel panics; the events before it have been delivered.\<close>

fun send_each :: "nat list \<Rightarrow> SSEEvent \<Rightarrow> SessionManager \<Rightarrow> unit outcome \<times> SessionManager" where
  "send_each [] ev sm = (Returns (), sm)"
| "send_each (c # cs) ev sm =
     (if c \<in> set (sm_closed sm) then (Panics ClosedChannel, sm)
      else send_each cs ev (sm\<lparr>sm_out := sm_out sm @ [(c, ev)]\<rparr>))"

definition ClientSession_SendSSE :: "nat \<Rightarrow> SSEEvent \<Rightarrow> SessionManager \<Rightarrow> unit outcome \<times> SessionManager" where
  "ClientSession_SendSSE obj ev sm =
     (case mget (sm_heap sm) obj of
        None \<Rightarrow> (Panics NilDereference, sm)
      | Some cs \<Rightarrow> send_each (cs_sse cs) ev sm)"

fun send_events :: "nat \<Rightarrow> SSEEvent list \<Rightarrow> SessionManager \<Rightarrow> unit outcome \<times> SessionManager" where
  "send_events obj [] sm = (Returns (), sm)"
| "send_events obj (ev # evs) sm =
     (case ClientSession_SendSSE obj ev sm of
        (Panics p, sm1) \<Rightarrow> (Panics p, sm1)
      | (Returns _, sm1) \<Rightarrow> send_events obj evs sm1)"

text \<open>
  The SSE events of a hub event: \<open>unm\<close> decodes a property map, \<open>updated\<close> is the formatted time of
  the message.
\<close>

definition sse_event_id :: "string list \<Rightarrow> string" where
  "sse_event_id parts = strings_Join parts (CHR ''/'')"

definition event_messages ::
  "(string \<Rightarrow> go_error + (string, string) gomap) \<Rightarrow> (ThingValue \<Rightarrow> string) \<Rightarrow> ThingValue \<Rightarrow> SSEEvent list" where
  "event_messages unm updated msg =
     (if Name msg = EventNameTD then [\<lparr>se_Event = sse_event_id [AgentID msg, ThingID msg], se_Payload = []\<rparr>]
      else if Name msg = EventNameProps then
        (case unm (bytes_of (Data msg)) of
           Inl err \<Rightarrow> []
         | Inr props \<Rightarrow> concat (map (\<lambda>(k, v).
             [\<lparr>se_Event = sse_event_id [AgentID msg, ThingID msg, k], se_Payload = v\<rparr>,
              \<lparr>se_Event = sse_event_id [AgentID msg, ThingID msg, k, ''updated''], se_Payload = updated msg\<rparr>]) props))
      else [\<lparr>se_Event = sse_event_id [AgentID msg, ThingID msg, Name msg], se_Payload = bytes_of (Data msg)\<rparr>,
            \<lparr>se_Event = sse_event_id [AgentID msg, ThingID msg, Name msg, ''updated''], se_Payload = updated msg\<rparr>])"

definition ClientSession_onEvent ::
  "(string \<Rightarrow> go_error + (string, string) gomap) \<Rightarrow> (ThingValue \<Rightarrow> string) \<Rightarrow> nat \<Rightarrow> ThingValue \<Rightarrow> SessionManager
     \<Rightarrow> unit outcome \<times> SessionManager" where
  "ClientSession_onEvent unm updated obj msg sm = send_events obj (event_messages unm updated msg) sm"

definition status_text :: "ConnectionStatus \<Rightarrow> string" where
  "status_text s = (case s of Connecting \<Rightarrow> ''connecting'' | Connected \<Rightarrow> ''connected'' | ConnectFailed \<Rightarrow> ''connectFailed''
     | Disconnected \<Rightarrow> ''disconnected'' | Expired \<Rightarrow> ''expired'' | Unauthorized \<Rightarrow> ''unauthorized'')"

definition ClientSession_onConnectChange :: "nat \<Rightarrow> ConnectionStatus \<Rightarrow> SessionManager \<Rightarrow> unit outcome \<times> SessionManager" where
  "ClientSession_onConnectChange obj stat sm =
     ClientSession_SendSSE obj \<lparr>se_Event = ''notify'',
       se_Payload = (if stat = Connected then ''success:Connection with Hub successful''
         else if stat = Connecting then ''warning:Attempt to reconnect to the Hub''
         else ''warning:Connection changed: '' @ status_text stat)\<rparr> sm"

definition update_session :: "nat \<Rightarrow> (ClientSession \<Rightarrow> ClientSession) \<Rightarrow> SessionManager \<Rightarrow> SessionManager" where
  "update_session obj f sm =
     (case mget (sm_heap sm) obj of
        None \<Rightarrow> sm
      | Some cs \<Rightarrow> sm\<lparr>sm_heap := mput obj (f cs) (sm_heap sm)\<rparr>)"

text \<open>The notification of \<open>AddSSEClient\<close> is sent by a goroutine of its own, as another event.\<close>

definition ClientSession_AddSSEClient :: "nat \<Rightarrow> nat \<Rightarrow> SessionManager \<Rightarrow> SessionManager" where
  "ClientSession_AddSSEClient obj c sm = update_session obj (\<lambda>cs. cs\<lparr>cs_sse := cs_sse cs @ [c]\<rparr>) sm"

definition ClientSession_RemoveSSEClient :: "nat \<Rightarrow> nat \<Rightarrow> SessionManager \<Rightarrow> SessionManager" where
  "ClientSession_RemoveSSEClient obj c sm = update_session obj (\<lambda>cs. cs\<lparr>cs_sse := remove1 c (cs_sse cs)\<rparr>) sm"

fun close_each :: "nat list \<Rightarrow> SessionManager \<Rightarrow> unit outcome \<times> SessionManager" where
  "close_each [] sm = (Returns (), sm)"
| "close_each (c # cs) sm =
     (if c \<in> set (sm_closed sm) then (Panics ClosedChannel, sm)
      else close_each cs (sm\<lparr>sm_closed := c # sm_closed sm\<rparr>))"

definition ClientSession_Close :: "nat \<Rightarrow> SessionManager \<Rightarrow> unit outcome \<times> SessionManager" where
  "ClientSession_Close obj sm =
     (case mget (sm_heap sm) obj of
        None \<Rightarrow> (Panics NilDereference, sm)
      | Some cs \<Rightarrow>
          (case close_each (cs_sse cs) sm of
             (Panics p, sm1) \<Rightarrow> (Panics p, sm1)
           | (Returns _, sm1) \<Rightarrow> (Returns (), update_session obj (\<lambda>cs. cs\<lparr>cs_sse := []\<rparr>) (disconnect (cs_hc cs) sm1))))"

text \<open>A new session object for a connection; \<open>obj\<close> is a fresh address.\<close>

definition NewClientSession ::
  "web_env \<Rightarrow> int \<Rightarrow> nat \<Rightarrow> string \<Rightarrow> nat \<Rightarrow> string \<Rightarrow> SessionManager \<Rightarrow> SessionManager" where
  "NewClientSession W now obj sessionID hc remoteAddr sm =
     (let clientID = (case mget (sm_conns sm) hc of Some c \<Rightarrow> hn_ClientID c | None \<Rightarrow> []);
          agents = we_Model W clientID
      in sm\<lparr>sm_heap := mput obj \<lparr>cs_sessionID = sessionID, cs_clientID = clientID, cs_remoteAddr = remoteAddr,
            cs_agents = agents, cs_subs = (if agents \<noteq> [] then agents else [[]]), cs_hc = hc, cs_sse = [],
            cs_lastActivity = now\<rparr> (sm_heap sm)\<rparr>)"

section \<open>The session manager\<close>

definition SessionManager_GetSession ::
  "int \<Rightarrow> string \<Rightarrow> SessionManager \<Rightarrow> (nat option \<times> go_error option) \<times> SessionManager" where
  "SessionManager_GetSession now sessionID sm =
     (if sessionID = [] then ((None, Some ErrMissingSessionID), sm)
      else case mget (sm_sessions sm) sessionID of
             None \<Rightarrow> ((None, Some (ErrSessionNotFound sessionID)), sm)
           | Some obj \<Rightarrow> ((Some obj, None), update_session obj (\<lambda>cs. cs\<lparr>cs_lastActivity := now\<rparr>) sm))"

definition SessionManager_Close :: "string \<Rightarrow> SessionManager \<Rightarrow> go_error option outcome \<times> SessionManager" where
  "SessionManager_Close sessionID sm =
     (case mget (sm_sessions sm) sessionID of
        None \<Rightarrow> (Returns (Some ErrSessionClosed), sm)
      | Some obj \<Rightarrow>
          (case ClientSession_Close obj sm of
             (Panics p, sm1) \<Rightarrow> (Panics p, sm1)
           | (Returns _, sm1) \<Rightarrow> (Returns None, sm1\<lparr>sm_sessions := mdel sessionID (sm_sessions sm1)\<rparr>)))"

definition SessionManager_GetSessionFromCookie ::
  "web_env \<Rightarrow> int \<Rightarrow> http_req \<Rightarrow> SessionManager \<Rightarrow> (nat option \<times> SessionClaims option \<times> go_error option) \<times> SessionManager" where
  "SessionManager_GetSessionFromCookie W now r sm =
     (case GetSessionCookie W r of
        (claims, Some err) \<Rightarrow> ((None, None, Some err), sm)
      | (claims, None) \<Rightarrow>
          (case SessionManager_GetSession now (case claims of Some c \<Rightarrow> sc_ID c | None \<Rightarrow> []) sm of
             ((cs, err), sm1) \<Rightarrow> ((cs, claims, err), sm1)))"

text \<open>The token for the cookie: a second attempt is made after a missing public key was set.\<close>

definition refresh_token :: "web_env \<Rightarrow> string \<times> go_error option" where
  "refresh_token W =
     (case we_RefreshToken W False of
        (token, None) \<Rightarrow> (token, None)
      | (token, Some err) \<Rightarrow>
          (case we_tokenKP W of
             None \<Rightarrow> (token, Some err)
           | Some pubKey \<Rightarrow>
               (case we_GetProfile W of
                  Inl err2 \<Rightarrow> (token, Some err2)
                | Inr profKey \<Rightarrow> we_RefreshToken W (profKey = []))))"

text \<open>The result is the new session and the cookie that is set.\<close>

definition SessionManager_ActivateNewSession ::
  "web_env \<Rightarrow> int \<Rightarrow> nat \<Rightarrow> http_req \<Rightarrow> nat \<Rightarrow> SessionManager \<Rightarrow> (nat \<times> string option) outcome \<times> SessionManager" where
  "SessionManager_ActivateNewSession W now obj r hc sm =
     (let sessionID = (case GetSessionCookie W r of (Some claims, None) \<Rightarrow> sc_ID claims | _ \<Rightarrow> []);
          closed = (case SessionManager_GetSession now sessionID sm of
                      ((Some _, _), sm1) \<Rightarrow> SessionManager_Close sessionID sm1
                    | ((None, _), sm1) \<Rightarrow> (Returns None, sm1))
      in case closed of
           (Panics p, sm2) \<Rightarrow> (Panics p, sm2)
         | (Returns _, sm2) \<Rightarrow>
             (let newID = (if sessionID = [] then we_NewUUID W else sessionID);
                  sm3 = NewClientSession W now obj newID hc (rq_RemoteAddr r) sm2;
                  sm4 = sm3\<lparr>sm_sessions := mput newID obj (sm_sessions sm3)\<rparr>;
                  clientID = (case mget (sm_conns sm4) hc of Some c \<Rightarrow> hn_ClientID c | None \<Rightarrow> [])
              in (Returns (obj, snd (SetSessionCookie W newID clientID (fst (refresh_token W)) (3600 * 24 * 14))), sm4)))"

definition SessionManager_ConnectWithToken ::
  "web_env \<Rightarrow> nat \<Rightarrow> string \<Rightarrow> string \<Rightarrow> SessionManager \<Rightarrow> go_error option outcome \<times> SessionManager" where
  "SessionManager_ConnectWithToken W hc loginID authToken sm =
     (if we_tokenKP W = None then (Panics NilDereference, sm)
      else case we_Connect W loginID authToken of
             Some err \<Rightarrow> (Returns (Some err), sm)
           | None \<Rightarrow> (Returns None, sm\<lparr>sm_conns := mput hc \<lparr>hn_ClientID = loginID, hn_Status = Connected, hn_LastError = None\<rparr> (sm_conns sm)\<rparr>))"

section \<open>Middleware and logout\<close>

datatype http_result = ServeSession nat "string option" | RedirectLogin bool bool  \<comment> \<open>cookie removed, htmx\<close>

definition SessionLogout :: "web_env \<Rightarrow> int \<Rightarrow> http_req \<Rightarrow> SessionManager \<Rightarrow> http_result outcome \<times> SessionManager" where
  "SessionLogout W now r sm =
     (case SessionManager_GetSessionFromCookie W now r sm of
        ((_, claims, _), sm1) \<Rightarrow>
          (case (case claims of Some c \<Rightarrow> SessionManager_Close (sc_ID c) sm1 | None \<Rightarrow> (Returns None, sm1)) of
             (Panics p, sm2) \<Rightarrow> (Panics p, sm2)
           | (Returns _, sm2) \<Rightarrow> (Returns (RedirectLogin (rq_Cookie r \<noteq> None) (rq_Htmx r)), sm2)))"

text \<open>\<open>hc\<close> and \<open>obj\<close> are the addresses of the connection and session that may be created.\<close>

definition AddSessionToContext ::
  "web_env \<Rightarrow> int \<Rightarrow> nat \<Rightarrow> nat \<Rightarrow> http_req \<Rightarrow> SessionManager \<Rightarrow> http_result outcome \<times> SessionManager" where
  "AddSessionToContext W now hc obj r sm =
     (case SessionManager_GetSessionFromCookie W now r sm of
        ((cs, claims, err), sm1) \<Rightarrow>
          if (case cs of None \<Rightarrow> False
                | Some s \<Rightarrow> (case mget (sm_heap sm1) s of Some session \<Rightarrow> ClientSession_IsActive sm1 session | None \<Rightarrow> False))
          then (Returns (ServeSession (the cs) None), sm1)
          else (case claims of
                  None \<Rightarrow> SessionLogout W now r sm1
                | Some c \<Rightarrow>
                    (case SessionManager_ConnectWithToken W hc (sc_Subject c) (sc_AuthToken c) sm1 of
                       (Panics p, sm2) \<Rightarrow> (Panics p, sm2)
                     | (Returns (Some err), sm2) \<Rightarrow> SessionLogout W now r sm2
                     | (Returns None, sm2) \<Rightarrow>
                         (case SessionManager_ActivateNewSession W now obj r hc sm2 of
                            (Panics p, sm3) \<Rightarrow> (Panics p, sm3)
                          | (Returns (s, cookie), sm3) \<Rightarrow> (Returns (ServeSession s cookie), sm3)))))"

section \<open>SSE connections\<close>

text \<open>
  The handler of a browser connection: it receives until its channel is closed by the session or the
  browser is gone; in the second case it closes the channel itself. Only then does it take the
  channel out of the session.
\<close>

datatype sse_phase = Receiving | Leaving

record sse_sys =
  sy_sm :: SessionManager
  sy_handlers :: "(nat, nat \<times> sse_phase) gomap"  \<comment> \<open>channel to session object and phase\<close>

definition SseHandler_connect ::
  "web_env \<Rightarrow> int \<Rightarrow> http_req \<Rightarrow> nat \<Rightarrow> sse_sys \<Rightarrow> sse_sys" where
  "SseHandler_connect W now r c sy =
     (case SessionManager_GetSessionFromCookie W now r (sy_sm sy) of
        ((Some obj, _, None), sm1) \<Rightarrow>
          (case mget (sm_heap sm1) obj of
             Some cs \<Rightarrow>
               if ClientSession_IsActive sm1 cs
               then sy\<lparr>sy_sm := ClientSession_AddSSEClient obj c sm1, sy_handlers := mput c (obj, Receiving) (sy_handlers sy)\<rparr>
               else sy\<lparr>sy_sm := sm1\<rparr>
           | None \<Rightarrow> sy\<lparr>sy_sm := sm1\<rparr>)
      | (_, sm1) \<Rightarrow> sy\<lparr>sy_sm := sm1\<rparr>)"

definition SseHandler_browser_gone :: "nat \<Rightarrow> nat \<Rightarrow> sse_sys \<Rightarrow> sse_sys outcome" where
  "SseHandler_browser_gone c obj sy =
     (if c \<in> set (sm_closed (sy_sm sy)) then Panics ClosedChannel
      else Returns (sy\<lparr>sy_sm := (sy_sm sy)\<lparr>sm_closed := c # sm_closed (sy_sm sy)\<rparr>,
                       sy_handlers := mput c (obj, Leaving) (sy_handlers sy)\<rparr>))"

definition SseHandler_leave :: "nat \<Rightarrow> nat \<Rightarrow> sse_sys \<Rightarrow> sse_sys" where
  "SseHandler_leave c obj sy =
     sy\<lparr>sy_sm := ClientSession_RemoveSSEClient obj c (sy_sm sy), sy_handlers := mdel c (sy_handlers sy)\<rparr>"

end
