(* ===== verification/WebView.thy ===== *)
theory WebView
  imports WebSession ThingDescription DirectoryRpc HistoryRpc GoPaths
begin

text \<open>
  Model of the pages of the web server: the template manager of \<open>done_mod/mod_web/web_view/TemplateManager.go\<close> and
  the handlers under \<open>web_view\<close> that log in, show the pages and post a configuration change. Go's template
  package is a record of functions. A page is rendered into a response with its status, headers, cookie and
  body; a handler that panics has not written anything before.
\<close>

section \<open>Requests and responses\<close>

datatype cookie_change = CookieKept | CookieRemoved | CookieSet string

record web_resp =
  wr_Status :: "nat option"
  wr_Header :: "(string \<times> string) list"
  wr_Cookie :: cookie_change
  wr_Body :: string

definition new_resp :: web_resp where
  "new_resp = \<lparr>wr_Status = None, wr_Header = [], wr_Cookie = CookieKept, wr_Body = []\<rparr>"

text \<open>The first status is sent; writing a body sends 200 if none was sent before.\<close>

definition WriteHeader :: "nat \<Rightarrow> web_resp \<Rightarrow> web_resp" where
  "WriteHeader code w = (case wr_Status w of None \<Rightarrow> w\<lparr>wr_Status := Some code\<rparr> | Some _ \<Rightarrow> w)"

definition resp_Write :: "string \<Rightarrow> web_resp \<Rightarrow> web_resp" where
  "resp_Write s w = (let w1 = WriteHeader 200 w in w1\<lparr>wr_Body := wr_Body w1 @ s\<rparr>)"

definition add_header :: "string \<Rightarrow> string \<Rightarrow> web_resp \<Rightarrow> web_resp" where
  "add_header k v w = w\<lparr>wr_Header := wr_Header w @ [(k, v)]\<rparr>"

text \<open>The short text that \<open>http.Redirect\<close> adds for old browsers is left out.\<close>

definition http_Redirect :: "string \<Rightarrow> nat \<Rightarrow> web_resp \<Rightarrow> web_resp" where
  "http_Redirect url code w = WriteHeader code (add_header ''Location'' url w)"

definition http_Error :: "string \<Rightarrow> nat \<Rightarrow> web_resp \<Rightarrow> web_resp" where
  "http_Error msg code w = resp_Write (msg @ [CHR 0x0A]) (WriteHeader code (add_header ''Content-Type'' ''text/plain; charset=utf-8'' w))"

text \<open>The last fields are what the runtime supplies to a request: the time and fresh addresses for a connection, a session
  and a channel.\<close>

record web_req =
  wq_req :: http_req
  wq_Method :: string
  wq_Path :: string
  wq_Boosted :: bool
  wq_Query :: "string \<Rightarrow> string"
  wq_Form :: "string \<Rightarrow> string"
  wq_Param :: "string \<Rightarrow> string"
  wq_now :: int
  wq_newConn :: nat
  wq_newSession :: nat
  wq_newChan :: nat

section \<open>Data of the pages\<close>

record TilePlacement =
  tp_GridX :: int
  tp_GridY :: int
  tp_GridWidth :: int
  tp_GridHeight :: int

record TileIndicator =
  ti_Below :: string
  ti_Above :: string
  ti_Equal :: string
  ti_IndicateAs :: string

record TileSource =
  ts_AgentID :: string
  ts_ThingID :: string
  ts_PropertyName :: string
  ts_Indicator :: TileIndicator

record DashboardTile =
  dt_Title :: string
  dt_Type :: string
  dt_Placement :: TilePlacement
  dt_Sources :: "TileSource list"

record DashboardDefinition =
  dd_ID :: string
  dd_Name :: string
  dd_Tiles :: "DashboardTile list"

record ConnectStatus =
  ct_LoginID :: string
  ct_Description :: string
  ct_IconName :: string
  ct_Error :: string
  ct_IsConnected :: bool

record DirGroup =
  dg_AgentID :: string
  dg_Things :: "TD list"

record DirectoryData =
  dy_Groups :: "(string, DirGroup) gomap"

record DetailsTemplateData =
  dx_AgentID :: string
  dx_ThingID :: string
  dx_MakeModel :: string
  dx_Name :: string
  dx_DeviceType :: string
  dx_TD :: TD
  dx_Attributes :: "(string, PropertyAffordance) gomap"
  dx_Config :: "(string, PropertyAffordance) gomap"
  dx_Values :: ThingValueMap

datatype page_value =
    PageText string
  | PageNumber int
  | PageStatus ConnectStatus
  | PageDirectory DirectoryData
  | PageThing DetailsTemplateData
  | PageConfig "PropertyAffordance option"
  | PageDashboard DashboardDefinition

type_synonym page_data = "(string, page_value) gomap"

section \<open>Templates\<close>

datatype template_fs = EmbeddedViews | DirFS string

text \<open>
  \<open>te_WalkDir\<close> lists the calls of the function that \<open>fs.WalkDir\<close> makes while it returns no error: path, whether it is a
  directory, and the error of reading it. Executing a template gives what it wrote and its error.
\<close>

record 't template_lib =
  te_New :: "string \<Rightarrow> 't"
  te_WalkDir :: "template_fs \<Rightarrow> (string \<times> bool \<times> go_error option) list"
  te_ParseFS :: "'t \<Rightarrow> template_fs \<Rightarrow> string \<Rightarrow> 't"
  te_Lookup :: "'t \<Rightarrow> string \<Rightarrow> 't option"
  te_Clone :: "'t \<Rightarrow> go_error + 't"
  te_AddParseTree :: "'t \<Rightarrow> string \<Rightarrow> 't \<Rightarrow> go_error + 't"
  te_Execute :: "'t \<Rightarrow> page_data \<Rightarrow> string \<times> go_error option"

record 't TemplateManager =
  tm_templatePath :: string
  tm_allTemplates :: "'t option"

definition InitTemplateManager :: "string \<Rightarrow> 't TemplateManager" where
  "InitTemplateManager templatePath = \<lparr>tm_templatePath = templatePath, tm_allTemplates = None\<rparr>"

abbreviation TemplateExt :: string where "TemplateExt \<equiv> ''*.gohtml''"

text \<open>Errors of parsing a directory are only logged; an error of reading the tree ends the walk.\<close>

fun parse_each :: "'t template_lib \<Rightarrow> template_fs \<Rightarrow> (string \<times> bool \<times> go_error option) list \<Rightarrow> 't \<Rightarrow> go_error option \<times> 't" where
  "parse_each L files [] t = (None, t)"
| "parse_each L files ((parent, isDir, err) # es) t =
     (case err of
        Some e \<Rightarrow> (Some e, t)
      | None \<Rightarrow> parse_each L files es (if isDir then te_ParseFS L t files (path_Join parent TemplateExt) else t))"

definition parseTemplateFiles :: "'t template_lib \<Rightarrow> 't \<Rightarrow> template_fs \<Rightarrow> go_error option \<times> 't" where
  "parseTemplateFiles L t files = parse_each L files (te_WalkDir L files) t"

definition template_files :: "'t TemplateManager \<Rightarrow> template_fs" where
  "template_files tm = (if tm_templatePath tm = [] then EmbeddedViews else DirFS (tm_templatePath tm))"

definition TemplateManager_ParseAllTemplates :: "'t template_lib \<Rightarrow> 't TemplateManager \<Rightarrow> 't TemplateManager" where
  "TemplateManager_ParseAllTemplates L tm =
     tm\<lparr>tm_allTemplates := Some (snd (parseTemplateFiles L (te_New L ''hiveot'') (template_files tm)))\<rparr>"

text \<open>The embedded templates are parsed once and cloned, those of a file system are parsed each time.\<close>

definition TemplateManager_GetTemplate ::
  "'t template_lib \<Rightarrow> 't TemplateManager \<Rightarrow> string \<Rightarrow> ('t option \<times> go_error option) outcome" where
  "TemplateManager_GetTemplate L tm name =
     (if tm_templatePath tm = [] then
        (case tm_allTemplates tm of
           None \<Rightarrow> Panics NilDereference
         | Some t \<Rightarrow>
             (case te_Lookup L t name of
                None \<Rightarrow> Returns (None, Some (ErrTemplateNotFound name))
              | Some tpl \<Rightarrow>
                  (case te_Clone L tpl of
                     Inl e \<Rightarrow> Returns (None, Some (ErrCloneTemplate e))
                   | Inr c \<Rightarrow> Returns (Some c, None))))
      else
        (case parseTemplateFiles L (te_New L ''hiveot'') (DirFS (tm_templatePath tm)) of
           (err, t) \<Rightarrow>
             (case te_Lookup L t name of
                None \<Rightarrow> Returns (None, Some (ErrTemplateNotFound name))
              | Some tpl \<Rightarrow> Returns (Some tpl, err))))"

text \<open>The status after a failed rendering only counts when nothing was written.\<close>

definition execute_template :: "'t template_lib \<Rightarrow> (go_error \<Rightarrow> string) \<Rightarrow> 't \<Rightarrow> page_data \<Rightarrow> web_resp \<Rightarrow> web_resp" where
  "execute_template L error_text tpl data w =
     (case te_Execute L tpl data of
        (out, err) \<Rightarrow>
          (let w1 = (if out = [] then w else resp_Write out w) in
           case err of None \<Rightarrow> w1 | Some e \<Rightarrow> resp_Write (''template render error: '' @ error_text e) (WriteHeader 500 w1)))"

definition TemplateManager_RenderFragment ::
  "'t template_lib \<Rightarrow> (go_error \<Rightarrow> string) \<Rightarrow> 't TemplateManager \<Rightarrow> string \<Rightarrow> page_data \<Rightarrow> web_resp \<Rightarrow> web_resp outcome" where
  "TemplateManager_RenderFragment L error_text tm name data w =
     and_then (TemplateManager_GetTemplate L tm name) (\<lambda>(tpl, err).
       case err of
         Some e \<Rightarrow> Returns (resp_Write (error_text e) (WriteHeader 500 w))
       | None \<Rightarrow>
           (case tpl of
              None \<Rightarrow> Panics NilDereference
            | Some t \<Rightarrow> Returns (execute_template L error_text t data w)))"

abbreviation baseTemplateName :: string where "baseTemplateName \<equiv> ''base.gohtml''"

definition TemplateManager_RenderFull ::
  "'t template_lib \<Rightarrow> (go_error \<Rightarrow> string) \<Rightarrow> 't TemplateManager \<Rightarrow> string \<Rightarrow> page_data \<Rightarrow> web_resp \<Rightarrow> web_resp outcome" where
  "TemplateManager_RenderFull L error_text tm name data w =
     and_then (TemplateManager_GetTemplate L tm baseTemplateName) (\<lambda>(baseT, _).
       case baseT of
         None \<Rightarrow> Returns (resp_Write (''template not found: '' @ baseTemplateName) w)
       | Some b \<Rightarrow>
           and_then (TemplateManager_GetTemplate L tm name) (\<lambda>(tpl, err).
             case (case err of
                     Some e \<Rightarrow> Returns (Inl e)
                   | None \<Rightarrow> (case tpl of None \<Rightarrow> Panics NilDereference | Some t \<Rightarrow> Returns (te_AddParseTree L b ''embed'' t))) of
               Panics p \<Rightarrow> Panics p
             | Returns (Inl e) \<Rightarrow> Returns (resp_Write (''template error: '' @ error_text e) (WriteHeader 500 w))
             | Returns (Inr b1) \<Rightarrow> Returns (execute_template L error_text b1 data w)))"

definition TemplateManager_RenderTemplate ::
  "'t template_lib \<Rightarrow> (go_error \<Rightarrow> string) \<Rightarrow> 't TemplateManager \<Rightarrow> web_req \<Rightarrow> string \<Rightarrow> page_data \<Rightarrow> web_resp \<Rightarrow> web_resp outcome" where
  "TemplateManager_RenderTemplate L error_text tm r name data w =
     (if rq_Htmx (wq_req r) \<and> \<not> wq_Boosted r then TemplateManager_RenderFragment L error_text tm name data w
      else TemplateManager_RenderFull L error_text tm name data w)"

end
