(* ===== verification/WebPages.thy ===== *)
theory WebPages
  imports WebView
begin

text \<open>
  The handlers of the web server, \<open>done_mod/mod_web/web_view\<close>: \<open>login\<close>, \<open>app\<close>, \<open>about\<close>, \<open>status\<close>,
  \<open>dashboard\<close>, \<open>directory\<close> and \<open>thing\<close>. A handler gets the session that the middleware put into the context of the request.
  The hub connection of a session is found by the client ID of the connection: \<open>vw_dir\<close> and \<open>vw_hist\<close> are that
  connection as the directory and the history client use it.
\<close>

section \<open>State\<close>

record ('w, 't) web_state =
  ws_sm :: SessionManager
  ws_tm :: "'t TemplateManager"
  ws_hub :: 'w

record ('c, 'w, 't) view_env =
  vw_web :: web_env
  vw_lib :: "'t template_lib"
  vw_text :: "go_error \<Rightarrow> string"
  vw_td :: "string \<Rightarrow> TD \<times> go_error option"             \<comment> \<open>\<open>json.Unmarshal\<close> into a TD\<close>
  vw_PasswordLogin :: "string \<Rightarrow> string \<Rightarrow> go_error option"
  vw_static :: "string \<Rightarrow> web_req \<Rightarrow> web_resp \<Rightarrow> web_resp"    \<comment> \<open>\<open>http.FileServer\<close> on a root path\<close>
  vw_dir :: "string \<Rightarrow> ('c, 'w) dir_link"
  vw_hist :: "string \<Rightarrow> ('c, 'w) hist_link"

type_synonym ('w, 't) web_result = "web_resp outcome \<times> ('w, 't) web_state"

type_synonym ('c, 'w, 't) web_handler =
  "('c, 'w, 't) view_env \<Rightarrow> nat option \<Rightarrow> web_req \<Rightarrow> web_resp \<Rightarrow> ('w, 't) web_state \<Rightarrow> ('w, 't) web_result"

definition GetSessionFromContext :: "nat option \<Rightarrow> go_error + nat" where
  "GetSessionFromContext ctx = (case ctx of None \<Rightarrow> Inl ErrNoSessionInContext | Some obj \<Rightarrow> Inr obj)"

text \<open>The hub connection of a session.\<close>

definition session_conn :: "nat \<Rightarrow> SessionManager \<Rightarrow> hub_conn option" where
  "session_conn obj sm = (case mget (sm_heap sm) obj of None \<Rightarrow> None | Some cs \<Rightarrow> mget (sm_conns sm) (cs_hc cs))"

section \<open>The application page\<close>

abbreviation AppTemplate :: string where "AppTemplate \<equiv> ''app.gohtml''"

definition GetAppHeadProps :: "page_data \<Rightarrow> string \<Rightarrow> string \<Rightarrow> page_data" where
  "GetAppHeadProps data title logo = mput ''title'' (PageText title) (mput ''logo'' (PageText logo) data)"

definition GetConnectStatus :: "(go_error \<Rightarrow> string) \<Rightarrow> nat option \<Rightarrow> SessionManager \<Rightarrow> ConnectStatus outcome" where
  "GetConnectStatus error_text ctx sm =
     (let status = \<lparr>ct_LoginID = [], ct_Description = ''disconnected'', ct_IconName = ''link-off'', ct_Error = [], ct_IsConnected = False\<rparr> in
      case ctx of
        None \<Rightarrow> Returns (status\<lparr>ct_Description := ''Session not established''\<rparr>)
      | Some obj \<Rightarrow>
          (case session_conn obj sm of
             None \<Rightarrow> Panics NilDereference
           | Some cStat \<Rightarrow>
               (let status1 = status\<lparr>ct_LoginID := hn_ClientID cStat,
                      ct_Error := (case hn_LastError cStat of None \<Rightarrow> [] | Some e \<Rightarrow> error_text e)\<rparr>
                in Returns (
                  if hn_Status cStat = Connected
                  then status1\<lparr>ct_IconName := ''link'', ct_Description := ''Connected to the Hub'', ct_IsConnected := True\<rparr>
                  else if hn_Status cStat = ConnectFailed
                  then status1\<lparr>ct_IconName := ''link-off'', ct_Description := ''Connection failed''\<rparr>
                  else if hn_Status cStat = Connecting
                  then status1\<lparr>ct_IconName := ''leak-off'', ct_Description := ''Reconnecting''\<rparr>
                  else status1\<lparr>ct_IconName := ''link-off'', ct_Description := ''unknown''\<rparr>))))"

definition RenderAppPages :: "page_data \<Rightarrow> ('c, 'w, 't) web_handler" where
  "RenderAppPages data E ctx r w st =
     (and_then (GetConnectStatus (vw_text E) ctx (ws_sm st)) (\<lambda>status.
        TemplateManager_RenderFull (vw_lib E) (vw_text E) (ws_tm st) AppTemplate
          (mput ''Status'' (PageStatus status) (GetAppHeadProps data ''HiveOT'' ''/static/logo.svg'')) w), st)"

definition RenderApp :: "('c, 'w, 't) web_handler" where
  "RenderApp = RenderAppPages []"

definition RenderAppOrFragment :: "string \<Rightarrow> page_data \<Rightarrow> ('c, 'w, 't) web_handler" where
  "RenderAppOrFragment fragmentHtml data E ctx r w st =
     (if rq_Htmx (wq_req r) \<and> \<not> wq_Boosted r
      then (TemplateManager_RenderFragment (vw_lib E) (vw_text E) (ws_tm st) fragmentHtml data w, st)
      else RenderAppPages data E ctx r w st)"

definition RenderConnectStatus :: "('c, 'w, 't) web_handler" where
  "RenderConnectStatus E ctx r w st =
     (and_then (GetConnectStatus (vw_text E) ctx (ws_sm st)) (\<lambda>status.
        TemplateManager_RenderTemplate (vw_lib E) (vw_text E) (ws_tm st) r ''connectStatus.gohtml'' [(''Status'', PageStatus status)] w), st)"

definition RenderAbout :: "('c, 'w, 't) web_handler" where
  "RenderAbout = RenderAppOrFragment ''about.gohtml'' []"

definition RenderStatus :: "('c, 'w, 't) web_handler" where
  "RenderStatus E ctx r w st =
     (case GetConnectStatus (vw_text E) ctx (ws_sm st) of
        Panics p \<Rightarrow> (Panics p, st)
      | Returns status \<Rightarrow> RenderAppOrFragment ''status.gohtml'' [(''Status'', PageStatus status)] E ctx r w st)"

definition RenderDashboard :: "('c, 'w, 't) web_handler" where
  "RenderDashboard E ctx r w st =
     (let pageName = (if wq_Param r ''page'' = [] then ''default'' else wq_Param r ''page'') in
      RenderAppOrFragment ''dashboard.gohtml'' [(''Dashboard'', PageDashboard \<lparr>dd_ID = [], dd_Name = pageName, dd_Tiles = []\<rparr>)] E ctx r w st)"

section \<open>Login and logout\<close>

definition no_cache :: "web_resp \<Rightarrow> web_resp" where
  "no_cache w = add_header ''Cache-Control'' ''no-cache, max-age=0, must-revalidate, no-store'' w"

definition RenderLogin :: "('c, 'w, 't) web_handler" where
  "RenderLogin E ctx r w st =
     (let loginError = wq_Query r ''error'';
          data = [(''loginID'', PageText [])] @ (if loginError = [] then [] else [(''error'', PageText loginError)])
      in (TemplateManager_RenderFull (vw_lib E) (vw_text E) (ws_tm st) ''login.gohtml'' data (no_cache w), st))"

text \<open>What \<open>SessionLogout\<close> writes.\<close>

definition logout_response :: "bool \<Rightarrow> bool \<Rightarrow> web_resp \<Rightarrow> web_resp" where
  "logout_response hadCookie htmx w =
     (let w1 = (if hadCookie then w\<lparr>wr_Cookie := CookieRemoved\<rparr> else w) in
      if htmx then http_Redirect ''/login'' 200 (add_header ''hx-redirect'' ''/login'' w1) else http_Redirect ''/login'' 303 w1)"

definition logout_page :: "('c, 'w, 't) web_handler" where
  "logout_page E ctx r w st =
     (case SessionLogout (vw_web E) (wq_now r) (wq_req r) (ws_sm st) of
        (Returns (RedirectLogin hadCookie htmx), sm1) \<Rightarrow> (Returns (logout_response hadCookie htmx w), st\<lparr>ws_sm := sm1\<rparr>)
      | (Returns _, sm1) \<Rightarrow> (Returns w, st\<lparr>ws_sm := sm1\<rparr>)
      | (Panics p, sm1) \<Rightarrow> (Panics p, st\<lparr>ws_sm := sm1\<rparr>))"

definition SessionManager_ConnectWithPassword ::
  "(string \<Rightarrow> string \<Rightarrow> go_error option) \<Rightarrow> nat \<Rightarrow> string \<Rightarrow> string \<Rightarrow> SessionManager \<Rightarrow> go_error option \<times> SessionManager" where
  "SessionManager_ConnectWithPassword login hc loginID password sm =
     (case login loginID password of
        Some err \<Rightarrow> (Some err, sm)
      | None \<Rightarrow> (None, sm\<lparr>sm_conns := mput hc \<lparr>hn_ClientID = loginID, hn_Status = Connected, hn_LastError = None\<rparr> (sm_conns sm)\<rparr>))"

definition set_cookie :: "string option \<Rightarrow> web_resp \<Rightarrow> web_resp" where
  "set_cookie cookie w = (case cookie of None \<Rightarrow> w | Some c \<Rightarrow> w\<lparr>wr_Cookie := CookieSet c\<rparr>)"

definition PostLogin :: "('c, 'w, 't) web_handler" where
  "PostLogin E ctx r w st =
     (let loginID = wq_Form r ''loginID''; password = wq_Form r ''password'' in
      if loginID = [] \<and> password = [] then (Returns (http_Redirect ''/'' 400 w), st)
      else
        (case SessionManager_ConnectWithPassword (vw_PasswordLogin E) (wq_newConn r) loginID password (ws_sm st) of
           (Some err, sm1) \<Rightarrow> (Returns (http_Redirect (''/login?error='' @ vw_text E err) 303 (no_cache w)), st\<lparr>ws_sm := sm1\<rparr>)
         | (None, sm1) \<Rightarrow>
             (case SessionManager_ActivateNewSession (vw_web E) (wq_now r) (wq_newSession r) (wq_req r) (wq_newConn r) sm1 of
                (Panics p, sm2) \<Rightarrow> (Panics p, st\<lparr>ws_sm := sm2\<rparr>)
              | (Returns (_, cookie), sm2) \<Rightarrow>
                  (Returns (http_Redirect ''/'' 303 (no_cache (set_cookie cookie w))), st\<lparr>ws_sm := sm2\<rparr>))))"

section \<open>The directory\<close>

fun group_things :: "(string \<Rightarrow> TD \<times> go_error option) \<Rightarrow> ThingValue list \<Rightarrow> (string, DirGroup) gomap \<Rightarrow> (string, DirGroup) gomap" where
  "group_things unm [] groups = groups"
| "group_things unm (tv # tvs) groups =
     (let grp = (case mget groups (SenderID tv) of Some g \<Rightarrow> g | None \<Rightarrow> \<lparr>dg_AgentID = SenderID tv, dg_Things = []\<rparr>);
          grp1 = (case unm (bytes_of (Data tv)) of (td, None) \<Rightarrow> grp\<lparr>dg_Things := dg_Things grp @ [td]\<rparr> | (_, Some _) \<Rightarrow> grp)
      in group_things unm tvs (mput (SenderID tv) grp1 groups))"

text \<open>\<open>sort.Slice\<close> leaves the order of equal keys open; here it is kept.\<close>

definition sortByPublisher :: "(string \<Rightarrow> TD \<times> go_error option) \<Rightarrow> ThingValue list \<Rightarrow> DirectoryData" where
  "sortByPublisher unm tvList = \<lparr>dy_Groups = group_things unm (sort_key (\<lambda>tv. AgentID tv @ ThingID tv) tvList) []\<rparr>"

abbreviation DirectoryTemplate :: string where "DirectoryTemplate \<equiv> ''directory.gohtml''"

text \<open>A directory that cannot be loaded logs the user out, like a missing session.\<close>

definition RenderDirectory :: "('c, 'w, 't) web_handler" where
  "RenderDirectory E ctx r w st =
     (case GetSessionFromContext ctx of
        Inl _ \<Rightarrow> logout_page E ctx r w st
      | Inr obj \<Rightarrow>
          (case session_conn obj (ws_sm st) of
             None \<Rightarrow> (Panics NilDereference, st)
           | Some hc \<Rightarrow>
               (case ReadDirectoryClient_GetTDs (vw_dir E (hn_ClientID hc)) 0 100 (ws_hub st) of
                  ((thingsList, None), hub1) \<Rightarrow>
                    RenderAppOrFragment DirectoryTemplate
                      [(''Directory'', PageDirectory (sortByPublisher (vw_td E) thingsList)), (''PageNr'', PageNumber 1)]
                      E ctx r w (st\<lparr>ws_hub := hub1\<rparr>)
                | ((_, Some err), hub1) \<Rightarrow> logout_page E ctx r w (st\<lparr>ws_hub := hub1\<rparr>))))"

section \<open>Things\<close>

text \<open>The latest values, by the name each value carries; a missing value is made an empty one.\<close>

definition getLatest ::
  "('c, 'w) hist_link \<Rightarrow> string \<Rightarrow> string \<Rightarrow> 'w \<Rightarrow> (ThingValueMap \<times> go_error option) \<times> 'w" where
  "getLatest hl agentID thingID hub =
     (case ReadHistoryClient_GetLatest hl agentID thingID [] hub of
        ((tvs, Some err), hub1) \<Rightarrow> ((NewThingValueMap, Some err), hub1)
      | ((tvs, None), hub1) \<Rightarrow>
          ((fold (\<lambda>(k, tv) data. ThingValueMap_Set (Name tv) (tv\<lparr>Data := Some (bytes_of (Data tv))\<rparr>) data) tvs NewThingValueMap, None), hub1))"

abbreviation PropDeviceMake :: string where "PropDeviceMake \<equiv> ''ht:prop:device:make''"
abbreviation PropDeviceModel :: string where "PropDeviceModel \<equiv> ''ht:prop:device:model''"
abbreviation PropDeviceTitle :: string where "PropDeviceTitle \<equiv> ''ht:prop:device:title''"

text \<open>The data of the page from the document and the latest values.\<close>

definition thing_details :: "string \<Rightarrow> string \<Rightarrow> TD \<Rightarrow> ThingValueMap \<Rightarrow> DetailsTemplateData" where
  "thing_details agentID thingID td propMap =
     (let props = (case td_Properties td of None \<Rightarrow> [] | Some m \<Rightarrow> m);
          makeValue = ThingValueMap_Get propMap (fst (TD_GetPropertyOfType PropDeviceMake td));
          modelValue = ThingValueMap_Get propMap (fst (TD_GetPropertyOfType PropDeviceModel td));
          title = ThingValueMap_ToString propMap PropDeviceTitle
      in \<lparr>dx_AgentID = agentID, dx_ThingID = thingID,
          dx_MakeModel = (case makeValue of None \<Rightarrow> [] | Some tv \<Rightarrow> bytes_of (Data tv) @ '', '')
            @ (case modelValue of None \<Rightarrow> [] | Some tv \<Rightarrow> bytes_of (Data tv)),
          dx_Name = (if title = [] then td_Title td else title), dx_DeviceType = td_AtType td, dx_TD = td,
          dx_Attributes = filter (\<lambda>(k, prop). ds_ReadOnly (pa_DataSchema prop)) props,
          dx_Config = filter (\<lambda>(k, prop). \<not> ds_ReadOnly (pa_DataSchema prop)) props, dx_Values = propMap\<rparr>)"

definition zero_TD :: TD where
  "zero_TD = \<lparr>td_AtContext = [], td_AtType = [], td_AtTypes = [], td_Created = [], td_Description = [], td_Descriptions = [], td_ID = [],
     td_Modified = [], td_Support = [], td_Title = [], td_Titles = [], td_Properties = None, td_Actions = None, td_Events = None,
     td_Forms = [], td_Security = [], td_SecurityDefinitions = []\<rparr>"

definition empty_details :: "string \<Rightarrow> string \<Rightarrow> DetailsTemplateData" where
  "empty_details agentID thingID =
     \<lparr>dx_AgentID = agentID, dx_ThingID = thingID, dx_MakeModel = [], dx_Name = [], dx_DeviceType = [], dx_TD = zero_TD,
      dx_Attributes = [], dx_Config = [], dx_Values = []\<rparr>"

text \<open>Errors are only logged: the page then shows what was loaded.\<close>

definition RenderThingDetails :: "('c, 'w, 't) web_handler" where
  "RenderThingDetails E ctx r w st =
     (let agentID = wq_Param r ''agentID''; thingID = wq_Param r ''thingID'';
          page = (\<lambda>details. RenderAppOrFragment ''thingDetails.gohtml'' [(''Thing'', PageThing details), (''Title'', PageText ''details of thing'')] E ctx r w)
      in case GetSessionFromContext ctx of
           Inl _ \<Rightarrow> page (empty_details agentID thingID) st
         | Inr obj \<Rightarrow>
             (case session_conn obj (ws_sm st) of
                None \<Rightarrow> (Panics NilDereference, st)
              | Some hc \<Rightarrow>
                  (case ReadDirectoryClient_GetTD (vw_dir E (hn_ClientID hc)) agentID thingID (ws_hub st) of
                     ((tv, Some err), hub1) \<Rightarrow> page (empty_details agentID thingID) (st\<lparr>ws_hub := hub1\<rparr>)
                   | ((tv, None), hub1) \<Rightarrow>
                       (case getLatest (vw_hist E (hn_ClientID hc)) agentID thingID hub1 of
                          ((propMap, _), hub2) \<Rightarrow>
                            page (thing_details agentID thingID (fst (vw_td E (bytes_of (Data tv)))) propMap) (st\<lparr>ws_hub := hub2\<rparr>)))))"

text \<open>The property and its latest value, as far as they are found.\<close>

definition edit_config_values ::
  "('c, 'w, 't) view_env \<Rightarrow> string \<Rightarrow> string \<Rightarrow> string \<Rightarrow> string \<Rightarrow> 'w \<Rightarrow> (PropertyAffordance option \<times> string) \<times> 'w" where
  "edit_config_values E client agentID thingID propKey hub =
     (case ReadDirectoryClient_GetTD (vw_dir E client) agentID thingID hub of
        ((tv, Some err), hub1) \<Rightarrow> ((None, []), hub1)
      | ((tv, None), hub1) \<Rightarrow>
          (case vw_td E (bytes_of (Data tv)) of
             (td, Some err) \<Rightarrow> ((None, []), hub1)
           | (td, None) \<Rightarrow>
               (case ReadHistoryClient_GetLatest (vw_hist E client) agentID thingID [propKey] hub1 of
                  ((tvs, _), hub2) \<Rightarrow> ((TD_GetProperty propKey td, ThingValueMap_ToString tvs propKey), hub2))))"

definition RenderEditThingConfig :: "('c, 'w, 't) web_handler" where
  "RenderEditThingConfig E ctx r w st =
     (let agentID = wq_Query r ''agentID''; thingID = wq_Query r ''thingID''; propKey = wq_Query r ''key'';
          page = (\<lambda>(prop, val). RenderAppOrFragment ''editConfig.gohtml'' [(''AgentID'', PageText agentID), (''ThingID'', PageText thingID),
             (''Key'', PageText propKey), (''Config'', PageConfig prop), (''Value'', PageText val)] E ctx r w)
      in case GetSessionFromContext ctx of
           Inl _ \<Rightarrow> page (None, []) st
         | Inr obj \<Rightarrow>
             (case session_conn obj (ws_sm st) of
                None \<Rightarrow> (Panics NilDereference, st)
              | Some hc \<Rightarrow>
                  (case edit_config_values E (hn_ClientID hc) agentID thingID propKey (ws_hub st) of
                     (result, hub1) \<Rightarrow> page result (st\<lparr>ws_hub := hub1\<rparr>))))"

text \<open>The session is used before the error of getting it is tested. The result is also sent to the browser as an event.\<close>

definition notify_session :: "nat \<Rightarrow> string \<Rightarrow> web_resp \<Rightarrow> ('w, 't) web_state \<Rightarrow> ('w, 't) web_result" where
  "notify_session obj payload w st =
     (case ClientSession_SendSSE obj \<lparr>se_Event = ''notify'', se_Payload = payload\<rparr> (ws_sm st) of
        (Panics p, sm1) \<Rightarrow> (Panics p, st\<lparr>ws_sm := sm1\<rparr>)
      | (Returns _, sm1) \<Rightarrow> (Returns w, st\<lparr>ws_sm := sm1\<rparr>))"

definition PostThingConfig :: "('c, 'w, 't) web_handler" where
  "PostThingConfig E ctx r w st =
     (let agentID = wq_Param r ''agentID''; thingID = wq_Param r ''thingID''; propKey = wq_Param r ''propKey''; val = wq_Form r ''value'' in
      case ctx of
        None \<Rightarrow> (Panics NilDereference, st)
      | Some obj \<Rightarrow>
          (case session_conn obj (ws_sm st) of
             None \<Rightarrow> (Panics NilDereference, st)
           | Some hc \<Rightarrow>
               (case vw_dir E (hn_ClientID hc) of
                  (tp, _, client) \<Rightarrow>
                    (case HubClient_PubConfig tp client agentID thingID propKey (Some val) (ws_hub st) of
                       (Some err, hub1) \<Rightarrow>
                         notify_session obj (''error:'' @ vw_text E err) (http_Error (vw_text E err) 500 w) (st\<lparr>ws_hub := hub1\<rparr>)
                     | (None, hub1) \<Rightarrow>
                         notify_session obj (''success: Configuration '' @ [CHR 0x27] @ propKey @ [CHR 0x27] @ '' updated'')
                           (WriteHeader 200 w) (st\<lparr>ws_hub := hub1\<rparr>)))))"

end
