(* ===== verification/WebServer.thy ===== *)
theory WebServer
  imports WebPages AuthRpc
begin

text \<open>
  The web server, \<open>done_mod/mod_web/web_srv/HiveovService.go\<close>: its routes, the handler that opens an SSE connection
  (\<open>web_session/SseHandler.go\<close>), the middleware that adds the session to a request, and starting and stopping the service. The choice of a
  route by the router (chi) is a parameter: it gets the methods and patterns that are registered. Logging
  and compression are left out.
\<close>

section \<open>Opening an SSE connection\<close>

definition sse_headers :: "web_resp \<Rightarrow> web_resp" where
  "sse_headers w = add_header ''Connection'' ''keep-alive'' (add_header ''Content-Type'' ''text/event-stream''
     (add_header ''Cache-Control'' ''private, no-cache, no-store, must-revalidate, max-age=0, no-transform''
       (add_header ''Access-Control-Expose-Headers'' ''Content-Type'' w)))"

text \<open>
  A request without an active session is refused; the status 401 comes after the body and has no effect. Otherwise the
  connection stays open, and what it does from then on are the steps of \<open>WebSession\<close>.
\<close>

definition SseHandler :: "('c, 'w, 't) web_handler" where
  "SseHandler E ctx r w st =
     (case SessionManager_GetSessionFromCookie (vw_web E) (wq_now r) (wq_req r) (ws_sm st) of
        ((cs, claims, err), sm1) \<Rightarrow>
          (case (case cs of None \<Rightarrow> None | Some obj \<Rightarrow>
                   (case mget (sm_heap sm1) obj of
                      None \<Rightarrow> None
                    | Some session \<Rightarrow> if ClientSession_IsActive sm1 session \<and> err = None then Some obj else None)) of
             None \<Rightarrow> (Returns (WriteHeader 401 (resp_Write (''retry: 30000'' @ [CHR 0x0A] @ ''event:logout'' @ [CHR 0x0A, CHR 0x0A]) (sse_headers w))),
                      st\<lparr>ws_sm := sm1\<rparr>)
           | Some obj \<Rightarrow> (Returns (sse_headers w), st\<lparr>ws_sm := ClientSession_AddSSEClient obj (wq_newChan r) sm1\<rparr>)))"

section \<open>Routes\<close>

record ('c, 'w, 't) route =
  rt_Method :: string
  rt_Pattern :: string
  rt_private :: bool
  rt_handler :: "('c, 'w, 't) web_handler"

abbreviation GET :: "bool \<Rightarrow> string \<Rightarrow> ('c, 'w, 't) web_handler \<Rightarrow> ('c, 'w, 't) route" where
  "GET private pattern h \<equiv> \<lparr>rt_Method = ''GET'', rt_Pattern = pattern, rt_private = private, rt_handler = h\<rparr>"

abbreviation POST :: "bool \<Rightarrow> string \<Rightarrow> ('c, 'w, 't) web_handler \<Rightarrow> ('c, 'w, 't) route" where
  "POST private pattern h \<equiv> \<lparr>rt_Method = ''POST'', rt_Pattern = pattern, rt_private = private, rt_handler = h\<rparr>"

text \<open>Static files come from the embedded file system if the root path is empty.\<close>

definition static_files :: "string \<Rightarrow> ('c, 'w, 't) web_handler" where
  "static_files rootPath E ctx r w st = (Returns (vw_static E rootPath r w), st)"

definition createRoutes :: "string \<Rightarrow> ('c, 'w, 't) route list" where
  "createRoutes rootPath =
     [GET False ''/static/*'' (static_files rootPath),
      GET False ''/webcomp/*'' (static_files rootPath),
      GET False ''/login'' RenderLogin,
      POST False ''/login'' PostLogin,
      GET False ''/logout'' logout_page,
      GET False ''/sse'' SseHandler,
      GET True ''/'' RenderApp,
      GET True ''/app/about'' RenderAbout,
      GET True ''/app/connectStatus'' RenderConnectStatus,
      GET True ''/app/dashboard'' RenderDashboard,
      GET True ''/app/dashboard/{page}'' RenderDashboard,
      GET True ''/app/directory'' RenderDirectory,
      GET True ''/app/thing/{agentID}/{thingID}'' RenderThingDetails,
      GET True ''/app/thing/editConfig'' RenderEditThingConfig,
      POST True ''/app/thing/{agentID}/{thingID}/{propKey}'' PostThingConfig,
      GET True ''/app/status'' RenderStatus]"

text \<open>\<open>middleware.Recoverer\<close> answers a panic with 500; the cookie that was set before is kept.\<close>

definition recovered :: "web_resp \<Rightarrow> ('w, 't) web_result \<Rightarrow> web_resp \<times> ('w, 't) web_state" where
  "recovered w res = (case res of (Returns w1, st) \<Rightarrow> (w1, st) | (Panics _, st) \<Rightarrow> (WriteHeader 500 w, st))"

text \<open>The handler of a private route runs with the session that the middleware finds or makes, and only then.\<close>

definition with_session ::
  "('c, 'w, 't) web_handler \<Rightarrow> ('c, 'w, 't) view_env \<Rightarrow> web_req \<Rightarrow> ('w, 't) web_state \<Rightarrow> web_resp \<times> ('w, 't) web_state" where
  "with_session h E r st =
     (case AddSessionToContext (vw_web E) (wq_now r) (wq_newConn r) (wq_newSession r) (wq_req r) (ws_sm st) of
        (Panics p, sm1) \<Rightarrow> recovered new_resp (Panics p, st\<lparr>ws_sm := sm1\<rparr>)
      | (Returns (RedirectLogin hadCookie htmx), sm1) \<Rightarrow> (logout_response hadCookie htmx new_resp, st\<lparr>ws_sm := sm1\<rparr>)
      | (Returns (ServeSession obj cookie), sm1) \<Rightarrow>
          (let w = set_cookie cookie new_resp in recovered w (h E (Some obj) r w (st\<lparr>ws_sm := sm1\<rparr>))))"

type_synonym router = "(string \<times> string) list \<Rightarrow> string \<Rightarrow> string \<Rightarrow> ((string \<times> string) \<times> (string \<Rightarrow> string)) option"

definition serve_request ::
  "router \<Rightarrow> ('c, 'w, 't) route list \<Rightarrow> ('c, 'w, 't) view_env \<Rightarrow> web_req \<Rightarrow> ('w, 't) web_state \<Rightarrow> web_resp \<times> ('w, 't) web_state" where
  "serve_request chi routes E r st =
     (case chi (map (\<lambda>rt. (rt_Method rt, rt_Pattern rt)) routes) (wq_Method r) (wq_Path r) of
        None \<Rightarrow> (WriteHeader 404 new_resp, st)
      | Some (chosen, params) \<Rightarrow>
          (case find (\<lambda>rt. (rt_Method rt, rt_Pattern rt) = chosen) routes of
             None \<Rightarrow> (WriteHeader 404 new_resp, st)
           | Some rt \<Rightarrow>
               (let r1 = r\<lparr>wq_Param := params\<rparr> in
                if rt_private rt then with_session (rt_handler rt) E r1 st else recovered new_resp (rt_handler rt E None r1 new_resp st))))"

section \<open>The service\<close>

abbreviation HiveoviewServiceID :: string where "HiveoviewServiceID \<equiv> ''hiveoview''"

record 't HiveovService =
  hs_port :: nat
  hs_shouldUpdate :: bool
  hs_rootPath :: string
  hs_tm :: "'t TemplateManager"
  hs_debug :: bool

definition NewHiveovService :: "nat \<Rightarrow> bool \<Rightarrow> string \<Rightarrow> 't HiveovService" where
  "NewHiveovService serverPort debug rootPath =
     \<lparr>hs_port = serverPort, hs_shouldUpdate = True, hs_rootPath = rootPath,
      hs_tm = InitTemplateManager (if rootPath \<noteq> [] then path_Join rootPath ''views'' else rootPath), hs_debug = debug\<rparr>"

definition CreateHiveoviewTD :: "string \<Rightarrow> TD outcome" where
  "CreateHiveoviewTD now =
     TD_AddEvent ''activeSessions'' [] ''Nr Sessions'' ''Number of currently active sessions'' (Some (schema_of [] [] WoTDataTypeInteger False []))
       (NewTD now HiveoviewServiceID ''Web Server'' ''ht:thing:service'')"

text \<open>
  \<open>Start\<close> sets the permissions and publishes the document of the service, whose errors are only logged, parses the templates and makes the routes. The
  manager starts without sessions.
\<close>

definition HiveovService_Start ::
  "'t template_lib \<Rightarrow> (TD \<Rightarrow> string) \<Rightarrow> string \<Rightarrow> ('c, 'w) auth_link \<Rightarrow> 't HiveovService \<Rightarrow> 'w
     \<Rightarrow> (('d, 'w, 't) route list \<times> 't HiveovService \<times> ('w, 't) web_state) outcome" where
  "HiveovService_Start L td_json now cl svc w =
     (case cl of (tp, ser, hc) \<Rightarrow>
        (case ProfileClient_SetServicePermissions cl HiveoviewServiceID [ClientRoleAdmin, ClientRoleService] w of
           (_, w1) \<Rightarrow>
             and_then (CreateHiveoviewTD now) (\<lambda>myTD.
               (case HubClient_PubEvent tp hc HiveoviewServiceID EventNameTD (Some (td_json myTD)) w1 of
                  (_, w2) \<Rightarrow>
                    (let tm = TemplateManager_ParseAllTemplates L (hs_tm svc) in
                     Returns (createRoutes (hs_rootPath svc), svc\<lparr>hs_tm := tm\<rparr>,
                       \<lparr>ws_sm = \<lparr>sm_sessions = [], sm_heap = [], sm_conns = [], sm_closed = [], sm_out = []\<rparr>, ws_tm = tm, ws_hub = w2\<rparr>))))))"

end
