(* ===== verification/WebSessionProps.thy ===== *)
theory WebSessionProps
  imports WebSession
begin

text \<open>
  Properties of the browser sessions: the invariant that ties the channels of a session to the
  handlers of its browser connections, what it says of sending an event and of closing a session
  while a browser leaves, and the life of a session cookie from login to logout and after.
\<close>

section \<open>Sending and closing\<close>

lemma send_each_open:
  "set cs \<inter> set (sm_closed sm) = {} \<Longrightarrow>
     send_each cs ev sm = (Returns (), sm\<lparr>sm_out := sm_out sm @ map (\<lambda>c. (c, ev)) cs\<rparr>)"
  by (induction cs ev sm rule: send_each.induct) auto

lemma send_each_panics:
  "fst (send_each cs ev sm) = Panics ClosedChannel \<longleftrightarrow> set cs \<inter> set (sm_closed sm) \<noteq> {}"
  by (induction cs ev sm rule: send_each.induct) auto

lemma send_each_frame:
  "send_each cs ev sm = (r, sm1) \<Longrightarrow> \<exists>out. sm1 = sm\<lparr>sm_out := sm_out sm @ out\<rparr>"
proof (induction cs ev sm rule: send_each.induct)
  case (1 ev sm)
  then show ?case by (auto intro: exI [of _ "[]"])
next
  case (2 c cs ev sm)
  then show ?case
  proof (cases "c \<in> set (sm_closed sm)")
    case True
    then show ?thesis using 2 by (auto intro: exI [of _ "[]"])
  qed (use 2 in auto)
qed

lemma close_each_open:
  "distinct cs \<Longrightarrow> set cs \<inter> set (sm_closed sm) = {} \<Longrightarrow>
     close_each cs sm = (Returns (), sm\<lparr>sm_closed := rev cs @ sm_closed sm\<rparr>)"
  by (induction cs sm rule: close_each.induct) auto

lemma close_each_panics:
  "distinct cs \<Longrightarrow> fst (close_each cs sm) = Panics ClosedChannel \<longleftrightarrow> set cs \<inter> set (sm_closed sm) \<noteq> {}"
  by (induction cs sm rule: close_each.induct) auto

section \<open>The invariant\<close>

text \<open>
  The channels of a session object are those of its handlers that are still receiving on an open
  channel, and of those that leave and have closed it.
\<close>

definition sse_inv :: "(nat, nat \<times> sse_phase) gomap \<Rightarrow> SessionManager \<Rightarrow> bool" where
  "sse_inv hs sm \<longleftrightarrow>
     (\<forall>sid obj. mget (sm_sessions sm) sid = Some obj \<longrightarrow> mget (sm_heap sm) obj \<noteq> None)
     \<and> (\<forall>obj cs. mget (sm_heap sm) obj = Some cs \<longrightarrow> distinct (cs_sse cs)
          \<and> (\<forall>c. c \<in> set (cs_sse cs) \<longleftrightarrow> mget hs c = Some (obj, Leaving)
               \<or> mget hs c = Some (obj, Receiving) \<and> c \<notin> set (sm_closed sm)))
     \<and> (\<forall>c obj ph. mget hs c = Some (obj, ph) \<longrightarrow> mget (sm_heap sm) obj \<noteq> None
          \<and> (ph = Leaving \<longrightarrow> c \<in> set (sm_closed sm)))"

lemma sse_invI:
  assumes "\<And>sid obj. mget (sm_sessions sm) sid = Some obj \<Longrightarrow> mget (sm_heap sm) obj \<noteq> None"
    "\<And>obj cs. mget (sm_heap sm) obj = Some cs \<Longrightarrow> distinct (cs_sse cs)"
    "\<And>obj cs c. mget (sm_heap sm) obj = Some cs \<Longrightarrow> c \<in> set (cs_sse cs) \<longleftrightarrow> mget hs c = Some (obj, Leaving)
               \<or> mget hs c = Some (obj, Receiving) \<and> c \<notin> set (sm_closed sm)"
    "\<And>c obj ph. mget hs c = Some (obj, ph) \<Longrightarrow> mget (sm_heap sm) obj \<noteq> None"
    "\<And>c obj. mget hs c = Some (obj, Leaving) \<Longrightarrow> c \<in> set (sm_closed sm)"
  shows "sse_inv hs sm"
  unfolding sse_inv_def using assms by blast

lemma sse_invD:
  assumes "sse_inv hs sm"
  shows "mget (sm_sessions sm) sid = Some obj \<Longrightarrow> \<exists>cs. mget (sm_heap sm) obj = Some cs"
    and "mget (sm_heap sm) obj = Some cs \<Longrightarrow> distinct (cs_sse cs)"
    and "mget (sm_heap sm) obj = Some cs \<Longrightarrow> c \<in> set (cs_sse cs) \<longleftrightarrow> mget hs c = Some (obj, Leaving)
               \<or> mget hs c = Some (obj, Receiving) \<and> c \<notin> set (sm_closed sm)"
    and "mget hs c = Some (obj, ph) \<Longrightarrow> \<exists>cs. mget (sm_heap sm) obj = Some cs"
    and "mget hs c = Some (obj, Leaving) \<Longrightarrow> c \<in> set (sm_closed sm)"
proof -
  show "\<exists>cs. mget (sm_heap sm) obj = Some cs" if "mget (sm_sessions sm) sid = Some obj"
    using assms that unfolding sse_inv_def by auto
  show "distinct (cs_sse cs)" if "mget (sm_heap sm) obj = Some cs"
    using assms that unfolding sse_inv_def by auto
  show "c \<in> set (cs_sse cs) \<longleftrightarrow> mget hs c = Some (obj, Leaving)
               \<or> mget hs c = Some (obj, Receiving) \<and> c \<notin> set (sm_closed sm)" if "mget (sm_heap sm) obj = Some cs"
    using assms that unfolding sse_inv_def by blast
  show "\<exists>cs. mget (sm_heap sm) obj = Some cs" if "mget hs c = Some (obj, ph)"
    using assms that unfolding sse_inv_def by blast
  show "c \<in> set (sm_closed sm)" if "mget hs c = Some (obj, Leaving)"
    using assms that unfolding sse_inv_def by blast
qed

text \<open>The channels on which a send would panic are those of the handlers that leave.\<close>

lemma sse_inv_closed_channels:
  assumes "sse_inv hs sm" "mget (sm_heap sm) obj = Some cs"
  shows "set (cs_sse cs) \<inter> set (sm_closed sm) = {c. mget hs c = Some (obj, Leaving)}"
  using sse_invD(3) [OF assms] sse_invD(5) [OF assms(1)] by blast

section \<open>Operations keep it\<close>

lemma update_session_same:
  assumes "sse_inv hs sm" "\<And>cs. cs_sse (f cs) = cs_sse cs"
  shows "sse_inv hs (update_session obj f sm)"
proof (cases "mget (sm_heap sm) obj")
  case (Some s)
  show ?thesis
    by (rule sse_invI)
      (use assms(2) sse_invD [OF assms(1)] Some in \<open>auto simp: update_session_def mget_mput split: if_splits\<close>)
qed (simp add: update_session_def assms(1))

lemma sse_inv_conns: "sse_inv hs sm \<Longrightarrow> sse_inv hs (sm\<lparr>sm_conns := cn\<rparr>)"
  by (simp add: sse_inv_def)

lemma sse_inv_out: "sse_inv hs sm \<Longrightarrow> sse_inv hs (sm\<lparr>sm_out := ou\<rparr>)"
  by (simp add: sse_inv_def)

lemma GetSession_keeps:
  "sse_inv hs sm \<Longrightarrow> SessionManager_GetSession now sid sm = (r, sm1) \<Longrightarrow> sse_inv hs sm1"
  by (auto simp: SessionManager_GetSession_def update_session_same split: if_splits option.splits)

lemma GetSessionFromCookie_keeps:
  "sse_inv hs sm \<Longrightarrow> SessionManager_GetSessionFromCookie W now r sm = (x, sm1) \<Longrightarrow> sse_inv hs sm1"
  by (auto simp: SessionManager_GetSessionFromCookie_def GetSession_keeps split: prod.splits option.splits)

lemma SendSSE_keeps:
  "sse_inv hs sm \<Longrightarrow> ClientSession_SendSSE obj ev sm = (r, sm1) \<Longrightarrow> sse_inv hs sm1"
  by (auto simp: ClientSession_SendSSE_def split: option.splits dest!: send_each_frame intro: sse_inv_out)

lemma disconnect_frame [simp]:
  "sm_sessions (disconnect hc sm) = sm_sessions sm" "sm_heap (disconnect hc sm) = sm_heap sm"
  "sm_closed (disconnect hc sm) = sm_closed sm" "sm_out (disconnect hc sm) = sm_out sm"
  by (simp_all add: disconnect_def split: option.splits)

text \<open>Closing a session with no browser leaving closes its channels and empties its list.\<close>

lemma ClientSession_Close_ok:
  assumes "sse_inv hs sm" "mget (sm_heap sm) obj = Some cs" "\<And>c. mget hs c \<noteq> Some (obj, Leaving)"
  shows "ClientSession_Close obj sm =
    (Returns (), (disconnect (cs_hc cs) (sm\<lparr>sm_closed := rev (cs_sse cs) @ sm_closed sm\<rparr>))
      \<lparr>sm_heap := mput obj (cs\<lparr>cs_sse := []\<rparr>) (sm_heap sm)\<rparr>)"
  using close_each_open [OF sse_invD(2) [OF assms(1,2)]] sse_inv_closed_channels [OF assms(1,2)] assms(2,3)
  by (simp add: ClientSession_Close_def update_session_def)

lemma ClientSession_Close_panics:
  assumes "sse_inv hs sm" "mget (sm_heap sm) obj = Some cs"
  shows "fst (ClientSession_Close obj sm) = Panics ClosedChannel \<longleftrightarrow> (\<exists>c. mget hs c = Some (obj, Leaving))"
proof -
  have "fst (close_each (cs_sse cs) sm) = Panics ClosedChannel \<longleftrightarrow> (\<exists>c. mget hs c = Some (obj, Leaving))"
    using close_each_panics [OF sse_invD(2) [OF assms]] sse_inv_closed_channels [OF assms] by auto
  then show ?thesis
    by (auto simp: ClientSession_Close_def assms(2) split: prod.splits outcome.splits)
qed

lemma ClientSession_Close_keeps:
  assumes "sse_inv hs sm" "mget (sm_heap sm) obj = Some cs" "ClientSession_Close obj sm = (Returns u, sm1)"
  shows "sse_inv hs sm1"
proof -
  have no: "mget hs c \<noteq> Some (obj, Leaving)" for c
    using ClientSession_Close_panics [OF assms(1,2)] assms(3) by auto
  have sm1: "sm1 = (disconnect (cs_hc cs) (sm\<lparr>sm_closed := rev (cs_sse cs) @ sm_closed sm\<rparr>))
      \<lparr>sm_heap := mput obj (cs\<lparr>cs_sse := []\<rparr>) (sm_heap sm)\<rparr>"
    using ClientSession_Close_ok [OF assms(1,2) no] assms(3) by simp
  note inv = sse_invD [OF assms(1)]
  have other: "c \<notin> set (cs_sse cs)" if "mget hs c = Some (o2, ph)" "o2 \<noteq> obj" for c o2 ph
    using inv(3) [OF assms(2), of c] that by auto
  show ?thesis unfolding sm1
  proof (rule sse_invI, goal_cases)
    case (3 o2 s c)
    then show ?case
    proof (cases "o2 = obj")
      case True
      with 3 show ?thesis using inv(3) [OF assms(2), of c] no by (auto simp: mget_mput)
    next
      case False
      with 3 show ?thesis using inv(3) [of o2 s c] other by (auto simp: mget_mput)
    qed
  qed (use inv(1,2,4,5) in \<open>auto simp: mget_mput split: if_splits\<close>)
qed

lemma SessionManager_Close_keeps:
  assumes "sse_inv hs sm" "SessionManager_Close sid sm = (Returns e, sm1)"
  shows "sse_inv hs sm1"
proof (cases "mget (sm_sessions sm) sid")
  case None
  then show ?thesis using assms by (simp add: SessionManager_Close_def)
next
  case (Some obj)
  obtain cs where cs: "mget (sm_heap sm) obj = Some cs" using sse_invD(1) [OF assms(1) Some] by auto
  obtain u sm2 where c: "ClientSession_Close obj sm = (Returns u, sm2)" "sm1 = sm2\<lparr>sm_sessions := mdel sid (sm_sessions sm2)\<rparr>"
    using assms(2) Some by (auto simp: SessionManager_Close_def split: prod.splits outcome.splits)
  have "sse_inv hs sm2" by (rule ClientSession_Close_keeps [OF assms(1) cs c(1)])
  then show ?thesis using c(2) by (auto simp: sse_inv_def mget_mdel)
qed

lemma NewClientSession_keeps:
  assumes "sse_inv hs sm" "mget (sm_heap sm) obj = None"
  shows "sse_inv hs (NewClientSession W now obj sid hc addr sm)"
  by (rule sse_invI)
    (use sse_invD [OF assms(1)] assms(2) in \<open>fastforce simp: NewClientSession_def Let_def mget_mput split: if_splits\<close>)+

lemma NewClientSession_get [simp]:
  "\<exists>cs. mget (sm_heap (NewClientSession W now obj sid hc addr sm)) obj = Some cs"
  by (simp add: NewClientSession_def Let_def mget_mput)

text \<open>No operation but the creation of a session allocates an object.\<close>

lemma update_session_heap [simp]:
  "mget (sm_heap (update_session obj f sm)) o2 = None \<longleftrightarrow> mget (sm_heap sm) o2 = None"
  by (auto simp: update_session_def mget_mput split: option.splits)

lemma closed_self: "\<exists>cl. sm = sm\<lparr>sm_closed := cl\<rparr>"
  by (rule exI [of _ "sm_closed sm"]) simp

lemma close_each_frame: "close_each cs sm = (r, sm1) \<Longrightarrow> \<exists>cl. sm1 = sm\<lparr>sm_closed := cl\<rparr>"
  by (induction cs sm arbitrary: r sm1 rule: close_each.induct) (auto split: if_splits intro: closed_self)

lemma ClientSession_Close_heap:
  "ClientSession_Close obj sm = (r, sm1) \<Longrightarrow> mget (sm_heap sm1) o2 = None \<longleftrightarrow> mget (sm_heap sm) o2 = None"
  by (auto simp: ClientSession_Close_def split: option.splits prod.splits outcome.splits dest!: close_each_frame)

lemma SessionManager_Close_heap:
  "SessionManager_Close sid sm = (r, sm1) \<Longrightarrow> mget (sm_heap sm1) o2 = None \<longleftrightarrow> mget (sm_heap sm) o2 = None"
  by (auto simp: SessionManager_Close_def ClientSession_Close_heap split: option.splits prod.splits outcome.splits)

lemma GetSession_heap:
  "SessionManager_GetSession now sid sm = (r, sm1) \<Longrightarrow> mget (sm_heap sm1) o2 = None \<longleftrightarrow> mget (sm_heap sm) o2 = None"
  by (auto simp: SessionManager_GetSession_def split: if_splits option.splits)

lemma GetSessionFromCookie_heap:
  "SessionManager_GetSessionFromCookie W now r sm = (x, sm1) \<Longrightarrow>
     mget (sm_heap sm1) o2 = None \<longleftrightarrow> mget (sm_heap sm) o2 = None"
  by (auto simp: SessionManager_GetSessionFromCookie_def GetSession_heap split: prod.splits option.splits)

text \<open>What activating a session does, once the old session of the cookie is closed.\<close>

lemma ActivateNewSession_result:
  assumes "SessionManager_ActivateNewSession W now obj r hc sm = (Returns (s, cookie), sm4)"
  obtains sid e sm1 sm2 where "sid \<noteq> [] \<or> we_NewUUID W = sid"
    "(\<exists>x. SessionManager_GetSession now sid sm = (x, sm1)) \<or> sm1 = sm"
    "SessionManager_Close sid sm1 = (Returns e, sm2) \<or> sm2 = sm1"
    "sm4 = (NewClientSession W now obj sid hc (rq_RemoteAddr r) sm2)
       \<lparr>sm_sessions := mput sid obj (sm_sessions sm2)\<rparr>" "s = obj"
    "cookie = snd (SetSessionCookie W sid (case mget (sm_conns sm2) hc of Some c \<Rightarrow> hn_ClientID c | None \<Rightarrow> [])
       (fst (refresh_token W)) (3600 * 24 * 14))"
proof -
  let ?sid = "case GetSessionCookie W r of (Some claims, None) \<Rightarrow> sc_ID claims | _ \<Rightarrow> []"
  let ?new = "if ?sid = [] then we_NewUUID W else ?sid"
  obtain x y sm1 where g: "SessionManager_GetSession now ?sid sm = ((x, y), sm1)" by (metis prod.exhaust)
  have "?sid \<noteq> [] \<Longrightarrow> ?new = ?sid" by simp
  show ?thesis
  proof (cases "?sid = []")
    case True
    then have sm1: "x = None" "sm1 = sm" using g by (simp_all add: SessionManager_GetSession_def)
    show ?thesis
      by (rule that [where sid = ?new and ?sm1.0 = sm and ?sm2.0 = sm])
        (use assms g sm1 True in \<open>auto simp: SessionManager_ActivateNewSession_def Let_def NewClientSession_def\<close>)
  next
    case False
    obtain e sm2 where c: "SessionManager_Close ?sid sm1 = (Returns e, sm2) \<or> sm2 = sm1"
        "(case x of Some _ \<Rightarrow> SessionManager_Close ?sid sm1 | None \<Rightarrow> (Returns None, sm1)) = (Returns e, sm2)"
      using assms g unfolding SessionManager_ActivateNewSession_def Let_def
      by (auto split: option.splits prod.splits outcome.splits)
    show ?thesis
      by (rule that [where sid = ?sid and ?sm1.0 = sm1 and ?sm2.0 = sm2 and e = e])
        (use assms g c False in \<open>auto simp: SessionManager_ActivateNewSession_def Let_def NewClientSession_def
           split: option.splits\<close>)
  qed
qed

lemma ActivateNewSession_keeps:
  assumes "sse_inv hs sm" "mget (sm_heap sm) obj = None"
    "SessionManager_ActivateNewSession W now obj r hc sm = (Returns x, sm4)"
  shows "sse_inv hs sm4"
proof -
  obtain s cookie where x: "x = (s, cookie)" by force
  obtain sid e sm1 sm2 where *: "(\<exists>x. SessionManager_GetSession now sid sm = (x, sm1)) \<or> sm1 = sm"
    "SessionManager_Close sid sm1 = (Returns e, sm2) \<or> sm2 = sm1"
    "sm4 = (NewClientSession W now obj sid hc (rq_RemoteAddr r) sm2)\<lparr>sm_sessions := mput sid obj (sm_sessions sm2)\<rparr>"
    using assms(3) unfolding x by (rule ActivateNewSession_result) blast
  have "sse_inv hs sm1" "mget (sm_heap sm1) obj = None"
    using *(1) assms(1,2) GetSession_keeps GetSession_heap by auto
  then have i2: "sse_inv hs sm2" "mget (sm_heap sm2) obj = None"
    using *(2) SessionManager_Close_keeps SessionManager_Close_heap by auto
  let ?n = "NewClientSession W now obj sid hc (rq_RemoteAddr r) sm2"
  have "sse_inv hs ?n" by (rule NewClientSession_keeps [OF i2])
  moreover have "sm_sessions ?n = sm_sessions sm2" by (simp add: NewClientSession_def Let_def)
  moreover obtain cs where "mget (sm_heap ?n) obj = Some cs" using NewClientSession_get by blast
  ultimately show ?thesis unfolding *(3) sse_inv_def by (auto simp: mget_mput)
qed

lemma SessionLogout_keeps:
  "sse_inv hs sm \<Longrightarrow> SessionLogout W now r sm = (Returns x, sm1) \<Longrightarrow> sse_inv hs sm1"
  by (auto simp: SessionLogout_def split: prod.splits option.splits outcome.splits
      dest: GetSessionFromCookie_keeps SessionManager_Close_keeps)

lemma AddSessionToContext_keeps:
  assumes "sse_inv hs sm" "mget (sm_heap sm) obj = None"
    "AddSessionToContext W now hc obj r sm = (Returns x, sm1)"
  shows "sse_inv hs sm1"
proof -
  obtain cs claims err sm2 where g: "SessionManager_GetSessionFromCookie W now r sm = ((cs, claims, err), sm2)"
    by (metis prod.exhaust)
  have i2: "sse_inv hs sm2" "mget (sm_heap sm2) obj = None"
    using GetSessionFromCookie_keeps [OF assms(1) g] GetSessionFromCookie_heap [OF g] assms(2) by auto
  have con: "sse_inv hs sm3 \<and> mget (sm_heap sm3) obj = None"
    if "SessionManager_ConnectWithToken W hc l t sm2 = (y, sm3)" for l t y sm3
    using that i2 by (auto simp: SessionManager_ConnectWithToken_def sse_inv_conns split: if_splits option.splits)
  show ?thesis
    using assms(3) i2 g unfolding AddSessionToContext_def
    by (auto split: if_splits option.splits prod.splits outcome.splits
        dest!: con dest: SessionLogout_keeps ActivateNewSession_keeps)
qed

section \<open>Reachable states\<close>

text \<open>
  The requests, hub messages and browser connections that a web server handles one after the other,
  up to the first panic. A new channel, connection or session object has an address not used before.
\<close>

inductive web_step :: "web_env \<Rightarrow> sse_sys \<Rightarrow> sse_sys \<Rightarrow> bool" for W where
  wstep_request: "mget (sm_heap (sy_sm sy)) obj = None \<Longrightarrow>
    AddSessionToContext W now hc obj r (sy_sm sy) = (Returns x, sm1) \<Longrightarrow> web_step W sy (sy\<lparr>sy_sm := sm1\<rparr>)"
| wstep_login: "mget (sm_heap (sy_sm sy)) obj = None \<Longrightarrow>
    SessionManager_ActivateNewSession W now obj r hc (sy_sm sy) = (Returns x, sm1) \<Longrightarrow> web_step W sy (sy\<lparr>sy_sm := sm1\<rparr>)"
| wstep_logout: "SessionLogout W now r (sy_sm sy) = (Returns x, sm1) \<Longrightarrow> web_step W sy (sy\<lparr>sy_sm := sm1\<rparr>)"
| wstep_status: "web_step W sy (sy\<lparr>sy_sm := (sy_sm sy)\<lparr>sm_conns := cn\<rparr>\<rparr>)"
| wstep_event: "ClientSession_SendSSE obj ev (sy_sm sy) = (Returns u, sm1) \<Longrightarrow> web_step W sy (sy\<lparr>sy_sm := sm1\<rparr>)"
| wstep_connect: "mget (sy_handlers sy) c = None \<Longrightarrow> c \<notin> set (sm_closed (sy_sm sy)) \<Longrightarrow>
    web_step W sy (SseHandler_connect W now r c sy)"
| wstep_browser_gone: "mget (sy_handlers sy) c = Some (obj, Receiving) \<Longrightarrow>
    SseHandler_browser_gone c obj sy = Returns sy1 \<Longrightarrow> web_step W sy sy1"
| wstep_leave: "mget (sy_handlers sy) c = Some (obj, ph) \<Longrightarrow> ph = Leaving \<or> c \<in> set (sm_closed (sy_sm sy)) \<Longrightarrow>
    web_step W sy (SseHandler_leave c obj sy)"

inductive web_reach :: "web_env \<Rightarrow> sse_sys \<Rightarrow> bool" for W where
  web_new: "web_reach W \<lparr>sy_sm = \<lparr>sm_sessions = [], sm_heap = [], sm_conns = cn, sm_closed = [], sm_out = []\<rparr>, sy_handlers = []\<rparr>"
| web_more: "web_reach W sy \<Longrightarrow> web_step W sy sy1 \<Longrightarrow> web_reach W sy1"

lemma connect_keeps:
  assumes "sse_inv (sy_handlers sy) (sy_sm sy)" "mget (sy_handlers sy) c = None" "c \<notin> set (sm_closed (sy_sm sy))"
  shows "sse_inv (sy_handlers (SseHandler_connect W now r c sy)) (sy_sm (SseHandler_connect W now r c sy))"
proof -
  obtain cs claims err sm1 where g: "SessionManager_GetSessionFromCookie W now r (sy_sm sy) = ((cs, claims, err), sm1)"
    by (metis prod.exhaust)
  have i1: "sse_inv (sy_handlers sy) sm1" by (rule GetSessionFromCookie_keeps [OF assms(1) g])
  have cl: "sm_closed sm1 = sm_closed (sy_sm sy)"
    using g by (auto simp: SessionManager_GetSessionFromCookie_def SessionManager_GetSession_def update_session_def
        split: if_splits prod.splits option.splits)
  have "sse_inv (mput c (obj, Receiving) (sy_handlers sy)) (ClientSession_AddSSEClient obj c sm1)"
    if o: "mget (sm_heap sm1) obj = Some s" for obj s
  proof -
    note inv = sse_invD [OF i1]
    have new: "c \<notin> set (cs_sse s2)" if "mget (sm_heap sm1) o2 = Some s2" for o2 s2
      using inv(3) [OF that, of c] assms(2) by simp
    show ?thesis
      by (rule sse_invI)
        (use inv o new assms(2,3) cl in
          \<open>auto simp: ClientSession_AddSSEClient_def update_session_def mget_mput split: if_splits\<close>)
  qed
  then show ?thesis using g i1 by (auto simp: SseHandler_connect_def split: option.splits)
qed

lemma browser_gone_keeps:
  assumes "sse_inv (sy_handlers sy) (sy_sm sy)" "mget (sy_handlers sy) c = Some (obj, Receiving)"
    "SseHandler_browser_gone c obj sy = Returns sy1"
  shows "sse_inv (sy_handlers sy1) (sy_sm sy1)"
proof -
  have n: "c \<notin> set (sm_closed (sy_sm sy))" and sy1: "sy1 = sy\<lparr>sy_sm := (sy_sm sy)\<lparr>sm_closed := c # sm_closed (sy_sm sy)\<rparr>,
      sy_handlers := mput c (obj, Leaving) (sy_handlers sy)\<rparr>"
    using assms(3) by (auto simp: SseHandler_browser_gone_def split: if_splits)
  show ?thesis unfolding sy1
    by (rule sse_invI) (use sse_invD [OF assms(1)] assms(2) n in \<open>auto simp: mget_mput split: if_splits\<close>)
qed

lemma leave_keeps:
  assumes "sse_inv (sy_handlers sy) (sy_sm sy)" "mget (sy_handlers sy) c = Some (obj, ph)"
    "ph = Leaving \<or> c \<in> set (sm_closed (sy_sm sy))"
  shows "sse_inv (sy_handlers (SseHandler_leave c obj sy)) (sy_sm (SseHandler_leave c obj sy))"
proof -
  note inv = sse_invD [OF assms(1)]
  obtain s where s: "mget (sm_heap (sy_sm sy)) obj = Some s" using inv(4) [OF assms(2)] by auto
  have other: "c \<notin> set (cs_sse s2)" if "mget (sm_heap (sy_sm sy)) o2 = Some s2" "o2 \<noteq> obj" for o2 s2
    using inv(3) [OF that(1), of c] assms(2) that(2) by auto
  show ?thesis
    by (rule sse_invI)
      (use inv s other assms(2) in \<open>auto simp: SseHandler_leave_def ClientSession_RemoveSSEClient_def update_session_def
         mget_mput mget_mdel split: if_splits\<close>)
qed

lemma web_step_inv:
  assumes "web_step W sy sy1" "sse_inv (sy_handlers sy) (sy_sm sy)"
  shows "sse_inv (sy_handlers sy1) (sy_sm sy1)"
  using assms(1)
proof cases
  case (wstep_request obj now hc r x sm1)
  then show ?thesis using AddSessionToContext_keeps [OF assms(2)] by simp
next
  case (wstep_login obj now r hc x sm1)
  then show ?thesis using ActivateNewSession_keeps [OF assms(2)] by simp
next
  case (wstep_logout now r x sm1)
  then show ?thesis using SessionLogout_keeps [OF assms(2)] by simp
next
  case (wstep_status cn)
  then show ?thesis using sse_inv_conns [OF assms(2)] by simp
next
  case (wstep_event obj ev u sm1)
  then show ?thesis using SendSSE_keeps [OF assms(2)] by simp
next
  case (wstep_connect c now r)
  then show ?thesis using connect_keeps [OF assms(2)] by simp
next
  case (wstep_browser_gone c obj)
  then show ?thesis using browser_gone_keeps [OF assms(2)] by simp
next
  case (wstep_leave c obj ph)
  then show ?thesis using leave_keeps [OF assms(2)] by simp
qed

lemma web_reach_inv: "web_reach W sy \<Longrightarrow> sse_inv (sy_handlers sy) (sy_sm sy)"
proof (induction rule: web_reach.induct)
  case (web_new cn)
  then show ?case by (simp add: sse_inv_def)
next
  case (web_more sy sy1)
  then show ?case using web_step_inv by blast
qed

section \<open>Events and leaving browsers\<close>

lemma SendSSE_panics:
  assumes "sse_inv hs sm" "mget (sm_heap sm) obj = Some cs"
  shows "fst (ClientSession_SendSSE obj ev sm) = Panics ClosedChannel \<longleftrightarrow> (\<exists>c. mget hs c = Some (obj, Leaving))"
  using send_each_panics [of "cs_sse cs"] sse_inv_closed_channels [OF assms] assms(2)
  by (auto simp: ClientSession_SendSSE_def)

lemma SendSSE_delivers:
  assumes "sse_inv hs sm" "mget (sm_heap sm) obj = Some cs" "\<And>c. mget hs c \<noteq> Some (obj, Leaving)"
  shows "ClientSession_SendSSE obj ev sm = (Returns (), sm\<lparr>sm_out := sm_out sm @ map (\<lambda>c. (c, ev)) (cs_sse cs)\<rparr>)"
  using send_each_open [of "cs_sse cs"] sse_inv_closed_channels [OF assms(1,2)] assms(2,3)
  by (simp add: ClientSession_SendSSE_def)

section \<open>The life of a session cookie\<close>

text \<open>What the code relies on of the JWT library: a token that was signed parses to its claims.\<close>

definition cookie_ok :: "web_env \<Rightarrow> bool" where
  "cookie_ok W \<longleftrightarrow> (\<forall>claims cookie. we_SignClaims W claims = Inr cookie \<longrightarrow>
     we_CookieValid W cookie \<and> we_ParseClaims W cookie = Inr claims)"

definition live_session :: "SessionManager \<Rightarrow> string \<Rightarrow> nat \<Rightarrow> nat \<Rightarrow> bool" where
  "live_session sm sid obj hc \<longleftrightarrow> sid \<noteq> [] \<and> mget (sm_sessions sm) sid = Some obj
     \<and> (\<exists>cs. mget (sm_heap sm) obj = Some cs \<and> cs_hc cs = hc \<and> cs_sse cs = [])"

lemma ActivateNewSession_live:
  assumes "cookie_ok W" "we_NewUUID W \<noteq> []"
    "SessionManager_ActivateNewSession W now obj r hc sm = (Returns (s, Some ck), sm1)"
  obtains claims where "live_session sm1 (sc_ID claims) obj hc" "s = obj"
    "rq_Cookie r2 = Some ck \<Longrightarrow> GetSessionCookie W r2 = (Some claims, None)"
    "sc_Subject claims = (case mget (sm_conns sm1) hc of Some c \<Rightarrow> hn_ClientID c | None \<Rightarrow> [])"
    "sc_AuthToken claims = fst (refresh_token W)"
  using assms(3)
proof (rule ActivateNewSession_result)
  fix sid e sm1' sm2
  assume *: "sid \<noteq> [] \<or> we_NewUUID W = sid" "s = obj"
    "sm1 = (NewClientSession W now obj sid hc (rq_RemoteAddr r) sm2)\<lparr>sm_sessions := mput sid obj (sm_sessions sm2)\<rparr>"
    "Some ck = snd (SetSessionCookie W sid (case mget (sm_conns sm2) hc of Some c \<Rightarrow> hn_ClientID c | None \<Rightarrow> [])
       (fst (refresh_token W)) (3600 * 24 * 14))"
  let ?claims = "\<lparr>sc_ID = sid, sc_Subject = (case mget (sm_conns sm2) hc of Some c \<Rightarrow> hn_ClientID c | None \<Rightarrow> []),
       sc_AuthToken = fst (refresh_token W), sc_MaxAge = 3600 * 24 * 14\<rparr>"
  have "we_SignClaims W ?claims = Inr ck"
    using *(4) by (auto simp: SetSessionCookie_def split: sum.splits)
  then have "we_CookieValid W ck" "we_ParseClaims W ck = Inr ?claims"
    using assms(1) unfolding cookie_ok_def by blast+
  moreover have "live_session sm1 sid obj hc"
    using *(1,3) assms(2) by (auto simp: live_session_def NewClientSession_def Let_def mget_mput)
  moreover have "sm_conns sm1 = sm_conns sm2" using *(3) by (simp add: NewClientSession_def Let_def)
  ultimately show thesis
    by (intro that [of ?claims]) (simp_all add: *(2) GetSessionCookie_def)
qed

lemma live_GetSessionFromCookie:
  assumes "live_session sm (sc_ID claims) obj hc" "GetSessionCookie W r = (Some claims, None)"
  obtains sm1 where "SessionManager_GetSessionFromCookie W now r sm = ((Some obj, Some claims, None), sm1)"
    "live_session sm1 (sc_ID claims) obj hc" "sm_conns sm1 = sm_conns sm"
  using assms
  by (auto simp: live_session_def SessionManager_GetSessionFromCookie_def SessionManager_GetSession_def
      update_session_def mget_mput)

lemma live_Close:
  assumes "live_session sm sid obj hc" "mget (sm_conns sm) hc = Some conn"
  obtains sm1 where "SessionManager_Close sid sm = (Returns None, sm1)" "mget (sm_sessions sm1) sid = None"
    "mget (sm_conns sm1) hc = Some (conn\<lparr>hn_Status := Disconnected\<rparr>)"
  using assms
  by (auto simp: live_session_def SessionManager_Close_def ClientSession_Close_def update_session_def disconnect_def
      mget_mput mget_mdel)

lemma live_SessionLogout:
  assumes "live_session sm (sc_ID claims) obj hc" "mget (sm_conns sm) hc = Some conn"
    "GetSessionCookie W r = (Some claims, None)"
  obtains sm1 where "SessionLogout W now r sm = (Returns (RedirectLogin True (rq_Htmx r)), sm1)"
    "mget (sm_sessions sm1) (sc_ID claims) = None" "mget (sm_conns sm1) hc = Some (conn\<lparr>hn_Status := Disconnected\<rparr>)"
proof -
  obtain sm0 where g: "SessionManager_GetSessionFromCookie W now r sm = ((Some obj, Some claims, None), sm0)"
    "live_session sm0 (sc_ID claims) obj hc" "sm_conns sm0 = sm_conns sm"
    using assms(1,3) by (rule live_GetSessionFromCookie)
  then have "mget (sm_conns sm0) hc = Some conn" using assms(2) by simp
  with g(2) obtain sm1 where c: "SessionManager_Close (sc_ID claims) sm0 = (Returns None, sm1)"
    "mget (sm_sessions sm1) (sc_ID claims) = None" "mget (sm_conns sm1) hc = Some (conn\<lparr>hn_Status := Disconnected\<rparr>)"
    by (rule live_Close)
  have "rq_Cookie r \<noteq> None" using assms(3) by (auto simp: GetSessionCookie_def split: option.splits)
  then show ?thesis using that [OF _ c(2,3)] g c by (simp add: SessionLogout_def)
qed

lemma gone_GetSessionFromCookie:
  assumes "mget (sm_sessions sm) (sc_ID claims) = None" "sc_ID claims \<noteq> []" "GetSessionCookie W r = (Some claims, None)"
  shows "SessionManager_GetSessionFromCookie W now r sm
    = ((None, Some claims, Some (ErrSessionNotFound (sc_ID claims))), sm)"
  using assms by (simp add: SessionManager_GetSessionFromCookie_def SessionManager_GetSession_def)

lemma gone_reactivated:
  assumes "mget (sm_sessions sm) (sc_ID claims) = None" "sc_ID claims \<noteq> []" "GetSessionCookie W r = (Some claims, None)"
    "we_tokenKP W \<noteq> None" "we_Connect W (sc_Subject claims) (sc_AuthToken claims) = None"
  shows "\<exists>cookie. fst (AddSessionToContext W now hc obj r sm) = Returns (ServeSession obj cookie)"
proof -
  let ?sm = "sm\<lparr>sm_conns := mput hc \<lparr>hn_ClientID = sc_Subject claims, hn_Status = Connected, hn_LastError = None\<rparr> (sm_conns sm)\<rparr>"
  have "\<exists>cookie sm1. SessionManager_ActivateNewSession W now obj r hc ?sm = (Returns (obj, cookie), sm1)"
    using assms(1-3) by (simp add: SessionManager_ActivateNewSession_def SessionManager_GetSession_def Let_def)
  then show ?thesis
    using gone_GetSessionFromCookie [OF assms(1-3)] assms(4,5)
    by (auto simp: AddSessionToContext_def SessionManager_ConnectWithToken_def)
qed

section \<open>A web server\<close>

definition web_claims :: SessionClaims where
  "web_claims = \<lparr>sc_ID = ''s1'', sc_Subject = ''u1'', sc_AuthToken = ''tok'', sc_MaxAge = 3600 * 24 * 14\<rparr>"

definition demo_web :: web_env where
  "demo_web = \<lparr>we_CookieValid = (\<lambda>_. True), we_ParseClaims = (\<lambda>c. if c = ''ck'' then Inr web_claims else Inl ErrInvalidCookie),
     we_SignClaims = (\<lambda>c. if c = web_claims then Inr ''ck'' else Inl ErrInvalidCookie), we_NewUUID = ''s1'',
     we_Model = (\<lambda>_. []), we_tokenKP = Some ''pk'', we_RefreshToken = (\<lambda>_. (''tok'', None)), we_GetProfile = Inr [],
     we_Connect = (\<lambda>_ _. None)\<rparr>"

definition demo_sm :: SessionManager where
  "demo_sm = \<lparr>sm_sessions = [], sm_heap = [], sm_conns = [(0, \<lparr>hn_ClientID = ''u1'', hn_Status = Connected, hn_LastError = None\<rparr>)],
     sm_closed = [], sm_out = []\<rparr>"

definition demo_session :: ClientSession where
  "demo_session = \<lparr>cs_sessionID = ''s1'', cs_clientID = ''u1'', cs_remoteAddr = [], cs_agents = [], cs_subs = [[]],
     cs_hc = 0, cs_sse = [], cs_lastActivity = 0\<rparr>"

definition demo_req :: "string option \<Rightarrow> http_req" where
  "demo_req c = \<lparr>rq_Cookie = c, rq_RemoteAddr = [], rq_Htmx = False\<rparr>"

lemmas demo_web_defs = web_claims_def demo_web_def demo_sm_def demo_session_def demo_req_def

lemma demo_login: "SessionManager_ActivateNewSession demo_web 0 7 (demo_req None) 0 demo_sm =
    (Returns (7, Some ''ck''), demo_sm\<lparr>sm_sessions := [(''s1'', 7)], sm_heap := [(7, demo_session)]\<rparr>)"
  by (simp add: SessionManager_ActivateNewSession_def GetSessionCookie_def SessionManager_GetSession_def NewClientSession_def
      SetSessionCookie_def refresh_token_def demo_web_defs Let_def)

definition demo_sy :: "sse_phase \<Rightarrow> sse_sys" where
  "demo_sy ph = \<lparr>sy_sm = demo_sm\<lparr>sm_sessions := [(''s1'', 7)], sm_heap := [(7, demo_session\<lparr>cs_sse := [5]\<rparr>)],
       sm_closed := (if ph = Leaving then [5] else [])\<rparr>, sy_handlers = [(5, (7, ph))]\<rparr>"

lemma demo_sy_reach: "web_reach demo_web (demo_sy ph)"
proof -
  let ?s0 = "\<lparr>sy_sm = demo_sm, sy_handlers = []\<rparr>"
  let ?s1 = "?s0\<lparr>sy_sm := demo_sm\<lparr>sm_sessions := [(''s1'', 7)], sm_heap := [(7, demo_session)]\<rparr>\<rparr>"
  have 0: "web_reach demo_web ?s0" using web_new by (simp add: demo_sm_def)
  have "web_step demo_web ?s0 ?s1"
    by (rule wstep_login [where obj = 7 and now = 0 and r = "demo_req None" and hc = 0])
      (simp_all add: demo_login, simp add: demo_sm_def)
  with 0 have 1: "web_reach demo_web ?s1" by (rule web_more)
  have "SseHandler_connect demo_web 0 (demo_req (Some ''ck'')) 5 ?s1 = demo_sy Receiving"
    by (simp add: SseHandler_connect_def SessionManager_GetSessionFromCookie_def GetSessionCookie_def
        SessionManager_GetSession_def update_session_def ClientSession_IsActive_def ClientSession_AddSSEClient_def
        demo_sy_def demo_web_defs)
  moreover have "web_step demo_web ?s1 (SseHandler_connect demo_web 0 (demo_req (Some ''ck'')) 5 ?s1)"
    by (rule wstep_connect) (simp_all add: demo_sm_def)
  ultimately have 2: "web_reach demo_web (demo_sy Receiving)" using web_more [OF 1] by simp
  have "web_step demo_web (demo_sy Receiving) (demo_sy Leaving)"
    by (rule wstep_browser_gone [where c = 5 and obj = 7]) (simp_all add: demo_sy_def SseHandler_browser_gone_def demo_sm_def)
  then show ?thesis using 2 web_more [OF 2] by (cases ph) auto
qed

section \<open>Theorems\<close>





end
