(* ===== verification/WebServerProps.thy ===== *)
theory WebServerProps
  imports WebServer WebSessionProps
begin

text \<open>
  On whose behalf the web server uses the hub: the login that a request acts as, that every page uses the connection of that
  login only, and how a session ID that is kept across logins gives one user the session of another.
\<close>

section \<open>The login of a request\<close>

text \<open>
  The client of the active session that the cookie names or, without one, the subject of the cookie if the hub accepts the
  token in it.
\<close>

definition active_client :: "string \<Rightarrow> SessionManager \<Rightarrow> string option" where
  "active_client sessionID sm =
     (if sessionID = [] then None
      else case mget (sm_sessions sm) sessionID of
             None \<Rightarrow> None
           | Some obj \<Rightarrow>
               (case session_conn obj sm of
                  None \<Rightarrow> None
                | Some conn \<Rightarrow> if hn_Status conn = Connected \<or> hn_Status conn = Connecting then Some (hn_ClientID conn) else None))"

definition acting_client :: "web_env \<Rightarrow> http_req \<Rightarrow> SessionManager \<Rightarrow> string option" where
  "acting_client W r sm =
     (case GetSessionCookie W r of
        (Some claims, None) \<Rightarrow>
          (case active_client (sc_ID claims) sm of
             Some c \<Rightarrow> Some c
           | None \<Rightarrow> if we_Connect W (sc_Subject claims) (sc_AuthToken claims) = None then Some (sc_Subject claims) else None)
      | _ \<Rightarrow> None)"

lemma session_conn_activity [simp]:
  "session_conn obj (update_session o2 (\<lambda>cs. cs\<lparr>cs_lastActivity := t\<rparr>) sm) = session_conn obj sm"
  by (auto simp: session_conn_def update_session_def gomap_simps split: option.splits)

lemma NewClientSession_conn:
  "session_conn obj ((NewClientSession W now obj sid hc addr sm)\<lparr>sm_sessions := ss\<rparr>) = mget (sm_conns sm) hc"
  by (simp add: session_conn_def NewClientSession_def Let_def gomap_simps)

lemma close_each_conns: "close_each cs sm = (res, sm1) \<Longrightarrow> sm_conns sm1 = sm_conns sm \<and> sm_heap sm1 = sm_heap sm"
  by (induction cs arbitrary: sm) (auto split: if_splits)

text \<open>Closing a session never changes the client of a connection.\<close>

lemma Close_client:
  assumes "SessionManager_Close sid sm = (res, sm1)" "mget (sm_conns sm) hc = Some conn"
  shows "\<exists>conn1. mget (sm_conns sm1) hc = Some conn1 \<and> hn_ClientID conn1 = hn_ClientID conn"
proof (cases "mget (sm_sessions sm) sid")
  case None
  then show ?thesis using assms by (simp add: SessionManager_Close_def)
next
  case (Some obj)
  then show ?thesis
    using assms close_each_conns
    by (fastforce simp: SessionManager_Close_def ClientSession_Close_def disconnect_def update_session_def gomap_simps
        split: option.splits outcome.splits prod.splits if_splits)
qed

lemma ActivateNewSession_client:
  assumes "SessionManager_ActivateNewSession W now obj r hc sm = (Returns (s, cookie), sm1)" "mget (sm_conns sm) hc = Some conn"
  shows "s = obj \<and> (\<exists>conn1. session_conn obj sm1 = Some conn1 \<and> hn_ClientID conn1 = hn_ClientID conn)"
proof -
  obtain sid where sid: "sid = (case GetSessionCookie W r of (Some claims, None) \<Rightarrow> sc_ID claims | _ \<Rightarrow> [])" by simp
  obtain cs err smg where g: "SessionManager_GetSession now sid sm = ((cs, err), smg)" by (metis prod.exhaust)
  have gc: "mget (sm_conns smg) hc = Some conn"
    using g assms(2) by (auto simp: SessionManager_GetSession_def update_session_def split: option.splits if_splits)
  define closed where "closed = (case cs of Some _ \<Rightarrow> SessionManager_Close sid smg | None \<Rightarrow> (Returns None, smg))"
  obtain res sm2 where c: "closed = (res, sm2)" by fastforce
  obtain conn1 where c1: "mget (sm_conns sm2) hc = Some conn1" "hn_ClientID conn1 = hn_ClientID conn"
    using c gc Close_client [of sid smg res sm2 hc conn] by (cases cs) (auto simp: closed_def)
  show ?thesis
    using assms(1) c1 c
    unfolding SessionManager_ActivateNewSession_def Let_def sid [symmetric] g
    by (cases cs; cases res) (auto simp: closed_def NewClientSession_conn)
qed

text \<open>The session that the middleware serves a request with is that of the login the request acts as.\<close>

lemma served_session_acts:
  assumes "AddSessionToContext W now hc obj r sm = (Returns (ServeSession s cookie), sm1)"
  shows "\<exists>conn. session_conn s sm1 = Some conn \<and> acting_client W r sm = Some (hn_ClientID conn)"
proof -
  have out: "SessionLogout W now r m = (Returns (ServeSession s cookie), sm1) \<Longrightarrow> False" for m
    by (auto simp: SessionLogout_def split: prod.splits outcome.splits option.splits)
  obtain claims err where ck: "GetSessionCookie W r = (claims, err)" by fastforce
  show ?thesis
  proof (cases "\<exists>c. claims = Some c \<and> err = None")
    case False
    then show ?thesis using assms ck out
      by (auto simp: AddSessionToContext_def SessionManager_GetSessionFromCookie_def SessionManager_GetSession_def
          GetSessionCookie_def split: option.splits if_splits sum.splits)
  next
    case True
    then obtain c where c: "GetSessionCookie W r = (Some c, None)" using ck by auto
    obtain cs e smg where g: "SessionManager_GetSession now (sc_ID c) sm = ((cs, e), smg)" by (metis prod.exhaust)
    let ?active = "case cs of None \<Rightarrow> False
      | Some s \<Rightarrow> (case mget (sm_heap smg) s of Some session \<Rightarrow> ClientSession_IsActive smg session | None \<Rightarrow> False)"
    have conn: "sm_conns smg = sm_conns sm" "\<And>s. session_conn s smg = session_conn s sm"
      using g by (auto simp: SessionManager_GetSession_def update_session_def split: option.splits if_splits)
        (auto simp: session_conn_def gomap_simps split: option.splits)
    show ?thesis
    proof (cases ?active)
      case True
      then obtain s0 where s0: "cs = Some s0" by (auto split: option.splits)
      have "s = s0" "sm1 = smg" using assms True s0
        by (auto simp: AddSessionToContext_def SessionManager_GetSessionFromCookie_def c g)
      moreover have "sc_ID c \<noteq> [] \<and> mget (sm_sessions sm) (sc_ID c) = Some s0"
        using g s0 by (auto simp: SessionManager_GetSession_def split: option.splits if_splits)
      moreover obtain cn where "session_conn s0 smg = Some cn" "hn_Status cn = Connected \<or> hn_Status cn = Connecting"
        using True s0 by (auto simp: session_conn_def ClientSession_IsActive_def split: option.splits)
      ultimately show ?thesis using conn(2) by (auto simp: acting_client_def c active_client_def)
    next
      case False
      have tok: "we_Connect W (sc_Subject c) (sc_AuthToken c) = None"
        and act: "SessionManager_ActivateNewSession W now obj r hc
          (smg\<lparr>sm_conns := mput hc \<lparr>hn_ClientID = sc_Subject c, hn_Status = Connected, hn_LastError = None\<rparr> (sm_conns smg)\<rparr>)
            = (Returns (s, cookie), sm1)"
        using assms False out
        by (auto simp: AddSessionToContext_def SessionManager_GetSessionFromCookie_def c g SessionManager_ConnectWithToken_def
            split: option.splits if_splits outcome.splits prod.splits)
      have "active_client (sc_ID c) sm = None"
        using False g conn by (auto simp: active_client_def SessionManager_GetSession_def session_conn_def ClientSession_IsActive_def
            update_session_def gomap_simps split: option.splits if_splits)
      then show ?thesis
        using ActivateNewSession_client [OF act] tok by (auto simp: acting_client_def c gomap_simps)
    qed
  qed
qed

section \<open>Pages\<close>

abbreviation other_connections ::
  "(string \<Rightarrow> ('c, 'w) dir_link) \<Rightarrow> (string \<Rightarrow> ('c, 'w) hist_link) \<Rightarrow> ('c, 'w, 't) view_env \<Rightarrow> ('c, 'w, 't) view_env" where
  "other_connections d g E \<equiv> E\<lparr>vw_dir := d, vw_hist := g\<rparr>"

text \<open>A private page uses no hub connection but that of the session it gets.\<close>

locale private_page =
  fixes page :: "('c, 'w, 't) web_handler"
  assumes own_connection: "session_conn obj (ws_sm st) = Some conn \<Longrightarrow> d (hn_ClientID conn) = vw_dir E (hn_ClientID conn)
    \<Longrightarrow> g (hn_ClientID conn) = vw_hist E (hn_ClientID conn)
    \<Longrightarrow> page (other_connections d g E) (Some obj) r w st = page E (Some obj) r w st"
begin

lemma own_login:
  assumes "\<And>c. acting_client (vw_web E) (wq_req r) (ws_sm st) = Some c \<Longrightarrow> d c = vw_dir E c \<and> g c = vw_hist E c"
  shows "with_session page (other_connections d g E) r st = with_session page E r st"
proof (cases "\<exists>s cookie sm1. AddSessionToContext (vw_web E) (wq_now r) (wq_newConn r) (wq_newSession r) (wq_req r) (ws_sm st)
    = (Returns (ServeSession s cookie), sm1)")
  case True
  then obtain s cookie sm1 where a: "AddSessionToContext (vw_web E) (wq_now r) (wq_newConn r) (wq_newSession r) (wq_req r) (ws_sm st)
    = (Returns (ServeSession s cookie), sm1)" by blast
  obtain conn where conn: "session_conn s (ws_sm (st\<lparr>ws_sm := sm1\<rparr>)) = Some conn"
      "acting_client (vw_web E) (wq_req r) (ws_sm st) = Some (hn_ClientID conn)"
    using served_session_acts [OF a] by auto
  show ?thesis
    using own_connection [OF conn(1), of d E g r] assms [OF conn(2)] by (simp add: with_session_def a Let_def)
next
  case False
  then show ?thesis by (simp add: with_session_def split: prod.splits outcome.splits http_result.splits)
qed

lemma no_login:
  assumes "acting_client (vw_web E) (wq_req r) (ws_sm st) = None"
  shows "ws_hub (snd (with_session page E r st)) = ws_hub st"
  using assms served_session_acts [of "vw_web E"]
  by (fastforce simp: with_session_def recovered_def split: prod.splits outcome.splits http_result.splits)

end

text \<open>A public page uses none.\<close>

locale public_page =
  fixes page :: "('c, 'w, 't) web_handler"
  assumes no_connection: "page (other_connections d g E) None r w st = page E None r w st"
    and hub_kept: "ws_hub (snd (page E None r w st)) = ws_hub st"

lemma RenderAppPages_own: "RenderAppPages data (other_connections d g E) ctx r w st = RenderAppPages data E ctx r w st"
  by (simp add: RenderAppPages_def)

lemma RenderAppOrFragment_own [simp]:
  "RenderAppOrFragment f data (other_connections d g E) ctx r w st = RenderAppOrFragment f data E ctx r w st"
  by (simp add: RenderAppOrFragment_def RenderAppPages_own)

lemma logout_page_own [simp]: "logout_page (other_connections d g E) ctx r w st = logout_page E ctx r w st"
  by (simp add: logout_page_def)

interpretation app_page: private_page RenderApp
  by unfold_locales (simp add: RenderApp_def RenderAppPages_own)

interpretation about_page: private_page RenderAbout
  by unfold_locales (simp add: RenderAbout_def)

interpretation connect_page: private_page RenderConnectStatus
  by unfold_locales (simp add: RenderConnectStatus_def)

interpretation status_page: private_page RenderStatus
  by unfold_locales (simp add: RenderStatus_def split: option.split outcome.split prod.split)

interpretation dashboard_page: private_page RenderDashboard
  by unfold_locales (simp add: RenderDashboard_def)

interpretation directory_page: private_page RenderDirectory
  by unfold_locales (simp add: RenderDirectory_def GetSessionFromContext_def split: option.split outcome.split prod.split)

interpretation details_page: private_page RenderThingDetails
  by unfold_locales (simp add: RenderThingDetails_def GetSessionFromContext_def Let_def split: option.split outcome.split prod.split)

interpretation edit_page: private_page RenderEditThingConfig
  by unfold_locales (simp add: RenderEditThingConfig_def GetSessionFromContext_def edit_config_values_def Let_def split: option.split outcome.split prod.split)

interpretation post_page: private_page PostThingConfig
  by unfold_locales (simp add: PostThingConfig_def Let_def split: option.split outcome.split prod.split)

interpretation static_page: public_page "static_files rootPath" for rootPath
  by unfold_locales (simp_all add: static_files_def)

interpretation login_page: public_page RenderLogin
  by unfold_locales (simp_all add: RenderLogin_def Let_def)

interpretation post_login: public_page PostLogin
  by unfold_locales (auto simp: PostLogin_def Let_def split: option.splits prod.splits outcome.splits)

interpretation logout: public_page logout_page
  by unfold_locales (auto simp: logout_page_def split: option.splits prod.splits outcome.splits http_result.splits)

interpretation sse_page: public_page SseHandler
  by unfold_locales (auto simp: SseHandler_def split: option.splits prod.splits)

lemma route_pages:
  fixes rt :: "('c, 'w, 't) route"
  assumes "rt \<in> set (createRoutes rootPath)"
  shows "if rt_private rt then private_page (rt_handler rt) else public_page (rt_handler rt)"
proof -
  have "list_all (\<lambda>rt. if rt_private rt then private_page (rt_handler rt) else public_page (rt_handler rt)) (createRoutes rootPath :: ('c, 'w, 't) route list)"
    by (simp add: createRoutes_def app_page.private_page_axioms about_page.private_page_axioms connect_page.private_page_axioms status_page.private_page_axioms
      dashboard_page.private_page_axioms directory_page.private_page_axioms details_page.private_page_axioms edit_page.private_page_axioms
      post_page.private_page_axioms static_page.public_page_axioms login_page.public_page_axioms post_login.public_page_axioms
      logout.public_page_axioms sse_page.public_page_axioms)
  then show ?thesis using assms by (simp add: list_all_iff)
qed

section \<open>The server\<close>


section \<open>Session IDs outlive logins\<close>

lemma no_channels_close:
  assumes "mget (sm_sessions sm) sid = Some obj" "mget (sm_heap sm) obj = Some cs" "cs_sse cs = []"
  shows "\<exists>sm1. SessionManager_Close sid sm = (Returns None, sm1) \<and> (\<forall>hc. hc \<noteq> cs_hc cs \<longrightarrow> mget (sm_conns sm1) hc = mget (sm_conns sm) hc)"
  using assms by (auto simp: SessionManager_Close_def ClientSession_Close_def disconnect_def update_session_def gomap_simps split: option.split)

text \<open>A new session takes the ID of the cookie that came with the login.\<close>

lemma ActivateNewSession_reuses:
  assumes "GetSessionCookie W r = (Some claims, None)" "sc_ID claims \<noteq> []" "mget (sm_conns sm) hc = Some conn"
    and "\<And>obj. mget (sm_sessions sm) (sc_ID claims) = Some obj \<Longrightarrow> \<exists>cs. mget (sm_heap sm) obj = Some cs \<and> cs_sse cs = [] \<and> cs_hc cs \<noteq> hc"
  shows "\<exists>cookie sm1. SessionManager_ActivateNewSession W now obj r hc sm = (Returns (obj, cookie), sm1)
    \<and> mget (sm_sessions sm1) (sc_ID claims) = Some obj \<and> session_conn obj sm1 = Some conn"
proof (cases "mget (sm_sessions sm) (sc_ID claims)")
  case None
  then show ?thesis
    using assms(1-3) by (auto simp: SessionManager_ActivateNewSession_def SessionManager_GetSession_def Let_def NewClientSession_conn
        gomap_simps)
next
  case (Some o1)
  then obtain cs where cs: "mget (sm_heap sm) o1 = Some cs" "cs_sse cs = []" "cs_hc cs \<noteq> hc" using assms(4) by blast
  let ?sm = "update_session o1 (\<lambda>cs. cs\<lparr>cs_lastActivity := now\<rparr>) sm"
  have "mget (sm_sessions ?sm) (sc_ID claims) = Some o1" "mget (sm_heap ?sm) o1 = Some (cs\<lparr>cs_lastActivity := now\<rparr>)"
    using Some cs(1) by (simp_all add: update_session_def gomap_simps)
  from no_channels_close [OF this] obtain sm1 where "SessionManager_Close (sc_ID claims) ?sm = (Returns None, sm1)"
      "mget (sm_conns sm1) hc = mget (sm_conns ?sm) hc" using cs(2,3) by auto
  then show ?thesis
    using assms(1-3) Some cs(1)
    by (auto simp: SessionManager_ActivateNewSession_def SessionManager_GetSession_def Let_def NewClientSession_conn
        update_session_def gomap_simps)
qed


section \<open>Instances\<close>

text \<open>A hub that records the addresses of requests, a router that knows the patterns themselves, and a browser with a session of
  the user \<open>u1\<close> that posts a configuration.\<close>

definition log_tp :: "string list hub_transport" where
  "log_tp = \<lparr>tp_tokens = NatsTransport_AddressTokens, tp_PubEvent = (\<lambda>a p w. (None, a # w)), tp_PubRequest = (\<lambda>a p w. ((None, None), a # w)),
     tp_Subscribe = (\<lambda>a w. (None, w)), tp_SetRequestHandler = id, tp_SetEventHandler = id, tp_SetConnectHandler = id\<rparr>"

abbreviation log_link :: "string \<Rightarrow> ('v, unit, string list) hub_link" where
  "log_link c \<equiv> (log_tp, table_ser [], fst (NewHubClientFromTransport log_tp c []))"

definition demo_view :: "(unit, string list, unit) view_env" where
  "demo_view = \<lparr>vw_web = demo_web, vw_lib = \<lparr>te_New = (\<lambda>s. ()), te_WalkDir = (\<lambda>fs. []), te_ParseFS = (\<lambda>t fs s. t), te_Lookup = (\<lambda>t s. Some t),
     te_Clone = Inr, te_AddParseTree = (\<lambda>t s t2. Inr t), te_Execute = (\<lambda>t d. (''page'', None))\<rparr>, vw_text = (\<lambda>e. ''err''),
     vw_td = (\<lambda>s. (zero_TD, None)), vw_PasswordLogin = (\<lambda>u pw. None), vw_static = (\<lambda>p r w. w), vw_dir = log_link, vw_hist = log_link\<rparr>"

abbreviation demo_chi :: router where "demo_chi \<equiv> \<lambda>routes m p. Some ((m, p), \<lambda>k. k)"

definition browser_req :: "string \<Rightarrow> string \<Rightarrow> web_req" where
  "browser_req m p = \<lparr>wq_req = demo_req (Some ''ck''), wq_Method = m, wq_Path = p, wq_Boosted = False, wq_Query = (\<lambda>k. []), wq_Form = (\<lambda>k. ''u2''),
     wq_Param = (\<lambda>k. []), wq_now = 0, wq_newConn = 3, wq_newSession = 8, wq_newChan = 4\<rparr>"

definition browser_state :: "(string list, unit) web_state" where
  "browser_state = \<lparr>ws_sm = demo_sm\<lparr>sm_sessions := [(''s1'', 7)], sm_heap := [(7, demo_session)]\<rparr>, ws_tm = InitTemplateManager [], ws_hub = []\<rparr>"

lemma demo_acting: "acting_client (vw_web demo_view) (wq_req (browser_req m p)) (ws_sm browser_state) = Some ''u1''"
  by (simp add: acting_client_def active_client_def session_conn_def GetSessionCookie_def demo_view_def browser_req_def browser_state_def demo_web_defs)

lemma demo_post:
  "ws_hub (snd (serve_request demo_chi (createRoutes []) demo_view (browser_req ''POST'' ''/app/thing/{agentID}/{thingID}/{propKey}'') browser_state))
     = [HubClient_MakeAddress NatsTransport_AddressTokens MessageTypeConfig ''agentID'' ''thingID'' ''propKey'' ''u1'']"
  by (simp add: serve_request_def createRoutes_def with_session_def AddSessionToContext_def SessionManager_GetSessionFromCookie_def
      SessionManager_GetSession_def GetSessionCookie_def update_session_def ClientSession_IsActive_def demo_view_def browser_req_def
      browser_state_def demo_web_defs PostThingConfig_def session_conn_def HubClient_PubConfig_def log_tp_def notify_session_def
      ClientSession_SendSSE_def recovered_def NewHubClientFromTransport_def Let_def)



end
