(* ===== verification/ThingDescriptionProps.thy ===== *)
theory ThingDescriptionProps
  imports ThingDescription
begin

text \<open>
  Typing of Thing Description documents: which values a schema accepts, and the documents that the builder
  operations make. Interaction outputs of decoded objects.
\<close>

section \<open>Types of values\<close>

definition data_types :: "string list" where
  "data_types = [WoTDataTypeAnyURI, WoTDataTypeArray, WoTDataTypeBool, WoTDataTypeDateTime, WoTDataTypeInteger,
     WoTDataTypeUnsignedInt, WoTDataTypeNumber, WoTDataTypeObject, WoTDataTypeString, WoTDataTypeNone]"

definition has_type :: "string \<Rightarrow> json \<Rightarrow> bool" where
  "has_type ty v \<longleftrightarrow>
     (case v of
        JNull \<Rightarrow> ty = WoTDataTypeNone
      | JBool _ \<Rightarrow> ty \<in> {WoTDataTypeBool, WoTDataTypeNone}
      | JNumber _ \<Rightarrow> ty \<in> {WoTDataTypeInteger, WoTDataTypeUnsignedInt, WoTDataTypeNumber, WoTDataTypeNone}
      | JString _ \<Rightarrow> ty \<in> {WoTDataTypeString, WoTDataTypeAnyURI, WoTDataTypeDateTime, WoTDataTypeNone}
      | JArray _ \<Rightarrow> ty \<in> {WoTDataTypeArray, WoTDataTypeNone}
      | JObject _ \<Rightarrow> ty \<in> {WoTDataTypeObject, WoTDataTypeNone})"

text \<open>A value satisfies a schema if it has the declared type and is one of the listed values, if any are listed.\<close>

definition schema_accepts :: "DataSchema \<Rightarrow> json \<Rightarrow> bool" where
  "schema_accepts ds v \<longleftrightarrow> has_type (ds_Type ds) v \<and> (ds_Enum ds = [] \<or> v \<in> set (ds_Enum ds))"

definition schema_typed :: "DataSchema \<Rightarrow> bool" where
  "schema_typed ds \<longleftrightarrow> ds_Type ds \<in> set data_types \<and> (\<forall>v \<in> set (ds_Enum ds). has_type (ds_Type ds) v)"

definition switch_schema :: "DataSchema \<Rightarrow> bool" where
  "switch_schema ds \<longleftrightarrow> ds_Type ds = WoTDataTypeBool \<and> ds_Enum ds = [JString ''on'', JString ''off'']"

lemma every_type_inhabited: "ty \<in> set data_types \<Longrightarrow> \<exists>v. has_type ty v"
proof -
  have "\<exists>v \<in> {JNull, JBool True, JNumber [], JString [], JArray [], JObject []}. has_type ty v" if "ty \<in> set data_types"
    using that by (auto simp: data_types_def has_type_def)
  then show "ty \<in> set data_types \<Longrightarrow> \<exists>v. has_type ty v" by blast
qed

lemma typed_schema_accepts: "schema_typed ds \<Longrightarrow> \<exists>v. schema_accepts ds v"
proof (cases "ds_Enum ds")
  case Nil
  then show "schema_typed ds \<Longrightarrow> ?thesis" using every_type_inhabited by (auto simp: schema_typed_def schema_accepts_def)
next
  case (Cons v vs)
  then show "schema_typed ds \<Longrightarrow> ?thesis" by (auto simp: schema_typed_def schema_accepts_def)
qed

lemma switch_schema_accepts_none: "switch_schema ds \<Longrightarrow> \<not> schema_accepts ds v"
  by (auto simp: switch_schema_def schema_accepts_def has_type_def)

lemma schema_of_typed: "ty \<in> set data_types \<Longrightarrow> schema_typed (schema_of a t ty ro [])"
  by (simp add: schema_typed_def schema_of_def)

section \<open>Documents of the builder\<close>

definition td_schemas :: "TD \<Rightarrow> DataSchema set" where
  "td_schemas td =
     {pa_DataSchema p | k p. nil_get (td_Properties td) k = Some p}
     \<union> {ds | k a ds. nil_get (td_Actions td) k = Some a \<and> aa_Input a = Some ds}
     \<union> {ds | k e ds. nil_get (td_Events td) k = Some e \<and> ea_Data e = Some ds}"

definition optional_typed :: "DataSchema option \<Rightarrow> bool" where
  "optional_typed s \<longleftrightarrow> (case s of None \<Rightarrow> True | Some ds \<Rightarrow> schema_typed ds)"

text \<open>The documents made by \<open>NewTD\<close> and the builder operations, given schemas and types that are typed.\<close>

inductive td_built :: "TD \<Rightarrow> bool" where
  built_new: "td_built (NewTD now thingID title deviceType)"
| built_forms: "td_built td \<Longrightarrow> td_built (TD_UpdateForms fs td)"
| built_title: "td_built td \<Longrightarrow> td_built (TD_UpdateTitleDescription t d td)"
| built_property: "td_built td \<Longrightarrow> ty \<in> set data_types \<Longrightarrow> TD_AddProperty n pt t ty td = Returns td1 \<Longrightarrow> td_built td1"
| built_property_string: "td_built td \<Longrightarrow> TD_AddPropertyAsString n pt t td = Returns td1 \<Longrightarrow> td_built td1"
| built_property_bool: "td_built td \<Longrightarrow> TD_AddPropertyAsBool n pt t td = Returns td1 \<Longrightarrow> td_built td1"
| built_property_int: "td_built td \<Longrightarrow> TD_AddPropertyAsInt n pt t td = Returns td1 \<Longrightarrow> td_built td1"
| built_action: "td_built td \<Longrightarrow> optional_typed s \<Longrightarrow> TD_AddAction n at t d s td = Returns td1 \<Longrightarrow> td_built td1"
| built_event: "td_built td \<Longrightarrow> optional_typed s \<Longrightarrow> TD_AddEvent n et t d s td = Returns td1 \<Longrightarrow> td_built td1"
| built_dimmer_action: "td_built td \<Longrightarrow> TD_AddDimmerAction n td = Returns td1 \<Longrightarrow> td_built td1"
| built_dimmer_event: "td_built td \<Longrightarrow> TD_AddDimmerEvent n td = Returns td1 \<Longrightarrow> td_built td1"
| built_sensor_event: "td_built td \<Longrightarrow> TD_AddSensorEvent n t td = Returns td1 \<Longrightarrow> td_built td1"
| built_switch_action: "td_built td \<Longrightarrow> TD_AddSwitchAction n t td = Returns td1 \<Longrightarrow> td_built td1"
| built_switch_event: "td_built td \<Longrightarrow> TD_AddSwitchEvent n t td = Returns td1 \<Longrightarrow> td_built td1"

text \<open>The invariant: the maps are allocated and every schema is typed or is that of a switch.\<close>

definition schema_ok :: "DataSchema \<Rightarrow> bool" where
  "schema_ok ds \<longleftrightarrow> schema_typed ds \<or> switch_schema ds"

definition td_typed :: "TD \<Rightarrow> bool" where
  "td_typed td \<longleftrightarrow> td_Properties td \<noteq> None \<and> td_Actions td \<noteq> None \<and> td_Events td \<noteq> None
     \<and> (\<forall>ds \<in> td_schemas td. schema_ok ds)"

lemma td_typed_updates:
  "td_typed td \<Longrightarrow> td_typed (TD_UpdateForms fs td)"
  "td_typed td \<Longrightarrow> td_typed (TD_UpdateTitleDescription t d td)"
  by (auto simp: td_typed_def td_schemas_def TD_UpdateForms_def TD_UpdateTitleDescription_def)

lemma AddProperty_typed:
  assumes "td_typed td" "ty \<in> set data_types" "TD_AddProperty n pt t ty td = Returns td1"
  shows "td_typed td1"
  using assms schema_of_typed [OF assms(2), of pt t True]
  by (auto simp: td_typed_def td_schemas_def TD_AddProperty_def TD_UpdateProperty_def mget_mput schema_ok_def
      split: option.splits if_splits) fastforce+

lemma AddAction_typed:
  assumes "td_typed td" "\<And>ds. s = Some ds \<Longrightarrow> schema_ok ds" "TD_AddAction n at t d s td = Returns td1"
  shows "td_typed td1"
  using assms
  by (auto simp: td_typed_def td_schemas_def TD_AddAction_def TD_UpdateAction_def mget_mput split: option.splits if_splits)
    fastforce+

lemma AddEvent_typed:
  assumes "td_typed td" "\<And>ds. s = Some ds \<Longrightarrow> schema_ok ds" "TD_AddEvent n et t d s td = Returns td1"
  shows "td_typed td1"
  using assms
  by (auto simp: td_typed_def td_schemas_def TD_AddEvent_def TD_UpdateEvent_def mget_mput split: option.splits if_splits)
    fastforce+

lemma vocab_schemas_ok:
  "ty \<in> set data_types \<Longrightarrow> schema_ok (schema_of a t ty ro [])"
  "schema_ok (schema_of a t WoTDataTypeBool ro [JString ''on'', JString ''off''])"
  by (simp_all add: schema_ok_def schema_of_typed) (simp add: switch_schema_def schema_of_def)

lemma optional_typed_ok: "optional_typed s \<Longrightarrow> s = Some ds \<Longrightarrow> schema_ok ds"
  by (simp add: optional_typed_def schema_ok_def)

lemma data_types_mem [simp]:
  "WoTDataTypeString \<in> set data_types" "WoTDataTypeBool \<in> set data_types" "WoTDataTypeInteger \<in> set data_types"
  "WoTDataTypeNumber \<in> set data_types"
  by (simp_all add: data_types_def)

lemma td_built_typed: "td_built td \<Longrightarrow> td_typed td"
proof (induction rule: td_built.induct)
  case (built_new now thingID title deviceType)
  then show ?case by (simp add: td_typed_def td_schemas_def NewTD_def)
next
  case (built_property td ty n pt t td1)
  then show ?case using AddProperty_typed by blast
next
  case (built_property_string td n pt t td1)
  then show ?case using AddProperty_typed [of td WoTDataTypeString] by (simp add: TD_AddPropertyAsString_def)
next
  case (built_property_bool td n pt t td1)
  then show ?case using AddProperty_typed [of td WoTDataTypeBool] by (simp add: TD_AddPropertyAsBool_def)
next
  case (built_property_int td n pt t td1)
  then show ?case using AddProperty_typed [of td WoTDataTypeInteger] by (simp add: TD_AddPropertyAsInt_def)
next
  case (built_action td s n at t d td1)
  show ?case by (rule AddAction_typed [OF built_action.IH optional_typed_ok [OF built_action.hyps(2)] built_action.hyps(3)])
next
  case (built_event td s n et t d td1)
  show ?case by (rule AddEvent_typed [OF built_event.IH optional_typed_ok [OF built_event.hyps(2)] built_event.hyps(3)])
next
  case (built_dimmer_action td n td1)
  then show ?case using AddAction_typed [of td "Some (schema_of ActionDimmer [] WoTDataTypeInteger False [])"]
    by (simp add: TD_AddDimmerAction_def vocab_schemas_ok(1))
next
  case (built_dimmer_event td n td1)
  then show ?case using AddEvent_typed [of td "Some (schema_of PropSwitchDimmer [] WoTDataTypeInteger False [])"]
    by (simp add: TD_AddDimmerEvent_def vocab_schemas_ok(1))
next
  case (built_sensor_event td n t td1)
  then show ?case using AddEvent_typed [of td "Some (schema_of PropEnv [] WoTDataTypeNumber False [])"]
    by (simp add: TD_AddSensorEvent_def vocab_schemas_ok(1))
next
  case (built_switch_action td n t td1)
  then show ?case
    using AddAction_typed [of td "Some (schema_of ActionSwitchOnOff [] WoTDataTypeBool False [JString ''on'', JString ''off''])"]
    by (simp add: TD_AddSwitchAction_def vocab_schemas_ok(2))
next
  case (built_switch_event td n t td1)
  then show ?case
    using AddEvent_typed [of td "Some (schema_of PropSwitchOnOff [] WoTDataTypeBool False [JString ''on'', JString ''off''])"]
    by (simp add: TD_AddSwitchEvent_def vocab_schemas_ok(2))
qed (simp_all add: td_typed_updates)

section \<open>Reading back\<close>

lemma TD_Get_after_Add:
  "TD_AddAction n at t d s td = Returns td1 \<Longrightarrow> \<exists>a. TD_GetAction n td1 = Some a \<and> aa_ActionType a = at \<and> aa_Input a = s"
  "TD_AddEvent n at t d s td = Returns td1 \<Longrightarrow>
     \<exists>a. TD_GetEvent (if n = [] then at else n) td1 = Some a \<and> ea_EventType a = at \<and> ea_Data a = s"
  "TD_AddProperty n at t ty td = Returns td1 \<Longrightarrow>
     \<exists>p. TD_GetProperty (if n = [] then at else n) td1 = Some p \<and> ds_AtType (pa_DataSchema p) = at
       \<and> ds_Type (pa_DataSchema p) = ty \<and> ds_ReadOnly (pa_DataSchema p)"
  by (auto simp: TD_AddAction_def TD_UpdateAction_def TD_GetAction_def TD_AddEvent_def TD_UpdateEvent_def TD_GetEvent_def
      TD_AddProperty_def TD_UpdateProperty_def TD_GetProperty_def schema_of_def mget_mput split: option.splits)

lemma TD_GetPropertyOfType_sound:
  "TD_GetPropertyOfType at td = (n, Some p) \<Longrightarrow> wf_map (the (td_Properties td)) \<Longrightarrow>
     TD_GetProperty n td = Some p \<and> ds_AtType (pa_DataSchema p) = at"
  by (auto simp: TD_GetPropertyOfType_def TD_GetProperty_def find_Some_iff mget_mem_iff split: option.splits)
    (metis nth_mem)

section \<open>Interaction outputs\<close>

text \<open>An object decoded from JSON has no value, though it reads as a map; a boolean reads as 0 or 1.\<close>

lemma object_output_has_no_value:
  "ds_Type ds = WoTDataTypeObject \<Longrightarrow> io_Value (NewInteractionOutputFromJson L d (Some ds)) = None
     \<and> InteractionOutput_ValueAsMap L (NewInteractionOutputFromJson L d (Some ds)) = fst (jl_Map L (bytes_of d))"
  by (simp add: NewInteractionOutputFromJson_def InteractionOutput_ValueAsMap_def)

lemma bool_output_as_int:
  "InteractionOutput_ValueAsInt L (NewInteractionOutput L (JBool b) schema) = (if b then 1 else 0)"
  by (simp add: NewInteractionOutput_def InteractionOutput_ValueAsInt_def)

section \<open>Theorems\<close>



end
