(* ===== verification/CoreConfigProps.thy ===== *)
theory CoreConfigProps
  imports CoreConfig CertsProps
begin

text \<open>
  Properties of the setup of the hub: the identity of a hub (CA, server key and NATS keys) is made
  in its first run and is the same in every later run, a setup touches no files but its own, and a
  configuration made by \<open>NewHubCoreConfig\<close> cannot be set up at all, as its environment is never filled in.
\<close>

section \<open>Files of the identity\<close>

abbreviation cert_file :: "string \<Rightarrow> string \<Rightarrow> string" where "cert_file d n \<equiv> path_Join d n"

definition setup_files :: "string \<Rightarrow> string list" where
  "setup_files d = map (path_Join d) [''caCert.pem'', ''caKey.pem'', ''hubCert.pem'', ''hubKey.pem'', ''hiveotApp.key'',
     ''admin.key'', ''hiveotSystem.key'']"

lemma setup_names_plain [simp]:
  "plain_name ''caCert.pem''" "plain_name ''caKey.pem''" "plain_name ''hubCert.pem''" "plain_name ''hubKey.pem''"
  "plain_name ''hiveotApp.key''" "plain_name ''admin.key''" "plain_name ''hiveotSystem.key''" "plain_name ''natsserver''"
  by (simp_all add: plain_name_def)

lemma setup_names_relative [simp]:
  "\<not> path_rooted ''caCert.pem''" "\<not> path_rooted ''caKey.pem''" "\<not> path_rooted ''hubCert.pem''" "\<not> path_rooted ''hubKey.pem''"
  by (simp_all add: path_rooted_def)

lemma rooted_ne: "path_rooted d \<Longrightarrow> d \<noteq> []"
  by (auto simp: path_rooted_def)

record hub_identity =
  hi_CaCert :: x509_cert
  hi_CaKey :: HiveKey
  hi_ServerKey :: HiveKey
  hi_AppAccountKP :: privkey
  hi_AdminUserKP :: privkey
  hi_SystemUserKP :: privkey

definition key_saved :: "crypto_lib \<Rightarrow> filesys \<Rightarrow> string \<Rightarrow> HiveKey \<Rightarrow> bool" where
  "key_saved L fs p k \<longleftrightarrow> wf_ecdsa L k \<and> (\<exists>s. IHiveKey_ExportPrivate L k = Returns s \<and> fs p = Some s)"

text \<open>The name of the CA of a hub.\<close>

definition hub_ca_name :: pkix_name where
  "hub_ca_name = \<lparr>pn_Country = [''CA''], pn_Province = [''BC''], pn_Locality = [''HiveOT zone''],
     pn_Organization = [''HiveOT''], pn_OrganizationalUnit = [], pn_CommonName = ''hiveot''\<rparr>"

definition ca_saved :: "crypto_lib \<Rightarrow> x509_lib \<Rightarrow> filesys \<Rightarrow> string \<Rightarrow> x509_cert \<Rightarrow> HiveKey \<Rightarrow> bool" where
  "ca_saved L X fs d ca k \<longleftrightarrow> key_saved L fs (path_Join d ''caKey.pem'') k \<and> is_hub_ca L ca k \<and> x_Subject ca = hub_ca_name
     \<and> x5_ParseCertificate X (x_Raw ca) = Inr ca \<and> fs (path_Join d ''caCert.pem'') = Some (X509CertToPEM L ca)"

definition identity_saved :: "crypto_lib \<Rightarrow> x509_lib \<Rightarrow> string \<Rightarrow> hub_identity \<Rightarrow> filesys \<Rightarrow> bool" where
  "identity_saved L X d I fs \<longleftrightarrow> ca_saved L X fs d (hi_CaCert I) (hi_CaKey I)
     \<and> key_saved L fs (path_Join d ''hubKey.pem'') (hi_ServerKey I)
     \<and> load_nkey L fs (path_Join d ''hiveotApp.key'') = Some (hi_AppAccountKP I)
     \<and> load_nkey L fs (path_Join d ''admin.key'') = Some (hi_AdminUserKP I)
     \<and> load_nkey L fs (path_Join d ''hiveotSystem.key'') = Some (hi_SystemUserKP I)"

text \<open>A configuration that runs with an identity.\<close>

definition has_identity :: "HubCoreConfig \<Rightarrow> hub_identity \<Rightarrow> bool" where
  "has_identity cfg I \<longleftrightarrow> hg_CaCert cfg = Some (hi_CaCert I) \<and> hg_CaKey cfg = Some (hi_CaKey I)
     \<and> hg_ServerKey cfg = Some (hi_ServerKey I)
     \<and> nc_CaCert (hg_NatsServer cfg) = Some (hi_CaCert I) \<and> nc_ServerTLS (hg_NatsServer cfg) \<noteq> None
     \<and> nc_AppAccountKP (hg_NatsServer cfg) = Some (hi_AppAccountKP I)
     \<and> nc_AdminUserKP (hg_NatsServer cfg) = Some (hi_AdminUserKP I)
     \<and> nc_SystemUserKP (hg_NatsServer cfg) = Some (hi_SystemUserKP I)"

section \<open>One step at a time\<close>

text \<open>A run without errors of file operations, at a time and with names that certificates can express.\<close>

definition server_template :: "x509_lib \<Rightarrow> int \<Rightarrow> string \<Rightarrow> string list \<Rightarrow> x509_cert" where
  "server_template X now host names = add_hosts X (names @ [''127.0.0.1'', ''localhost'']) (zero_cert
     \<lparr>x_SerialNumber := time_Unix now - 3,
      x_Subject := \<lparr>pn_Country = [''CA''], pn_Province = [''BC''], pn_Locality = [''local''],
         pn_Organization = [''hiveot''], pn_OrganizationalUnit = [''hiveot''], pn_CommonName = ''nats-'' @ host\<rparr>,
      x_NotBefore := now - second, x_NotAfter := x5_AddDays X now 365,
      x_KeyUsage := [KeyUsageDigitalSignature, KeyUsageDataEncipherment, KeyUsageKeyEncipherment],
      x_ExtKeyUsage := [ExtKeyUsageServerAuth, ExtKeyUsageClientAuth], x_IsCA := False, x_MaxPathLenZero := True\<rparr>)"

abbreviation server_names :: "setup_env \<Rightarrow> string list" where
  "server_names E \<equiv> [''localhost'', ''127.0.0.1'', se_hostName E, se_outboundIP E]"

definition run_ok :: "setup_env \<Rightarrow> bool" where
  "run_ok E \<longleftrightarrow> crypto_ok (se_crypto E) \<and> keygen_ok (se_loadGen E) \<and> keygen_ok (se_caGen E) \<and> keygen_ok (se_serverGen E)
     \<and> se_MkdirAll E = (\<lambda>_. None) \<and> se_Remove E = (\<lambda>_. None) \<and> se_Write E = (\<lambda>_. None)
     \<and> (\<exists>x. se_appAccount E = Some (NKeyPair x)) \<and> (\<exists>x. se_adminUser E = Some (NKeyPair x)) \<and> (\<exists>x. se_systemUser E = Some (NKeyPair x))
     \<and> 4 * second \<le> se_now E \<and> encodable_time (se_now E) \<and> encodable_time (x5_AddDays (se_x509 E) (se_now E) 365)
     \<and> encodable_time (x5_AddDays (se_x509 E) (se_now E) 3650) \<and> ascii (se_hostName E) \<and> ascii (se_outboundIP E)
     \<and> (\<forall>p. x509_creates (se_crypto E) (se_x509 E) (CA_template (se_x509 E) (se_now E) ''hiveot'' 3650)
           (CA_template (se_x509 E) (se_now E) ''hiveot'' 3650) (cy_Public (se_crypto E) p) p)
     \<and> (\<forall>ca pub priv. x_Subject ca = hub_ca_name \<longrightarrow> x509_creates (se_crypto E) (se_x509 E)
           (server_template (se_x509 E) (se_now E) (se_hostName E) (server_names E)) ca pub priv)"

lemma run_okD:
  assumes "run_ok E"
  shows "crypto_ok (se_crypto E)" "keygen_ok (se_loadGen E)" "4 * second \<le> se_now E" "encodable_time (se_now E)"
    "encodable_time (x5_AddDays (se_x509 E) (se_now E) 365)" "ascii (se_hostName E)" "ascii (se_outboundIP E)"
    "se_MkdirAll E = (\<lambda>_. None)" "se_Remove E = (\<lambda>_. None)" "se_Write E = (\<lambda>_. None)"
    "x_Subject ca = hub_ca_name \<Longrightarrow> x509_creates (se_crypto E) (se_x509 E)
       (server_template (se_x509 E) (se_now E) (se_hostName E) (server_names E)) ca pub priv"
  using assms by (simp_all add: run_ok_def)

lemma key_saved_load:
  assumes "crypto_ok L" "keygen_ok gen" "key_saved L fs p k"
  shows "NewKeyFromFile L gen fs p = Returns (Some k, None)"
  using ecdsa.reload [OF assms(1,2), of k] assms(3) by (auto simp: key_saved_def NewKeyFromFile_def os_ReadFile_def)

lemma export_saves:
  assumes "crypto_ok L" "wf_ecdsa L k"
  obtains s where "IHiveKey_ExportPrivate L k = Returns s"
    "IHiveKey_ExportPrivateToFile L None None p k fs = Returns (None, fs(p \<mapsto> s))" "key_saved L (fs(p \<mapsto> s)) p k"
proof -
  obtain s where "IHiveKey_ExportPrivate L k = Returns s"
    using ecdsa.export_returns [OF assms] ecdsa.dispatch_export ecdsa.wf_kind [OF assms(2)] by metis
  then show thesis using assms(2) that
    by (auto simp: IHiveKey_ExportPrivateToFile_def os_WriteFile_def os_Remove_def key_saved_def)
qed

text \<open>The CA: loaded when it was saved, made and saved otherwise.\<close>

definition absent :: "filesys \<Rightarrow> string \<Rightarrow> string list \<Rightarrow> bool" where
  "absent fs d names \<longleftrightarrow> list_all (\<lambda>n. fs (path_Join d n) = None) names"

lemma setup_CA_loads:
  assumes "run_ok E" "hg_CaCert cfg = None" "hg_CaKey cfg = None" "hg_CaCertFile cfg = ''caCert.pem''" "hg_CaKeyFile cfg = ''caKey.pem''"
    "ca_saved (se_crypto E) (se_x509 E) (dk_files dk) (av_CertsDir (hg_Env cfg)) ca k"
  shows "setup_CA E err0 cfg dk = Returns ((ca, k), dk)"
proof -
  let ?d = "av_CertsDir (hg_Env cfg)"
  have "LoadX509CertFromPEM (se_crypto E) (se_x509 E) (dk_files dk) (path_Join ?d ''caCert.pem'') = Inr ca"
    using assms(1,6) CertFromPEM_ToPEM by (simp add: run_ok_def ca_saved_def LoadX509CertFromPEM_def os_ReadFile_def)
  moreover have "NewKeyFromFile (se_crypto E) (se_loadGen E) (dk_files dk) (path_Join ?d ''caKey.pem'') = Returns (Some k, None)"
    using assms(1,6) by (intro key_saved_load) (auto simp: run_ok_def ca_saved_def)
  ultimately show ?thesis using assms(2-5) by (simp add: setup_CA_def load_CA_def in_dir_def)
qed

lemma setup_CA_creates:
  assumes "run_ok E" "hg_CaCert cfg = None" "hg_CaKey cfg = None" "hg_CaCertFile cfg = ''caCert.pem''" "hg_CaKeyFile cfg = ''caKey.pem''"
    "absent (dk_files dk) (av_CertsDir (hg_Env cfg)) [''caCert.pem'', ''caKey.pem'']" "av_CertsDir (hg_Env cfg) \<noteq> []"
  obtains ca k s c where "setup_CA E err0 cfg dk = Returns ((ca, k), dk\<lparr>dk_files := (dk_files dk)
        (path_Join (av_CertsDir (hg_Env cfg)) ''caKey.pem'' \<mapsto> s, path_Join (av_CertsDir (hg_Env cfg)) ''caCert.pem'' \<mapsto> c)\<rparr>)"
    "ca_saved (se_crypto E) (se_x509 E) ((dk_files dk)
        (path_Join (av_CertsDir (hg_Env cfg)) ''caKey.pem'' \<mapsto> s, path_Join (av_CertsDir (hg_Env cfg)) ''caCert.pem'' \<mapsto> c))
        (av_CertsDir (hg_Env cfg)) ca k"
proof -
  let ?d = "av_CertsDir (hg_Env cfg)" and ?L = "se_crypto E" and ?X = "se_x509 E"
  have L: "crypto_ok ?L" "keygen_ok (se_caGen E)" using assms(1) by (simp_all add: run_ok_def)
  have req: "ca_request_ok ?X (se_now E) ''hiveot'' 3650" using assms(1) by (simp add: run_ok_def ca_request_ok_def ascii_def)
  have X: "x509_creates ?L ?X (CA_template ?X (se_now E) ''hiveot'' 3650) (CA_template ?X (se_now E) ''hiveot'' 3650) (cy_Public ?L p) p" for p
    using assms(1) by (simp add: run_ok_def)
  obtain ca k where ca: "CreateCA ?L ?X (se_caGen E) (se_now E) ''hiveot'' 3650 = Returns (Some ca, k)" "is_hub_ca ?L ca k"
    "wf_ecdsa ?L k" "x5_ParseCertificate ?X (x_Raw ca) = Inr ca" "x_Subject ca = hub_ca_name"
    by (rule CreateCA_makes_ca [OF L req X]) (auto simp: CA_template_def hub_ca_name_def)
  obtain s where s: "IHiveKey_ExportPrivate ?L k = Returns s"
    "IHiveKey_ExportPrivateToFile ?L None None (path_Join ?d ''caKey.pem'') k (dk_files dk) =
      Returns (None, (dk_files dk)(path_Join ?d ''caKey.pem'' \<mapsto> s))"
    by (rule export_saves [OF L(1) ca(3), of "path_Join ?d ''caKey.pem''" "dk_files dk"]) auto
  have ne: "path_Join ?d ''caKey.pem'' \<noteq> path_Join ?d ''caCert.pem''" using path_Join_inject [OF assms(7)] by simp
  have env: "se_Remove E = (\<lambda>_. None)" "se_Write E = (\<lambda>_. None)" using assms(1) by (simp_all add: run_ok_def)
  have "load_CA E err0 cfg dk = Returns ((None, None), Some ErrNotExist)"
    using assms(2-6) by (simp add: load_CA_def in_dir_def LoadX509CertFromPEM_def os_ReadFile_def absent_def)
  then have "setup_CA E err0 cfg dk = Returns ((ca, k), dk\<lparr>dk_files := (dk_files dk)
        (path_Join ?d ''caKey.pem'' \<mapsto> s, path_Join ?d ''caCert.pem'' \<mapsto> X509CertToPEM ?L ca)\<rparr>)"
    using ca(1) s(2) assms(4,5) ne
    by (simp add: setup_CA_def create_CA_def in_dir_def env SaveX509CertToPEM_def os_WriteFile_def os_Remove_def fun_upd_twist)
  then show thesis
    using ca s(1) ne by (intro that) (auto simp: ca_saved_def key_saved_def)
qed

text \<open>The server key likewise.\<close>

lemma setup_server_key_saved:
  assumes "run_ok E" "hg_ServerKey cfg = None" "hg_ServerKeyFile cfg = ''hubKey.pem''" "hk_type caKey = KeyTypeECDSA"
    and "p = path_Join (av_CertsDir (hg_Env cfg)) ''hubKey.pem''"
    and "dk_files dk p = None \<or> key_saved (se_crypto E) (dk_files dk) p k0"
  obtains k fs1 where "setup_server_key E caKey cfg dk = Returns (k, dk\<lparr>dk_files := fs1\<rparr>)" "key_saved (se_crypto E) fs1 p k"
    "\<forall>q. q \<noteq> p \<longrightarrow> fs1 q = dk_files dk q" "key_saved (se_crypto E) (dk_files dk) p k0 \<longrightarrow> k = k0"
proof (cases "key_saved (se_crypto E) (dk_files dk) p k0")
  case True
  then have "NewKeyFromFile (se_crypto E) (se_loadGen E) (dk_files dk) p = Returns (Some k0, None)"
    using assms(1) by (intro key_saved_load) (simp_all add: run_ok_def)
  then show thesis using assms(2,3,5) True
    by (intro that [of k0 "dk_files dk"]) (simp_all add: setup_server_key_def in_dir_def)
next
  case False
  then have none: "dk_files dk p = None" using assms(6) by blast
  obtain k where k: "IHiveKey_Initialize (se_crypto E) (se_serverGen E) KeyTypeECDSA = Returns k" "wf_ecdsa (se_crypto E) k"
    using ecdsa.initialize_wf [of "se_crypto E" "se_serverGen E"] assms(1) by (auto simp: run_ok_def)
  obtain s where s: "IHiveKey_ExportPrivateToFile (se_crypto E) None None p k (dk_files dk) = Returns (None, (dk_files dk)(p \<mapsto> s))"
    "key_saved (se_crypto E) ((dk_files dk)(p \<mapsto> s)) p k"
    by (rule export_saves [of "se_crypto E" k p "dk_files dk"]) (use assms(1) k(2) in \<open>auto simp: run_ok_def\<close>)
  have "setup_server_key E caKey cfg dk = Returns (k, dk\<lparr>dk_files := (dk_files dk)(p \<mapsto> s)\<rparr>)"
    using none k(1) s(1) assms(1-5) by (simp add: setup_server_key_def in_dir_def NewKeyFromFile_def os_ReadFile_def NewKey_def run_ok_def)
  then show thesis using s(2) False by (intro that) auto
qed

text \<open>The server certificate is made anew in every run.\<close>

lemma CreateServerCert_ok:
  assumes "run_ok E" "is_hub_ca (se_crypto E) ca caKey" "wf_ecdsa (se_crypto E) k" "x_Subject ca = hub_ca_name"
  shows "\<exists>c. CreateServerCert (se_x509 E) (se_now E) (''nats-'' @ se_hostName E) ''hiveot'' 365 (Some k) (server_names E) ca caKey = Inr c"
proof -
  note add_hosts.simps [simp del]
  let ?t = "server_template (se_x509 E) (se_now E) (se_hostName E) (server_names E)"
  obtain y where y: "hk_priv caKey = Some (EcdsaPriv y)" using assms(2) by (auto simp: is_hub_ca_def)
  obtain x where x: "hk_pub k = Some (EcdsaPub x)"
  proof -
    have L: "crypto_ok (se_crypto E)" using assms(1) by (simp add: run_ok_def)
    obtain z where "k = complete_key (se_crypto E) KeyTypeECDSA (EcdsaPriv z) (cy_Public (se_crypto E) (EcdsaPriv z))"
      using assms(3) by (auto simp: wf_ecdsa_def)
    then show thesis using crypto_okD(6) [OF L, of z] that by (auto simp: complete_key_def)
  qed
  have lit: "ascii ''hiveot''" "ascii ''localhost''" "ascii ''127.0.0.1''" "ascii (''nats-'' @ h) \<longleftrightarrow> ascii h" for h
    by (simp_all add: ascii_def)
  have "template_ok (se_crypto E) ?t ca (EcdsaPriv y)"
    using run_okD(3-7) [OF assms(1)] assms(2) y time_Unix_lower [of 4 "se_now E"] lit
    by (auto simp: template_ok_def server_template_def zero_cert_def add_hosts_fields name_ok_def is_hub_ca_def
        encodable_time_def intro!: add_hosts_dns)
  from x509_createsE [OF run_okD(11) [OF assms(1,4)] this, of x]
  obtain c where "create_and_parse (se_x509 E) ?t ca (Some (EcdsaPub x)) (Some (EcdsaPriv y)) = Inr c" by metis
  then show ?thesis using x y by (auto simp: CreateServerCert_def server_template_def)
qed

text \<open>A NATS key: loaded when it was saved, saved otherwise.\<close>

lemma nkey_seed:
  assumes "crypto_ok L"
  obtains s where "kp_seed L (Some (NKeyPair x)) = Returns s" "nk_ParseDecorated L s = Inr (NKeyPair x)"
  using crypto_okD(4) [OF assms, of x] that by (auto simp: nkey_ok_def kp_seed_def)

lemma LoadCreateUserKP_saved:
  assumes "run_ok E" "p = path_Join keysDir (clientID @ ''.key'')" "dk_files dk p = None \<or> load_nkey (se_crypto E) (dk_files dk) p \<noteq> None"
    "created = Some (NKeyPair x)"
  obtains kp fs1 where "NatsServerConfig_LoadCreateUserKP E created clientID keysDir True dk = Returns ((Some kp, None), dk\<lparr>dk_files := fs1\<rparr>)"
    "load_nkey (se_crypto E) fs1 p = Some kp" "\<forall>q. q \<noteq> p \<longrightarrow> fs1 q = dk_files dk q"
    "load_nkey (se_crypto E) (dk_files dk) p \<noteq> None \<longrightarrow> load_nkey (se_crypto E) (dk_files dk) p = Some kp"
proof (cases "load_nkey (se_crypto E) (dk_files dk) p")
  case (Some kp)
  then show thesis using assms(2) by (intro that [of kp "dk_files dk"]) (simp_all add: NatsServerConfig_LoadCreateUserKP_def)
next
  case None
  obtain s where s: "kp_seed (se_crypto E) (Some (NKeyPair x)) = Returns s" "nk_ParseDecorated (se_crypto E) s = Inr (NKeyPair x)"
    by (rule nkey_seed [of "se_crypto E" x]) (use assms(1) in \<open>simp_all add: run_ok_def\<close>)
  show thesis using None s assms(1,2,4)
    by (intro that [of "NKeyPair x" "(dk_files dk)(p \<mapsto> s)"])
      (simp_all add: NatsServerConfig_LoadCreateUserKP_def on_files_def os_WriteFile_def run_ok_def load_nkey_def)
qed

lemma nats_account_key_saved:
  assumes "run_ok E" "nc_AppAccountKP cfg = None" "nc_AppAccountName cfg = ''hiveot''" "path_rooted d"
    "p = path_Join d ''hiveotApp.key''" "dk_files dk p = None \<or> load_nkey (se_crypto E) (dk_files dk) p \<noteq> None"
  obtains kp fs1 where "nats_account_key E d True cfg dk = Returns (None, cfg\<lparr>nc_AppAccountKP := Some kp\<rparr>, dk\<lparr>dk_files := fs1\<rparr>)"
    "load_nkey (se_crypto E) fs1 p = Some kp" "\<forall>q. q \<noteq> p \<longrightarrow> fs1 q = dk_files dk q"
    "load_nkey (se_crypto E) (dk_files dk) p \<noteq> None \<longrightarrow> load_nkey (se_crypto E) (dk_files dk) p = Some kp"
proof (cases "load_nkey (se_crypto E) (dk_files dk) p")
  have path: "app_account_path d cfg = p"
    using assms(3-5) path_Join_rooted [OF assms(4), of "''hiveotApp.key''"] by (simp add: app_account_path_def)
  {
    case (Some kp)
    then show thesis using assms(2) path by (intro that [of kp "dk_files dk"]) (simp_all add: nats_account_key_def)
  next
    case None
    obtain x where x: "se_appAccount E = Some (NKeyPair x)" using assms(1) by (auto simp: run_ok_def)
    obtain s where s: "kp_seed (se_crypto E) (Some (NKeyPair x)) = Returns s" "nk_ParseDecorated (se_crypto E) s = Inr (NKeyPair x)"
      by (rule nkey_seed [of "se_crypto E" x]) (use assms(1) in \<open>simp_all add: run_ok_def\<close>)
    show thesis using None s x assms(1,2) path
      by (intro that [of "NKeyPair x" "(dk_files dk)(p \<mapsto> s)"])
        (simp_all add: nats_account_key_def on_files_def os_WriteFile_def run_ok_def load_nkey_def)
  }
qed

section \<open>A run\<close>

lemma ensure_dirs_files [simp]: "dk_files (ensure_dirs E ds dk) = dk_files dk"
  by (induction ds arbitrary: dk) (auto simp: os_MkdirAll_def split: option.splits)

definition home_ok :: "AppEnvironment \<Rightarrow> bool" where
  "home_ok env \<longleftrightarrow> av_HomeDir env \<noteq> [] \<and> path_Clean (av_HomeDir env) \<noteq> ''/etc'' \<and> path_Clean (av_HomeDir env) \<noteq> ''/tmp''
     \<and> path_Clean (path_Dir (av_HomeDir env)) \<noteq> ''/home''"

lemma setupDirectories_keeps_files:
  assumes "run_ok E" "home_ok env"
  obtains dk1 where "HubCoreConfig_setupDirectories E False env dk = (None, dk1)" "dk_files dk1 = dk_files dk"
proof -
  note ensure_dirs.simps [simp del]
  have "\<exists>dk1. HubCoreConfig_setupDirectories E False env dk = (None, dk1) \<and> dk_files dk1 = dk_files dk"
    using assms(2) unfolding HubCoreConfig_setupDirectories_def home_ok_def Let_def
    by (simp add: os_MkdirAll_def run_okD(8) [OF assms(1)])
  then show thesis using that by blast
qed

text \<open>Each part of the identity has been saved, or has no file yet.\<close>

definition certs_ready :: "crypto_lib \<Rightarrow> x509_lib \<Rightarrow> string \<Rightarrow> filesys \<Rightarrow> bool" where
  "certs_ready L X d fs \<longleftrightarrow> (absent fs d [''caCert.pem'', ''caKey.pem''] \<or> (\<exists>ca k. ca_saved L X fs d ca k))
     \<and> (absent fs d [''hubKey.pem''] \<or> (\<exists>k. key_saved L fs (path_Join d ''hubKey.pem'') k))"

lemma ca_saved_type: "ca_saved L X fs d ca k \<Longrightarrow> hk_type k = KeyTypeECDSA"
  by (auto simp: ca_saved_def key_saved_def wf_ecdsa_def complete_key_def)

lemma key_saved_unique:
  assumes "crypto_ok L" "keygen_ok gen" "key_saved L fs p k" "key_saved L fs p k'"
  shows "k = k'"
  using key_saved_load [OF assms(1-3)] key_saved_load [OF assms(1,2,4)] by simp

text \<open>The CA of a run, with what its files are afterwards.\<close>

lemma setup_CA_saved:
  assumes "run_ok E" "hg_CaCert cfg = None" "hg_CaKey cfg = None" "hg_CaCertFile cfg = ''caCert.pem''" "hg_CaKeyFile cfg = ''caKey.pem''"
    and d: "d = av_CertsDir (hg_Env cfg)" "d \<noteq> []"
    and "absent (dk_files dk) d [''caCert.pem'', ''caKey.pem''] \<or> (\<exists>ca k. ca_saved (se_crypto E) (se_x509 E) (dk_files dk) d ca k)"
  obtains ca k fs1 where "setup_CA E err0 cfg dk = Returns ((ca, k), dk\<lparr>dk_files := fs1\<rparr>)" "ca_saved (se_crypto E) (se_x509 E) fs1 d ca k"
    "\<And>q. q \<noteq> path_Join d ''caCert.pem'' \<Longrightarrow> q \<noteq> path_Join d ''caKey.pem'' \<Longrightarrow> fs1 q = dk_files dk q"
    "\<And>ca0 k0. ca_saved (se_crypto E) (se_x509 E) (dk_files dk) d ca0 k0 \<Longrightarrow> ca = ca0 \<and> k = k0"
proof (cases "\<exists>ca k. ca_saved (se_crypto E) (se_x509 E) (dk_files dk) d ca k")
  case True
  then obtain ca k where c: "ca_saved (se_crypto E) (se_x509 E) (dk_files dk) d ca k" by blast
  have load: "setup_CA E err0 cfg dk = Returns ((a, b), dk)" if "ca_saved (se_crypto E) (se_x509 E) (dk_files dk) d a b" for a b
    using setup_CA_loads [OF assms(1-5), of dk a b err0] that d by simp
  show thesis
  proof (rule that [of ca k "dk_files dk"])
    show "ca = ca0 \<and> k = k0" if "ca_saved (se_crypto E) (se_x509 E) (dk_files dk) d ca0 k0" for ca0 k0
      using load [OF c] load [OF that] by simp
  qed (use load [OF c] c in simp_all)
next
  case False
  then have a: "absent (dk_files dk) (av_CertsDir (hg_Env cfg)) [''caCert.pem'', ''caKey.pem'']" using assms(8) d by simp
  then obtain ca k s c where "setup_CA E err0 cfg dk = Returns ((ca, k), dk\<lparr>dk_files := (dk_files dk)
        (path_Join d ''caKey.pem'' \<mapsto> s, path_Join d ''caCert.pem'' \<mapsto> c)\<rparr>)"
    "ca_saved (se_crypto E) (se_x509 E) ((dk_files dk)(path_Join d ''caKey.pem'' \<mapsto> s, path_Join d ''caCert.pem'' \<mapsto> c)) d ca k"
    using setup_CA_creates [OF assms(1-5) a, of err0] d by metis
  then show thesis
    by (rule that) (use False in auto)
qed

lemma setupCerts_saved:
  assumes "run_ok E" "hg_CaCert cfg = None" "hg_CaKey cfg = None" "hg_ServerKey cfg = None"
    and "hg_CaCertFile cfg = ''caCert.pem''" "hg_CaKeyFile cfg = ''caKey.pem''" "hg_ServerCertFile cfg = ''hubCert.pem''"
      "hg_ServerKeyFile cfg = ''hubKey.pem''"
    and d: "d = av_CertsDir (hg_Env cfg)" "d \<noteq> []" and ready: "certs_ready (se_crypto E) (se_x509 E) d (dk_files dk)"
  obtains ca k sk tls dk1 where
    "HubCoreConfig_setupCerts E cfg dk = Returns (cfg\<lparr>hg_CaCert := Some ca, hg_CaKey := Some k, hg_ServerKey := Some sk, hg_ServerTLS := Some tls\<rparr>, dk1)"
    "ca_saved (se_crypto E) (se_x509 E) (dk_files dk1) d ca k" "key_saved (se_crypto E) (dk_files dk1) (path_Join d ''hubKey.pem'') sk"
    "\<And>q. q \<notin> set (setup_files d) \<Longrightarrow> dk_files dk1 q = dk_files dk q"
    "\<And>n. n \<in> {''hiveotApp.key'', ''admin.key'', ''hiveotSystem.key''} \<Longrightarrow> dk_files dk1 (path_Join d n) = dk_files dk (path_Join d n)"
    "\<And>ca0 k0. ca_saved (se_crypto E) (se_x509 E) (dk_files dk) d ca0 k0 \<Longrightarrow> ca = ca0 \<and> k = k0"
    "\<And>sk0. key_saved (se_crypto E) (dk_files dk) (path_Join d ''hubKey.pem'') sk0 \<Longrightarrow> sk = sk0"
proof -
  let ?L = "se_crypto E" and ?X = "se_x509 E" and ?hub = "path_Join d ''hubKey.pem''"
  define err0 where "err0 = (if os_Stat dk d then None else Some ErrNotExist)"
  define dk0 where "dk0 = (if os_Stat dk d then dk else snd (os_MkdirAll (se_MkdirAll E d) d dk))"
  have f0: "dk_files dk0 = dk_files dk" by (simp add: dk0_def os_MkdirAll_def split: option.split)
  note ne = path_Join_inject [OF d(2)]
  obtain ca k fs1 where ca: "setup_CA E err0 cfg dk0 = Returns ((ca, k), dk0\<lparr>dk_files := fs1\<rparr>)" "ca_saved ?L ?X fs1 d ca k"
    "\<And>q. q \<noteq> path_Join d ''caCert.pem'' \<Longrightarrow> q \<noteq> path_Join d ''caKey.pem'' \<Longrightarrow> fs1 q = dk_files dk q"
    "\<And>ca0 k0. ca_saved ?L ?X (dk_files dk) d ca0 k0 \<Longrightarrow> ca = ca0 \<and> k = k0"
    by (rule setup_CA_saved [OF assms(1-3) assms(5,6) d, of dk0 err0]) (use ready f0 in \<open>auto simp: certs_ready_def\<close>)
  have hub: "fs1 ?hub = dk_files dk ?hub" by (rule ca(3)) (simp_all add: ne)
  then have hubk: "key_saved ?L fs1 ?hub sk0 \<longleftrightarrow> key_saved ?L (dk_files dk) ?hub sk0" for sk0 by (simp add: key_saved_def)
  obtain sk0 where sk0: "fs1 ?hub = None \<or> key_saved ?L fs1 ?hub sk0"
    using ready hub hubk by (auto simp: certs_ready_def absent_def)
  obtain sk fs2 where sk: "setup_server_key E k cfg (dk0\<lparr>dk_files := fs1\<rparr>) = Returns (sk, dk0\<lparr>dk_files := fs2\<rparr>)"
    "key_saved ?L fs2 ?hub sk" "\<forall>q. q \<noteq> ?hub \<longrightarrow> fs2 q = fs1 q" "key_saved ?L fs1 ?hub sk0 \<longrightarrow> sk = sk0"
    by (rule setup_server_key_saved [OF assms(1,4,8) ca_saved_type [OF ca(2)], of ?hub "dk0\<lparr>dk_files := fs1\<rparr>" sk0])
      (use sk0 d in auto)
  have wf: "wf_ecdsa ?L sk" "is_hub_ca ?L ca k" "x_Subject ca = hub_ca_name" using sk(2) ca(2) by (simp_all add: key_saved_def ca_saved_def)
  obtain c where c: "CreateServerCert ?X (se_now E) (''nats-'' @ se_hostName E) ''hiveot'' 365 (Some sk) (server_names E) ca k = Inr c"
    using CreateServerCert_ok [OF assms(1) wf(2,1,3)] by blast
  let ?fs3 = "fs2(path_Join d ''hubCert.pem'' \<mapsto> X509CertToPEM ?L c)"
  have "HubCoreConfig_setupCerts E cfg dk = Returns (cfg\<lparr>hg_CaCert := Some ca, hg_CaKey := Some k, hg_ServerKey := Some sk,
      hg_ServerTLS := Some (X509CertToTLS c sk)\<rparr>, dk0\<lparr>dk_files := ?fs3\<rparr>)"
    unfolding HubCoreConfig_setupCerts_def Let_def d(1) [symmetric] err0_def [symmetric] dk0_def [symmetric]
    using ca(1) sk(1) c assms(7)
    by (simp add: in_dir_def on_files_def SaveX509CertToPEM_def os_WriteFile_def os_Remove_def run_okD [OF assms(1)])
  then show thesis
  proof (rule that)
    show "ca_saved ?L ?X (dk_files (dk0\<lparr>dk_files := ?fs3\<rparr>)) d ca k"
      using ca(2) sk(3) by (simp add: ca_saved_def key_saved_def ne)
    show "key_saved ?L (dk_files (dk0\<lparr>dk_files := ?fs3\<rparr>)) ?hub sk" using sk(2) by (simp add: key_saved_def ne)
    show "dk_files (dk0\<lparr>dk_files := ?fs3\<rparr>) q = dk_files dk q" if "q \<notin> set (setup_files d)" for q
      using that sk(3) ca(3) [of q] by (auto simp: setup_files_def)
    show "dk_files (dk0\<lparr>dk_files := ?fs3\<rparr>) (path_Join d n) = dk_files dk (path_Join d n)"
      if "n \<in> {''hiveotApp.key'', ''admin.key'', ''hiveotSystem.key''}" for n
      using that sk(3) ca(3) [of "path_Join d n"] by (auto simp: ne)
    show "ca = ca0 \<and> k = k0" if "ca_saved ?L ?X (dk_files dk) d ca0 k0" for ca0 k0 using ca(4) that .
    show "sk = sk1" if "key_saved ?L (dk_files dk) ?hub sk1" for sk1
    proof -
      have k1: "key_saved ?L fs1 ?hub sk1" using that hubk by simp
      then have "key_saved ?L fs1 ?hub sk0" using sk0 by (auto simp: key_saved_def)
      then show ?thesis using sk(4) key_saved_unique [OF run_okD(1,2) [OF assms(1)] _ k1] by blast
    qed
  qed
qed

definition nkey_ready :: "crypto_lib \<Rightarrow> filesys \<Rightarrow> string \<Rightarrow> bool" where
  "nkey_ready L fs p \<longleftrightarrow> fs p = None \<or> load_nkey L fs p \<noteq> None"

abbreviation nats_key_names :: "string list" where "nats_key_names \<equiv> [''hiveotApp.key'', ''admin.key'', ''hiveotSystem.key'']"

lemma NatsServerConfig_Setup_saved:
  assumes "run_ok E" "nc_CaCert cfg = Some ca" "nc_CaKey cfg = Some k" "nc_ServerTLS cfg = Some tls"
    and "nc_AppAccountName cfg = []" "nc_AppAccountKP cfg = None" "nc_AdminUserKP cfg = None" "nc_SystemUserKP cfg = None" "nc_DataDir cfg = []"
    and d: "path_rooted d" and ready: "\<And>n. n \<in> set nats_key_names \<Longrightarrow> nkey_ready (se_crypto E) (dk_files dk) (path_Join d n)"
  obtains nats fs1 where "NatsServerConfig_Setup E d storesDir True cfg dk = Returns (None, nats, dk\<lparr>dk_files := fs1\<rparr>)"
    "nc_CaCert nats = Some ca" "nc_ServerTLS nats = Some tls" "nc_DataDir nats = path_Join storesDir ''natsserver''"
    "nc_AppAccountKP nats = load_nkey (se_crypto E) fs1 (path_Join d ''hiveotApp.key'')" "nc_AppAccountKP nats \<noteq> None"
    "nc_AdminUserKP nats = load_nkey (se_crypto E) fs1 (path_Join d ''admin.key'')" "nc_AdminUserKP nats \<noteq> None"
    "nc_SystemUserKP nats = load_nkey (se_crypto E) fs1 (path_Join d ''hiveotSystem.key'')" "nc_SystemUserKP nats \<noteq> None"
    "\<And>q. q \<notin> path_Join d ` set nats_key_names \<Longrightarrow> fs1 q = dk_files dk q"
    "\<And>n kp. n \<in> set nats_key_names \<Longrightarrow> load_nkey (se_crypto E) (dk_files dk) (path_Join d n) = Some kp
        \<Longrightarrow> load_nkey (se_crypto E) fs1 (path_Join d n) = Some kp"
proof -
  let ?L = "se_crypto E" and ?app = "path_Join d ''hiveotApp.key''" and ?adm = "path_Join d ''admin.key''"
    and ?sys = "path_Join d ''hiveotSystem.key''"
  define c0 where "c0 = nats_defaults E storesDir cfg"
  note ne = path_Join_inject [OF rooted_ne [OF d]]
  have c0: "nats_certs E c0 = Returns c0" "nc_AppAccountKP c0 = None" "nc_AppAccountName c0 = ''hiveot''" "nc_AdminUserKP c0 = None"
    "nc_SystemUserKP c0 = None" "nc_CaCert c0 = Some ca" "nc_ServerTLS c0 = Some tls" "nc_DataDir c0 = path_Join storesDir ''natsserver''"
    using assms(2-9) by (simp_all add: c0_def nats_certs_def nats_defaults_def)
  have r: "dk_files dk (path_Join d n) = None \<or> load_nkey ?L (dk_files dk) (path_Join d n) \<noteq> None" if "n \<in> set nats_key_names" for n
    using ready [OF that] by (simp add: nkey_ready_def)
  obtain a f1 where a: "nats_account_key E d True c0 dk = Returns (None, c0\<lparr>nc_AppAccountKP := Some a\<rparr>, dk\<lparr>dk_files := f1\<rparr>)"
    "load_nkey ?L f1 ?app = Some a" "\<forall>q. q \<noteq> ?app \<longrightarrow> f1 q = dk_files dk q"
    "load_nkey ?L (dk_files dk) ?app \<noteq> None \<longrightarrow> load_nkey ?L (dk_files dk) ?app = Some a"
    by (rule nats_account_key_saved [OF assms(1) c0(2,3) d refl, of dk]) (use r in auto)
  obtain x where x: "se_adminUser E = Some (NKeyPair x)" using assms(1) by (auto simp: run_ok_def)
  obtain y where y: "se_systemUser E = Some (NKeyPair y)" using assms(1) by (auto simp: run_ok_def)
  have f1: "f1 ?adm = dk_files dk ?adm" "f1 ?sys = dk_files dk ?sys" using a(3) by (simp_all add: ne)
  have r1: "f1 ?adm = None \<or> load_nkey ?L f1 ?adm \<noteq> None" "f1 ?sys = None \<or> load_nkey ?L f1 ?sys \<noteq> None"
    using r [of "''admin.key''"] r [of "''hiveotSystem.key''"] f1 by (auto simp: load_nkey_def)
  obtain b f2 where b: "NatsServerConfig_LoadCreateUserKP E (se_adminUser E) ''admin'' d True (dk\<lparr>dk_files := f1\<rparr>) =
      Returns ((Some b, None), dk\<lparr>dk_files := f2\<rparr>)" "load_nkey ?L f2 ?adm = Some b" "\<forall>q. q \<noteq> ?adm \<longrightarrow> f2 q = f1 q"
    "load_nkey ?L f1 ?adm \<noteq> None \<longrightarrow> load_nkey ?L f1 ?adm = Some b"
    by (rule LoadCreateUserKP_saved [OF assms(1), of ?adm d "''admin''" "dk\<lparr>dk_files := f1\<rparr>" "se_adminUser E" x])
      (use r1(1) x in auto)
  have f2: "f2 ?sys = f1 ?sys" "f2 ?app = f1 ?app" using b(3) by (simp_all add: ne)
  obtain c f3 where c: "NatsServerConfig_LoadCreateUserKP E (se_systemUser E) ''hiveotSystem'' d True (dk\<lparr>dk_files := f2\<rparr>) =
      Returns ((Some c, None), dk\<lparr>dk_files := f3\<rparr>)" "load_nkey ?L f3 ?sys = Some c" "\<forall>q. q \<noteq> ?sys \<longrightarrow> f3 q = f2 q"
    "load_nkey ?L f2 ?sys \<noteq> None \<longrightarrow> load_nkey ?L f2 ?sys = Some c"
    by (rule LoadCreateUserKP_saved [OF assms(1), of ?sys d "''hiveotSystem''" "dk\<lparr>dk_files := f2\<rparr>" "se_systemUser E" y])
      (use r1(2) f2(1) y in \<open>auto simp: load_nkey_def\<close>)
  have f3: "f3 ?app = f1 ?app" "f3 ?adm = f2 ?adm" using c(3) f2(2) by (simp_all add: ne)
  define c1 where "c1 = c0\<lparr>nc_AppAccountKP := Some a, nc_AdminUserKP := Some b\<rparr>"
  define c2 where "c2 = (if nc_CoreServiceKP c1 = None then c1\<lparr>nc_CoreServiceKP := se_coreService E\<rparr> else c1)"
  define c3 where "c3 = (if nc_SystemAccountKP c2 = None then c2\<lparr>nc_SystemAccountKP := se_systemAccount E\<rparr> else c2)"
  have c3: "nc_AppAccountName c3 = ''hiveot''" "nc_SystemUserKP c3 = None" "nc_CaCert c3 = Some ca" "nc_ServerTLS c3 = Some tls"
    "nc_AppAccountKP c3 = Some a" "nc_AdminUserKP c3 = Some b" "nc_DataDir c3 = path_Join storesDir ''natsserver''"
    using c0 by (simp_all add: c3_def c2_def c1_def)
  have "nats_user_keys E d True (c0\<lparr>nc_AppAccountKP := Some a\<rparr>) (dk\<lparr>dk_files := f1\<rparr>) =
      (if nc_SystemUserKP c3 \<noteq> None then Returns (c3, dk\<lparr>dk_files := f2\<rparr>)
       else and_then (NatsServerConfig_LoadCreateUserKP E (se_systemUser E) (nc_AppAccountName c3 @ ''System'') d True (dk\<lparr>dk_files := f2\<rparr>))
              (\<lambda>((kp, _), dk2). Returns (c3\<lparr>nc_SystemUserKP := kp\<rparr>, dk2)))"
    unfolding nats_user_keys_def c3_def c2_def c1_def Let_def using b(1) c0(4) by simp
  also have "\<dots> = Returns (c3\<lparr>nc_SystemUserKP := Some c\<rparr>, dk\<lparr>dk_files := f3\<rparr>)" using c(1) c3(1,2) by simp
  finally have nst: "NatsServerConfig_Setup E d storesDir True cfg dk = Returns (None, c3\<lparr>nc_SystemUserKP := Some c\<rparr>, dk\<lparr>dk_files := f3\<rparr>)"
    using a(1) c0(1) by (simp add: NatsServerConfig_Setup_def c0_def)
  have loads: "load_nkey ?L f3 ?app = Some a" "load_nkey ?L f3 ?adm = Some b"
    using a(2) b(2) f3 by (simp_all add: load_nkey_def)
  show thesis
  proof (rule that [OF nst])
    show "f3 q = dk_files dk q" if "q \<notin> path_Join d ` set nats_key_names" for q
      using that a(3) b(3) c(3) by auto
    show "load_nkey ?L f3 (path_Join d n) = Some kp"
      if "n \<in> set nats_key_names" "load_nkey ?L (dk_files dk) (path_Join d n) = Some kp" for n kp
    proof -
      have "load_nkey ?L f1 ?adm = load_nkey ?L (dk_files dk) ?adm" "load_nkey ?L f2 ?sys = load_nkey ?L (dk_files dk) ?sys"
        using f1 f2(1) by (simp_all add: load_nkey_def)
      then show ?thesis using that a(4) b(4) c(4) loads c(2) by auto
    qed
  qed (use c3 loads c(2) in simp_all)
qed

definition identity_ready :: "crypto_lib \<Rightarrow> x509_lib \<Rightarrow> string \<Rightarrow> filesys \<Rightarrow> bool" where
  "identity_ready L X d fs \<longleftrightarrow> certs_ready L X d fs \<and> (\<forall>n \<in> set nats_key_names. nkey_ready L fs (path_Join d n))"

lemma identity_saved_ready: "identity_saved L X d I fs \<Longrightarrow> identity_ready L X d fs"
  by (auto simp: identity_saved_def identity_ready_def certs_ready_def nkey_ready_def)

lemma absent_ready: "absent fs d [''caCert.pem'', ''caKey.pem'', ''hubKey.pem'', ''hiveotApp.key'', ''admin.key'', ''hiveotSystem.key'']
    \<Longrightarrow> identity_ready L X d fs"
  by (auto simp: absent_def identity_ready_def certs_ready_def nkey_ready_def)

text \<open>An application environment with absolute directories, an admissible home and no configuration file.\<close>

definition env_ok :: "AppEnvironment \<Rightarrow> bool" where
  "env_ok env \<longleftrightarrow> home_ok env \<and> path_rooted (av_CertsDir env) \<and> av_StoresDir env \<noteq> [] \<and> av_ConfigFile env = []"

text \<open>A hub that starts: a new configuration, with the environment filled in.\<close>

definition start_config :: "AppEnvironment \<Rightarrow> HubCoreConfig" where
  "start_config env = NewHubCoreConfig\<lparr>hg_Env := env\<rparr>"

lemma Setup_saves_identity:
  assumes E: "run_ok E" "env_ok env" and ready: "identity_ready (se_crypto E) (se_x509 E) (av_CertsDir env) (dk_files dk)"
  obtains I cfg dk1 where "HubCoreConfig_Setup E env False (start_config env) dk = Returns (None, cfg, dk1)" "has_identity cfg I"
    "identity_saved (se_crypto E) (se_x509 E) (av_CertsDir env) I (dk_files dk1)"
    "\<And>q. q \<notin> set (setup_files (av_CertsDir env)) \<Longrightarrow> dk_files dk1 q = dk_files dk q"
    "\<And>I0. identity_saved (se_crypto E) (se_x509 E) (av_CertsDir env) I0 (dk_files dk) \<Longrightarrow> I = I0"
proof -
  let ?L = "se_crypto E" and ?X = "se_x509 E" and ?d = "av_CertsDir env"
  let ?c0 = "start_config env\<lparr>hg_CaCertFile := ''caCert.pem'', hg_CaKeyFile := ''caKey.pem'',
      hg_ServerCertFile := ''hubCert.pem'', hg_ServerKeyFile := ''hubKey.pem''\<rparr>"
  have d: "path_rooted ?d" "?d \<noteq> []" "home_ok env" "av_StoresDir env \<noteq> []" using E(2) rooted_ne by (auto simp: env_ok_def)
  have load: "load_core_config E env (start_config env) dk = Inr (start_config env)"
    using E(2) by (simp add: load_core_config_def os_Stat_def start_config_def env_ok_def)
  obtain dk0 where dk0: "HubCoreConfig_setupDirectories E False env dk = (None, dk0)" "dk_files dk0 = dk_files dk"
    by (rule setupDirectories_keeps_files [OF E(1) d(3), of dk]) auto
  have cr: "certs_ready ?L ?X ?d (dk_files dk0)" using ready dk0(2) by (simp add: identity_ready_def)
  obtain ca k sk tls dk1 where c:
    "HubCoreConfig_setupCerts E ?c0 dk0 = Returns (?c0\<lparr>hg_CaCert := Some ca, hg_CaKey := Some k, hg_ServerKey := Some sk, hg_ServerTLS := Some tls\<rparr>, dk1)"
    "ca_saved ?L ?X (dk_files dk1) ?d ca k" "key_saved ?L (dk_files dk1) (path_Join ?d ''hubKey.pem'') sk"
    "\<And>q. q \<notin> set (setup_files ?d) \<Longrightarrow> dk_files dk1 q = dk_files dk q"
    "\<And>n. n \<in> set nats_key_names \<Longrightarrow> dk_files dk1 (path_Join ?d n) = dk_files dk (path_Join ?d n)"
    "\<And>ca0 k0. ca_saved ?L ?X (dk_files dk) ?d ca0 k0 \<Longrightarrow> ca = ca0 \<and> k = k0"
    "\<And>sk0. key_saved ?L (dk_files dk) (path_Join ?d ''hubKey.pem'') sk0 \<Longrightarrow> sk = sk0"
    by (rule setupCerts_saved [of E ?c0 ?d dk0, OF E(1)])
      (use d cr dk0(2) in \<open>auto simp: start_config_def NewHubCoreConfig_def\<close>)
  let ?n0 = "zero_nats_config\<lparr>nc_CaCert := Some ca, nc_CaKey := Some k, nc_ServerTLS := Some tls\<rparr>"
  have nr: "nkey_ready ?L (dk_files dk1) (path_Join ?d n)" if "n \<in> set nats_key_names" for n
    using ready that c(5) [OF that] by (auto simp: identity_ready_def nkey_ready_def load_nkey_def)
  obtain nats fs1 where n: "NatsServerConfig_Setup E ?d (av_StoresDir env) True ?n0 dk1 = Returns (None, nats, dk1\<lparr>dk_files := fs1\<rparr>)"
    "nc_CaCert nats = Some ca" "nc_ServerTLS nats = Some tls" "nc_DataDir nats = path_Join (av_StoresDir env) ''natsserver''"
    "nc_AppAccountKP nats = load_nkey ?L fs1 (path_Join ?d ''hiveotApp.key'')" "nc_AppAccountKP nats \<noteq> None"
    "nc_AdminUserKP nats = load_nkey ?L fs1 (path_Join ?d ''admin.key'')" "nc_AdminUserKP nats \<noteq> None"
    "nc_SystemUserKP nats = load_nkey ?L fs1 (path_Join ?d ''hiveotSystem.key'')" "nc_SystemUserKP nats \<noteq> None"
    "\<And>q. q \<notin> path_Join ?d ` set nats_key_names \<Longrightarrow> fs1 q = dk_files dk1 q"
    "\<And>n kp. n \<in> set nats_key_names \<Longrightarrow> load_nkey ?L (dk_files dk1) (path_Join ?d n) = Some kp \<Longrightarrow> load_nkey ?L fs1 (path_Join ?d n) = Some kp"
    by (rule NatsServerConfig_Setup_saved [of E ?n0 ca k tls ?d dk1 "av_StoresDir env", OF E(1)])
      (use d(1) nr in \<open>auto simp: zero_nats_config_def\<close>)
  let ?I = "\<lparr>hi_CaCert = ca, hi_CaKey = k, hi_ServerKey = sk, hi_AppAccountKP = the (nc_AppAccountKP nats),
      hi_AdminUserKP = the (nc_AdminUserKP nats), hi_SystemUserKP = the (nc_SystemUserKP nats)\<rparr>"
  note ne = path_Join_inject [OF d(2)]
  have keep: "fs1 (path_Join ?d m) = dk_files dk1 (path_Join ?d m)" if "m \<in> {''caCert.pem'', ''caKey.pem'', ''hubKey.pem''}" for m
    using that by (intro n(11)) (auto simp: ne)
  have data: "nc_DataDir nats \<noteq> []" using n(4) path_Join_ne [OF d(4)] by simp
  let ?c1 = "?c0\<lparr>hg_CaCert := Some ca, hg_CaKey := Some k, hg_ServerKey := Some sk, hg_ServerTLS := Some tls, hg_NatsServer := nats\<rparr>"
  define dk2 where "dk2 = (if os_Stat (dk1\<lparr>dk_files := fs1\<rparr>) (nc_DataDir nats) then dk1\<lparr>dk_files := fs1\<rparr>
      else snd (os_MkdirAll None (nc_DataDir nats) (dk1\<lparr>dk_files := fs1\<rparr>)))"
  have dk2: "dk_files dk2 = fs1" by (simp add: dk2_def os_MkdirAll_def)
  have core: "HubCoreConfig_setupNatsCore E (?c0\<lparr>hg_CaCert := Some ca, hg_CaKey := Some k, hg_ServerKey := Some sk, hg_ServerTLS := Some tls\<rparr>) dk1
      = Returns (?c1, dk2)"
    using n(1) data unfolding HubCoreConfig_setupNatsCore_def dk2_def
    by (simp add: start_config_def NewHubCoreConfig_def run_okD [OF E(1)] os_MkdirAll_def)
  show thesis
  proof (rule that)
    show "HubCoreConfig_Setup E env False (start_config env) dk =
        Returns (None, ?c1\<lparr>hg_Auth := AuthConfig_Setup ?d (av_StoresDir env) zero_auth_config\<rparr>, dk2)"
      using load dk0(1) c(1) core by (simp add: HubCoreConfig_Setup_def start_config_def NewHubCoreConfig_def)
    show "has_identity (?c1\<lparr>hg_Auth := AuthConfig_Setup ?d (av_StoresDir env) zero_auth_config\<rparr>) ?I"
      using n(2,3,6,8,10) by (simp add: has_identity_def)
    show saved: "identity_saved ?L ?X ?d ?I (dk_files dk2)"
      using c(2,3) n(5-10) keep unfolding dk2 by (auto simp: identity_saved_def ca_saved_def key_saved_def)
    show "dk_files dk2 q = dk_files dk q" if "q \<notin> set (setup_files ?d)" for q
      using c(4) [OF that] n(11) [of q] that unfolding dk2 by (auto simp: setup_files_def)
    show "?I = I0" if "identity_saved ?L ?X ?d I0 (dk_files dk)" for I0
    proof -
      have "load_nkey ?L fs1 (path_Join ?d m) = Some kp"
        if "m \<in> set nats_key_names" "load_nkey ?L (dk_files dk) (path_Join ?d m) = Some kp" for m kp
        using n(12) [OF that(1)] c(5) [OF that(1)] that(2) by (simp add: load_nkey_def)
      then show ?thesis using that c(6,7) n(5,7,9) by (auto simp: identity_saved_def intro!: hub_identity.equality)
    qed
  qed
qed

section \<open>Theorems\<close>

text \<open>A sequence of runs of the hub on one disk; a run whose setup fails ends the process.\<close>

fun hub_runs :: "AppEnvironment \<Rightarrow> setup_env list \<Rightarrow> disk \<Rightarrow> (HubCoreConfig list \<times> disk) outcome" where
  "hub_runs env [] dk = Returns ([], dk)"
| "hub_runs env (E # Es) dk =
     and_then (HubCoreConfig_Setup E env False (start_config env) dk) (\<lambda>(err, cfg, dk1).
       if err \<noteq> None then Panics FatalExit
       else and_then (hub_runs env Es dk1) (\<lambda>(cfgs, dk2). Returns (cfg # cfgs, dk2)))"

lemma hub_runs_saved:
  assumes "list_all (\<lambda>E. run_ok E \<and> se_crypto E = L \<and> se_x509 E = X) Es" "env_ok env"
    "identity_saved L X (av_CertsDir env) I (dk_files dk)"
  shows "\<exists>cfgs dk1. hub_runs env Es dk = Returns (cfgs, dk1) \<and> length cfgs = length Es \<and> list_all (\<lambda>cfg. has_identity cfg I) cfgs
    \<and> (\<forall>q. q \<notin> set (setup_files (av_CertsDir env)) \<longrightarrow> dk_files dk1 q = dk_files dk q)"
  using assms(1,3)
proof (induction Es arbitrary: dk)
  case Nil
  then show ?case by simp
next
  case (Cons E Es)
  then have E: "run_ok E" "se_crypto E = L" "se_x509 E = X" by simp_all
  have "identity_ready (se_crypto E) (se_x509 E) (av_CertsDir env) (dk_files dk)"
    using identity_saved_ready [OF Cons.prems(2)] E by simp
  from Setup_saves_identity [OF E(1) assms(2) this] obtain cfg dk1 where s:
    "HubCoreConfig_Setup E env False (start_config env) dk = Returns (None, cfg, dk1)" "has_identity cfg I"
    "identity_saved L X (av_CertsDir env) I (dk_files dk1)"
    "\<And>q. q \<notin> set (setup_files (av_CertsDir env)) \<Longrightarrow> dk_files dk1 q = dk_files dk q"
    using Cons.prems(2) E(2,3) by metis
  obtain cfgs dk2 where "hub_runs env Es dk1 = Returns (cfgs, dk2)" "length cfgs = length Es" "list_all (\<lambda>cfg. has_identity cfg I) cfgs"
    "\<forall>q. q \<notin> set (setup_files (av_CertsDir env)) \<longrightarrow> dk_files dk2 q = dk_files dk1 q"
    using Cons.IH [OF _ s(3)] Cons.prems(1) by auto
  then show ?case using s by simp
qed


subsection \<open>Two runs\<close>

text \<open>
  A library that encodes a certificate as its kind, its public key and the key that signed it, for runs at
  two times.
\<close>

definition enc_pair :: "string \<Rightarrow> string \<Rightarrow> string" where
  "enc_pair x y = replicate (length x) (CHR ''a'') @ CHR ''b'' # x @ y"

definition dec_pair :: "string \<Rightarrow> string \<times> string" where
  "dec_pair s = (let n = length (takeWhile (\<lambda>c. c = CHR ''a'') s); r = drop (Suc n) s in (take n r, drop n r))"

lemma dec_enc_pair [simp]: "dec_pair (enc_pair x y) = (x, y)"
proof -
  have "takeWhile (\<lambda>c. c = CHR ''a'') (replicate n (CHR ''a'') @ CHR ''b'' # r) = replicate n (CHR ''a'')" for n r
    by (induction n) auto
  then show ?thesis by (simp add: dec_pair_def enc_pair_def)
qed

abbreviation run_time :: "bool \<Rightarrow> int" where "run_time first \<equiv> (if first then demo_time else demo_time + 86400 * second)"

definition demo_hub_x509_0 :: x509_lib where
  "demo_hub_x509_0 = \<lparr>x5_CreateCertificate = (\<lambda>t parent pub priv. case (pub, priv) of
       (Some (EcdsaPub x), Some (EcdsaPriv y)) \<Rightarrow>
         Inr ((if x_IsCA t then CHR ''A'' else CHR ''B'') # (if x_NotBefore t < demo_time then CHR ''1'' else CHR ''2'') # enc_pair x y)
     | _ \<Rightarrow> Inl ErrKeyFormat),
     x5_ParseCertificate = (\<lambda>der. Inl ErrKeyFormat),
     x5_SignatureOK = (\<lambda>c pk. pk = EcdsaPub (snd (dec_pair (drop 2 (x_Raw c))))),
     x5_ParseIP = (\<lambda>h. if h = ''127.0.0.1'' then Some h else None), x5_AddDays = demo_add_days\<rparr>"

abbreviation hub_names :: "string list" where "hub_names \<equiv> [''localhost'', ''127.0.0.1'', ''hub'', ''lan'']"

definition hub_template :: "bool \<Rightarrow> bool \<Rightarrow> x509_cert" where
  "hub_template isCA first = (if isCA then CA_template demo_hub_x509_0 (run_time first) ''hiveot'' 3650
     else server_template demo_hub_x509_0 (run_time first) ''hub'' hub_names)"

fun hub_parse :: "string \<Rightarrow> go_error + x509_cert" where
  "hub_parse (k # r # p) =
     (let t = hub_template (k = CHR ''A'') (r = CHR ''1'') in
      Inr (t\<lparr>x_Raw := k # r # p, x_Issuer := hub_ca_name, x_NotBefore := floor_second (x_NotBefore t),
        x_NotAfter := floor_second (x_NotAfter t), x_PublicKey := Some (EcdsaPub (fst (dec_pair p)))\<rparr>))"
| "hub_parse _ = Inl ErrKeyFormat"

definition demo_hub_x509 :: x509_lib where
  "demo_hub_x509 = demo_hub_x509_0\<lparr>x5_ParseCertificate := hub_parse\<rparr>"

lemmas demo_hub_defs = demo_hub_x509_def demo_hub_x509_0_def CA_template_def server_template_def zero_cert_def hub_ca_name_def

lemma demo_hub_templates:
  "CA_template demo_hub_x509 (run_time f) ''hiveot'' 3650 = hub_template True f"
  "server_template demo_hub_x509 (run_time f) ''hub'' hub_names = hub_template False f"
  by (simp_all add: hub_template_def demo_hub_defs)

lemma hub_template_fields:
  "x_IsCA (hub_template isCA f) = isCA" "x_NotBefore (hub_template isCA f) < demo_time \<longleftrightarrow> f"
  "x_BasicConstraintsValid (hub_template isCA f) = isCA" "x_Subject (hub_template True f) = hub_ca_name"
  by (simp_all add: hub_template_def demo_hub_defs add_hosts_fields)

lemma demo_hub_creates:
  assumes "x_Subject parent = hub_ca_name"
  shows "x509_creates demo_crypto demo_hub_x509 (hub_template isCA f) parent pub priv"
  unfolding x509_creates_def
proof (clarify)
  fix x y
  let ?t = "hub_template isCA f"
  let ?der = "(if isCA then CHR ''A'' else CHR ''B'') # (if f then CHR ''1'' else CHR ''2'') # enc_pair x y"
  let ?c = "?t\<lparr>x_Raw := ?der, x_Issuer := hub_ca_name, x_NotBefore := floor_second (x_NotBefore ?t),
      x_NotAfter := floor_second (x_NotAfter ?t), x_PublicKey := Some (EcdsaPub x)\<rparr>"
  have 1: "x5_CreateCertificate demo_hub_x509 ?t parent (Some (EcdsaPub x)) (Some (EcdsaPriv y)) = Inr ?der"
    using hub_template_fields(1,2) [of isCA f] by (simp add: demo_hub_x509_def demo_hub_x509_0_def)
  have 2: "x5_ParseCertificate demo_hub_x509 ?der = Inr ?c"
    by (simp add: demo_hub_x509_def Let_def)
  have 3: "cert_from ?t parent (EcdsaPub x) ?c"
    using assms hub_template_fields(1,3) [of isCA f] by (simp add: cert_from_def)
  have 4: "x5_SignatureOK demo_hub_x509 ?c (cy_Public demo_crypto (EcdsaPriv y))"
    by (simp add: demo_hub_x509_def demo_hub_x509_0_def demo_crypto_def)
  show "\<exists>der c. x5_CreateCertificate demo_hub_x509 ?t parent (Some (EcdsaPub x)) (Some (EcdsaPriv y)) = Inr der
      \<and> x5_ParseCertificate demo_hub_x509 der = Inr c \<and> x_Raw c = der \<and> cert_from ?t parent (EcdsaPub x) c
      \<and> x5_SignatureOK demo_hub_x509 c (cy_Public demo_crypto (EcdsaPriv y))"
    by (rule exI [of _ ?der], rule exI [of _ ?c]) (use 1 2 3 4 in simp)
qed

definition demo_run :: "bool \<Rightarrow> string \<Rightarrow> setup_env" where
  "demo_run first r = \<lparr>se_crypto = demo_crypto, se_x509 = demo_hub_x509, se_now = run_time first, se_hostName = ''hub'',
     se_outboundIP = ''lan'', se_MkdirAll = (\<lambda>_. None), se_RemoveAll = (\<lambda>_. None), se_Remove = (\<lambda>_. None), se_Write = (\<lambda>_. None),
     se_Read = (\<lambda>_. None), se_yaml = (\<lambda>d c. Inr c), se_loadGen = demo_gen ''t'', se_caGen = demo_gen (''c'' @ r), se_serverGen = demo_gen (''s'' @ r),
     se_appAccount = Some (NKeyPair (''p'' @ r)), se_adminUser = Some (NKeyPair (''d'' @ r)), se_coreService = Some (NKeyPair (''e'' @ r)),
     se_systemAccount = Some (NKeyPair (''f'' @ r)), se_systemUser = Some (NKeyPair (''g'' @ r))\<rparr>"

lemma demo_run_ok: "run_ok (demo_run first r)"
proof -
  have ca: "x509_creates demo_crypto demo_hub_x509 (CA_template demo_hub_x509 (run_time first) ''hiveot'' 3650)
      (CA_template demo_hub_x509 (run_time first) ''hiveot'' 3650) pub priv" for pub priv
    unfolding demo_hub_templates by (rule demo_hub_creates) (simp add: hub_template_fields)
  have srv: "x509_creates demo_crypto demo_hub_x509 (server_template demo_hub_x509 (run_time first) ''hub'' hub_names) parent pub priv"
    if "x_Subject parent = hub_ca_name" for parent pub priv
    unfolding demo_hub_templates by (rule demo_hub_creates [OF that])
  have t: "encodable_time (run_time first)" "4 * second \<le> run_time first"
    "encodable_time (x5_AddDays demo_hub_x509 (run_time first) 365)" "encodable_time (x5_AddDays demo_hub_x509 (run_time first) 3650)"
    by (simp_all add: encodable_time_def demo_hub_x509_def demo_hub_x509_0_def demo_add_days_def)
  have "ascii ''hub''" "ascii ''lan''" by (simp_all add: ascii_def)
  then show ?thesis
    unfolding run_ok_def demo_run_def using ca srv t by (simp add: demo_crypto_ok demo_gen_ok)
qed

definition demo_home :: AppEnvironment where
  "demo_home = zero_env\<lparr>av_HomeDir := ''/hub'', av_CertsDir := ''/hub/certs'', av_StoresDir := ''/hub/stores''\<rparr>"


text \<open>
  C35. \<open>Setup\<close> of a configuration that \<open>NewHubCoreConfig\<close> made, which is how both callers use it, fails for every
  environment that it is given: the environment of the configuration is never assigned, so that the
  home directory is the empty path, which cannot be created. Nothing is changed on disk.
\<close>

theorem Setup_of_new_config_fails:
  "\<exists>e. HubCoreConfig_Setup E env new NewHubCoreConfig dk = Returns (Some (ErrHomeDirCreate [] e), NewHubCoreConfig, dk)"
proof -
  have "path_Clean [] = ''.''" "path_Clean (path_Dir []) = ''.''" by code_simp+
  then show ?thesis
    by (simp add: HubCoreConfig_Setup_def load_core_config_def HubCoreConfig_setupDirectories_def NewHubCoreConfig_def
        zero_env_def os_Stat_def os_RemoveAll_def os_MkdirAll_def)
qed

text \<open>A hub that was set up runs its message server with TLS, trusting its own CA only.\<close>

lemma set_up_server_uses_TLS:
  assumes "has_identity cfg I"
    "NatsServerConfig_CreateNatsNKeyOptions L wrErr processed (hg_NatsServer cfg) = Returns (opts, None, acct)"
  shows "\<exists>tls. no_TLSConfig opts = Some ([hi_CaCert I], tls)"
  using assms by (auto simp: NatsServerConfig_CreateNatsNKeyOptions_def has_identity_def split: option.splits sum.splits)

text \<open>With \<open>new\<close>, only the directories of certificates, stores and logs are removed.\<close>

lemma setupDirectories_removes:
  assumes "HubCoreConfig_setupDirectories E new env dk = (err, dk1)"
    and "\<not> in_tree (av_CertsDir env) p" "\<not> in_tree (av_StoresDir env) p" "\<not> in_tree (av_LogsDir env) p"
  shows "dk_files dk1 p = dk_files dk p"
proof -
  note ensure_dirs.simps [simp del]
  have "dk_files (os_RemoveAll e d dk) p = dk_files dk p" if "\<not> in_tree d p" for e d dk
    using that by (simp add: os_RemoveAll_def)
  moreover have "dk_files (snd (os_MkdirAll e d dk)) = dk_files dk" for e d dk
    by (simp add: os_MkdirAll_def split: option.split)
  ultimately show ?thesis
    using assms by (auto simp: HubCoreConfig_setupDirectories_def Let_def split_beta split: if_splits option.splits)
qed

text \<open>A preset CA is replaced when the directory of the certificates does not exist yet.\<close>

lemma preset_CA_replaced:
  assumes "run_ok E" "hg_CaCert cfg = Some ca" "hg_CaKey cfg = Some k"
  shows "setup_CA E (Some ErrNotExist) cfg dk = create_CA E cfg dk" "setup_CA E None cfg dk = Returns ((ca, k), dk)"
  using assms by (simp_all add: setup_CA_def load_CA_def)

end
