(* ===== verification/Spec2Isabelle.thy ===== *)
theory Spec2Isabelle
  imports BucketProps StateClientProps LatestProps HistoryRpcProps DirectoryRpcProps HubProps AuthProps ProvRpc
    PluginLogin AuthStartProps WebServerProps ThingDescriptionProps CertsProps CoreConfigProps TlsProps
begin

text \<open>
  Verification of the HiveOT hub (\<open>done.rest\<close>): a message hub for IoT devices, services and users.
  Clients exchange events, actions, configuration and RPC requests over an embedded NATS server; the
  hub's services (auth, provisioning, directory, history, state) are themselves clients that
  answer RPC requests and keep their data in a bucket store; a launcher starts them as processes and
  gives them their credentials, and a web server lets browsers take part. The parts and the theories that model
  them (paths under \<open>src/\<close>; \<open>Type_Method\<close> is the method of that receiver type):

  \<^item> \<open>Prelude\<close>: error values, panics as \<open>outcome\<close>, Go maps as association lists with their lemmas.
    \<open>GoStrings\<close>: \<open>strings.Split\<close>, \<open>strings.Join\<close>, \<open>strconv\<close> with their round trips. \<open>GoPaths\<close>:
    \<open>path.Join\<close> and a file system.
  \<^item> Storage, \<open>done_tool/buckets\<close>. \<open>BucketStore\<close>: \<open>BoltBucket\<close>, \<open>BBoltCursor\<close>, \<open>BoltStore\<close> over the
    bbolt package as a record of functions. \<open>BucketContract\<close>, \<open>BucketCursor\<close>: the locales \<open>bbolt_db\<close>,
    \<open>bbolt_cursor\<close> and \<open>bbolt_full\<close> (documented laws of bbolt) and \<open>ibucket_store\<close> (what
    \<open>IBucketStore.go\<close> promises); a sublocale shows that \<open>BoltBucket\<close> keeps the promise over any bbolt.
    \<open>ListDB\<close>: a list database that satisfies the bbolt laws, for the witnesses. \<open>IBucketStore\<close>: the
    interface as the services use it, with the locales \<open>bucket_service\<close> and \<open>bucket_cursors\<close>,
    interpreted on \<open>BoltStore\<close>. \<open>BucketProps\<close>: atomic batches, what Get answers, paging.
    \<open>CursorCache\<close>: remote cursors with owner and lifespan; isolation and expiry.
  \<^item> \<open>StateService\<close> (\<open>mod_state/state_srv\<close>): refinement of one map per client, isolation, balanced
    references. \<open>RpcCall\<close>: a remote call through both hub clients, both transports and a message server
    is the local call of the method. \<open>StateClient\<close>, \<open>StateClientProps\<close> (\<open>mod_state/state_cli\<close>): the
    client, starting the service, and what a client stores is what it reads back.
  \<^item> History (\<open>mod_hist/hist_srv\<close>). \<open>HistoryAdd\<close>: retention and adding values. \<open>LatestProps\<close>: the
    latest values per Thing. \<open>HistoryCursor\<close>, \<open>HistoryProps\<close>: key codec, filtered iteration, references.
    \<open>HistoryIterate\<close>: a cursor with a name filter as a list of entries. \<open>HistoryRpc\<close>, \<open>HistoryRpcProps\<close>
    (also \<open>hist_cli\<close>): messages, method tables, starting and stopping the service and its clients; what a
    client receives that iterates over the history of a Thing.
  \<^item> \<open>Directory\<close>, \<open>DirectoryProps\<close> (\<open>mod_dir/dir_srv\<close>): the TD directory and its cursors. \<open>DirectoryRpc\<close>,
    \<open>DirectoryRpcProps\<close> (also \<open>dir_cli\<close>): messages, method tables, starting and stopping the service and its
    clients; a document that is published is found, and a client lists the whole directory.
  \<^item> \<open>Things\<close> (\<open>done_tool/things\<close>): message values and change tracking of properties.
    \<open>ThingDescription\<close>, \<open>ThingDescriptionProps\<close>: TD documents, schemas and interaction outputs; which
    documents the builder makes and which values their schemas accept.
  \<^item> \<open>HubClient\<close>, \<open>HubProps\<close> (\<open>done_cli/cli_done\<close>): addresses, dispatch of events and requests,
    RPC capabilities, publishing, and the NATS transport's callbacks. \<open>HubConnect\<close>: key files and
    connecting. \<open>Keys\<close>, \<open>KeysProps\<close> (\<open>done_tool/keys\<close>): the three kinds of keys; the locale
    \<open>hive_key\<close> states what saving and loading a key promises and is interpreted on each of them.
  \<^item> \<open>AuthStore\<close> (\<open>mod_auth/auth_str\<close>): clients, passwords and the password file. \<open>MsgServerAuth\<close>,
    \<open>MsgServerProps\<close> (\<open>mod_bus/bus_srv/NatsAuth.go\<close>, \<open>auth_api/ManageRolesAPI.go\<close>): permissions and
    tokens. \<open>AuthService\<close>, \<open>AuthProps\<close> (\<open>mod_auth/auth_srv\<close>): client and profile management. \<open>AuthClient\<close>,
    \<open>AuthServiceClient\<close> (\<open>auth_cli\<close>): adding clients as other services ask for it. \<open>AuthRpc\<close>,
    \<open>AuthRpcProps\<close>: messages, method tables and clients of the auth service; a remote call is the local
    one. \<open>AuthAccess\<close>: what users may change over the message bus, from the permissions of their role to
    the handlers. \<open>AuthStart\<close>, \<open>AuthStartProps\<close>: starting the service, and the credentials it leaves for
    launcher and administrator.
  \<^item> \<open>Provisioning\<close> (\<open>mod_prov/prov_srv\<close>): provisioning requests as a step relation with its
    reachable states. \<open>ProvHttp\<close>: the HTTPS server and the device client. \<open>ProvRpc\<close>: managing requests over
    the message bus; the way of a device from its first request to its login.
  \<^item> \<open>Certs\<close>, \<open>CertsService\<close>, \<open>CertsProps\<close> (\<open>done_tool/certs\<close>, \<open>mod_cert\<close>): creating and verifying
    certificates. \<open>TlsServer\<close>, \<open>TlsClient\<close>, \<open>TlsProps\<close> (\<open>done_tool/tlsserver\<close>, \<open>tlsclient\<close>): routes,
    authenticators and the client; which requests reach a guarded handler and as whom.
  \<^item> \<open>AppEnvironment\<close>, \<open>CoreConfig\<close>, \<open>CoreConfigProps\<close> (\<open>done_tool/plugin\<close>, \<open>done_cfg\<close>, \<open>bus_cfg\<close>,
    \<open>auth_cfg\<close>): directories and configuration; the keys and certificates of the hub survive restarts.
  \<^item> \<open>Launcher\<close>, \<open>LauncherProps\<close>, \<open>LauncherStop\<close> (\<open>mod_run\<close>): the launcher as a step relation, with
    the clean-up of ended processes interleaved with requests; the loop of \<open>StopAllPlugins\<close> over an
    array that changes under it. \<open>PluginLogin\<close>: a started plugin logs in with the credentials it
    was given, through launcher, key files, auth service and message server.
  \<^item> \<open>WebSession\<close>, \<open>WebSessionProps\<close> (\<open>mod_web/web_session\<close>): browser sessions, cookies and SSE
    connections as a step relation with its reachable states. \<open>WebView\<close>, \<open>WebPages\<close> (\<open>web_view\<close>): templates
    and pages. \<open>WebServer\<close>, \<open>WebServerProps\<close> (\<open>web_srv\<close>): routes and the service; the locales
    \<open>private_page\<close> and \<open>public_page\<close> state which hub connection a page may use and are interpreted on every
    handler.
  \<^item> This theory: provisioning running with the auth service and the message server.

  Correspondence. A struct is a record, a handler one definition that returns its results, its error
  and the new state; a panic is a value of \<open>outcome\<close>. Mutexes protect whole handlers and are left
  out, so handlers are atomic steps; goroutines that change state are explicit jobs (\<open>AuthService\<close>),
  steps (\<open>LauncherProps\<close>, \<open>LauncherStop\<close>, \<open>WebSessionProps\<close>) or calls (the sweep of \<open>CursorCache\<close>). Clock readings, salts and file system failures are arguments.
  Third-party code (bbolt, NATS, JWT, nkeys, bcrypt), the JSON, YAML, PEM and base64 codecs, templates, and X.509, HTTP and TLS are records of
  functions; where a theorem needs a law of theirs it is a named hypothesis and the witness
  instantiates it. Logging is left out.

  Bounds and termination. The loops that skip history entries are partial functions into \<open>option\<close>, and
  the theorem on the search by name proves that they return; \<open>NextN\<close> counts down its limit; the wait in
  \<open>Stop\<close> has a measure and a bound; all other loops are structural. Reference counts are 32-bit words and wrap around. Slices of role
  permissions live in a heap of arrays because \<open>append\<close> shares them; \<open>gc_grow\<close> is the growth rule
  of the Go runtime at these sizes.

  Not modelled: discovery (DNS-SD and network interfaces), the command
  line and the start of the embedded NATS server, which mostly call libraries and print; log
  files of plugins; the watcher of the plugin folder beyond the scan it triggers; JetStream
  subscriptions; blocking of SSE sends on a slow browser; the generated vocabulary constants.

  Several theorems state behaviour that the code does not intend (tokens that never expire, role
  updates that are lost, cursors that are never released, listings that are always empty, event
  channels that panic, schemas that no value satisfies, sessions shared by two users); their text says so.
\<close>

section \<open>Provisioning with the auth service\<close>

lemma Submit_token:
  assumes "ManageIdProvService_SubmitRequest A now args svc = (Inr resp, svc')" and "pq_Token resp \<noteq> []"
  obtains status where "mget (pr_requests svc) (pa_ClientID args) = Some status" "ps_ApprovedMSE status \<noteq> 0"
    "submit_denied status args = None"
    "(if ps_ClientType status = ClientTypeService
      then ac_AddService A (ps_ClientID status) ''service'' (ps_PubKey status) (pr_auth svc)
      else ac_AddDevice A (ps_ClientID status) ''device'' (ps_PubKey status) (pr_auth svc)) = (Inr (pq_Token resp), pr_auth svc')"
  using assms unfolding ManageIdProvService_SubmitRequest_def Let_def
  by (auto split: option.splits if_splits prod.splits sum.splits)


text \<open>An instance: a pre-approved device that submits its request.\<close>

definition dev_info :: ClientAuthInfo where
  "dev_info = client_info ''dev1'' ClientTypeDevice ''K1'' ClientRoleDevice"

definition dev_claims :: UserClaims where
  "dev_claims = \<lparr>uc_Subject = ''K1'', uc_Name = ''dev1'', uc_ClientType = ClientTypeDevice, uc_IssuedAt = 0,
     uc_Expires = 7776000, uc_Issuer = ''acc'', uc_Audience = ''hiveot'',
     uc_Permissions = fst (NatsMsgServer_MakePermissions gc_grow dev_info demo_server)\<rparr>"

definition dev_jwt :: jwt_lib where
  "dev_jwt = \<lparr>jl_Validate = (\<lambda>t uc. ([], [])),
     jl_Encode = (\<lambda>k uc. if uc\<lparr>uc_Issuer := k\<rparr> = dev_claims then Inr ''tok'' else Inl (ErrLib ''encode'')),
     jl_Decode = (\<lambda>t. if t = ''tok'' then Inr dev_claims else Inl ErrUnmarshal)\<rparr>"

definition dev_env :: auth_env where
  "dev_env = demo_env\<lparr>ax_jwt := dev_jwt\<rparr>"

definition dev_auth :: AuthState where
  "dev_auth = \<lparr>as_store = NewAuthnFileStore ''pw'' None, as_server = demo_server, as_jobs = []\<rparr>"

definition dev_approval :: PreApprovedClient where
  "dev_approval = \<lparr>pc_ClientID = ''dev1'', pc_ClientType = ClientTypeDevice, pc_MAC = [], pc_PubKey = ''K1''\<rparr>"

definition dev_args :: ProvisionRequestArgs where
  "dev_args = \<lparr>pa_ClientID = ''dev1'', pa_MAC = [], pa_PubKey = ''K1''\<rparr>"

definition dev_prov :: "AuthState ManageIdProvService" where
  "dev_prov = snd (ManageIdProvService_PreApproveClients 10 [dev_approval] \<lparr>pr_requests = [], pr_auth = dev_auth\<rparr>)"

lemma dev_reach: "prov_reach (ManageClients dev_env) dev_auth [PreApprove 10 [dev_approval]] dev_prov"
  unfolding dev_prov_def by (rule reach_step [OF reach_start _ step_preapprove]) simp

lemma dev_jwt_ok: "jwt_ok (ax_jwt dev_env)"
  by (simp add: jwt_ok_def dev_env_def dev_jwt_def)

lemma MakePermissions_tables:
  assumes "ms_heap srv = ms_heap srv2" "ms_rolePermissions srv = ms_rolePermissions srv2"
    "ms_servicePermissions srv = ms_servicePermissions srv2"
  shows "fst (NatsMsgServer_MakePermissions grow ci srv) = fst (NatsMsgServer_MakePermissions grow ci srv2)"
  using assms by (simp add: NatsMsgServer_MakePermissions_def Let_def split_beta split: option.split)

lemma demo_server_no_services: "snd (NatsMsgServer_MakePermissions grow ci (demo_server\<lparr>ms_Users := u, ms_Nkeys := n, ms_authClients := a\<rparr>))
    = demo_server\<lparr>ms_Users := u, ms_Nkeys := n, ms_authClients := a\<rparr>"
  "snd (NatsMsgServer_MakePermissions grow ci demo_server) = demo_server"
  by (simp_all add: MakePermissions_state demo_server_def NewNatsMsgServer_def split: option.split)

lemma dev_submit:
  "\<exists>resp svc'. ManageIdProvService_SubmitRequest (ManageClients dev_env) 20 dev_args dev_prov = (Inr resp, svc')
     \<and> pq_Token resp = ''tok''"
proof -
  let ?add = "AuthManageClients_AddDevice dev_env ''dev1'' ''device'' ''K1'' dev_auth"
  have perms: "fst (NatsMsgServer_MakePermissions gc_grow dev_info (demo_server\<lparr>ms_Users := u, ms_Nkeys := n, ms_authClients := a\<rparr>))
      = fst (NatsMsgServer_MakePermissions gc_grow dev_info demo_server)" for u n a
    by (rule MakePermissions_tables) simp_all
  have "fst ?add = Returns (''tok'', None)"
    by (simp add: AuthManageClients_AddDevice_def AuthnFileStore_Add_def AuthnFileStore_save_def WritePasswordsToTempFile_def
        dev_env_def demo_env_def dev_auth_def NewAuthnFileStore_def new_profile_def zero_profile_def default_validity_def
        AuthManageClients_onChange_def NatsMsgServer_ApplyAuth_def AuthnFileStore_GetEntries_def create_token_def
        NatsMsgServer_CreateToken_def NatsMsgServer_CreateJWTToken_def NatsMsgServer_MakeJWTPermissions_def
        demo_server_no_services perms split_beta Let_def dev_jwt_def dev_claims_def token_validity_def
        dev_info_def [symmetric]) (simp add: dev_info_def client_info_def)
  then obtain auth where "?add = (Returns (''tok'', None), auth)" by (cases ?add) simp
  then have "token_response ?add = (Inr ''tok'', auth)" by (simp add: token_response_def)
  then show ?thesis
    by (simp add: ManageIdProvService_SubmitRequest_def dev_prov_def ManageIdProvService_PreApproveClients_def
        dev_approval_def dev_args_def submit_denied_def ManageClients_def Let_def)
qed


end
